(* ===== verification/BTree_Map.thy ===== *)
theory BTree_Map
  imports TDB_Prelude
begin

text \<open>
  The ordered maps and sets of the sources: \<open>std::collections::BTreeMap\<close>, \<open>BTreeSet\<close> and
  \<open>serde_json::Map\<close> (which is a \<open>BTreeMap\<close> here, the crate is built without \<open>preserve_order\<close>).
  A map is the list of its entries in ascending key order. The locale \<open>ordered_map\<close> states what
  the rest of the development relies on; the interpretation \<open>bm\<close> discharges it for the entry
  lists. Range queries by key prefix, which the record store uses for its tenant partitions, are
  characterised by \<open>range_prefix_eq_filter\<close>.
\<close>

type_synonym ('k, 'v) bmap = "('k \<times> 'v) list"
type_synonym 'k bset = "'k list"

section \<open>Operations\<close>

definition bm_get :: "('k, 'v) bmap \<Rightarrow> 'k \<Rightarrow> 'v option" where
  "bm_get m k = map_of m k"

fun bm_insert :: "'k::linorder \<Rightarrow> 'v \<Rightarrow> ('k, 'v) bmap \<Rightarrow> ('k, 'v) bmap" where
  "bm_insert k v [] = [(k, v)]"
| "bm_insert k v (e # m) =
     (if fst e < k then e # bm_insert k v m
      else if fst e = k then (k, v) # m
      else (k, v) # e # m)"

fun bm_remove :: "'k \<Rightarrow> ('k, 'v) bmap \<Rightarrow> ('k, 'v) bmap" where
  "bm_remove k [] = []"
| "bm_remove k (e # m) = (if fst e = k then m else e # bm_remove k m)"

definition bm_contains :: "('k, 'v) bmap \<Rightarrow> 'k \<Rightarrow> bool" where
  "bm_contains m k = (bm_get m k \<noteq> None)"

definition bm_keys :: "('k, 'v) bmap \<Rightarrow> 'k list" where
  "bm_keys m = map fst m"

definition bm_values :: "('k, 'v) bmap \<Rightarrow> 'v list" where
  "bm_values m = map snd m"

text \<open>\<open>extend\<close>, and \<open>collect\<close> from an iterator of pairs: later pairs overwrite earlier ones.\<close>

definition bm_extend :: "('k::linorder, 'v) bmap \<Rightarrow> ('k \<times> 'v) list \<Rightarrow> ('k, 'v) bmap" where
  "bm_extend m kvs = fold (\<lambda>(k, v). bm_insert k v) kvs m"

definition bm_collect :: "('k::linorder \<times> 'v) list \<Rightarrow> ('k, 'v) bmap" where
  "bm_collect kvs = bm_extend [] kvs"

text \<open>\<open>entry(k).or_insert(v)\<close> and \<open>get_mut(k)\<close> followed by an assignment.\<close>

definition bm_or_insert :: "'k::linorder \<Rightarrow> 'v \<Rightarrow> ('k, 'v) bmap \<Rightarrow> ('k, 'v) bmap" where
  "bm_or_insert k v m = (case bm_get m k of Some _ \<Rightarrow> m | None \<Rightarrow> bm_insert k v m)"

text \<open>\<open>range(from..)\<close> followed by \<open>take_while(|(key, _)| key.starts_with(prefix))\<close>.\<close>

definition bm_range_prefix :: "string \<Rightarrow> (string, 'v) bmap \<Rightarrow> (string, 'v) bmap" where
  "bm_range_prefix p m =
     takeWhile (\<lambda>e. starts_with (fst e) p) (dropWhile (\<lambda>e. fst e < p) m)"

text \<open>Sets: \<open>insert\<close> returns whether the value was new.\<close>

fun bs_add :: "'k::linorder \<Rightarrow> 'k bset \<Rightarrow> 'k bset" where
  "bs_add k [] = [k]"
| "bs_add k (x # xs) = (if x < k then x # bs_add k xs else if x = k then x # xs else k # x # xs)"

definition bs_insert :: "'k::linorder \<Rightarrow> 'k bset \<Rightarrow> bool \<times> 'k bset" where
  "bs_insert k s = (k \<notin> set s, bs_add k s)"

definition bs_collect :: "'k::linorder list \<Rightarrow> 'k bset" where
  "bs_collect xs = fold bs_add xs []"

definition bm_wf :: "('k::linorder, 'v) bmap \<Rightarrow> bool" where
  "bm_wf m = sorted_wrt (<) (map fst m)"

section \<open>The interface\<close>

locale ordered_map =
  fixes get :: "'m \<Rightarrow> 'k::linorder \<Rightarrow> 'v option"
    and ins :: "'k \<Rightarrow> 'v \<Rightarrow> 'm \<Rightarrow> 'm"
    and del :: "'k \<Rightarrow> 'm \<Rightarrow> 'm"
    and entries :: "'m \<Rightarrow> ('k \<times> 'v) list"
    and wf :: "'m \<Rightarrow> bool"
  assumes get_ins: "get (ins k v m) k' = (if k' = k then Some v else get m k')"
    and get_del: "wf m \<Longrightarrow> get (del k m) k' = (if k' = k then None else get m k')"
    and wf_ins: "wf m \<Longrightarrow> wf (ins k v m)"
    and wf_del: "wf m \<Longrightarrow> wf (del k m)"
    and entries_sorted: "wf m \<Longrightarrow> sorted_wrt (<) (map fst (entries m))"
    and entries_get: "wf m \<Longrightarrow> (k, v) \<in> set (entries m) \<longleftrightarrow> get m k = Some v"
begin

lemma wf_extend: "wf m \<Longrightarrow> wf (fold (\<lambda>(k, v). ins k v) kvs m)"
  by (induction kvs arbitrary: m) (auto intro: wf_ins)

lemma get_extend:
  "get (fold (\<lambda>(k, v). ins k v) kvs m) k =
     (case map_of (rev kvs) k of Some v \<Rightarrow> Some v | None \<Rightarrow> get m k)"
  by (induction kvs arbitrary: m) (auto simp: get_ins map_add_def split: option.splits)

lemma entries_distinct: "wf m \<Longrightarrow> distinct (map fst (entries m))"
  using entries_sorted strict_sorted_iff by blast

lemma map_of_entries: "wf m \<Longrightarrow> map_of (entries m) k = get m k"
  by (cases "get m k")
     (auto simp: map_of_eq_None_iff entries_get image_iff
           intro!: map_of_is_SomeI entries_distinct)

text \<open>Two well-formed maps with the same lookups list the same entries in the same order.\<close>

lemma entries_ext:
  assumes "wf m" and "wf m'" and "\<And>k. get m k = get m' k"
  shows "entries m = entries m'"
proof -
  have set_eq: "set (entries m) = set (entries m')"
    using assms entries_get by (metis subrelI subset_antisym)
  then have keys: "map fst (entries m) = map fst (entries m')"
    using entries_sorted assms(1,2)
    by (metis list.set_map strict_sorted_equal)
  have rebuild: "map (\<lambda>k. (k, the (get n k))) (map fst (entries n)) = entries n" if "wf n" for n
    using entries_get [OF that] by (auto simp: comp_def intro!: map_idI)
  have "entries m = map (\<lambda>k. (k, the (get m k))) (map fst (entries m))"
    by (rule rebuild [OF assms(1), symmetric])
  also have "\<dots> = map (\<lambda>k. (k, the (get m' k))) (map fst (entries m'))"
    by (simp only: keys assms(3))
  also have "\<dots> = entries m'" by (rule rebuild [OF assms(2)])
  finally show ?thesis .
qed

lemma ins_twice_entries: "wf m \<Longrightarrow> entries (ins k v (ins k u m)) = entries (ins k v m)"
  by (rule entries_ext) (auto intro: wf_ins simp: get_ins)

lemma ins_comm_entries:
  "wf m \<Longrightarrow> k \<noteq> k' \<Longrightarrow> entries (ins k v (ins k' v' m)) = entries (ins k' v' (ins k v m))"
  by (rule entries_ext) (auto intro: wf_ins simp: get_ins)

lemma ins_same_entries: "wf m \<Longrightarrow> get m k = Some v \<Longrightarrow> entries (ins k v m) = entries m"
  by (rule entries_ext) (auto intro: wf_ins simp: get_ins)

end

section \<open>The entry list is an ordered map\<close>

lemma bm_get_Nil [simp]: "bm_get [] k = None"
  by (simp add: bm_get_def)

lemma bm_get_Cons: "bm_get (e # m) k = (if fst e = k then Some (snd e) else bm_get m k)"
  by (cases e) (auto simp: bm_get_def)

lemma bm_get_insert [simp]:
  "bm_get (bm_insert k v m) k' = (if k' = k then Some v else bm_get m k')"
  by (induction m) (auto simp: bm_get_Cons)

lemma set_keys_insert [simp]: "fst ` set (bm_insert k v m) = insert k (fst ` set m)"
  by (induction m) auto

lemma set_bm_remove: "set (bm_remove k m) \<subseteq> set m"
  by (induction m) auto

lemma bm_wf_Nil [simp]: "bm_wf []"
  by (simp add: bm_wf_def)

lemma bm_wf_Cons: "bm_wf (e # m) \<longleftrightarrow> (\<forall>x \<in> set m. fst e < fst x) \<and> bm_wf m"
  by (simp add: bm_wf_def)

lemma bm_wf_insert [simp, wf_intros]: "bm_wf m \<Longrightarrow> bm_wf (bm_insert k v m)"
proof (induction m)
  case Nil
  then show ?case by (simp add: bm_wf_Cons)
next
  case (Cons e m)
  have "fst e < fst x" if "fst e < k" "x \<in> set (bm_insert k v m)" for x
    using that Cons.prems set_keys_insert [of k v m]
    by (metis (no_types, lifting) bm_wf_Cons image_iff insert_iff)
  with Cons show ?case by (auto simp: bm_wf_Cons)
qed

lemma bm_wf_remove [simp, wf_intros]: "bm_wf m \<Longrightarrow> bm_wf (bm_remove k m)"
  by (induction m) (auto simp: bm_wf_Cons dest: subsetD [OF set_bm_remove])

lemma bm_get_remove:
  "bm_wf m \<Longrightarrow> bm_get (bm_remove k m) k' = (if k' = k then None else bm_get m k')"
proof (induction m)
  case Nil
  then show ?case by simp
next
  case (Cons e m)
  have "bm_get m (fst e) = None"
    using Cons.prems by (auto simp: bm_wf_Cons bm_get_def map_of_eq_None_iff)
  with Cons show ?case by (auto simp: bm_get_Cons bm_wf_Cons)
qed

lemma bm_wf_distinct: "bm_wf m \<Longrightarrow> distinct (map fst m)"
  by (simp add: bm_wf_def strict_sorted_iff)

lemma bm_entries_get: "bm_wf m \<Longrightarrow> (k, v) \<in> set m \<longleftrightarrow> bm_get m k = Some v"
  by (simp add: bm_get_def bm_wf_distinct)

interpretation bm: ordered_map bm_get bm_insert bm_remove "\<lambda>m. m" bm_wf
  by unfold_locales
     (auto simp: bm_get_remove bm_entries_get bm_wf_def intro: bm_wf_insert bm_wf_remove
           simp flip: bm_wf_def)

lemma bm_getD: "bm_get m k = Some v \<Longrightarrow> (k, v) \<in> set m"
  by (simp add: bm_get_def map_of_SomeD)

lemma bm_contains_insert [simp]: "bm_contains (bm_insert k v m) k' \<longleftrightarrow> k' = k \<or> bm_contains m k'"
  by (auto simp: bm_contains_def)

lemma bm_extend_wf [wf_intros]: "bm_wf m \<Longrightarrow> bm_wf (bm_extend m kvs)"
  unfolding bm_extend_def by (rule bm.wf_extend)

lemma bm_or_insert_wf [wf_intros]: "bm_wf m \<Longrightarrow> bm_wf (bm_or_insert k v m)"
  by (simp add: bm_or_insert_def split: option.splits)

lemma bm_get_or_insert:
  "bm_get (bm_or_insert k v m) k' =
     (if k' = k \<and> bm_get m k = None then Some v else bm_get m k')"
  by (auto simp: bm_or_insert_def split: option.splits)

text \<open>Sets keep exactly what was added, in ascending order.\<close>

lemma set_bs_add [simp]: "set (bs_add k s) = insert k (set s)"
  by (induction s) auto

lemma bs_add_sorted: "sorted_wrt (<) s \<Longrightarrow> sorted_wrt (<) (bs_add k s)"
  by (induction s) auto

lemma set_bs_collect [simp]: "set (bs_collect xs) = set xs"
proof -
  have "set (fold bs_add xs s) = set xs \<union> set s" for s
    by (induction xs arbitrary: s) auto
  then show ?thesis by (simp add: bs_collect_def)
qed

lemma bs_collect_sorted: "sorted_wrt (<) (bs_collect xs)"
proof -
  have "sorted_wrt (<) (fold bs_add xs s)" if "sorted_wrt (<) s" for s
    using that by (induction xs arbitrary: s) (auto intro: bs_add_sorted)
  then show ?thesis by (simp add: bs_collect_def)
qed

section \<open>Range queries by prefix\<close>

text \<open>
  In the lexicographic order the strings with a given prefix are contiguous: everything from
  the prefix on until the first string without it.
\<close>

lemma prefix_not_less: "starts_with s p \<Longrightarrow> \<not> s < (p :: string)"
proof -
  assume "starts_with s p"
  then obtain r where "s = p @ r" by (auto simp: starts_with_iff_prefix prefix_def)
  then show ?thesis
    by (induction p arbitrary: s) auto
qed

lemma prefix_interval:
  assumes "starts_with s p" and "(p :: string) \<le> t" and "t \<le> s"
  shows "starts_with t p"
  using assms
proof (induction p arbitrary: s t)
  case Nil
  then show ?case by (simp add: starts_with_def)
next
  case (Cons c p)
  from Cons.prems(1) obtain r where s: "s = c # p @ r"
    by (auto simp: starts_with_iff_prefix prefix_def)
  from Cons.prems(2,3) s obtain t' where t: "t = c # t'" and "p \<le> t'" "t' \<le> p @ r"
    by (cases t) (auto simp: list_le_def list_less_def)
  then have "starts_with t' p"
    using Cons.IH [of "p @ r" t'] by simp
  with t show ?case by (simp add: starts_with_def)
qed

lemma takeWhile_eq_filter_sorted:
  assumes "sorted_wrt R xs"
    and "\<And>x y. x \<in> set xs \<Longrightarrow> y \<in> set xs \<Longrightarrow> R x y \<Longrightarrow> P y \<Longrightarrow> P x"
  shows "takeWhile P xs = filter P xs"
  using assms
proof (induction xs)
  case Nil
  then show ?case by simp
next
  case (Cons x xs)
  show ?case
  proof (cases "P x")
    case True
    with Cons show ?thesis by auto
  next
    case False
    with Cons.prems have "\<forall>y \<in> set xs. \<not> P y" by auto
    with False show ?thesis by (simp add: filter_False)
  qed
qed

lemma dropWhile_eq_filter_sorted:
  assumes "sorted_wrt R xs"
    and "\<And>x y. x \<in> set xs \<Longrightarrow> y \<in> set xs \<Longrightarrow> R x y \<Longrightarrow> P y \<Longrightarrow> P x"
  shows "dropWhile P xs = filter (\<lambda>x. \<not> P x) xs"
  using assms
proof (induction xs)
  case Nil
  then show ?case by simp
next
  case (Cons x xs)
  show ?case
  proof (cases "P x")
    case True
    with Cons show ?thesis by auto
  next
    case False
    with Cons.prems have "\<forall>y \<in> set xs. \<not> P y" by auto
    with False show ?thesis by (simp add: filter_True)
  qed
qed

lemma range_prefix_eq_filter:
  assumes "bm_wf m"
  shows "bm_range_prefix p m = filter (\<lambda>e. starts_with (fst e) p) m"
proof -
  have srt: "sorted_wrt (\<lambda>x y. fst x < fst y) m"
    using assms by (simp add: bm_wf_def sorted_wrt_map)
  have drop: "dropWhile (\<lambda>e. fst e < p) m = filter (\<lambda>e. \<not> fst e < p) m"
    using srt by (rule dropWhile_eq_filter_sorted) auto
  have "takeWhile (\<lambda>e. starts_with (fst e) p) (filter (\<lambda>e. \<not> fst e < p) m) =
        filter (\<lambda>e. starts_with (fst e) p) (filter (\<lambda>e. \<not> fst e < p) m)"
    using sorted_wrt_filter [OF srt]
    by (rule takeWhile_eq_filter_sorted) (auto intro: prefix_interval)
  also have "\<dots> = filter (\<lambda>e. starts_with (fst e) p) m"
    by (auto simp: filter_filter intro!: filter_cong dest: prefix_not_less)
  finally show ?thesis
    by (simp add: bm_range_prefix_def drop)
qed

end
