(* ===== verification/Core.thy ===== *)
theory Core
  imports BTree_Map
begin

text \<open>
  The types and primitives of \<open>crates/tracedb-core/src/lib.rs\<close>: errors, JSON values, epochs and
  log sequence numbers, derived feature states, table schemas with their validation, record
  inputs, and the manifest.

  Code outside the repository is a parameter: \<open>prims\<close> collects the SHA-256 digest and the compact
  JSON printer of \<open>serde_json\<close>. What a theorem needs of them is a hypothesis of that theorem.

  The main result is \<open>schema_valid_iff\<close> (in \<open>Core_Props\<close>): the sequential validator accepts
  exactly the schemas of a declarative specification.
\<close>

section \<open>Errors\<close>

datatype io_kind = IoNotFound | IoInvalidData | IoUnexpectedEof | IoAlreadyExists | IoWouldBlock
  | IoOther

datatype error =
    Io io_kind string
  | Json string
  | UnknownTable string
  | InvalidSchema string
  | InvalidRecord string
  | InvalidVectorDimensions string nat nat
  | WalCorruption string
  | ManifestCorruption string
  | Crypto string
  | ArtifactCorruption string
  | ModuleRejected string string
  | NotFound string
  | InvalidCommand string

type_synonym 'a result = "error + 'a"

section \<open>JSON values\<close>

text \<open>\<open>serde_json::Number\<close>: an unsigned or negative 64-bit integer, or the bits of an \<open>f64\<close>.\<close>

datatype json_number = PosInt u64 | NegInt int | Float u64

datatype json =
    JNull
  | JBool bool
  | JNumber json_number
  | JString string
  | JArray "json list"
  | JObject "(string \<times> json) list"

type_synonym fields = "(string, json) bmap"

definition as_str :: "json \<Rightarrow> string option" where
  "as_str v = (case v of JString s \<Rightarrow> Some s | _ \<Rightarrow> None)"

definition as_array :: "json \<Rightarrow> json list option" where
  "as_array v = (case v of JArray xs \<Rightarrow> Some xs | _ \<Rightarrow> None)"

definition as_u64 :: "json \<Rightarrow> u64 option" where
  "as_u64 v = (case v of JNumber (PosInt n) \<Rightarrow> Some n | _ \<Rightarrow> None)"

text \<open>\<open>as_f64\<close> is defined on every number; the number stands for the float it converts to.\<close>

definition as_number :: "json \<Rightarrow> json_number option" where
  "as_number v = (case v of JNumber n \<Rightarrow> Some n | _ \<Rightarrow> None)"

text \<open>\<open>prims\<close>: the functions of third-party crates that the core calls.\<close>

record prims =
  sha256 :: "bytes \<Rightarrow> bytes"
  json_text :: "json \<Rightarrow> string"

definition checksum_bytes :: "prims \<Rightarrow> bytes \<Rightarrow> bytes" where
  "checksum_bytes P bs = sha256 P bs"

definition stable_body_hash :: "prims \<Rightarrow> bytes \<Rightarrow> string" where
  "stable_body_hash P bs = ''sha256:'' @ hex_bytes (sha256 P bs)"

definition hex_prefix :: "bytes \<Rightarrow> nat \<Rightarrow> string" where
  "hex_prefix bs len = hex_bytes (take (min (length bs) len) bs)"

definition source_hash_input :: "prims \<Rightarrow> fields \<Rightarrow> string list \<Rightarrow> bytes" where
  "source_hash_input P flds cols =
     concat (map (\<lambda>c. c @ ''='' @
       (case bm_get flds c of None \<Rightarrow> [] | Some v \<Rightarrow> json_text P v) @ [byte_of 0]) cols)"

definition source_hash :: "prims \<Rightarrow> fields \<Rightarrow> string list \<Rightarrow> u64" where
  "source_hash P flds cols = u64_from_le (take 8 (sha256 P (source_hash_input P flds cols)))"

text \<open>
  \<open>value_as_f32_vec\<close>: the elements as floats if all of them are numbers. \<open>cast\<close> is the conversion
  \<open>as_f64() as f32\<close> of one number.
\<close>

fun f32_elems :: "(json_number \<Rightarrow> 'f) \<Rightarrow> json list \<Rightarrow> 'f list option" where
  "f32_elems cast [] = Some []"
| "f32_elems cast (x # xs) =
     (case as_number x of
        None \<Rightarrow> None
      | Some n \<Rightarrow> map_option ((#) (cast n)) (f32_elems cast xs))"

definition value_as_f32_vec :: "(json_number \<Rightarrow> 'f) \<Rightarrow> json \<Rightarrow> 'f list option" where
  "value_as_f32_vec cast v = Option.bind (as_array v) (f32_elems cast)"

definition database_id_from_path :: "prims \<Rightarrow> string \<Rightarrow> string" where
  "database_id_from_path P path = ''db-'' @ hex_bytes (take 4 (sha256 P path))"

section \<open>Epochs, log sequence numbers, versions\<close>

text \<open>\<open>Epoch\<close>, \<open>Lsn\<close> and \<open>VersionId\<close> wrap a \<open>u64\<close>; \<open>next\<close> is the machine's addition of one.\<close>

type_synonym epoch = u64
type_synonym lsn = u64
type_synonym version_id = u64

definition epoch_next :: "epoch \<Rightarrow> epoch" where
  "epoch_next e = e + 1"

definition lsn_next :: "lsn \<Rightarrow> lsn" where
  "lsn_next l = l + 1"

section \<open>Derived features\<close>

datatype feature_status = Ready | Dirty | Pending | Failed | Missing

record derived_feature_state =
  fs_source_columns :: "string list"
  fs_source_hash :: u64
  fs_model_id :: "string option"
  fs_model_version :: "string option"
  fs_created_epoch :: epoch
  fs_valid_for_epoch :: epoch
  fs_status :: feature_status

definition feature_ready :: "string list \<Rightarrow> u64 \<Rightarrow> epoch \<Rightarrow> derived_feature_state" where
  "feature_ready cols h e =
     \<lparr>fs_source_columns = cols, fs_source_hash = h, fs_model_id = None, fs_model_version = None,
      fs_created_epoch = e, fs_valid_for_epoch = e, fs_status = Ready\<rparr>"

definition feature_missing :: "string list \<Rightarrow> epoch \<Rightarrow> derived_feature_state" where
  "feature_missing cols e =
     \<lparr>fs_source_columns = cols, fs_source_hash = 0, fs_model_id = None, fs_model_version = None,
      fs_created_epoch = e, fs_valid_for_epoch = e, fs_status = Missing\<rparr>"

definition feature_dirty_from ::
    "derived_feature_state \<Rightarrow> u64 \<Rightarrow> epoch \<Rightarrow> derived_feature_state" where
  "feature_dirty_from prev h e =
     prev\<lparr>fs_source_hash := h, fs_valid_for_epoch := e, fs_status := Dirty\<rparr>"

section \<open>Table schemas\<close>

record vector_column =
  vc_name :: string
  vc_dimensions :: nat
  vc_source_columns :: "string list"

record table_schema =
  ts_name :: string
  ts_primary_id_column :: string
  ts_tenant_id_column :: string
  ts_scalar_columns :: "string list"
  ts_text_indexed_columns :: "string list"
  ts_vector_columns :: "vector_column list"

definition is_graphql_safe_identifier :: "string \<Rightarrow> bool" where
  "is_graphql_safe_identifier name =
     (case name of
        [] \<Rightarrow> False
      | c # cs \<Rightarrow>
          (c = CHR ''_'' \<or> is_ascii_alphabetic c) \<and>
          list_all (\<lambda>ch. ch = CHR ''_'' \<or> is_ascii_alphanumeric ch) cs)"

definition validate_schema_identifier :: "string \<Rightarrow> string \<Rightarrow> string result" where
  "validate_schema_identifier name ctx =
     (let trimmed = trim name in
      if trimmed = [] then Inl (InvalidSchema (ctx @ '' cannot be empty''))
      else if trimmed \<noteq> name then
        Inl (InvalidSchema (ctx @ '' '' @ trimmed @
               '' must not have leading or trailing whitespace''))
      else if starts_with trimmed ''__'' then
        Inl (InvalidSchema (ctx @ '' '' @ trimmed @ '' is reserved for GraphQL introspection''))
      else if \<not> is_graphql_safe_identifier trimmed then
        Inl (InvalidSchema (ctx @ '' '' @ trimmed @ '' is not a GraphQL-safe identifier''))
      else Inr trimmed)"

definition reject_reserved_result_column :: "string \<Rightarrow> unit result" where
  "reject_reserved_result_column col =
     (if col \<in> {''record_id'', ''version_id'', ''fields'', ''score''}
      then Inl (InvalidSchema (''column '' @ col @ '' is reserved for TraceDB result metadata''))
      else Inr ())"

definition reject_identity_overlap :: "string \<Rightarrow> string \<Rightarrow> string \<Rightarrow> string \<Rightarrow> unit result" where
  "reject_identity_overlap col identity_col identity_kind col_kind =
     (if col = identity_col
      then Inl (InvalidSchema (''column '' @ col @ '' cannot be both '' @ identity_kind @
             '' and '' @ col_kind))
      else Inr ())"

definition validate_column_step :: "string \<Rightarrow> string bset \<Rightarrow> string \<Rightarrow> string bset result" where
  "validate_column_step kind seen col0 =
     rbind (validate_schema_identifier col0 kind) (\<lambda>col.
     rbind (reject_reserved_result_column col) (\<lambda>_.
     let (fresh, seen') = bs_insert col seen in
     if fresh then Inr seen' else Inl (InvalidSchema (''duplicate '' @ kind @ '' '' @ col))))"

definition validate_column_set :: "string list \<Rightarrow> string \<Rightarrow> string bset result" where
  "validate_column_set cols kind = rfold (validate_column_step kind) [] cols"

text \<open>The loop over the scalar columns of \<open>validate\<close>.\<close>

definition declare_scalar_step ::
    "string \<Rightarrow> string \<Rightarrow> string bset \<Rightarrow> string \<Rightarrow> string bset result" where
  "declare_scalar_step pid tid declared col =
     rbind (reject_identity_overlap col pid ''primary id'' ''scalar'') (\<lambda>_.
     rbind (reject_identity_overlap col tid ''tenant id'' ''scalar'') (\<lambda>_.
     Inr (bs_add col declared)))"

text \<open>The loop over the text indexed columns.\<close>

definition declare_text_step ::
    "string \<Rightarrow> string \<Rightarrow> string bset \<Rightarrow> string bset \<Rightarrow> string \<Rightarrow> string bset result" where
  "declare_text_step pid tid scalars declared col =
     rbind (reject_identity_overlap col pid ''primary id'' ''text indexed'') (\<lambda>_.
     rbind (reject_identity_overlap col tid ''tenant id'' ''text indexed'') (\<lambda>_.
     if col \<in> set scalars
     then Inl (InvalidSchema (''column '' @ col @ '' cannot be both scalar and text indexed''))
     else Inr (bs_add col declared)))"

definition validate_source_step ::
    "string \<Rightarrow> string bset \<Rightarrow> string bset \<Rightarrow> string \<Rightarrow> string bset result" where
  "validate_source_step vname declared seen src0 =
     rbind (validate_schema_identifier src0 ''vector source column'') (\<lambda>src.
     let (fresh, seen') = bs_insert src seen in
     if \<not> fresh
     then Inl (InvalidSchema (''duplicate vector column '' @ vname @ '' source column '' @ src))
     else if src \<notin> set declared
     then Inl (InvalidSchema (''vector column '' @ vname @ '' source column '' @ src @
                 '' is not declared''))
     else Inr seen')"

definition validate_vector_step ::
    "string \<Rightarrow> string \<Rightarrow> string bset \<Rightarrow> string bset \<Rightarrow> string bset \<Rightarrow> string bset \<Rightarrow>
     vector_column \<Rightarrow> string bset result" where
  "validate_vector_step pid tid scalars texts declared names vec =
     rbind (validate_schema_identifier (vc_name vec) ''vector column name'') (\<lambda>vname.
     let (fresh, names') = bs_insert vname names in
     if \<not> fresh then Inl (InvalidSchema (''duplicate vector column '' @ vname))
     else
     rbind (reject_reserved_result_column vname) (\<lambda>_.
     rbind (reject_identity_overlap vname pid ''primary id'' ''vector'') (\<lambda>_.
     rbind (reject_identity_overlap vname tid ''tenant id'' ''vector'') (\<lambda>_.
     if vname \<in> set scalars
     then Inl (InvalidSchema (''column '' @ vname @ '' cannot be both scalar and vector''))
     else if vname \<in> set texts
     then Inl (InvalidSchema (''column '' @ vname @ '' cannot be both text indexed and vector''))
     else if vc_dimensions vec = 0
     then Inl (InvalidSchema (''vector column '' @ vname @ '' must have dimensions''))
     else if vc_source_columns vec = []
     then Inl (InvalidSchema (''vector column '' @ vname @ '' must declare source columns''))
     else
     rbind (rfold (validate_source_step vname declared) [] (vc_source_columns vec)) (\<lambda>_.
     Inr names')))))"

definition validate :: "table_schema \<Rightarrow> unit result" where
  "validate s =
     rbind (validate_schema_identifier (ts_name s) ''table name'') (\<lambda>_.
     rbind (validate_schema_identifier (ts_primary_id_column s) ''primary id column'') (\<lambda>pid.
     rbind (validate_schema_identifier (ts_tenant_id_column s) ''tenant id column'') (\<lambda>tid.
     if pid = tid
     then Inl (InvalidSchema ''primary id column and tenant id column must be distinct'')
     else
     let declared0 = bs_add tid (bs_add pid []) in
     rbind (validate_column_set (ts_scalar_columns s) ''scalar column'') (\<lambda>scalars.
     rbind (rfold (declare_scalar_step pid tid) declared0 scalars) (\<lambda>declared1.
     rbind (validate_column_set (ts_text_indexed_columns s) ''text indexed column'') (\<lambda>texts.
     rbind (rfold (declare_text_step pid tid scalars) declared1 texts) (\<lambda>declared2.
     rbind (rfold (validate_vector_step pid tid scalars texts declared2) []
             (ts_vector_columns s)) (\<lambda>_.
     Inr ()))))))))"

section \<open>Record inputs, deletions, invalidations, events\<close>

record record_input =
  ri_table :: string
  ri_id :: string
  ri_tenant_id :: string
  ri_fields :: fields

record record_deletion =
  rd_table :: string
  rd_id :: string
  rd_tenant_id :: string
  rd_tombstone :: string

record feature_invalidation =
  fi_table :: string
  fi_tenant_id :: string
  fi_record_id :: string
  fi_feature :: string
  fi_status :: feature_status

record module_commit_event =
  me_module_id :: string
  me_event :: string

record module_manifest =
  mm_module_id :: string
  mm_version :: string
  mm_trust_level :: string

record idempotency_receipt =
  ir_method :: string
  ir_path :: string
  ir_key :: string
  ir_body_hash :: string
  ir_actor_tenant_id :: string
  ir_database_id :: string
  ir_branch_id :: string
  ir_token_identity :: string
  ir_response :: string

section \<open>The manifest\<close>

datatype segment_state = Building | Built | Verifying | Verified | Publishing | Published
  | Superseded | Reclaimable | Deleted | SegFailed

record segment_manifest =
  sm_segment_id :: string
  sm_generation :: u64
  sm_state :: segment_state
  sm_table_set :: "string list"
  sm_tenant_set :: "string list"

datatype index_state = IxPending | IxBuilding | IxReady | IxStale | IxSuperseded | IxReclaimable
  | IxFailed

record index_manifest =
  im_index_id :: string
  im_segment_id :: string
  im_generation :: u64
  im_kind :: string
  im_state :: index_state
  im_policy_aware :: bool
  im_parent_manifest_generation :: u64
  im_object_path :: string
  im_checksum :: bytes
  im_source_segment_checksum :: bytes
  im_payload_checksum :: bytes
  im_artifact_format_version :: u32
  im_codec :: string
  im_created_epoch :: epoch
  im_ready_epoch :: "epoch option"

record encryption_metadata =
  em_algorithm :: string
  em_key_id :: string
  em_wrapped_dek_b64 :: string
  em_dek_nonce_b64 :: string

record manifest =
  mf_format_version :: u32
  mf_manifest_generation :: u64
  mf_database_id :: string
  mf_database_uuid :: string
  mf_branch_id :: string
  mf_parent_branch :: "string option"
  mf_branch_base_epoch :: "epoch option"
  mf_object_prefix :: "string option"
  mf_latest_epoch :: epoch
  mf_durable_epoch :: epoch
  mf_checkpoint_epoch :: epoch
  mf_active_wal :: u64
  mf_wal_start_lsn :: lsn
  mf_wal_end_lsn :: lsn
  mf_schemas :: "table_schema list"
  mf_segments :: "segment_manifest list"
  mf_indexes :: "index_manifest list"
  mf_feature_models :: "string list"
  mf_modules :: "module_manifest list"
  mf_job_queues :: "string list"
  mf_snapshots :: "string list"
  mf_encryption :: "encryption_metadata option"
  mf_parent_checksum :: bytes
  mf_manifest_checksum :: bytes

text \<open>\<open>env!("CARGO_PKG_VERSION")\<close> is the workspace version.\<close>

definition cargo_pkg_version :: string where
  "cargo_pkg_version = ''0.1.1''"

definition builtin_module_names :: "string list" where
  "builtin_module_names =
     [''tracedb-text'', ''tracedb-vector'', ''tracedb-graph'', ''tracedb-temporal'',
      ''tracedb-policy'', ''tracedb-provenance'', ''tracedb-features'',
      ''tracedb-retrieval-core'']"

definition builtin_module_manifests :: "module_manifest list" where
  "builtin_module_manifests =
     map (\<lambda>m. \<lparr>mm_module_id = m, mm_version = cargo_pkg_version,
               mm_trust_level = ''FIRST_PARTY_SIGNED''\<rparr>) builtin_module_names"

definition manifest_empty :: "string \<Rightarrow> manifest" where
  "manifest_empty db =
     \<lparr>mf_format_version = 1, mf_manifest_generation = 1, mf_database_id = db,
      mf_database_uuid = ''uuid-'' @ db, mf_branch_id = ''main'', mf_parent_branch = None,
      mf_branch_base_epoch = None, mf_object_prefix = None, mf_latest_epoch = 0,
      mf_durable_epoch = 0, mf_checkpoint_epoch = 0, mf_active_wal = 1, mf_wal_start_lsn = 1,
      mf_wal_end_lsn = 0, mf_schemas = [], mf_segments = [], mf_indexes = [],
      mf_feature_models = [], mf_modules = builtin_module_manifests,
      mf_job_queues =
        [''tracedb.embedding.generate'', ''tracedb.embedding.rebuild'',
         ''tracedb.segment.compact'', ''tracedb.index.vector.build'',
         ''tracedb.index.text.build'', ''tracedb.snapshot.create'', ''tracedb.snapshot.upload'',
         ''tracedb.restore.verify'', ''tracedb.usage.rollup'', ''tracedb.retention.cleanup''],
      mf_snapshots = [], mf_encryption = None, mf_parent_checksum = zero32,
      mf_manifest_checksum = zero32\<rparr>"

definition find_schema :: "table_schema list \<Rightarrow> string \<Rightarrow> table_schema option" where
  "find_schema schemas name = find (\<lambda>s. ts_name s = name) schemas"

definition manifest_table :: "manifest \<Rightarrow> string \<Rightarrow> table_schema option" where
  "manifest_table m name = find_schema (mf_schemas m) name"

end
