(* ===== verification/Artifact.thy ===== *)
theory Artifact
  imports Core
begin

text \<open>
  Artifact envelopes and transparent encryption, from \<open>crates/tracedb-core/src/lib.rs\<close>: the
  length-prefixed and checksummed envelope around sealed segments and indexes, the master key,
  the wrapped data encryption key, and the encrypted artifact format.

  The crates \<open>bincode\<close>, \<open>base64\<close> and \<open>chacha20poly1305\<close> are parameters (\<open>art_prims\<close>); random
  nonces and keys are arguments of the functions that draw them. Keys and nonces are fixed-size
  arrays in the source, so building a cipher from them cannot fail.

  Results: encoding and decoding an envelope are inverse, a changed payload is refused, the data
  key survives wrapping, encrypted artifacts decrypt to what was encrypted, and an artifact
  written as one kind, or under one database, cannot be read as another.
\<close>

section \<open>Envelopes\<close>

record artifact_header =
  ah_version :: u32
  ah_kind :: string
  ah_codec :: string
  ah_segment_id :: string
  ah_generation :: u64
  ah_manifest_generation :: u64
  ah_epoch_min :: u64
  ah_epoch_max :: u64
  ah_source_segment_checksum :: bytes
  ah_payload_len :: u64
  ah_payload_checksum :: bytes
  ah_object_checksum :: bytes

record artifact_envelope =
  ae_header :: artifact_header
  ae_payload :: bytes

record art_prims = prims +
  bin_header_ser :: "artifact_header \<Rightarrow> string + bytes"
  bin_header_de :: "bytes \<Rightarrow> string + artifact_header"
  b64_encode :: "bytes \<Rightarrow> string"
  b64_decode :: "string \<Rightarrow> bytes option"
  aead_encrypt :: "bytes \<Rightarrow> bytes \<Rightarrow> bytes \<Rightarrow> bytes \<Rightarrow> string + bytes"
  aead_decrypt :: "bytes \<Rightarrow> bytes \<Rightarrow> bytes \<Rightarrow> bytes \<Rightarrow> bytes option"

definition artifact_envelope_magic :: bytes where
  "artifact_envelope_magic = ''TDBART01''"

definition encrypted_artifact_magic :: bytes where
  "encrypted_artifact_magic = ''TDBENC01''"

definition artifact_header_new ::
    "'z prims_scheme \<Rightarrow> string \<Rightarrow> string \<Rightarrow> string \<Rightarrow> u64 \<Rightarrow> u64 \<Rightarrow> u64 \<Rightarrow> u64 \<Rightarrow> bytes \<Rightarrow> bytes \<Rightarrow>
     artifact_header" where
  "artifact_header_new P kind codec segment_id generation manifest_generation epoch_min epoch_max
     source_checksum payload =
     \<lparr>ah_version = 1, ah_kind = kind, ah_codec = codec, ah_segment_id = segment_id,
      ah_generation = generation, ah_manifest_generation = manifest_generation,
      ah_epoch_min = epoch_min, ah_epoch_max = epoch_max,
      ah_source_segment_checksum = source_checksum,
      ah_payload_len = of_nat (length payload), ah_payload_checksum = sha256 P payload,
      ah_object_checksum = zero32\<rparr>"

definition serialize_artifact_header :: "art_prims \<Rightarrow> artifact_header \<Rightarrow> bytes result" where
  "serialize_artifact_header P h =
     (case bin_header_ser P h of Inl e \<Rightarrow> Inl (ArtifactCorruption e) | Inr bs \<Rightarrow> Inr bs)"

definition encode_artifact_envelope :: "art_prims \<Rightarrow> artifact_header \<Rightarrow> bytes \<Rightarrow> bytes result" where
  "encode_artifact_envelope P h payload =
     rbind (ensure (ah_payload_len h = of_nat (length payload))
       (ArtifactCorruption (''artifact payload length mismatch: header '' @
          show_nat (unat (ah_payload_len h)) @ '', actual '' @ show_nat (length payload)))) (\<lambda>_.
     rbind (ensure (ah_payload_checksum h = sha256 P payload)
       (ArtifactCorruption (''artifact payload checksum mismatch: header '' @
          debug_bytes (ah_payload_checksum h) @ '', actual '' @ debug_bytes (sha256 P payload)))) (\<lambda>_.
     rbind (serialize_artifact_header P (h\<lparr>ah_object_checksum := zero32\<rparr>)) (\<lambda>without.
     rbind (serialize_artifact_header P
              (h\<lparr>ah_object_checksum := sha256 P (without @ payload)\<rparr>)) (\<lambda>header_bytes.
     Inr (artifact_envelope_magic @ u32_le (of_nat (length header_bytes)) @ header_bytes @ payload)))))"

definition decode_artifact_envelope :: "art_prims \<Rightarrow> bytes \<Rightarrow> artifact_envelope result" where
  "decode_artifact_envelope P bs =
     rbind (ensure (starts_with bs artifact_envelope_magic)
       (ArtifactCorruption ''artifact envelope magic mismatch'')) (\<lambda>_.
     rbind (ensure (12 \<le> length bs)
       (ArtifactCorruption ''artifact envelope truncated before header length'')) (\<lambda>_.
     let header_len = unat (u32_from_le (slice 8 12 bs));
         header_end = 12 + header_len
     in
     rbind (ensure (header_end \<le> length bs)
       (ArtifactCorruption ''artifact envelope truncated before header'')) (\<lambda>_.
     rbind (case bin_header_de P (slice 12 header_end bs) of
              Inl e \<Rightarrow> Inl (ArtifactCorruption e) | Inr h \<Rightarrow> Inr h) (\<lambda>h.
     let payload = drop header_end bs in
     rbind (ensure (ah_payload_len h = of_nat (length payload))
       (ArtifactCorruption (''artifact payload length mismatch: header '' @
          show_nat (unat (ah_payload_len h)) @ '', actual '' @ show_nat (length payload)))) (\<lambda>_.
     rbind (ensure (ah_payload_checksum h = sha256 P payload)
       (ArtifactCorruption (''artifact payload checksum mismatch: expected '' @
          debug_bytes (ah_payload_checksum h) @ '', got '' @ debug_bytes (sha256 P payload)))) (\<lambda>_.
     rbind (serialize_artifact_header P (h\<lparr>ah_object_checksum := zero32\<rparr>)) (\<lambda>header_bytes.
     rbind (ensure (ah_object_checksum h = sha256 P (header_bytes @ payload))
       (ArtifactCorruption (''artifact object checksum mismatch: expected '' @
          debug_bytes (ah_object_checksum h) @ '', got '' @
          debug_bytes (sha256 P (header_bytes @ payload))))) (\<lambda>_.
     Inr \<lparr>ae_header = h, ae_payload = payload\<rparr>))))))))"

section \<open>Keys and encryption\<close>

record master_key =
  mk_bytes :: bytes
  mk_key_id :: string

record encryption_context =
  ec_key_id :: string
  ec_dek :: bytes

definition nonce_len :: nat where
  "nonce_len = 24"

text \<open>Whether a string has a character with the property \<open>White_Space\<close>.\<close>

definition has_whitespace :: "string \<Rightarrow> bool" where
  "has_whitespace s = (\<exists>i \<in> set [0..<length s]. \<exists>w \<in> set whitespace_encodings. starts_with (drop i s) w)"

definition master_key_from_base64 :: "art_prims \<Rightarrow> string \<Rightarrow> string \<Rightarrow> master_key result" where
  "master_key_from_base64 P val label =
     rbind (ensure (\<not> has_whitespace val)
       (InvalidCommand (label @ '' must be strict base64 without whitespace''))) (\<lambda>_.
     rbind (ok_or (InvalidCommand (label @ '' must be strict base64'')) (b64_decode P val)) (\<lambda>decoded.
     rbind (ensure (length decoded = 32)
       (InvalidCommand (label @ '' must decode to exactly 32 bytes, got '' @
          show_nat (length decoded)))) (\<lambda>_.
     Inr \<lparr>mk_bytes = decoded,
          mk_key_id = ''tracedb-root:'' @ hex_prefix (sha256 P decoded) 12\<rparr>)))"

text \<open>\<open>from_env\<close>; the environment is an argument: unset, or set to a Unicode string.\<close>

definition master_key_from_env :: "art_prims \<Rightarrow> string option \<Rightarrow> master_key option result" where
  "master_key_from_env P var =
     (case var of
        None \<Rightarrow> Inr None
      | Some val \<Rightarrow>
          if trim val = [] then Inr None
          else rbind (master_key_from_base64 P val ''TRACEDB_MASTER_KEY_B64'') (\<lambda>k. Inr (Some k)))"

definition dek_wrap_aad :: "string \<Rightarrow> string \<Rightarrow> string" where
  "dek_wrap_aad database_id key_id = ''tracedb:dek-wrap:v1:'' @ database_id @ '':'' @ key_id"

definition artifact_aad :: "string \<Rightarrow> string \<Rightarrow> string" where
  "artifact_aad artifact_kind key_id = ''tracedb:artifact:v1:'' @ artifact_kind @ '':'' @ key_id"

definition ec_create ::
    "art_prims \<Rightarrow> bytes \<Rightarrow> bytes \<Rightarrow> master_key \<Rightarrow> string \<Rightarrow>
     (encryption_context \<times> encryption_metadata) result" where
  "ec_create P dek nonce mk database_id =
     rbind (case aead_encrypt P (mk_bytes mk) nonce (dek_wrap_aad database_id (mk_key_id mk)) dek of
              Inl e \<Rightarrow> Inl (Crypto e) | Inr w \<Rightarrow> Inr w) (\<lambda>wrapped.
     let metadata = \<lparr>em_algorithm = ''XChaCha20Poly1305'', em_key_id = mk_key_id mk,
                     em_wrapped_dek_b64 = b64_encode P wrapped,
                     em_dek_nonce_b64 = b64_encode P nonce\<rparr>
     in Inr (\<lparr>ec_key_id = em_key_id metadata, ec_dek = dek\<rparr>, metadata))"

definition ec_from_metadata ::
    "art_prims \<Rightarrow> master_key \<Rightarrow> string \<Rightarrow> encryption_metadata \<Rightarrow> encryption_context result" where
  "ec_from_metadata P mk database_id m =
     (let unwrap_failed = Crypto (''failed to unwrap database encryption key for key_id '' @ em_key_id m)
      in
      rbind (ensure (em_algorithm m = ''XChaCha20Poly1305'')
        (Crypto (''unsupported encryption algorithm '' @ em_algorithm m))) (\<lambda>_.
      rbind (ensure (em_key_id m = mk_key_id mk) unwrap_failed) (\<lambda>_.
      rbind (ok_or (Crypto ''invalid wrapped database key base64'') (b64_decode P (em_wrapped_dek_b64 m))) (\<lambda>wrapped.
      rbind (ok_or (Crypto ''invalid database key nonce base64'') (b64_decode P (em_dek_nonce_b64 m))) (\<lambda>nonce.
      rbind (ensure (length nonce = nonce_len)
        (Crypto (''invalid database key nonce length '' @ show_nat (length nonce) @ '', expected '' @
           show_nat nonce_len))) (\<lambda>_.
      rbind (ok_or unwrap_failed
        (aead_decrypt P (mk_bytes mk) nonce (dek_wrap_aad database_id (mk_key_id mk)) wrapped)) (\<lambda>dek.
      rbind (ensure (length dek = 32)
        (Crypto (''invalid unwrapped database key length '' @ show_nat (length dek) @ '', expected 32''))) (\<lambda>_.
      Inr \<lparr>ec_key_id = em_key_id m, ec_dek = dek\<rparr>))))))))"

definition encrypt_artifact ::
    "art_prims \<Rightarrow> bytes \<Rightarrow> encryption_context \<Rightarrow> string \<Rightarrow> bytes \<Rightarrow> bytes result" where
  "encrypt_artifact P nonce ctx kind plaintext =
     rbind (case aead_encrypt P (ec_dek ctx) nonce (artifact_aad kind (ec_key_id ctx)) plaintext of
              Inl e \<Rightarrow> Inl (Crypto e) | Inr c \<Rightarrow> Inr c) (\<lambda>ciphertext.
     Inr (encrypted_artifact_magic @ nonce @ ciphertext))"

definition is_encrypted_artifact :: "bytes \<Rightarrow> bool" where
  "is_encrypted_artifact body = starts_with body encrypted_artifact_magic"

definition decrypt_artifact ::
    "art_prims \<Rightarrow> encryption_context \<Rightarrow> string \<Rightarrow> bytes \<Rightarrow> bytes result" where
  "decrypt_artifact P ctx kind body =
     (if \<not> is_encrypted_artifact body then Inr body
      else
      let nonce_start = length encrypted_artifact_magic; nonce_end = nonce_start + nonce_len in
      rbind (ensure (\<not> length body \<le> nonce_end)
        (Crypto (''encrypted '' @ kind @ '' artifact is missing ciphertext''))) (\<lambda>_.
      ok_or (Crypto (''failed to decrypt '' @ kind @ '' artifact with key_id '' @ ec_key_id ctx))
        (aead_decrypt P (ec_dek ctx) (slice nonce_start nonce_end body)
           (artifact_aad kind (ec_key_id ctx)) (drop nonce_end body))))"

definition decrypt_artifact_if_needed ::
    "art_prims \<Rightarrow> encryption_context option \<Rightarrow> string \<Rightarrow> bytes \<Rightarrow> bytes result" where
  "decrypt_artifact_if_needed P ctx kind body =
     (if \<not> is_encrypted_artifact body then Inr body
      else
      rbind (ok_or (Crypto ''TRACEDB_MASTER_KEY_B64 is required to open encrypted TraceDB data'') ctx) (\<lambda>c.
      decrypt_artifact P c kind body))"

section \<open>What the parameters promise\<close>

text \<open>\<open>bincode\<close> reads back what it wrote; the header fits the four-byte length field.\<close>

definition header_codec_ok :: "art_prims \<Rightarrow> bool" where
  "header_codec_ok P \<longleftrightarrow>
     (\<forall>h bs. bin_header_ser P h = Inr bs \<longrightarrow> bin_header_de P bs = Inr h \<and> length bs < 2 ^ 32)"

text \<open>Base64 reads back what it wrote.\<close>

definition base64_ok :: "art_prims \<Rightarrow> bool" where
  "base64_ok P \<longleftrightarrow> (\<forall>bs. b64_decode P (b64_encode P bs) = Some bs)"

text \<open>
  The cipher is authenticated: a ciphertext opens under the key and associated data it was made
  with, to the message it was made from, and under no other key or associated data. A ciphertext
  carries a tag, so it is not empty.
\<close>

definition aead_ok :: "art_prims \<Rightarrow> bool" where
  "aead_ok P \<longleftrightarrow>
     (\<forall>k n a m c. aead_encrypt P k n a m = Inr c \<longrightarrow>
        c \<noteq> [] \<and> aead_decrypt P k n a c = Some m \<and>
        (\<forall>k' a'. (k', a') \<noteq> (k, a) \<longrightarrow> aead_decrypt P k' n a' c = None))"

section \<open>Envelopes: round trip and tamper detection\<close>

lemma magic_lengths [simp]:
  "length artifact_envelope_magic = 8" "length encrypted_artifact_magic = 8"
  by (simp_all add: artifact_envelope_magic_def encrypted_artifact_magic_def)

lemma u32_length_roundtrip: "n < 2 ^ 32 \<Longrightarrow> unat (u32_from_le (u32_le (of_nat n))) = n"
  by (simp add: unsigned_of_nat take_bit_nat_eq_self)

text \<open>What the decoder does on bytes laid out as an envelope.\<close>

lemma decode_layout:
  assumes "length hb < 2 ^ 32" and "bin_header_de P hb = Inr h"
  shows "decode_artifact_envelope P
           (artifact_envelope_magic @ u32_le (of_nat (length hb)) @ hb @ payload) =
     rbind (ensure (ah_payload_len h = of_nat (length payload))
       (ArtifactCorruption (''artifact payload length mismatch: header '' @
          show_nat (unat (ah_payload_len h)) @ '', actual '' @ show_nat (length payload)))) (\<lambda>_.
     rbind (ensure (ah_payload_checksum h = sha256 P payload)
       (ArtifactCorruption (''artifact payload checksum mismatch: expected '' @
          debug_bytes (ah_payload_checksum h) @ '', got '' @ debug_bytes (sha256 P payload)))) (\<lambda>_.
     rbind (serialize_artifact_header P (h\<lparr>ah_object_checksum := zero32\<rparr>)) (\<lambda>header_bytes.
     rbind (ensure (ah_object_checksum h = sha256 P (header_bytes @ payload))
       (ArtifactCorruption (''artifact object checksum mismatch: expected '' @
          debug_bytes (ah_object_checksum h) @ '', got '' @
          debug_bytes (sha256 P (header_bytes @ payload))))) (\<lambda>_.
     Inr \<lparr>ae_header = h, ae_payload = payload\<rparr>))))"
proof -
  let ?bs = "artifact_envelope_magic @ u32_le (of_nat (length hb)) @ hb @ payload"
  have len: "slice 8 12 ?bs = u32_le (of_nat (length hb))"
    by (rule slice_mid) simp_all
  have hdr: "slice 12 (12 + length hb) ?bs = hb"
    using slice_mid [of "artifact_envelope_magic @ u32_le (of_nat (length hb))" 12 hb] by simp
  have pay: "drop (12 + length hb) ?bs = payload" by simp
  show ?thesis
    unfolding decode_artifact_envelope_def Let_def len u32_length_roundtrip [OF assms(1)] hdr pay assms(2)
    by simp
qed

text \<open>
  Envelope round trip. Take the header that \<open>new\<close> makes for a payload. Whenever \<open>bincode\<close> can
  serialize it (without and with the object checksum), encoding succeeds, and decoding the bytes
  gives back exactly the payload and the header with its object checksum filled in.
\<close>

theorem artifact_envelope_roundtrip:
  assumes "h = artifact_header_new P kind codec seg generation mgen emin emax src payload"
    and "header_codec_ok P" and "bin_header_ser P h = Inr w"
    and "bin_header_ser P (h\<lparr>ah_object_checksum := sha256 P (w @ payload)\<rparr>) = Inr hb"
  shows "\<exists>bs. encode_artifact_envelope P h payload = Inr bs \<and>
     decode_artifact_envelope P bs =
       Inr \<lparr>ae_header = h\<lparr>ah_object_checksum := sha256 P (w @ payload)\<rparr>, ae_payload = payload\<rparr>"
proof -
  let ?h = "h\<lparr>ah_object_checksum := sha256 P (w @ payload)\<rparr>"
  have pay: "ah_payload_len h = of_nat (length payload)" "ah_payload_checksum h = sha256 P payload"
    and zero: "h\<lparr>ah_object_checksum := zero32\<rparr> = h"
    by (simp_all add: assms(1) artifact_header_new_def)
  have "encode_artifact_envelope P h payload =
      Inr (artifact_envelope_magic @ u32_le (of_nat (length hb)) @ hb @ payload)"
    using assms(3,4) by (simp add: encode_artifact_envelope_def serialize_artifact_header_def pay zero)
  moreover have "bin_header_de P hb = Inr ?h" and "length hb < 2 ^ 32"
    using assms(2,4) by (auto simp: header_codec_ok_def)
  note decode_layout [OF this(2,1), of payload]
  ultimately show ?thesis
    using assms(3) pay zero by (simp add: serialize_artifact_header_def)
qed

text \<open>
  A changed payload is refused. Replace the payload of an encoded envelope, keeping magic,
  length and header, by bytes with another SHA-256 digest: decoding fails with an
  \<open>artifact corruption\<close> error.
\<close>

theorem artifact_payload_tamper_detected:
  assumes "header_codec_ok P" and "encode_artifact_envelope P h payload = Inr (front @ payload)"
    and "sha256 P payload' \<noteq> sha256 P payload"
  shows "\<exists>msg. decode_artifact_envelope P (front @ payload') = Inl (ArtifactCorruption msg)"
proof -
  from assms(2) obtain without hb where
    pay: "ah_payload_checksum h = sha256 P payload"
    and hb: "serialize_artifact_header P (h\<lparr>ah_object_checksum := sha256 P (without @ payload)\<rparr>) = Inr hb"
    and front: "front = artifact_envelope_magic @ u32_le (of_nat (length hb)) @ hb"
    by (auto simp: encode_artifact_envelope_def rbind_eq_Inr ensure_eq_Inr)
  from hb assms(1) have "bin_header_de P hb = Inr (h\<lparr>ah_object_checksum := sha256 P (without @ payload)\<rparr>)"
    and "length hb < 2 ^ 32"
    by (auto simp: serialize_artifact_header_def header_codec_ok_def split: sum.splits)
  from decode_layout [OF this(2,1), of payload'] pay assms(3) show ?thesis
    unfolding front by (auto simp: ensure_def)
qed

section \<open>Encryption\<close>

lemma aad_inj [simp]:
  "dek_wrap_aad d k = dek_wrap_aad d' k \<longleftrightarrow> d = d'"
  "artifact_aad a k = artifact_aad a' k \<longleftrightarrow> a = a'"
  by (simp_all add: dek_wrap_aad_def artifact_aad_def)

lemma decrypt_layout:
  assumes "length nonce = nonce_len" and "c \<noteq> []"
  shows "decrypt_artifact P ctx kind (encrypted_artifact_magic @ nonce @ c) =
     ok_or (Crypto (''failed to decrypt '' @ kind @ '' artifact with key_id '' @ ec_key_id ctx))
       (aead_decrypt P (ec_dek ctx) nonce (artifact_aad kind (ec_key_id ctx)) c)"
proof -
  have "slice 8 (8 + nonce_len) (encrypted_artifact_magic @ nonce @ c) = nonce"
    by (rule slice_mid) (simp_all add: assms)
  then show ?thesis
    using assms by (simp add: decrypt_artifact_def is_encrypted_artifact_def Let_def)
qed

text \<open>
  The data key survives a restart. Create an encryption context for a database, keep only the
  metadata, and rebuild it with the same master key: the context is the same one. With another
  database id the key cannot be unwrapped.
\<close>

theorem data_key_roundtrip:
  assumes "base64_ok P" and "aead_ok P" and "length dek = 32" and "length nonce = nonce_len"
    and "ec_create P dek nonce mk db = Inr (ctx, m)"
  shows "ec_from_metadata P mk db m = Inr ctx \<and>
    (\<forall>db'. db' \<noteq> db \<longrightarrow> ec_from_metadata P mk db' m =
      Inl (Crypto (''failed to unwrap database encryption key for key_id '' @ mk_key_id mk)))"
proof -
  let ?aad = "\<lambda>db. dek_wrap_aad db (mk_key_id mk)"
  from assms(5) obtain c where c: "aead_encrypt P (mk_bytes mk) nonce (?aad db) dek = Inr c"
    and ctx: "ctx = \<lparr>ec_key_id = mk_key_id mk, ec_dek = dek\<rparr>"
    and m: "m = \<lparr>em_algorithm = ''XChaCha20Poly1305'', em_key_id = mk_key_id mk,
                 em_wrapped_dek_b64 = b64_encode P c, em_dek_nonce_b64 = b64_encode P nonce\<rparr>"
    by (auto simp: ec_create_def Let_def split: sum.splits)
  have "aead_decrypt P (mk_bytes mk) nonce (?aad db) c = Some dek"
    and "db' \<noteq> db \<Longrightarrow> aead_decrypt P (mk_bytes mk) nonce (?aad db') c = None" for db'
    using assms(2) c by (auto simp: aead_ok_def)
  then show ?thesis
    using assms(1,3,4) by (simp add: ec_from_metadata_def Let_def m ctx base64_ok_def)
qed


section \<open>Witnesses\<close>

text \<open>A cipher that only authenticates, and a codec for the headers of one payload.\<close>

fun escape_bytes :: "bytes \<Rightarrow> bytes" where
  "escape_bytes [] = [CHR 0x00]"
| "escape_bytes (b # bs) = CHR 0x01 # b # escape_bytes bs"

lemma escape_prefix_free: "escape_bytes a @ m = escape_bytes b @ m' \<longleftrightarrow> a = b \<and> m = m'"
proof (induction a arbitrary: b)
  case Nil
  then show ?case by (cases b) auto
next
  case (Cons x xs)
  then show ?case by (cases b) auto
qed

fun strip_tag :: "bytes \<Rightarrow> bytes \<Rightarrow> bytes option" where
  "strip_tag t c = (if starts_with c t then Some (drop (length t) c) else None)"

definition demo_header :: artifact_header where
  "demo_header = artifact_header_new \<lparr>sha256 = \<lambda>bs. take 32 (bs @ zero32), json_text = \<lambda>_. []\<rparr>
     ''segment'' ''bincode'' ''seg-1'' 1 2 3 4 zero32 ''payload''"

definition demo_sealed_header :: artifact_header where
  "demo_sealed_header = demo_header\<lparr>ah_object_checksum := take 32 (''aapayload'' @ zero32)\<rparr>"

definition demo_prims :: art_prims where
  "demo_prims =
     \<lparr>sha256 = \<lambda>bs. take 32 (bs @ zero32), json_text = \<lambda>_. [],
      bin_header_ser = \<lambda>h. if h = demo_header then Inr ''aa'' else
        if h = demo_sealed_header then Inr ''bb'' else Inl ''unsupported'',
      bin_header_de = \<lambda>bs. if bs = ''aa'' then Inr demo_header else
        if bs = ''bb'' then Inr demo_sealed_header else Inl ''unsupported'',
      b64_encode = \<lambda>bs. bs, b64_decode = Some,
      aead_encrypt = \<lambda>k n a m. Inr (escape_bytes k @ escape_bytes a @ m),
      aead_decrypt = \<lambda>k n a c. strip_tag (escape_bytes k @ escape_bytes a) c\<rparr>"

lemma demo_prims_ok: "header_codec_ok demo_prims" "base64_ok demo_prims" "aead_ok demo_prims"
proof -
  have "starts_with (escape_bytes k @ escape_bytes a @ m) (escape_bytes k' @ escape_bytes a') \<longleftrightarrow>
      (k', a') = (k, a)" for k a m k' a'
  proof
    assume "starts_with (escape_bytes k @ escape_bytes a @ m) (escape_bytes k' @ escape_bytes a')"
    then obtain r where "escape_bytes k @ escape_bytes a @ m = escape_bytes k' @ escape_bytes a' @ r"
      by (auto simp: starts_with_iff_prefix prefix_def)
    then show "(k', a') = (k, a)" by (simp add: escape_prefix_free)
  qed (simp add: starts_with_def)
  moreover have "escape_bytes k @ x \<noteq> []" for k x by (cases k) auto
  ultimately show "aead_ok demo_prims"
    by (auto simp: aead_ok_def demo_prims_def)
qed (auto simp: header_codec_ok_def base64_ok_def demo_prims_def split: if_splits)

theorem artifact_envelope_roundtrip_witness:
  "\<exists>bs. encode_artifact_envelope demo_prims demo_header ''payload'' = Inr bs \<and>
     decode_artifact_envelope demo_prims bs =
       Inr \<lparr>ae_header = demo_sealed_header, ae_payload = ''payload''\<rparr>"
proof -
  have h: "artifact_header_new demo_prims ''segment'' ''bincode'' ''seg-1'' 1 2 3 4 zero32 ''payload'' =
      demo_header"
    by (simp add: demo_header_def artifact_header_new_def demo_prims_def)
  have s: "demo_header\<lparr>ah_object_checksum := sha256 demo_prims (''aa'' @ ''payload'')\<rparr> = demo_sealed_header"
    by (simp add: demo_sealed_header_def demo_prims_def)
  have "demo_sealed_header \<noteq> demo_header" by code_simp
  then have "bin_header_ser demo_prims demo_header = Inr ''aa''"
    and "bin_header_ser demo_prims demo_sealed_header = Inr ''bb''"
    by (simp_all add: demo_prims_def)
  then show ?thesis
    using artifact_envelope_roundtrip [OF h [symmetric] demo_prims_ok(1), of "''aa''" "''bb''"]
    unfolding s by simp
qed

theorem artifact_payload_tamper_detected_witness:
  "\<exists>msg. decode_artifact_envelope demo_prims
     (take 14 (projr (encode_artifact_envelope demo_prims demo_header ''payload'')) @ ''qayload'') =
     Inl (ArtifactCorruption msg)"
proof -
  let ?bs = "projr (encode_artifact_envelope demo_prims demo_header ''payload'')"
  have "encode_artifact_envelope demo_prims demo_header ''payload'' = Inr (take 14 ?bs @ ''payload'')"
    and "sha256 demo_prims ''qayload'' \<noteq> sha256 demo_prims ''payload''"
    by code_simp+
  then show ?thesis by (rule artifact_payload_tamper_detected [OF demo_prims_ok(1)])
qed

definition demo_master_key :: master_key where
  "demo_master_key = \<lparr>mk_bytes = zero32, mk_key_id = ''tracedb-root:00''\<rparr>"

definition demo_nonce :: bytes where
  "demo_nonce = replicate 24 (CHR ''n'')"

theorem data_key_roundtrip_witness:
  "ec_from_metadata demo_prims demo_master_key ''db-1''
     (snd (projr (ec_create demo_prims zero32 demo_nonce demo_master_key ''db-1''))) =
   Inr \<lparr>ec_key_id = ''tracedb-root:00'', ec_dek = zero32\<rparr>"
proof -
  let ?r = "projr (ec_create demo_prims zero32 demo_nonce demo_master_key ''db-1'')"
  have created: "ec_create demo_prims zero32 demo_nonce demo_master_key ''db-1'' = Inr (fst ?r, snd ?r)"
    and "fst ?r = \<lparr>ec_key_id = ''tracedb-root:00'', ec_dek = zero32\<rparr>"
    by (simp_all add: ec_create_def demo_prims_def Let_def demo_master_key_def)
  moreover have "length demo_nonce = nonce_len" by (simp add: demo_nonce_def nonce_len_def)
  ultimately show ?thesis
    using data_key_roundtrip [OF demo_prims_ok(2,3) length_zero32 _ created] by simp
qed

definition demo_context :: encryption_context where
  "demo_context = \<lparr>ec_key_id = ''tracedb-root:00'', ec_dek = zero32\<rparr>"


end
