(* ===== verification/Event_Sourcing.thy ===== *)
theory Event_Sourcing
  imports TDB_Prelude
begin

text \<open>
  The contract between a component that executes commands against its in-memory state and the
  write-ahead log that later rebuilds the state: a command that succeeds yields the events that
  are logged, and replaying these events over the old state gives the new state. The locale
  \<open>event_sourced\<close> proves once that a whole run can be rebuilt from its log. It is interpreted for
  the job catalog and for the record store.
\<close>

text \<open>
  A run: failing commands leave the state and the log unchanged, as the callers of the engine
  do, which plan on a copy and install it only after the log was written.
\<close>

fun run_log :: "('s \<Rightarrow> 'c \<Rightarrow> 'x + ('s \<times> 'e list)) \<Rightarrow> 's \<Rightarrow> 'c list \<Rightarrow> 's \<times> 'e list" where
  "run_log exec s [] = (s, [])"
| "run_log exec s (c # cs) =
     (case exec s c of
        Inl _ \<Rightarrow> run_log exec s cs
      | Inr (s', es) \<Rightarrow> (let (t, log) = run_log exec s' cs in (t, es @ log)))"

locale event_sourced =
  fixes exec :: "'s \<Rightarrow> 'c \<Rightarrow> 'x + ('s \<times> 'e list)"
    and replay :: "'s \<Rightarrow> 'e \<Rightarrow> 'x + 's"
    and inv :: "'s \<Rightarrow> bool"
  assumes exec_replay: "inv s \<Longrightarrow> exec s c = Inr (s', es) \<Longrightarrow> rfold replay s es = Inr s'"
    and exec_inv: "inv s \<Longrightarrow> exec s c = Inr (s', es) \<Longrightarrow> inv s'"
begin

lemma run_inv: "inv s \<Longrightarrow> run_log exec s cs = (t, log) \<Longrightarrow> inv t"
proof (induction cs arbitrary: s log)
  case Nil
  then show ?case by simp
next
  case (Cons c cs)
  then show ?case
    by (cases "exec s c") (auto split: prod.splits dest: exec_inv)
qed

theorem replay_run: "inv s \<Longrightarrow> run_log exec s cs = (t, log) \<Longrightarrow> rfold replay s log = Inr t"
proof (induction cs arbitrary: s log)
  case Nil
  then show ?case by simp
next
  case (Cons c cs)
  show ?case
  proof (cases "exec s c")
    case (Inl e)
    with Cons show ?thesis by simp
  next
    case (Inr r)
    obtain s' es where r: "r = (s', es)" by (cases r)
    obtain t' log' where rest: "run_log exec s' cs = (t', log')" by (cases "run_log exec s' cs")
    from Cons.prems(2) Inr r rest have t: "t = t'" and log: "log = es @ log'"
      by auto
    from Inr r Cons.prems(1) have "rfold replay s es = Inr s'" and "inv s'"
      by (auto intro: exec_replay exec_inv)
    moreover from this rest t have "rfold replay s' log' = Inr t"
      by (intro Cons.IH) simp_all
    ultimately show ?thesis by (simp add: log rfold_append)
  qed
qed

end

end
