(* ===== verification/Jobs.thy ===== *)
theory Jobs
  imports Core Event_Sourcing
begin

text \<open>
  The background job catalog, \<open>crates/tracedb-jobs/src/lib.rs\<close>: jobs keyed by idempotency key,
  leases with tokens and deadlines, heartbeats, completion, failure with retries and dead
  letters, and the replay of job events from the write-ahead log. The functions
  \<open>enqueue_job\<close> \<dots> \<open>fail_job\<close> of the engine (\<open>crates/tracedb-query/src/lib.rs\<close>), which plan a
  change on a copy of the catalog and name the event to log, are modelled by \<open>job_exec\<close>.
\<close>

section \<open>Data\<close>

datatype job_kind = GenerateEmbedding | RegenerateEmbedding | BuildTextIndex | BuildVectorIndex
  | CompactSegment | VacuumArtifacts | ReindexTable | ValidatePolicy | RefreshSummary
  | FeatureRefresh | ExportSubject | PurgeSubject | BackupDatabase | RestoreVerification
  | VerifyDatabase

datatype job_status = Queued | Leased | Running | CommittingResult | Succeeded | FailedRetryable
  | FailedPermanent | Canceled | DeadLettered

type_synonym worker_id = string

record trace_job =
  tj_job_id :: string
  tj_kind :: job_kind
  tj_target :: string
  tj_idempotency_key :: string
  tj_lease_owner :: "worker_id option"
  tj_attempts :: u32
  tj_max_attempts :: u32
  tj_status :: job_status
  tj_last_error :: "string option"
  tj_lease_token :: "string option"
  tj_lease_expires_at_ms :: "u64 option"
  tj_next_attempt_after_ms :: "u64 option"
  tj_artifact_path :: "string option"
  tj_artifact_checksum :: "bytes option"

datatype job_event =
    EvEnqueued trace_job
  | EvLeased string worker_id string u64
  | EvHeartbeat string string u64
  | EvCompleted string string
  | EvFailed string "string option" string bool u64

type_synonym job_catalog = "(string, trace_job) bmap"

fun kind_name :: "job_kind \<Rightarrow> string" where
  "kind_name GenerateEmbedding = ''generate_embedding''"
| "kind_name RegenerateEmbedding = ''regenerate_embedding''"
| "kind_name BuildTextIndex = ''build_text_index''"
| "kind_name BuildVectorIndex = ''build_vector_index''"
| "kind_name CompactSegment = ''compact_segment''"
| "kind_name VacuumArtifacts = ''vacuum_artifacts''"
| "kind_name ReindexTable = ''reindex_table''"
| "kind_name ValidatePolicy = ''validate_policy''"
| "kind_name RefreshSummary = ''refresh_summary''"
| "kind_name FeatureRefresh = ''feature_refresh''"
| "kind_name ExportSubject = ''export_subject''"
| "kind_name PurgeSubject = ''purge_subject''"
| "kind_name BackupDatabase = ''backup_database''"
| "kind_name RestoreVerification = ''restore_verification''"
| "kind_name VerifyDatabase = ''verify_database''"

section \<open>Jobs\<close>

definition job_id_for :: "job_kind \<Rightarrow> string \<Rightarrow> string" where
  "job_id_for kind key = ''job:'' @ kind_name kind @ '':'' @ key"

definition job_new :: "job_kind \<Rightarrow> string \<Rightarrow> string \<Rightarrow> trace_job" where
  "job_new kind target key =
     \<lparr>tj_job_id = job_id_for kind key, tj_kind = kind, tj_target = target,
      tj_idempotency_key = key, tj_lease_owner = None, tj_attempts = 0, tj_max_attempts = 3,
      tj_status = Queued, tj_last_error = None, tj_lease_token = None,
      tj_lease_expires_at_ms = None, tj_next_attempt_after_ms = None, tj_artifact_path = None,
      tj_artifact_checksum = None\<rparr>"

definition lease_token_for :: "string \<Rightarrow> u32 \<Rightarrow> string" where
  "lease_token_for job_id attempt = ''lease:'' @ job_id @ '':'' @ show_nat (unat attempt)"

definition lease_at :: "trace_job \<Rightarrow> worker_id \<Rightarrow> u64 \<Rightarrow> u64 \<Rightarrow> trace_job" where
  "lease_at j worker now_ms lease_ms =
     j\<lparr>tj_lease_token := Some (lease_token_for (tj_job_id j) (tj_attempts j + 1)),
       tj_lease_expires_at_ms := Some (sat_add64 now_ms (max lease_ms 1)),
       tj_lease_owner := Some worker,
       tj_attempts := tj_attempts j + 1,
       tj_status := Leased,
       tj_next_attempt_after_ms := None\<rparr>"

definition job_is_leasable :: "trace_job \<Rightarrow> u64 \<Rightarrow> bool" where
  "job_is_leasable j now_ms =
     (case tj_status j of
        Queued \<Rightarrow> True
      | FailedRetryable \<Rightarrow>
          (case tj_next_attempt_after_ms j of None \<Rightarrow> True | Some ready_at \<Rightarrow> ready_at \<le> now_ms)
      | Leased \<Rightarrow>
          (case tj_lease_expires_at_ms j of None \<Rightarrow> False | Some expires_at \<Rightarrow> expires_at \<le> now_ms)
      | Running \<Rightarrow>
          (case tj_lease_expires_at_ms j of None \<Rightarrow> False | Some expires_at \<Rightarrow> expires_at \<le> now_ms)
      | _ \<Rightarrow> False)"

section \<open>The catalog\<close>

definition enqueue ::
    "job_catalog \<Rightarrow> job_kind \<Rightarrow> string \<Rightarrow> string \<Rightarrow> job_catalog \<times> trace_job" where
  "enqueue c kind target key =
     (let job = job_new kind target key;
          c' = bm_or_insert key job c
      in (c', the (bm_get c' key)))"

definition key_for_job_id :: "job_catalog \<Rightarrow> string \<Rightarrow> string option" where
  "key_for_job_id c job_id = map_option fst (find (\<lambda>e. tj_job_id (snd e) = job_id) c)"

text \<open>
  \<open>job_mut_for_token\<close> returns a mutable reference; here the key under which the job is stored
  and the job.
\<close>

definition job_mut_for_token ::
    "job_catalog \<Rightarrow> string \<Rightarrow> string option \<Rightarrow> string + (string \<times> trace_job)" where
  "job_mut_for_token c job_id token =
     (case key_for_job_id c job_id of
        None \<Rightarrow> Inl (''unknown job '' @ job_id)
      | Some key \<Rightarrow>
          let job = the (bm_get c key) in
          (case token of
             Some t \<Rightarrow> if tj_lease_token job \<noteq> Some t
                       then Inl (''invalid lease token for '' @ job_id)
                       else Inr (key, job)
           | None \<Rightarrow> Inr (key, job)))"

definition lease_next_at ::
    "job_catalog \<Rightarrow> worker_id \<Rightarrow> job_kind \<Rightarrow> u64 \<Rightarrow> u64 \<Rightarrow> job_catalog \<times> trace_job option" where
  "lease_next_at c worker kind now_ms lease_ms =
     (case find (\<lambda>e. tj_kind (snd e) = kind \<and> job_is_leasable (snd e) now_ms) c of
        None \<Rightarrow> (c, None)
      | Some (key, job) \<Rightarrow>
          let leased = lease_at job worker now_ms lease_ms
          in (bm_insert key leased (bm_remove key c), Some leased))"

definition lease_next ::
    "job_catalog \<Rightarrow> worker_id \<Rightarrow> job_kind \<Rightarrow> job_catalog \<times> trace_job option" where
  "lease_next c worker kind = lease_next_at c worker kind 0 30000"

definition heartbeat ::
    "job_catalog \<Rightarrow> string \<Rightarrow> string \<Rightarrow> u64 \<Rightarrow> u64 \<Rightarrow> string + (job_catalog \<times> trace_job)" where
  "heartbeat c job_id token now_ms lease_ms =
     rbind (job_mut_for_token c job_id (Some token)) (\<lambda>(key, job).
     let job' = job\<lparr>tj_lease_expires_at_ms := Some (sat_add64 now_ms (max lease_ms 1))\<rparr>
     in Inr (bm_insert key job' c, job'))"

definition complete ::
    "job_catalog \<Rightarrow> string \<Rightarrow> string option \<Rightarrow> string + (job_catalog \<times> trace_job)" where
  "complete c job_id token =
     rbind (job_mut_for_token c job_id token) (\<lambda>(key, job).
     let job' = job\<lparr>tj_status := Succeeded, tj_lease_expires_at_ms := None,
                    tj_next_attempt_after_ms := None\<rparr>
     in Inr (bm_insert key job' c, job'))"

definition fail ::
    "job_catalog \<Rightarrow> string \<Rightarrow> string option \<Rightarrow> string \<Rightarrow> bool \<Rightarrow> u64 \<Rightarrow>
     string + (job_catalog \<times> trace_job)" where
  "fail c job_id token err permanent next_ms =
     rbind (job_mut_for_token c job_id token) (\<lambda>(key, job).
     let job' = job\<lparr>tj_last_error := Some err, tj_lease_expires_at_ms := None,
                    tj_next_attempt_after_ms := Some next_ms,
                    tj_status := (if permanent then FailedPermanent
                                  else if tj_max_attempts job \<le> tj_attempts job then DeadLettered
                                  else FailedRetryable)\<rparr>
     in Inr (bm_insert key job' c, job'))"

fun apply_event :: "job_catalog \<Rightarrow> job_event \<Rightarrow> string + job_catalog" where
  "apply_event c (EvEnqueued job) = Inr (bm_or_insert (tj_idempotency_key job) job c)"
| "apply_event c (EvLeased job_id worker token expires_at) =
     (case key_for_job_id c job_id of
        None \<Rightarrow> Inl (''unknown job '' @ job_id)
      | Some key \<Rightarrow>
          let job = the (bm_get c key) in
          Inr (bm_insert key
            (job\<lparr>tj_lease_owner := Some worker, tj_lease_token := Some token,
                 tj_lease_expires_at_ms := Some expires_at, tj_next_attempt_after_ms := None,
                 tj_attempts := tj_attempts job + 1, tj_status := Leased\<rparr>) c))"
| "apply_event c (EvHeartbeat job_id token expires_at) =
     rbind (job_mut_for_token c job_id (Some token)) (\<lambda>(key, job).
     Inr (bm_insert key (job\<lparr>tj_lease_expires_at_ms := Some expires_at\<rparr>) c))"
| "apply_event c (EvCompleted job_id token) =
     rbind (complete c job_id (Some token)) (\<lambda>(c', _). Inr c')"
| "apply_event c (EvFailed job_id token err permanent next_ms) =
     rbind (fail c job_id token err permanent next_ms) (\<lambda>(c', _). Inr c')"

definition depth_by_status :: "job_catalog \<Rightarrow> job_status \<Rightarrow> nat" where
  "depth_by_status c st = length (filter (\<lambda>j. tj_status j = st) (bm_values c))"

definition catalog_jobs :: "job_catalog \<Rightarrow> trace_job list" where
  "catalog_jobs c = bm_values c"

section \<open>Job commands of the engine\<close>

datatype job_command =
    EnqueueJob job_kind string string
  | LeaseJob worker_id job_kind u64 u64
  | HeartbeatJob string string u64 u64
  | CompleteJob string string
  | FailJob string "string option" string bool u64

text \<open>
  Each command plans on a copy of the catalog and names the event that the engine appends to the
  write-ahead log; an empty lease appends nothing.
\<close>

fun job_exec :: "job_catalog \<Rightarrow> job_command \<Rightarrow> error + (job_catalog \<times> job_event list)" where
  "job_exec c (EnqueueJob kind target key) =
     (let (planned, job) = enqueue c kind target key in Inr (planned, [EvEnqueued job]))"
| "job_exec c (LeaseJob worker kind now_ms lease_ms) =
     (case lease_next_at c worker kind now_ms lease_ms of
        (planned, None) \<Rightarrow> Inr (c, [])
      | (planned, Some job) \<Rightarrow>
          Inr (planned,
               [EvLeased (tj_job_id job) worker
                  (case tj_lease_token job of None \<Rightarrow> [] | Some t \<Rightarrow> t)
                  (case tj_lease_expires_at_ms job of
                     None \<Rightarrow> sat_add64 now_ms lease_ms | Some e \<Rightarrow> e)]))"
| "job_exec c (HeartbeatJob job_id token now_ms lease_ms) =
     (case heartbeat c job_id token now_ms lease_ms of
        Inl e \<Rightarrow> Inl (InvalidCommand e)
      | Inr (planned, job) \<Rightarrow>
          Inr (planned,
               [EvHeartbeat job_id token
                  (case tj_lease_expires_at_ms job of
                     None \<Rightarrow> sat_add64 now_ms lease_ms | Some e \<Rightarrow> e)]))"
| "job_exec c (CompleteJob job_id token) =
     (case complete c job_id (Some token) of
        Inl e \<Rightarrow> Inl (InvalidCommand e)
      | Inr (planned, job) \<Rightarrow> Inr (planned, [EvCompleted job_id token]))"
| "job_exec c (FailJob job_id token err permanent now_ms) =
     (case fail c job_id token err permanent now_ms of
        Inl e \<Rightarrow> Inl (InvalidCommand e)
      | Inr (planned, job) \<Rightarrow> Inr (planned, [EvFailed job_id token err permanent now_ms]))"

text \<open>Replay during \<open>open\<close>: the catalog's error becomes \<open>InvalidCommand\<close>.\<close>

definition job_replay :: "job_catalog \<Rightarrow> job_event \<Rightarrow> error + job_catalog" where
  "job_replay c ev = (case apply_event c ev of Inl e \<Rightarrow> Inl (InvalidCommand e) | Inr c' \<Rightarrow> Inr c')"

section \<open>Well-formed catalogs\<close>

definition job_wf :: "string \<Rightarrow> trace_job \<Rightarrow> bool" where
  "job_wf key j \<longleftrightarrow>
     tj_idempotency_key j = key \<and> tj_job_id j = job_id_for (tj_kind j) key \<and>
     (tj_lease_token j = None \<or> tj_lease_token j = Some (lease_token_for (tj_job_id j) (tj_attempts j)))"

definition catalog_wf :: "job_catalog \<Rightarrow> bool" where
  "catalog_wf c \<longleftrightarrow> bm_wf c \<and> (\<forall>(key, j) \<in> set c. job_wf key j)"

lemma catalog_wfD:
  assumes "catalog_wf c"
  shows "bm_wf c" and "bm_get c key = Some j \<Longrightarrow> job_wf key j"
  using assms by (auto simp: catalog_wf_def dest: bm_getD)

lemma kind_name_no_colon: "CHR '':'' \<notin> set (kind_name k)"
  by (cases k) simp_all

lemma append_sep_inj:
  "c \<notin> set xs \<Longrightarrow> c \<notin> set ys \<Longrightarrow> xs @ c # us = ys @ c # vs \<longleftrightarrow> xs = ys \<and> us = vs"
proof (induction xs arbitrary: ys)
  case Nil
  then show ?case by (cases ys) auto
next
  case (Cons x xs)
  then show ?case by (cases ys) auto
qed

text \<open>Different idempotency keys have different job ids, so a job id names one entry.\<close>

lemma job_id_for_inj: "job_id_for k key = job_id_for k' key' \<Longrightarrow> key = key'"
  using append_sep_inj [OF kind_name_no_colon kind_name_no_colon, of k key k' key']
  by (simp add: job_id_for_def)

lemma key_for_job_id_SomeD:
  assumes "catalog_wf c" and "key_for_job_id c job_id = Some key"
  shows "\<exists>j. bm_get c key = Some j \<and> tj_job_id j = job_id \<and> job_wf key j"
proof -
  from assms(2) obtain j where "(key, j) \<in> set c" and "tj_job_id j = job_id"
    by (auto simp: key_for_job_id_def dest: find_SomeD)
  with assms(1) show ?thesis
    by (auto simp: catalog_wf_def bm_entries_get)
qed

lemma key_for_job_id_unique:
  assumes "catalog_wf c" and "bm_get c key = Some j"
  shows "key_for_job_id c (tj_job_id j) = Some key"
proof -
  have "(key, j) \<in> set c" using assms(2) by (rule bm_getD)
  then obtain e where e: "find (\<lambda>e. tj_job_id (snd e) = tj_job_id j) c = Some e"
    by (cases "find (\<lambda>e. tj_job_id (snd e) = tj_job_id j) c") (auto simp: find_None_iff)
  then obtain key' j' where "e = (key', j')" and "(key', j') \<in> set c" and "tj_job_id j' = tj_job_id j"
    by (cases e) (auto dest: find_SomeD)
  moreover from this assms \<open>(key, j) \<in> set c\<close> have "job_wf key' j'" and "job_wf key j"
    by (auto simp: catalog_wf_def)
  with \<open>tj_job_id j' = tj_job_id j\<close> have "key' = key"
    by (metis job_id_for_inj job_wf_def)
  ultimately show ?thesis using e by (simp add: key_for_job_id_def)
qed

lemma job_mut_for_token_iff:
  assumes "catalog_wf c"
  shows "job_mut_for_token c job_id token = Inr (key, j) \<longleftrightarrow>
     bm_get c key = Some j \<and> tj_job_id j = job_id \<and> (\<forall>t. token = Some t \<longrightarrow> tj_lease_token j = Some t)"
  using key_for_job_id_SomeD [OF assms] key_for_job_id_unique [OF assms]
  by (fastforce simp: job_mut_for_token_def Let_def split: option.splits if_splits)

lemma catalog_wf_insert [wf_intros]:
  assumes "catalog_wf c" and "job_wf key j"
  shows "catalog_wf (bm_insert key j c)"
proof -
  have wf: "bm_wf (bm_insert key j c)"
    using assms by (simp add: catalog_wf_def)
  moreover have "job_wf k v" if "(k, v) \<in> set (bm_insert key j c)" for k v
    using that wf assms catalog_wfD(2) [OF assms(1), of k v]
    by (auto simp: bm_entries_get split: if_splits)
  ultimately show ?thesis by (auto simp: catalog_wf_def)
qed

lemma insert_remove_eq: "bm_wf c \<Longrightarrow> bm_insert key j (bm_remove key c) = bm_insert key j c"
  by (rule bm.entries_ext) (auto simp: bm_get_remove)

lemma lease_found:
  assumes "catalog_wf c"
    and "find (\<lambda>e. tj_kind (snd e) = kind \<and> job_is_leasable (snd e) now_ms) c = Some (key, j)"
  shows "bm_get c key = Some j \<and> tj_kind j = kind \<and> job_is_leasable j now_ms \<and> job_wf key j"
proof -
  from assms(2) have "(key, j) \<in> set c" and "tj_kind j = kind \<and> job_is_leasable j now_ms"
    by (auto dest: find_SomeD)
  with assms(1) show ?thesis
    by (auto simp: catalog_wf_def bm_entries_get)
qed

lemma job_exec_wf:
  assumes "catalog_wf c" and "job_exec c cmd = Inr (c', evs)"
  shows "catalog_wf c'"
proof (cases cmd)
  case (EnqueueJob kind target key)
  have "job_wf key (job_new kind target key)" by (simp add: job_wf_def job_new_def)
  with assms EnqueueJob show ?thesis
    by (auto simp: enqueue_def bm_or_insert_def Let_def intro: catalog_wf_insert split: option.splits)
next
  case (LeaseJob worker kind now_ms lease_ms)
  have "catalog_wf (bm_insert key (lease_at j worker now_ms lease_ms) c)"
    if "job_wf key j" for key j
    using assms(1) that by (intro catalog_wf_insert) (auto simp: job_wf_def lease_at_def)
  with assms LeaseJob show ?thesis
    by (auto simp: lease_next_at_def Let_def insert_remove_eq catalog_wfD(1)
          dest!: lease_found [OF assms(1)] split: option.splits prod.splits)
next
  case (HeartbeatJob job_id token now_ms lease_ms)
  with assms show ?thesis
    by (auto simp: heartbeat_def rbind_eq_Inr Let_def job_mut_for_token_iff
          intro!: catalog_wf_insert dest!: catalog_wfD(2) [OF assms(1)] simp: job_wf_def
          split: sum.splits)
next
  case (CompleteJob job_id token)
  with assms show ?thesis
    by (auto simp: complete_def rbind_eq_Inr Let_def job_mut_for_token_iff
          intro!: catalog_wf_insert dest!: catalog_wfD(2) [OF assms(1)] simp: job_wf_def
          split: sum.splits)
next
  case (FailJob job_id token err permanent now_ms)
  with assms show ?thesis
    by (auto simp: fail_def rbind_eq_Inr Let_def job_mut_for_token_iff
          intro!: catalog_wf_insert dest!: catalog_wfD(2) [OF assms(1)] simp: job_wf_def
          split: sum.splits)
qed

text \<open>The event of a lease rebuilds the leased job.\<close>

lemma leased_by_event:
  "j\<lparr>tj_lease_owner := Some worker,
     tj_lease_token := Some (lease_token_for (tj_job_id j) (tj_attempts j + 1)),
     tj_lease_expires_at_ms := Some (sat_add64 now_ms (max lease_ms 1)),
     tj_next_attempt_after_ms := None, tj_attempts := tj_attempts j + 1, tj_status := Leased\<rparr>
   = lease_at j worker now_ms lease_ms"
  by (cases j) (simp add: lease_at_def)

lemma lease_at_sel [simp]:
  "tj_job_id (lease_at j worker now_ms lease_ms) = tj_job_id j"
  "tj_lease_token (lease_at j worker now_ms lease_ms) =
     Some (lease_token_for (tj_job_id j) (tj_attempts j + 1))"
  "tj_lease_expires_at_ms (lease_at j worker now_ms lease_ms) =
     Some (sat_add64 now_ms (max lease_ms 1))"
  "tj_attempts (lease_at j worker now_ms lease_ms) = tj_attempts j + 1"
  "tj_status (lease_at j worker now_ms lease_ms) = Leased"
  "tj_kind (lease_at j worker now_ms lease_ms) = tj_kind j"
  by (simp_all add: lease_at_def)

lemma job_exec_replay:
  assumes "catalog_wf c" and "job_exec c cmd = Inr (c', evs)"
  shows "rfold job_replay c evs = Inr c'"
proof (cases cmd)
  case (EnqueueJob kind target key)
  have "bm_or_insert (tj_idempotency_key j) j c = c" if "bm_get c key = Some j" for j
    using catalog_wfD(2) [OF assms(1) that] that by (simp add: bm_or_insert_def job_wf_def)
  with assms EnqueueJob show ?thesis
    by (auto simp: job_replay_def enqueue_def bm_or_insert_def Let_def job_new_def split: option.splits)
next
  case (LeaseJob worker kind now_ms lease_ms)
  with assms show ?thesis
    by (auto simp: job_replay_def lease_next_at_def Let_def insert_remove_eq catalog_wfD(1)
          key_for_job_id_unique leased_by_event
          dest!: lease_found [OF assms(1)] split: option.splits prod.splits)
next
  case (HeartbeatJob job_id token now_ms lease_ms)
  with assms show ?thesis
    by (auto simp: job_replay_def heartbeat_def rbind_eq_Inr Let_def split: sum.splits)
next
  case (CompleteJob job_id token)
  with assms show ?thesis
    by (auto simp: job_replay_def split: sum.splits)
next
  case (FailJob job_id token err permanent now_ms)
  with assms show ?thesis
    by (auto simp: job_replay_def split: sum.splits)
qed

interpretation jobs: event_sourced job_exec job_replay catalog_wf
  by unfold_locales (auto intro: job_exec_replay job_exec_wf)

section \<open>Properties\<close>

text \<open>The decimal rendering of attempt counters is injective, so lease tokens are too.\<close>

lemma show_nat_value: "foldl (\<lambda>a c. 10 * a + (byte_val c - 48)) 0 (show_nat n) = n"
proof (induction n rule: show_nat.induct)
  case (1 n)
  then show ?case by (subst show_nat.simps) auto
qed

lemma show_nat_inj: "show_nat m = show_nat n \<longleftrightarrow> m = n"
  by (metis show_nat_value)

lemma lease_token_inj: "lease_token_for job_id a = lease_token_for job_id b \<longleftrightarrow> a = b"
  by (auto simp: lease_token_for_def show_nat_inj intro: unsigned_word_eqI)

text \<open>
  C8: The job log rebuilds the job catalog. Run any sequence of job commands (enqueue, lease,
  heartbeat, complete, fail; failing commands change nothing) from a well-formed catalog, such as
  the empty one, and collect the logged events: replaying the events over the starting catalog
  succeeds and gives exactly the live catalog.
\<close>

theorem job_log_rebuilds_catalog:
  assumes "catalog_wf c" and "run_log job_exec c cmds = (live, log)"
  shows "rfold job_replay c log = Inr live"
  using assms by (rule jobs.replay_run)

lemmas job_eval = enqueue_def lease_next_at_def heartbeat_def complete_def fail_def
  job_mut_for_token_def key_for_job_id_def job_new_def job_id_for_def lease_at_def
  lease_token_for_def job_is_leasable_def sat_add64_def bm_or_insert_def show_nat.simps Let_def

definition demo_job_commands :: "job_command list" where
  "demo_job_commands =
     [EnqueueJob CompactSegment ''docs'' ''k1'', LeaseJob ''w1'' CompactSegment 5 10,
      CompleteJob ''job:compact_segment:k1'' ''wrong'',
      FailJob ''job:compact_segment:k1'' (Some ''lease:job:compact_segment:k1:1'') ''io'' False 40,
      LeaseJob ''w2'' CompactSegment 40 10]"

theorem job_log_rebuilds_catalog_witness:
  "rfold job_replay [] (snd (run_log job_exec [] demo_job_commands)) =
     Inr (fst (run_log job_exec [] demo_job_commands))
   \<and> length (snd (run_log job_exec [] demo_job_commands)) = 4"
proof -
  have wf: "catalog_wf []" by (simp add: catalog_wf_def)
  have "length (snd (run_log job_exec [] demo_job_commands)) = 4"
    by code_simp
  with job_log_rebuilds_catalog [OF wf, of demo_job_commands] show ?thesis
    by (cases "run_log job_exec [] demo_job_commands") simp
qed

text \<open>A job that a worker holds: leased, with a deadline after \<open>now\<close>.\<close>

definition held_until :: "job_catalog \<Rightarrow> string \<Rightarrow> trace_job \<Rightarrow> u64 \<Rightarrow> bool" where
  "held_until c key j deadline \<longleftrightarrow>
     bm_get c key = Some j \<and> tj_status j = Leased \<and> tj_lease_expires_at_ms j = Some deadline"

lemma held_not_leasable: "held_until c key j deadline \<Longrightarrow> now_ms < deadline \<Longrightarrow> \<not> job_is_leasable j now_ms"
  by (auto simp: held_until_def job_is_leasable_def)

lemma lease_keeps_held:
  assumes "catalog_wf c" and "held_until c key j deadline" and "now_ms < deadline"
    and "lease_next_at c worker kind now_ms lease_ms = (c', r)"
  shows "held_until c' key j deadline \<and> (\<forall>j'. r = Some j' \<longrightarrow> tj_job_id j' \<noteq> tj_job_id j)"
proof (cases "find (\<lambda>e. tj_kind (snd e) = kind \<and> job_is_leasable (snd e) now_ms) c")
  case None
  with assms show ?thesis by (simp add: lease_next_at_def)
next
  case (Some e)
  obtain key' j' where e: "e = (key', j')" by (cases e)
  from lease_found [OF assms(1) Some [unfolded e]]
  have found: "bm_get c key' = Some j'" "job_is_leasable j' now_ms" by auto
  with held_not_leasable [OF assms(2,3)] assms(2) have "key' \<noteq> key"
    by (auto simp: held_until_def)
  moreover from this found assms(2) have "tj_job_id j' \<noteq> tj_job_id j"
    by (metis assms(1) held_until_def key_for_job_id_unique option.inject)
  ultimately show ?thesis
    using assms Some e by (auto simp: lease_next_at_def held_until_def Let_def insert_remove_eq catalog_wfD(1))
qed

text \<open>The engine commands of other workers: leases before the deadline, and enqueues.\<close>

fun before_deadline :: "u64 \<Rightarrow> job_command \<Rightarrow> bool" where
  "before_deadline deadline (LeaseJob _ _ now_ms _) = (now_ms < deadline)"
| "before_deadline deadline (EnqueueJob _ _ _) = True"
| "before_deadline deadline _ = False"

lemma job_exec_keeps_held:
  assumes "catalog_wf c" and "held_until c key j deadline" and "before_deadline deadline cmd"
    and "job_exec c cmd = Inr (c', evs)"
  shows "held_until c' key j deadline
     \<and> (\<forall>w t e. EvLeased (tj_job_id j) w t e \<notin> set evs)"
proof (cases cmd)
  case (EnqueueJob kind target key')
  with assms show ?thesis
    by (auto simp: enqueue_def bm_or_insert_def Let_def held_until_def split: option.splits)
next
  case (LeaseJob worker kind now_ms lease_ms)
  obtain c2 r where l: "lease_next_at c worker kind now_ms lease_ms = (c2, r)"
    by fastforce
  from lease_keeps_held [OF assms(1,2) _ l] assms(2-4) LeaseJob l show ?thesis
    by (cases r) (auto split: prod.splits option.splits)
qed (use assms in auto)

text \<open>
  C19: Leases are exclusive. While a job is held with a deadline, no sequence of lease and
  enqueue commands issued before the deadline hands the job out again: no lease event for its
  job id is logged, and the job with its owner and token stays as it was.
\<close>

theorem lease_exclusive:
  assumes "catalog_wf c" and "held_until c key j deadline"
    and "list_all (before_deadline deadline) cmds"
    and "run_log job_exec c cmds = (c', log)"
  shows "held_until c' key j deadline \<and> (\<forall>w t e. EvLeased (tj_job_id j) w t e \<notin> set log)"
  using assms
proof (induction cmds arbitrary: c log)
  case Nil
  then show ?case by simp
next
  case (Cons cmd cmds)
  show ?case
  proof (cases "job_exec c cmd")
    case (Inl e)
    with Cons show ?thesis by simp
  next
    case (Inr r)
    obtain c1 evs where r: "r = (c1, evs)" by (cases r)
    obtain log' where rest: "run_log job_exec c1 cmds = (c', log')" and log: "log = evs @ log'"
      using Cons.prems(4) Inr r by (auto split: prod.splits)
    have "catalog_wf c1" using job_exec_wf Cons.prems(1) Inr r by blast
    with Cons.IH [OF _ _ _ rest] job_exec_keeps_held [of c key j deadline cmd c1 evs] Cons.prems Inr r log
    show ?thesis by auto
  qed
qed

definition demo_catalog :: job_catalog where
  "demo_catalog = fst (run_log job_exec []
     [EnqueueJob CompactSegment ''docs'' ''k1'', EnqueueJob CompactSegment ''docs'' ''k2'',
      LeaseJob ''w1'' CompactSegment 5 10])"

lemma demo_catalog_wf: "catalog_wf demo_catalog"
  by code_simp

theorem lease_exclusive_witness:
  "tj_lease_owner (the (bm_get (fst (run_log job_exec demo_catalog
      [LeaseJob ''w2'' CompactSegment 14 10, LeaseJob ''w3'' CompactSegment 14 10])) ''k1'')) = Some ''w1''
   \<and> snd (run_log job_exec demo_catalog [LeaseJob ''w2'' CompactSegment 14 10]) \<noteq> []"
proof -
  let ?cmds = "[LeaseJob ''w2'' CompactSegment 14 10, LeaseJob ''w3'' CompactSegment 14 10]"
  let ?j = "the (bm_get demo_catalog ''k1'')"
  have "held_until demo_catalog ''k1'' ?j 15" by code_simp
  moreover have "list_all (before_deadline 15) ?cmds" by code_simp
  ultimately have "held_until (fst (run_log job_exec demo_catalog ?cmds)) ''k1'' ?j 15"
    using lease_exclusive [OF demo_catalog_wf, of "''k1''" ?j 15 ?cmds]
    by (cases "run_log job_exec demo_catalog ?cmds") auto
  moreover have "tj_lease_owner ?j = Some ''w1''" by code_simp
  moreover have "snd (run_log job_exec demo_catalog [LeaseJob ''w2'' CompactSegment 14 10]) \<noteq> []"
    by code_simp
  ultimately show ?thesis unfolding held_until_def by (elim conjE) (simp only: option.sel simp_thms)
qed

text \<open>
  C20: Lease tokens fence off stale workers. If a worker holds a token for a job and the job is
  then handed out again, the old token is refused by heartbeat, complete and fail (with
  \<open>invalid lease token\<close>), whatever the attempt counter was, and the new token is accepted.
\<close>

theorem stale_lease_token_fenced:
  assumes "catalog_wf c" and "bm_get c key = Some j" and "tj_lease_token j = Some t"
    and "lease_next_at c worker kind now_ms lease_ms = (c', Some j')"
    and "tj_job_id j' = tj_job_id j"
  shows "heartbeat c' (tj_job_id j) t now2 ms2 = Inl (''invalid lease token for '' @ tj_job_id j)
    \<and> complete c' (tj_job_id j) (Some t) = Inl (''invalid lease token for '' @ tj_job_id j)
    \<and> fail c' (tj_job_id j) (Some t) err permanent next_ms =
        Inl (''invalid lease token for '' @ tj_job_id j)
    \<and> (\<exists>c2 j2. complete c' (tj_job_id j) (tj_lease_token j') = Inr (c2, j2) \<and> tj_status j2 = Succeeded)"
proof -
  from assms(4) obtain key1 j1 where
    "find (\<lambda>e. tj_kind (snd e) = kind \<and> job_is_leasable (snd e) now_ms) c = Some (key1, j1)"
    and j': "j' = lease_at j1 worker now_ms lease_ms" and c': "c' = bm_insert key1 j' c"
    by (auto simp: lease_next_at_def Let_def insert_remove_eq catalog_wfD(1) [OF assms(1)]
          split: option.splits)
  from lease_found [OF assms(1) this(1)] have get1: "bm_get c key1 = Some j1" and wf1: "job_wf key1 j1"
    by simp_all
  from key_for_job_id_unique [OF assms(1) get1] key_for_job_id_unique [OF assms(1,2)] assms(5) j'
  have "key1 = key" by simp
  with get1 assms(2) have key1: "key1 = key" "j1 = j" by simp_all
  with wf1 have wf: "job_wf key j" by simp
  have c'wf: "catalog_wf c'"
    unfolding c' using assms(1) wf key1 j' by (intro catalog_wf_insert) (auto simp: job_wf_def lease_at_def)
  have id: "key_for_job_id c' (tj_job_id j) = Some key" and get: "bm_get c' key = Some j'"
    using key_for_job_id_unique [OF c'wf, of key j'] assms(5) c' key1 by simp_all
  have "t = lease_token_for (tj_job_id j) (tj_attempts j)"
    using wf assms(3) by (simp add: job_wf_def)
  then have "tj_lease_token j' \<noteq> Some t"
    by (simp add: j' key1 lease_token_inj)
  then show ?thesis
    using id get by (auto simp: heartbeat_def complete_def fail_def job_mut_for_token_def Let_def j')
qed

theorem stale_lease_token_fenced_witness:
  "complete (fst (lease_next_at demo_catalog ''w2'' CompactSegment 15 10))
     ''job:compact_segment:k1'' (Some ''lease:job:compact_segment:k1:1'')
   = Inl (''invalid lease token for '' @ ''job:compact_segment:k1'')"
proof -
  let ?r = "lease_next_at demo_catalog ''w2'' CompactSegment 15 10"
  let ?j = "the (bm_get demo_catalog ''k1'')" and ?j' = "the (snd ?r)"
  have j: "bm_get demo_catalog ''k1'' = Some ?j"
    and t: "tj_lease_token ?j = Some ''lease:job:compact_segment:k1:1''"
    and r: "?r = (fst ?r, Some ?j')" and id: "tj_job_id ?j' = tj_job_id ?j"
    and k1: "tj_job_id ?j = ''job:compact_segment:k1''"
    by code_simp+
  from stale_lease_token_fenced [OF demo_catalog_wf j t r id, THEN conjunct2, THEN conjunct1]
  show ?thesis unfolding k1 .
qed

text \<open>
  Failing a held job decides its future. A permanent failure and a failure of the last
  allowed attempt take the job out of circulation for ever; every other failure makes it
  leasable again from the given time on, and not earlier.
\<close>

theorem fail_retry_or_dead_letter:
  assumes "fail c job_id token err permanent next_ms = Inr (c', j)"
  shows "(job_is_leasable j now_ms \<longleftrightarrow>
           \<not> permanent \<and> tj_attempts j < tj_max_attempts j \<and> next_ms \<le> now_ms)
     \<and> (tj_status j = DeadLettered \<longleftrightarrow> \<not> permanent \<and> tj_max_attempts j \<le> tj_attempts j)"
proof -
  from assms obtain key j0 where
    "j = j0\<lparr>tj_last_error := Some err, tj_lease_expires_at_ms := None,
             tj_next_attempt_after_ms := Some next_ms,
             tj_status := (if permanent then FailedPermanent
                           else if tj_max_attempts j0 \<le> tj_attempts j0 then DeadLettered
                           else FailedRetryable)\<rparr>"
    by (auto simp: fail_def rbind_eq_Inr Let_def)
  then show ?thesis
    by (cases permanent; cases "tj_max_attempts j0 \<le> tj_attempts j0")
       (simp_all add: job_is_leasable_def flip: not_le)
qed

theorem fail_retry_or_dead_letter_witness:
  "case fail demo_catalog ''job:compact_segment:k1'' None ''io'' False 40 of
     Inl _ \<Rightarrow> False
   | Inr (c', j) \<Rightarrow> job_is_leasable j 40 \<and> \<not> job_is_leasable j 39"
proof -
  let ?r = "projr (fail demo_catalog ''job:compact_segment:k1'' None ''io'' False 40)"
  have f: "fail demo_catalog ''job:compact_segment:k1'' None ''io'' False 40 = Inr (fst ?r, snd ?r)"
    and a: "tj_attempts (snd ?r) < tj_max_attempts (snd ?r)"
    by code_simp+
  from fail_retry_or_dead_letter [OF f, of 40] fail_retry_or_dead_letter [OF f, of 39] a
  show ?thesis by (subst f) (simp add: case_prod_beta)
qed

end
