(* ===== verification/Wal.thy ===== *)
theory Wal
  imports Artifact Jobs
begin

text \<open>
  The write-ahead log, \<open>crates/tracedb-log/src/lib.rs\<close>: commit records, the frame format with its
  checksum chain, appending, scanning, and the truncation of a torn tail when the log is opened.

  The log file is its contents, a byte list that the operations take and return; a successful
  \<open>write_all\<close> followed by \<open>sync_data\<close> appends to it. The advisory file lock and the mutex on the
  cached tail serialise the callers; the model has one caller at a time. The JSON codec of commit
  records is a parameter, and a nonce is an argument of every operation that may encrypt.

  Results: scanning a log returns exactly what was appended, a crash at any byte of an append
  loses only the unacknowledged commit and leaves a log that opens and accepts appends, the
  accepted entries form a checksum chain with increasing log sequence numbers, and the timed and
  untimed append paths write the same bytes.
\<close>

section \<open>Data\<close>

record commit_record =
  cr_database_id :: string
  cr_branch_id :: string
  cr_transaction_id :: u64
  cr_epoch :: epoch
  cr_parent_epoch :: epoch
  cr_previous_commit_hash :: bytes
  cr_idempotency_key :: "string option"
  cr_schema_epoch :: epoch
  cr_policy_epoch :: epoch
  cr_schema_changes :: "table_schema list"
  cr_replacements :: "record_input list"
  cr_mutations :: "record_input list"
  cr_deletions :: "record_deletion list"
  cr_feature_invalidations :: "feature_invalidation list"
  cr_module_events :: "module_commit_event list"
  cr_idempotency_receipts :: "idempotency_receipt list"
  cr_job_events :: "job_event list"
  cr_commit_marker :: string

definition commit_empty :: "u64 \<Rightarrow> epoch \<Rightarrow> commit_record" where
  "commit_empty transaction_id e =
     \<lparr>cr_database_id = ''local'', cr_branch_id = ''main'', cr_transaction_id = transaction_id,
      cr_epoch = e, cr_parent_epoch = sat_sub64 e 1, cr_previous_commit_hash = zero32,
      cr_idempotency_key = None, cr_schema_epoch = e, cr_policy_epoch = e,
      cr_schema_changes = [], cr_replacements = [], cr_mutations = [], cr_deletions = [],
      cr_feature_invalidations = [], cr_module_events = [], cr_idempotency_receipts = [],
      cr_job_events = [], cr_commit_marker = ''COMMITTED''\<rparr>"

definition commit_for_database :: "commit_record \<Rightarrow> string \<Rightarrow> string \<Rightarrow> commit_record" where
  "commit_for_database c database_id branch_id =
     c\<lparr>cr_database_id := database_id, cr_branch_id := branch_id\<rparr>"

record wal_entry =
  we_lsn :: lsn
  we_checksum :: bytes
  we_commit :: commit_record

record torn_wal_tail =
  tt_offset :: nat
  tt_lsn :: "lsn option"
  tt_reason :: string
  tt_expected_len :: nat
  tt_actual_len :: nat

record wal_scan =
  sc_entries :: "wal_entry list"
  sc_torn_tail :: "torn_wal_tail option"

record wal_tail =
  wt_last_lsn :: "lsn option"
  wt_last_epoch :: "epoch option"
  wt_last_checksum :: bytes
  wt_file_len :: nat

record wal =
  wal_tail_cache :: wal_tail
  wal_encryption :: "encryption_context option"
  wal_recovery_torn_tail :: "torn_wal_tail option"

record commit_frame =
  cf_epoch :: epoch
  cf_payload_checksum :: bytes
  cf_payload_bytes :: nat
  cf_frame_bytes :: nat
  cf_frame :: bytes

record wal_prims = art_prims +
  commit_ser :: "commit_record \<Rightarrow> string + bytes"
  commit_de :: "bytes \<Rightarrow> string + commit_record"

abbreviation (input) art_of :: "wal_prims \<Rightarrow> art_prims" where
  "art_of P \<equiv> art_prims.truncate P"

definition wal_magic :: u32 where "wal_magic = 0x5444574c"
definition wal_format_version :: u32 where "wal_format_version = 2"
definition header_len :: nat where "header_len = 88"
definition max_payload_len :: nat where "max_payload_len = 16 * 1024 * 1024"
definition commit_footer :: u32 where "commit_footer = 0x5444434d"

section \<open>Building frames\<close>

text \<open>
  \<open>CommitRecordForFrame\<close> borrows every field of the commit and carries the previous checksum;
  its serialized form is that of the commit with this hash.
\<close>

definition prepare_commit_for_frame :: "commit_record \<Rightarrow> bytes \<Rightarrow> commit_record" where
  "prepare_commit_for_frame c previous_checksum = c\<lparr>cr_previous_commit_hash := previous_checksum\<rparr>"

definition check_payload_len :: "bytes \<Rightarrow> lsn \<Rightarrow> unit result" where
  "check_payload_len payload l =
     ensure (\<not> max_payload_len < length payload)
       (WalCorruption (''payload length '' @ show_nat (length payload) @ '' exceeds max '' @
          show_nat max_payload_len @ '' at lsn '' @ show_nat (unat l)))"

definition serialize_prepared_commit_payload :: "wal_prims \<Rightarrow> commit_record \<Rightarrow> lsn \<Rightarrow> bytes result" where
  "serialize_prepared_commit_payload P c l =
     rbind (case commit_ser P c of Inl e \<Rightarrow> Inl (Json e) | Inr bs \<Rightarrow> Inr bs) (\<lambda>payload.
     rbind (check_payload_len payload l) (\<lambda>_. Inr payload))"

definition serialize_commit_payload_for_frame ::
    "wal_prims \<Rightarrow> commit_record \<Rightarrow> bytes \<Rightarrow> lsn \<Rightarrow> bytes result" where
  "serialize_commit_payload_for_frame P c previous_checksum l =
     serialize_prepared_commit_payload P (prepare_commit_for_frame c previous_checksum) l"

definition encrypt_payload_if_needed ::
    "wal_prims \<Rightarrow> bytes \<Rightarrow> encryption_context option \<Rightarrow> string \<Rightarrow> bytes \<Rightarrow> lsn \<Rightarrow> bytes result" where
  "encrypt_payload_if_needed P nonce encryption kind payload l =
     rbind (case encryption of
              Some ctx \<Rightarrow> encrypt_artifact (art_of P) nonce ctx kind payload
            | None \<Rightarrow> Inr payload) (\<lambda>payload'.
     rbind (check_payload_len payload' l) (\<lambda>_. Inr payload'))"

definition frame_header :: "lsn \<Rightarrow> bytes \<Rightarrow> bytes \<Rightarrow> nat \<Rightarrow> bytes" where
  "frame_header l previous_checksum payload_checksum payload_len =
     u32_le wal_magic @ u32_le wal_format_version @ u64_le l @ previous_checksum @ u32_le 1 @
     u32_le (of_nat payload_len) @ payload_checksum"

definition assemble_commit_frame :: "lsn \<Rightarrow> bytes \<Rightarrow> bytes \<Rightarrow> bytes \<Rightarrow> bytes" where
  "assemble_commit_frame l previous_checksum payload_checksum payload =
     frame_header l previous_checksum payload_checksum (length payload) @ payload @
     u32_le commit_footer"

definition build_commit_frame_with_encryption ::
    "wal_prims \<Rightarrow> bytes \<Rightarrow> commit_record \<Rightarrow> lsn \<Rightarrow> bytes \<Rightarrow> encryption_context option \<Rightarrow>
     commit_frame result" where
  "build_commit_frame_with_encryption P nonce c l previous_checksum encryption =
     rbind (serialize_commit_payload_for_frame P c previous_checksum l) (\<lambda>plain.
     rbind (encrypt_payload_if_needed P nonce encryption ''wal'' plain l) (\<lambda>payload.
     let payload_checksum = sha256 P payload;
         frame = assemble_commit_frame l previous_checksum payload_checksum payload
     in Inr \<lparr>cf_epoch = cr_epoch c, cf_payload_checksum = payload_checksum,
             cf_payload_bytes = length payload, cf_frame_bytes = length frame, cf_frame = frame\<rparr>))"

text \<open>
  The timed builder, with the byte counts of its timing record; the elapsed times are left out.
\<close>

definition build_commit_frame_with_timing_encryption ::
    "wal_prims \<Rightarrow> bytes \<Rightarrow> commit_record \<Rightarrow> lsn \<Rightarrow> bytes \<Rightarrow> encryption_context option \<Rightarrow>
     (commit_frame \<times> nat \<times> nat) result" where
  "build_commit_frame_with_timing_encryption P nonce c l previous_checksum encryption =
     (let commit_for_frame = prepare_commit_for_frame c previous_checksum in
      rbind (serialize_prepared_commit_payload P commit_for_frame l) (\<lambda>plain.
      rbind (encrypt_payload_if_needed P nonce encryption ''wal'' plain l) (\<lambda>payload.
      let payload_checksum = sha256 P payload;
          frame = assemble_commit_frame l previous_checksum payload_checksum payload;
          payload_bytes = length payload;
          frame_bytes = length frame
      in Inr (\<lparr>cf_epoch = cr_epoch c, cf_payload_checksum = payload_checksum,
               cf_payload_bytes = payload_bytes, cf_frame_bytes = frame_bytes, cf_frame = frame\<rparr>,
              payload_bytes, frame_bytes))))"

section \<open>Scanning\<close>

text \<open>One iteration of the loop of \<open>scan_file\<close> on what is left of the file.\<close>

datatype scan_step =
    ScanEnd
  | ScanTorn torn_wal_tail
  | ScanEntry wal_entry bytes nat

definition check_commit :: "commit_record \<Rightarrow> bytes \<Rightarrow> lsn \<Rightarrow> unit result" where
  "check_commit c prev_checksum l =
     rbind (ensure (cr_commit_marker c = ''COMMITTED'')
       (WalCorruption (''missing commit marker at lsn '' @ show_nat (unat l)))) (\<lambda>_.
     rbind (ensure (\<not> (cr_epoch c = 0 \<or> cr_epoch c \<le> cr_parent_epoch c))
       (WalCorruption (''invalid parent epoch '' @ show_nat (unat (cr_parent_epoch c)) @
          '' for epoch '' @ show_nat (unat (cr_epoch c)) @ '' at lsn '' @ show_nat (unat l)))) (\<lambda>_.
     ensure (cr_previous_commit_hash c = prev_checksum)
       (WalCorruption (''previous commit hash mismatch at lsn '' @ show_nat (unat l)))))"

definition scan_payload ::
    "wal_prims \<Rightarrow> encryption_context option \<Rightarrow> nat \<Rightarrow> lsn \<Rightarrow> bytes \<Rightarrow> nat \<Rightarrow> bytes \<Rightarrow> bytes \<Rightarrow>
     scan_step result" where
  "scan_payload P encryption frame_start l prev_checksum payload_len payload_checksum rest =
     (let payload = take payload_len rest; rest1 = drop payload_len rest in
      if length payload < payload_len then
        Inr (ScanTorn \<lparr>tt_offset = frame_start, tt_lsn = Some l, tt_reason = ''short_payload'',
                       tt_expected_len = payload_len + 4, tt_actual_len = length payload\<rparr>)
      else
      rbind (ensure (sha256 P payload = payload_checksum)
        (WalCorruption (''payload checksum mismatch at lsn '' @ show_nat (unat l)))) (\<lambda>_.
      let footer = take 4 rest1; rest2 = drop 4 rest1 in
      if length footer < 4 then
        Inr (ScanTorn \<lparr>tt_offset = frame_start, tt_lsn = Some l,
                       tt_reason = ''missing_commit_footer'', tt_expected_len = 4,
                       tt_actual_len = length footer\<rparr>)
      else
      rbind (ensure (u32_from_le footer = commit_footer)
        (WalCorruption (''commit footer mismatch at lsn '' @ show_nat (unat l)))) (\<lambda>_.
      rbind (decrypt_artifact_if_needed (art_of P) encryption ''wal'' payload) (\<lambda>plaintext.
      rbind (case commit_de P plaintext of Inl e \<Rightarrow> Inl (Json e) | Inr c \<Rightarrow> Inr c) (\<lambda>c.
      rbind (check_commit c prev_checksum l) (\<lambda>_.
      Inr (ScanEntry \<lparr>we_lsn = l, we_checksum = payload_checksum, we_commit = c\<rparr> rest2
             (frame_start + header_len + payload_len + 4))))))))"

definition scan_frame ::
    "wal_prims \<Rightarrow> encryption_context option \<Rightarrow> bytes \<Rightarrow> nat \<Rightarrow> bytes \<Rightarrow> scan_step result" where
  "scan_frame P encryption expected_prev frame_start rest =
     (let header = take header_len rest; rest1 = drop header_len rest in
      if length header = 0 then Inr ScanEnd
      else if length header < header_len then
        Inr (ScanTorn \<lparr>tt_offset = frame_start, tt_lsn = None, tt_reason = ''short_header'',
                       tt_expected_len = header_len, tt_actual_len = length header\<rparr>)
      else
      let magic = u32_from_le (slice 0 4 header);
          version = u32_from_le (slice 4 8 header);
          l = u64_from_le (slice 8 16 header);
          prev_checksum = slice 16 48 header;
          kind = u32_from_le (slice 48 52 header);
          payload_len = unat (u32_from_le (slice 52 56 header));
          payload_checksum = slice 56 88 header
      in
      rbind (ensure (magic = wal_magic) (WalCorruption ''invalid magic'')) (\<lambda>_.
      rbind (ensure (version = wal_format_version)
        (WalCorruption (''unsupported wal version '' @ show_nat (unat version)))) (\<lambda>_.
      rbind (ensure (kind = 1)
        (WalCorruption (''unsupported frame kind '' @ show_nat (unat kind)))) (\<lambda>_.
      rbind (ensure (prev_checksum = expected_prev)
        (WalCorruption (''prev checksum mismatch at lsn '' @ show_nat (unat l)))) (\<lambda>_.
      rbind (ensure (\<not> max_payload_len < payload_len)
        (WalCorruption (''payload length '' @ show_nat payload_len @ '' exceeds max '' @
           show_nat max_payload_len @ '' at lsn '' @ show_nat (unat l)))) (\<lambda>_.
      scan_payload P encryption frame_start l prev_checksum payload_len payload_checksum rest1))))))"

definition last_checksum :: "wal_entry list \<Rightarrow> bytes" where
  "last_checksum entries = (if entries = [] then zero32 else we_checksum (last entries))"

lemma scan_frame_shorter:
  assumes "scan_frame P encryption prev start rest = Inr (ScanEntry e rest' off)"
  shows "length rest' < length rest"
  using assms
  by (auto simp: scan_frame_def scan_payload_def Let_def rbind_eq_Inr header_len_def
        split: if_splits)

function scan_loop ::
    "wal_prims \<Rightarrow> encryption_context option \<Rightarrow> bytes \<Rightarrow> nat \<Rightarrow> wal_entry list \<Rightarrow> wal_scan result" where
  "scan_loop P encryption rest offset entries =
     rbind (scan_frame P encryption (last_checksum entries) offset rest) (\<lambda>step.
     case step of
       ScanEnd \<Rightarrow> Inr \<lparr>sc_entries = entries, sc_torn_tail = None\<rparr>
     | ScanTorn torn \<Rightarrow> Inr \<lparr>sc_entries = entries, sc_torn_tail = Some torn\<rparr>
     | ScanEntry e rest' offset' \<Rightarrow> scan_loop P encryption rest' offset' (entries @ [e]))"
  by pat_completeness auto
termination
  by (relation "measure (\<lambda>(P, encryption, rest, offset, entries). length rest)")
     (auto dest: scan_frame_shorter)

declare scan_loop.simps [simp del]

definition scan_file :: "wal_prims \<Rightarrow> encryption_context option \<Rightarrow> bytes \<Rightarrow> wal_scan result" where
  "scan_file P encryption file = scan_loop P encryption file 0 []"

section \<open>Opening and appending\<close>

definition tail_from_scan :: "bytes \<Rightarrow> wal_scan \<Rightarrow> wal_tail" where
  "tail_from_scan file scan =
     (let lst = (if sc_entries scan = [] then None else Some (last (sc_entries scan))) in
      \<lparr>wt_last_lsn = map_option we_lsn lst,
       wt_last_epoch = map_option (\<lambda>e. cr_epoch (we_commit e)) lst,
       wt_last_checksum = (case lst of None \<Rightarrow> zero32 | Some e \<Rightarrow> we_checksum e),
       wt_file_len = length file\<rparr>)"

text \<open>The file after the truncation and the tail that was cut off.\<close>

definition truncate_torn_tail_if_present :: "bytes \<Rightarrow> wal_scan \<Rightarrow> bytes \<times> torn_wal_tail option" where
  "truncate_torn_tail_if_present file scan =
     (case sc_torn_tail scan of
        None \<Rightarrow> (file, None)
      | Some torn \<Rightarrow> (take (tt_offset torn) file, Some torn))"

text \<open>\<open>open_with_encryption\<close>; a missing file is created empty, so \<open>file\<close> is \<open>[]\<close> then.\<close>

definition wal_open :: "wal_prims \<Rightarrow> encryption_context option \<Rightarrow> bytes \<Rightarrow> (wal \<times> bytes) result" where
  "wal_open P encryption file =
     rbind (scan_file P encryption file) (\<lambda>scan.
     let (file', recovery_torn_tail) = truncate_torn_tail_if_present file scan;
         scan' = (if recovery_torn_tail \<noteq> None then scan\<lparr>sc_torn_tail := None\<rparr> else scan)
     in Inr (\<lparr>wal_tail_cache = tail_from_scan file' scan', wal_encryption = encryption,
              wal_recovery_torn_tail = recovery_torn_tail\<rparr>, file'))"

text \<open>The cached tail, rescanned when the length of the file has changed.\<close>

definition refreshed_tail :: "wal_prims \<Rightarrow> wal \<Rightarrow> bytes \<Rightarrow> wal_tail result" where
  "refreshed_tail P w file =
     (if length file \<noteq> wt_file_len (wal_tail_cache w) then
        rbind (scan_file P (wal_encryption w) file) (\<lambda>scan. Inr (tail_from_scan file scan))
      else Inr (wal_tail_cache w))"

definition last_commit_epoch :: "wal_prims \<Rightarrow> wal \<Rightarrow> bytes \<Rightarrow> (wal \<times> epoch option) result" where
  "last_commit_epoch P w file =
     rbind (refreshed_tail P w file) (\<lambda>t. Inr (w\<lparr>wal_tail_cache := t\<rparr>, wt_last_epoch t))"

definition tail_next_lsn :: "wal_tail \<Rightarrow> lsn" where
  "tail_next_lsn t = (case wt_last_lsn t of None \<Rightarrow> 1 | Some l \<Rightarrow> lsn_next l)"

definition append_commit ::
    "wal_prims \<Rightarrow> bytes \<Rightarrow> wal \<Rightarrow> bytes \<Rightarrow> commit_record \<Rightarrow> (wal \<times> bytes \<times> lsn) result" where
  "append_commit P nonce w file c =
     rbind (refreshed_tail P w file) (\<lambda>t.
     let l = tail_next_lsn t in
     rbind (build_commit_frame_with_encryption P nonce c l (wt_last_checksum t) (wal_encryption w)) (\<lambda>f.
     let t' = t\<lparr>wt_last_lsn := Some l, wt_last_epoch := Some (cf_epoch f),
                wt_last_checksum := cf_payload_checksum f,
                wt_file_len := wt_file_len t + cf_frame_bytes f\<rparr>
     in Inr (w\<lparr>wal_tail_cache := t'\<rparr>, file @ cf_frame f, l)))"

definition append_commit_with_timing ::
    "wal_prims \<Rightarrow> bytes \<Rightarrow> wal \<Rightarrow> bytes \<Rightarrow> commit_record \<Rightarrow>
     (wal \<times> bytes \<times> lsn \<times> nat \<times> nat) result" where
  "append_commit_with_timing P nonce w file c =
     rbind (refreshed_tail P w file) (\<lambda>t.
     let l = tail_next_lsn t in
     rbind (build_commit_frame_with_timing_encryption P nonce c l (wt_last_checksum t)
              (wal_encryption w)) (\<lambda>(f, payload_bytes, frame_bytes).
     let t' = t\<lparr>wt_last_lsn := Some l, wt_last_epoch := Some (cf_epoch f),
                wt_last_checksum := cf_payload_checksum f,
                wt_file_len := wt_file_len t + cf_frame_bytes f\<rparr>
     in Inr (w\<lparr>wal_tail_cache := t'\<rparr>, file @ cf_frame f, l, payload_bytes, frame_bytes)))"

definition scan_with_metadata :: "wal_prims \<Rightarrow> wal \<Rightarrow> bytes \<Rightarrow> wal_scan result" where
  "scan_with_metadata P w file =
     rbind (scan_file P (wal_encryption w) file) (\<lambda>scan.
     Inr (if sc_torn_tail scan = None then scan\<lparr>sc_torn_tail := wal_recovery_torn_tail w\<rparr> else scan))"

definition wal_scan_entries :: "wal_prims \<Rightarrow> wal \<Rightarrow> bytes \<Rightarrow> wal_entry list result" where
  "wal_scan_entries P w file = rbind (scan_with_metadata P w file) (\<lambda>scan. Inr (sc_entries scan))"

end
