(* ===== verification/Store.thy ===== *)
theory Store
  imports Wal
begin

text \<open>
  The multi-version record store, \<open>crates/tracedb-store/src/lib.rs\<close>: version chains per record
  key, replacements, merging mutations, tombstones, derived feature states, planned changes
  (deltas), reads at an epoch, replay of commits, and checkpoints.

  \<open>Arc\<close> with \<open>make_mut\<close> is copy on write, so a version chain is a list of records and an update
  changes only the chain it is made on. Operations return the new store; where the source fails
  after it has touched a chain the model returns the error and the caller has no new store.
  \<open>measure_result\<close> and \<open>measure_value\<close> only add timings around the closures they run, so the timed
  entry points are their untimed counterparts here.
\<close>

section \<open>Data\<close>

record record_header =
  rh_record_id :: string
  rh_table_id :: string
  rh_tenant_id :: string
  rh_schema_version :: u64
  rh_begin_epoch :: epoch
  rh_end_epoch :: "epoch option"
  rh_version_id :: version_id
  rh_tombstone :: "string option"

type_synonym features = "(string, derived_feature_state) bmap"

record stored_record =
  sr_header :: record_header
  sr_fields :: fields
  sr_features :: features

type_synonym versions = "stored_record list"
type_synonym store = "(string, versions) bmap"
type_synonym delta = "(string, versions) bmap"

definition record_key_prefix :: "string \<Rightarrow> string \<Rightarrow> string" where
  "record_key_prefix table tenant = table @ [byte_of 0] @ tenant @ [byte_of 0]"

definition record_key :: "string \<Rightarrow> string \<Rightarrow> string \<Rightarrow> string" where
  "record_key table tenant rid = record_key_prefix table tenant @ rid"

abbreviation set_end_epoch :: "epoch \<Rightarrow> stored_record \<Rightarrow> stored_record" where
  "set_end_epoch e r \<equiv> r\<lparr>sr_header := (sr_header r)\<lparr>rh_end_epoch := Some e\<rparr>\<rparr>"

definition is_open :: "stored_record \<Rightarrow> bool" where
  "is_open r = (rh_end_epoch (sr_header r) = None)"

definition is_live :: "stored_record \<Rightarrow> bool" where
  "is_live r = (rh_end_epoch (sr_header r) = None \<and> rh_tombstone (sr_header r) = None)"

definition in_epoch :: "epoch \<Rightarrow> stored_record \<Rightarrow> bool" where
  "in_epoch e r =
     (rh_begin_epoch (sr_header r) \<le> e \<and>
      (case rh_end_epoch (sr_header r) of None \<Rightarrow> True | Some end_e \<Rightarrow> e < end_e))"

section \<open>Validation\<close>

definition vector_dimension_count :: "json \<Rightarrow> nat option" where
  "vector_dimension_count v =
     Option.bind (as_array v) (\<lambda>items.
       if list_all (\<lambda>item. as_number item \<noteq> None) items then Some (length items) else None)"

definition validate_vector_dimension_step :: "record_input \<Rightarrow> unit \<Rightarrow> vector_column \<Rightarrow> unit result" where
  "validate_vector_dimension_step m u vec =
     (case bm_get (ri_fields m) (vc_name vec) of
        None \<Rightarrow> Inr ()
      | Some v \<Rightarrow>
          let actual = (case vector_dimension_count v of None \<Rightarrow> 0 | Some n \<Rightarrow> n) in
          ensure (actual = vc_dimensions vec)
            (InvalidVectorDimensions (vc_name vec) (vc_dimensions vec) actual))"

definition validate_vector_dimensions :: "table_schema \<Rightarrow> record_input \<Rightarrow> unit result" where
  "validate_vector_dimensions s m = rfold (validate_vector_dimension_step m) () (ts_vector_columns s)"

definition validate_record_identity ::
    "table_schema \<Rightarrow> record_input \<Rightarrow> fields option \<Rightarrow> unit result" where
  "validate_record_identity s m flds_opt =
     rbind (ensure (ri_id m \<noteq> []) (InvalidRecord ''record id cannot be empty'')) (\<lambda>_.
     rbind (ensure (ri_tenant_id m \<noteq> []) (InvalidRecord ''tenant id cannot be empty'')) (\<lambda>_.
     let flds = (case flds_opt of None \<Rightarrow> ri_fields m | Some f \<Rightarrow> f) in
     rbind (case bm_get flds (ts_primary_id_column s) of
              None \<Rightarrow> Inr ()
            | Some v \<Rightarrow> ensure (as_str v = Some (ri_id m))
                (InvalidRecord (''primary id field '' @ ts_primary_id_column s @ '' must match record id''))) (\<lambda>_.
     case bm_get flds (ts_tenant_id_column s) of
       None \<Rightarrow> Inr ()
     | Some v \<Rightarrow> ensure (as_str v = Some (ri_tenant_id m))
         (InvalidRecord (''tenant field '' @ ts_tenant_id_column s @ '' must match tenant id'')))))"

definition validate_deletion_identity :: "table_schema \<Rightarrow> record_deletion \<Rightarrow> unit result" where
  "validate_deletion_identity s d =
     rbind (ensure (rd_table d = ts_name s)
       (InvalidRecord (''record table '' @ rd_table d @ '' does not match schema '' @ ts_name s))) (\<lambda>_.
     rbind (ensure (trim (rd_id d) \<noteq> []) (InvalidRecord ''record id cannot be empty'')) (\<lambda>_.
     ensure (trim (rd_tenant_id d) \<noteq> []) (InvalidRecord ''tenant id cannot be empty'')))"

definition validate_mutation :: "table_schema \<Rightarrow> record_input \<Rightarrow> unit result" where
  "validate_mutation s m =
     rbind (validate_record_identity s m None) (\<lambda>_. validate_vector_dimensions s m)"

section \<open>Features\<close>

text \<open>The state of one vector column after a write, from its state before it.\<close>

definition feature_next ::
    "'z prims_scheme \<Rightarrow> record_input \<Rightarrow> fields \<Rightarrow> epoch \<Rightarrow> vector_column \<Rightarrow>
     derived_feature_state option \<Rightarrow> derived_feature_state" where
  "feature_next P m merged e vec old =
     (let hash = source_hash (prims.truncate P) merged (vc_source_columns vec);
          source_changed = list_ex (\<lambda>src. bm_contains (ri_fields m) src) (vc_source_columns vec);
          vector_changed = bm_contains (ri_fields m) (vc_name vec)
      in
      if vector_changed then feature_ready (vc_source_columns vec) hash e
      else if source_changed then
        (case old of
           Some st \<Rightarrow> feature_dirty_from st hash e
         | None \<Rightarrow> (feature_missing (vc_source_columns vec) e)\<lparr>fs_source_hash := hash, fs_status := Dirty\<rparr>)
      else
        (case old of
           Some st \<Rightarrow> st
         | None \<Rightarrow>
             if Option.bind (bm_get merged (vc_name vec)) (value_as_f32_vec (\<lambda>_. ())) \<noteq> None
             then feature_ready (vc_source_columns vec) hash e
             else feature_missing (vc_source_columns vec) e))"

definition feature_step ::
    "'z prims_scheme \<Rightarrow> record_input \<Rightarrow> fields \<Rightarrow> epoch \<Rightarrow> features \<Rightarrow> vector_column \<Rightarrow> features" where
  "feature_step P m merged e feats vec =
     bm_insert (vc_name vec) (feature_next P m merged e vec (bm_get feats (vc_name vec))) feats"

definition build_features ::
    "'z prims_scheme \<Rightarrow> table_schema \<Rightarrow> record_input \<Rightarrow> fields \<Rightarrow> stored_record option \<Rightarrow> epoch \<Rightarrow>
     features" where
  "build_features P s m merged previous e =
     foldl (feature_step P m merged e)
       (case previous of None \<Rightarrow> [] | Some r \<Rightarrow> sr_features r) (ts_vector_columns s)"

section \<open>Building versions\<close>

definition new_record :: "record_input \<Rightarrow> epoch \<Rightarrow> fields \<Rightarrow> features \<Rightarrow> stored_record" where
  "new_record m e flds feats =
     \<lparr>sr_header = \<lparr>rh_record_id = ri_id m, rh_table_id = ri_table m, rh_tenant_id = ri_tenant_id m,
                   rh_schema_version = 1, rh_begin_epoch = e, rh_end_epoch = None,
                   rh_version_id = e, rh_tombstone = None\<rparr>,
      sr_fields = flds, sr_features = feats\<rparr>"

definition build_replacement_record ::
    "'z prims_scheme \<Rightarrow> table_schema \<Rightarrow> record_input \<Rightarrow> epoch \<Rightarrow> (string \<times> stored_record) result" where
  "build_replacement_record P s m e =
     rbind (validate_record_identity s m None) (\<lambda>_.
     rbind (validate_vector_dimensions s m) (\<lambda>_.
     rbind (ensure (ri_tenant_id m \<noteq> []) (InvalidRecord ''tenant id cannot be empty'')) (\<lambda>_.
     let key = record_key (ri_table m) (ri_tenant_id m) (ri_id m);
         flds = bm_insert (ts_tenant_id_column s) (JString (ri_tenant_id m))
                  (bm_insert (ts_primary_id_column s) (JString (ri_id m)) (ri_fields m))
     in
     rbind (validate_record_identity s m (Some flds)) (\<lambda>_.
     Inr (key, new_record m e flds (build_features P s m flds None e))))))"

text \<open>Close the current version and push the new one.\<close>

definition install_version :: "versions \<Rightarrow> stored_record \<Rightarrow> epoch \<Rightarrow> versions" where
  "install_version vs r e = update_last is_open (set_end_epoch e) vs @ [r]"

definition merged_fields :: "table_schema \<Rightarrow> record_input \<Rightarrow> stored_record option \<Rightarrow> fields" where
  "merged_fields s m previous =
     (let flds0 = bm_extend (case previous of None \<Rightarrow> [] | Some r \<Rightarrow> sr_fields r) (ri_fields m);
          flds1 = (if bm_contains flds0 (ts_primary_id_column s) then flds0
                   else bm_insert (ts_primary_id_column s) (JString (ri_id m)) flds0)
      in if bm_contains flds1 (ts_tenant_id_column s) then flds1
         else bm_insert (ts_tenant_id_column s) (JString (ri_tenant_id m)) flds1)"

text \<open>
  The body that \<open>apply_mutation\<close> and \<open>plan_mutation_into\<close> share: from the chain to the new record
  and the new chain.
\<close>

definition mutate_versions ::
    "'z prims_scheme \<Rightarrow> table_schema \<Rightarrow> record_input \<Rightarrow> epoch \<Rightarrow> versions \<Rightarrow>
     (stored_record \<times> versions) result" where
  "mutate_versions P s m e vs =
     (let previous = rfind is_live vs;
          merged = merged_fields s m previous
      in
      rbind (validate_record_identity s m (Some merged)) (\<lambda>_.
      let r = new_record m e merged (build_features P s m merged previous e)
      in Inr (r, install_version vs r e)))"

definition tombstone_record :: "record_deletion \<Rightarrow> epoch \<Rightarrow> stored_record \<Rightarrow> stored_record" where
  "tombstone_record d e previous =
     \<lparr>sr_header = \<lparr>rh_record_id = rd_id d, rh_table_id = rd_table d, rh_tenant_id = rd_tenant_id d,
                   rh_schema_version = rh_schema_version (sr_header previous),
                   rh_begin_epoch = e, rh_end_epoch = None, rh_version_id = e,
                   rh_tombstone = Some (if trim (rd_tombstone d) = [] then ''user_delete''
                                        else rd_tombstone d)\<rparr>,
      sr_fields = sr_fields previous, sr_features = sr_features previous\<rparr>"

definition record_name :: "string \<Rightarrow> string \<Rightarrow> string \<Rightarrow> string" where
  "record_name table tenant rid = table @ '':'' @ tenant @ '':'' @ rid"

text \<open>The body that \<open>apply_delete\<close> and \<open>plan_delete_into\<close> share.\<close>

definition delete_versions ::
    "record_deletion \<Rightarrow> epoch \<Rightarrow> versions \<Rightarrow> (stored_record \<times> versions) result" where
  "delete_versions d e vs =
     rbind (ok_or (NotFound (record_name (rd_table d) (rd_tenant_id d) (rd_id d))) (rfind is_live vs)) (\<lambda>previous.
     let r = tombstone_record d e previous
     in Inr (r, update_last is_live (set_end_epoch e) vs @ [r]))"

text \<open>The body that \<open>apply_feature_invalidation\<close> and its planning counterpart share.\<close>

definition invalidate_versions ::
    "feature_invalidation \<Rightarrow> epoch \<Rightarrow> versions \<Rightarrow> (derived_feature_state \<times> versions) result" where
  "invalidate_versions i e vs =
     rbind (ok_or (NotFound (record_name (fi_table i) (fi_tenant_id i) (fi_record_id i))) (rfind is_live vs)) (\<lambda>r.
     rbind (ok_or (NotFound (''feature '' @ fi_table i @ ''.'' @ fi_record_id i @ ''.'' @ fi_feature i))
       (bm_get (sr_features r) (fi_feature i))) (\<lambda>st.
     let st' = st\<lparr>fs_status := fi_status i, fs_valid_for_epoch := e\<rparr>
     in Inr (st', update_last is_live
               (\<lambda>r. r\<lparr>sr_features := bm_insert (fi_feature i) st' (sr_features r)\<rparr>) vs)))"

section \<open>Applying changes\<close>

abbreviation versions_or_default :: "store \<Rightarrow> string \<Rightarrow> versions" where
  "versions_or_default st key \<equiv> (case bm_get st key of None \<Rightarrow> [] | Some vs \<Rightarrow> vs)"

definition apply_replacement ::
    "'z prims_scheme \<Rightarrow> store \<Rightarrow> table_schema \<Rightarrow> record_input \<Rightarrow> epoch \<Rightarrow> (store \<times> stored_record) result" where
  "apply_replacement P st s m e =
     rbind (build_replacement_record P s m e) (\<lambda>(key, r).
     Inr (bm_insert key (install_version (versions_or_default st key) r e) st, r))"

definition apply_mutation ::
    "'z prims_scheme \<Rightarrow> store \<Rightarrow> table_schema \<Rightarrow> record_input \<Rightarrow> epoch \<Rightarrow> (store \<times> stored_record) result" where
  "apply_mutation P st s m e =
     rbind (validate_record_identity s m None) (\<lambda>_.
     rbind (validate_vector_dimensions s m) (\<lambda>_.
     rbind (ensure (ri_tenant_id m \<noteq> []) (InvalidRecord ''tenant id cannot be empty'')) (\<lambda>_.
     let key = record_key (ri_table m) (ri_tenant_id m) (ri_id m) in
     rbind (mutate_versions P s m e (versions_or_default st key)) (\<lambda>(r, vs).
     Inr (bm_insert key vs st, r)))))"

definition apply_delete ::
    "store \<Rightarrow> table_schema \<Rightarrow> record_deletion \<Rightarrow> epoch \<Rightarrow> (store \<times> stored_record) result" where
  "apply_delete st s d e =
     rbind (validate_deletion_identity s d) (\<lambda>_.
     let key = record_key (rd_table d) (rd_tenant_id d) (rd_id d) in
     rbind (ok_or (NotFound (record_name (rd_table d) (rd_tenant_id d) (rd_id d))) (bm_get st key)) (\<lambda>vs.
     rbind (delete_versions d e vs) (\<lambda>(r, vs').
     Inr (bm_insert key vs' st, r))))"

definition apply_feature_invalidation ::
    "store \<Rightarrow> feature_invalidation \<Rightarrow> epoch \<Rightarrow> (store \<times> derived_feature_state) result" where
  "apply_feature_invalidation st i e =
     (let key = record_key (fi_table i) (fi_tenant_id i) (fi_record_id i) in
      rbind (ok_or (NotFound (record_name (fi_table i) (fi_tenant_id i) (fi_record_id i))) (bm_get st key)) (\<lambda>vs.
      rbind (invalidate_versions i e vs) (\<lambda>(fstate, vs').
      Inr (bm_insert key vs' st, fstate))))"

section \<open>Planning changes\<close>

definition versions_for_planning :: "store \<Rightarrow> delta \<Rightarrow> string \<Rightarrow> versions" where
  "versions_for_planning st d key =
     (case bm_get d key of Some vs \<Rightarrow> vs | None \<Rightarrow> versions_or_default st key)"

definition delta_is_empty :: "delta \<Rightarrow> bool" where
  "delta_is_empty d = (d = [])"

definition delta_merge :: "delta \<Rightarrow> delta \<Rightarrow> delta" where
  "delta_merge d other = bm_extend d other"

definition plan_replacement_into ::
    "'z prims_scheme \<Rightarrow> store \<Rightarrow> delta \<Rightarrow> table_schema \<Rightarrow> record_input \<Rightarrow> epoch \<Rightarrow> delta result" where
  "plan_replacement_into P st d s m e =
     rbind (build_replacement_record P s m e) (\<lambda>(key, r).
     Inr (bm_insert key (install_version (versions_for_planning st d key) r e) d))"

definition plan_replacement ::
    "'z prims_scheme \<Rightarrow> store \<Rightarrow> table_schema \<Rightarrow> record_input \<Rightarrow> epoch \<Rightarrow> delta result" where
  "plan_replacement P st s m e = plan_replacement_into P st [] s m e"

definition plan_mutation_into ::
    "'z prims_scheme \<Rightarrow> store \<Rightarrow> delta \<Rightarrow> table_schema \<Rightarrow> record_input \<Rightarrow> epoch \<Rightarrow> delta result" where
  "plan_mutation_into P st d s m e =
     rbind (validate_record_identity s m None) (\<lambda>_.
     rbind (validate_vector_dimensions s m) (\<lambda>_.
     rbind (ensure (ri_tenant_id m \<noteq> []) (InvalidRecord ''tenant id cannot be empty'')) (\<lambda>_.
     let key = record_key (ri_table m) (ri_tenant_id m) (ri_id m) in
     rbind (mutate_versions P s m e (versions_for_planning st d key)) (\<lambda>(r, vs).
     Inr (bm_insert key vs d)))))"

definition plan_mutation ::
    "'z prims_scheme \<Rightarrow> store \<Rightarrow> table_schema \<Rightarrow> record_input \<Rightarrow> epoch \<Rightarrow> delta result" where
  "plan_mutation P st s m e = plan_mutation_into P st [] s m e"

definition plan_delete_into ::
    "store \<Rightarrow> delta \<Rightarrow> table_schema \<Rightarrow> record_deletion \<Rightarrow> epoch \<Rightarrow> delta result" where
  "plan_delete_into st dl s d e =
     rbind (validate_deletion_identity s d) (\<lambda>_.
     let key = record_key (rd_table d) (rd_tenant_id d) (rd_id d);
         vs = versions_for_planning st dl key
     in
     rbind (ensure (vs \<noteq> []) (NotFound (record_name (rd_table d) (rd_tenant_id d) (rd_id d)))) (\<lambda>_.
     rbind (delete_versions d e vs) (\<lambda>(r, vs').
     Inr (bm_insert key vs' dl))))"

definition plan_delete :: "store \<Rightarrow> table_schema \<Rightarrow> record_deletion \<Rightarrow> epoch \<Rightarrow> delta result" where
  "plan_delete st s d e = plan_delete_into st [] s d e"

definition plan_feature_invalidation_into ::
    "store \<Rightarrow> delta \<Rightarrow> feature_invalidation \<Rightarrow> epoch \<Rightarrow> delta result" where
  "plan_feature_invalidation_into st dl i e =
     (let key = record_key (fi_table i) (fi_tenant_id i) (fi_record_id i);
          vs = versions_for_planning st dl key
      in
      rbind (ensure (vs \<noteq> []) (NotFound (record_name (fi_table i) (fi_tenant_id i) (fi_record_id i)))) (\<lambda>_.
      rbind (invalidate_versions i e vs) (\<lambda>(fstate, vs').
      Inr (bm_insert key vs' dl))))"

definition plan_feature_invalidation ::
    "store \<Rightarrow> feature_invalidation \<Rightarrow> epoch \<Rightarrow> delta result" where
  "plan_feature_invalidation st i e = plan_feature_invalidation_into st [] i e"

definition apply_delta :: "store \<Rightarrow> delta \<Rightarrow> store" where
  "apply_delta st d = bm_extend st d"

section \<open>Reading\<close>

definition visible_record_at :: "versions \<Rightarrow> epoch \<Rightarrow> stored_record option" where
  "visible_record_at vs e =
     rfind (\<lambda>r. in_epoch e r \<and> rh_tombstone (sr_header r) = None) vs"

definition get_record :: "store \<Rightarrow> string \<Rightarrow> string \<Rightarrow> string \<Rightarrow> epoch \<Rightarrow> stored_record option" where
  "get_record st table tenant rid e =
     Option.bind (bm_get st (record_key table tenant rid)) (\<lambda>vs. visible_record_at vs e)"

definition visible_records_at :: "store \<Rightarrow> string \<Rightarrow> string \<Rightarrow> epoch \<Rightarrow> stored_record list" where
  "visible_records_at st table tenant e =
     filter_map (\<lambda>(_, vs). visible_record_at vs e) (bm_range_prefix (record_key_prefix table tenant) st)"

definition scan_records :: "store \<Rightarrow> string \<Rightarrow> string \<Rightarrow> nat \<Rightarrow> epoch \<Rightarrow> stored_record list" where
  "scan_records st table tenant limit e =
     take limit (sort_key (\<lambda>r. rh_record_id (sr_header r)) (visible_records_at st table tenant e))"

definition is_tombstoned_at :: "store \<Rightarrow> string \<Rightarrow> string \<Rightarrow> string \<Rightarrow> epoch \<Rightarrow> bool" where
  "is_tombstoned_at st table tenant rid e =
     (case Option.bind (bm_get st (record_key table tenant rid)) (rfind (in_epoch e)) of
        None \<Rightarrow> False
      | Some r \<Rightarrow> rh_tombstone (sr_header r) \<noteq> None)"

definition feature_state ::
    "store \<Rightarrow> string \<Rightarrow> string \<Rightarrow> string \<Rightarrow> string \<Rightarrow> epoch \<Rightarrow> derived_feature_state option" where
  "feature_state st table tenant rid feature e =
     (case filter_map (\<lambda>vs.
        Option.bind (rfind (\<lambda>r. rh_table_id (sr_header r) = table \<and> rh_tenant_id (sr_header r) = tenant \<and>
            rh_record_id (sr_header r) = rid \<and> rh_tombstone (sr_header r) = None \<and> in_epoch e r) vs)
          (\<lambda>r. bm_get (sr_features r) feature)) (bm_values st) of
        [] \<Rightarrow> None | x # _ \<Rightarrow> Some x)"

record read_snapshot =
  rs_epoch :: epoch
  rs_records :: "stored_record list"

definition snapshot :: "store \<Rightarrow> epoch \<Rightarrow> read_snapshot" where
  "snapshot st e =
     \<lparr>rs_epoch = e,
      rs_records = filter_map (rfind (\<lambda>r. in_epoch e r \<and> rh_tombstone (sr_header r) = None)) (bm_values st)\<rparr>"

definition snapshot_visible_records :: "read_snapshot \<Rightarrow> string \<Rightarrow> string \<Rightarrow> stored_record list" where
  "snapshot_visible_records sn table tenant =
     filter (\<lambda>r. rh_table_id (sr_header r) = table \<and> rh_tenant_id (sr_header r) = tenant) (rs_records sn)"

definition snapshot_all_visible_records :: "read_snapshot \<Rightarrow> string \<Rightarrow> stored_record list" where
  "snapshot_all_visible_records sn table =
     filter (\<lambda>r. rh_table_id (sr_header r) = table) (rs_records sn)"

definition snapshot_get_record ::
    "read_snapshot \<Rightarrow> string \<Rightarrow> string \<Rightarrow> string \<Rightarrow> stored_record option" where
  "snapshot_get_record sn table tenant rid =
     find (\<lambda>r. rh_table_id (sr_header r) = table \<and> rh_tenant_id (sr_header r) = tenant \<and>
               rh_record_id (sr_header r) = rid) (rs_records sn)"

section \<open>Checkpoints\<close>

definition checkpoint_records :: "store \<Rightarrow> epoch \<Rightarrow> stored_record list" where
  "checkpoint_records st e = filter_map (rfind (in_epoch e)) (bm_values st)"

definition header_key :: "stored_record \<Rightarrow> string" where
  "header_key r = record_key (rh_table_id (sr_header r)) (rh_tenant_id (sr_header r)) (rh_record_id (sr_header r))"

definition from_checkpoint_records :: "stored_record list \<Rightarrow> store" where
  "from_checkpoint_records rs =
     foldl (\<lambda>st r. bm_insert (header_key r) (versions_or_default st (header_key r) @ [r]) st) [] rs"

section \<open>Replaying commits\<close>

definition active_feature_tenants :: "store \<Rightarrow> feature_invalidation \<Rightarrow> string list" where
  "active_feature_tenants st i =
     filter_map (\<lambda>vs.
       case rfind (\<lambda>r. rh_table_id (sr_header r) = fi_table i \<and>
                       rh_record_id (sr_header r) = fi_record_id i \<and> is_live r) vs of
         None \<Rightarrow> None
       | Some r \<Rightarrow> if bm_contains (sr_features r) (fi_feature i)
                   then Some (rh_tenant_id (sr_header r)) else None) (bm_values st)"

definition resolve_legacy_feature_invalidation ::
    "store \<Rightarrow> feature_invalidation \<Rightarrow> commit_record \<Rightarrow> feature_invalidation result" where
  "resolve_legacy_feature_invalidation st i c =
     (let commit_tenants = bs_collect (filter_map (\<lambda>m.
            if ri_table m = fi_table i \<and> ri_id m = fi_record_id i \<and> trim (ri_tenant_id m) \<noteq> []
            then Some (trim (ri_tenant_id m)) else None) (cr_mutations c @ cr_replacements c));
          name = fi_table i @ ''.'' @ fi_record_id i @ ''.'' @ fi_feature i
      in
      if length commit_tenants = 1 then Inr (i\<lparr>fi_tenant_id := hd commit_tenants\<rparr>)
      else if 1 < length commit_tenants then
        Inl (WalCorruption (''ambiguous feature invalidation for '' @ name @ '' in commit '' @
          show_nat (unat (cr_transaction_id c))))
      else
      let active_tenants = bs_collect (active_feature_tenants st i) in
      if length active_tenants = 1 then Inr (i\<lparr>fi_tenant_id := hd active_tenants\<rparr>)
      else if active_tenants = [] then Inl (NotFound (''feature '' @ name))
      else Inl (WalCorruption (''ambiguous feature invalidation for '' @ name)))"

definition schema_for :: "table_schema list \<Rightarrow> string \<Rightarrow> table_schema result" where
  "schema_for schemas table = ok_or (UnknownTable table) (find_schema schemas table)"

definition replay_replacement ::
    "'z prims_scheme \<Rightarrow> table_schema list \<Rightarrow> epoch \<Rightarrow> store \<Rightarrow> record_input \<Rightarrow> store result" where
  "replay_replacement P schemas e st m =
     rbind (schema_for schemas (ri_table m)) (\<lambda>s.
     rbind (apply_replacement P st s m e) (\<lambda>(st', _). Inr st'))"

definition replay_mutation ::
    "'z prims_scheme \<Rightarrow> table_schema list \<Rightarrow> epoch \<Rightarrow> store \<Rightarrow> record_input \<Rightarrow> store result" where
  "replay_mutation P schemas e st m =
     rbind (schema_for schemas (ri_table m)) (\<lambda>s.
     rbind (apply_mutation P st s m e) (\<lambda>(st', _). Inr st'))"

definition replay_deletion ::
    "table_schema list \<Rightarrow> epoch \<Rightarrow> store \<Rightarrow> record_deletion \<Rightarrow> store result" where
  "replay_deletion schemas e st d =
     rbind (schema_for schemas (rd_table d)) (\<lambda>s.
     rbind (apply_delete st s d e) (\<lambda>(st', _). Inr st'))"

definition replay_invalidation ::
    "commit_record \<Rightarrow> store \<Rightarrow> feature_invalidation \<Rightarrow> store result" where
  "replay_invalidation c st i =
     rbind (if trim (fi_tenant_id i) = [] then resolve_legacy_feature_invalidation st i c else Inr i) (\<lambda>i'.
     rbind (apply_feature_invalidation st i' (cr_epoch c)) (\<lambda>(st', _). Inr st'))"

definition apply_commit ::
    "'z prims_scheme \<Rightarrow> table_schema list \<Rightarrow> store \<Rightarrow> commit_record \<Rightarrow> store result" where
  "apply_commit P schemas st c =
     rbind (rfold (replay_replacement P schemas (cr_epoch c)) st (cr_replacements c)) (\<lambda>st1.
     rbind (rfold (replay_mutation P schemas (cr_epoch c)) st1 (cr_mutations c)) (\<lambda>st2.
     rbind (rfold (replay_deletion schemas (cr_epoch c)) st2 (cr_deletions c)) (\<lambda>st3.
     rfold (replay_invalidation c) st3 (cr_feature_invalidations c))))"

definition apply_commits ::
    "'z prims_scheme \<Rightarrow> table_schema list \<Rightarrow> store \<Rightarrow> commit_record list \<Rightarrow> store result" where
  "apply_commits P schemas st cs = rfold (apply_commit P schemas) st cs"

definition from_commits ::
    "'z prims_scheme \<Rightarrow> table_schema list \<Rightarrow> commit_record list \<Rightarrow> store result" where
  "from_commits P schemas cs = apply_commits P schemas [] cs"

end
