(* ===== verification/Manifest_File.thy ===== *)
theory Manifest_File
  imports Store
begin

text \<open>
  The durable files of the engine beside the log, from \<open>crates/tracedb-query/src/lib.rs\<close> and
  \<open>crates/tracedb-core/src/lib.rs\<close>: the manifest with its checksum and backup copy, and the
  checkpoint files (the framed format, and the two legacy formats that are still read).

  A directory is the contents of its files. Writing goes to a temporary file that is renamed, so a
  file has either its old or its new contents. The only I/O failure in the model is a file that
  does not exist. The JSON codecs of these structures are parameters.
\<close>

section \<open>Data\<close>

record checkpoint_payload =
  cp_format_version :: u32
  cp_epoch :: epoch
  cp_schemas :: "table_schema list"
  cp_records :: "stored_record list"
  cp_idempotency_receipts :: "idempotency_receipt list"
  cp_job_catalog :: job_catalog

record checkpoint_file = checkpoint_payload +
  cp_checksum :: bytes

record disk =
  dk_manifest :: "bytes option"
  dk_manifest_bak :: "bytes option"
  dk_wal :: bytes
  dk_checkpoints :: "(epoch, bytes) bmap"
  dk_json_checkpoints :: "(epoch, bytes) bmap"
  dk_job_catalog :: "bytes option"

record eng_prims = wal_prims +
  manifest_json :: "manifest \<Rightarrow> string + bytes"
  manifest_json_pretty :: "manifest \<Rightarrow> string + bytes"
  manifest_parse :: "bytes \<Rightarrow> string + manifest"
  checkpoint_json :: "checkpoint_payload \<Rightarrow> string + bytes"
  checkpoint_parse :: "bytes \<Rightarrow> string + checkpoint_payload"
  checkpoint_file_json :: "checkpoint_file \<Rightarrow> string + bytes"
  checkpoint_file_parse :: "bytes \<Rightarrow> string + checkpoint_file"
  job_catalog_json :: "job_catalog \<Rightarrow> string + bytes"

abbreviation (input) log_of_prims :: "eng_prims \<Rightarrow> wal_prims" where
  "log_of_prims P \<equiv> wal_prims.truncate P"

abbreviation (input) art_of_prims :: "eng_prims \<Rightarrow> art_prims" where
  "art_of_prims P \<equiv> art_prims.truncate P"

definition json_result :: "string + 'a \<Rightarrow> 'a result" where
  "json_result r = (case r of Inl e \<Rightarrow> Inl (Json e) | Inr x \<Rightarrow> Inr x)"

lemma json_result_eq_Inr [result_simps]: "json_result r = Inr x \<longleftrightarrow> r = Inr x"
  by (auto simp: json_result_def split: sum.splits)

lemma json_result_Inr [simp]: "json_result (Inr x) = Inr x"
  by (simp add: json_result_def)

section \<open>UTF-8\<close>

text \<open>Whether bytes are well-formed UTF-8, as \<open>read_to_string\<close> requires.\<close>

definition is_cont :: "byte \<Rightarrow> bool" where
  "is_cont b = (CHR 0x80 \<le> b \<and> b \<le> CHR 0xBF)"

fun utf8_valid :: "bytes \<Rightarrow> bool" where
  "utf8_valid [] = True"
| "utf8_valid (a # bs) =
     (if a < CHR 0x80 then utf8_valid bs
      else case bs of
        [] \<Rightarrow> False
      | b # cs \<Rightarrow>
          if CHR 0xC2 \<le> a \<and> a \<le> CHR 0xDF then is_cont b \<and> utf8_valid cs
          else case cs of
            [] \<Rightarrow> False
          | c # ds \<Rightarrow>
              if CHR 0xE0 \<le> a \<and> a \<le> CHR 0xEF then
                is_cont b \<and> is_cont c \<and> (a = CHR 0xE0 \<longrightarrow> CHR 0xA0 \<le> b) \<and> (a = CHR 0xED \<longrightarrow> b \<le> CHR 0x9F)
                \<and> utf8_valid ds
              else case ds of
                [] \<Rightarrow> False
              | d # es \<Rightarrow>
                  CHR 0xF0 \<le> a \<and> a \<le> CHR 0xF4 \<and> is_cont b \<and> is_cont c \<and> is_cont d \<and>
                  (a = CHR 0xF0 \<longrightarrow> CHR 0x90 \<le> b) \<and> (a = CHR 0xF4 \<longrightarrow> b \<le> CHR 0x8F) \<and> utf8_valid es)"

section \<open>The manifest\<close>

definition compute_manifest_checksum :: "eng_prims \<Rightarrow> manifest \<Rightarrow> bytes result" where
  "compute_manifest_checksum P m =
     rbind (json_result (manifest_json P (m\<lparr>mf_manifest_checksum := zero32\<rparr>))) (\<lambda>bs. Inr (sha256 P bs))"

definition read_manifest_inner :: "eng_prims \<Rightarrow> bytes option \<Rightarrow> manifest result" where
  "read_manifest_inner P content =
     rbind (ok_or (Io IoNotFound ''No such file or directory (os error 2)'') content) (\<lambda>body.
     rbind (ensure (utf8_valid body) (Io IoInvalidData ''stream did not contain valid UTF-8'')) (\<lambda>_.
     rbind (json_result (manifest_parse P body)) (\<lambda>m.
     let expected = mf_manifest_checksum m in
     rbind (ensure (expected \<noteq> zero32) (ManifestCorruption ''missing manifest checksum'')) (\<lambda>_.
     rbind (compute_manifest_checksum P m) (\<lambda>actual.
     rbind (ensure (actual = expected)
       (ManifestCorruption (''manifest checksum mismatch: expected '' @ debug_bytes expected @
          '', got '' @ debug_bytes actual))) (\<lambda>_.
     Inr m))))))"

definition manifest_read_error_can_fallback :: "error \<Rightarrow> bool" where
  "manifest_read_error_can_fallback err =
     (case err of
        Json _ \<Rightarrow> True
      | Io kind _ \<Rightarrow> kind \<in> {IoNotFound, IoInvalidData, IoUnexpectedEof}
      | _ \<Rightarrow> False)"

definition read_manifest :: "eng_prims \<Rightarrow> disk \<Rightarrow> manifest result" where
  "read_manifest P d =
     (case read_manifest_inner P (dk_manifest d) of
        Inr m \<Rightarrow> Inr m
      | Inl err \<Rightarrow>
          if manifest_read_error_can_fallback err \<and> dk_manifest_bak d \<noteq> None
          then read_manifest_inner P (dk_manifest_bak d)
          else Inl err)"

definition copy_manifest_backup :: "eng_prims \<Rightarrow> disk \<Rightarrow> disk result" where
  "copy_manifest_backup P d =
     (case dk_manifest d of
        None \<Rightarrow> Inr d
      | Some body \<Rightarrow>
          (case read_manifest_inner P (Some body) of
             Inl err \<Rightarrow> if manifest_read_error_can_fallback err then Inr d else Inl err
           | Inr _ \<Rightarrow> Inr (d\<lparr>dk_manifest_bak := Some body\<rparr>)))"

text \<open>\<open>write_manifest\<close> fills in the checksum of the manifest that it is given.\<close>

definition write_manifest :: "eng_prims \<Rightarrow> disk \<Rightarrow> manifest \<Rightarrow> (disk \<times> manifest) result" where
  "write_manifest P d m =
     (let m0 = m\<lparr>mf_manifest_checksum := zero32\<rparr> in
      rbind (compute_manifest_checksum P m0) (\<lambda>checksum.
      let m1 = m0\<lparr>mf_manifest_checksum := checksum\<rparr> in
      rbind (json_result (manifest_json_pretty P m1)) (\<lambda>body.
      rbind (copy_manifest_backup P d) (\<lambda>d1.
      Inr (d1\<lparr>dk_manifest := Some body\<rparr>, m1)))))"

section \<open>Checkpoint files\<close>

definition checkpoint_magic_v2 :: bytes where "checkpoint_magic_v2 = ''TDBCHK01''"
definition checkpoint_magic_v3 :: bytes where "checkpoint_magic_v3 = ''TDBCHK03''"
definition checkpoint_format_version :: u32 where "checkpoint_format_version = 4"
definition checkpoint_legacy_compact_format_version :: u32 where "checkpoint_legacy_compact_format_version = 2"
definition checkpoint_legacy_json_format_version :: u32 where "checkpoint_legacy_json_format_version = 1"

definition checkpoint_binary_relative_path :: "epoch \<Rightarrow> string" where
  "checkpoint_binary_relative_path e = ''checkpoints/checkpoint-'' @ show_nat (unat e) @ ''.tchk''"

definition checkpoint_json_relative_path :: "epoch \<Rightarrow> string" where
  "checkpoint_json_relative_path e = ''checkpoints/checkpoint-'' @ show_nat (unat e) @ ''.json''"

definition write_checkpoint_file ::
    "eng_prims \<Rightarrow> bytes \<Rightarrow> disk \<Rightarrow> epoch \<Rightarrow> table_schema list \<Rightarrow> stored_record list \<Rightarrow>
     idempotency_receipt list \<Rightarrow> job_catalog \<Rightarrow> encryption_context option \<Rightarrow> disk result" where
  "write_checkpoint_file P nonce d e schemas records receipts jobs encryption =
     rbind (json_result (checkpoint_json P
       \<lparr>cp_format_version = checkpoint_format_version, cp_epoch = e, cp_schemas = schemas,
        cp_records = records, cp_idempotency_receipts = receipts, cp_job_catalog = jobs\<rparr>)) (\<lambda>plain.
     rbind (case encryption of
              Some ctx \<Rightarrow> encrypt_artifact (art_of_prims P) nonce ctx ''checkpoint'' plain
            | None \<Rightarrow> Inr plain) (\<lambda>payload.
     let body = checkpoint_magic_v3 @ sha256 P payload @ payload in
     Inr (d\<lparr>dk_checkpoints := bm_insert e body (dk_checkpoints d)\<rparr>)))"

definition read_framed_checkpoint_file ::
    "eng_prims \<Rightarrow> string \<Rightarrow> bytes \<Rightarrow> encryption_context option \<Rightarrow> checkpoint_file result" where
  "read_framed_checkpoint_file P path body encryption =
     rbind (ensure (\<not> length body \<le> 8 + 32)
       (ManifestCorruption (''checkpoint payload missing at '' @ path))) (\<lambda>_.
     let expected = slice 8 40 body; payload = drop 40 body in
     rbind (ensure (expected \<noteq> zero32)
       (ManifestCorruption (''missing checkpoint checksum at '' @ path))) (\<lambda>_.
     rbind (ensure (sha256 P payload = expected)
       (ManifestCorruption (''checkpoint checksum mismatch at '' @ path @ '': expected '' @
          debug_bytes expected @ '', got '' @ debug_bytes (sha256 P payload)))) (\<lambda>_.
     rbind (decrypt_artifact_if_needed (art_of_prims P) encryption ''checkpoint'' payload) (\<lambda>plain.
     rbind (case checkpoint_parse P plain of
              Inl err \<Rightarrow> Inl (ManifestCorruption (''failed to parse checkpoint file at '' @ path @ '': '' @ err))
            | Inr p \<Rightarrow> Inr p) (\<lambda>p.
     rbind (ensure (cp_format_version p = checkpoint_format_version)
       (ManifestCorruption (''unsupported checkpoint format version '' @
          show_nat (unat (cp_format_version p))))) (\<lambda>_.
     Inr (checkpoint_payload.extend p (checkpoint_file.fields expected))))))))"

definition compute_checkpoint_checksum :: "eng_prims \<Rightarrow> checkpoint_file \<Rightarrow> bytes result" where
  "compute_checkpoint_checksum P c =
     rbind (json_result (checkpoint_file_json P (c\<lparr>cp_checksum := zero32\<rparr>))) (\<lambda>bs. Inr (sha256 P bs))"

definition verify_checkpoint_file ::
    "eng_prims \<Rightarrow> string \<Rightarrow> checkpoint_file \<Rightarrow> u32 \<Rightarrow> checkpoint_file result" where
  "verify_checkpoint_file P path c version =
     rbind (ensure (cp_format_version c = version)
       (ManifestCorruption (''unsupported checkpoint format version '' @
          show_nat (unat (cp_format_version c))))) (\<lambda>_.
     let expected = cp_checksum c in
     rbind (ensure (expected \<noteq> zero32)
       (ManifestCorruption (''missing checkpoint checksum at '' @ path))) (\<lambda>_.
     rbind (compute_checkpoint_checksum P c) (\<lambda>actual.
     rbind (ensure (actual = expected)
       (ManifestCorruption (''checkpoint checksum mismatch at '' @ path @ '': expected '' @
          debug_bytes expected @ '', got '' @ debug_bytes actual))) (\<lambda>_.
     Inr c))))"

definition read_legacy_binary_checkpoint_file ::
    "eng_prims \<Rightarrow> string \<Rightarrow> bytes \<Rightarrow> checkpoint_file result" where
  "read_legacy_binary_checkpoint_file P path body =
     rbind (ensure (\<not> length body \<le> 8)
       (ManifestCorruption (''checkpoint payload missing at '' @ path))) (\<lambda>_.
     rbind (case checkpoint_file_parse P (drop 8 body) of
              Inl err \<Rightarrow> Inl (ManifestCorruption (''failed to parse checkpoint file at '' @ path @ '': '' @ err))
            | Inr c \<Rightarrow> Inr c) (\<lambda>c.
     verify_checkpoint_file P path c checkpoint_legacy_compact_format_version))"

definition read_binary_checkpoint_file ::
    "eng_prims \<Rightarrow> string \<Rightarrow> bytes \<Rightarrow> encryption_context option \<Rightarrow> checkpoint_file result" where
  "read_binary_checkpoint_file P path body encryption =
     (if starts_with body checkpoint_magic_v3 then read_framed_checkpoint_file P path body encryption
      else if starts_with body checkpoint_magic_v2 then read_legacy_binary_checkpoint_file P path body
      else Inl (ManifestCorruption (''checkpoint magic mismatch at '' @ path)))"

definition read_json_checkpoint_file :: "eng_prims \<Rightarrow> string \<Rightarrow> bytes option \<Rightarrow> checkpoint_file result" where
  "read_json_checkpoint_file P path content =
     rbind (ok_or (ManifestCorruption (''failed to read checkpoint file at '' @ path @
       '': No such file or directory (os error 2)'')) content) (\<lambda>body.
     rbind (case checkpoint_file_parse P body of
              Inl err \<Rightarrow> Inl (ManifestCorruption (''failed to parse checkpoint file at '' @ path @ '': '' @ err))
            | Inr c \<Rightarrow> Inr c) (\<lambda>c.
     verify_checkpoint_file P path c checkpoint_legacy_json_format_version))"

definition read_checkpoint_file ::
    "eng_prims \<Rightarrow> string \<Rightarrow> disk \<Rightarrow> epoch \<Rightarrow> encryption_context option \<Rightarrow> checkpoint_file result" where
  "read_checkpoint_file P dir d e encryption =
     (case bm_get (dk_checkpoints d) e of
        Some body \<Rightarrow>
          read_binary_checkpoint_file P (dir @ ''/'' @ checkpoint_binary_relative_path e) body encryption
      | None \<Rightarrow>
          read_json_checkpoint_file P (dir @ ''/'' @ checkpoint_json_relative_path e)
            (bm_get (dk_json_checkpoints d) e))"

text \<open>\<open>write_job_catalog_file\<close>; nothing reads this file back.\<close>

definition write_job_catalog_file ::
    "eng_prims \<Rightarrow> bytes \<Rightarrow> disk \<Rightarrow> job_catalog \<Rightarrow> encryption_context option \<Rightarrow> disk result" where
  "write_job_catalog_file P nonce d jobs encryption =
     rbind (json_result (job_catalog_json P jobs)) (\<lambda>plain.
     rbind (case encryption of
              Some ctx \<Rightarrow> encrypt_artifact (art_of_prims P) nonce ctx ''jobs'' plain
            | None \<Rightarrow> Inr plain) (\<lambda>body.
     Inr (d\<lparr>dk_job_catalog := Some body\<rparr>)))"

definition truncate_active_wal :: "disk \<Rightarrow> disk" where
  "truncate_active_wal d = d\<lparr>dk_wal := []\<rparr>"

end
