(* ===== verification/Engine.thy ===== *)
theory Engine
  imports Manifest_File
begin

text \<open>
  The database handle of \<open>crates/tracedb-query/src/lib.rs\<close>: opening a directory with recovery
  (\<open>open_with_options\<close>), the write commands, job commands, checkpoints, and the staleness check
  that precedes every write.

  An operation maps a state to a result and a new state, also when it fails: what an operation
  changed before it returned an error stays changed. The state of a handle is the handle and the
  directory. The lexical cache is left out; it is only cleared by the operations here.

  The write lock is free in the model (one caller at a time). A handle holds the engine lock of
  its directory, and \<open>flock\<close> refuses a second lock on a new file description, so a handle that
  finds itself stale and reopens its directory always fails in \<open>EngineLock::acquire\<close>.
\<close>

section \<open>Operations with a state\<close>

type_synonym ('s, 'a) op = "'s \<Rightarrow> 'a result \<times> 's"

definition ebind :: "('s, 'a) op \<Rightarrow> ('a \<Rightarrow> ('s, 'b) op) \<Rightarrow> ('s, 'b) op" where
  "ebind m f s = (case m s of (Inl e, s') \<Rightarrow> (Inl e, s') | (Inr x, s') \<Rightarrow> f x s')"

definition ereturn :: "'a \<Rightarrow> ('s, 'a) op" where
  "ereturn x s = (Inr x, s)"

text \<open>A computation that only reads the state.\<close>

definition ereads :: "('s \<Rightarrow> 'a result) \<Rightarrow> ('s, 'a) op" where
  "ereads f s = (f s, s)"

definition emodify :: "('s \<Rightarrow> 's) \<Rightarrow> ('s, unit) op" where
  "emodify f s = (Inr (), f s)"

text \<open>A computation that changes the state when it succeeds.\<close>

definition eupdates :: "('s \<Rightarrow> ('a \<times> 's) result) \<Rightarrow> ('s, 'a) op" where
  "eupdates f s = (case f s of Inl e \<Rightarrow> (Inl e, s) | Inr (x, s') \<Rightarrow> (Inr x, s'))"

section \<open>The handle\<close>

record trace_db =
  td_dir :: string
  td_manifest :: manifest
  td_store :: store
  td_wal :: wal
  td_encryption :: "encryption_context option"
  td_receipts :: "idempotency_receipt list"
  td_jobs :: job_catalog
  td_last_recovery_torn_tail :: "torn_wal_tail option"

type_synonym eng_state = "trace_db \<times> disk"

record open_options =
  oo_master_key :: "master_key option"
  oo_encryption_context :: "encryption_context option"
  oo_use_env_master_key :: bool

definition options_from_env :: open_options where
  "options_from_env =
     \<lparr>oo_master_key = None, oo_encryption_context = None, oo_use_env_master_key = True\<rparr>"

definition options_without_tde :: open_options where
  "options_without_tde =
     \<lparr>oo_master_key = None, oo_encryption_context = None, oo_use_env_master_key = False\<rparr>"

definition options_existing_context :: "encryption_context option \<Rightarrow> open_options" where
  "options_existing_context ctx =
     \<lparr>oo_master_key = None, oo_encryption_context = ctx, oo_use_env_master_key = False\<rparr>"

text \<open>\<open>master_key\<close>; \<open>env\<close> is the value of \<open>TRACEDB_MASTER_KEY_B64\<close>.\<close>

definition options_master_key ::
    "eng_prims \<Rightarrow> string option \<Rightarrow> open_options \<Rightarrow> master_key option result" where
  "options_master_key P env opts =
     (case oo_master_key opts of
        Some k \<Rightarrow> Inr (Some k)
      | None \<Rightarrow> if oo_use_env_master_key opts then master_key_from_env (art_of_prims P) env else Inr None)"

definition upsert_schema :: "table_schema list \<Rightarrow> table_schema \<Rightarrow> table_schema list" where
  "upsert_schema schemas s =
     (if find_schema schemas (ts_name s) \<noteq> None
      then update_first (\<lambda>x. ts_name x = ts_name s) (\<lambda>_. s) schemas
      else schemas @ [s])"

section \<open>Opening\<close>

text \<open>A missing manifest is created; \<open>dek\<close> and \<open>nonce\<close> are the random bytes that are drawn.\<close>

definition create_manifest_if_missing ::
    "eng_prims \<Rightarrow> bytes \<Rightarrow> bytes \<Rightarrow> string \<Rightarrow> master_key option \<Rightarrow> (disk, unit) op" where
  "create_manifest_if_missing P dek nonce dir mk =
     eupdates (\<lambda>d.
       if dk_manifest d = None \<and> dk_manifest_bak d = None then
         let m0 = manifest_empty (database_id_from_path (prims.truncate P) dir) in
         rbind (case mk of
                  None \<Rightarrow> Inr m0
                | Some k \<Rightarrow> rbind (ec_create (art_of_prims P) dek nonce k (mf_database_id m0)) (\<lambda>(_, metadata).
                              Inr (m0\<lparr>mf_encryption := Some metadata\<rparr>))) (\<lambda>m.
         rbind (write_manifest P d m) (\<lambda>(d', _). Inr ((), d')))
       else Inr ((), d))"

definition open_encryption ::
    "eng_prims \<Rightarrow> open_options \<Rightarrow> master_key option \<Rightarrow> manifest \<Rightarrow> encryption_context option result" where
  "open_encryption P opts mk m =
     (case mf_encryption m of
        None \<Rightarrow> Inr None
      | Some metadata \<Rightarrow>
          (case oo_encryption_context opts of
             Some ctx \<Rightarrow>
               if ec_key_id ctx = em_key_id metadata then Inr (Some ctx)
               else Inl (Crypto (''failed to unwrap database encryption key for key_id '' @ em_key_id metadata))
           | None \<Rightarrow>
               rbind (ok_or (Crypto ''TRACEDB_MASTER_KEY_B64 is required to open encrypted TraceDB data'') mk) (\<lambda>k.
               rbind (ec_from_metadata (art_of_prims P) k (mf_database_id m) metadata) (\<lambda>ctx.
               Inr (Some ctx)))))"

text \<open>A database without encryption gets a data key when it is opened with a master key.\<close>

definition adopt_master_key ::
    "eng_prims \<Rightarrow> bytes \<Rightarrow> bytes \<Rightarrow> master_key option \<Rightarrow> manifest \<Rightarrow> encryption_context option \<Rightarrow>
     (disk, manifest \<times> encryption_context option) op" where
  "adopt_master_key P dek nonce mk m encryption =
     eupdates (\<lambda>d.
       case (encryption, mk) of
         (None, Some k) \<Rightarrow>
           rbind (ec_create (art_of_prims P) dek nonce k (mf_database_id m)) (\<lambda>(ctx, metadata).
           rbind (write_manifest P d (m\<lparr>mf_encryption := Some metadata\<rparr>)) (\<lambda>(d', m').
           Inr ((m', Some ctx), d')))
       | _ \<Rightarrow> Inr ((m, encryption), d))"

text \<open>What a checkpoint restores: the manifest, the store, the receipts and the jobs.\<close>

definition load_checkpoint ::
    "eng_prims \<Rightarrow> string \<Rightarrow> disk \<Rightarrow> encryption_context option \<Rightarrow> manifest \<Rightarrow>
     (manifest \<times> store \<times> idempotency_receipt list \<times> job_catalog) result" where
  "load_checkpoint P dir d encryption m =
     rbind (ensure (\<not> mf_latest_epoch m < mf_checkpoint_epoch m)
       (ManifestCorruption (''checkpoint epoch '' @ show_nat (unat (mf_checkpoint_epoch m)) @
          '' exceeds latest epoch '' @ show_nat (unat (mf_latest_epoch m))))) (\<lambda>_.
     if 0 < mf_checkpoint_epoch m then
       rbind (read_checkpoint_file P dir d (mf_checkpoint_epoch m) encryption) (\<lambda>cp.
       rbind (ensure (cp_epoch cp = mf_checkpoint_epoch m)
         (ManifestCorruption (''checkpoint epoch mismatch: manifest '' @
            show_nat (unat (mf_checkpoint_epoch m)) @ '', file '' @ show_nat (unat (cp_epoch cp))))) (\<lambda>_.
       Inr (if mf_schemas m = [] then m\<lparr>mf_schemas := cp_schemas cp\<rparr> else m,
            from_checkpoint_records (cp_records cp), cp_idempotency_receipts cp, cp_job_catalog cp)))
     else Inr (m, [], [], []))"

text \<open>The commits after the checkpoint are replayed over it.\<close>

definition replay_log ::
    "eng_prims \<Rightarrow> commit_record list \<Rightarrow> manifest \<times> store \<times> idempotency_receipt list \<times> job_catalog \<Rightarrow>
     (manifest \<times> store \<times> idempotency_receipt list \<times> job_catalog) result" where
  "replay_log P commits = (\<lambda>(m, st, receipts, jobs).
     let schemas = foldl upsert_schema (mf_schemas m) (concat (map cr_schema_changes commits)) in
     rbind (rfold job_replay jobs (concat (map cr_job_events commits))) (\<lambda>jobs'.
     rbind (apply_commits P schemas st commits) (\<lambda>st'.
     Inr (m\<lparr>mf_schemas := schemas\<rparr>, st', receipts @ concat (map cr_idempotency_receipts commits), jobs'))))"

text \<open>The manifest catches up with a log that is ahead of it.\<close>

definition advance_manifest ::
    "eng_prims \<Rightarrow> commit_record list \<Rightarrow> manifest \<Rightarrow> (disk, manifest) op" where
  "advance_manifest P commits m =
     eupdates (\<lambda>d.
       if commits \<noteq> [] \<and> mf_latest_epoch m < cr_epoch (last commits) then
         rbind (write_manifest P d
           (m\<lparr>mf_latest_epoch := cr_epoch (last commits), mf_durable_epoch := cr_epoch (last commits),
              mf_manifest_generation := mf_manifest_generation m + 1\<rparr>)) (\<lambda>(d', m').
         Inr (m', d'))
       else Inr (m, d))"

definition commits_after :: "epoch \<Rightarrow> wal_entry list \<Rightarrow> commit_record list" where
  "commits_after e entries = filter (\<lambda>c. e < cr_epoch c) (map we_commit entries)"

definition open_with_options ::
    "eng_prims \<Rightarrow> string option \<Rightarrow> bytes \<Rightarrow> bytes \<Rightarrow> open_options \<Rightarrow> string \<Rightarrow> (disk, trace_db) op" where
  "open_with_options P env dek nonce opts dir =
     ebind (ereads (\<lambda>_. options_master_key P env opts)) (\<lambda>mk.
     ebind (create_manifest_if_missing P dek nonce dir mk) (\<lambda>_.
     ebind (ereads (read_manifest P)) (\<lambda>m0.
     let m1 = (if mf_modules m0 = [] then m0\<lparr>mf_modules := builtin_module_manifests\<rparr> else m0) in
     ebind (ereads (\<lambda>_. open_encryption P opts mk m1)) (\<lambda>encryption0.
     ebind (adopt_master_key P dek nonce mk m1 encryption0) (\<lambda>(m2, encryption).
     ebind (eupdates (\<lambda>d. rbind (wal_open (log_of_prims P) encryption (dk_wal d)) (\<lambda>(w, file).
              Inr (w, d\<lparr>dk_wal := file\<rparr>)))) (\<lambda>w.
     ebind (ereads (\<lambda>d. scan_with_metadata (log_of_prims P) w (dk_wal d))) (\<lambda>scan.
     ebind (ereads (\<lambda>d. load_checkpoint P dir d encryption m2)) (\<lambda>(m3, st0, receipts0, jobs0).
     let commits = commits_after (mf_checkpoint_epoch m3) (sc_entries scan) in
     ebind (ereads (\<lambda>_. replay_log P commits (m3, st0, receipts0, jobs0))) (\<lambda>(m4, st, receipts, jobs).
     ebind (advance_manifest P commits m4) (\<lambda>m.
     ereturn \<lparr>td_dir = dir, td_manifest = m, td_store = st, td_wal = w, td_encryption = encryption,
              td_receipts = receipts, td_jobs = jobs,
              td_last_recovery_torn_tail = sc_torn_tail scan\<rparr>))))))))))"

section \<open>The write path\<close>

text \<open>
  \<open>refresh_from_disk_if_stale\<close>: nothing to do when neither the log nor the manifest on disk is
  ahead of the handle; otherwise the directory is reopened, which fails on the engine lock.
\<close>

definition handle_is_stale :: "trace_db \<Rightarrow> manifest \<Rightarrow> epoch option \<Rightarrow> bool" where
  "handle_is_stale db durable wal_last_epoch =
     ((case wal_last_epoch of None \<Rightarrow> False | Some e \<Rightarrow> mf_latest_epoch (td_manifest db) < e) \<or>
      mf_latest_epoch (td_manifest db) < mf_latest_epoch durable \<or>
      mf_checkpoint_epoch (td_manifest db) < mf_checkpoint_epoch durable \<or>
      mf_manifest_generation (td_manifest db) < mf_manifest_generation durable)"

definition engine_lock_held :: "trace_db \<Rightarrow> error" where
  "engine_lock_held db =
     Io IoAlreadyExists (''Engine directory is already locked by another process. Check '' @
       td_dir db @ ''/engine.lock for the PID.'')"

definition refresh_from_disk_if_stale :: "eng_prims \<Rightarrow> (eng_state, unit) op" where
  "refresh_from_disk_if_stale P =
     ebind (ereads (\<lambda>(db, d). read_manifest P d)) (\<lambda>durable.
     ebind (eupdates (\<lambda>(db, d).
       rbind (last_commit_epoch (log_of_prims P) (td_wal db) (dk_wal d)) (\<lambda>(w, e).
       Inr (e, (db\<lparr>td_wal := w\<rparr>, d))))) (\<lambda>wal_last_epoch.
     ereads (\<lambda>(db, d). ensure (\<not> handle_is_stale db durable wal_last_epoch) (engine_lock_held db))))"

definition append_to_wal :: "eng_prims \<Rightarrow> bytes \<Rightarrow> commit_record \<Rightarrow> (eng_state, unit) op" where
  "append_to_wal P nonce c =
     eupdates (\<lambda>(db, d).
       rbind (append_commit (log_of_prims P) nonce (td_wal db) (dk_wal d) c) (\<lambda>(w, file, _).
       Inr ((), (db\<lparr>td_wal := w\<rparr>, d\<lparr>dk_wal := file\<rparr>))))"

text \<open>The manifest in memory is changed before it is written, and gets its checksum after.\<close>

definition bump_manifest :: "eng_prims \<Rightarrow> epoch \<Rightarrow> (eng_state, unit) op" where
  "bump_manifest P e =
     ebind (emodify (\<lambda>(db, d).
       (db\<lparr>td_manifest := (td_manifest db)
            \<lparr>mf_latest_epoch := e, mf_durable_epoch := e,
             mf_manifest_generation := mf_manifest_generation (td_manifest db) + 1\<rparr>\<rparr>, d))) (\<lambda>_.
     eupdates (\<lambda>(db, d).
       let m = td_manifest db in
       rbind (write_manifest P d (m\<lparr>mf_parent_checksum := mf_manifest_checksum m\<rparr>)) (\<lambda>(d', m').
       Inr ((), (db\<lparr>td_manifest := m'\<rparr>, d')))))"

text \<open>
  The shape of every write command: check for staleness, plan from the handle, append the
  commit, install the plan in memory, write the manifest.
\<close>

definition commit_planned ::
    "eng_prims \<Rightarrow> bytes \<Rightarrow> (trace_db \<Rightarrow> (commit_record \<times> (trace_db \<Rightarrow> trace_db)) result) \<Rightarrow>
     (eng_state, epoch) op" where
  "commit_planned P nonce plan =
     ebind (refresh_from_disk_if_stale P) (\<lambda>_.
     ebind (ereads (\<lambda>(db, d). plan db)) (\<lambda>(c, install).
     ebind (append_to_wal P nonce c) (\<lambda>_.
     ebind (emodify (\<lambda>(db, d). (install db, d))) (\<lambda>_.
     ebind (bump_manifest P (cr_epoch c)) (\<lambda>_.
     ereturn (cr_epoch c))))))"

section \<open>Commits\<close>

definition table_for :: "trace_db \<Rightarrow> string \<Rightarrow> table_schema result" where
  "table_for db table = ok_or (UnknownTable table) (manifest_table (td_manifest db) table)"

abbreviation next_epoch :: "trace_db \<Rightarrow> epoch" where
  "next_epoch db \<equiv> epoch_next (mf_latest_epoch (td_manifest db))"

definition commit_for_db :: "trace_db \<Rightarrow> commit_record" where
  "commit_for_db db =
     commit_for_database (commit_empty (next_epoch db) (next_epoch db))
       (mf_database_id (td_manifest db)) (mf_branch_id (td_manifest db))"

text \<open>The record commands also set the schema and policy epochs to the epoch that they read.\<close>

definition record_commit_for_db :: "trace_db \<Rightarrow> commit_record" where
  "record_commit_for_db db =
     (commit_for_db db)\<lparr>cr_schema_epoch := mf_latest_epoch (td_manifest db),
                        cr_policy_epoch := mf_latest_epoch (td_manifest db)\<rparr>"

definition feature_invalidations_for_mutation :: "table_schema \<Rightarrow> record_input \<Rightarrow> feature_invalidation list" where
  "feature_invalidations_for_mutation s input =
     map (\<lambda>vec. \<lparr>fi_table = ri_table input, fi_tenant_id = ri_tenant_id input, fi_record_id = ri_id input,
                 fi_feature = vc_name vec, fi_status = Dirty\<rparr>)
       (filter (\<lambda>vec. \<not> bm_contains (ri_fields input) (vc_name vec) \<and>
                      list_ex (bm_contains (ri_fields input)) (vc_source_columns vec)) (ts_vector_columns s))"

definition module_events_for_schema :: "string \<Rightarrow> table_schema \<Rightarrow> module_commit_event list" where
  "module_events_for_schema event s =
     (if ts_text_indexed_columns s = [] then []
      else [\<lparr>me_module_id = ''tracedb-text'', me_event = event\<rparr>]) @
     (if ts_vector_columns s = [] then []
      else [\<lparr>me_module_id = ''tracedb-vector'', me_event = event\<rparr>])"

definition http_ok_json :: "eng_prims \<Rightarrow> json \<Rightarrow> string" where
  "http_ok_json P v =
     (let body = json_text P v; crlf = [CHR 0x0D, CHR 0x0A] in
      ''HTTP/1.1 200 OK'' @ crlf @ ''content-type: application/json'' @ crlf @ ''content-length: '' @
      show_nat (length body) @ crlf @ crlf @ body)"

definition idempotency_receipts_for_response ::
    "eng_prims \<Rightarrow> idempotency_receipt option \<Rightarrow> json \<Rightarrow> idempotency_receipt list" where
  "idempotency_receipts_for_response P receipt response =
     (case receipt of
        None \<Rightarrow> []
      | Some r \<Rightarrow> [r\<lparr>ir_response := http_ok_json P response\<rparr>])"

definition epoch_response :: "epoch \<Rightarrow> json" where
  "epoch_response e = JObject [(''epoch'', JNumber (PosInt e))]"

definition batch_response :: "epoch \<Rightarrow> nat \<Rightarrow> json" where
  "batch_response e n =
     JObject [(''epoch'', JNumber (PosInt e)), (''record_count'', JNumber (PosInt (of_nat n)))]"

definition delete_response :: "epoch \<Rightarrow> json" where
  "delete_response e = JObject [(''deleted'', JBool True), (''epoch'', JNumber (PosInt e))]"

text \<open>The assignments after the append: the delta, then the receipts of the commit.\<close>

definition install_delta :: "delta \<Rightarrow> commit_record \<Rightarrow> trace_db \<Rightarrow> trace_db" where
  "install_delta delta c db =
     db\<lparr>td_store := apply_delta (td_store db) delta,
        td_receipts := td_receipts db @ cr_idempotency_receipts c\<rparr>"

section \<open>Schemas\<close>

definition validate_vector_compatible :: "table_schema \<Rightarrow> unit \<Rightarrow> vector_column \<Rightarrow> unit result" where
  "validate_vector_compatible s u existing =
     (case find (\<lambda>v. vc_name v = vc_name existing) (ts_vector_columns s) of
        None \<Rightarrow> Inr ()
      | Some new \<Rightarrow>
          ensure (vc_dimensions new = vc_dimensions existing)
            (InvalidSchema (''incompatible schema change for vector column '' @ vc_name existing @
               '': existing committed rows use '' @ show_nat (vc_dimensions existing) @
               '' dimensions, new schema uses '' @ show_nat (vc_dimensions new))))"

definition validate_schema_compatible :: "trace_db \<Rightarrow> table_schema \<Rightarrow> unit result" where
  "validate_schema_compatible db s =
     (case manifest_table (td_manifest db) (ts_name s) of
        None \<Rightarrow> Inr ()
      | Some existing \<Rightarrow>
          if snapshot_all_visible_records (snapshot (td_store db) (mf_latest_epoch (td_manifest db))) (ts_name s) = []
          then Inr ()
          else
          let incompatible = (\<lambda>what. InvalidSchema (''incompatible schema change for table '' @ ts_name s @
                '': '' @ what @ '' id column cannot change after committed rows exist'')) in
          rbind (ensure (ts_primary_id_column s = ts_primary_id_column existing) (incompatible ''primary'')) (\<lambda>_.
          rbind (ensure (ts_tenant_id_column s = ts_tenant_id_column existing) (incompatible ''tenant'')) (\<lambda>_.
          rfold (validate_vector_compatible s) () (ts_vector_columns existing))))"

definition apply_schema_plan ::
    "eng_prims \<Rightarrow> table_schema \<Rightarrow> idempotency_receipt option \<Rightarrow> trace_db \<Rightarrow>
     (commit_record \<times> (trace_db \<Rightarrow> trace_db)) result" where
  "apply_schema_plan P s receipt db =
     rbind (validate s) (\<lambda>_.
     rbind (validate_schema_compatible db s) (\<lambda>_.
     let c = (commit_for_db db)
           \<lparr>cr_idempotency_receipts := idempotency_receipts_for_response P receipt (epoch_response (next_epoch db)),
            cr_schema_changes := [s],
            cr_module_events := \<lparr>me_module_id = ''tracedb-kernel'', me_event = ''schema.apply''\<rparr> #
              module_events_for_schema ''schema.apply'' s\<rparr>
     in Inr (c, \<lambda>db. db\<lparr>td_manifest := (td_manifest db)
                         \<lparr>mf_schemas := upsert_schema (mf_schemas (td_manifest db)) s\<rparr>,
                        td_receipts := td_receipts db @ cr_idempotency_receipts c\<rparr>)))"

definition apply_schema_with_idempotency_receipt ::
    "eng_prims \<Rightarrow> bytes \<Rightarrow> table_schema \<Rightarrow> idempotency_receipt option \<Rightarrow> (eng_state, epoch) op" where
  "apply_schema_with_idempotency_receipt P nonce s receipt =
     commit_planned P nonce (apply_schema_plan P s receipt)"

section \<open>Records\<close>

text \<open>\<open>insert\<close> and \<open>patch\<close> are one mutation; they differ in the module event that they log.\<close>

definition mutation_plan ::
    "eng_prims \<Rightarrow> string \<Rightarrow> record_input \<Rightarrow> idempotency_receipt option \<Rightarrow> trace_db \<Rightarrow>
     (commit_record \<times> (trace_db \<Rightarrow> trace_db)) result" where
  "mutation_plan P event input receipt db =
     rbind (table_for db (ri_table input)) (\<lambda>s.
     rbind (plan_mutation P (td_store db) s input (next_epoch db)) (\<lambda>delta.
     let c = (record_commit_for_db db)
           \<lparr>cr_mutations := [input],
            cr_feature_invalidations := feature_invalidations_for_mutation s input,
            cr_module_events := module_events_for_schema event s,
            cr_idempotency_receipts := idempotency_receipts_for_response P receipt (epoch_response (next_epoch db))\<rparr>
     in Inr (c, install_delta delta c)))"

definition insert_with_idempotency_receipt ::
    "eng_prims \<Rightarrow> bytes \<Rightarrow> record_input \<Rightarrow> idempotency_receipt option \<Rightarrow> (eng_state, epoch) op" where
  "insert_with_idempotency_receipt P nonce input receipt =
     commit_planned P nonce (mutation_plan P ''insert.index'' input receipt)"

text \<open>A patch request has the fields of a record input.\<close>

definition patch_with_idempotency_receipt ::
    "eng_prims \<Rightarrow> bytes \<Rightarrow> record_input \<Rightarrow> idempotency_receipt option \<Rightarrow> (eng_state, epoch) op" where
  "patch_with_idempotency_receipt P nonce input receipt =
     commit_planned P nonce (mutation_plan P ''record.patch'' input receipt)"

definition put_plan ::
    "eng_prims \<Rightarrow> record_input \<Rightarrow> idempotency_receipt option \<Rightarrow> trace_db \<Rightarrow>
     (commit_record \<times> (trace_db \<Rightarrow> trace_db)) result" where
  "put_plan P input receipt db =
     rbind (table_for db (ri_table input)) (\<lambda>s.
     rbind (plan_replacement P (td_store db) s input (next_epoch db)) (\<lambda>delta.
     let c = (record_commit_for_db db)
           \<lparr>cr_replacements := [input],
            cr_feature_invalidations := feature_invalidations_for_mutation s input,
            cr_module_events := module_events_for_schema ''record.put'' s,
            cr_idempotency_receipts := idempotency_receipts_for_response P receipt (epoch_response (next_epoch db))\<rparr>
     in Inr (c, install_delta delta c)))"

definition put_with_idempotency_receipt ::
    "eng_prims \<Rightarrow> bytes \<Rightarrow> record_input \<Rightarrow> idempotency_receipt option \<Rightarrow> (eng_state, epoch) op" where
  "put_with_idempotency_receipt P nonce input receipt = commit_planned P nonce (put_plan P input receipt)"

definition push_new_events :: "module_commit_event list \<Rightarrow> module_commit_event list \<Rightarrow> module_commit_event list" where
  "push_new_events events new =
     foldl (\<lambda>acc ev. if ev \<in> set acc then acc else acc @ [ev]) events new"

text \<open>One round of the loop of \<open>put_batch\<close>: the delta, the invalidations and the module events.\<close>

definition put_batch_step ::
    "eng_prims \<Rightarrow> trace_db \<Rightarrow> delta \<times> feature_invalidation list \<times> module_commit_event list \<Rightarrow> record_input \<Rightarrow>
     (delta \<times> feature_invalidation list \<times> module_commit_event list) result" where
  "put_batch_step P db = (\<lambda>(delta, invalidations, events) input.
     rbind (table_for db (ri_table input)) (\<lambda>s.
     rbind (plan_replacement_into P (td_store db) delta s input (next_epoch db)) (\<lambda>delta'.
     Inr (delta', invalidations @ feature_invalidations_for_mutation s input,
          push_new_events events (module_events_for_schema ''record.put'' s)))))"

definition put_batch_plan ::
    "eng_prims \<Rightarrow> record_input list \<Rightarrow> idempotency_receipt option \<Rightarrow> trace_db \<Rightarrow>
     (commit_record \<times> (trace_db \<Rightarrow> trace_db)) result" where
  "put_batch_plan P records receipt db =
     rbind (ensure (records \<noteq> []) (InvalidCommand ''batch put requires at least one record'')) (\<lambda>_.
     rbind (rfold (put_batch_step P db) ([], [], []) records) (\<lambda>(delta, invalidations, events).
     let c = (record_commit_for_db db)
           \<lparr>cr_replacements := records, cr_feature_invalidations := invalidations, cr_module_events := events,
            cr_idempotency_receipts := idempotency_receipts_for_response P receipt
              (batch_response (next_epoch db) (length records))\<rparr>
     in Inr (c, install_delta delta c)))"

definition put_batch_with_idempotency_receipt ::
    "eng_prims \<Rightarrow> bytes \<Rightarrow> record_input list \<Rightarrow> idempotency_receipt option \<Rightarrow> (eng_state, epoch) op" where
  "put_batch_with_idempotency_receipt P nonce records receipt =
     commit_planned P nonce (put_batch_plan P records receipt)"

definition delete_plan ::
    "eng_prims \<Rightarrow> record_deletion \<Rightarrow> idempotency_receipt option \<Rightarrow> trace_db \<Rightarrow>
     (commit_record \<times> (trace_db \<Rightarrow> trace_db)) result" where
  "delete_plan P deletion receipt db =
     rbind (table_for db (rd_table deletion)) (\<lambda>s.
     rbind (plan_delete (td_store db) s deletion (next_epoch db)) (\<lambda>delta.
     let c = (record_commit_for_db db)
           \<lparr>cr_deletions := [deletion],
            cr_module_events := module_events_for_schema ''record.delete'' s,
            cr_idempotency_receipts := idempotency_receipts_for_response P receipt (delete_response (next_epoch db))\<rparr>
     in Inr (c, install_delta delta c)))"

definition delete_with_idempotency_receipt ::
    "eng_prims \<Rightarrow> bytes \<Rightarrow> record_deletion \<Rightarrow> idempotency_receipt option \<Rightarrow> (eng_state, epoch) op" where
  "delete_with_idempotency_receipt P nonce deletion receipt =
     commit_planned P nonce (delete_plan P deletion receipt)"

definition receipt_plan ::
    "idempotency_receipt \<Rightarrow> trace_db \<Rightarrow> (commit_record \<times> (trace_db \<Rightarrow> trace_db)) result" where
  "receipt_plan receipt db =
     (let c = (record_commit_for_db db)
           \<lparr>cr_module_events := [\<lparr>me_module_id = ''tracedb-kernel'', me_event = ''idempotency.receipt''\<rparr>],
            cr_idempotency_receipts := [receipt]\<rparr>
      in Inr (c, \<lambda>db. db\<lparr>td_receipts := td_receipts db @ cr_idempotency_receipts c\<rparr>))"

definition record_idempotency_receipt ::
    "eng_prims \<Rightarrow> bytes \<Rightarrow> idempotency_receipt \<Rightarrow> (eng_state, epoch) op" where
  "record_idempotency_receipt P nonce receipt = commit_planned P nonce (receipt_plan receipt)"

definition feature_status_plan ::
    "feature_invalidation \<Rightarrow> trace_db \<Rightarrow> (commit_record \<times> (trace_db \<Rightarrow> trace_db)) result" where
  "feature_status_plan i db =
     rbind (table_for db (fi_table i)) (\<lambda>s.
     rbind (ensure (list_ex (\<lambda>vec. vc_name vec = fi_feature i) (ts_vector_columns s))
       (NotFound (''feature '' @ fi_table i @ ''.'' @ fi_record_id i @ ''.'' @ fi_feature i))) (\<lambda>_.
     rbind (plan_feature_invalidation (td_store db) i (next_epoch db)) (\<lambda>delta.
     let c = (record_commit_for_db db)
           \<lparr>cr_feature_invalidations := [i],
            cr_module_events := [\<lparr>me_module_id = ''tracedb-features'', me_event = ''feature.status.set''\<rparr>]\<rparr>
     in Inr (c, install_delta delta c))))"

definition set_feature_status :: "eng_prims \<Rightarrow> bytes \<Rightarrow> feature_invalidation \<Rightarrow> (eng_state, epoch) op" where
  "set_feature_status P nonce i =
     ebind (ereads (\<lambda>_. ensure (trim (fi_tenant_id i) \<noteq> []) (InvalidRecord ''tenant id cannot be empty''))) (\<lambda>_.
     commit_planned P nonce (feature_status_plan i))"

section \<open>Jobs\<close>

definition job_plan ::
    "job_event \<Rightarrow> job_catalog \<Rightarrow> trace_db \<Rightarrow> (commit_record \<times> (trace_db \<Rightarrow> trace_db)) result" where
  "job_plan event planned db =
     (let c = (record_commit_for_db db)
           \<lparr>cr_module_events := [\<lparr>me_module_id = ''tracedb-jobs'', me_event = ''job.event''\<rparr>],
            cr_job_events := [event]\<rparr>
      in Inr (c, \<lambda>db. db\<lparr>td_jobs := planned\<rparr>))"

definition append_job_event ::
    "eng_prims \<Rightarrow> bytes \<Rightarrow> bytes \<Rightarrow> job_event \<Rightarrow> job_catalog \<Rightarrow> (eng_state, epoch) op" where
  "append_job_event P nonce file_nonce event planned =
     ebind (commit_planned P nonce (job_plan event planned)) (\<lambda>e.
     ebind (eupdates (\<lambda>(db, d).
       rbind (write_job_catalog_file P file_nonce d (td_jobs db) (td_encryption db)) (\<lambda>d'. Inr ((), (db, d'))))) (\<lambda>_.
     ereturn e))"

text \<open>
  \<open>enqueue_job\<close>, \<open>lease_job\<close>, \<open>heartbeat_job\<close>, \<open>complete_job\<close> and \<open>fail_job\<close>: plan on a copy of the
  catalog (\<open>job_exec\<close>), then log the event. A lease that finds no job logs nothing.
\<close>

definition run_job_command ::
    "eng_prims \<Rightarrow> bytes \<Rightarrow> bytes \<Rightarrow> job_command \<Rightarrow> (eng_state, epoch option) op" where
  "run_job_command P nonce file_nonce cmd =
     ebind (ereads (\<lambda>(db, d). job_exec (td_jobs db) cmd)) (\<lambda>(planned, events).
     case events of
       [] \<Rightarrow> ereturn None
     | event # _ \<Rightarrow>
         ebind (append_job_event P nonce file_nonce event planned) (\<lambda>e. ereturn (Some e)))"

section \<open>Checkpoints\<close>

definition db_checkpoint :: "eng_prims \<Rightarrow> bytes \<Rightarrow> (eng_state, epoch) op" where
  "db_checkpoint P nonce =
     ebind (eupdates (\<lambda>(db, d).
       let e = mf_latest_epoch (td_manifest db) in
       rbind (write_checkpoint_file P nonce d e (mf_schemas (td_manifest db))
         (checkpoint_records (td_store db) e) (td_receipts db) (td_jobs db) (td_encryption db)) (\<lambda>d'.
       Inr (e, (db, d'))))) (\<lambda>e.
     ebind (ereads (\<lambda>(db, d).
       rbind (read_manifest P d) (\<lambda>m.
       rbind (ensure (mf_latest_epoch m = e)
         (ManifestCorruption (''checkpoint handle is stale: handle epoch '' @ show_nat (unat e) @
            '', manifest epoch '' @ show_nat (unat (mf_latest_epoch m))))) (\<lambda>_.
       Inr m)))) (\<lambda>m.
     ebind (eupdates (\<lambda>(db, d).
       rbind (write_manifest P d
         (m\<lparr>mf_checkpoint_epoch := e, mf_manifest_generation := mf_manifest_generation m + 1,
            mf_parent_checksum := mf_manifest_checksum m\<rparr>)) (\<lambda>(d', m').
       Inr (m', (db, d'))))) (\<lambda>m'.
     ebind (emodify (\<lambda>(db, d). (db, truncate_active_wal d))) (\<lambda>_.
     ebind (eupdates (\<lambda>(db, d).
       rbind (wal_open (log_of_prims P) (td_encryption db) (dk_wal d)) (\<lambda>(w, file).
       Inr ((), (db\<lparr>td_wal := w\<rparr>, d\<lparr>dk_wal := file\<rparr>))))) (\<lambda>_.
     ebind (emodify (\<lambda>(db, d). (db\<lparr>td_manifest := m'\<rparr>, d))) (\<lambda>_.
     ereturn e))))))"

text \<open>When a sequence of two operations succeeds.\<close>

lemma ebind_Inr: "ebind f g s = (Inr y, s') \<longleftrightarrow> (\<exists>x s1. f s = (Inr x, s1) \<and> g x s1 = (Inr y, s'))"
  by (auto simp: ebind_def split: prod.splits sum.splits)

end
