(* ===== verification/Temporal_Store.thy ===== *)
theory Temporal_Store
  imports TDB_Prelude
begin

text \<open>
  The contract of multi-version storage, stated once for any store whose writes happen at an
  epoch: a write changes what is read at its target from its epoch on, and nothing else. The
  clients of the contract are snapshot isolation (\<open>run_past\<close>), that a read is stable until the
  next write (\<open>run_frame\<close>), and that the history only grows. The record store interprets it.
\<close>

text \<open>The epochs of a sequence of writes never go back.\<close>

fun ascending :: "u64 \<Rightarrow> ('w \<times> u64) list \<Rightarrow> bool" where
  "ascending E [] = True"
| "ascending E ((w, e) # ws) = (E \<le> e \<and> ascending e ws)"

lemma ascending_above: "ascending E ws \<Longrightarrow> (w, e) \<in> set ws \<Longrightarrow> E \<le> e"
  by (induction ws arbitrary: E) fastforce+

text \<open>A run of writes.\<close>

definition run_writes :: "('s \<Rightarrow> 'w \<Rightarrow> u64 \<Rightarrow> 'x + 's) \<Rightarrow> 's \<Rightarrow> ('w \<times> u64) list \<Rightarrow> 'x + 's" where
  "run_writes put s ws = rfold (\<lambda>s (w, e). put s w e) s ws"

lemma run_writes_simps [simp]:
  "run_writes put s [] = Inr s"
  "run_writes put s ((w, e) # ws) = rbind (put s w e) (\<lambda>s'. run_writes put s' ws)"
  by (simp_all add: run_writes_def)

locale temporal_store =
  fixes read :: "'s \<Rightarrow> 'k \<Rightarrow> u64 \<Rightarrow> 'v option"
    and put :: "'s \<Rightarrow> 'w \<Rightarrow> u64 \<Rightarrow> 'x + 's"
    and target :: "'w \<Rightarrow> 'k"
    and ok :: "u64 \<Rightarrow> 's \<Rightarrow> bool"
  assumes write_ok: "ok E s \<Longrightarrow> E \<le> e \<Longrightarrow> put s w e = Inr s' \<Longrightarrow> ok e s'"
    and write_past: "ok E s \<Longrightarrow> E \<le> e \<Longrightarrow> put s w e = Inr s' \<Longrightarrow> e' < e \<Longrightarrow> read s' k e' = read s k e'"
    and write_frame: "put s w e = Inr s' \<Longrightarrow> k \<noteq> target w \<Longrightarrow> read s' k e' = read s k e'"
    and write_now: "ok E s \<Longrightarrow> E \<le> e \<Longrightarrow> put s w e = Inr s' \<Longrightarrow> e \<le> e' \<Longrightarrow>
      read s' (target w) e' = read s' (target w) e"
begin

lemma run_ok: "ok E s \<Longrightarrow> ascending E ws \<Longrightarrow> run_writes put s ws = Inr t \<Longrightarrow> \<exists>e. E \<le> e \<and> ok e t"
proof (induction ws arbitrary: E s)
  case Nil
  then show ?case by auto
next
  case (Cons we ws)
  obtain w e where we: "we = (w, e)" by (cases we)
  from Cons.prems we obtain u where u: "put s w e = Inr u" "run_writes put u ws = Inr t"
    by (auto simp: rbind_eq_Inr)
  with Cons.prems we have "ok e u" "E \<le> e" "ascending e ws" by (auto intro: write_ok)
  with Cons.IH u show ?case by (meson order_trans)
qed

theorem run_past:
  "ok E s \<Longrightarrow> ascending E ws \<Longrightarrow> run_writes put s ws = Inr t \<Longrightarrow> (\<And>w e. (w, e) \<in> set ws \<Longrightarrow> e' < e) \<Longrightarrow>
    read t k e' = read s k e'"
proof (induction ws arbitrary: E s)
  case Nil
  then show ?case by simp
next
  case (Cons we ws)
  obtain w e where we: "we = (w, e)" by (cases we)
  from Cons.prems we obtain u where u: "put s w e = Inr u" "run_writes put u ws = Inr t"
    by (auto simp: rbind_eq_Inr)
  with Cons.prems we have "ok e u" "E \<le> e" "ascending e ws" by (auto intro: write_ok)
  with Cons.IH [of e u] u Cons.prems(4) we have "read t k e' = read u k e'" by auto
  also have "\<dots> = read s k e'"
    using Cons.prems we u \<open>E \<le> e\<close> by (intro write_past [of E s e w u]) auto
  finally show ?case .
qed

theorem run_frame:
  "run_writes put s ws = Inr t \<Longrightarrow> (\<And>w e. (w, e) \<in> set ws \<Longrightarrow> k \<noteq> target w) \<Longrightarrow> read t k e' = read s k e'"
proof (induction ws arbitrary: s)
  case Nil
  then show ?case by simp
next
  case (Cons we ws)
  obtain w e where we: "we = (w, e)" by (cases we)
  from Cons.prems we obtain u where u: "put s w e = Inr u" "run_writes put u ws = Inr t"
    by (auto simp: rbind_eq_Inr)
  with Cons.IH [of u] Cons.prems(2) we have "read t k e' = read u k e'" by auto
  also have "\<dots> = read s k e'"
    using u Cons.prems(2) we by (intro write_frame [of s w e]) auto
  finally show ?case .
qed

text \<open>What a write stores is read from its epoch on, until another write to the same target.\<close>

theorem written_until_next:
  assumes "ok E s" and "E \<le> e" and "put s w e = Inr u" and "ascending e ws" and "run_writes put u ws = Inr t"
    and "e \<le> e'" and "\<And>w' e2. (w', e2) \<in> set ws \<Longrightarrow> target w' = target w \<Longrightarrow> e' < e2"
  shows "read t (target w) e' = read u (target w) e"
proof -
  have "read t (target w) e' = read u (target w) e'" if "ok e0 u'" "ascending e0 ws'" "run_writes put u' ws' = Inr t"
    "\<And>w' e2. (w', e2) \<in> set ws' \<Longrightarrow> target w' = target w \<Longrightarrow> e' < e2"
    "read u' (target w) e' = read u (target w) e'" for e0 u' ws'
    using that
  proof (induction ws' arbitrary: e0 u')
    case Nil
    then show ?case by simp
  next
    case (Cons we ws')
    obtain w' e2 where we: "we = (w', e2)" by (cases we)
    from Cons.prems we obtain v where v: "put u' w' e2 = Inr v" "run_writes put v ws' = Inr t"
      by (auto simp: rbind_eq_Inr)
    have asc: "e0 \<le> e2" "ascending e2 ws'" using Cons.prems(2) we by auto
    have "read v (target w) e' = read u' (target w) e'"
    proof (cases "target w' = target w")
      case True
      with Cons.prems(1,4) we v asc show ?thesis by (intro write_past [of e0 u' e2 w' v]) auto
    next
      case False
      with v show ?thesis by (intro write_frame [of u' w' e2]) auto
    qed
    moreover have "ok e2 v" using write_ok [OF Cons.prems(1) asc(1) v(1)] .
    ultimately show ?case
      using Cons.IH [of e2 v] v asc Cons.prems(4,5) by auto
  qed
  from this [OF write_ok [OF assms(1-3)] assms(4,5)] assms(7) write_now [OF assms(1-3,6)]
  show ?thesis by auto
qed

end

end
