(* ===== verification/Core_Props.thy ===== *)
theory Core_Props
  imports Core
begin

text \<open>
  Correctness of the core component. Schema validation is characterised by a declarative
  specification, \<open>schema_ok\<close>: the validator's nested loops, their early returns and their
  accumulated sets accept exactly the schemas in which every identifier is well-formed, all
  columns of all kinds are pairwise distinct, and every vector column derives from declared
  columns.
\<close>

section \<open>Identifiers\<close>

definition ident_ok :: "string \<Rightarrow> bool" where
  "ident_ok name \<longleftrightarrow> is_graphql_safe_identifier name \<and> \<not> starts_with name ''__''"

definition column_ok :: "string \<Rightarrow> bool" where
  "column_ok name \<longleftrightarrow> ident_ok name \<and> name \<notin> {''record_id'', ''version_id'', ''fields'', ''score''}"

definition vector_ok :: "string set \<Rightarrow> vector_column \<Rightarrow> bool" where
  "vector_ok declared v \<longleftrightarrow>
     column_ok (vc_name v) \<and> 0 < vc_dimensions v \<and> vc_source_columns v \<noteq> [] \<and>
     distinct (vc_source_columns v) \<and> set (vc_source_columns v) \<subseteq> declared"

definition schema_ok :: "table_schema \<Rightarrow> bool" where
  "schema_ok s \<longleftrightarrow>
     ident_ok (ts_name s) \<and> ident_ok (ts_primary_id_column s) \<and> ident_ok (ts_tenant_id_column s) \<and>
     (\<forall>c \<in> set (ts_scalar_columns s @ ts_text_indexed_columns s). column_ok c) \<and>
     (\<forall>v \<in> set (ts_vector_columns s).
        vector_ok ({ts_primary_id_column s, ts_tenant_id_column s} \<union>
                   set (ts_scalar_columns s) \<union> set (ts_text_indexed_columns s)) v) \<and>
     distinct (ts_primary_id_column s # ts_tenant_id_column s #
       ts_scalar_columns s @ ts_text_indexed_columns s @ map vc_name (ts_vector_columns s))"

text \<open>A name of ASCII letters, digits and underscores has no whitespace to trim.\<close>

definition name_char :: "char \<Rightarrow> bool" where
  "name_char c \<longleftrightarrow> c = CHR ''_'' \<or> is_ascii_alphanumeric c"

lemma strip_all_id:
  assumes "\<And>w c. w \<in> set ws \<Longrightarrow> c \<in> set w \<Longrightarrow> \<not> name_char c" and "list_all name_char s"
  shows "strip_all ws s = s"
proof -
  have "\<not> (w \<noteq> [] \<and> starts_with s w)" if "w \<in> set ws" for w
  proof
    assume w: "w \<noteq> [] \<and> starts_with s w"
    then have "hd w \<in> set w" and "hd w \<in> set s"
      by (auto simp: starts_with_iff_prefix) (meson hd_in_set set_mono_prefix subsetD)
    with assms that show False by (auto simp: list_all_iff)
  qed
  then have "find (\<lambda>w. w \<noteq> [] \<and> starts_with s w) ws = None"
    by (auto simp: find_None_iff)
  then show ?thesis by (simp add: strip_all.simps [of ws s])
qed

lemma whitespace_not_name: "w \<in> set whitespace_encodings \<Longrightarrow> c \<in> set w \<Longrightarrow> \<not> name_char c"
proof -
  have "list_all (list_all (\<lambda>c. \<not> name_char c)) whitespace_encodings"
    by code_simp
  then show "w \<in> set whitespace_encodings \<Longrightarrow> c \<in> set w \<Longrightarrow> \<not> name_char c"
    by (auto simp: list_all_iff)
qed

lemma trim_name_id: "list_all name_char s \<Longrightarrow> trim s = s"
  by (simp add: trim_def trim_start_def trim_end_def strip_all_id whitespace_not_name
        list_all_iff)
     (subst strip_all_id, auto simp: list_all_iff dest: whitespace_not_name)

lemma graphql_safe_name: "is_graphql_safe_identifier s \<Longrightarrow> s \<noteq> [] \<and> list_all name_char s"
  by (auto simp: is_graphql_safe_identifier_def name_char_def is_ascii_alphanumeric_def
        list_all_iff split: list.splits)

lemma validate_schema_identifier_iff:
  "validate_schema_identifier name ctx = Inr r \<longleftrightarrow> r = name \<and> ident_ok name"
proof (cases "is_graphql_safe_identifier name")
  case True
  then have "name \<noteq> []" and "trim name = name"
    using graphql_safe_name trim_name_id by blast+
  with True show ?thesis
    by (auto simp: validate_schema_identifier_def ident_ok_def Let_def)
next
  case False
  then show ?thesis
    by (auto simp: validate_schema_identifier_def ident_ok_def Let_def split: if_splits)
qed

section \<open>The loops of the validator\<close>

lemma reject_reserved_iff:
  "reject_reserved_result_column c = Inr u \<longleftrightarrow> c \<notin> {''record_id'', ''version_id'', ''fields'', ''score''}"
  by (simp add: reject_reserved_result_column_def)

lemma reject_overlap_iff: "reject_identity_overlap c i k k' = Inr u \<longleftrightarrow> c \<noteq> i"
  by (simp add: reject_identity_overlap_def)

lemmas validator_simps = rbind_eq_Inr validate_schema_identifier_iff reject_reserved_iff
  reject_overlap_iff bs_insert_def Let_def

lemma validate_columns_iff:
  "rfold (validate_column_step kind) seen cols = Inr r \<longleftrightarrow>
     (\<forall>c \<in> set cols. column_ok c) \<and> distinct cols \<and> set cols \<inter> set seen = {} \<and>
     r = fold bs_add cols seen"
  by (induction cols arbitrary: seen)
     (auto simp: validate_column_step_def validator_simps column_ok_def split: if_splits)

lemma validate_column_set_iff:
  "validate_column_set cols kind = Inr r \<longleftrightarrow>
     (\<forall>c \<in> set cols. column_ok c) \<and> distinct cols \<and> r = bs_collect cols"
  by (auto simp: validate_column_set_def validate_columns_iff bs_collect_def)

lemma declare_scalars_iff:
  "rfold (declare_scalar_step pid tid) d cols = Inr r \<longleftrightarrow>
     pid \<notin> set cols \<and> tid \<notin> set cols \<and> r = fold bs_add cols d"
  by (induction cols arbitrary: d) (auto simp: declare_scalar_step_def validator_simps)

lemma declare_texts_iff:
  "rfold (declare_text_step pid tid scalars) d cols = Inr r \<longleftrightarrow>
     pid \<notin> set cols \<and> tid \<notin> set cols \<and> set cols \<inter> set scalars = {} \<and> r = fold bs_add cols d"
  by (induction cols arbitrary: d)
     (auto simp: declare_text_step_def validator_simps split: if_splits)

lemma validate_sources_iff:
  "rfold (validate_source_step v declared) seen cols = Inr r \<longleftrightarrow>
     (\<forall>c \<in> set cols. ident_ok c \<and> c \<in> set declared) \<and> distinct cols \<and>
     set cols \<inter> set seen = {} \<and> r = fold bs_add cols seen"
  by (induction cols arbitrary: seen)
     (auto simp: validate_source_step_def validator_simps split: if_splits)

lemma validate_vector_step_iff:
  assumes "\<forall>c \<in> set declared. ident_ok c"
  shows "validate_vector_step pid tid scalars texts declared names v = Inr r \<longleftrightarrow>
     vector_ok (set declared) v \<and> vc_name v \<notin> {pid, tid} \<union> set scalars \<union> set texts \<union> set names \<and>
     r = bs_add (vc_name v) names"
  using assms
  by (auto simp: validate_vector_step_def validator_simps validate_sources_iff vector_ok_def
        column_ok_def split: if_splits)

lemma validate_vectors_iff:
  assumes "\<forall>c \<in> set declared. ident_ok c"
  shows "rfold (validate_vector_step pid tid scalars texts declared) names vs = Inr r \<longleftrightarrow>
     (\<forall>v \<in> set vs. vector_ok (set declared) v) \<and> distinct (map vc_name vs) \<and>
     vc_name ` set vs \<inter> ({pid, tid} \<union> set scalars \<union> set texts \<union> set names) = {} \<and>
     r = fold bs_add (map vc_name vs) names"
proof (induction vs arbitrary: names)
  case Nil
  then show ?case by auto
next
  case (Cons v vs)
  show ?case
    by (auto simp: rbind_eq_Inr validate_vector_step_iff [OF assms] Cons.IH)
qed

lemma set_fold_bs_add [simp]: "set (fold bs_add xs s) = set xs \<union> set s"
  by (induction xs arbitrary: s) auto

lemma validate_iff: "validate s = Inr () \<longleftrightarrow> schema_ok s"
proof -
  let ?pid = "ts_primary_id_column s" and ?tid = "ts_tenant_id_column s"
  let ?sc = "ts_scalar_columns s" and ?tx = "ts_text_indexed_columns s"
  define declared where
    "declared = fold bs_add (bs_collect ?tx) (fold bs_add (bs_collect ?sc) (bs_add ?tid (bs_add ?pid [])))"
  have dset: "set declared = {?pid, ?tid} \<union> set ?sc \<union> set ?tx"
    by (auto simp: declared_def)
  have "validate s = Inr () \<longleftrightarrow>
      ident_ok (ts_name s) \<and> ident_ok ?pid \<and> ident_ok ?tid \<and> ?pid \<noteq> ?tid \<and>
      (\<forall>c \<in> set ?sc. column_ok c) \<and> distinct ?sc \<and> ?pid \<notin> set ?sc \<and> ?tid \<notin> set ?sc \<and>
      (\<forall>c \<in> set ?tx. column_ok c) \<and> distinct ?tx \<and> ?pid \<notin> set ?tx \<and> ?tid \<notin> set ?tx \<and>
      set ?tx \<inter> set ?sc = {} \<and>
      (\<exists>r. rfold (validate_vector_step ?pid ?tid (bs_collect ?sc) (bs_collect ?tx) declared) []
             (ts_vector_columns s) = Inr r)"
    by (auto simp: validate_def validator_simps validate_column_set_iff declare_scalars_iff
          declare_texts_iff declared_def)
  also have "\<dots> \<longleftrightarrow> schema_ok s"
  proof (cases "ident_ok ?pid \<and> ident_ok ?tid \<and> (\<forall>c \<in> set ?sc \<union> set ?tx. column_ok c)")
    case True
    then have "\<forall>c \<in> set declared. ident_ok c"
      by (auto simp: dset column_ok_def)
    then show ?thesis
      by (auto simp: validate_vectors_iff dset schema_ok_def)
  next
    case False
    then show ?thesis by (auto simp: schema_ok_def)
  qed
  finally show ?thesis .
qed

lemma validate_vector_names: "validate s = Inr () \<Longrightarrow> distinct (map vc_name (ts_vector_columns s))"
  by (simp add: validate_iff schema_ok_def)

text \<open>C28: Schema validation accepts exactly the well-formed schemas: identifiers are GraphQL-safe
  and unreserved, no column name is used twice across the identity, scalar, text and vector
  columns, and every vector column has a positive dimension and distinct, declared sources.\<close>

theorem schema_valid_iff: "validate s = Inr () \<longleftrightarrow> schema_ok s"
  by (rule validate_iff)

text \<open>A find by table name returns the first schema with that name.\<close>

lemma find_schema_SomeD: "find_schema ss n = Some s \<Longrightarrow> s \<in> set ss \<and> ts_name s = n"
  by (auto simp: find_schema_def find_Some_iff)

lemma value_as_f32_vec_some_iff:
  "value_as_f32_vec cast v \<noteq> None \<longleftrightarrow> (\<exists>xs. v = JArray xs \<and> (\<forall>x \<in> set xs. as_number x \<noteq> None))"
proof -
  have "f32_elems cast xs \<noteq> None \<longleftrightarrow> (\<forall>x \<in> set xs. as_number x \<noteq> None)" for xs
    by (induction xs) (auto split: option.splits)
  then show ?thesis
    by (cases v) (auto simp: value_as_f32_vec_def as_array_def)
qed

end
