(* ===== verification/Store_Props.thy ===== *)
theory Store_Props
  imports Store Temporal_Store Core_Props
begin

text \<open>
  Properties of the record store model: record keys, version chains, the refinement of the store
  by a function from keys and epochs to records (an interpretation of \<open>temporal_store\<close>), planned
  changes, reads and scans, feature freshness, and checkpoints.
\<close>

section \<open>Record keys\<close>

abbreviation nul_free :: "string \<Rightarrow> bool" where
  "nul_free s \<equiv> char_of (0::nat) \<notin> set s"

lemma record_key_inj:
  assumes "nul_free t" "nul_free t'" "nul_free n" "nul_free n'"
  shows "record_key t n i = record_key t' n' i' \<longleftrightarrow> t = t' \<and> n = n' \<and> i = i'"
  using append_sep_inj [OF assms(1,2), of "n @ byte_of 0 # i" "n' @ byte_of 0 # i'"]
    append_sep_inj [OF assms(3,4), of i i']
  by (simp add: record_key_def record_key_prefix_def)

lemma record_key_prefix_iff:
  assumes "nul_free t" "nul_free t'" "nul_free n" "nul_free n'"
  shows "starts_with (record_key t' n' i) (record_key_prefix t n) \<longleftrightarrow> t' = t \<and> n' = n"
proof
  assume "starts_with (record_key t' n' i) (record_key_prefix t n)"
  then obtain r where "record_key t' n' i = record_key t n r"
    by (auto simp: starts_with_iff_prefix prefix_def record_key_def)
  with record_key_inj [OF assms(2,1,4,3)] show "t' = t \<and> n' = n" by simp
qed (simp add: record_key_def)

text \<open>
  The condition is needed: nothing in the source rejects a NUL in a tenant id, and then two
  different records share a key.
\<close>

lemma record_key_nul_collision:
  "record_key table (a @ [byte_of 0] @ b) rid = record_key table a (b @ [byte_of 0] @ rid)"
  by (simp add: record_key_def record_key_prefix_def)

section \<open>Version chains\<close>

text \<open>A record without the field that later writes change.\<close>

definition erase_end :: "stored_record \<Rightarrow> stored_record" where
  "erase_end r = r\<lparr>sr_header := (sr_header r)\<lparr>rh_end_epoch := None\<rparr>\<rparr>"

text \<open>
  The chain invariant up to an epoch: every version begins by then, every version but the last is
  closed by then, and the last one is open.
\<close>

definition chain_ok :: "epoch \<Rightarrow> versions \<Rightarrow> bool" where
  "chain_ok E vs \<longleftrightarrow> vs \<noteq> [] \<and> is_open (last vs) \<and>
     (\<forall>r \<in> set vs. rh_begin_epoch (sr_header r) \<le> E) \<and>
     (\<forall>r \<in> set (butlast vs). \<exists>x \<le> E. rh_end_epoch (sr_header r) = Some x)"

definition history :: "versions \<Rightarrow> epoch \<Rightarrow> stored_record option" where
  "history vs e = map_option erase_end (visible_record_at vs e)"

lemma map_rfind_update_last:
  assumes "\<And>x. x \<in> set xs \<Longrightarrow> Q x \<Longrightarrow> P (f x) = P x" and "\<And>x. Q x \<Longrightarrow> g (f x) = g x"
  shows "map_option g (rfind P (update_last Q f xs)) = map_option g (rfind P xs)"
  using assms(1)
proof (induction xs rule: rev_induct)
  case Nil
  then show ?case by simp
next
  case (snoc x xs)
  then show ?case using assms(2) by (cases "Q x") auto
qed

lemma update_last_open_chain:
  assumes "chain_ok E vs"
  shows "update_last is_open f vs = butlast vs @ [f (last vs)]"
proof -
  have "vs = butlast vs @ [last vs]" using assms by (simp add: chain_ok_def)
  then show ?thesis using assms by (metis chain_ok_def update_last_snoc)
qed

text \<open>A new version at an epoch: read from there on, and the past is as it was.\<close>

lemma history_install:
  assumes "vs = [] \<or> chain_ok E vs" and "E \<le> e" and "rh_begin_epoch (sr_header r) = e" and "is_open r"
  shows "history (install_version vs r e) e' =
      (if e \<le> e' then (if rh_tombstone (sr_header r) = None then Some (erase_end r) else None)
       else history vs e')"
    and "chain_ok e (install_version vs r e)"
proof -
  let ?closed = "update_last is_open (set_end_epoch e) vs"
  have closed_all: "\<exists>x \<le> e. rh_end_epoch (sr_header v) = Some x" if "v \<in> set ?closed" for v
    using assms(1)
  proof
    assume "vs = []" then show ?thesis using that by simp
  next
    assume c: "chain_ok E vs"
    with that have "v \<in> set (butlast vs) \<or> v = set_end_epoch e (last vs)"
      by (auto simp: update_last_open_chain)
    with c assms(2) show ?thesis by (auto simp: chain_ok_def intro: order_trans)
  qed
  have begins: "rh_begin_epoch (sr_header v) \<le> e" if v: "v \<in> set ?closed" for v
    using assms(1)
  proof
    assume "vs = []" then show ?thesis using v by simp
  next
    assume c: "chain_ok E vs"
    with v have "v \<in> set (butlast vs) \<or> v = set_end_epoch e (last vs)"
      by (auto simp: update_last_open_chain)
    moreover have "last vs \<in> set vs" and "set (butlast vs) \<subseteq> set vs"
      using c by (auto simp: chain_ok_def dest: in_set_butlastD)
    ultimately have "rh_begin_epoch (sr_header v) \<le> E"
      using c by (auto simp: chain_ok_def)
    with assms(2) show ?thesis by simp
  qed
  show "chain_ok e (install_version vs r e)"
    using closed_all begins assms(3,4) by (auto simp: chain_ok_def install_version_def)
  show "history (install_version vs r e) e' =
      (if e \<le> e' then (if rh_tombstone (sr_header r) = None then Some (erase_end r) else None)
       else history vs e')"
  proof (cases "e \<le> e'")
    case True
    have "visible_record_at ?closed e' = None"
      unfolding visible_record_at_def rfind_None_iff
      using closed_all True by (fastforce simp: in_epoch_def)
    with True assms(3,4) show ?thesis
      by (simp add: history_def install_version_def visible_record_at_def in_epoch_def is_open_def)
  next
    case False
    then have "e' < e" by simp
    have "map_option erase_end (visible_record_at ?closed e') = map_option erase_end (visible_record_at vs e')"
      unfolding visible_record_at_def
      by (rule map_rfind_update_last) (use \<open>e' < e\<close> in \<open>auto simp: in_epoch_def is_open_def erase_end_def\<close>)
    with False assms(3) show ?thesis
      by (simp add: history_def install_version_def visible_record_at_def in_epoch_def)
  qed
qed

lemma chain_ok_mono: "chain_ok E vs \<Longrightarrow> E \<le> e \<Longrightarrow> chain_ok e vs"
  by (auto simp: chain_ok_def)

text \<open>The live version of a chain can only be its last one.\<close>

lemma live_is_last:
  assumes "chain_ok E vs" and "rfind is_live vs = Some r"
  shows "r = last vs" and "update_last is_live f vs = update_last is_open f vs"
proof -
  let ?b = "butlast vs" and ?l = "last vs"
  have vs: "vs = ?b @ [?l]" using assms(1) by (simp add: chain_ok_def)
  have "\<not> is_live v" if "v \<in> set ?b" for v
    using assms(1) that by (auto simp: chain_ok_def is_live_def)
  then have none: "rfind is_live ?b = None" by (simp add: rfind_None_iff)
  from assms(2) have "rfind is_live (?b @ [?l]) = Some r" by (subst vs [symmetric])
  with none have live: "is_live ?l" and "r = ?l" by (auto split: if_splits)
  then show "r = last vs" by simp
  have "update_last is_live f (?b @ [?l]) = ?b @ [f ?l]" using live by simp
  with vs update_last_open_chain [OF assms(1), of f] show "update_last is_live f vs = update_last is_open f vs"
    by simp
qed

section \<open>Writes to the store\<close>

datatype store_write =
    Replace table_schema record_input
  | Mutate table_schema record_input
  | Remove table_schema record_deletion

fun apply_write :: "'z prims_scheme \<Rightarrow> store \<Rightarrow> store_write \<Rightarrow> epoch \<Rightarrow> store result" where
  "apply_write P st (Replace s m) e = rbind (apply_replacement P st s m e) (\<lambda>(st', _). Inr st')"
| "apply_write P st (Mutate s m) e = rbind (apply_mutation P st s m e) (\<lambda>(st', _). Inr st')"
| "apply_write P st (Remove s d) e = rbind (apply_delete st s d e) (\<lambda>(st', _). Inr st')"

text \<open>Table, tenant and record id of a write and of a record.\<close>

fun write_ids :: "store_write \<Rightarrow> string \<times> string \<times> string" where
  "write_ids (Replace s m) = (ri_table m, ri_tenant_id m, ri_id m)"
| "write_ids (Mutate s m) = (ri_table m, ri_tenant_id m, ri_id m)"
| "write_ids (Remove s d) = (rd_table d, rd_tenant_id d, rd_id d)"

definition write_key :: "store_write \<Rightarrow> string" where
  "write_key w = (case write_ids w of (t, n, i) \<Rightarrow> record_key t n i)"

lemma write_key_simps [simp]:
  "write_key (Replace s m) = record_key (ri_table m) (ri_tenant_id m) (ri_id m)"
  "write_key (Mutate s m) = record_key (ri_table m) (ri_tenant_id m) (ri_id m)"
  "write_key (Remove s d) = record_key (rd_table d) (rd_tenant_id d) (rd_id d)"
  by (simp_all add: write_key_def)

definition record_ids :: "stored_record \<Rightarrow> string \<times> string \<times> string" where
  "record_ids r = (rh_table_id (sr_header r), rh_tenant_id (sr_header r), rh_record_id (sr_header r))"

lemma header_key_ids: "header_key r = (case record_ids r of (t, n, i) \<Rightarrow> record_key t n i)"
  by (simp add: header_key_def record_ids_def)

text \<open>The store invariant up to an epoch, and what is read at a key.\<close>

definition store_ok :: "epoch \<Rightarrow> store \<Rightarrow> bool" where
  "store_ok E st \<longleftrightarrow> bm_wf st \<and> (\<forall>(k, vs) \<in> set st. chain_ok E vs)"

definition read_store :: "store \<Rightarrow> string \<Rightarrow> epoch \<Rightarrow> stored_record option" where
  "read_store st k e = (case bm_get st k of None \<Rightarrow> None | Some vs \<Rightarrow> history vs e)"

lemma read_store_get:
  "read_store st (record_key table tenant rid) e = map_option erase_end (get_record st table tenant rid e)"
  by (simp add: read_store_def get_record_def history_def split: option.splits)

lemma store_ok_chain: "store_ok E st \<Longrightarrow> versions_or_default st k = [] \<or> chain_ok E (versions_or_default st k)"
  by (auto simp: store_ok_def split: option.splits dest!: bm_getD)

lemma store_ok_insert [wf_intros]:
  assumes "store_ok E st" and "E \<le> e" and "chain_ok e vs"
  shows "store_ok e (bm_insert k vs st)"
proof -
  have wf: "bm_wf (bm_insert k vs st)" using assms(1) by (simp add: store_ok_def)
  have "chain_ok e us" if "(j, us) \<in> set (bm_insert k vs st)" for j us
  proof -
    from that wf have "bm_get (bm_insert k vs st) j = Some us" by (simp add: bm_entries_get)
    then have "us = vs \<or> chain_ok E us"
      using assms(1) by (auto simp: store_ok_def split: if_splits dest!: bm_getD)
    with assms(2,3) show ?thesis by (auto intro: chain_ok_mono)
  qed
  with wf show ?thesis by (auto simp: store_ok_def)
qed

text \<open>Every write pushes one open version that begins at its epoch.\<close>

lemma new_record_header [simp]:
  "rh_begin_epoch (sr_header (new_record m e f g)) = e" "is_open (new_record m e f g)"
  "rh_tombstone (sr_header (new_record m e f g)) = None" "sr_fields (new_record m e f g) = f"
  "sr_features (new_record m e f g) = g"
  "rh_table_id (sr_header (new_record m e f g)) = ri_table m"
  "rh_tenant_id (sr_header (new_record m e f g)) = ri_tenant_id m"
  "rh_record_id (sr_header (new_record m e f g)) = ri_id m"
  by (simp_all add: new_record_def is_open_def)

lemma tombstone_record_header [simp]:
  "rh_begin_epoch (sr_header (tombstone_record d e p)) = e" "is_open (tombstone_record d e p)"
  "rh_tombstone (sr_header (tombstone_record d e p)) =
     Some (if trim (rd_tombstone d) = [] then ''user_delete'' else rd_tombstone d)"
  "rh_table_id (sr_header (tombstone_record d e p)) = rd_table d"
  "rh_tenant_id (sr_header (tombstone_record d e p)) = rd_tenant_id d"
  "rh_record_id (sr_header (tombstone_record d e p)) = rd_id d"
  "sr_fields (tombstone_record d e p) = sr_fields p" "sr_features (tombstone_record d e p) = sr_features p"
  by (simp_all add: tombstone_record_def is_open_def)

lemma apply_replacementE:
  assumes "apply_replacement P st s m e = Inr (st', r)"
  obtains f where "r = new_record m e f (build_features P s m f None e)"
    and "f = bm_insert (ts_tenant_id_column s) (JString (ri_tenant_id m))
               (bm_insert (ts_primary_id_column s) (JString (ri_id m)) (ri_fields m))"
    and "st' = bm_insert (record_key (ri_table m) (ri_tenant_id m) (ri_id m))
      (install_version (versions_or_default st (record_key (ri_table m) (ri_tenant_id m) (ri_id m))) r e) st"
    and "ri_id m \<noteq> []" and "ri_tenant_id m \<noteq> []"
  using assms that
  by (auto simp: apply_replacement_def build_replacement_record_def rbind_eq_Inr ensure_eq_Inr Let_def
        validate_record_identity_def)

lemma apply_mutationE:
  assumes "apply_mutation P st s m e = Inr (st', r)"
  obtains prev f where "prev = rfind is_live (versions_or_default st (record_key (ri_table m) (ri_tenant_id m) (ri_id m)))"
    and "f = merged_fields s m prev" and "r = new_record m e f (build_features P s m f prev e)"
    and "st' = bm_insert (record_key (ri_table m) (ri_tenant_id m) (ri_id m))
      (install_version (versions_or_default st (record_key (ri_table m) (ri_tenant_id m) (ri_id m))) r e) st"
    and "ri_id m \<noteq> []" and "ri_tenant_id m \<noteq> []"
  using assms that
  by (auto simp: apply_mutation_def mutate_versions_def rbind_eq_Inr ensure_eq_Inr Let_def
        validate_record_identity_def)

lemma apply_deleteE:
  assumes "store_ok E st" and "apply_delete st s d e = Inr (st', r)"
  obtains vs where "bm_get st (record_key (rd_table d) (rd_tenant_id d) (rd_id d)) = Some vs"
    and "is_live (last vs)" and "r = tombstone_record d e (last vs)"
    and "st' = bm_insert (record_key (rd_table d) (rd_tenant_id d) (rd_id d)) (install_version vs r e) st"
    and "trim (rd_id d) \<noteq> []" and "trim (rd_tenant_id d) \<noteq> []"
proof -
  from assms(2) obtain vs p where vs: "bm_get st (record_key (rd_table d) (rd_tenant_id d) (rd_id d)) = Some vs"
    and p: "rfind is_live vs = Some p" and r: "r = tombstone_record d e p"
    and st': "st' = bm_insert (record_key (rd_table d) (rd_tenant_id d) (rd_id d))
      (update_last is_live (set_end_epoch e) vs @ [r]) st"
    and ids: "trim (rd_id d) \<noteq> []" "trim (rd_tenant_id d) \<noteq> []"
    by (auto simp: apply_delete_def delete_versions_def validate_deletion_identity_def rbind_eq_Inr
          ok_or_eq_Inr ensure_eq_Inr Let_def)
  from assms(1) vs have "chain_ok E vs" by (auto simp: store_ok_def dest!: bm_getD)
  note live = live_is_last [OF this p]
  from rfind_SomeD [OF p] live(1) have "is_live (last vs)" by simp
  with that [OF vs] r st' live ids show thesis by (simp add: install_version_def)
qed

text \<open>The three writes at once.\<close>

lemma apply_writeE:
  assumes "store_ok E st" and "apply_write P st w e = Inr st'"
  obtains r where "rh_begin_epoch (sr_header r) = e" and "is_open r"
    and "record_ids r = write_ids w"
    and "rh_tombstone (sr_header r) \<noteq> None \<longleftrightarrow> (\<exists>s d. w = Remove s d)"
    and "st' = bm_insert (write_key w) (install_version (versions_or_default st (write_key w)) r e) st"
proof (cases w)
  case (Replace s m)
  with assms(2) obtain r where "apply_replacement P st s m e = Inr (st', r)" by (auto simp: rbind_eq_Inr)
  then show thesis
    by (rule apply_replacementE) (auto simp: Replace record_ids_def intro!: that)
next
  case (Mutate s m)
  with assms(2) obtain r where "apply_mutation P st s m e = Inr (st', r)" by (auto simp: rbind_eq_Inr)
  then show thesis
    by (rule apply_mutationE) (auto simp: Mutate record_ids_def intro!: that)
next
  case (Remove s d)
  with assms(2) obtain r where "apply_delete st s d e = Inr (st', r)" by (auto simp: rbind_eq_Inr)
  with assms(1) show thesis
    by (rule apply_deleteE) (auto simp: Remove record_ids_def intro!: that)
qed

lemma read_after_write:
  assumes "store_ok E st" and "E \<le> e" and "apply_write P st w e = Inr st'"
  shows "store_ok e st'"
    and "k \<noteq> write_key w \<Longrightarrow> read_store st' k e' = read_store st k e'"
    and "e' < e \<Longrightarrow> read_store st' k e' = read_store st k e'"
    and "e \<le> e' \<Longrightarrow> read_store st' (write_key w) e' = read_store st' (write_key w) e"
proof -
  from apply_writeE [OF assms(1,3)] obtain r where r: "rh_begin_epoch (sr_header r) = e" "is_open r"
    and st': "st' = bm_insert (write_key w) (install_version (versions_or_default st (write_key w)) r e) st" .
  note inst = history_install [OF store_ok_chain [OF assms(1), of "write_key w"] assms(2) r]
  have nil: "history [] e'' = None" for e'' by (simp add: history_def visible_record_at_def)
  show "store_ok e st'" unfolding st' by (rule store_ok_insert [OF assms(1,2) inst(2)])
  show "k \<noteq> write_key w \<Longrightarrow> read_store st' k e' = read_store st k e'"
    by (simp add: st' read_store_def)
  show "e' < e \<Longrightarrow> read_store st' k e' = read_store st k e'"
    by (auto simp: st' read_store_def inst(1) nil split: option.splits)
  show "e \<le> e' \<Longrightarrow> read_store st' (write_key w) e' = read_store st' (write_key w) e"
    by (simp add: st' read_store_def inst(1))
qed

lemma read_after_write_frame:
  assumes "apply_write P st w e = Inr st'" and "k \<noteq> write_key w"
  shows "read_store st' k e' = read_store st k e'"
  using assms
  by (cases w) (auto simp: rbind_eq_Inr apply_delete_def read_store_def Let_def
      elim!: apply_replacementE apply_mutationE)

interpretation records: temporal_store read_store "apply_write P" write_key store_ok
  by unfold_locales (auto dest: read_after_write read_after_write_frame)

section \<open>Reads after writes\<close>


text \<open>
  C18: Reads return the last write. A replacement or mutation at an epoch returns a record; after
  any later writes, a read of that key at any epoch from the write on returns exactly this record,
  unless the same record was written or deleted again by that epoch.
\<close>

theorem read_returns_last_write:
  assumes "store_ok E st" and "E \<le> e"
    and "apply_replacement P st s m e = Inr (st1, r) \<or> apply_mutation P st s m e = Inr (st1, r)"
    and "ascending e ws" and "run_writes (apply_write P) st1 ws = Inr st2" and "e \<le> e'"
    and "\<forall>(w, e2) \<in> set ws. write_key w = record_key (ri_table m) (ri_tenant_id m) (ri_id m) \<longrightarrow> e' < e2"
  shows "map_option erase_end (get_record st2 (ri_table m) (ri_tenant_id m) (ri_id m) e') = Some r"
proof -
  let ?key = "record_key (ri_table m) (ri_tenant_id m) (ri_id m)"
  from assms(3) obtain w where w: "apply_write P st w e = Inr st1" "write_key w = ?key"
  proof
    assume "apply_replacement P st s m e = Inr (st1, r)"
    then show thesis using that [of "Replace s m"] by simp
  next
    assume "apply_mutation P st s m e = Inr (st1, r)"
    then show thesis using that [of "Mutate s m"] by simp
  qed
  have "read_store st2 ?key e' = read_store st1 ?key e"
    using records.written_until_next [OF assms(1,2) w(1) assms(4,5,6)] assms(7) w(2) by auto
  also have "\<dots> = Some r"
  proof -
    have st1: "st1 = bm_insert ?key (install_version (versions_or_default st ?key) r e) st"
      and r: "rh_begin_epoch (sr_header r) = e" "is_open r" "rh_tombstone (sr_header r) = None"
      using assms(3) by (auto elim!: apply_replacementE apply_mutationE)
    from r(2) have "erase_end r = r" by (simp add: erase_end_def is_open_def)
    then show ?thesis
      using history_install(1) [OF store_ok_chain [OF assms(1), of ?key] assms(2) r(1,2), of e] r(3)
      by (simp add: st1 read_store_def)
  qed
  finally show ?thesis by (simp add: read_store_get)
qed

text \<open>
  Deletion. After a record is deleted at an epoch, it is not returned at that epoch or later,
  whatever is written to other records, and is reported as tombstoned; reads before the epoch
  still find it. Only a new write to the same record brings it back.
\<close>

theorem delete_hides_from_epoch:
  assumes "store_ok E st" and "E \<le> e" and "apply_delete st s d e = Inr (st1, r)"
    and "ascending e ws" and "run_writes (apply_write P) st1 ws = Inr st2"
    and "\<forall>(w, e2) \<in> set ws. write_key w = record_key (rd_table d) (rd_tenant_id d) (rd_id d) \<longrightarrow> e' < e2"
  shows "(e \<le> e' \<longrightarrow> get_record st2 (rd_table d) (rd_tenant_id d) (rd_id d) e' = None)
    \<and> is_tombstoned_at st1 (rd_table d) (rd_tenant_id d) (rd_id d) e
    \<and> (e' < e \<longrightarrow> map_option erase_end (get_record st2 (rd_table d) (rd_tenant_id d) (rd_id d) e') =
         map_option erase_end (get_record st (rd_table d) (rd_tenant_id d) (rd_id d) e'))"
proof -
  let ?key = "record_key (rd_table d) (rd_tenant_id d) (rd_id d)"
  from assms(3) have w: "apply_write P st (Remove s d) e = Inr st1" by simp
  from apply_deleteE [OF assms(1,3)] obtain vs where vs: "bm_get st ?key = Some vs"
    and r: "r = tombstone_record d e (last vs)" and st1: "st1 = bm_insert ?key (install_version vs r e) st" .
  have chain: "vs = [] \<or> chain_ok E vs"
    using store_ok_chain [OF assms(1), of ?key] vs by simp
  have gone: "read_store st1 ?key e = None"
    using history_install(1) [OF chain assms(2), of r e] by (simp add: st1 r read_store_def)
  have "read_store st2 ?key e' = None" if "e \<le> e'"
    using records.written_until_next [OF assms(1,2) w assms(4,5) that] assms(6) gone by auto
  moreover have "is_tombstoned_at st1 (rd_table d) (rd_tenant_id d) (rd_id d) e"
    by (simp add: st1 r is_tombstoned_at_def install_version_def in_epoch_def tombstone_record_def)
  moreover have "read_store st2 ?key e' = read_store st ?key e'" if "e' < e"
  proof -
    have "\<And>w' e2. (w', e2) \<in> set ws \<Longrightarrow> e' < e2"
      using ascending_above [OF assms(4)] that by (meson less_le_trans)
    with records.run_past [OF read_after_write(1) [OF assms(1,2) w] assms(4,5), of e' ?key]
    have "read_store st2 ?key e' = read_store st1 ?key e'" by blast
    with read_after_write(3) [OF assms(1,2) w that] show ?thesis by simp
  qed
  ultimately show ?thesis by (auto simp: read_store_get)
qed

section \<open>Merging\<close>

lemma live_is_visible:
  assumes "chain_ok E vs"
  shows "rfind is_live vs = visible_record_at vs E"
proof -
  let ?b = "butlast vs" and ?l = "last vs"
  have vs: "vs = ?b @ [?l]" using assms by (simp add: chain_ok_def)
  have "?l \<in> set vs" using assms by (simp add: chain_ok_def)
  then have l: "is_live ?l \<longleftrightarrow> in_epoch E ?l \<and> rh_tombstone (sr_header ?l) = None"
    using assms by (auto simp: chain_ok_def is_live_def in_epoch_def is_open_def)
  have "\<not> is_live v \<and> \<not> (in_epoch E v \<and> rh_tombstone (sr_header v) = None)" if "v \<in> set ?b" for v
    using assms that by (fastforce simp: chain_ok_def is_live_def in_epoch_def)
  then have none: "rfind is_live ?b = None"
    "rfind (\<lambda>r. in_epoch E r \<and> rh_tombstone (sr_header r) = None) ?b = None"
    by (simp_all add: rfind_None_iff)
  have "rfind is_live (?b @ [?l]) = visible_record_at (?b @ [?l]) E"
    using none l by (simp add: visible_record_at_def)
  then show ?thesis by (simp only: vs [symmetric])
qed

lemma bm_get_extend:
  assumes "bm_wf d"
  shows "bm_get (bm_extend m d) k = (case bm_get d k of Some v \<Rightarrow> Some v | None \<Rightarrow> bm_get m k)"
proof -
  have "map_of (rev d) = map_of d"
    using assms by (intro map_of_inject_set [THEN iffD2]) (auto dest: bm_wf_distinct simp: rev_map [symmetric])
  then show ?thesis
    using bm.get_extend [of d m k] by (simp add: bm_extend_def bm_get_def)
qed

text \<open>
  A mutation merges. The record that a mutation stores has, in every column, the value given
  by the mutation; in a column that the mutation does not name, the value that a read just before
  returned; and the record id and the tenant in the identity columns if no value was there.
\<close>

theorem mutation_merges_fields:
  assumes "store_ok E st" and "bm_wf (ri_fields m)" and "ts_primary_id_column s \<noteq> ts_tenant_id_column s"
    and "apply_mutation P st s m e = Inr (st', r)"
  shows "bm_get (sr_fields r) col =
    (case bm_get (ri_fields m) col of
       Some v \<Rightarrow> Some v
     | None \<Rightarrow>
         (case Option.bind (get_record st (ri_table m) (ri_tenant_id m) (ri_id m) E)
                 (\<lambda>old. bm_get (sr_fields old) col) of
            Some v \<Rightarrow> Some v
          | None \<Rightarrow>
              if col = ts_primary_id_column s then Some (JString (ri_id m))
              else if col = ts_tenant_id_column s then Some (JString (ri_tenant_id m))
              else None))"
proof -
  let ?key = "record_key (ri_table m) (ri_tenant_id m) (ri_id m)"
  from apply_mutationE [OF assms(4)] obtain prev where
    prev: "prev = rfind is_live (versions_or_default st ?key)" and r: "sr_fields r = merged_fields s m prev"
    by (metis new_record_header(4))
  have "prev = get_record st (ri_table m) (ri_tenant_id m) (ri_id m) E"
    using store_ok_chain [OF assms(1), of ?key] live_is_visible
    by (auto simp: prev get_record_def visible_record_at_def split: option.splits)
  then show ?thesis
    using assms(3)
    by (auto simp: r merged_fields_def Let_def bm_contains_def bm_get_extend [OF assms(2)]
          split: option.splits)
qed

section \<open>Planned changes\<close>

lemma apply_delta_insert:
  assumes "bm_wf st" and "bm_wf d"
  shows "apply_delta st (bm_insert k vs d) = bm_insert k vs (apply_delta st d)"
  unfolding apply_delta_def
  by (rule bm.entries_ext) (auto intro!: bm_extend_wf bm_wf_insert simp: assms bm_get_extend split: option.splits)

lemma planning_reads_through:
  "bm_wf d \<Longrightarrow> versions_for_planning st d k = versions_or_default (apply_delta st d) k"
  by (simp add: versions_for_planning_def apply_delta_def bm_get_extend split: option.splits)

text \<open>A planned step and the applied step agree, errors included.\<close>

fun plan_write :: "'z prims_scheme \<Rightarrow> store \<Rightarrow> delta \<Rightarrow> store_write \<Rightarrow> epoch \<Rightarrow> delta result" where
  "plan_write P st d (Replace s m) e = plan_replacement_into P st d s m e"
| "plan_write P st d (Mutate s m) e = plan_mutation_into P st d s m e"
| "plan_write P st d (Remove s x) e = plan_delete_into st d s x e"

lemma delete_versions_Nil:
  "delete_versions d e [] = Inl (NotFound (record_name (rd_table d) (rd_tenant_id d) (rd_id d)))"
  by (simp add: delete_versions_def)

lemma plan_write_step:
  assumes "bm_wf st" and "bm_wf d"
  shows "rbind (plan_write P st d w e) (\<lambda>d'. Inr (apply_delta st d')) = apply_write P (apply_delta st d) w e"
    and "plan_write P st d w e = Inr d' \<Longrightarrow> bm_wf d'"
proof -
  note ins = apply_delta_insert [OF assms] and thru = planning_reads_through [OF assms(2)]
  show "rbind (plan_write P st d w e) (\<lambda>d'. Inr (apply_delta st d')) = apply_write P (apply_delta st d) w e"
  proof (cases w)
    case (Replace s m)
    then show ?thesis
      by (cases "build_replacement_record P s m e")
         (auto simp: plan_replacement_into_def apply_replacement_def thru ins split: prod.splits)
  next
    case (Mutate s m)
    then show ?thesis
      by (simp add: plan_mutation_into_def apply_mutation_def rbind_assoc thru Let_def)
         (auto simp: rbind_def ins split: sum.splits prod.splits)
  next
    case (Remove s x)
    then show ?thesis
      by (cases "bm_get (apply_delta st d) (record_key (rd_table x) (rd_tenant_id x) (rd_id x))")
         (auto simp: plan_delete_into_def apply_delete_def thru Let_def rbind_def ensure_def ins
            delete_versions_Nil split: sum.splits prod.splits)
  qed
  show "plan_write P st d w e = Inr d' \<Longrightarrow> bm_wf d'"
    using assms(2)
    by (cases w) (auto simp: plan_replacement_into_def plan_mutation_into_def plan_delete_into_def
        rbind_eq_Inr Let_def)
qed

text \<open>
  C7: Planning then installing is applying. Plan a whole batch of writes into one delta without
  touching the store, then install the delta: the outcome is the store that applying the writes
  one after the other gives, and planning fails exactly when and with the error with which
  applying fails.
\<close>

theorem plan_batch_equals_apply:
  assumes "bm_wf st"
  shows "rbind (rfold (\<lambda>d (w, e). plan_write P st d w e) [] ws) (\<lambda>d. Inr (apply_delta st d)) =
    run_writes (apply_write P) st ws"
proof -
  have "rbind (rfold (\<lambda>d (w, e). plan_write P st d w e) d ws) (\<lambda>d. Inr (apply_delta st d)) =
      run_writes (apply_write P) (apply_delta st d) ws" if "bm_wf d" for d
    using that
  proof (induction ws arbitrary: d)
    case Nil
    then show ?case by simp
  next
    case (Cons we ws)
    obtain w e where we: "we = (w, e)" by (cases we)
    show ?case
    proof (cases "plan_write P st d w e")
      case (Inl err)
      with plan_write_step(1) [OF assms Cons.prems, of P w e]
      have "apply_write P (apply_delta st d) w e = Inl err" by simp
      with Inl show ?thesis by (simp add: we)
    next
      case (Inr d')
      with plan_write_step(1) [OF assms Cons.prems, of P w e]
      have "apply_write P (apply_delta st d) w e = Inr (apply_delta st d')" by simp
      with Inr plan_write_step(2) [OF assms Cons.prems Inr] Cons.IH [of d'] show ?thesis by (simp add: we)
    qed
  qed
  from this [of "[]"] show ?thesis by (simp add: apply_delta_def bm_extend_def)
qed

section \<open>Scans and tenant isolation\<close>

text \<open>The records of a chain carry the ids of its key, and table and tenant have no NUL.\<close>

fun ids_nul_free :: "string \<times> string \<times> string \<Rightarrow> bool" where
  "ids_nul_free (t, n, i) = (nul_free t \<and> nul_free n)"

definition ids_ok :: "store \<Rightarrow> bool" where
  "ids_ok st \<longleftrightarrow> (\<forall>(k, vs) \<in> set st. \<forall>r \<in> set vs. k = header_key r \<and> ids_nul_free (record_ids r))"

lemma set_install_version:
  "set (install_version vs r e) \<subseteq> insert r (set vs \<union> set_end_epoch e ` set vs)"
  using set_update_last [of is_open "set_end_epoch e" vs] by (auto simp: install_version_def)

lemma ids_set_end [simp]: "record_ids (set_end_epoch e r) = record_ids r"
  by (simp add: record_ids_def)

lemma install_version_ids:
  assumes "v \<in> set (install_version vs r e)"
  shows "v = r \<or> (\<exists>u \<in> set vs. record_ids v = record_ids u)"
  using subsetD [OF set_install_version assms] by auto

lemma ids_erase_end [simp]: "record_ids (erase_end r) = record_ids r"
  by (simp add: record_ids_def erase_end_def)

lemma ids_ok_get: "ids_ok st \<Longrightarrow> bm_get st k = Some vs \<Longrightarrow> r \<in> set vs \<Longrightarrow> k = header_key r \<and> ids_nul_free (record_ids r)"
  by (fastforce simp: ids_ok_def dest: bm_getD)

lemma ids_ok_default:
  "ids_ok st \<Longrightarrow> r \<in> set (versions_or_default st k) \<Longrightarrow> k = header_key r \<and> ids_nul_free (record_ids r)"
  by (cases "bm_get st k") (auto dest: ids_ok_get)

lemma apply_write_ids_ok:
  assumes "store_ok E st" and "ids_ok st" and "ids_nul_free (write_ids w)" and "apply_write P st w e = Inr st'"
  shows "ids_ok st'"
proof -
  let ?k = "write_key w"
  from apply_writeE [OF assms(1,4)] obtain r where r: "record_ids r = write_ids w"
    and st': "st' = bm_insert ?k (install_version (versions_or_default st ?k) r e) st" by metis
  have wf: "bm_wf st'" using assms(1) by (simp add: st' store_ok_def)
  have "k = header_key v \<and> ids_nul_free (record_ids v)" if "(k, vs) \<in> set st'" "v \<in> set vs" for k vs v
  proof (cases "k = ?k")
    case False
    with that wf have "bm_get st k = Some vs" by (auto simp: bm_entries_get st')
    with that(2) show ?thesis using ids_ok_get [OF assms(2)] by blast
  next
    case True
    with that(1) wf have "vs = install_version (versions_or_default st ?k) r e"
      by (auto simp: bm_entries_get st')
    with that(2) have "v = r \<or> (\<exists>u \<in> set (versions_or_default st ?k). record_ids v = record_ids u)"
      by (blast dest: install_version_ids)
    then show ?thesis
    proof
      assume "v = r"
      with r assms(3) True show ?thesis by (simp add: header_key_ids write_key_def)
    next
      assume "\<exists>u \<in> set (versions_or_default st ?k). record_ids v = record_ids u"
      with ids_ok_default [OF assms(2), of _ ?k] True show ?thesis by (metis header_key_ids)
    qed
  qed
  then show ?thesis by (auto simp: ids_ok_def)
qed

lemma visible_record_at_SomeD: "visible_record_at vs e = Some r \<Longrightarrow> r \<in> set vs"
  by (auto simp: visible_record_at_def dest: rfind_SomeD)

text \<open>
  Tenant isolation of point reads and scans. In a store whose tables and tenants contain no
  NUL character, a record that \<open>get_record\<close> returns has exactly the table, tenant and id that were
  asked for, and every record in a scan has the table and tenant that were asked for.
\<close>

theorem tenant_isolation:
  assumes "bm_wf st" and "ids_ok st" and "nul_free table" and "nul_free tenant"
  shows "(\<forall>r. get_record st table tenant rid e = Some r \<longrightarrow> record_ids r = (table, tenant, rid)) \<and>
    (\<forall>r \<in> set (scan_records st table tenant limit e). \<exists>i. record_ids r = (table, tenant, i))"
proof -
  have get: "record_ids r = (table, tenant, rid')"
    if "bm_get st (record_key table tenant rid') = Some vs" "r \<in> set vs" for vs r rid'
    using ids_ok_get [OF assms(2) that] record_key_inj [OF assms(3) _ assms(4)]
    by (auto simp: header_key_ids record_ids_def)
  have "\<exists>i. record_ids r = (table, tenant, i)" if "r \<in> set (visible_records_at st table tenant e)" for r
  proof -
    from that obtain k vs where kv: "(k, vs) \<in> set st" "starts_with k (record_key_prefix table tenant)"
      and "visible_record_at vs e = Some r"
      by (auto simp: visible_records_at_def range_prefix_eq_filter [OF assms(1)] set_filter_map)
    then obtain rid' where "k = record_key table tenant rid'"
      by (auto simp: starts_with_iff_prefix prefix_def record_key_def)
    with kv assms(1) get [of rid' vs r] visible_record_at_SomeD \<open>visible_record_at vs e = Some r\<close>
    show ?thesis by (auto simp: bm_entries_get)
  qed
  moreover have "set (scan_records st table tenant limit e) \<subseteq> set (visible_records_at st table tenant e)"
    by (auto simp: scan_records_def dest: in_set_takeD)
  ultimately show ?thesis
    using get by (fastforce simp: get_record_def dest: visible_record_at_SomeD split: Option.bind_splits)
qed

lemma append_less_iff: "(p @ i :: string) < p @ j \<longleftrightarrow> i < j"
  by (induction p) auto

lemma filter_map_filter: "filter_map f xs = map (the \<circ> f) (filter (\<lambda>x. f x \<noteq> None) xs)"
  by (induction xs) (auto split: option.splits)

lemma visible_records_char:
  assumes "bm_wf st" and "ids_ok st" and "nul_free table" and "nul_free tenant"
  shows "sorted_wrt (<) (map (\<lambda>r. rh_record_id (sr_header r)) (visible_records_at st table tenant e))
    \<and> (\<forall>r. r \<in> set (visible_records_at st table tenant e) \<longleftrightarrow>
         get_record st table tenant (rh_record_id (sr_header r)) e = Some r)
    \<and> scan_records st table tenant limit e = take limit (visible_records_at st table tenant e)"
proof -
  let ?p = "record_key_prefix table tenant" and ?id = "\<lambda>r. rh_record_id (sr_header r)"
  let ?f = "\<lambda>(_ :: string, vs). visible_record_at vs e"
  let ?kvs = "filter (\<lambda>x. ?f x \<noteq> None) (filter (\<lambda>kv. starts_with (fst kv) ?p) st)"
  have vis: "visible_records_at st table tenant e = map (the \<circ> ?f) ?kvs"
    by (simp add: visible_records_at_def range_prefix_eq_filter [OF assms(1)] filter_map_filter)
  have key: "k = record_key table tenant (?id r)" and ids: "record_ids r = (table, tenant, ?id r)"
    if "(k, vs) \<in> set st" "starts_with k ?p" "visible_record_at vs e = Some r" for k vs r
  proof -
    from that(2) obtain i where k: "k = record_key table tenant i"
      by (auto simp: starts_with_iff_prefix prefix_def record_key_def)
    have "bm_get st k = Some vs" using that(1) assms(1) by (simp add: bm_entries_get)
    with ids_ok_get [OF assms(2) this visible_record_at_SomeD [OF that(3)]] k
      record_key_inj [OF assms(3) _ assms(4)]
    show "k = record_key table tenant (?id r)" "record_ids r = (table, tenant, ?id r)"
      by (auto simp: header_key_ids record_ids_def)
  qed
  have "sorted_wrt (\<lambda>x y. fst x < fst y) ?kvs"
    using assms(1) by (intro sorted_wrt_filter) (simp add: bm_wf_def sorted_wrt_map)
  then have "sorted_wrt (\<lambda>x y. ?id (the (?f x)) < ?id (the (?f y))) ?kvs"
  proof (rule sorted_wrt_mono_rel [rotated])
    fix x y assume xy: "x \<in> set ?kvs" "y \<in> set ?kvs" "fst x < fst y"
    then have "fst x = record_key table tenant (?id (the (?f x)))"
      and "fst y = record_key table tenant (?id (the (?f y)))"
      by (auto intro!: key simp: split_beta)
    with xy(3) show "?id (the (?f x)) < ?id (the (?f y))"
      by (metis append_less_iff record_key_def)
  qed
  then have srt: "sorted_wrt (<) (map ?id (visible_records_at st table tenant e))"
    by (simp add: vis sorted_wrt_map)
  have mem: "r \<in> set (visible_records_at st table tenant e) \<longleftrightarrow>
      get_record st table tenant (?id r) e = Some r" for r
  proof
    assume "r \<in> set (visible_records_at st table tenant e)"
    then obtain k vs where "(k, vs) \<in> set st" "starts_with k ?p" "visible_record_at vs e = Some r"
      by (auto simp: vis)
    with key assms(1) show "get_record st table tenant (?id r) e = Some r"
      by (auto simp: get_record_def bm_entries_get)
  next
    assume "get_record st table tenant (?id r) e = Some r"
    then obtain vs where "bm_get st (record_key table tenant (?id r)) = Some vs" "visible_record_at vs e = Some r"
      by (auto simp: get_record_def split: Option.bind_splits)
    with assms(1) show "r \<in> set (visible_records_at st table tenant e)"
      by (force simp: vis bm_entries_get [symmetric] record_key_def image_iff)
  qed
  have "sort_key ?id (visible_records_at st table tenant e) = visible_records_at st table tenant e"
    using srt by (intro sort_key_id_if_sorted) (simp add: strict_sorted_iff)
  with srt mem show ?thesis by (simp add: scan_records_def)
qed

text \<open>Lists sorted strictly by a key are equal if they have the same elements.\<close>

lemma sorted_by_key_unique:
  fixes key :: "'a \<Rightarrow> 'b :: linorder"
  assumes "sorted_wrt (<) (map key xs)" and "sorted_wrt (<) (map key ys)" and "set xs = set ys"
  shows "xs = ys"
proof (rule map_inj_on)
  show "map key xs = map key ys"
    using assms by (intro sorted_distinct_set_unique) (auto simp: strict_sorted_iff)
  show "inj_on key (set xs \<union> set ys)"
    using assms by (simp add: strict_sorted_iff distinct_map)
qed

text \<open>Stores with the same reads at an epoch have the same scans there.\<close>

lemma visible_records_agree:
  assumes "bm_wf st" "ids_ok st" "bm_wf st2" "ids_ok st2" "nul_free table" "nul_free tenant"
    and "\<And>rid. map_option erase_end (get_record st table tenant rid e) =
      map_option erase_end (get_record st2 table tenant rid e)"
  shows "map erase_end (visible_records_at st table tenant e) = map erase_end (visible_records_at st2 table tenant e)"
proof (rule sorted_by_key_unique)
  let ?id = "\<lambda>r. rh_record_id (sr_header r)"
  note c1 = visible_records_char [OF assms(1,2,5,6), of e] and c2 = visible_records_char [OF assms(3,4,5,6), of e]
  have id: "?id (erase_end r) = ?id r" for r by (simp add: erase_end_def)
  show "sorted_wrt (<) (map ?id (map erase_end (visible_records_at st table tenant e)))"
    and "sorted_wrt (<) (map ?id (map erase_end (visible_records_at st2 table tenant e)))"
    using c1 c2 by (simp_all add: comp_def id)
  have sub: "\<exists>r' \<in> set (visible_records_at s2 table tenant e). erase_end r = erase_end r'"
    if "r \<in> set (visible_records_at s1 table tenant e)"
      and s1: "\<And>r. r \<in> set (visible_records_at s1 table tenant e) \<longleftrightarrow> get_record s1 table tenant (?id r) e = Some r"
      and s2: "\<And>r. r \<in> set (visible_records_at s2 table tenant e) \<longleftrightarrow> get_record s2 table tenant (?id r) e = Some r"
      and eq: "\<And>rid. map_option erase_end (get_record s1 table tenant rid e) =
        map_option erase_end (get_record s2 table tenant rid e)" for r s1 s2
  proof -
    from that(1) s1 have "get_record s1 table tenant (?id r) e = Some r" by blast
    with eq [of "?id r"] obtain r' where r': "get_record s2 table tenant (?id r) e = Some r'" "erase_end r' = erase_end r"
      by (cases "get_record s2 table tenant (?id r) e") auto
    from r'(2) have "?id r' = ?id r" by (metis id)
    with r' s2 show ?thesis by metis
  qed
  from sub [of _ st st2] sub [of _ st2 st] c1 c2 assms(7)
  show "set (map erase_end (visible_records_at st table tenant e)) =
      set (map erase_end (visible_records_at st2 table tenant e))"
    by (auto simp: image_iff)
qed

text \<open>
  C21: What a scan returns. The visible records of a table and tenant at an epoch are listed in
  strictly ascending order of their ids, without gaps and without additions: a record is in the
  list exactly when \<open>get_record\<close> returns it under its id. A scan with a limit returns the first
  records of this list.
\<close>

theorem scan_lists_visible_records:
  assumes "bm_wf st" and "ids_ok st" and "nul_free table" and "nul_free tenant"
  shows "sorted_wrt (<) (map (\<lambda>r. rh_record_id (sr_header r)) (visible_records_at st table tenant e))
    \<and> (\<forall>r. r \<in> set (visible_records_at st table tenant e) \<longleftrightarrow>
         get_record st table tenant (rh_record_id (sr_header r)) e = Some r)
    \<and> scan_records st table tenant limit e = take limit (visible_records_at st table tenant e)"
  by (rule visible_records_char [OF assms])

section \<open>Derived features\<close>

text \<open>
  A feature state is fresh for a record if it names the sources of its column and, unless the
  feature is missing, carries the hash of the present source values.
\<close>

definition fresh :: "'z prims_scheme \<Rightarrow> fields \<Rightarrow> vector_column \<Rightarrow> derived_feature_state \<Rightarrow> bool" where
  "fresh P flds vec st \<longleftrightarrow> fs_source_columns st = vc_source_columns vec \<and>
     (fs_status st = Missing \<or> fs_source_hash st = source_hash (prims.truncate P) flds (vc_source_columns vec))"

definition record_fresh :: "'z prims_scheme \<Rightarrow> table_schema \<Rightarrow> stored_record \<Rightarrow> bool" where
  "record_fresh P s r \<longleftrightarrow>
     bm_contains (sr_fields r) (ts_primary_id_column s) \<and> bm_contains (sr_fields r) (ts_tenant_id_column s) \<and>
     (\<forall>vec \<in> set (ts_vector_columns s). \<exists>st. bm_get (sr_features r) (vc_name vec) = Some st \<and>
        fresh P (sr_fields r) vec st)"

lemma source_hash_cong:
  "(\<And>c. c \<in> set cols \<Longrightarrow> bm_get f c = bm_get g c) \<Longrightarrow> source_hash P f cols = source_hash P g cols"
  by (simp add: source_hash_def source_hash_input_def cong: map_cong)

lemma foldl_feature_step_other:
  "name \<notin> vc_name ` set vecs \<Longrightarrow> bm_get (foldl (feature_step P m merged e) feats vecs) name = bm_get feats name"
  by (induction vecs arbitrary: feats) (auto simp: feature_step_def)

lemma foldl_feature_step:
  assumes "distinct (map vc_name vecs)" and "vec \<in> set vecs"
  shows "bm_get (foldl (feature_step P m merged e) feats vecs) (vc_name vec) =
    Some (feature_next P m merged e vec (bm_get feats (vc_name vec)))"
  using assms
proof (induction vecs arbitrary: feats)
  case Nil
  then show ?case by simp
next
  case (Cons v vecs)
  show ?case
  proof (cases "vec = v")
    case True
    with Cons.prems show ?thesis by (simp add: foldl_feature_step_other) (simp add: feature_step_def)
  next
    case False
    with Cons.prems have vec: "vec \<in> set vecs" by simp
    with Cons.prems(1) have "vc_name vec \<noteq> vc_name v" by (metis distinct.simps(2) imageI list.set_map list.simps(9))
    with vec Cons.IH [of "feature_step P m merged e feats v"] Cons.prems show ?thesis
      by (simp add: feature_step_def)
  qed
qed

lemma merged_fields_untouched:
  assumes "bm_wf (ri_fields m)" and "\<not> bm_contains (ri_fields m) c"
    and "bm_contains (sr_fields p) (ts_primary_id_column s)" and "bm_contains (sr_fields p) (ts_tenant_id_column s)"
  shows "bm_get (merged_fields s m (Some p)) c = bm_get (sr_fields p) c"
  using assms
  by (auto simp: merged_fields_def Let_def bm_contains_def bm_get_extend split: option.splits)

lemma feature_next_fresh:
  assumes "bm_wf (ri_fields m)" and "vec \<in> set (ts_vector_columns s)"
    and "\<forall>p. prev = Some p \<longrightarrow> record_fresh P s p"
  shows "fresh P (merged_fields s m prev) vec
    (feature_next P m (merged_fields s m prev) e vec
       (bm_get (case prev of None \<Rightarrow> [] | Some r \<Rightarrow> sr_features r) (vc_name vec)))"
proof (cases prev)
  case None
  then show ?thesis
    by (auto simp: feature_next_def fresh_def Let_def feature_ready_def feature_missing_def)
next
  case (Some p)
  with assms obtain st where st: "bm_get (sr_features p) (vc_name vec) = Some st" "fresh P (sr_fields p) vec st"
    and ids: "bm_contains (sr_fields p) (ts_primary_id_column s)" "bm_contains (sr_fields p) (ts_tenant_id_column s)"
    by (auto simp: record_fresh_def)
  have "source_hash (prims.truncate P) (merged_fields s m prev) (vc_source_columns vec) =
      source_hash (prims.truncate P) (sr_fields p) (vc_source_columns vec)"
    if "\<not> list_ex (\<lambda>src. bm_contains (ri_fields m) src) (vc_source_columns vec)"
    using that merged_fields_untouched [OF assms(1) _ ids] unfolding Some
    by (intro source_hash_cong) (auto simp: list_ex_iff)
  with st Some show ?thesis
    by (auto simp: feature_next_def fresh_def Let_def feature_ready_def feature_missing_def
          feature_dirty_from_def)
qed

lemma feature_next_status:
  "bm_contains (ri_fields m) (vc_name vec) \<Longrightarrow> fs_status (feature_next P m merged e vec old) = Ready"
  "\<not> bm_contains (ri_fields m) (vc_name vec) \<Longrightarrow>
     list_ex (bm_contains (ri_fields m)) (vc_source_columns vec) \<Longrightarrow>
     fs_status (feature_next P m merged e vec old) = Dirty"
  by (simp_all add: feature_next_def Let_def feature_ready_def feature_dirty_from_def split: option.splits)

lemma feature_next_kept:
  "\<not> bm_contains (ri_fields m) (vc_name vec) \<Longrightarrow>
     \<not> list_ex (bm_contains (ri_fields m)) (vc_source_columns vec) \<Longrightarrow>
     feature_next P m merged e vec (Some f) = f"
  by (simp add: feature_next_def Let_def)


section \<open>Checkpoints\<close>

lemma chain_heads:
  assumes "chain_ok E vs"
  shows "rfind is_live vs = (if is_live (last vs) then Some (last vs) else None)"
    and "rfind (in_epoch E) vs = Some (last vs)"
    and "E \<le> e \<Longrightarrow> visible_record_at vs e =
      (if rh_tombstone (sr_header (last vs)) = None then Some (last vs) else None)"
proof -
  let ?b = "butlast vs" and ?l = "last vs"
  have vs: "vs = ?b @ [?l]" and l: "?l \<in> set vs" using assms by (simp_all add: chain_ok_def)
  have open_l: "in_epoch e ?l" if "E \<le> e" for e
    using assms l that by (auto simp: chain_ok_def in_epoch_def is_open_def intro: order_trans)
  have old: "\<not> is_live v \<and> (E \<le> e \<longrightarrow> \<not> in_epoch e v)" if "v \<in> set ?b" for v e
    using assms that by (fastforce simp: chain_ok_def is_live_def in_epoch_def)
  have b: "rfind is_live ?b = None" "E \<le> e \<Longrightarrow> rfind (in_epoch e) ?b = None"
    "E \<le> e \<Longrightarrow> visible_record_at ?b e = None" for e
    using old by (auto simp: rfind_None_iff visible_record_at_def)
  have "rfind is_live (?b @ [?l]) = (if is_live ?l then Some ?l else None)" using b by simp
  then show "rfind is_live vs = (if is_live ?l then Some ?l else None)" by (simp only: vs [symmetric])
  have "rfind (in_epoch E) (?b @ [?l]) = Some ?l" using open_l by simp
  then show "rfind (in_epoch E) vs = Some ?l" by (simp only: vs [symmetric])
  have "E \<le> e \<Longrightarrow> visible_record_at (?b @ [?l]) e = (if rh_tombstone (sr_header ?l) = None then Some ?l else None)"
    using b(3) [of e] open_l by (simp add: visible_record_at_def)
  then show "E \<le> e \<Longrightarrow> visible_record_at vs e = (if rh_tombstone (sr_header ?l) = None then Some ?l else None)"
    by (simp only: vs [symmetric])
qed

lemma chain_ok_head: "chain_ok E vs \<Longrightarrow> chain_ok E [last vs]"
  by (simp add: chain_ok_def)

lemma from_checkpoint_wf: "bm_wf (from_checkpoint_records rs)"
proof -
  have "bm_wf st \<Longrightarrow> bm_wf (foldl (\<lambda>st r. bm_insert (header_key r) (versions_or_default st (header_key r) @ [r]) st) st rs)"
    for st by (induction rs arbitrary: st) auto
  then show ?thesis by (simp add: from_checkpoint_records_def)
qed

lemma find_snoc:
  "find P (xs @ [x]) = (case find P xs of None \<Rightarrow> if P x then Some x else None | Some y \<Rightarrow> Some y)"
  by (induction xs) auto

lemma from_checkpoint_get:
  assumes "distinct (map header_key rs)"
  shows "bm_get (from_checkpoint_records rs) k = map_option (\<lambda>r. [r]) (find (\<lambda>r. header_key r = k) rs)"
  using assms
proof (induction rs rule: rev_induct)
  case Nil
  then show ?case by (simp add: from_checkpoint_records_def)
next
  case (snoc r rs)
  have "find (\<lambda>x. header_key x = header_key r) rs = None"
    using snoc.prems by (auto simp: find_None_iff image_iff)
  with snoc show ?case
    by (auto simp: from_checkpoint_records_def find_snoc split: option.splits)
qed

text \<open>Stores whose chains end in the same versions.\<close>

definition same_heads :: "store \<Rightarrow> store \<Rightarrow> bool" where
  "same_heads st st2 \<longleftrightarrow> (\<forall>k. map_option last (bm_get st k) = map_option last (bm_get st2 k))"

lemma filter_map_total: "(\<And>x. x \<in> set xs \<Longrightarrow> f x = Some (g x)) \<Longrightarrow> filter_map f xs = map g xs"
  by (induction xs) auto

lemma find_head:
  assumes "\<And>j vs. (j, vs) \<in> set st \<Longrightarrow> header_key (last vs) = j"
  shows "find (\<lambda>r. header_key r = k) (map (\<lambda>kv. last (snd kv)) st) = map_option last (bm_get st k)"
  using assms by (induction st) (force simp: bm_get_Cons)+

lemma checkpoint_same_heads:
  assumes "store_ok E st" and "ids_ok st"
  shows "store_ok E (from_checkpoint_records (checkpoint_records st E))"
    and "same_heads st (from_checkpoint_records (checkpoint_records st E))"
proof -
  let ?rs = "map (\<lambda>kv. last (snd kv)) st" and ?st2 = "from_checkpoint_records (checkpoint_records st E)"
  have wf: "bm_wf st" using assms(1) by (simp add: store_ok_def)
  have chains: "chain_ok E vs" if "(k, vs) \<in> set st" for k vs
    using assms(1) that by (auto simp: store_ok_def)
  have key: "header_key (last vs) = k" if kv: "(k, vs) \<in> set st" for k vs
  proof -
    have "last vs \<in> set vs" using chains [OF kv] by (simp add: chain_ok_def)
    with ids_ok_get [OF assms(2), of k vs] kv wf show ?thesis by (simp add: bm_entries_get)
  qed
  have "filter_map (rfind (in_epoch E)) (map snd st) = map last (map snd st)"
    using chains chain_heads(2) by (intro filter_map_total) auto
  then have rs: "checkpoint_records st E = ?rs" by (simp add: checkpoint_records_def bm_values_def comp_def)
  have "map header_key ?rs = map fst st" using key by auto
  then have "distinct (map header_key ?rs)" using bm_wf_distinct [OF wf] by (simp only:)
  from from_checkpoint_get [OF this] find_head [of st] key
  have get: "bm_get ?st2 k = map_option (\<lambda>vs. [last vs]) (bm_get st k)" for k
    by (simp add: rs option.map_comp comp_def)
  then show "same_heads st ?st2"
    by (simp add: same_heads_def option.map_comp comp_def)
  have "chain_ok E vs" if kv: "(k, vs) \<in> set ?st2" for k vs
  proof -
    have "bm_get ?st2 k = Some vs" using kv from_checkpoint_wf by (simp add: bm_entries_get)
    with get obtain us where "bm_get st k = Some us" "vs = [last us]" by auto
    with chains show ?thesis by (auto dest!: bm_getD intro: chain_ok_head)
  qed
  then show "store_ok E ?st2" using from_checkpoint_wf by (auto simp: store_ok_def)
qed

text \<open>
  A write computes a record from the live version of its chain, and installs it: the older
  versions play no part.
\<close>

fun write_record :: "'z prims_scheme \<Rightarrow> store_write \<Rightarrow> epoch \<Rightarrow> stored_record option \<Rightarrow> stored_record result" where
  "write_record P (Replace s m) e prev = rbind (build_replacement_record P s m e) (\<lambda>(_, r). Inr r)"
| "write_record P (Mutate s m) e prev =
     rbind (validate_record_identity s m None) (\<lambda>_.
     rbind (validate_vector_dimensions s m) (\<lambda>_.
     rbind (ensure (ri_tenant_id m \<noteq> []) (InvalidRecord ''tenant id cannot be empty'')) (\<lambda>_.
     rbind (validate_record_identity s m (Some (merged_fields s m prev))) (\<lambda>_.
     Inr (new_record m e (merged_fields s m prev) (build_features P s m (merged_fields s m prev) prev e))))))"
| "write_record P (Remove s d) e prev =
     rbind (validate_deletion_identity s d) (\<lambda>_.
     rbind (ok_or (NotFound (record_name (rd_table d) (rd_tenant_id d) (rd_id d))) prev) (\<lambda>p.
     Inr (tombstone_record d e p)))"

lemma build_replacement_key:
  "build_replacement_record P s m e = Inr (k, r) \<Longrightarrow> k = record_key (ri_table m) (ri_tenant_id m) (ri_id m)"
  by (auto simp: build_replacement_record_def rbind_eq_Inr Let_def)

lemma write_factors:
  assumes "store_ok E st"
  shows "apply_write P st w e =
    rbind (write_record P w e (rfind is_live (versions_or_default st (write_key w)))) (\<lambda>r.
      Inr (bm_insert (write_key w) (install_version (versions_or_default st (write_key w)) r e) st))"
proof (cases w)
  case (Replace s m)
  then show ?thesis
    by (cases "build_replacement_record P s m e")
       (auto simp: apply_replacement_def dest: build_replacement_key)
next
  case (Mutate s m)
  then show ?thesis
    by (simp add: apply_mutation_def mutate_versions_def Let_def rbind_assoc)
next
  case (Remove s d)
  let ?k = "record_key (rd_table d) (rd_tenant_id d) (rd_id d)"
  show ?thesis
  proof (cases "bm_get st ?k")
    case None
    then show ?thesis by (simp add: Remove apply_delete_def rbind_assoc Let_def)
  next
    case (Some vs)
    then have "chain_ok E vs" using assms by (auto simp: store_ok_def dest!: bm_getD)
    with Some live_is_last(2) [OF this] show ?thesis
      by (cases "rfind is_live vs")
         (simp_all add: Remove apply_delete_def rbind_assoc Let_def delete_versions_def install_version_def)
  qed
qed

lemma heads_live:
  assumes "store_ok E st" and "store_ok E st2" and "same_heads st st2"
  shows "rfind is_live (versions_or_default st k) = rfind is_live (versions_or_default st2 k)"
proof -
  have heads: "map_option last (bm_get st k) = map_option last (bm_get st2 k)"
    using assms(3) by (simp add: same_heads_def)
  show ?thesis
  proof (cases "bm_get st k")
    case None
    with heads show ?thesis by simp
  next
    case (Some vs)
    with heads obtain us where us: "bm_get st2 k = Some us" "last us = last vs"
      by (cases "bm_get st2 k") auto
    have "chain_ok E vs" "chain_ok E us"
      using Some us(1) assms(1,2) by (auto simp: store_ok_def dest!: bm_getD)
    with Some us show ?thesis by (simp add: chain_heads(1))
  qed
qed

text \<open>Two stores agree from an epoch on.\<close>

definition agree_from :: "epoch \<Rightarrow> epoch \<Rightarrow> store \<Rightarrow> store \<Rightarrow> bool" where
  "agree_from E0 E st st2 \<longleftrightarrow> store_ok E st \<and> store_ok E st2 \<and> same_heads st st2 \<and>
     (\<forall>k e. E0 \<le> e \<longrightarrow> read_store st k e = read_store st2 k e)"

lemma agree_from_write:
  assumes "agree_from E0 E st st2" and "E \<le> e"
  shows "apply_write P st w e = Inl err \<longleftrightarrow> apply_write P st2 w e = Inl err"
    and "apply_write P st w e = Inr st' \<Longrightarrow> apply_write P st2 w e = Inr st2' \<Longrightarrow> agree_from E0 e st' st2'"
proof -
  have ok: "store_ok E st" "store_ok E st2" and heads: "same_heads st st2"
    using assms(1) by (auto simp: agree_from_def)
  note f = write_factors [OF ok(1), of P w e] write_factors [OF ok(2), of P w e] heads_live [OF ok heads]
  show "apply_write P st w e = Inl err \<longleftrightarrow> apply_write P st2 w e = Inl err"
    unfolding f by (cases "write_record P w e (rfind is_live (versions_or_default st2 (write_key w)))") auto
  assume w: "apply_write P st w e = Inr st'" "apply_write P st2 w e = Inr st2'"
  from w obtain r where
    r: "write_record P w e (rfind is_live (versions_or_default st2 (write_key w))) = Inr r"
    and st': "st' = bm_insert (write_key w) (install_version (versions_or_default st (write_key w)) r e) st"
    and st2': "st2' = bm_insert (write_key w) (install_version (versions_or_default st2 (write_key w)) r e) st2"
    unfolding f by (auto simp: rbind_eq_Inr)
  have "same_heads st' st2'"
    using heads by (simp add: same_heads_def st' st2' install_version_def)
  moreover have "read_store st' k e' = read_store st2' k e'" if "E0 \<le> e'" for k e'
  proof (cases "e \<le> e' \<and> k = write_key w")
    case True
    obtain r1 where r1: "rh_begin_epoch (sr_header r1) = e" "is_open r1"
      "st' = bm_insert (write_key w) (install_version (versions_or_default st (write_key w)) r1 e) st"
      using apply_writeE [OF ok(1) w(1)] by metis
    then have "bm_get st' (write_key w) = bm_get (bm_insert (write_key w) (install_version (versions_or_default st (write_key w)) r1 e) st) (write_key w)"
      by simp
    then have "r = r1" by (simp add: st' install_version_def)
    with True r1 history_install(1) [OF store_ok_chain [OF ok(1), of "write_key w"] assms(2), of r e']
      history_install(1) [OF store_ok_chain [OF ok(2), of "write_key w"] assms(2), of r e']
    show ?thesis by (simp add: st' st2' read_store_def)
  next
    case False
    then have "e' < e \<or> k \<noteq> write_key w" by auto
    then have "read_store st' k e' = read_store st k e'" "read_store st2' k e' = read_store st2 k e'"
      using read_after_write(2,3) [OF ok(1) assms(2) w(1)] read_after_write(2,3) [OF ok(2) assms(2) w(2)]
      by blast+
    with that assms(1) show ?thesis by (simp add: agree_from_def)
  qed
  ultimately show "agree_from E0 e st' st2'"
    using read_after_write(1) [OF ok(1) assms(2) w(1)] read_after_write(1) [OF ok(2) assms(2) w(2)]
    by (simp add: agree_from_def)
qed

lemma agree_from_run:
  assumes "agree_from E0 E st st2" and "ascending E ws"
  shows "run_writes (apply_write P) st ws = Inl err \<longleftrightarrow> run_writes (apply_write P) st2 ws = Inl err"
    and "run_writes (apply_write P) st ws = Inr st' \<Longrightarrow> run_writes (apply_write P) st2 ws = Inr st2' \<Longrightarrow>
      \<exists>e. agree_from E0 e st' st2'"
proof -
  have "(run_writes (apply_write P) st ws = Inl err \<longleftrightarrow> run_writes (apply_write P) st2 ws = Inl err) \<and>
    (run_writes (apply_write P) st ws = Inr st' \<longrightarrow> run_writes (apply_write P) st2 ws = Inr st2' \<longrightarrow>
      (\<exists>e. agree_from E0 e st' st2'))"
    using assms
  proof (induction ws arbitrary: E st st2)
    case Nil
    then show ?case by auto
  next
    case (Cons we ws)
    obtain w e where we: "we = (w, e)" by (cases we)
    with Cons.prems have asc: "E \<le> e" "ascending e ws" by auto
    note step = agree_from_write [OF Cons.prems(1) asc(1), of P w]
    show ?case
    proof (cases "apply_write P st w e")
      case (Inl err')
      with step(1) [of err'] show ?thesis by (simp add: we)
    next
      case (Inr u)
      with step(1) obtain u2 where u2: "apply_write P st2 w e = Inr u2"
        by (cases "apply_write P st2 w e") auto
      with Inr Cons.IH [OF step(2) [OF Inr u2] asc(2)] show ?thesis by (simp add: we)
    qed
  qed
  then show "run_writes (apply_write P) st ws = Inl err \<longleftrightarrow> run_writes (apply_write P) st2 ws = Inl err"
    and "run_writes (apply_write P) st ws = Inr st' \<Longrightarrow> run_writes (apply_write P) st2 ws = Inr st2' \<Longrightarrow>
      \<exists>e. agree_from E0 e st' st2'"
    by auto
qed

lemma checkpoint_agrees:
  assumes "store_ok E st" and "ids_ok st"
  shows "agree_from E E st (from_checkpoint_records (checkpoint_records st E))"
proof -
  let ?st2 = "from_checkpoint_records (checkpoint_records st E)"
  note cp = checkpoint_same_heads [OF assms]
  have "read_store st k e = read_store ?st2 k e" if "E \<le> e" for k e
  proof -
    have heads: "map_option last (bm_get st k) = map_option last (bm_get ?st2 k)"
      using cp(2) by (simp add: same_heads_def)
    show ?thesis
    proof (cases "bm_get st k")
      case None
      with heads show ?thesis by (simp add: read_store_def)
    next
      case (Some vs)
      with heads obtain us where us: "bm_get ?st2 k = Some us" "last us = last vs"
      by (cases "bm_get ?st2 k") auto
      have "chain_ok E vs" "chain_ok E us"
        using Some us(1) assms(1) cp(1) by (auto simp: store_ok_def dest!: bm_getD)
      with Some us that show ?thesis by (simp add: read_store_def history_def chain_heads(3))
    qed
  qed
  with cp assms(1) show ?thesis by (simp add: agree_from_def)
qed

text \<open>
  C17: Recovery from a checkpoint. Write the records current at an epoch to a checkpoint, load a
  store from it, and apply the writes that came after the checkpoint: this fails with the same
  error as applying them to the full store, or both succeed and every read at the checkpoint epoch
  or later returns the same record from both stores.
\<close>

theorem checkpoint_recovery:
  assumes "store_ok E st" and "ids_ok st" and "ascending E ws"
    and "st2 = from_checkpoint_records (checkpoint_records st E)"
  shows "case (run_writes (apply_write P) st ws, run_writes (apply_write P) st2 ws) of
      (Inl err, Inl err2) \<Rightarrow> err = err2
    | (Inr st', Inr st2') \<Rightarrow> \<forall>table tenant rid e. E \<le> e \<longrightarrow>
        map_option erase_end (get_record st' table tenant rid e) =
        map_option erase_end (get_record st2' table tenant rid e)
    | _ \<Rightarrow> False"
proof -
  have "agree_from E E st st2" unfolding assms(4) by (rule checkpoint_agrees [OF assms(1,2)])
  note run = agree_from_run [OF this assms(3), of P]
  have "map_option erase_end (get_record st' table tenant rid e) =
      map_option erase_end (get_record st2' table tenant rid e)"
    if "run_writes (apply_write P) st ws = Inr st'" "run_writes (apply_write P) st2 ws = Inr st2'" "E \<le> e"
    for st' st2' table tenant rid e
    using run(2) [OF that(1,2)] that(3) by (auto simp: agree_from_def simp flip: read_store_get)
  with run(1) show ?thesis by (auto split: sum.splits) blast
qed

section \<open>Witnesses\<close>

definition demo_schema :: table_schema where
  "demo_schema = \<lparr>ts_name = ''docs'', ts_primary_id_column = ''id'', ts_tenant_id_column = ''tenant'',
     ts_scalar_columns = [''status''], ts_text_indexed_columns = [''body''],
     ts_vector_columns = [\<lparr>vc_name = ''emb'', vc_dimensions = 1, vc_source_columns = [''body'']\<rparr>]\<rparr>"

definition demo_hash :: prims where
  "demo_hash = \<lparr>sha256 = \<lambda>_. zero32, json_text = \<lambda>_. ''v''\<rparr>"

definition demo_input :: "string \<Rightarrow> fields \<Rightarrow> record_input" where
  "demo_input rid flds = \<lparr>ri_table = ''docs'', ri_id = rid, ri_tenant_id = ''t1'', ri_fields = flds\<rparr>"

definition demo_first :: record_input where
  "demo_first = demo_input ''a'' [(''body'', JString ''x''), (''emb'', JArray [JNumber (PosInt 1)])]"

definition demo_patch :: record_input where
  "demo_patch = demo_input ''a'' [(''body'', JString ''y'')]"

definition demo_deletion :: record_deletion where
  "demo_deletion = \<lparr>rd_table = ''docs'', rd_id = ''a'', rd_tenant_id = ''t1'', rd_tombstone = []\<rparr>"

definition demo_store :: store where
  "demo_store = projr (apply_write demo_hash [] (Replace demo_schema demo_first) 1)"

lemma demo_store_written: "apply_write demo_hash [] (Replace demo_schema demo_first) 1 = Inr demo_store"
  by code_simp

lemma empty_store_ok: "store_ok E []" "ids_ok []"
  by (simp_all add: store_ok_def ids_ok_def)

lemma demo_store_ok: "store_ok 1 demo_store" "ids_ok demo_store"
proof -
  have le: "(0 :: epoch) \<le> 1" by simp
  show "store_ok 1 demo_store"
    using read_after_write(1) [OF empty_store_ok(1) le demo_store_written] .
  show "ids_ok demo_store"
    by (rule apply_write_ids_ok [OF empty_store_ok _ demo_store_written]) code_simp
qed

lemma demo_store_wf: "bm_wf demo_store"
  using demo_store_ok(1) by (simp add: store_ok_def)


theorem read_returns_last_write_witness:
  "map_option erase_end (get_record (fst (projr (apply_mutation demo_hash demo_store demo_schema demo_patch 2)))
     ''docs'' ''t1'' ''a'' 5) = Some (snd (projr (apply_mutation demo_hash demo_store demo_schema demo_patch 2)))"
proof -
  let ?r = "projr (apply_mutation demo_hash demo_store demo_schema demo_patch 2)"
  have m: "apply_mutation demo_hash demo_store demo_schema demo_patch 2 = Inr (fst ?r, snd ?r)"
    and ids: "ri_table demo_patch = ''docs''" "ri_tenant_id demo_patch = ''t1''" "ri_id demo_patch = ''a''"
    and le: "(1 :: epoch) \<le> 2" "(2 :: epoch) \<le> 5"
    by code_simp+
  have "map_option erase_end (get_record (fst ?r) (ri_table demo_patch) (ri_tenant_id demo_patch) (ri_id demo_patch) 5) =
      Some (snd ?r)"
    using read_returns_last_write [OF demo_store_ok(1) le(1) disjI2 [OF m], of "[]" "fst ?r" 5] le(2)
    by (simp only: ascending.simps run_writes_simps list.set ball_empty simp_thms)
  then show ?thesis unfolding ids .
qed

theorem delete_hides_from_epoch_witness:
  "get_record (fst (projr (apply_delete demo_store demo_schema demo_deletion 2))) ''docs'' ''t1'' ''a'' 5 = None"
proof -
  let ?r = "projr (apply_delete demo_store demo_schema demo_deletion 2)"
  have d: "apply_delete demo_store demo_schema demo_deletion 2 = Inr (fst ?r, snd ?r)"
    and ids: "rd_table demo_deletion = ''docs''" "rd_tenant_id demo_deletion = ''t1''" "rd_id demo_deletion = ''a''"
    and le: "(1 :: epoch) \<le> 2" "(2 :: epoch) \<le> 5"
    by code_simp+
  have "get_record (fst ?r) (rd_table demo_deletion) (rd_tenant_id demo_deletion) (rd_id demo_deletion) 5 = None"
    using delete_hides_from_epoch [OF demo_store_ok(1) le(1) d, of "[]" demo_hash "fst ?r" 5] le(2)
    by (simp only: ascending.simps run_writes_simps list.set ball_empty simp_thms)
  then show ?thesis unfolding ids .
qed

theorem mutation_merges_fields_witness:
  "bm_get (sr_fields (snd (projr (apply_mutation demo_hash demo_store demo_schema demo_patch 2)))) ''emb'' =
     Some (JArray [JNumber (PosInt 1)])"
proof -
  let ?r = "projr (apply_mutation demo_hash demo_store demo_schema demo_patch 2)"
  have m: "apply_mutation demo_hash demo_store demo_schema demo_patch 2 = Inr (fst ?r, snd ?r)"
    and wf: "bm_wf (ri_fields demo_patch)"
    and ids: "ts_primary_id_column demo_schema \<noteq> ts_tenant_id_column demo_schema"
    and old: "Option.bind (get_record demo_store (ri_table demo_patch) (ri_tenant_id demo_patch) (ri_id demo_patch) 1)
      (\<lambda>old. bm_get (sr_fields old) ''emb'') = Some (JArray [JNumber (PosInt 1)])"
    and new: "bm_get (ri_fields demo_patch) ''emb'' = None"
    by code_simp+
  from mutation_merges_fields [OF demo_store_ok(1) wf ids m, of "''emb''"] show ?thesis
    by (simp only: old new option.case)
qed

theorem plan_batch_equals_apply_witness:
  "rbind (rfold (\<lambda>d (w, e). plan_write demo_hash demo_store d w e) []
      [(Mutate demo_schema demo_patch, 2), (Remove demo_schema demo_deletion, 2)])
      (\<lambda>d. Inr (apply_delta demo_store d)) =
    run_writes (apply_write demo_hash) demo_store
      [(Mutate demo_schema demo_patch, 2), (Remove demo_schema demo_deletion, 2)]"
  by (rule plan_batch_equals_apply [OF demo_store_wf])

theorem tenant_isolation_witness:
  "\<exists>r. get_record demo_store ''docs'' ''t1'' ''a'' 1 = Some r \<and> record_ids r = (''docs'', ''t1'', ''a'')"
proof -
  have "get_record demo_store ''docs'' ''t1'' ''a'' 1 \<noteq> None"
    and "nul_free ''docs''" and "nul_free ''t1''" by code_simp+
  with tenant_isolation [OF demo_store_wf demo_store_ok(2), of "''docs''" "''t1''" "''a''" 1] show ?thesis by auto
qed

theorem scan_lists_visible_records_witness:
  "scan_records demo_store ''docs'' ''t1'' 10 1 = take 10 (visible_records_at demo_store ''docs'' ''t1'' 1)"
proof -
  have "nul_free ''docs''" and "nul_free ''t1''" by code_simp+
  with scan_lists_visible_records [OF demo_store_wf demo_store_ok(2), of "''docs''" "''t1''" 1 10] show ?thesis
    by blast
qed


theorem checkpoint_recovery_witness:
  "case (run_writes (apply_write demo_hash) demo_store [(Mutate demo_schema demo_patch, 2)],
         run_writes (apply_write demo_hash) (from_checkpoint_records (checkpoint_records demo_store 1))
           [(Mutate demo_schema demo_patch, 2)]) of
      (Inr st', Inr st2') \<Rightarrow> map_option erase_end (get_record st' ''docs'' ''t1'' ''a'' 2) =
        map_option erase_end (get_record st2' ''docs'' ''t1'' ''a'' 2)
    | _ \<Rightarrow> False"
proof -
  let ?ws = "[(Mutate demo_schema demo_patch, 2 :: epoch)]"
  have "ascending 1 ?ws" by code_simp
  note rec = checkpoint_recovery [OF demo_store_ok this refl, of demo_hash]
  have "\<not> isl (run_writes (apply_write demo_hash) demo_store ?ws)" and "(1 :: epoch) \<le> 2"
    by code_simp+
  with rec show ?thesis by (auto split: sum.splits)
qed

end
