(* ===== verification/Wal_Props.thy ===== *)
theory Wal_Props
  imports Wal
begin

text \<open>
  Properties of the write-ahead log model: what the scanner does on assembled frames, that it
  composes over concatenated logs and recovers from every truncation, and the theorems about
  append, crash recovery, the checksum chain and corruption.
\<close>

section \<open>What the parameters promise\<close>

text \<open>\<open>serde_json\<close> reads back the commit it wrote, and a struct is written as an object.\<close>

definition commit_codec_ok :: "wal_prims \<Rightarrow> bool" where
  "commit_codec_ok P \<longleftrightarrow>
     (\<forall>c bs. commit_ser P c = Inr bs \<longrightarrow> commit_de P bs = Inr c \<and> (\<exists>t. bs = CHR ''{'' # t))"

text \<open>A SHA-256 digest has 32 bytes.\<close>

definition digest_ok :: "'z prims_scheme \<Rightarrow> bool" where
  "digest_ok P \<longleftrightarrow> (\<forall>bs. length (sha256 P bs) = 32)"

definition wal_prims_ok :: "wal_prims \<Rightarrow> bool" where
  "wal_prims_ok P \<longleftrightarrow> commit_codec_ok P \<and> digest_ok P \<and> aead_ok (art_of P)"

text \<open>The commits that the scanner accepts; the engine builds no others.\<close>

definition commit_valid :: "commit_record \<Rightarrow> bool" where
  "commit_valid c \<longleftrightarrow> cr_commit_marker c = ''COMMITTED'' \<and> cr_parent_epoch c < cr_epoch c"

section \<open>Scanning one frame\<close>

lemma length_frame_header [simp]:
  "length prev = 32 \<Longrightarrow> length dig = 32 \<Longrightarrow> length (frame_header l prev dig n) = header_len"
  by (simp add: frame_header_def header_len_def)

lemma header_slices:
  assumes "length prev = 32" and "length dig = 32"
  shows "slice 0 4 (frame_header l prev dig n) = u32_le wal_magic"
    and "slice 4 8 (frame_header l prev dig n) = u32_le wal_format_version"
    and "slice 8 16 (frame_header l prev dig n) = u64_le l"
    and "slice 16 48 (frame_header l prev dig n) = prev"
    and "slice 48 52 (frame_header l prev dig n) = u32_le 1"
    and "slice 52 56 (frame_header l prev dig n) = u32_le (of_nat n)"
    and "slice 56 88 (frame_header l prev dig n) = dig"
  using assms by (simp_all add: frame_header_def slice_def)

lemma scan_frame_header:
  assumes "length prev = 32" and "length dig = 32" and "n \<le> max_payload_len"
  shows "scan_frame P enc prev start (frame_header l prev dig n @ rest) =
    scan_payload P enc start l prev n dig rest"
proof -
  let ?h = "frame_header l prev dig n"
  have n: "unat (u32_from_le (u32_le (of_nat n))) = n"
    using assms(3) by (intro u32_length_roundtrip) (simp add: max_payload_len_def)
  have len: "length ?h = header_len" using assms by simp
  then have take: "take header_len (?h @ rest) = ?h" "drop header_len (?h @ rest) = rest" by simp_all
  have "length ?h \<noteq> 0" "\<not> length ?h < header_len" using len by (simp_all add: header_len_def)
  then show ?thesis
    unfolding scan_frame_def Let_def take header_slices [OF assms(1,2)] n
    using assms(3) by simp
qed

text \<open>A frame that was read stays the same when the file goes on after it.\<close>

lemma scan_payload_append:
  assumes "scan_payload P enc start l prev n dig xs = Inr (ScanEntry e r off)"
  shows "scan_payload P enc start l prev n dig (xs @ ys) = Inr (ScanEntry e (r @ ys) off)"
  using assms
  by (auto simp: scan_payload_def Let_def rbind_eq_Inr ensure_eq_Inr split: if_splits)

lemma scan_payload_consumes:
  assumes "scan_payload P enc start l prev n dig xs = Inr (ScanEntry e r off)"
  shows "length xs = n + 4 + length r" and "off = start + header_len + n + 4"
  using assms
  by (auto simp: scan_payload_def Let_def rbind_eq_Inr ensure_eq_Inr split: if_splits)

lemma scan_payload_prefix:
  assumes "scan_payload P enc start l prev n dig xs = Inr (ScanEntry e r off)" and "k < n + 4"
  shows "\<exists>torn. scan_payload P enc start l prev n dig (take k xs) = Inr (ScanTorn torn) \<and>
    tt_offset torn = start"
  using assms
  by (auto simp: scan_payload_def Let_def rbind_eq_Inr ensure_eq_Inr min_def split: if_splits)

lemma scan_payload_take:
  assumes "scan_payload P enc start l prev n dig xs = Inr (ScanEntry e r off)" and "n + 4 \<le> k"
  shows "scan_payload P enc start l prev n dig (take k xs) = Inr (ScanEntry e (take (k - (n + 4)) r) off)"
  using assms
  by (auto simp: scan_payload_def Let_def rbind_eq_Inr ensure_eq_Inr min_def drop_take
        split: if_splits)

text \<open>The header decides how the rest of the frame is read.\<close>

lemma scan_frame_entryE:
  assumes "scan_frame P enc prev start xs = Inr (ScanEntry e r off)"
  obtains l n dig where "header_len \<le> length xs"
    and "\<And>ys. header_len \<le> length ys \<Longrightarrow> take header_len ys = take header_len xs \<Longrightarrow>
      scan_frame P enc prev start ys = scan_payload P enc start l prev n dig (drop header_len ys)"
    and "scan_payload P enc start l prev n dig (drop header_len xs) = Inr (ScanEntry e r off)"
proof -
  let ?h = "take header_len xs"
  have len: "header_len \<le> length xs"
    using assms by (auto simp: scan_frame_def Let_def split: if_splits)
  have "scan_frame P enc prev start ys =
      scan_payload P enc start (u64_from_le (slice 8 16 ?h)) prev (unat (u32_from_le (slice 52 56 ?h)))
        (slice 56 88 ?h) (drop header_len ys)"
    if "header_len \<le> length ys" and "take header_len ys = ?h" for ys
    using assms len that
    by (auto simp: scan_frame_def Let_def rbind_eq_Inr ensure_eq_Inr header_len_def split: if_splits)
  from that [OF len this] this [OF len refl] assms show thesis by simp
qed

lemma scan_frame_append:
  assumes "scan_frame P enc prev start xs = Inr (ScanEntry e r off)"
  shows "scan_frame P enc prev start (xs @ ys) = Inr (ScanEntry e (r @ ys) off)"
proof -
  from assms obtain l n dig where "header_len \<le> length xs"
    and "\<And>zs. header_len \<le> length zs \<Longrightarrow> take header_len zs = take header_len xs \<Longrightarrow>
      scan_frame P enc prev start zs = scan_payload P enc start l prev n dig (drop header_len zs)"
    and "scan_payload P enc start l prev n dig (drop header_len xs) = Inr (ScanEntry e r off)"
    by (rule scan_frame_entryE) blast
  with scan_payload_append [OF this(3), of ys] show ?thesis by simp
qed

lemma scan_frame_consumes:
  assumes "scan_frame P enc prev start xs = Inr (ScanEntry e r off)"
  shows "off + length r = start + length xs \<and> length r < length xs"
proof -
  from assms obtain l n dig where "header_len \<le> length xs"
    and "scan_payload P enc start l prev n dig (drop header_len xs) = Inr (ScanEntry e r off)"
    by (rule scan_frame_entryE) blast
  with scan_payload_consumes [OF this(2)] show ?thesis by (simp add: le_diff_iff') linarith
qed

text \<open>A proper prefix of a frame is a torn tail at the start of the frame.\<close>

lemma scan_frame_prefix:
  assumes "scan_frame P enc prev start xs = Inr (ScanEntry e r off)" and "0 < k" and "start + k < off"
  shows "\<exists>torn. scan_frame P enc prev start (take k xs) = Inr (ScanTorn torn) \<and> tt_offset torn = start"
proof -
  from assms(1) obtain l n dig where len: "header_len \<le> length xs"
    and hdr: "\<And>zs. header_len \<le> length zs \<Longrightarrow> take header_len zs = take header_len xs \<Longrightarrow>
      scan_frame P enc prev start zs = scan_payload P enc start l prev n dig (drop header_len zs)"
    and pay: "scan_payload P enc start l prev n dig (drop header_len xs) = Inr (ScanEntry e r off)"
    by (rule scan_frame_entryE) blast
  show ?thesis
  proof (cases "k < header_len")
    case True
    with len assms(2) show ?thesis by (auto simp: scan_frame_def Let_def)
  next
    case False
    with len hdr [of "take k xs"] scan_frame_consumes [OF assms(1)] assms(3)
    have "scan_frame P enc prev start (take k xs) =
        scan_payload P enc start l prev n dig (take (k - header_len) (drop header_len xs))"
      by (simp add: drop_take min_def)
    with scan_payload_prefix [OF pay, of "k - header_len"] scan_payload_consumes [OF pay] assms(3) False
    show ?thesis by simp
  qed
qed

lemma scan_frame_take:
  assumes "scan_frame P enc prev start xs = Inr (ScanEntry e r off)" and "off \<le> start + k"
  shows "scan_frame P enc prev start (take k xs) = Inr (ScanEntry e (take (start + k - off) r) off)"
proof -
  from assms(1) obtain l n dig where len: "header_len \<le> length xs"
    and hdr: "\<And>zs. header_len \<le> length zs \<Longrightarrow> take header_len zs = take header_len xs \<Longrightarrow>
      scan_frame P enc prev start zs = scan_payload P enc start l prev n dig (drop header_len zs)"
    and pay: "scan_payload P enc start l prev n dig (drop header_len xs) = Inr (ScanEntry e r off)"
    by (rule scan_frame_entryE) blast
  note off = scan_payload_consumes(2) [OF pay]
  with assms(2) len hdr [of "take k xs"]
  have "scan_frame P enc prev start (take k xs) =
      scan_payload P enc start l prev n dig (take (k - header_len) (drop header_len xs))"
    by (simp add: drop_take min_def)
  also have "\<dots> = Inr (ScanEntry e (take (k - header_len - (n + 4)) r) off)"
    using off assms(2) by (intro scan_payload_take [OF pay]) simp
  finally show ?thesis using off by simp
qed

lemma scan_frame_end: "scan_frame P enc prev start xs = Inr ScanEnd \<longleftrightarrow> xs = []"
  by (auto simp: scan_frame_def scan_payload_def Let_def rbind_eq_Inr header_len_def split: if_splits)

section \<open>Scanning logs\<close>

text \<open>\<open>scan_ok\<close>: the file is a sequence of whole frames that the scanner accepts.\<close>

abbreviation clean :: "wal_entry list \<Rightarrow> wal_scan" where
  "clean es \<equiv> \<lparr>sc_entries = es, sc_torn_tail = None\<rparr>"

lemma scan_loop_cleanE:
  assumes "scan_loop P enc xs off es = Inr (clean es')"
  obtains "xs = []" and "es' = es"
  | e r off' where "scan_frame P enc (last_checksum es) off xs = Inr (ScanEntry e r off')"
    and "scan_loop P enc r off' (es @ [e]) = Inr (clean es')"
proof -
  from assms obtain step where step: "scan_frame P enc (last_checksum es) off xs = Inr step"
    by (subst (asm) scan_loop.simps) (auto simp: rbind_eq_Inr)
  with assms that show thesis
    by (cases step; subst (asm) scan_loop.simps) (auto simp: scan_frame_end)
qed

lemma scan_loop_Nil [simp]: "scan_loop P enc [] off es = Inr (clean es)"
  by (subst scan_loop.simps) (simp add: scan_frame_def)

lemma scan_loop_append:
  assumes "scan_loop P enc xs off es = Inr (clean es')"
  shows "scan_loop P enc (xs @ ys) off es = scan_loop P enc ys (off + length xs) es'"
  using assms
proof (induction "length xs" arbitrary: xs off es rule: less_induct)
  case less
  from less.prems show ?case
  proof (cases rule: scan_loop_cleanE)
    case 1
    then show ?thesis by simp
  next
    case (2 e r off')
    have "scan_loop P enc (xs @ ys) off es = scan_loop P enc (r @ ys) off' (es @ [e])"
      by (subst scan_loop.simps) (simp add: scan_frame_append [OF 2(1)])
    also have "\<dots> = scan_loop P enc ys (off' + length r) es'"
      using scan_frame_consumes [OF 2(1)] 2(2) by (intro less.hyps) simp_all
    finally show ?thesis using scan_frame_consumes [OF 2(1)] by simp
  qed
qed

lemma scan_loop_entries:
  assumes "scan_loop P enc xs off es = Inr sc"
  shows "prefix es (sc_entries sc)"
  using assms
proof (induction P enc xs off es arbitrary: sc rule: scan_loop.induct)
  case (1 P enc rest off es)
  from "1.prems" obtain step where step: "scan_frame P enc (last_checksum es) off rest = Inr step"
    by (subst (asm) scan_loop.simps) (auto simp: rbind_eq_Inr)
  show ?case
  proof (cases step)
    case (ScanEntry e r off')
    with "1.prems" step have "scan_loop P enc r off' (es @ [e]) = Inr sc"
      by (subst (asm) scan_loop.simps) simp
    with "1.IH" [OF step ScanEntry] have "prefix (es @ [e]) (sc_entries sc)" .
    then show ?thesis by (rule append_prefixD)
  qed (use "1.prems" step in \<open>(subst (asm) scan_loop.simps, force)+\<close>)
qed

text \<open>A log cut anywhere: the whole frames before the cut are kept, the rest is torn.\<close>

lemma scan_loop_prefix:
  assumes "scan_loop P enc xs off es = Inr (clean es')" and "k \<le> length xs"
  shows "\<exists>n mid torn. n \<le> k \<and> scan_loop P enc (take n xs) off es = Inr (clean mid) \<and>
     scan_loop P enc (take k xs) off es = Inr \<lparr>sc_entries = mid, sc_torn_tail = torn\<rparr> \<and>
     (case torn of None \<Rightarrow> n = k | Some t \<Rightarrow> tt_offset t = off + n)"
  using assms
proof (induction "length xs" arbitrary: xs off es k rule: less_induct)
  case less
  from less.prems(1) show ?case
  proof (cases rule: scan_loop_cleanE)
    case 1
    with less.prems(2) show ?thesis by (auto intro!: exI [of _ None])
  next
    case (2 e r off')
    note cons = scan_frame_consumes [OF 2(1)]
    show ?thesis
    proof (cases "off + k < off'")
      case True
      show ?thesis
      proof (cases "k = 0")
        case True
        then show ?thesis by (auto intro!: exI [of _ None])
      next
        case False
        with True scan_frame_prefix [OF 2(1), of k] obtain torn where
          "scan_frame P enc (last_checksum es) off (take k xs) = Inr (ScanTorn torn)"
          and "tt_offset torn = off" by auto
        then have "scan_loop P enc (take k xs) off es = Inr \<lparr>sc_entries = es, sc_torn_tail = Some torn\<rparr>"
          by (subst scan_loop.simps) simp
        with \<open>tt_offset torn = off\<close> show ?thesis
          by (intro exI [of _ 0] exI [of _ es] exI [of _ "Some torn"]) simp
      qed
    next
      case False
      have step: "scan_loop P enc (take j xs) off es = scan_loop P enc (take (off + j - off') r) off' (es @ [e])"
        if "off' \<le> off + j" for j
        by (subst scan_loop.simps) (simp add: scan_frame_take [OF 2(1) that])
      obtain n mid torn where n: "n \<le> off + k - off'"
        and mid: "scan_loop P enc (take n r) off' (es @ [e]) = Inr (clean mid)"
        and torn: "scan_loop P enc (take (off + k - off') r) off' (es @ [e]) =
          Inr \<lparr>sc_entries = mid, sc_torn_tail = torn\<rparr>"
          "case torn of None \<Rightarrow> n = off + k - off' | Some t \<Rightarrow> tt_offset t = off' + n"
        using less.hyps [OF _ 2(2), of "off + k - off'"] cons less.prems(2) False by force
      have j: "off' \<le> off + (off' - off + n)" and "off + (off' - off + n) - off' = n"
        using cons less.prems(2) False by simp_all
      with step [OF j] mid have "scan_loop P enc (take (off' - off + n) xs) off es = Inr (clean mid)"
        by simp
      with step [of k] torn n cons False show ?thesis
        by (intro exI [of _ "off' - off + n"] exI [of _ mid] exI [of _ torn])
           (auto split: option.splits)
    qed
  qed
qed

section \<open>Frames that were built\<close>

lemma art_truncate_simps [simp]:
  "sha256 (art_of P) = sha256 P" "aead_encrypt (art_of P) = aead_encrypt P"
  "aead_decrypt (art_of P) = aead_decrypt P"
  by (simp_all add: art_prims.defs)

lemma check_payload_len_ok: "check_payload_len bs l = Inr u \<longleftrightarrow> length bs \<le> max_payload_len"
  by (auto simp: check_payload_len_def ensure_eq_Inr)

text \<open>The payload of a frame decrypts to the serialized commit.\<close>

lemma encrypted_payload_opens:
  assumes "wal_prims_ok P" and "length nonce = nonce_len" and "commit_ser P c = Inr plain"
    and "encrypt_payload_if_needed P nonce enc ''wal'' plain l = Inr payload"
  shows "decrypt_artifact_if_needed (art_of P) enc ''wal'' payload = Inr plain"
proof (cases enc)
  case None
  from assms(1,3) obtain t where "plain = CHR ''{'' # t"
    by (auto simp: wal_prims_ok_def commit_codec_ok_def)
  then have "\<not> is_encrypted_artifact plain"
    by (simp add: is_encrypted_artifact_def encrypted_artifact_magic_def starts_with_def)
  with assms(4) None show ?thesis
    by (auto simp: encrypt_payload_if_needed_def decrypt_artifact_if_needed_def rbind_eq_Inr)
next
  case (Some ctx)
  with assms(4) obtain c' where
    c': "aead_encrypt P (ec_dek ctx) nonce (artifact_aad ''wal'' (ec_key_id ctx)) plain = Inr c'"
    and payload: "payload = encrypted_artifact_magic @ nonce @ c'"
    by (auto simp: encrypt_payload_if_needed_def encrypt_artifact_def rbind_eq_Inr split: sum.splits)
  with assms(1) have "c' \<noteq> []"
    and "aead_decrypt P (ec_dek ctx) nonce (artifact_aad ''wal'' (ec_key_id ctx)) c' = Some plain"
    by (auto simp: wal_prims_ok_def aead_ok_def)
  then show ?thesis
    using decrypt_layout [OF assms(2), of c' "art_of P" ctx "''wal''"] Some payload
    by (simp add: decrypt_artifact_if_needed_def is_encrypted_artifact_def)
qed

lemma built_frame_scans:
  assumes "wal_prims_ok P" and "length nonce = nonce_len" and "length prev = 32" and "commit_valid c"
    and "build_commit_frame_with_encryption P nonce c l prev enc = Inr f"
  shows "scan_frame P enc prev start (cf_frame f @ rest) =
     Inr (ScanEntry \<lparr>we_lsn = l, we_checksum = cf_payload_checksum f,
                     we_commit = c\<lparr>cr_previous_commit_hash := prev\<rparr>\<rparr> rest (start + length (cf_frame f)))"
    and "length (cf_payload_checksum f) = 32" and "cf_frame_bytes f = length (cf_frame f)"
    and "cf_epoch f = cr_epoch c"
proof -
  let ?c = "prepare_commit_for_frame c prev"
  from assms(5) obtain plain payload where plain: "commit_ser P ?c = Inr plain"
    and payload: "encrypt_payload_if_needed P nonce enc ''wal'' plain l = Inr payload"
    and f: "cf_payload_checksum f = sha256 P payload"
      "cf_frame f = assemble_commit_frame l prev (sha256 P payload) payload"
      "cf_frame_bytes f = length (cf_frame f)" "cf_epoch f = cr_epoch c"
    by (auto simp: build_commit_frame_with_encryption_def serialize_commit_payload_for_frame_def
          serialize_prepared_commit_payload_def rbind_eq_Inr Let_def split: sum.splits)
  have max: "length payload \<le> max_payload_len"
    using payload by (auto simp: encrypt_payload_if_needed_def rbind_eq_Inr check_payload_len_ok)
  have dig: "length (sha256 P payload) = 32"
    using assms(1) by (simp add: wal_prims_ok_def digest_ok_def)
  have de: "commit_de P plain = Inr ?c"
    using assms(1) plain by (simp add: wal_prims_ok_def commit_codec_ok_def)
  have "cr_epoch c \<noteq> 0 \<and> \<not> cr_epoch c \<le> cr_parent_epoch c"
    using assms(4) by (auto simp: commit_valid_def not_le)
  then have checked: "check_commit ?c prev l = Inr ()"
    using assms(4) by (simp add: check_commit_def commit_valid_def prepare_commit_for_frame_def)
  show "scan_frame P enc prev start (cf_frame f @ rest) =
     Inr (ScanEntry \<lparr>we_lsn = l, we_checksum = cf_payload_checksum f,
                     we_commit = c\<lparr>cr_previous_commit_hash := prev\<rparr>\<rparr> rest (start + length (cf_frame f)))"
    using encrypted_payload_opens [OF assms(1,2) plain payload] de checked dig assms(3)
    by (simp add: f assemble_commit_frame_def scan_frame_header [OF assms(3) dig max] scan_payload_def
          Let_def header_len_def prepare_commit_for_frame_def)
  show "length (cf_payload_checksum f) = 32" "cf_frame_bytes f = length (cf_frame f)"
    "cf_epoch f = cr_epoch c"
    using f dig by simp_all
qed

section \<open>Log states\<close>

text \<open>
  The log handle agrees with a clean file: every entry is readable, the checksums are 32 bytes
  long, and the cached tail is the tail of the file.
\<close>

definition wal_inv :: "wal_prims \<Rightarrow> wal \<Rightarrow> bytes \<Rightarrow> wal_entry list \<Rightarrow> bool" where
  "wal_inv P w file entries \<longleftrightarrow>
     scan_file P (wal_encryption w) file = Inr (clean entries) \<and>
     wal_tail_cache w = tail_from_scan file (clean entries) \<and>
     length (last_checksum entries) = 32"

lemma tail_from_scan_clean [simp]:
  "wt_file_len (tail_from_scan file (clean es)) = length file"
  "wt_last_checksum (tail_from_scan file (clean es)) = last_checksum es"
  by (simp_all add: tail_from_scan_def last_checksum_def Let_def)

lemma scan_file_append:
  assumes "scan_file P enc file = Inr (clean es)"
  shows "scan_file P enc (file @ rest) = scan_loop P enc rest (length file) es"
  using scan_loop_append [OF assms [unfolded scan_file_def]] by (simp add: scan_file_def)

definition appended_entry :: "wal_entry list \<Rightarrow> lsn \<Rightarrow> bytes \<Rightarrow> commit_record \<Rightarrow> wal_entry" where
  "appended_entry es l dig c =
     \<lparr>we_lsn = l, we_checksum = dig, we_commit = c\<lparr>cr_previous_commit_hash := last_checksum es\<rparr>\<rparr>"

lemma append_commitE:
  assumes "wal_inv P w file es" and "append_commit P nonce w file c = Inr (w', file', l)"
  obtains f where
    "build_commit_frame_with_encryption P nonce c l (last_checksum es) (wal_encryption w) = Inr f"
    and "file' = file @ cf_frame f" and "wal_encryption w' = wal_encryption w"
    and "l = (if es = [] then 1 else lsn_next (we_lsn (last es)))"
    and "wal_tail_cache w' = \<lparr>wt_last_lsn = Some l, wt_last_epoch = Some (cf_epoch f),
      wt_last_checksum = cf_payload_checksum f, wt_file_len = length file + cf_frame_bytes f\<rparr>"
    and "wal_recovery_torn_tail w' = wal_recovery_torn_tail w"
proof -
  have tail: "refreshed_tail P w file = Inr (tail_from_scan file (clean es))"
    using assms(1) by (simp add: refreshed_tail_def wal_inv_def)
  from assms(2) show thesis
    by (auto simp: append_commit_def tail tail_next_lsn_def rbind_eq_Inr Let_def tail_from_scan_def
          last_checksum_def intro!: that split: if_splits)
qed

lemma append_commit_inv:
  assumes "wal_prims_ok P" and "length nonce = nonce_len" and "wal_inv P w file es" and "commit_valid c"
    and "append_commit P nonce w file c = Inr (w', file', l)"
  shows "\<exists>dig. wal_inv P w' file' (es @ [appended_entry es l dig c])"
proof -
  from append_commitE [OF assms(3,5)] obtain f where
    built: "build_commit_frame_with_encryption P nonce c l (last_checksum es) (wal_encryption w) = Inr f"
    and file': "file' = file @ cf_frame f" and enc: "wal_encryption w' = wal_encryption w"
    and tail: "wal_tail_cache w' = \<lparr>wt_last_lsn = Some l, wt_last_epoch = Some (cf_epoch f),
      wt_last_checksum = cf_payload_checksum f, wt_file_len = length file + cf_frame_bytes f\<rparr>"
    by blast
  let ?e = "appended_entry es l (cf_payload_checksum f) c"
  have prev: "length (last_checksum es) = 32" using assms(3) by (simp add: wal_inv_def)
  note frame = built_frame_scans [OF assms(1,2) prev assms(4) built]
  have "scan_loop P (wal_encryption w) (cf_frame f) (length file) es = Inr (clean (es @ [?e]))"
    using frame(1) [of "length file" "[]"]
    by (subst scan_loop.simps) (simp add: appended_entry_def)
  then have "scan_file P (wal_encryption w') file' = Inr (clean (es @ [?e]))"
    using assms(3) scan_file_append by (simp add: file' enc wal_inv_def)
  then have "wal_inv P w' file' (es @ [?e])"
    using frame(2-4) tail
    by (simp add: wal_inv_def tail_from_scan_def appended_entry_def last_checksum_def file')
  then show ?thesis ..
qed

lemma wal_open_clean:
  assumes "scan_file P enc file = Inr (clean es)" and "length (last_checksum es) = 32"
  shows "\<exists>w. wal_open P enc file = Inr (w, file) \<and> wal_inv P w file es \<and> wal_encryption w = enc"
  using assms by (auto simp: wal_open_def truncate_torn_tail_if_present_def Let_def wal_inv_def)

section \<open>Theorems\<close>

text \<open>Appending commits one after the other; each draws its nonce.\<close>

definition append_all ::
    "wal_prims \<Rightarrow> wal \<times> bytes \<Rightarrow> (bytes \<times> commit_record) list \<Rightarrow> (wal \<times> bytes) result" where
  "append_all P =
     rfold (\<lambda>(w, file) (nonce, c).
       rbind (append_commit P nonce w file c) (\<lambda>(w', file', l). Inr (w', file')))"

text \<open>The entries that these commits become: sequence numbers from one, hashes chained.\<close>

definition log_of :: "wal_entry list \<Rightarrow> commit_record list \<Rightarrow> bool" where
  "log_of es cs \<longleftrightarrow> length es = length cs \<and>
     (\<forall>i < length cs. es ! i =
        appended_entry (take i es) (of_nat (Suc i)) (we_checksum (es ! i)) (cs ! i))"

lemma log_of_nth_lsn: "log_of es cs \<Longrightarrow> i < length es \<Longrightarrow> we_lsn (es ! i) = of_nat (Suc i)"
  by (metis appended_entry_def log_of_def wal_entry.select_convs(1))

lemma log_of_last_lsn:
  assumes "log_of es cs" and "es \<noteq> []"
  shows "we_lsn (last es) = of_nat (length es)"
  using log_of_nth_lsn [OF assms(1), of "length es - 1"] assms(2)
  by (simp add: last_conv_nth del: of_nat_Suc)

lemma log_of_snoc:
  assumes "log_of es cs" and "e = appended_entry es (of_nat (Suc (length es))) (we_checksum e) c"
  shows "log_of (es @ [e]) (cs @ [c])"
  using assms by (auto simp: log_of_def nth_append less_Suc_eq)

lemma append_all_snoc:
  "append_all P s (xs @ [(nonce, c)]) =
     rbind (append_all P s xs) (\<lambda>(w, file).
       rbind (append_commit P nonce w file c) (\<lambda>(w', file', l). Inr (w', file')))"
  by (auto simp: append_all_def rfold_append rbind_def split: sum.splits prod.splits)

text \<open>
  C9: The log returns what was appended. Open an empty log, append any sequence of commits (with
  or without encryption), and scan the file: the scan reports no torn tail and returns one entry per
  commit, in order, with sequence numbers 1, 2, 3, and so on, each holding its commit with the hash of the
  previous entry filled in.
\<close>

theorem wal_scan_returns_appended:
  assumes "wal_prims_ok P" and "wal_open P enc [] = Inr s"
    and "append_all P s xs = Inr (w, file)"
    and "\<forall>(nonce, c) \<in> set xs. length nonce = nonce_len \<and> commit_valid c"
  shows "\<exists>es. scan_file P enc file = Inr \<lparr>sc_entries = es, sc_torn_tail = None\<rparr> \<and> log_of es (map snd xs)"
proof -
  have "\<exists>es. wal_inv P w file es \<and> wal_encryption w = enc \<and> log_of es (map snd xs)"
    using assms(3,4)
  proof (induction xs arbitrary: w "file" rule: rev_induct)
    case Nil
    have "scan_file P enc [] = Inr (clean [])" by (simp add: scan_file_def)
    from wal_open_clean [OF this] Nil assms(2) show ?case
      by (auto simp: append_all_def log_of_def last_checksum_def)
  next
    case (snoc x xs)
    obtain nonce c where x: "x = (nonce, c)" by (cases x)
    from snoc.prems(1) obtain w1 file1 l where s1: "append_all P s xs = Inr (w1, file1)"
      and app: "append_commit P nonce w1 file1 c = Inr (w, file, l)"
      by (auto simp: x append_all_snoc rbind_eq_Inr)
    with snoc.IH [OF s1] snoc.prems(2) obtain es where inv: "wal_inv P w1 file1 es"
      and enc: "wal_encryption w1 = enc" and log: "log_of es (map snd xs)"
      by auto
    from append_commit_inv [OF assms(1) _ inv _ app] snoc.prems(2) x obtain dig where
      inv': "wal_inv P w file (es @ [appended_entry es l dig c])" by auto
    from append_commitE [OF inv app] enc have "wal_encryption w = enc"
      and l: "l = (if es = [] then 1 else lsn_next (we_lsn (last es)))" by blast+
    moreover have "l = of_nat (Suc (length es))"
      using l log_of_last_lsn [OF log] by (simp add: lsn_next_def)
    ultimately show ?case
      using inv' log_of_snoc [OF log, of "appended_entry es l dig c" c]
      by (auto simp: x appended_entry_def)
  qed
  then show ?thesis by (auto simp: wal_inv_def)
qed

lemma append_crash_reopens:
  assumes "wal_prims_ok P" and "length nonce = nonce_len" and "commit_valid c"
    and "wal_inv P w file es" and "append_commit P nonce w file c = Inr (w', file', l)"
    and "length file \<le> k"
  shows "\<exists>w2 file2 dig. wal_open P (wal_encryption w) (take k file') = Inr (w2, file2) \<and>
     (if k < length file' then file2 = file \<and> wal_inv P w2 file es
      else file2 = file' \<and> wal_inv P w2 file' (es @ [appended_entry es l dig c]))"
proof -
  from append_commitE [OF assms(4,5)] obtain f where
    built: "build_commit_frame_with_encryption P nonce c l (last_checksum es) (wal_encryption w) = Inr f"
    and file': "file' = file @ cf_frame f" and enc: "wal_encryption w' = wal_encryption w"
    by blast
  have old: "scan_file P (wal_encryption w) file = Inr (clean es)" "length (last_checksum es) = 32"
    using assms(4) by (auto simp: wal_inv_def)
  obtain dig where inv': "wal_inv P w' file' (es @ [appended_entry es l dig c])"
    using append_commit_inv [OF assms(1,2,4,3,5)] by blast
  show ?thesis
  proof (cases "k < length file'")
    case False
    then have "take k file' = file'" by simp
    with False wal_open_clean [of P "wal_encryption w" file'] inv' enc show ?thesis
      by (fastforce simp: wal_inv_def)
  next
    case True
    define j where "j = k - length file"
    have cut: "take k file' = file @ take j (cf_frame f)" "j < length (cf_frame f)"
      using assms(6) True by (simp_all add: file' j_def)
    show ?thesis
    proof (cases "j = 0")
      case True
      with cut wal_open_clean [OF old] \<open>k < length file'\<close> show ?thesis by auto
    next
      case False
      note frame = built_frame_scans(1) [OF assms(1,2) old(2) assms(3) built, of "length file" "[]"]
      obtain torn where
        "scan_frame P (wal_encryption w) (last_checksum es) (length file) (take j (cf_frame f)) = Inr (ScanTorn torn)"
        and off: "tt_offset torn = length file"
        using scan_frame_prefix [OF frame, of j] cut(2) False by auto
      then have "scan_file P (wal_encryption w) (take k file') =
          Inr \<lparr>sc_entries = es, sc_torn_tail = Some torn\<rparr>"
        unfolding cut(1) scan_file_append [OF old(1)] by (subst scan_loop.simps) simp
      moreover have "take (tt_offset torn) (take k file') = file" by (simp add: cut(1) off)
      ultimately show ?thesis
        using old True
        by (auto simp: wal_open_def truncate_torn_tail_if_present_def Let_def wal_inv_def)
    qed
  qed
qed

text \<open>
  C5: Crash safety of an append. Let a log hold some entries and let a crash cut the file at any
  byte at or after the old end while a commit is being appended. Opening the file again succeeds,
  truncates it to whole frames and finds all the old entries, plus the new one exactly when all
  of its bytes had reached the file; the reopened log is consistent and accepts further appends.
\<close>

theorem wal_append_crash_safe:
  assumes "wal_prims_ok P" and "length nonce = nonce_len" and "commit_valid c"
    and "wal_inv P w file es" and "append_commit P nonce w file c = Inr (w', file', l)"
    and "length file \<le> k"
  shows "\<exists>w2 file2 dig. wal_open P (wal_encryption w) (take k file') = Inr (w2, file2) \<and>
     (if k < length file' then file2 = file \<and> wal_inv P w2 file es
      else file2 = file' \<and> wal_inv P w2 file' (es @ [appended_entry es l dig c]))"
  by (rule append_crash_reopens [OF assms])

text \<open>
  Any prefix of a log recovers to a prefix of its entries. Cut a readable log at any byte
  whatever: opening it succeeds, keeps only whole frames (a prefix of the cut file), and finds a
  prefix of the entries; nothing is invented, reordered or reported as corruption.
\<close>

theorem wal_truncation_recovers_prefix:
  assumes "scan_file P enc file = Inr \<lparr>sc_entries = es, sc_torn_tail = None\<rparr>" and "k \<le> length file"
  shows "\<exists>w n mid. wal_open P enc (take k file) = Inr (w, take n file) \<and> n \<le> k \<and> prefix mid es \<and>
     scan_file P enc (take n file) = Inr \<lparr>sc_entries = mid, sc_torn_tail = None\<rparr> \<and>
     wal_tail_cache w = tail_from_scan (take n file) \<lparr>sc_entries = mid, sc_torn_tail = None\<rparr>"
proof -
  from scan_loop_prefix [OF assms(1) [unfolded scan_file_def] assms(2)] obtain n mid torn where
    n: "n \<le> k" and mid: "scan_file P enc (take n file) = Inr (clean mid)"
    and cut: "scan_file P enc (take k file) = Inr \<lparr>sc_entries = mid, sc_torn_tail = torn\<rparr>"
    and torn: "case torn of None \<Rightarrow> n = k | Some t \<Rightarrow> tt_offset t = 0 + n"
    unfolding scan_file_def by blast
  have "scan_loop P enc (drop n file) (length (take n file)) mid = Inr (clean es)"
    using scan_file_append [OF mid, of "drop n file"] assms(1) by simp
  from scan_loop_entries [OF this] have "prefix mid es" by simp
  moreover have "\<exists>w. wal_open P enc (take k file) = Inr (w, take n file) \<and>
      wal_tail_cache w = tail_from_scan (take n file) (clean mid)"
    using cut torn n
    by (cases torn) (auto simp: wal_open_def truncate_torn_tail_if_present_def Let_def min_def)
  ultimately show ?thesis using n mid by blast
qed

text \<open>The chain of hashes through a list of entries, from a starting hash.\<close>

fun chained :: "bytes \<Rightarrow> wal_entry list \<Rightarrow> bool" where
  "chained prev [] = True"
| "chained prev (e # es) =
     (cr_previous_commit_hash (we_commit e) = prev \<and> commit_valid (we_commit e) \<and>
      chained (we_checksum e) es)"

lemma chained_snoc:
  "chained prev (es @ [e]) \<longleftrightarrow> chained prev es \<and> commit_valid (we_commit e) \<and>
     cr_previous_commit_hash (we_commit e) = (if es = [] then prev else we_checksum (last es))"
  by (induction es arbitrary: prev) auto

lemma scan_frame_checked:
  assumes "scan_frame P enc prev start xs = Inr (ScanEntry e r off)"
  shows "cr_previous_commit_hash (we_commit e) = prev \<and> commit_valid (we_commit e)"
proof -
  from assms obtain l n dig where
    "scan_payload P enc start l prev n dig (drop header_len xs) = Inr (ScanEntry e r off)"
    by (rule scan_frame_entryE) blast
  then show ?thesis
    by (auto simp: scan_payload_def Let_def rbind_eq_Inr ensure_eq_Inr check_commit_def commit_valid_def
          split: if_splits)
qed

text \<open>
  What the scanner accepts is a hash chain. Whatever bytes the file holds, if the scan
  succeeds then the entries it returns are linked: the first commit names the zero hash, every
  other one the payload checksum of its predecessor, and every commit carries the commit marker
  and an epoch above its parent epoch.
\<close>

theorem wal_scan_hash_chain:
  assumes "scan_file P enc file = Inr sc"
  shows "chained zero32 (sc_entries sc)"
proof -
  have "chained zero32 (sc_entries sc)" if "scan_loop P enc xs off es = Inr sc" and "chained zero32 es"
    for xs off es
    using that
  proof (induction P enc xs off es rule: scan_loop.induct)
    case (1 P enc rest off es)
    from "1.prems" obtain step where step: "scan_frame P enc (last_checksum es) off rest = Inr step"
      by (subst (asm) scan_loop.simps) (auto simp: rbind_eq_Inr)
    show ?case
    proof (cases step)
      case (ScanEntry e r off')
      with "1.prems" step have "scan_loop P enc r off' (es @ [e]) = Inr sc"
        by (subst (asm) scan_loop.simps) simp
      moreover have "chained zero32 (es @ [e])"
        using scan_frame_checked [OF step [unfolded ScanEntry]] "1.prems"(2)
        by (simp add: chained_snoc last_checksum_def)
      ultimately show ?thesis using "1.IH" [OF step ScanEntry] by blast
    qed (use "1.prems" step in \<open>(subst (asm) scan_loop.simps, force)+\<close>)
  qed
  with assms show ?thesis by (force simp: scan_file_def)
qed

text \<open>
  The timed append path is the untimed one. It fails with the same errors, writes the same
  bytes, leaves the same handle and returns the same sequence number; the byte count it reports
  is the number of bytes that were written.
\<close>

theorem timed_append_equals_untimed:
  "rbind (append_commit_with_timing P nonce w file c) (\<lambda>(w', file', l, payload_bytes, frame_bytes).
     Inr (w', file', l, frame_bytes)) =
   rbind (append_commit P nonce w file c) (\<lambda>(w', file', l).
     Inr (w', file', l, length file' - length file))"
  by (auto simp: append_commit_with_timing_def append_commit_def Let_def
        build_commit_frame_with_timing_encryption_def build_commit_frame_with_encryption_def
        serialize_commit_payload_for_frame_def rbind_def split: sum.splits prod.splits)

text \<open>
  A damaged payload is reported. Replace the payload bytes of the frame that follows a
  readable log by other bytes of the same length with another SHA-256 digest: the scan of the
  whole file fails with \<open>payload checksum mismatch\<close> at the sequence number of that frame, whatever
  follows.
\<close>

theorem wal_payload_damage_detected:
  assumes "scan_file P enc file = Inr \<lparr>sc_entries = es, sc_torn_tail = None\<rparr>"
    and "length (last_checksum es) = 32" and "length dig = 32"
    and "length payload \<le> max_payload_len" and "length payload' = length payload"
    and "sha256 P payload' \<noteq> dig"
  shows "scan_file P enc (file @ frame_header l (last_checksum es) dig (length payload) @ payload' @ rest) =
     Inl (WalCorruption (''payload checksum mismatch at lsn '' @ show_nat (unat l)))"
proof -
  have "scan_frame P enc (last_checksum es) (length file)
      (frame_header l (last_checksum es) dig (length payload) @ payload' @ rest) =
      Inl (WalCorruption (''payload checksum mismatch at lsn '' @ show_nat (unat l)))"
    using assms(5,6) by (simp add: scan_frame_header [OF assms(2-4)] scan_payload_def Let_def)
  then show ?thesis
    unfolding scan_file_append [OF assms(1)] by (subst scan_loop.simps) simp
qed

text \<open>
  An append that finds a torn tail left by an earlier, failed write does not truncate it. The
  commit is acknowledged, but the log is unreadable afterwards: the frame starts in the middle of
  the torn one. Here the torn tail is the first byte of a frame.
\<close>

lemma le_encode_numeral:
  "le_encode (numeral n) x = byte_of (x mod 256) # le_encode (pred_numeral n) (x div 256)"
  by (metis le_encode.simps(2) numeral_eq_Suc)

lemma magic_byte_shifted:
  "u32_from_le (CHR ''L'' # take 3 (u32_le wal_magic)) \<noteq> wal_magic"
  by (simp add: u32_from_le_def u32_le_def wal_magic_def le_encode_numeral)

lemma append_after_torn_write_corrupts:
  assumes "wal_inv P w file es" and "digest_ok P"
    and "append_commit P nonce w (file @ [CHR ''L'']) c = Inr (w', file', l)"
  shows "scan_file P (wal_encryption w) file' = Inl (WalCorruption ''invalid magic'')"
proof -
  let ?enc = "wal_encryption w" and ?prev = "last_checksum es"
  have old: "scan_file P ?enc file = Inr (clean es)" "length ?prev = 32"
    and cache: "wt_file_len (wal_tail_cache w) = length file"
    using assms(1) by (auto simp: wal_inv_def)
  have "\<exists>torn. scan_file P ?enc (file @ [CHR ''L'']) = Inr \<lparr>sc_entries = es, sc_torn_tail = Some torn\<rparr>"
    unfolding scan_file_append [OF old(1)]
    by (subst scan_loop.simps) (simp add: scan_frame_def header_len_def)
  then obtain torn where
    "scan_file P ?enc (file @ [CHR ''L'']) = Inr \<lparr>sc_entries = es, sc_torn_tail = Some torn\<rparr>" ..
  then have "refreshed_tail P w (file @ [CHR ''L'']) =
      Inr (tail_from_scan (file @ [CHR ''L'']) \<lparr>sc_entries = es, sc_torn_tail = Some torn\<rparr>)"
    by (simp add: refreshed_tail_def cache)
  moreover have "wt_last_checksum (tail_from_scan (file @ [CHR ''L'']) \<lparr>sc_entries = es, sc_torn_tail = Some torn\<rparr>) = ?prev"
    by (simp add: tail_from_scan_def last_checksum_def Let_def)
  ultimately obtain f where "build_commit_frame_with_encryption P nonce c l ?prev ?enc = Inr f"
    and file': "file' = file @ CHR ''L'' # cf_frame f"
    using assms(3) by (auto simp: append_commit_def rbind_eq_Inr Let_def)
  then obtain payload where f: "cf_frame f = assemble_commit_frame l ?prev (sha256 P payload) payload"
    by (auto simp: build_commit_frame_with_encryption_def rbind_eq_Inr Let_def)
  have dig: "length (sha256 P payload) = 32" using assms(2) by (simp add: digest_ok_def)
  have "slice 0 4 (take header_len (CHR ''L'' # cf_frame f)) = CHR ''L'' # take 3 (u32_le wal_magic)"
    by (simp add: f assemble_commit_frame_def frame_header_def slice_def header_len_def)
  moreover have "length (take header_len (CHR ''L'' # cf_frame f)) = header_len"
    using old(2) dig by (simp add: f assemble_commit_frame_def) 
  ultimately have "scan_frame P ?enc ?prev (length file) (CHR ''L'' # cf_frame f) =
      Inl (WalCorruption ''invalid magic'')"
    unfolding scan_frame_def Let_def using magic_byte_shifted by (simp add: header_len_def)
  then show ?thesis
    unfolding file' scan_file_append [OF old(1)] by (subst scan_loop.simps) simp
qed

section \<open>Witnesses\<close>

lemma append_plain_succeeds:
  assumes "wal_inv P w file es" and "wal_encryption w = None"
    and "commit_ser P (c\<lparr>cr_previous_commit_hash := last_checksum es\<rparr>) = Inr plain"
    and "length plain \<le> max_payload_len"
  shows "\<exists>w' file' l. append_commit P nonce w file c = Inr (w', file', l)"
  using assms
  by (simp add: append_commit_def refreshed_tail_def wal_inv_def Let_def
        build_commit_frame_with_encryption_def serialize_commit_payload_for_frame_def
        serialize_prepared_commit_payload_def prepare_commit_for_frame_def check_payload_len_def
        encrypt_payload_if_needed_def)

definition demo_commit :: commit_record where
  "demo_commit = commit_empty 1 1"

definition demo_wal_prims :: wal_prims where
  "demo_wal_prims = art_prims.extend demo_prims (wal_prims.fields
     (\<lambda>c. if c = demo_commit then Inr ''{}'' else Inl ''unsupported'')
     (\<lambda>bs. if bs = ''{}'' then Inr demo_commit else Inl ''unsupported''))"

lemma demo_wal_prims_ok: "wal_prims_ok demo_wal_prims"
proof -
  have "art_of demo_wal_prims = demo_prims"
    by (simp add: demo_wal_prims_def demo_prims_def art_prims.defs wal_prims.defs)
  with demo_prims_ok(3) show ?thesis
    by (auto simp: wal_prims_ok_def commit_codec_ok_def digest_ok_def demo_wal_prims_def
          demo_prims_def art_prims.defs wal_prims.defs split: if_splits)
qed

definition demo_wal :: wal where
  "demo_wal = \<lparr>wal_tail_cache = tail_from_scan [] (clean []), wal_encryption = None,
               wal_recovery_torn_tail = None\<rparr>"

lemma demo_wal_inv: "wal_inv demo_wal_prims demo_wal [] []"
  by (simp add: wal_inv_def demo_wal_def scan_file_def last_checksum_def)

lemma demo_wal_open: "wal_open demo_wal_prims None [] = Inr (demo_wal, [])"
  by (simp add: wal_open_def scan_file_def truncate_torn_tail_if_present_def demo_wal_def)

lemma demo_commit_valid: "commit_valid demo_commit"
  by code_simp

lemma demo_nonce_len: "length demo_nonce = nonce_len"
  by (simp add: demo_nonce_def nonce_len_def)

lemma demo_append:
  "\<exists>w' file' l. append_commit demo_wal_prims demo_nonce demo_wal [] demo_commit = Inr (w', file', l)"
proof (rule append_plain_succeeds [OF demo_wal_inv])
  have "demo_commit\<lparr>cr_previous_commit_hash := zero32\<rparr> = demo_commit"
    by (simp add: demo_commit_def commit_empty_def)
  then show "commit_ser demo_wal_prims (demo_commit\<lparr>cr_previous_commit_hash := last_checksum []\<rparr>) = Inr ''{}''"
    by (simp add: last_checksum_def demo_wal_prims_def demo_prims_def art_prims.defs wal_prims.defs)
qed (simp_all add: demo_wal_def max_payload_len_def)

theorem wal_scan_returns_appended_witness:
  "\<exists>w file es. append_all demo_wal_prims (demo_wal, []) [(demo_nonce, demo_commit)] = Inr (w, file) \<and>
     scan_file demo_wal_prims None file = Inr \<lparr>sc_entries = es, sc_torn_tail = None\<rparr> \<and>
     log_of es [demo_commit]"
proof -
  obtain w "file" where "append_all demo_wal_prims (demo_wal, []) [(demo_nonce, demo_commit)] = Inr (w, file)"
    using demo_append by (auto simp: append_all_def)
  with wal_scan_returns_appended [OF demo_wal_prims_ok demo_wal_open this]
    demo_commit_valid demo_nonce_len show ?thesis by auto
qed

theorem wal_append_crash_safe_witness:
  "\<exists>w' file' l. append_commit demo_wal_prims demo_nonce demo_wal [] demo_commit = Inr (w', file', l) \<and>
     (\<exists>w2 file2. wal_open demo_wal_prims None (take 10 file') = Inr (w2, file2))"
proof -
  obtain w' file' l where app: "append_commit demo_wal_prims demo_nonce demo_wal [] demo_commit = Inr (w', file', l)"
    using demo_append by blast
  from wal_append_crash_safe [OF demo_wal_prims_ok demo_nonce_len demo_commit_valid demo_wal_inv app, of 10]
  have "\<exists>w2 file2. wal_open demo_wal_prims None (take 10 file') = Inr (w2, file2)"
    by (auto simp: demo_wal_def)
  with app show ?thesis by blast
qed

text \<open>The log of one commit.\<close>

lemma demo_log:
  obtains log e where "scan_file demo_wal_prims None log = Inr (clean [e])"
proof -
  obtain w' file' l where app: "append_commit demo_wal_prims demo_nonce demo_wal [] demo_commit = Inr (w', file', l)"
    using demo_append by blast
  have "wal_encryption w' = None"
    using append_commitE [OF demo_wal_inv app] by (metis demo_wal_def wal.select_convs(2))
  moreover obtain dig where "wal_inv demo_wal_prims w' file' ([] @ [appended_entry [] l dig demo_commit])"
    using append_commit_inv [OF demo_wal_prims_ok demo_nonce_len demo_wal_inv demo_commit_valid app] ..
  ultimately show thesis using that by (auto simp: wal_inv_def)
qed

theorem wal_truncation_recovers_prefix_witness:
  "\<exists>log e. scan_file demo_wal_prims None log = Inr \<lparr>sc_entries = [e], sc_torn_tail = None\<rparr> \<and>
     (\<exists>w n. wal_open demo_wal_prims None (take (length log - 1) log) = Inr (w, take n log))"
proof -
  obtain log e where log: "scan_file demo_wal_prims None log = Inr (clean [e])" by (rule demo_log)
  from wal_truncation_recovers_prefix [OF log, of "length log - 1"] log show ?thesis by auto
qed

theorem wal_scan_hash_chain_witness:
  "\<exists>log e. scan_file demo_wal_prims None log = Inr \<lparr>sc_entries = [e], sc_torn_tail = None\<rparr> \<and>
     chained zero32 [e]"
proof -
  obtain log e where log: "scan_file demo_wal_prims None log = Inr (clean [e])" by (rule demo_log)
  from wal_scan_hash_chain [OF log] log show ?thesis by auto
qed

theorem wal_payload_damage_detected_witness:
  "scan_file demo_wal_prims None ([] @ frame_header 1 (last_checksum []) zero32 (length ''a'') @ ''b'' @ []) =
     Inl (WalCorruption (''payload checksum mismatch at lsn '' @ show_nat (unat (1 :: lsn))))"
proof (rule wal_payload_damage_detected)
  show "sha256 demo_wal_prims ''b'' \<noteq> zero32"
    by code_simp
qed (simp_all add: scan_file_def last_checksum_def max_payload_len_def)

end
