(* ===== verification/Engine_Props.thy ===== *)
theory Engine_Props
  imports Engine Store_Props Wal_Props "HOL-Library.Countable"
begin

text \<open>
  The manifest and checkpoint files read back what was written, and the contract of the engine's
  write commands: the commit that a command logs rebuilds, on replay, the state that the command
  installs in memory.
\<close>

section \<open>What the codecs promise\<close>

text \<open>
  \<open>serde_json\<close> serializes every manifest (its maps have string keys), reads back the manifest it
  wrote, and writes UTF-8.
\<close>

definition manifest_codec_ok :: "eng_prims \<Rightarrow> bool" where
  "manifest_codec_ok P \<longleftrightarrow>
     (\<forall>m. \<exists>bs. manifest_json P m = Inr bs) \<and>
     (\<forall>m. \<exists>bs. manifest_json_pretty P m = Inr bs \<and> manifest_parse P bs = Inr m \<and> utf8_valid bs)"

text \<open>It reads back the checkpoint payload it wrote, an object.\<close>

definition checkpoint_codec_ok :: "eng_prims \<Rightarrow> bool" where
  "checkpoint_codec_ok P \<longleftrightarrow>
     (\<forall>p bs. checkpoint_json P p = Inr bs \<longrightarrow> checkpoint_parse P bs = Inr p \<and> (\<exists>t. bs = CHR ''{'' # t))"

definition eng_prims_ok :: "eng_prims \<Rightarrow> bool" where
  "eng_prims_ok P \<longleftrightarrow> wal_prims_ok (log_of_prims P) \<and> manifest_codec_ok P \<and> checkpoint_codec_ok P"

lemma eng_truncate_simps [simp]:
  "sha256 (log_of_prims P) = sha256 P" "aead_encrypt (log_of_prims P) = aead_encrypt P"
  "aead_decrypt (log_of_prims P) = aead_decrypt P" "art_of (log_of_prims P) = art_of_prims P"
  "sha256 (art_of_prims P) = sha256 P" "aead_encrypt (art_of_prims P) = aead_encrypt P"
  "aead_decrypt (art_of_prims P) = aead_decrypt P"
  by (simp_all add: wal_prims.defs art_prims.defs)

section \<open>The manifest file\<close>

lemma checksum_ignores_itself [simp]:
  "compute_manifest_checksum P (m\<lparr>mf_manifest_checksum := c\<rparr>) = compute_manifest_checksum P m"
  by (simp add: compute_manifest_checksum_def)

lemma write_manifestE:
  assumes "write_manifest P d m = Inr (d', m')"
  obtains cs body bak where "compute_manifest_checksum P m = Inr cs" and "m' = m\<lparr>mf_manifest_checksum := cs\<rparr>"
    and "manifest_json_pretty P m' = Inr body"
    and "d' = d\<lparr>dk_manifest_bak := bak, dk_manifest := Some body\<rparr>"
    and "bak = (case read_manifest_inner P (dk_manifest d) of Inl _ \<Rightarrow> dk_manifest_bak d | Inr _ \<Rightarrow> dk_manifest d)"
proof -
  from assms obtain cs body d1 where cs: "compute_manifest_checksum P m = Inr cs"
    and m': "m' = m\<lparr>mf_manifest_checksum := cs\<rparr>" and body: "manifest_json_pretty P m' = Inr body"
    and d1: "copy_manifest_backup P d = Inr d1" and d': "d' = d1\<lparr>dk_manifest := Some body\<rparr>"
    by (auto simp: write_manifest_def Let_def rbind_eq_Inr json_result_eq_Inr)
  have "d1 = d\<lparr>dk_manifest_bak := (case read_manifest_inner P (dk_manifest d) of
      Inl _ \<Rightarrow> dk_manifest_bak d | Inr _ \<Rightarrow> dk_manifest d)\<rparr>"
    using d1
    by (cases "dk_manifest d")
       (auto simp: copy_manifest_backup_def read_manifest_inner_def [of P None] split: sum.splits if_splits)
  with that [OF cs m' body _ refl] d' show thesis by simp
qed

lemma write_manifest_read:
  assumes "manifest_codec_ok P" and "write_manifest P d m = Inr (d', m')" and "mf_manifest_checksum m' \<noteq> zero32"
  shows "read_manifest_inner P (dk_manifest d') = Inr m'"
proof -
  from write_manifestE [OF assms(2)] obtain cs body where cs: "compute_manifest_checksum P m = Inr cs"
    and m': "m' = m\<lparr>mf_manifest_checksum := cs\<rparr>" and body: "manifest_json_pretty P m' = Inr body"
    and d': "dk_manifest d' = Some body"
    by (metis disk.select_convs(1) disk.surjective disk.update_convs(1))
  have "manifest_parse P body = Inr m'" "utf8_valid body"
    using assms(1) body unfolding manifest_codec_ok_def by (metis sum.inject(2))+
  moreover have "compute_manifest_checksum P m' = Inr cs" using cs by (simp add: m')
  ultimately show ?thesis
    using assms(3) by (simp add: read_manifest_inner_def d' Let_def m')
qed

text \<open>Writing succeeds over a manifest that can be read, and where there is none.\<close>

lemma write_manifest_over:
  assumes "manifest_codec_ok P" and "dk_manifest d = None \<or> (\<exists>old. read_manifest_inner P (dk_manifest d) = Inr old)"
  shows "\<exists>d' m'. write_manifest P d m = Inr (d', m')"
proof -
  obtain cs where "compute_manifest_checksum P m = Inr cs"
    using assms(1) by (auto simp: manifest_codec_ok_def compute_manifest_checksum_def) (metis rbind_simps(2) json_result_Inr)
  moreover obtain body where "manifest_json_pretty P (m\<lparr>mf_manifest_checksum := cs\<rparr>) = Inr body"
    using assms(1) by (auto simp: manifest_codec_ok_def)
  moreover obtain d1 where "copy_manifest_backup P d = Inr d1"
    using assms(2) by (cases "dk_manifest d") (auto simp: copy_manifest_backup_def)
  ultimately show ?thesis by (simp add: write_manifest_def Let_def)
qed

lemma write_manifest_total:
  "manifest_codec_ok P \<Longrightarrow> read_manifest_inner P (dk_manifest d) = Inr old \<Longrightarrow> \<exists>d' m'. write_manifest P d m = Inr (d', m')"
  by (rule write_manifest_over) blast+


section \<open>Checkpoint files\<close>

lemma read_framed_layout:
  assumes "length dig = 32" and "payload \<noteq> []"
  shows "\<not> length (checkpoint_magic_v3 @ dig @ payload) \<le> 8 + 32"
    and "slice 8 40 (checkpoint_magic_v3 @ dig @ payload) = dig"
    and "drop 40 (checkpoint_magic_v3 @ dig @ payload) = payload"
    and "starts_with (checkpoint_magic_v3 @ dig @ payload) checkpoint_magic_v3"
  using assms by (simp_all add: checkpoint_magic_v3_def slice_def starts_with_def)

lemma artifact_roundtrip:
  assumes "aead_ok (art_of_prims P)" and "length nonce = nonce_len" and "\<exists>t. plain = CHR ''{'' # t"
    and "(case enc of Some ctx \<Rightarrow> encrypt_artifact (art_of_prims P) nonce ctx kind plain | None \<Rightarrow> Inr plain) = Inr payload"
  shows "decrypt_artifact_if_needed (art_of_prims P) enc kind payload = Inr plain \<and> payload \<noteq> []"
proof (cases enc)
  case None
  with assms(3,4) show ?thesis
    by (auto simp: decrypt_artifact_if_needed_def is_encrypted_artifact_def encrypted_artifact_magic_def starts_with_def)
next
  case (Some ctx)
  with assms(4) obtain c where
    c: "aead_encrypt P (ec_dek ctx) nonce (artifact_aad kind (ec_key_id ctx)) plain = Inr c"
    and payload: "payload = encrypted_artifact_magic @ nonce @ c"
    by (auto simp: encrypt_artifact_def rbind_eq_Inr split: sum.splits)
  with assms(1) have "c \<noteq> []" "aead_decrypt P (ec_dek ctx) nonce (artifact_aad kind (ec_key_id ctx)) c = Some plain"
    by (auto simp: aead_ok_def)
  then show ?thesis
    using decrypt_layout [OF assms(2), of c "art_of_prims P" ctx kind] Some payload
    by (simp add: decrypt_artifact_if_needed_def is_encrypted_artifact_def)
qed

lemma checkpoint_written:
  assumes "eng_prims_ok P" and "length nonce = nonce_len"
    and "write_checkpoint_file P nonce d e schemas records receipts jobs enc = Inr d'"
  obtains payload where "d' = d\<lparr>dk_checkpoints := bm_insert e (checkpoint_magic_v3 @ sha256 P payload @ payload) (dk_checkpoints d)\<rparr>"
    and "sha256 P payload \<noteq> zero32 \<Longrightarrow> dk_checkpoints d2 = dk_checkpoints d' \<Longrightarrow>
      \<exists>cp. read_checkpoint_file P dir d2 e enc = Inr cp \<and>
      cp_epoch cp = e \<and> cp_schemas cp = schemas \<and> cp_records cp = records \<and>
      cp_idempotency_receipts cp = receipts \<and> cp_job_catalog cp = jobs"
proof -
  let ?p = "\<lparr>cp_format_version = checkpoint_format_version, cp_epoch = e, cp_schemas = schemas,
        cp_records = records, cp_idempotency_receipts = receipts, cp_job_catalog = jobs\<rparr>"
  from assms(3) obtain plain payload where plain: "checkpoint_json P ?p = Inr plain"
    and payload: "(case enc of Some ctx \<Rightarrow> encrypt_artifact (art_of_prims P) nonce ctx ''checkpoint'' plain | None \<Rightarrow> Inr plain) = Inr payload"
    and d': "d' = d\<lparr>dk_checkpoints := bm_insert e (checkpoint_magic_v3 @ sha256 P payload @ payload) (dk_checkpoints d)\<rparr>"
    by (auto simp: write_checkpoint_file_def rbind_eq_Inr json_result_eq_Inr Let_def)
  have ok: "checkpoint_parse P plain = Inr ?p" "\<exists>t. plain = CHR ''{'' # t" "aead_ok (art_of_prims P)"
    "length (sha256 P payload) = 32"
    using assms(1) plain by (auto simp: eng_prims_ok_def checkpoint_codec_ok_def wal_prims_ok_def digest_ok_def
        eng_truncate_simps(4))
  note open_payload = artifact_roundtrip [OF ok(3) assms(2) ok(2) payload]
  note layout = read_framed_layout [OF ok(4), of payload]
  have "\<exists>cp. read_checkpoint_file P dir d2 e enc = Inr cp \<and> checkpoint_payload.truncate cp = ?p"
    if "sha256 P payload \<noteq> zero32" "dk_checkpoints d2 = dk_checkpoints d'"
    using that open_payload layout ok(1)
    by (simp add: read_checkpoint_file_def d' read_binary_checkpoint_file_def read_framed_checkpoint_file_def
          Let_def checkpoint_payload.defs checkpoint_file.defs)
  with that [OF d'] show thesis
    by (auto simp: checkpoint_payload.defs)
qed

text \<open>
  Checkpoint files round-trip and detect damage. Read back a checkpoint file just written,
  encrypted or not: the schemas, records, receipts and jobs are the ones written. And whatever else
  the file holds, if its frame has the current format and the digest in the frame is not the digest
  of the bytes after it, reading fails; nothing is loaded.
\<close>

theorem checkpoint_file_roundtrip:
  assumes "eng_prims_ok P" and "length nonce = nonce_len"
    and "write_checkpoint_file P nonce d e schemas records receipts jobs enc = Inr d'"
    and "bm_get (dk_checkpoints d') e = Some body" and "slice 8 40 body \<noteq> zero32"
  shows "(\<exists>cp. read_checkpoint_file P dir d' e enc = Inr cp \<and> cp_epoch cp = e \<and> cp_schemas cp = schemas \<and>
      cp_records cp = records \<and> cp_idempotency_receipts cp = receipts \<and> cp_job_catalog cp = jobs) \<and>
    (\<forall>damaged. starts_with damaged checkpoint_magic_v3 \<and> sha256 P (drop 40 damaged) \<noteq> slice 8 40 damaged \<longrightarrow>
      (\<exists>err. read_checkpoint_file P dir (d'\<lparr>dk_checkpoints := bm_insert e damaged (dk_checkpoints d')\<rparr>) e enc = Inl err))"
proof (intro conjI allI impI)
  obtain payload where d': "d' = d\<lparr>dk_checkpoints := bm_insert e (checkpoint_magic_v3 @ sha256 P payload @ payload) (dk_checkpoints d)\<rparr>"
    and read: "sha256 P payload \<noteq> zero32 \<Longrightarrow> dk_checkpoints d' = dk_checkpoints d' \<Longrightarrow>
      \<exists>cp. read_checkpoint_file P dir d' e enc = Inr cp \<and> cp_epoch cp = e \<and> cp_schemas cp = schemas \<and>
      cp_records cp = records \<and> cp_idempotency_receipts cp = receipts \<and> cp_job_catalog cp = jobs"
    using checkpoint_written [OF assms(1-3), of d' dir] by metis
  have "length (sha256 P payload) = 32"
    using assms(1) by (simp add: eng_prims_ok_def wal_prims_ok_def digest_ok_def)
  then have "slice 8 40 body = sha256 P payload"
    using assms(4) by (auto simp: d' checkpoint_magic_v3_def slice_def)
  with read assms(5) show "\<exists>cp. read_checkpoint_file P dir d' e enc = Inr cp \<and> cp_epoch cp = e \<and>
      cp_schemas cp = schemas \<and> cp_records cp = records \<and> cp_idempotency_receipts cp = receipts \<and> cp_job_catalog cp = jobs"
    by simp
qed (auto simp: read_checkpoint_file_def read_binary_checkpoint_file_def read_framed_checkpoint_file_def
      Let_def rbind_def ensure_def split: sum.splits if_splits)

section \<open>A codec for manifests\<close>

text \<open>
  A directory without files. Manifests can be numbered, so there are byte codecs that read back
  what they write; the instance below writes the number of the manifest in unary.
\<close>

definition empty_disk :: disk where
  "empty_disk = \<lparr>dk_manifest = None, dk_manifest_bak = None, dk_wal = [], dk_checkpoints = [],
     dk_json_checkpoints = [], dk_job_catalog = None\<rparr>"

instance vector_column_ext :: (countable) countable
  by (rule countable_classI [of "\<lambda>r. to_nat (vc_name r, vc_dimensions r, vc_source_columns r, vector_column.more r)"]) simp

instance table_schema_ext :: (countable) countable
  by (rule countable_classI [of "\<lambda>r. to_nat (ts_name r, ts_primary_id_column r, ts_tenant_id_column r, ts_scalar_columns r,
    ts_text_indexed_columns r, ts_vector_columns r, table_schema.more r)"]) simp

instance segment_state :: countable
  by countable_datatype

instance index_state :: countable
  by countable_datatype

instance segment_manifest_ext :: (countable) countable
  by (rule countable_classI [of "\<lambda>r. to_nat (sm_segment_id r, sm_generation r, sm_state r, sm_table_set r, sm_tenant_set r,
    segment_manifest.more r)"]) simp

instance index_manifest_ext :: (countable) countable
  by (rule countable_classI [of "\<lambda>r. to_nat (im_index_id r, im_segment_id r, im_generation r, im_kind r, im_state r,
    im_policy_aware r, im_parent_manifest_generation r, im_object_path r, im_checksum r, im_source_segment_checksum r,
    im_payload_checksum r, im_artifact_format_version r, im_codec r, im_created_epoch r, im_ready_epoch r,
    index_manifest.more r)"]) simp

instance module_manifest_ext :: (countable) countable
  by (rule countable_classI [of "\<lambda>r. to_nat (mm_module_id r, mm_version r, mm_trust_level r, module_manifest.more r)"]) simp

instance encryption_metadata_ext :: (countable) countable
  by (rule countable_classI [of "\<lambda>r. to_nat (em_algorithm r, em_key_id r, em_wrapped_dek_b64 r, em_dek_nonce_b64 r,
    encryption_metadata.more r)"]) simp

instance manifest_ext :: (countable) countable
proof (rule countable_classI)
  fix r r' :: "'a manifest_scheme"
  assume "to_nat ((mf_format_version r, mf_manifest_generation r, mf_database_id r, mf_database_uuid r, mf_branch_id r,
      mf_parent_branch r, mf_branch_base_epoch r, mf_object_prefix r, mf_latest_epoch r, mf_durable_epoch r,
      mf_checkpoint_epoch r, mf_active_wal r), (mf_wal_start_lsn r, mf_wal_end_lsn r, mf_schemas r, mf_segments r, mf_indexes r,
      mf_feature_models r, mf_modules r, mf_job_queues r, mf_snapshots r, mf_encryption r, mf_parent_checksum r,
      mf_manifest_checksum r, manifest.more r)) =
    to_nat ((mf_format_version r', mf_manifest_generation r', mf_database_id r', mf_database_uuid r', mf_branch_id r',
      mf_parent_branch r', mf_branch_base_epoch r', mf_object_prefix r', mf_latest_epoch r', mf_durable_epoch r',
      mf_checkpoint_epoch r', mf_active_wal r'), (mf_wal_start_lsn r', mf_wal_end_lsn r', mf_schemas r', mf_segments r', mf_indexes r',
      mf_feature_models r', mf_modules r', mf_job_queues r', mf_snapshots r', mf_encryption r', mf_parent_checksum r',
      mf_manifest_checksum r', manifest.more r'))"
  then show "r = r'" by simp
qed

text \<open>Parameters with a codec for one receipt command and one checkpoint in the directory \<open>/db\<close>.\<close>

definition demo_receipt :: idempotency_receipt where
  "demo_receipt = \<lparr>ir_method = ''POST'', ir_path = ''/v1/graphql'', ir_key = ''k1'',
     ir_body_hash = stable_body_hash (prims.truncate demo_prims) ''{}'', ir_actor_tenant_id = ''local'',
     ir_database_id = ''local'', ir_branch_id = ''main'', ir_token_identity = ''anonymous'',
     ir_response = ''HTTP/1.1 200 OK'' @ [CHR 0x0D, CHR 0x0A] @ ''content-type: application/json'' @ [CHR 0x0D, CHR 0x0A] @
       ''content-length: 0'' @ [CHR 0x0D, CHR 0x0A, CHR 0x0D, CHR 0x0A]\<rparr>"

definition demo_receipt_commit :: commit_record where
  "demo_receipt_commit = (commit_for_database (commit_empty 1 1) (database_id_from_path (prims.truncate demo_prims) ''/db'') ''main'')
     \<lparr>cr_schema_epoch := 0, cr_policy_epoch := 0,
      cr_module_events := [\<lparr>me_module_id = ''tracedb-kernel'', me_event = ''idempotency.receipt''\<rparr>],
      cr_idempotency_receipts := [demo_receipt]\<rparr>"

definition demo_checkpoint :: checkpoint_payload where
  "demo_checkpoint = \<lparr>cp_format_version = checkpoint_format_version, cp_epoch = 1, cp_schemas = [], cp_records = [],
     cp_idempotency_receipts = [demo_receipt], cp_job_catalog = []\<rparr>"

definition demo_eng :: eng_prims where
  "demo_eng = wal_prims.extend
     (art_prims.extend demo_prims (wal_prims.fields
       (\<lambda>c. if c = demo_receipt_commit then Inr ''{r'' else Inl ''unsupported'')
       (\<lambda>bs. if bs = ''{r'' then Inr demo_receipt_commit else Inl ''unsupported'')))
     (eng_prims.fields (\<lambda>m. Inr ''{m'') (\<lambda>m. Inr (replicate (to_nat m) CHR ''a'')) (\<lambda>bs. Inr (from_nat (length bs)))
       (\<lambda>p. if p = demo_checkpoint then Inr ''{c'' else Inl ''unsupported'')
       (\<lambda>bs. if bs = ''{c'' then Inr demo_checkpoint else Inl ''unsupported'')
       (\<lambda>_. Inl ''unsupported'') (\<lambda>_. Inl ''unsupported'') (\<lambda>_. Inr ''{j''))"

lemma demo_eng_simps [simp]:
  "sha256 demo_eng bs = take 32 (bs @ zero32)"
  "commit_ser demo_eng c = (if c = demo_receipt_commit then Inr ''{r'' else Inl ''unsupported'')"
  "manifest_json demo_eng m = Inr ''{m''" "manifest_json_pretty demo_eng m = Inr (replicate (to_nat m) CHR ''a'')"
  "manifest_parse demo_eng bs = Inr (from_nat (length bs))"
  "checkpoint_json demo_eng p = (if p = demo_checkpoint then Inr ''{c'' else Inl ''unsupported'')"
  "prims.truncate demo_eng = prims.truncate demo_prims" "art_of_prims demo_eng = demo_prims"
  "commit_ser (log_of_prims demo_eng) = commit_ser demo_eng"
  by (simp_all add: demo_eng_def demo_prims_def art_prims.defs wal_prims.defs eng_prims.defs prims.defs)

lemma utf8_as: "utf8_valid (replicate n CHR ''a'')"
  by (induction n) simp_all

lemma demo_eng_ok: "eng_prims_ok demo_eng"
proof -
  have "wal_prims_ok (log_of_prims demo_eng)"
    using demo_prims_ok(3) unfolding wal_prims_ok_def eng_truncate_simps(4)
    by (auto simp: commit_codec_ok_def digest_ok_def demo_eng_def demo_prims_def art_prims.defs wal_prims.defs eng_prims.defs
          split: if_splits)
  moreover have "manifest_codec_ok demo_eng" by (simp add: manifest_codec_ok_def utf8_as)
  moreover have "checkpoint_codec_ok demo_eng"
    by (auto simp: checkpoint_codec_ok_def demo_eng_def demo_prims_def art_prims.defs wal_prims.defs eng_prims.defs split: if_splits)
  ultimately show ?thesis by (simp add: eng_prims_ok_def)
qed

lemma demo_checksum: "compute_manifest_checksum demo_eng m = Inr (take 32 (''{m'' @ zero32))" "take 32 (''{m'' @ zero32) \<noteq> zero32"
  by (simp add: compute_manifest_checksum_def) code_simp

lemma demo_written_checksum:
  assumes "write_manifest demo_eng d m = Inr (d', m')"
  shows "mf_manifest_checksum m' \<noteq> zero32"
proof -
  from write_manifestE [OF assms] obtain cs where "compute_manifest_checksum demo_eng m = Inr cs"
    "m' = m\<lparr>mf_manifest_checksum := cs\<rparr>" by metis
  then show ?thesis using demo_checksum by simp
qed

section \<open>Witnesses\<close>


lemma demo_checkpoint_written:
  "write_checkpoint_file demo_eng demo_nonce d 1 [] [] [demo_receipt] [] None =
     Inr (d\<lparr>dk_checkpoints := bm_insert 1 (checkpoint_magic_v3 @ take 32 (''{c'' @ zero32) @ ''{c'') (dk_checkpoints d)\<rparr>)"
  by (simp add: write_checkpoint_file_def demo_checkpoint_def Let_def)

lemma demo_checkpoint_digest: "slice 8 40 (checkpoint_magic_v3 @ take 32 (''{c'' @ zero32) @ ''{c'') \<noteq> zero32"
  by code_simp

theorem checkpoint_file_roundtrip_witness:
  "\<exists>d' cp. write_checkpoint_file demo_eng demo_nonce empty_disk 1 [] [] [demo_receipt] [] None = Inr d' \<and>
     read_checkpoint_file demo_eng ''/db'' d' 1 None = Inr cp \<and> cp_idempotency_receipts cp = [demo_receipt]"
proof -
  let ?d = "empty_disk\<lparr>dk_checkpoints := bm_insert 1 (checkpoint_magic_v3 @ take 32 (''{c'' @ zero32) @ ''{c'') (dk_checkpoints empty_disk)\<rparr>"
  have nonce: "length demo_nonce = nonce_len" by (simp add: demo_nonce_def nonce_len_def)
  have stored: "bm_get (dk_checkpoints ?d) 1 = Some (checkpoint_magic_v3 @ take 32 (''{c'' @ zero32) @ ''{c'')" by simp
  from checkpoint_file_roundtrip [OF demo_eng_ok nonce demo_checkpoint_written stored demo_checkpoint_digest, of "''/db''"]
  obtain cp where "read_checkpoint_file demo_eng ''/db'' ?d 1 None = Inr cp" "cp_idempotency_receipts cp = [demo_receipt]" by blast
  then show ?thesis using demo_checkpoint_written [of empty_disk] by blast
qed

end
