(* ===== verification/Durability.thy ===== *)
theory Durability
  imports Engine_Props
begin

text \<open>
  Durability of the engine. A handle agrees with its directory when opening the directory would
  rebuild what the handle holds. The locale \<open>logged_commands\<close> is the contract between the write
  path and the commands that go through it: the commit that a command logs rebuilds, on replay,
  what the command installs. Inside it, once for all commands: a command keeps the agreement, and
  a crash at any point of the write path leaves a directory that opens to the state before or
  after the command.
\<close>

section \<open>Stores that agree\<close>

definition feats_wf :: "store \<Rightarrow> bool" where
  "feats_wf st \<longleftrightarrow> (\<forall>(k, vs) \<in> set st. \<forall>r \<in> set vs. bm_wf (sr_features r))"

text \<open>A live store and a store rebuilt by replay: the same reads from an epoch on.\<close>

definition stores_agree :: "epoch \<Rightarrow> epoch \<Rightarrow> store \<Rightarrow> store \<Rightarrow> bool" where
  "stores_agree E0 E st st2 \<longleftrightarrow> agree_from E0 E st st2 \<and> ids_ok st \<and> ids_ok st2 \<and> feats_wf st \<and> feats_wf st2"

lemma stores_agree_refl:
  "store_ok E st \<Longrightarrow> ids_ok st \<Longrightarrow> feats_wf st \<Longrightarrow> stores_agree E0 E st st"
  by (simp add: stores_agree_def agree_from_def same_heads_def)

lemma stores_agreeD:
  assumes "stores_agree E0 E st st2"
  shows "store_ok E st" "store_ok E st2" "ids_ok st" "ids_ok st2" "feats_wf st" "feats_wf st2" "bm_wf st" "bm_wf st2"
    "agree_from E0 E st st2" "same_heads st st2"
  using assms by (auto simp: stores_agree_def agree_from_def store_ok_def)

lemma stores_agree_second: "stores_agree E0 E st st2 \<Longrightarrow> stores_agree E0 E st2 st2"
  by (auto dest: stores_agreeD intro: stores_agree_refl)

lemma stores_agree_get:
  "stores_agree E0 E st st2 \<Longrightarrow> E0 \<le> e \<Longrightarrow>
    map_option erase_end (get_record st table tenant rid e) = map_option erase_end (get_record st2 table tenant rid e)"
  by (auto simp: stores_agree_def agree_from_def simp flip: read_store_get)

lemma stores_agree_mono: "stores_agree E0 E st st2 \<Longrightarrow> E \<le> e \<Longrightarrow> stores_agree E0 e st st2"
  by (fastforce simp: stores_agree_def agree_from_def store_ok_def intro: chain_ok_mono)

lemma feats_wf_get: "feats_wf st \<Longrightarrow> bm_get st k = Some vs \<Longrightarrow> r \<in> set vs \<Longrightarrow> bm_wf (sr_features r)"
  by (fastforce simp: feats_wf_def dest: bm_getD)

lemma feats_wf_insert:
  assumes "bm_wf st" and "feats_wf st" and "\<forall>r \<in> set vs. bm_wf (sr_features r)"
  shows "feats_wf (bm_insert k vs st)"
proof -
  have "\<forall>r \<in> set us. bm_wf (sr_features r)" if "(j, us) \<in> set (bm_insert k vs st)" for j us
  proof -
    have "bm_get (bm_insert k vs st) j = Some us" using that assms(1) by (simp add: bm_entries_get)
    with assms(3) feats_wf_get [OF assms(2)] show ?thesis by (auto split: if_splits)
  qed
  then show ?thesis by (auto simp: feats_wf_def)
qed

lemma foldl_feature_step_wf: "bm_wf fs \<Longrightarrow> bm_wf (foldl (feature_step P m merged e) fs vecs)"
  by (induction vecs arbitrary: fs) (auto simp: feature_step_def)

lemma write_record_feats:
  assumes "write_record P w e prev = Inr r" and "\<forall>p. prev = Some p \<longrightarrow> bm_wf (sr_features p)"
  shows "bm_wf (sr_features r)"
  using assms
  by (cases w; cases prev)
     (auto simp: rbind_eq_Inr ok_or_eq_Inr build_replacement_record_def Let_def build_features_def
        intro!: foldl_feature_step_wf)

lemma install_version_feats:
  assumes "\<forall>v \<in> set vs. bm_wf (sr_features v)" and "bm_wf (sr_features r)"
  shows "\<forall>v \<in> set (install_version vs r e). bm_wf (sr_features v)"
proof
  fix v assume "v \<in> set (install_version vs r e)"
  from subsetD [OF set_install_version this] assms show "bm_wf (sr_features v)" by auto
qed

lemma stores_agree_write:
  assumes "stores_agree E0 E st st2" and "E \<le> e" and "ids_nul_free (write_ids w)"
    and "apply_write P st w e = Inr st'"
  shows "\<exists>st2'. apply_write P st2 w e = Inr st2' \<and> stores_agree E0 e st' st2'"
proof -
  note ag = stores_agreeD [OF assms(1)]
  note step = agree_from_write [OF ag(9) assms(2), of P w]
  from step(1) assms(4) obtain st2' where st2': "apply_write P st2 w e = Inr st2'"
    by (cases "apply_write P st2 w e") auto
  have feats: "feats_wf u'" if "store_ok E u" "feats_wf u" "apply_write P u w e = Inr u'" for u u'
  proof -
    let ?vs = "versions_or_default u (write_key w)"
    from that(3) [unfolded write_factors [OF that(1)]] obtain r where
      r: "write_record P w e (rfind is_live ?vs) = Inr r" and u': "u' = bm_insert (write_key w) (install_version ?vs r e) u"
      by (auto simp: rbind_eq_Inr)
    have old: "bm_wf (sr_features v)" if "v \<in> set ?vs" for v
      using that feats_wf_get [OF \<open>feats_wf u\<close>] by (cases "bm_get u (write_key w)") auto
    then have "bm_wf (sr_features r)"
      by (intro write_record_feats [OF r]) (auto dest: rfind_SomeD)
    with install_version_feats [of ?vs r e] old
    have "\<forall>v \<in> set (install_version ?vs r e). bm_wf (sr_features v)" by blast
    with that(1,2) show ?thesis unfolding u' by (intro feats_wf_insert) (auto simp: store_ok_def)
  qed
  have "stores_agree E0 e st' st2'"
    using step(2) [OF assms(4) st2'] apply_write_ids_ok [OF ag(1,3) assms(3,4)]
      apply_write_ids_ok [OF ag(2,4) assms(3) st2'] feats [OF ag(1,5) assms(4)] feats [OF ag(2,6) st2']
    by (simp add: stores_agree_def)
  with st2' show ?thesis by blast
qed

section \<open>Feature invalidations on agreeing stores\<close>

lemma apply_feature_invalidationE:
  assumes "store_ok E st" and "apply_feature_invalidation st i e = Inr (st', f)"
  obtains vs g where "bm_get st (record_key (fi_table i) (fi_tenant_id i) (fi_record_id i)) = Some vs"
    and "is_live (last vs)" and "bm_get (sr_features (last vs)) (fi_feature i) = Some g"
    and "f = g\<lparr>fs_status := fi_status i, fs_valid_for_epoch := e\<rparr>"
    and "st' = bm_insert (record_key (fi_table i) (fi_tenant_id i) (fi_record_id i))
      (butlast vs @ [(last vs)\<lparr>sr_features := bm_insert (fi_feature i) f (sr_features (last vs))\<rparr>]) st"
proof -
  let ?k = "record_key (fi_table i) (fi_tenant_id i) (fi_record_id i)"
  from assms(2) obtain vs r g where vs: "bm_get st ?k = Some vs" and r: "rfind is_live vs = Some r"
    and g: "bm_get (sr_features r) (fi_feature i) = Some g"
    and f: "f = g\<lparr>fs_status := fi_status i, fs_valid_for_epoch := e\<rparr>"
    and st': "st' = bm_insert ?k (update_last is_live
      (\<lambda>r. r\<lparr>sr_features := bm_insert (fi_feature i) f (sr_features r)\<rparr>) vs) st"
    by (auto simp: apply_feature_invalidation_def invalidate_versions_def rbind_eq_Inr ok_or_eq_Inr Let_def)
  have chain: "chain_ok E vs" using assms(1) vs by (auto simp: store_ok_def dest!: bm_getD)
  note live = live_is_last [OF chain r]
  from rfind_SomeD [OF r] live(1) have "is_live (last vs)" by simp
  with that [OF vs] g f st' live show thesis by (simp add: update_last_open_chain [OF chain])
qed

lemma apply_feature_invalidationI:
  assumes "store_ok E st" and "bm_get st (record_key (fi_table i) (fi_tenant_id i) (fi_record_id i)) = Some vs"
    and "is_live (last vs)" and "bm_get (sr_features (last vs)) (fi_feature i) = Some g"
    and "f = g\<lparr>fs_status := fi_status i, fs_valid_for_epoch := e\<rparr>"
  shows "apply_feature_invalidation st i e = Inr (bm_insert (record_key (fi_table i) (fi_tenant_id i) (fi_record_id i))
      (butlast vs @ [(last vs)\<lparr>sr_features := bm_insert (fi_feature i) f (sr_features (last vs))\<rparr>]) st, f)"
proof -
  have chain: "chain_ok E vs" using assms(1,2) by (auto simp: store_ok_def dest!: bm_getD)
  have live: "rfind is_live vs = Some (last vs)" using chain_heads(1) [OF chain] assms(3) by simp
  show ?thesis
    using assms(2,4,5) live_is_last(2) [OF chain live] update_last_open_chain [OF chain]
    by (simp add: apply_feature_invalidation_def invalidate_versions_def live Let_def)
qed

text \<open>Replacing the features of the last version changes reads only where this version is visible.\<close>

lemma history_last_features:
  assumes "chain_ok E vs" and "l = (last vs)\<lparr>sr_features := fs\<rparr>"
  shows "history (butlast vs @ [l]) e = (if in_epoch e (last vs) \<and> rh_tombstone (sr_header (last vs)) = None
      then Some (erase_end l) else history vs e)"
    and "chain_ok E (butlast vs @ [l])"
proof -
  have vs: "vs = butlast vs @ [last vs]" using assms(1) by (simp add: chain_ok_def)
  have "history (butlast vs @ [last vs]) e = (if in_epoch e (last vs) \<and> rh_tombstone (sr_header (last vs)) = None
      then Some (erase_end (last vs)) else history (butlast vs) e)"
    by (simp add: history_def visible_record_at_def)
  then have "history vs e = (if in_epoch e (last vs) \<and> rh_tombstone (sr_header (last vs)) = None
      then Some (erase_end (last vs)) else history (butlast vs) e)" by (simp only: vs [symmetric])
  moreover have "history (butlast vs @ [l]) e = (if in_epoch e (last vs) \<and> rh_tombstone (sr_header (last vs)) = None
      then Some (erase_end l) else history (butlast vs) e)"
    by (simp add: history_def visible_record_at_def assms(2) in_epoch_def)
  ultimately show "history (butlast vs @ [l]) e = (if in_epoch e (last vs) \<and> rh_tombstone (sr_header (last vs)) = None
      then Some (erase_end l) else history vs e)" by simp
  have "last vs \<in> set vs" using assms(1) by (simp add: chain_ok_def)
  then show "chain_ok E (butlast vs @ [l])"
    using assms by (auto simp: chain_ok_def is_open_def dest: in_set_butlastD)
qed

lemma ids_ok_last_features:
  assumes "ids_ok st" and "bm_wf st" and "bm_get st k = Some vs" and "chain_ok E vs" and "l = (last vs)\<lparr>sr_features := fs\<rparr>"
  shows "ids_ok (bm_insert k (butlast vs @ [l]) st)"
proof -
  have lm: "last vs \<in> set vs" using assms(4) by (simp add: chain_ok_def)
  have l: "header_key l = header_key (last vs)" "record_ids l = record_ids (last vs)"
    by (simp_all add: assms(5) header_key_def record_ids_def)
  have "j = header_key r \<and> ids_nul_free (record_ids r)"
    if "(j, xs) \<in> set (bm_insert k (butlast vs @ [l]) st)" "r \<in> set xs" for j xs r
  proof -
    have "bm_get (bm_insert k (butlast vs @ [l]) st) j = Some xs" using that(1) assms(2) by (simp add: bm_entries_get)
    then have "bm_get st j = Some xs \<or> j = k \<and> (r \<in> set vs \<or> r = l)"
      using that(2) by (auto split: if_splits dest: in_set_butlastD)
    then show ?thesis using ids_ok_get [OF assms(1)] that(2) assms(3) l lm by metis
  qed
  then show ?thesis by (auto simp: ids_ok_def)
qed

lemma feats_wf_last:
  assumes "feats_wf st" and "bm_wf st" and "bm_get st k = Some vs" and "bm_wf (sr_features l)"
  shows "feats_wf (bm_insert k (butlast vs @ [l]) st)"
  using feats_wf_get [OF assms(1,3)] assms(4)
  by (intro feats_wf_insert [OF assms(2,1)]) (auto dest: in_set_butlastD)

lemma stores_agree_invalidate:
  assumes "stores_agree E0 E st st2" and "apply_feature_invalidation st i e = Inr (st', f)"
  shows "\<exists>st2'. apply_feature_invalidation st2 i e = Inr (st2', f) \<and> stores_agree E0 E st' st2'"
proof -
  let ?k = "record_key (fi_table i) (fi_tenant_id i) (fi_record_id i)"
  note ag = stores_agreeD [OF assms(1)]
  from apply_feature_invalidationE [OF ag(1) assms(2)] obtain vs g where vs: "bm_get st ?k = Some vs"
    and live: "is_live (last vs)" and g: "bm_get (sr_features (last vs)) (fi_feature i) = Some g"
    and f: "f = g\<lparr>fs_status := fi_status i, fs_valid_for_epoch := e\<rparr>"
    and st': "st' = bm_insert ?k (butlast vs @ [(last vs)\<lparr>sr_features := bm_insert (fi_feature i) f (sr_features (last vs))\<rparr>]) st" .
  define l where "l = (last vs)\<lparr>sr_features := bm_insert (fi_feature i) f (sr_features (last vs))\<rparr>"
  have "map_option last (bm_get st ?k) = map_option last (bm_get st2 ?k)" using ag(10) by (simp add: same_heads_def)
  with vs obtain us where us: "bm_get st2 ?k = Some us" "last us = last vs"
    by (cases "bm_get st2 ?k") auto
  let ?st2' = "bm_insert ?k (butlast us @ [l]) st2"
  have inv2: "apply_feature_invalidation st2 i e = Inr (?st2', f)"
    using apply_feature_invalidationI [OF ag(2) us(1), of g f e] live g f us(2) by (simp add: l_def)
  have chains: "chain_ok E vs" "chain_ok E us" using ag(1,2) vs us(1) by (auto simp: store_ok_def dest!: bm_getD)
  note h1 = history_last_features [OF chains(1) l_def]
  note h2 = history_last_features [OF chains(2) l_def [folded us(2)]]
  have read: "read_store st' j e' = read_store ?st2' j e'" if "E0 \<le> e'" for j e'
  proof (cases "j = ?k")
    case True
    have "read_store st ?k e' = read_store st2 ?k e'" using ag(9) that by (simp add: agree_from_def)
    then have "history vs e' = history us e'" by (simp add: read_store_def vs us(1))
    with True h1(1) h2(1) us(2) show ?thesis by (simp add: st' read_store_def l_def)
  next
    case False
    then show ?thesis using ag(9) that by (simp add: st' read_store_def agree_from_def)
  qed
  have "last vs \<in> set vs" using chains(1) by (simp add: chain_ok_def)
  then have wf: "bm_wf (sr_features l)" using feats_wf_get [OF ag(5) vs] by (simp add: l_def)
  have "stores_agree E0 E st' ?st2'"
    unfolding stores_agree_def agree_from_def
  proof (intro conjI allI impI)
    show "store_ok E st'" unfolding st' l_def [symmetric] by (rule store_ok_insert [OF ag(1) order_refl h1(2)])
    show "store_ok E ?st2'" by (rule store_ok_insert [OF ag(2) order_refl h2(2)])
    show "same_heads st' ?st2'" using ag(10) by (simp add: same_heads_def st' l_def)
    show "read_store st' j e' = read_store ?st2' j e'" if "E0 \<le> e'" for j e' by (rule read [OF that])
    show "ids_ok st'" "feats_wf st'" unfolding st' l_def [symmetric]
      by (rule ids_ok_last_features [OF ag(3,7) vs chains(1) l_def], rule feats_wf_last [OF ag(5,7) vs wf])
    show "ids_ok ?st2'" "feats_wf ?st2'"
      by (rule ids_ok_last_features [OF ag(4,8) us(1) chains(2) l_def [folded us(2)]], rule feats_wf_last [OF ag(6,8) us(1) wf])
  qed
  with inv2 show ?thesis by blast
qed

text \<open>An invalidation that the last version already carries changes nothing.\<close>

lemma invalidation_noop:
  assumes "store_ok E st" and "feats_wf st"
    and "bm_get st (record_key (fi_table i) (fi_tenant_id i) (fi_record_id i)) = Some vs"
    and "is_live (last vs)" and "bm_get (sr_features (last vs)) (fi_feature i) = Some f"
    and "fs_status f = fi_status i" and "fs_valid_for_epoch f = e"
  shows "apply_feature_invalidation st i e = Inr (st, f)"
proof -
  let ?k = "record_key (fi_table i) (fi_tenant_id i) (fi_record_id i)"
  have ne: "vs \<noteq> []" using assms(1,3) by (auto simp: store_ok_def chain_ok_def dest!: bm_getD)
  have f: "f = f\<lparr>fs_status := fi_status i, fs_valid_for_epoch := e\<rparr>" using assms(6,7) by simp
  have "bm_insert (fi_feature i) f (sr_features (last vs)) = sr_features (last vs)"
    using assms(5) feats_wf_get [OF assms(2,3), of "last vs"] ne by (intro bm.ins_same_entries) simp_all
  then have "butlast vs @ [(last vs)\<lparr>sr_features := bm_insert (fi_feature i) f (sr_features (last vs))\<rparr>] = vs"
    using ne by simp
  moreover have "bm_insert ?k vs st = st"
    using assms(1,3) by (intro bm.ins_same_entries) (simp_all add: store_ok_def)
  ultimately show ?thesis using apply_feature_invalidationI [OF assms(1,3-5) f] by simp
qed

section \<open>Agreement of a handle with its directory\<close>

text \<open>
  \<open>recovers\<close>: loading the checkpoint and replaying the commits after it yields the receipts and
  the jobs of the handle and the store \<open>st2\<close>, and needs no schema that the manifest does not have.
\<close>

definition recovers :: "eng_prims \<Rightarrow> trace_db \<Rightarrow> disk \<Rightarrow> wal_entry list \<Rightarrow> store \<Rightarrow> bool" where
  "recovers P db d es st2 \<longleftrightarrow>
     (\<exists>st0 r0 j0. let m = td_manifest db; cs = commits_after (mf_checkpoint_epoch m) es in
        load_checkpoint P (td_dir db) d (td_encryption db) m = Inr (m, st0, r0, j0) \<and>
        (\<forall>s \<in> set (concat (map cr_schema_changes cs)). find_schema (mf_schemas m) (ts_name s) = Some s) \<and>
        td_receipts db = r0 @ concat (map cr_idempotency_receipts cs) \<and>
        rfold job_replay j0 (concat (map cr_job_events cs)) = Inr (td_jobs db) \<and>
        apply_commits P (mf_schemas m) st0 cs = Inr st2)"

definition db_ok :: "trace_db \<Rightarrow> bool" where
  "db_ok db \<longleftrightarrow> catalog_wf (td_jobs db) \<and>
     (\<forall>s \<in> set (mf_schemas (td_manifest db)). distinct (map vc_name (ts_vector_columns s)))"

text \<open>\<open>opts\<close> and \<open>mk\<close> are the options and the master key with which the directory is opened.\<close>

definition engine_inv :: "eng_prims \<Rightarrow> open_options \<Rightarrow> master_key option \<Rightarrow> eng_state \<Rightarrow> bool" where
  "engine_inv P opts mk = (\<lambda>(db, d). let m = td_manifest db in
     read_manifest_inner P (dk_manifest d) = Inr m \<and> mf_modules m \<noteq> [] \<and>
     open_encryption P opts mk m = Inr (td_encryption db) \<and> (mk \<noteq> None \<longrightarrow> td_encryption db \<noteq> None) \<and>
     wal_encryption (td_wal db) = td_encryption db \<and> db_ok db \<and>
     (\<exists>es st2. wal_inv (log_of_prims P) (td_wal db) (dk_wal d) es \<and>
        (\<forall>e \<in> set es. 0 < cr_epoch (we_commit e) \<and> cr_epoch (we_commit e) \<le> mf_latest_epoch m) \<and>
        recovers P db d es st2 \<and> stores_agree (mf_checkpoint_epoch m) (mf_latest_epoch m) (td_store db) st2))"

lemma engine_invI:
  assumes "read_manifest_inner P (dk_manifest d) = Inr (td_manifest db)" and "mf_modules (td_manifest db) \<noteq> []"
    and "open_encryption P opts mk (td_manifest db) = Inr (td_encryption db)" and "mk \<noteq> None \<longrightarrow> td_encryption db \<noteq> None"
    and "wal_encryption (td_wal db) = td_encryption db" and "db_ok db"
    and "wal_inv (log_of_prims P) (td_wal db) (dk_wal d) es"
    and "\<forall>e \<in> set es. 0 < cr_epoch (we_commit e) \<and> cr_epoch (we_commit e) \<le> mf_latest_epoch (td_manifest db)"
    and "recovers P db d es st2"
    and "stores_agree (mf_checkpoint_epoch (td_manifest db)) (mf_latest_epoch (td_manifest db)) (td_store db) st2"
  shows "engine_inv P opts mk (db, d)"
  unfolding engine_inv_def Let_def prod.case using assms by blast

lemma engine_invE:
  assumes "engine_inv P opts mk (db, d)"
  obtains es st2 where "read_manifest_inner P (dk_manifest d) = Inr (td_manifest db)" and "mf_modules (td_manifest db) \<noteq> []"
    and "open_encryption P opts mk (td_manifest db) = Inr (td_encryption db)" and "mk \<noteq> None \<longrightarrow> td_encryption db \<noteq> None"
    and "wal_encryption (td_wal db) = td_encryption db" and "db_ok db"
    and "wal_inv (log_of_prims P) (td_wal db) (dk_wal d) es"
    and "\<forall>e \<in> set es. 0 < cr_epoch (we_commit e) \<and> cr_epoch (we_commit e) \<le> mf_latest_epoch (td_manifest db)"
    and "recovers P db d es st2"
    and "stores_agree (mf_checkpoint_epoch (td_manifest db)) (mf_latest_epoch (td_manifest db)) (td_store db) st2"
  using assms unfolding engine_inv_def Let_def prod.case by (elim conjE exE) (rule that)

text \<open>The data that two handles have in common.\<close>

definition same_data :: "trace_db \<Rightarrow> trace_db \<Rightarrow> bool" where
  "same_data db db2 \<longleftrightarrow>
     mf_schemas (td_manifest db2) = mf_schemas (td_manifest db) \<and>
     mf_latest_epoch (td_manifest db2) = mf_latest_epoch (td_manifest db) \<and>
     mf_checkpoint_epoch (td_manifest db2) = mf_checkpoint_epoch (td_manifest db) \<and>
     td_receipts db2 = td_receipts db \<and> td_jobs db2 = td_jobs db \<and>
     stores_agree (mf_checkpoint_epoch (td_manifest db)) (mf_latest_epoch (td_manifest db)) (td_store db) (td_store db2)"

section \<open>Opening\<close>

lemma ebind_simps [simp]:
  "ebind (ereads f) g s = (case f s of Inl e \<Rightarrow> (Inl e, s) | Inr x \<Rightarrow> g x s)"
  "ebind (emodify h) k s = k () (h s)"
  "ereturn x s = (Inr x, s)"
  by (simp_all add: ebind_def ereads_def emodify_def ereturn_def)

lemma ebind_eupdates:
  "ebind (eupdates f) g s = (case f s of Inl e \<Rightarrow> (Inl e, s) | Inr (x, s') \<Rightarrow> g x s')"
  by (auto simp: ebind_def eupdates_def split: sum.splits)

lemma upsert_present: "find_schema ss (ts_name s) = Some s \<Longrightarrow> upsert_schema ss s = ss"
proof -
  have "find_schema ss (ts_name s) = Some s \<Longrightarrow> update_first (\<lambda>x. ts_name x = ts_name s) (\<lambda>_. s) ss = ss"
    by (induction ss) (auto simp: find_schema_def)
  then show "find_schema ss (ts_name s) = Some s \<Longrightarrow> upsert_schema ss s = ss"
    by (simp add: upsert_schema_def)
qed

lemma upsert_all_present:
  "(\<forall>s \<in> set new. find_schema ss (ts_name s) = Some s) \<Longrightarrow> foldl upsert_schema ss new = ss"
  by (induction new) (auto simp: upsert_present)

lemma open_recovers:
  assumes "options_master_key P env opts = Inr mk"
    and "read_manifest_inner P (dk_manifest d) = Inr m" and "mf_modules m \<noteq> []"
    and "open_encryption P opts mk m = Inr enc" and "mk \<noteq> None \<longrightarrow> enc \<noteq> None"
    and "wal_open (log_of_prims P) enc (dk_wal d) = Inr (w, log_file)"
    and "wal_inv (log_of_prims P) w log_file es" and "wal_encryption w = enc"
    and "load_checkpoint P dir (d\<lparr>dk_wal := log_file\<rparr>) enc m = Inr (m, st0, r0, j0)"
    and "replay_log P (commits_after (mf_checkpoint_epoch m) es) (m, st0, r0, j0) = Inr (m4, st, r, j)"
  shows "open_with_options P env dek nonce opts dir d =
    ebind (advance_manifest P (commits_after (mf_checkpoint_epoch m) es) m4) (\<lambda>m'.
      ereturn \<lparr>td_dir = dir, td_manifest = m', td_store = st, td_wal = w, td_encryption = enc,
               td_receipts = r, td_jobs = j, td_last_recovery_torn_tail = wal_recovery_torn_tail w\<rparr>)
      (d\<lparr>dk_wal := log_file\<rparr>)"
proof -
  obtain body where ne: "dk_manifest d = Some body"
    using assms(2) by (cases "dk_manifest d") (simp_all add: read_manifest_inner_def)
  have "read_manifest P d = Inr m" using assms(2) by (simp add: read_manifest_def)
  moreover have "scan_with_metadata (log_of_prims P) w log_file =
      Inr \<lparr>sc_entries = es, sc_torn_tail = wal_recovery_torn_tail w\<rparr>"
    using assms(7) by (simp add: scan_with_metadata_def wal_inv_def)
  ultimately show ?thesis
    using assms(1,3-6,8-10) ne
    by (cases enc; cases mk)
       (simp_all add: open_with_options_def create_manifest_if_missing_def adopt_master_key_def ebind_eupdates Let_def)
qed

text \<open>Replay, when the manifest has every schema of the log.\<close>

lemma recovers_replay:
  assumes "recovers P db d es st2"
  obtains st0 r0 j0 where
    "load_checkpoint P (td_dir db) d (td_encryption db) (td_manifest db) = Inr (td_manifest db, st0, r0, j0)"
    and "replay_log P (commits_after (mf_checkpoint_epoch (td_manifest db)) es) (td_manifest db, st0, r0, j0) =
      Inr (td_manifest db, st2, td_receipts db, td_jobs db)"
  using assms unfolding recovers_def Let_def
  by (auto simp: replay_log_def upsert_all_present Let_def)

lemma load_checkpoint_cong:
  "dk_checkpoints d' = dk_checkpoints d \<Longrightarrow> dk_json_checkpoints d' = dk_json_checkpoints d \<Longrightarrow>
    load_checkpoint P dir d' enc m = load_checkpoint P dir d enc m"
proof -
  assume d: "dk_checkpoints d' = dk_checkpoints d" "dk_json_checkpoints d' = dk_json_checkpoints d"
  have "read_checkpoint_file P dir d' e enc = read_checkpoint_file P dir d e enc" for e
    by (cases "bm_get (dk_checkpoints d) e") (simp_all add: read_checkpoint_file_def d)
  then show ?thesis by (simp add: load_checkpoint_def)
qed

lemma commits_not_ahead:
  assumes "\<forall>e \<in> set es. cr_epoch (we_commit e) \<le> E"
  shows "\<not> (commits_after E0 es \<noteq> [] \<and> E < cr_epoch (last (commits_after E0 es)))"
proof
  assume a: "commits_after E0 es \<noteq> [] \<and> E < cr_epoch (last (commits_after E0 es))"
  then have "last (commits_after E0 es) \<in> set (commits_after E0 es)" by simp
  then have "cr_epoch (last (commits_after E0 es)) \<le> E" using assms by (auto simp: commits_after_def)
  with a show False by (meson leD)
qed

text \<open>
  Reopening a directory that a handle agrees with, also when its log has a torn tail that opening
  cuts off.
\<close>

lemma engine_reopen_torn:
  assumes "options_master_key P env opts = Inr mk" and "engine_inv P opts mk (db, d)"
    and "wal_open (log_of_prims P) (td_encryption db) log_file = Inr (w, dk_wal d)"
    and "wal_inv (log_of_prims P) w (dk_wal d) es2" and "wal_encryption w = td_encryption db"
  shows "\<exists>db2. open_with_options P env dek nonce opts (td_dir db) (d\<lparr>dk_wal := log_file\<rparr>) = (Inr db2, d) \<and>
    td_manifest db2 = td_manifest db \<and> td_dir db2 = td_dir db \<and> same_data db db2 \<and> engine_inv P opts mk (db2, d)"
proof -
  let ?m = "td_manifest db" and ?L = "log_of_prims P" and ?d = "d\<lparr>dk_wal := log_file\<rparr>"
  from assms(2) obtain es st2 where inv: "read_manifest_inner P (dk_manifest d) = Inr ?m" "mf_modules ?m \<noteq> []"
      "open_encryption P opts mk ?m = Inr (td_encryption db)" "mk \<noteq> None \<longrightarrow> td_encryption db \<noteq> None"
      "wal_encryption (td_wal db) = td_encryption db" "db_ok db"
    and wal: "wal_inv ?L (td_wal db) (dk_wal d) es"
    and epochs: "\<forall>e \<in> set es. 0 < cr_epoch (we_commit e) \<and> cr_epoch (we_commit e) \<le> mf_latest_epoch ?m"
    and rec: "recovers P db d es st2"
    and agree: "stores_agree (mf_checkpoint_epoch ?m) (mf_latest_epoch ?m) (td_store db) st2"
    by (rule engine_invE)
  have "es2 = es" using wal assms(4,5) inv(5) by (simp add: wal_inv_def)
  with assms(4) have w: "wal_inv ?L w (dk_wal d) es" by simp
  from recovers_replay [OF rec] obtain st0 r0 j0 where
    cp: "load_checkpoint P (td_dir db) d (td_encryption db) ?m = Inr (?m, st0, r0, j0)"
    and rep: "replay_log P (commits_after (mf_checkpoint_epoch ?m) es) (?m, st0, r0, j0) =
      Inr (?m, st2, td_receipts db, td_jobs db)" .
  let ?db2 = "\<lparr>td_dir = td_dir db, td_manifest = ?m, td_store = st2, td_wal = w, td_encryption = td_encryption db,
    td_receipts = td_receipts db, td_jobs = td_jobs db, td_last_recovery_torn_tail = wal_recovery_torn_tail w\<rparr>"
  have "open_with_options P env dek nonce opts (td_dir db) ?d = (Inr ?db2, d)"
    using open_recovers [of P env opts mk ?d ?m "td_encryption db" w "dk_wal d" es "td_dir db" st0 r0 j0 ?m st2
        "td_receipts db" "td_jobs db" dek nonce] assms(1,3,5) inv(1-4) w cp rep
      commits_not_ahead [of es "mf_latest_epoch ?m" "mf_checkpoint_epoch ?m"] epochs
    by (auto simp: advance_manifest_def ebind_eupdates)
  moreover have "same_data db ?db2" using agree by (simp add: same_data_def)
  moreover have "recovers P ?db2 d es st2" using rec by (simp add: recovers_def)
  then have "engine_inv P opts mk (?db2, d)"
    using inv w epochs stores_agree_second [OF agree] assms(5)
    by (intro engine_invI [of P d ?db2 opts mk es st2]) (simp_all add: db_ok_def)
  ultimately show ?thesis by (intro exI [of _ ?db2]) simp
qed

lemma engine_reopen:
  assumes "options_master_key P env opts = Inr mk" and "engine_inv P opts mk (db, d)"
  shows "\<exists>db2. open_with_options P env dek nonce opts (td_dir db) d = (Inr db2, d) \<and>
    td_manifest db2 = td_manifest db \<and> td_dir db2 = td_dir db \<and> same_data db db2 \<and> engine_inv P opts mk (db2, d)"
proof -
  from assms(2) obtain es where "wal_inv (log_of_prims P) (td_wal db) (dk_wal d) es"
    "wal_encryption (td_wal db) = td_encryption db" by (rule engine_invE)
  then have scan: "scan_file (log_of_prims P) (td_encryption db) (dk_wal d) = Inr (clean es)"
    "length (last_checksum es) = 32" by (auto simp: wal_inv_def)
  from wal_open_clean [OF scan] engine_reopen_torn [OF assms, of "dk_wal d" _ es dek nonce] show ?thesis by auto
qed

section \<open>The contract of a command\<close>

text \<open>
  \<open>logs P db c db'\<close>: the command takes the handle from \<open>db\<close> to \<open>db'\<close> (its log, manifest epochs and
  manifest checksum apart), and replaying its commit \<open>c\<close> does the same to a recovered state.
\<close>

definition logs :: "eng_prims \<Rightarrow> trace_db \<Rightarrow> commit_record \<Rightarrow> trace_db \<Rightarrow> bool" where
  "logs P db c db' \<longleftrightarrow>
     cr_epoch c = next_epoch db \<and> cr_parent_epoch c = sat_sub64 (next_epoch db) 1 \<and>
     cr_commit_marker c = ''COMMITTED'' \<and>
     td_dir db' = td_dir db \<and> td_wal db' = td_wal db \<and> td_encryption db' = td_encryption db \<and> db_ok db' \<and>
     td_manifest db' = (td_manifest db)\<lparr>mf_schemas := mf_schemas (td_manifest db')\<rparr> \<and>
     foldl upsert_schema (mf_schemas (td_manifest db)) (cr_schema_changes c) = mf_schemas (td_manifest db') \<and>
     (\<forall>t s. find_schema (mf_schemas (td_manifest db)) t = Some s \<longrightarrow>
        find_schema (mf_schemas (td_manifest db')) t = Some s) \<and>
     (\<forall>s \<in> set (cr_schema_changes c). find_schema (mf_schemas (td_manifest db')) (ts_name s) = Some s) \<and>
     td_receipts db' = td_receipts db @ cr_idempotency_receipts c \<and>
     rfold job_replay (td_jobs db) (cr_job_events c) = Inr (td_jobs db') \<and>
     (\<forall>E0 st2. stores_agree E0 (mf_latest_epoch (td_manifest db)) (td_store db) st2 \<longrightarrow>
        (\<exists>st2'. apply_commit P (mf_schemas (td_manifest db')) st2 c = Inr st2' \<and>
           stores_agree E0 (next_epoch db) (td_store db') st2'))"

lemma logsD:
  assumes "logs P db c db'"
  shows "cr_epoch c = next_epoch db" "cr_parent_epoch c = sat_sub64 (next_epoch db) 1"
    "cr_commit_marker c = ''COMMITTED''"
    "td_dir db' = td_dir db" "td_wal db' = td_wal db" "td_encryption db' = td_encryption db" "db_ok db'"
    "td_manifest db' = (td_manifest db)\<lparr>mf_schemas := mf_schemas (td_manifest db')\<rparr>"
    "foldl upsert_schema (mf_schemas (td_manifest db)) (cr_schema_changes c) = mf_schemas (td_manifest db')"
    "find_schema (mf_schemas (td_manifest db)) t = Some s \<Longrightarrow> find_schema (mf_schemas (td_manifest db')) t = Some s"
    "\<forall>s \<in> set (cr_schema_changes c). find_schema (mf_schemas (td_manifest db')) (ts_name s) = Some s"
    "td_receipts db' = td_receipts db @ cr_idempotency_receipts c"
    "rfold job_replay (td_jobs db) (cr_job_events c) = Inr (td_jobs db')"
    "stores_agree E0 (mf_latest_epoch (td_manifest db)) (td_store db) st2 \<Longrightarrow>
      \<exists>st2'. apply_commit P (mf_schemas (td_manifest db')) st2 c = Inr st2' \<and>
        stores_agree E0 (next_epoch db) (td_store db') st2'"
  using assms unfolding logs_def by blast+

text \<open>
  \<open>fits\<close> is what a command needs of its arguments. Installing does not look at the log handle.
\<close>

locale logged_commands =
  fixes plan :: "eng_prims \<Rightarrow> 'c \<Rightarrow> trace_db \<Rightarrow> (commit_record \<times> (trace_db \<Rightarrow> trace_db)) result"
    and fits :: "'c \<Rightarrow> trace_db \<Rightarrow> bool"
  assumes plan_logs: "db_ok db \<Longrightarrow> mf_latest_epoch (td_manifest db) \<noteq> - 1 \<Longrightarrow> fits x db \<Longrightarrow>
      plan P x db = Inr (c, install) \<Longrightarrow> logs P db c (install db)"
    and install_wal: "plan P x db = Inr (c, install) \<Longrightarrow> install (db'\<lparr>td_wal := w\<rparr>) = (install db')\<lparr>td_wal := w\<rparr>"

section \<open>One commit\<close>

lemma refresh_noop:
  assumes "engine_inv P opts mk (db, d)"
  shows "refresh_from_disk_if_stale P (db, d) = (Inr (), (db, d))"
proof -
  from assms obtain es where inv: "read_manifest_inner P (dk_manifest d) = Inr (td_manifest db)"
    and wal: "wal_inv (log_of_prims P) (td_wal db) (dk_wal d) es"
    and epochs: "\<forall>e \<in> set es. 0 < cr_epoch (we_commit e) \<and> cr_epoch (we_commit e) \<le> mf_latest_epoch (td_manifest db)"
    by (rule engine_invE)
  let ?t = "tail_from_scan (dk_wal d) (clean es)"
  have "refreshed_tail (log_of_prims P) (td_wal db) (dk_wal d) = Inr ?t"
    using wal by (simp add: refreshed_tail_def wal_inv_def)
  moreover have "(td_wal db)\<lparr>wal_tail_cache := ?t\<rparr> = td_wal db" using wal by (simp add: wal_inv_def)
  moreover have "\<not> handle_is_stale db (td_manifest db) (wt_last_epoch ?t)"
    using epochs by (auto simp: handle_is_stale_def tail_from_scan_def Let_def not_less)
  ultimately show ?thesis
    using inv by (simp add: refresh_from_disk_if_stale_def read_manifest_def last_commit_epoch_def ebind_eupdates ereads_def)
qed

text \<open>The manifest that a command writes, without its checksum.\<close>

definition bumped :: "trace_db \<Rightarrow> epoch \<Rightarrow> manifest" where
  "bumped db e = (td_manifest db)\<lparr>mf_latest_epoch := e, mf_durable_epoch := e,
     mf_manifest_generation := mf_manifest_generation (td_manifest db) + 1,
     mf_parent_checksum := mf_manifest_checksum (td_manifest db)\<rparr>"

lemma bump_manifest_eq:
  "bump_manifest P e (db, d) =
    (case write_manifest P d (bumped db e) of
       Inl err \<Rightarrow> (Inl err, (db\<lparr>td_manifest := (td_manifest db)\<lparr>mf_latest_epoch := e, mf_durable_epoch := e,
          mf_manifest_generation := mf_manifest_generation (td_manifest db) + 1\<rparr>\<rparr>, d))
     | Inr (d', m') \<Rightarrow> (Inr (), (db\<lparr>td_manifest := m'\<rparr>, d')))"
  by (simp add: bump_manifest_def eupdates_def bumped_def Let_def rbind_def split: sum.splits prod.splits)

lemma open_encryption_cong:
  "mf_encryption m' = mf_encryption m \<Longrightarrow> mf_database_id m' = mf_database_id m \<Longrightarrow>
    open_encryption P opts mk m' = open_encryption P opts mk m"
  by (auto simp: open_encryption_def split: option.splits)

lemma load_checkpointE:
  assumes "load_checkpoint P dir d enc m = Inr (m3, st0, r0, j0)"
  obtains (fresh) "\<not> 0 < mf_checkpoint_epoch m" and "m3 = m" and "st0 = []" and "r0 = []" and "j0 = []"
      and "mf_checkpoint_epoch m \<le> mf_latest_epoch m"
  | (loaded) cp where "0 < mf_checkpoint_epoch m"
      and "read_checkpoint_file P dir d (mf_checkpoint_epoch m) enc = Inr cp"
      and "cp_epoch cp = mf_checkpoint_epoch m" and "st0 = from_checkpoint_records (cp_records cp)"
      and "r0 = cp_idempotency_receipts cp" and "j0 = cp_job_catalog cp"
      and "m3 = (if mf_schemas m = [] then m\<lparr>mf_schemas := cp_schemas cp\<rparr> else m)"
      and "mf_checkpoint_epoch m \<le> mf_latest_epoch m"
  using assms
  by (cases "0 < mf_checkpoint_epoch m")
     (auto simp: load_checkpoint_def rbind_eq_Inr ensure_eq_Inr not_less intro: that)

lemma load_checkpoint_update:
  assumes "load_checkpoint P dir d enc m = Inr (m, st0, r0, j0)"
    and "mf_checkpoint_epoch m' = mf_checkpoint_epoch m" and "mf_latest_epoch m \<le> mf_latest_epoch m'"
    and "mf_schemas m' = [] \<longrightarrow> mf_schemas m = []"
    and "dk_checkpoints d' = dk_checkpoints d" and "dk_json_checkpoints d' = dk_json_checkpoints d"
  shows "load_checkpoint P dir d' enc m' = Inr (m', st0, r0, j0)"
  using assms(1)
proof (cases rule: load_checkpointE)
  case fresh
  with assms(2,3) show ?thesis by (simp add: load_checkpoint_def not_less)
next
  case (loaded cp)
  have "mf_schemas m = [] \<Longrightarrow> cp_schemas cp = []"
    using loaded(7) by (metis manifest.select_convs(15) manifest.surjective manifest.update_convs(15))
  with assms(4) have "(if mf_schemas m' = [] then m'\<lparr>mf_schemas := cp_schemas cp\<rparr> else m') = m'" by simp
  moreover have "\<not> mf_latest_epoch m' < mf_checkpoint_epoch m'" using loaded(8) assms(2,3) by auto
  ultimately show ?thesis
    unfolding load_checkpoint_cong [OF assms(5,6)] unfolding load_checkpoint_def
    using loaded(1-6) assms(2) by simp
qed

lemma apply_commit_hash [simp]: "apply_commit P ss st (c\<lparr>cr_previous_commit_hash := h\<rparr>) = apply_commit P ss st c"
proof -
  have "replay_invalidation (c\<lparr>cr_previous_commit_hash := h\<rparr>) = replay_invalidation c"
    by (intro ext) (simp add: replay_invalidation_def resolve_legacy_feature_invalidation_def Let_def cong: if_cong)
  then show ?thesis by (simp add: apply_commit_def)
qed

text \<open>More schemas do not change a replay that succeeded.\<close>

lemma rfold_mono:
  assumes "\<And>s x s'. f s x = Inr s' \<Longrightarrow> g s x = Inr s'" and "rfold f s xs = Inr t"
  shows "rfold g s xs = Inr t"
  using assms(2) by (induction xs arbitrary: s) (auto simp: rbind_eq_Inr dest: assms(1))

lemma apply_commits_schema_mono:
  assumes "\<And>t s. find_schema ss t = Some s \<Longrightarrow> find_schema ss' t = Some s"
    and "apply_commits P ss st cs = Inr st'"
  shows "apply_commits P ss' st cs = Inr st'"
proof -
  have "apply_commit P ss' u c = Inr u'" if "apply_commit P ss u c = Inr u'" for u c u'
  proof -
    have "schema_for ss t = Inr s \<Longrightarrow> schema_for ss' t = Inr s" for t s
      using assms(1) by (simp add: schema_for_def ok_or_eq_Inr)
    then have "\<And>e v x v'. replay_replacement P ss e v x = Inr v' \<Longrightarrow> replay_replacement P ss' e v x = Inr v'"
      "\<And>e v x v'. replay_mutation P ss e v x = Inr v' \<Longrightarrow> replay_mutation P ss' e v x = Inr v'"
      "\<And>e v y v'. replay_deletion ss e v y = Inr v' \<Longrightarrow> replay_deletion ss' e v y = Inr v'"
      unfolding replay_replacement_def replay_mutation_def replay_deletion_def rbind_eq_Inr by blast+
    then have "\<And>e v xs v'. rfold (replay_replacement P ss e) v xs = Inr v' \<Longrightarrow> rfold (replay_replacement P ss' e) v xs = Inr v'"
      "\<And>e v xs v'. rfold (replay_mutation P ss e) v xs = Inr v' \<Longrightarrow> rfold (replay_mutation P ss' e) v xs = Inr v'"
      "\<And>e v ys v'. rfold (replay_deletion ss e) v ys = Inr v' \<Longrightarrow> rfold (replay_deletion ss' e) v ys = Inr v'"
      by (blast intro: rfold_mono [rotated])+
    with that show ?thesis unfolding apply_commit_def rbind_eq_Inr by blast
  qed
  with assms(2) show ?thesis unfolding apply_commits_def by (rule rfold_mono [rotated])
qed

text \<open>The state that recovery computes after one more commit, whatever the manifest on disk is.\<close>

lemma recovery_step:
  assumes "recovers P db d es st2" and "logs P db c db1"
    and "stores_agree (mf_checkpoint_epoch (td_manifest db)) (mf_latest_epoch (td_manifest db)) (td_store db) st2"
    and "mf_latest_epoch (td_manifest db) \<noteq> - 1"
    and "we_commit e = c\<lparr>cr_previous_commit_hash := h\<rparr>"
  obtains st0 r0 j0 st2' where
    "load_checkpoint P (td_dir db) d (td_encryption db) (td_manifest db) = Inr (td_manifest db, st0, r0, j0)"
    and "stores_agree (mf_checkpoint_epoch (td_manifest db)) (next_epoch db) (td_store db1) st2'"
    and "\<forall>s \<in> set (concat (map cr_schema_changes (commits_after (mf_checkpoint_epoch (td_manifest db)) (es @ [e])))).
      find_schema (mf_schemas (td_manifest db1)) (ts_name s) = Some s"
    and "td_receipts db1 = r0 @ concat (map cr_idempotency_receipts (commits_after (mf_checkpoint_epoch (td_manifest db)) (es @ [e])))"
    and "rfold job_replay j0 (concat (map cr_job_events (commits_after (mf_checkpoint_epoch (td_manifest db)) (es @ [e])))) = Inr (td_jobs db1)"
    and "apply_commits P (mf_schemas (td_manifest db1)) st0 (commits_after (mf_checkpoint_epoch (td_manifest db)) (es @ [e])) = Inr st2'"
    and "foldl upsert_schema (mf_schemas (td_manifest db))
      (concat (map cr_schema_changes (commits_after (mf_checkpoint_epoch (td_manifest db)) (es @ [e])))) = mf_schemas (td_manifest db1)"
    and "last (commits_after (mf_checkpoint_epoch (td_manifest db)) (es @ [e])) = we_commit e"
    and "commits_after (mf_checkpoint_epoch (td_manifest db)) (es @ [e]) \<noteq> []"
proof -
  let ?m = "td_manifest db" and ?cs = "commits_after (mf_checkpoint_epoch (td_manifest db)) es"
  from assms(1) obtain st0 r0 j0 where cp: "load_checkpoint P (td_dir db) d (td_encryption db) ?m = Inr (?m, st0, r0, j0)"
    and schemas: "\<forall>s \<in> set (concat (map cr_schema_changes ?cs)). find_schema (mf_schemas ?m) (ts_name s) = Some s"
    and rec: "td_receipts db = r0 @ concat (map cr_idempotency_receipts ?cs)"
      "rfold job_replay j0 (concat (map cr_job_events ?cs)) = Inr (td_jobs db)"
      "apply_commits P (mf_schemas ?m) st0 ?cs = Inr st2"
    by (auto simp: recovers_def Let_def)
  note l = logsD [OF assms(2)]
  from l(14) [OF assms(3)] obtain st2' where st2': "apply_commit P (mf_schemas (td_manifest db1)) st2 c = Inr st2'"
    and agree: "stores_agree (mf_checkpoint_epoch ?m) (next_epoch db) (td_store db1) st2'"
    by blast
  have "mf_checkpoint_epoch ?m \<le> mf_latest_epoch ?m" using cp by (cases rule: load_checkpointE) auto
  moreover have "mf_latest_epoch ?m < next_epoch db"
    using word_next_gt [OF assms(4)] by (simp add: epoch_next_def)
  ultimately have "mf_checkpoint_epoch ?m < cr_epoch (we_commit e)"
    by (simp add: assms(5) l(1))
  then have snoc: "commits_after (mf_checkpoint_epoch ?m) (es @ [e]) = ?cs @ [we_commit e]"
    by (simp add: commits_after_def)
  have "apply_commits P (mf_schemas (td_manifest db1)) st0 (?cs @ [we_commit e]) = Inr st2'"
    using apply_commits_schema_mono [OF l(10) rec(3)] st2'
    by (simp add: apply_commits_def rfold_append assms(5))
  moreover have "rfold job_replay j0 (concat (map cr_job_events (?cs @ [we_commit e]))) = Inr (td_jobs db1)"
    using rec(2) l(13) by (simp add: rfold_append assms(5))
  moreover have "td_receipts db1 = r0 @ concat (map cr_idempotency_receipts (?cs @ [we_commit e]))"
    using rec(1) l(12) by (simp add: assms(5))
  moreover have "\<forall>s \<in> set (concat (map cr_schema_changes (?cs @ [we_commit e]))).
      find_schema (mf_schemas (td_manifest db1)) (ts_name s) = Some s"
    using schemas l(10,11) by (auto simp: assms(5))
  moreover have "foldl upsert_schema (mf_schemas ?m) (concat (map cr_schema_changes (?cs @ [we_commit e]))) =
      mf_schemas (td_manifest db1)"
    using upsert_all_present [OF schemas] l(9) by (simp add: assms(5))
  ultimately show thesis using that [OF cp agree] by (simp add: snoc)
qed

text \<open>The states in the middle of the write path, for a commit that was planned.\<close>

lemma commit_plannedE:
  assumes "engine_inv P opts mk (db, d)" and "manifest_codec_ok P"
    and "commit_planned P nonce plan (db, d) = (res, s')"
    and "\<And>c install w. plan db = Inr (c, install) \<Longrightarrow> install (db\<lparr>td_wal := w\<rparr>) = (install db)\<lparr>td_wal := w\<rparr>"
  obtains (failed) err where "res = Inl err" and "s' = (db, d)"
  | (committed) c install w log_file l d' m' where "plan db = Inr (c, install)"
    and "append_commit (log_of_prims P) nonce (td_wal db) (dk_wal d) c = Inr (w, log_file, l)"
    and "write_manifest P (d\<lparr>dk_wal := log_file\<rparr>) (bumped (install db) (cr_epoch c)) = Inr (d', m')"
    and "res = Inr (cr_epoch c)" and "s' = ((install db)\<lparr>td_wal := w, td_manifest := m'\<rparr>, d')"
proof (cases "plan db")
  case (Inl err)
  with assms(3) show thesis
    by (intro failed [of err]) (auto simp: commit_planned_def ebind_def refresh_noop [OF assms(1)] ereads_def)
next
  case (Inr ci)
  obtain c install where ci: "ci = (c, install)" by (cases ci)
  show thesis
  proof (cases "append_commit (log_of_prims P) nonce (td_wal db) (dk_wal d) c")
    case (Inl err)
    with assms(3) Inr ci show thesis
      by (intro failed [of err]) (auto simp: commit_planned_def ebind_def refresh_noop [OF assms(1)] ereads_def append_to_wal_def eupdates_def)
  next
    case (Inr wfl)
    obtain w log_file l where wfl: "wfl = (w, log_file, l)" by (cases wfl)
    let ?d = "d\<lparr>dk_wal := log_file\<rparr>"
    have "read_manifest_inner P (dk_manifest ?d) = Inr (td_manifest db)"
      using assms(1) by (auto elim: engine_invE)
    from write_manifest_total [OF assms(2) this] obtain d' m' where
      wm: "write_manifest P ?d (bumped (install db) (cr_epoch c)) = Inr (d', m')" by blast
    have "bumped ((install db)\<lparr>td_wal := w\<rparr>) (cr_epoch c) = bumped (install db) (cr_epoch c)" by (simp add: bumped_def)
    with assms(3) Inr wfl \<open>plan db = Inr ci\<close> ci wm assms(4) [of c install w]
    have "res = Inr (cr_epoch c)" "s' = ((install db)\<lparr>td_wal := w, td_manifest := m'\<rparr>, d')"
      by (auto simp: commit_planned_def ebind_def refresh_noop [OF assms(1)] ereads_def append_to_wal_def eupdates_def
            emodify_def bump_manifest_eq ereturn_def)
    with committed Inr wfl \<open>plan db = Inr ci\<close> ci wm show thesis by blast
  qed
qed

lemma logs_commit_valid: "logs P db c db' \<Longrightarrow> mf_latest_epoch (td_manifest db) \<noteq> - 1 \<Longrightarrow> commit_valid c"
proof -
  assume l: "logs P db c db'" and e: "mf_latest_epoch (td_manifest db) \<noteq> - 1"
  let ?E = "mf_latest_epoch (td_manifest db)"
  have "0 < ?E + 1" using le_less_trans [OF word_zero_le word_next_gt [OF e]] .
  from inc_le [OF this] have "1 \<le> ?E + 1" by simp
  then have "sat_sub64 (next_epoch db) 1 = ?E" by (simp add: sat_sub64_def epoch_next_def)
  with logsD(1-3) [OF l] word_next_gt [OF e] show "commit_valid c" by (simp add: commit_valid_def epoch_next_def)
qed

text \<open>What recovery finds once the commit is in the log.\<close>

lemma commit_recovered:
  assumes "engine_inv P opts mk (db, d)" and "eng_prims_ok P" and "length nonce = nonce_len"
    and "logs P db c db1" and "mf_latest_epoch (td_manifest db) \<noteq> - 1"
    and "append_commit (log_of_prims P) nonce (td_wal db) (dk_wal d) c = Inr (w, log_file, l)"
  obtains es st0 r0 j0 st2 where "wal_inv (log_of_prims P) w log_file es" and "wal_encryption w = td_encryption db"
    and "\<forall>e \<in> set es. 0 < cr_epoch (we_commit e) \<and> cr_epoch (we_commit e) \<le> next_epoch db"
    and "load_checkpoint P (td_dir db) d (td_encryption db) (td_manifest db) = Inr (td_manifest db, st0, r0, j0)"
    and "stores_agree (mf_checkpoint_epoch (td_manifest db)) (next_epoch db) (td_store db1) st2"
    and "\<forall>s \<in> set (concat (map cr_schema_changes (commits_after (mf_checkpoint_epoch (td_manifest db)) es))).
        find_schema (mf_schemas (td_manifest db1)) (ts_name s) = Some s"
    and "td_receipts db1 = r0 @ concat (map cr_idempotency_receipts (commits_after (mf_checkpoint_epoch (td_manifest db)) es))"
    and "rfold job_replay j0 (concat (map cr_job_events (commits_after (mf_checkpoint_epoch (td_manifest db)) es))) = Inr (td_jobs db1)"
    and "apply_commits P (mf_schemas (td_manifest db1)) st0 (commits_after (mf_checkpoint_epoch (td_manifest db)) es) = Inr st2"
    and "foldl upsert_schema (mf_schemas (td_manifest db))
      (concat (map cr_schema_changes (commits_after (mf_checkpoint_epoch (td_manifest db)) es))) = mf_schemas (td_manifest db1)"
    and "commits_after (mf_checkpoint_epoch (td_manifest db)) es \<noteq> []"
    and "cr_epoch (last (commits_after (mf_checkpoint_epoch (td_manifest db)) es)) = next_epoch db"
proof -
  let ?L = "log_of_prims P"
  from assms(1) obtain es st2 where enc: "wal_encryption (td_wal db) = td_encryption db"
    and wal: "wal_inv ?L (td_wal db) (dk_wal d) es"
    and epochs: "\<forall>e \<in> set es. 0 < cr_epoch (we_commit e) \<and> cr_epoch (we_commit e) \<le> mf_latest_epoch (td_manifest db)"
    and rec: "recovers P db d es st2"
    and agree: "stores_agree (mf_checkpoint_epoch (td_manifest db)) (mf_latest_epoch (td_manifest db)) (td_store db) st2"
    by (rule engine_invE)
  have ok: "wal_prims_ok ?L" using assms(2) by (simp add: eng_prims_ok_def)
  from append_commit_inv [OF ok assms(3) wal logs_commit_valid [OF assms(4,5)] assms(6)] obtain dig where
    wal': "wal_inv ?L w log_file (es @ [appended_entry es l dig c])" by blast
  let ?e = "appended_entry es l dig c"
  have e: "we_commit ?e = c\<lparr>cr_previous_commit_hash := last_checksum es\<rparr>" by (simp add: appended_entry_def)
  have epoch: "cr_epoch (we_commit ?e) = next_epoch db" using logsD(1) [OF assms(4)] by (simp add: e)
  have gt: "mf_latest_epoch (td_manifest db) < next_epoch db"
    using word_next_gt [OF assms(5)] by (simp add: epoch_next_def)
  then have "\<forall>x \<in> set (es @ [?e]). 0 < cr_epoch (we_commit x) \<and> cr_epoch (we_commit x) \<le> next_epoch db"
    using epochs epoch le_less_trans [OF word_zero_le gt] by (auto intro: order.trans less_imp_le)
  moreover have "wal_encryption w = td_encryption db"
    using append_commitE [OF wal assms(6)] enc by metis
  ultimately show thesis
    using recovery_step [OF rec assms(4) agree assms(5) e] that [OF wal'] epoch by metis
qed

text \<open>A manifest that is not older than the one on disk, with the schemas of the handle, recovers.\<close>

lemma recovered_manifest:
  assumes "load_checkpoint P (td_dir db) d (td_encryption db) m = Inr (m, st0, r0, j0)"
    and "\<And>t s. find_schema (mf_schemas m) t = Some s \<Longrightarrow> find_schema (mf_schemas (td_manifest db1)) t = Some s"
    and "mf_checkpoint_epoch (td_manifest db2) = mf_checkpoint_epoch m" and "mf_latest_epoch m \<le> mf_latest_epoch (td_manifest db2)"
    and "mf_schemas (td_manifest db2) = mf_schemas (td_manifest db1)"
    and "dk_checkpoints d2 = dk_checkpoints d" and "dk_json_checkpoints d2 = dk_json_checkpoints d"
    and "\<forall>s \<in> set (concat (map cr_schema_changes (commits_after (mf_checkpoint_epoch m) es))).
        find_schema (mf_schemas (td_manifest db1)) (ts_name s) = Some s"
    and "td_receipts db1 = r0 @ concat (map cr_idempotency_receipts (commits_after (mf_checkpoint_epoch m) es))"
    and "rfold job_replay j0 (concat (map cr_job_events (commits_after (mf_checkpoint_epoch m) es))) = Inr (td_jobs db1)"
    and "apply_commits P (mf_schemas (td_manifest db1)) st0 (commits_after (mf_checkpoint_epoch m) es) = Inr st2"
    and "td_dir db2 = td_dir db" and "td_encryption db2 = td_encryption db"
    and "td_receipts db2 = td_receipts db1" and "td_jobs db2 = td_jobs db1"
  shows "recovers P db2 d2 es st2"
proof -
  have "mf_schemas (td_manifest db2) = [] \<longrightarrow> mf_schemas m = []"
    using assms(2) [of "ts_name (hd (mf_schemas m))"] assms(5) by (cases "mf_schemas m") (auto simp: find_schema_def)
  from load_checkpoint_update [OF assms(1,3,4) this assms(6,7)] assms(3,5,8-15) show ?thesis
    by (auto simp: recovers_def Let_def simp del: concat_eq_Nil_conv)
qed

text \<open>After the commit the new handle agrees with the new directory.\<close>

lemma bumped_fields:
  assumes "logs P db c db1" and "m' = (bumped db1 (cr_epoch c))\<lparr>mf_manifest_checksum := cs\<rparr>"
  shows "mf_latest_epoch m' = next_epoch db" "mf_checkpoint_epoch m' = mf_checkpoint_epoch (td_manifest db)"
    "mf_schemas m' = mf_schemas (td_manifest db1)" "mf_modules m' = mf_modules (td_manifest db)"
    "mf_encryption m' = mf_encryption (td_manifest db)" "mf_database_id m' = mf_database_id (td_manifest db)"
    "mf_schemas m' = [] \<longrightarrow> mf_schemas (td_manifest db) = []"
proof -
  note lg = logsD [OF assms(1)]
  show "mf_latest_epoch m' = next_epoch db" "mf_checkpoint_epoch m' = mf_checkpoint_epoch (td_manifest db)"
    "mf_modules m' = mf_modules (td_manifest db)"
    "mf_encryption m' = mf_encryption (td_manifest db)" "mf_database_id m' = mf_database_id (td_manifest db)"
    and s: "mf_schemas m' = mf_schemas (td_manifest db1)"
    using lg(1) arg_cong [OF lg(8), of mf_checkpoint_epoch] arg_cong [OF lg(8), of mf_modules]
      arg_cong [OF lg(8), of mf_encryption] arg_cong [OF lg(8), of mf_database_id]
    by (simp_all add: assms(2) bumped_def)
  show "mf_schemas m' = [] \<longrightarrow> mf_schemas (td_manifest db) = []"
    using lg(10) [of "ts_name (hd (mf_schemas (td_manifest db)))"]
    by (cases "mf_schemas (td_manifest db)") (auto simp: s find_schema_def)
qed

lemma committed_inv:
  assumes "engine_inv P opts mk (db, d)" and "eng_prims_ok P" and "length nonce = nonce_len"
    and "logs P db c db1" and "mf_latest_epoch (td_manifest db) \<noteq> - 1"
    and "append_commit (log_of_prims P) nonce (td_wal db) (dk_wal d) c = Inr (w, log_file, l)"
    and "write_manifest P (d\<lparr>dk_wal := log_file\<rparr>) (bumped db1 (cr_epoch c)) = Inr (d', m')"
    and "mf_manifest_checksum m' \<noteq> zero32"
  shows "engine_inv P opts mk (db1\<lparr>td_wal := w, td_manifest := m'\<rparr>, d')"
proof -
  let ?db = "db1\<lparr>td_wal := w, td_manifest := m'\<rparr>"
  from assms(1) have inv: "mf_modules (td_manifest db) \<noteq> []"
      "open_encryption P opts mk (td_manifest db) = Inr (td_encryption db)" "mk \<noteq> None \<longrightarrow> td_encryption db \<noteq> None"
    by (auto elim: engine_invE)
  note lg = logsD [OF assms(4)]
  from commit_recovered [OF assms(1-6)] obtain es st0 r0 j0 st2 where
    wal: "wal_inv (log_of_prims P) w log_file es" "wal_encryption w = td_encryption db"
      "\<forall>e \<in> set es. 0 < cr_epoch (we_commit e) \<and> cr_epoch (we_commit e) \<le> next_epoch db"
    and cp: "load_checkpoint P (td_dir db) d (td_encryption db) (td_manifest db) = Inr (td_manifest db, st0, r0, j0)"
    and agree: "stores_agree (mf_checkpoint_epoch (td_manifest db)) (next_epoch db) (td_store db1) st2"
    and step: "\<forall>s \<in> set (concat (map cr_schema_changes (commits_after (mf_checkpoint_epoch (td_manifest db)) es))).
        find_schema (mf_schemas (td_manifest db1)) (ts_name s) = Some s"
      "td_receipts db1 = r0 @ concat (map cr_idempotency_receipts (commits_after (mf_checkpoint_epoch (td_manifest db)) es))"
      "rfold job_replay j0 (concat (map cr_job_events (commits_after (mf_checkpoint_epoch (td_manifest db)) es))) = Inr (td_jobs db1)"
      "apply_commits P (mf_schemas (td_manifest db1)) st0 (commits_after (mf_checkpoint_epoch (td_manifest db)) es) = Inr st2" .
  from write_manifestE [OF assms(7)] obtain cs body bak where m': "m' = (bumped db1 (cr_epoch c))\<lparr>mf_manifest_checksum := cs\<rparr>"
    and d': "d' = d\<lparr>dk_wal := log_file, dk_manifest_bak := bak, dk_manifest := Some body\<rparr>" by blast
  note m = bumped_fields [OF assms(4) m']
  have "mf_latest_epoch (td_manifest db) \<le> mf_latest_epoch m'"
    using word_next_gt [OF assms(5)] by (simp add: m(1) epoch_next_def)
  with m(2,7) have "load_checkpoint P (td_dir db) d' (td_encryption db) m' = Inr (m', st0, r0, j0)"
    by (intro load_checkpoint_update [OF cp]) (simp_all add: d')
  then have rec: "recovers P ?db d' es st2"
    using step by (auto simp: recovers_def Let_def m(2,3) lg(4,6) simp del: concat_eq_Nil_conv)
  show ?thesis
  proof (rule engine_invI [OF _ _ _ _ _ _ _ _ rec])
    show "read_manifest_inner P (dk_manifest d') = Inr (td_manifest ?db)"
      using write_manifest_read [OF _ assms(7,8)] assms(2) by (simp add: eng_prims_ok_def)
    show "open_encryption P opts mk (td_manifest ?db) = Inr (td_encryption ?db)"
      using inv(2) open_encryption_cong [OF m(5,6)] by (simp add: lg(6))
    show "db_ok ?db" using lg(7) by (simp add: db_ok_def m(3))
    show "stores_agree (mf_checkpoint_epoch (td_manifest ?db)) (mf_latest_epoch (td_manifest ?db)) (td_store ?db) st2"
      using agree by (simp add: m(1,2))
  qed (use inv(1,3) lg(6) wal in \<open>simp_all add: m(1,4) d'\<close>)
qed

text \<open>
  A crash after the append and before the manifest was replaced: opening replays the commit, brings
  the manifest up to date and finds the data of the finished command.
\<close>

lemma committed_before_manifest:
  assumes "engine_inv P opts mk (db, d)" and "eng_prims_ok P" and "length nonce = nonce_len"
    and "logs P db c db1" and "mf_latest_epoch (td_manifest db) \<noteq> - 1"
    and "append_commit (log_of_prims P) nonce (td_wal db) (dk_wal d) c = Inr (w, log_file, l)"
    and "options_master_key P env opts = Inr mk"
    and "dk_wal dc = log_file" and "dk_manifest dc = dk_manifest d"
    and "dk_checkpoints dc = dk_checkpoints d" and "dk_json_checkpoints dc = dk_json_checkpoints d"
    and "mf_latest_epoch m' = next_epoch db" and "mf_checkpoint_epoch m' = mf_checkpoint_epoch (td_manifest db)"
    and "mf_schemas m' = mf_schemas (td_manifest db1)"
  shows "\<exists>db2 d2. open_with_options P env dek rnd opts (td_dir db) dc = (Inr db2, d2) \<and>
    same_data (db1\<lparr>td_wal := w', td_manifest := m'\<rparr>) db2 \<and>
    (mf_manifest_checksum (td_manifest db2) \<noteq> zero32 \<longrightarrow> engine_inv P opts mk (db2, d2))"
proof -
  let ?m = "td_manifest db" and ?L = "log_of_prims P"
  from assms(1) have inv: "read_manifest_inner P (dk_manifest d) = Inr ?m" "mf_modules ?m \<noteq> []"
      "open_encryption P opts mk ?m = Inr (td_encryption db)" "mk \<noteq> None \<longrightarrow> td_encryption db \<noteq> None"
    by (auto elim: engine_invE)
  from commit_recovered [OF assms(1-6)] obtain es st0 r0 j0 st2 where
    wal: "wal_inv ?L w log_file es" "wal_encryption w = td_encryption db"
    and epochs: "\<forall>e \<in> set es. 0 < cr_epoch (we_commit e) \<and> cr_epoch (we_commit e) \<le> next_epoch db"
    and cp: "load_checkpoint P (td_dir db) d (td_encryption db) ?m = Inr (?m, st0, r0, j0)"
    and agree: "stores_agree (mf_checkpoint_epoch ?m) (next_epoch db) (td_store db1) st2"
    and schemas: "\<forall>s \<in> set (concat (map cr_schema_changes (commits_after (mf_checkpoint_epoch ?m) es))).
        find_schema (mf_schemas (td_manifest db1)) (ts_name s) = Some s"
    and step: "td_receipts db1 = r0 @ concat (map cr_idempotency_receipts (commits_after (mf_checkpoint_epoch ?m) es))"
      "rfold job_replay j0 (concat (map cr_job_events (commits_after (mf_checkpoint_epoch ?m) es))) = Inr (td_jobs db1)"
      "apply_commits P (mf_schemas (td_manifest db1)) st0 (commits_after (mf_checkpoint_epoch ?m) es) = Inr st2"
      "foldl upsert_schema (mf_schemas ?m) (concat (map cr_schema_changes (commits_after (mf_checkpoint_epoch ?m) es))) =
        mf_schemas (td_manifest db1)"
    and last: "commits_after (mf_checkpoint_epoch ?m) es \<noteq> []"
      "cr_epoch (last (commits_after (mf_checkpoint_epoch ?m) es)) = next_epoch db" .
  have scan: "scan_file ?L (td_encryption db) log_file = Inr (clean es)" "length (last_checksum es) = 32"
    using wal by (auto simp: wal_inv_def)
  from wal_open_clean [OF scan] obtain w2 where w2: "wal_open ?L (td_encryption db) log_file = Inr (w2, log_file)"
    "wal_inv ?L w2 log_file es" "wal_encryption w2 = td_encryption db" by blast
  have cp': "load_checkpoint P (td_dir db) (dc\<lparr>dk_wal := log_file\<rparr>) (td_encryption db) ?m = Inr (?m, st0, r0, j0)"
    using cp load_checkpoint_cong [of "dc\<lparr>dk_wal := log_file\<rparr>" d] assms(10,11) by simp
  have rep: "replay_log P (commits_after (mf_checkpoint_epoch ?m) es) (?m, st0, r0, j0) =
      Inr (?m\<lparr>mf_schemas := mf_schemas (td_manifest db1)\<rparr>, st2, td_receipts db1, td_jobs db1)"
    using step by (simp add: replay_log_def Let_def)
  let ?adv = "?m\<lparr>mf_schemas := mf_schemas (td_manifest db1), mf_latest_epoch := next_epoch db,
    mf_durable_epoch := next_epoch db, mf_manifest_generation := mf_manifest_generation ?m + 1\<rparr>"
  have dc: "dc\<lparr>dk_wal := log_file\<rparr> = dc" using assms(8) by simp
  have mf: "read_manifest_inner P (dk_manifest dc) = Inr ?m" using inv(1) assms(9) by simp
  from write_manifest_total [OF _ this] assms(2) obtain d2 m2 where
    wm: "write_manifest P dc ?adv = Inr (d2, m2)" by (force simp: eng_prims_ok_def)
  have w3: "wal_open ?L (td_encryption db) (dk_wal dc) = Inr (w2, log_file)" using w2(1) assms(8) by simp
  let ?db2 = "\<lparr>td_dir = td_dir db, td_manifest = m2, td_store = st2, td_wal = w2, td_encryption = td_encryption db,
    td_receipts = td_receipts db1, td_jobs = td_jobs db1, td_last_recovery_torn_tail = wal_recovery_torn_tail w2\<rparr>"
  have opened: "open_with_options P env dek rnd opts (td_dir db) dc = (Inr ?db2, d2)"
    using open_recovers [OF assms(7) mf inv(2-4) w3 w2(2,3) cp' rep] last wm word_next_gt [OF assms(5)]
    by (simp add: dc advance_manifest_def ebind_eupdates epoch_next_def)
  from write_manifestE [OF wm] obtain cs bak body where m2: "m2 = ?adv\<lparr>mf_manifest_checksum := cs\<rparr>"
    and d2: "d2 = dc\<lparr>dk_manifest_bak := bak, dk_manifest := Some body\<rparr>" by metis
  have data: "same_data (db1\<lparr>td_wal := w', td_manifest := m'\<rparr>) ?db2"
    using agree assms(12-14) by (simp add: same_data_def m2)
  have "engine_inv P opts mk (?db2, d2)" if "mf_manifest_checksum m2 \<noteq> zero32"
  proof (rule engine_invI [OF _ _ _ _ _ _ _ _ recovered_manifest [OF cp logsD(10) [OF assms(4)] _ _ _ _ _ schemas step(1-3)]])
    show "read_manifest_inner P (dk_manifest d2) = Inr (td_manifest ?db2)"
      using write_manifest_read [OF _ wm that] assms(2) by (simp add: eng_prims_ok_def)
    show "open_encryption P opts mk (td_manifest ?db2) = Inr (td_encryption ?db2)"
      using inv(3) open_encryption_cong [of m2 ?m] by (simp add: m2)
    show "db_ok ?db2" using logsD(7) [OF assms(4)] by (simp add: db_ok_def m2)
    show "mf_latest_epoch ?m \<le> mf_latest_epoch (td_manifest ?db2)"
      using word_next_gt [OF assms(5)] by (simp add: m2 epoch_next_def)
  qed (use inv(2,4) w2(2,3) epochs stores_agree_second [OF agree] in \<open>simp_all add: m2 d2 assms(8,10,11)\<close>)
  with opened data show ?thesis by auto
qed

section \<open>Commands\<close>

lemma wal_open_encryption: "wal_open P enc log_file = Inr (w, log_file') \<Longrightarrow> wal_encryption w = enc"
  by (auto simp: wal_open_def rbind_eq_Inr Let_def case_prod_beta)

text \<open>
  What a crash can leave of a command that takes the directory from \<open>d\<close> to \<open>d'\<close>: some of the bytes
  of its frame; the whole frame and the backup of the manifest; or everything. A file that is
  written beside and renamed is either old or new.
\<close>

inductive crash_disk :: "disk \<Rightarrow> disk \<Rightarrow> disk \<Rightarrow> bool" for d d' where
  in_append: "length (dk_wal d) \<le> k \<Longrightarrow> crash_disk d d' (d\<lparr>dk_wal := take k (dk_wal d')\<rparr>)"
| after_backup: "crash_disk d d' (d\<lparr>dk_wal := dk_wal d', dk_manifest_bak := dk_manifest_bak d'\<rparr>)"
| finished: "crash_disk d d' d'"

context logged_commands
begin

lemma planned_cases:
  assumes "engine_inv P opts mk (db, d)" and "eng_prims_ok P" and "fits x db"
    and "mf_latest_epoch (td_manifest db) \<noteq> - 1" and "commit_planned P nonce (plan P x) (db, d) = (res, s')"
  obtains (failed) err where "res = Inl err" and "s' = (db, d)"
  | (committed) c db1 w log_file l d' m' where "logs P db c db1"
    and "append_commit (log_of_prims P) nonce (td_wal db) (dk_wal d) c = Inr (w, log_file, l)"
    and "write_manifest P (d\<lparr>dk_wal := log_file\<rparr>) (bumped db1 (cr_epoch c)) = Inr (d', m')"
    and "res = Inr (cr_epoch c)" and "s' = (db1\<lparr>td_wal := w, td_manifest := m'\<rparr>, d')"
proof -
  have codec: "manifest_codec_ok P" and ok: "db_ok db"
    using assms(1,2) by (auto simp: eng_prims_ok_def elim: engine_invE)
  show thesis
  proof (rule commit_plannedE [OF assms(1) codec assms(5) install_wal])
    fix err assume "res = Inl err" "s' = (db, d)" then show thesis by (rule failed)
  next
    fix c install w log_file l d' m' assume "plan P x db = Inr (c, install)"
      "append_commit (log_of_prims P) nonce (td_wal db) (dk_wal d) c = Inr (w, log_file, l)"
      "write_manifest P (d\<lparr>dk_wal := log_file\<rparr>) (bumped (install db) (cr_epoch c)) = Inr (d', m')"
      "res = Inr (cr_epoch c)" "s' = ((install db)\<lparr>td_wal := w, td_manifest := m'\<rparr>, d')"
    then show thesis using plan_logs [OF ok assms(4,3)] by (intro committed) auto
  qed
qed

lemma command_keeps_inv:
  assumes "engine_inv P opts mk (db, d)" and "eng_prims_ok P" and "fits x db"
    and "mf_latest_epoch (td_manifest db) \<noteq> - 1" and "length nonce = nonce_len"
    and "commit_planned P nonce (plan P x) (db, d) = (res, (db', d'))"
    and "mf_manifest_checksum (td_manifest db') \<noteq> zero32"
  shows "engine_inv P opts mk (db', d')"
  using assms(1-4,6)
proof (cases rule: planned_cases)
  case failed
  then show ?thesis using assms(1) by simp
next
  case (committed c db1 w log_file l d2 m')
  then show ?thesis
    using committed_inv [OF assms(1,2,5) committed(1) assms(4) committed(2,3)] assms(7) by simp
qed

lemma command_epoch:
  assumes "engine_inv P opts mk (db, d)" and "eng_prims_ok P" and "fits x db"
    and "mf_latest_epoch (td_manifest db) \<noteq> - 1"
    and "commit_planned P nonce (plan P x) (db, d) = (res, (db', d'))"
  shows "case res of Inl err \<Rightarrow> (db', d') = (db, d)
    | Inr e \<Rightarrow> e = next_epoch db \<and> mf_latest_epoch (td_manifest db') = e \<and> td_dir db' = td_dir db"
  using assms
proof (cases rule: planned_cases)
  case (committed c db1 w log_file l d2 m')
  from write_manifestE [OF committed(3)] obtain cs where "m' = (bumped db1 (cr_epoch c))\<lparr>mf_manifest_checksum := cs\<rparr>"
    by metis
  from bumped_fields(1) [OF committed(1) this] logsD(1,4) [OF committed(1)] committed(4,5) show ?thesis by simp
qed simp

lemma command_crash:
  assumes "engine_inv P opts mk (db, d)" and "eng_prims_ok P" and "fits x db"
    and "mf_latest_epoch (td_manifest db) \<noteq> - 1" and "length nonce = nonce_len"
    and "commit_planned P nonce (plan P x) (db, d) = (Inr e, (db', d'))"
    and "mf_manifest_checksum (td_manifest db') \<noteq> zero32"
    and "options_master_key P env opts = Inr mk" and "crash_disk d d' dc"
  shows "\<exists>db2 d2. open_with_options P env dek rnd opts (td_dir db) dc = (Inr db2, d2) \<and>
    (if length (dk_wal dc) < length (dk_wal d') then same_data db db2 else same_data db' db2) \<and>
    (mf_manifest_checksum (td_manifest db2) \<noteq> zero32 \<longrightarrow> engine_inv P opts mk (db2, d2))"
  using assms(1-4,6)
proof (cases rule: planned_cases)
  case (committed c db1 w log_file l d2 m')
  have d2: "d2 = d'" and db': "db' = db1\<lparr>td_wal := w, td_manifest := m'\<rparr>" using committed(5) by simp_all
  from write_manifestE [OF committed(3)] obtain cs body bak where
    m': "m' = (bumped db1 (cr_epoch c))\<lparr>mf_manifest_checksum := cs\<rparr>"
    and d': "d' = d\<lparr>dk_wal := log_file, dk_manifest_bak := bak, dk_manifest := Some body\<rparr>" unfolding d2 by blast
  note m = bumped_fields [OF committed(1) m']
  note late = committed_before_manifest [OF assms(1,2,5) committed(1) assms(4) committed(2) assms(8)]
  show ?thesis
    using assms(9)
  proof cases
    case finished
    have "engine_inv P opts mk (db', d')" by (rule command_keeps_inv [OF assms(1-7)])
    from engine_reopen [OF assms(8) this, of dek rnd] logsD(4) [OF committed(1)] show ?thesis
      by (auto simp: finished db')
  next
    case after_backup
    have "\<exists>db2 d2. open_with_options P env dek rnd opts (td_dir db) dc = (Inr db2, d2) \<and> same_data db' db2 \<and>
        (mf_manifest_checksum (td_manifest db2) \<noteq> zero32 \<longrightarrow> engine_inv P opts mk (db2, d2))"
      unfolding db' by (rule late) (simp_all add: after_backup d' m(1-3))
    then show ?thesis by (simp add: after_backup d')
  next
    case (in_append k)
    from assms(1) obtain es where wal: "wal_inv (log_of_prims P) (td_wal db) (dk_wal d) es"
      and enc: "wal_encryption (td_wal db) = td_encryption db" by (rule engine_invE)
    have "wal_prims_ok (log_of_prims P)" using assms(2) by (simp add: eng_prims_ok_def)
    note crash = append_crash_reopens [OF this assms(5) logs_commit_valid [OF committed(1) assms(4)] wal committed(2) in_append(2)]
    show ?thesis
    proof (cases "k < length log_file")
      case True
      with crash enc obtain w2 where w2: "wal_open (log_of_prims P) (td_encryption db) (take k log_file) = Inr (w2, dk_wal d)"
        "wal_inv (log_of_prims P) w2 (dk_wal d) es" by auto
      have "wal_encryption w2 = td_encryption db" by (rule wal_open_encryption [OF w2(1)])
      from engine_reopen_torn [OF assms(8,1) w2 this, of dek rnd] True show ?thesis
        by (auto simp: in_append(1) d')
    next
      case False
      have "\<exists>db2 d2. open_with_options P env dek rnd opts (td_dir db) dc = (Inr db2, d2) \<and> same_data db' db2 \<and>
          (mf_manifest_checksum (td_manifest db2) \<noteq> zero32 \<longrightarrow> engine_inv P opts mk (db2, d2))"
        unfolding db' by (rule late) (use False in \<open>simp_all add: in_append(1) d' m(1-3)\<close>)
      then show ?thesis using False by (simp add: in_append(1) d')
    qed
  qed
qed simp

end

end
