(* ===== verification/Checkpointing.thy ===== *)
theory Checkpointing
  imports Durability
begin

text \<open>
  Checkpoints of the engine (\<open>db_checkpoint\<close>, \<open>TraceDb::checkpoint\<close> in
  \<open>src/crates/tracedb-query/src/lib.rs\<close>): the checkpoint file alone rebuilds the state of the handle,
  so the invariant of the engine holds after the manifest names it and the log is cut.
\<close>

section \<open>Checkpoints\<close>

lemma from_checkpoint_good:
  assumes "store_ok E st" and "ids_ok st" and "feats_wf st"
  shows "stores_agree E E st (from_checkpoint_records (checkpoint_records st E))"
proof -
  let ?rs = "checkpoint_records st E"
  have rs: "\<exists>k vs. (k, vs) \<in> set st \<and> r \<in> set vs" if "r \<in> set ?rs" for r
    using that by (auto simp: checkpoint_records_def set_filter_map bm_values_def dest!: rfind_SomeD) blast
  have "\<forall>(k, vs) \<in> set (from_checkpoint_records xs). \<forall>r \<in> set vs. r \<in> set xs \<and> k = header_key r" for xs
  proof (induction xs rule: rev_induct)
    case Nil
    then show ?case by (simp add: from_checkpoint_records_def)
  next
    case (snoc x xs)
    let ?st = "from_checkpoint_records xs"
    have "from_checkpoint_records (xs @ [x]) = bm_insert (header_key x) (versions_or_default ?st (header_key x) @ [x]) ?st"
      by (simp add: from_checkpoint_records_def)
    moreover have "bm_wf ?st" by (rule from_checkpoint_wf)
    ultimately show ?case
      using snoc.IH by (fastforce simp: bm_entries_get split: if_splits option.splits)
  qed
  from this [of ?rs] rs assms(2,3) have "ids_ok (from_checkpoint_records ?rs)" "feats_wf (from_checkpoint_records ?rs)"
    by (fastforce simp: ids_ok_def feats_wf_def)+
  with checkpoint_agrees [OF assms(1,2)] assms show ?thesis by (simp add: stores_agree_def)
qed

lemma checkpoint_loaded:
  assumes "eng_prims_ok P" and "length nonce = nonce_len"
    and "write_checkpoint_file P nonce d e schemas records receipts jobs enc = Inr d1"
    and "bm_get (dk_checkpoints d1) e = Some body" and "slice 8 40 body \<noteq> zero32"
    and "dk_checkpoints dd = dk_checkpoints d1" and "0 < e"
    and "mf_checkpoint_epoch m = e" and "mf_latest_epoch m = e" and "mf_schemas m = schemas"
  shows "load_checkpoint P dir dd enc m = Inr (m, from_checkpoint_records records, receipts, jobs)"
proof -
  obtain payload where d1: "d1 = d\<lparr>dk_checkpoints := bm_insert e (checkpoint_magic_v3 @ sha256 P payload @ payload) (dk_checkpoints d)\<rparr>"
    and read: "sha256 P payload \<noteq> zero32 \<Longrightarrow> dk_checkpoints dd = dk_checkpoints d1 \<Longrightarrow>
      \<exists>cp. read_checkpoint_file P dir dd e enc = Inr cp \<and> cp_epoch cp = e \<and> cp_schemas cp = schemas \<and>
      cp_records cp = records \<and> cp_idempotency_receipts cp = receipts \<and> cp_job_catalog cp = jobs"
    using checkpoint_written [OF assms(1-3), of dd dir] by metis
  have "length (sha256 P payload) = 32"
    using assms(1) by (simp add: eng_prims_ok_def wal_prims_ok_def digest_ok_def)
  then have "slice 8 40 body = sha256 P payload"
    using assms(4) by (auto simp: d1 checkpoint_magic_v3_def slice_def)
  with read assms(5,6) obtain cp where cp: "read_checkpoint_file P dir dd e enc = Inr cp" "cp_epoch cp = e"
    "cp_schemas cp = schemas" "cp_records cp = records" "cp_idempotency_receipts cp = receipts" "cp_job_catalog cp = jobs"
    by metis
  have "(if mf_schemas m = [] then m\<lparr>mf_schemas := cp_schemas cp\<rparr> else m) = m" using cp(3) assms(10) by simp
  with cp assms(7-9) show ?thesis by (simp add: load_checkpoint_def)
qed

lemma commits_after_latest: "\<forall>e \<in> set es. cr_epoch (we_commit e) \<le> E \<Longrightarrow> commits_after E es = []"
  by (auto simp: commits_after_def filter_empty_conv not_less)

text \<open>
  Once the checkpoint file is written, a manifest that names it recovers the state of the handle
  from the file alone.
\<close>

lemma checkpoint_recovers:
  assumes "engine_inv P opts mk (db, d)" and "eng_prims_ok P" and "length nonce = nonce_len"
    and "write_checkpoint_file P nonce d (mf_latest_epoch (td_manifest db)) (mf_schemas (td_manifest db))
      (checkpoint_records (td_store db) (mf_latest_epoch (td_manifest db))) (td_receipts db) (td_jobs db) (td_encryption db) = Inr d1"
    and "bm_get (dk_checkpoints d1) (mf_latest_epoch (td_manifest db)) = Some body" and "slice 8 40 body \<noteq> zero32"
    and "dk_checkpoints dd = dk_checkpoints d1"
    and "mf_checkpoint_epoch m = mf_latest_epoch (td_manifest db)" and "mf_latest_epoch m = mf_latest_epoch (td_manifest db)"
    and "mf_schemas m = mf_schemas (td_manifest db)"
    and "\<forall>e \<in> set es. cr_epoch (we_commit e) \<le> mf_latest_epoch (td_manifest db)"
  shows "\<exists>st2. recovers P (db\<lparr>td_manifest := m, td_wal := w\<rparr>) dd es st2 \<and>
    stores_agree (mf_latest_epoch m) (mf_latest_epoch m) (td_store db) st2"
proof -
  let ?E = "mf_latest_epoch (td_manifest db)"
  from assms(1) obtain es0 st0 where epochs: "\<forall>e \<in> set es0. 0 < cr_epoch (we_commit e) \<and> cr_epoch (we_commit e) \<le> ?E"
    and rec: "recovers P db d es0 st0"
    and agree: "stores_agree (mf_checkpoint_epoch (td_manifest db)) ?E (td_store db) st0" by (rule engine_invE)
  have none: "commits_after (mf_checkpoint_epoch m) es = []"
    using commits_after_latest [OF assms(11)] assms(8) by simp
  show ?thesis
  proof (cases "0 < ?E")
    case True
    let ?st2 = "from_checkpoint_records (checkpoint_records (td_store db) ?E)"
    note ag = stores_agreeD [OF agree]
    from checkpoint_loaded [OF assms(2-7) True assms(8-10), of "td_dir db"] none
    have "recovers P (db\<lparr>td_manifest := m, td_wal := w\<rparr>) dd es ?st2"
      unfolding recovers_def Let_def by (intro exI conjI) (simp_all add: apply_commits_def)
    with from_checkpoint_good [OF ag(1,3,5)] assms(9) show ?thesis by auto
  next
    case False
    then have zero: "?E = 0" by (simp add: word_gt_0)
    with epochs have "es0 = []" by (cases es0) auto
    then have nocs: "commits_after (mf_checkpoint_epoch (td_manifest db)) es0 = []" by (simp add: commits_after_def)
    from rec nocs obtain st1 r0 j0 where
      load: "load_checkpoint P (td_dir db) d (td_encryption db) (td_manifest db) = Inr (td_manifest db, st1, r0, j0)"
      and same: "td_receipts db = r0" "j0 = td_jobs db" "st1 = st0"
      unfolding recovers_def Let_def by (clarsimp simp: apply_commits_def)
    from load have "r0 = [] \<and> j0 = [] \<and> st1 = []"
    proof (cases rule: load_checkpointE)
      case (loaded cp)
      from loaded(1,8) have "0 < ?E" by (rule less_le_trans)
      with False show ?thesis by blast
    qed blast
    with same have empty: "td_receipts db = []" "td_jobs db = []" "st0 = []" by simp_all
    have m0: "mf_checkpoint_epoch m = 0" "mf_latest_epoch m = 0" using assms(8,9) zero by simp_all
    have "recovers P (db\<lparr>td_manifest := m, td_wal := w\<rparr>) dd es []"
      using none empty m0 by (simp add: recovers_def Let_def load_checkpoint_def apply_commits_def)
    moreover have "mf_checkpoint_epoch (td_manifest db) = 0"
      using load zero by (cases rule: load_checkpointE) (simp_all add: word_le_0_iff)
    ultimately show ?thesis using agree empty m0 zero by auto
  qed
qed

text \<open>What two handles show to a reader at the latest epoch.\<close>

definition same_current :: "trace_db \<Rightarrow> trace_db \<Rightarrow> bool" where
  "same_current db db2 \<longleftrightarrow>
     mf_schemas (td_manifest db2) = mf_schemas (td_manifest db) \<and>
     mf_latest_epoch (td_manifest db2) = mf_latest_epoch (td_manifest db) \<and>
     td_receipts db2 = td_receipts db \<and> td_jobs db2 = td_jobs db \<and>
     stores_agree (mf_latest_epoch (td_manifest db)) (mf_latest_epoch (td_manifest db)) (td_store db) (td_store db2)"

lemma stores_agree_later: "stores_agree E0 E st st2 \<Longrightarrow> E0 \<le> E1 \<Longrightarrow> stores_agree E1 E st st2"
  by (auto simp: stores_agree_def agree_from_def)

lemma same_data_current:
  "same_data db db2 \<Longrightarrow> mf_checkpoint_epoch (td_manifest db) \<le> mf_latest_epoch (td_manifest db) \<Longrightarrow> same_current db db2"
  by (auto simp: same_data_def same_current_def intro: stores_agree_later)

lemma engine_inv_epochs:
  assumes "engine_inv P opts mk (db, d)"
  shows "mf_checkpoint_epoch (td_manifest db) \<le> mf_latest_epoch (td_manifest db)"
proof -
  from assms obtain es st2 where "recovers P db d es st2" by (rule engine_invE)
  then obtain st0 r0 j0 where
    "load_checkpoint P (td_dir db) d (td_encryption db) (td_manifest db) = Inr (td_manifest db, st0, r0, j0)"
    by (auto simp: recovers_def Let_def)
  then show ?thesis by (cases rule: load_checkpointE) auto
qed

text \<open>The manifest that a checkpoint writes, without its checksum.\<close>

definition checkpointed :: "trace_db \<Rightarrow> manifest" where
  "checkpointed db = (td_manifest db)\<lparr>mf_checkpoint_epoch := mf_latest_epoch (td_manifest db),
     mf_manifest_generation := mf_manifest_generation (td_manifest db) + 1,
     mf_parent_checksum := mf_manifest_checksum (td_manifest db)\<rparr>"

lemma empty_log_opens:
  "\<exists>w. wal_open P enc [] = Inr (w, []) \<and> wal_inv P w [] [] \<and> wal_encryption w = enc"
  by (rule wal_open_clean) (simp_all add: scan_file_def last_checksum_def)

lemma db_checkpointE:
  assumes "engine_inv P opts mk (db, d)" and "eng_prims_ok P" and "db_checkpoint P nonce (db, d) = (res, s')"
  obtains (failed) err where "res = Inl err" and "s' = (db, d)"
    and "write_checkpoint_file P nonce d (mf_latest_epoch (td_manifest db)) (mf_schemas (td_manifest db))
      (checkpoint_records (td_store db) (mf_latest_epoch (td_manifest db))) (td_receipts db) (td_jobs db) (td_encryption db) = Inl err"
  | (success) d1 d2 m' w where "write_checkpoint_file P nonce d (mf_latest_epoch (td_manifest db)) (mf_schemas (td_manifest db))
      (checkpoint_records (td_store db) (mf_latest_epoch (td_manifest db))) (td_receipts db) (td_jobs db) (td_encryption db) = Inr d1"
    and "write_manifest P d1 (checkpointed db) = Inr (d2, m')" and "wal_inv (log_of_prims P) w [] []"
    and "wal_encryption w = td_encryption db" and "res = Inr (mf_latest_epoch (td_manifest db))"
    and "s' = (db\<lparr>td_wal := w, td_manifest := m'\<rparr>, d2\<lparr>dk_wal := []\<rparr>)"
proof (cases "write_checkpoint_file P nonce d (mf_latest_epoch (td_manifest db)) (mf_schemas (td_manifest db))
      (checkpoint_records (td_store db) (mf_latest_epoch (td_manifest db))) (td_receipts db) (td_jobs db) (td_encryption db)")
  case (Inl err)
  with assms(3) show thesis by (intro failed [OF _ _ Inl]) (simp_all add: db_checkpoint_def ebind_eupdates Let_def)
next
  case (Inr d1)
  have "dk_manifest d1 = dk_manifest d"
    using Inr by (auto simp: write_checkpoint_file_def rbind_eq_Inr Let_def)
  with assms(1) have inner: "read_manifest_inner P (dk_manifest d1) = Inr (td_manifest db)" by (auto elim: engine_invE)
  then have read: "read_manifest P d1 = Inr (td_manifest db)" by (simp add: read_manifest_def)
  from write_manifest_total [OF _ inner] assms(2) obtain d2 m' where
    wm: "write_manifest P d1 (checkpointed db) = Inr (d2, m')" by (force simp: eng_prims_ok_def)
  obtain w where w: "wal_open (log_of_prims P) (td_encryption db) [] = Inr (w, [])" "wal_inv (log_of_prims P) w [] []"
    "wal_encryption w = td_encryption db" using empty_log_opens by blast
  show thesis
  proof (rule success [OF Inr wm w(2,3)])
    show "res = Inr (mf_latest_epoch (td_manifest db))" "s' = (db\<lparr>td_wal := w, td_manifest := m'\<rparr>, d2\<lparr>dk_wal := []\<rparr>)"
      using assms(3) Inr read wm [unfolded checkpointed_def] w(1)
      by (simp_all add: db_checkpoint_def ebind_eupdates Let_def truncate_active_wal_def)
  qed
qed

text \<open>
  What a crash can leave of a checkpoint that takes the directory from \<open>d\<close> to \<open>d'\<close>: nothing of it,
  the checkpoint file, also the backup of the manifest, also the new manifest, also the empty log.
\<close>

inductive checkpoint_crash :: "disk \<Rightarrow> disk \<Rightarrow> disk \<Rightarrow> bool" for d d' where
  not_started: "checkpoint_crash d d' d"
| after_file: "checkpoint_crash d d' (d\<lparr>dk_checkpoints := dk_checkpoints d'\<rparr>)"
| after_backup: "checkpoint_crash d d' (d\<lparr>dk_checkpoints := dk_checkpoints d', dk_manifest_bak := dk_manifest_bak d'\<rparr>)"
| before_cut: "checkpoint_crash d d' (d'\<lparr>dk_wal := dk_wal d\<rparr>)"
| finished: "checkpoint_crash d d' d'"

lemma load_checkpoint_get_cong:
  assumes "bm_get (dk_checkpoints d') (mf_checkpoint_epoch m) = bm_get (dk_checkpoints d) (mf_checkpoint_epoch m)"
    and "dk_json_checkpoints d' = dk_json_checkpoints d"
  shows "load_checkpoint P dir d' enc m = load_checkpoint P dir d enc m"
proof -
  have "read_checkpoint_file P dir d' (mf_checkpoint_epoch m) enc = read_checkpoint_file P dir d (mf_checkpoint_epoch m) enc"
    by (cases "bm_get (dk_checkpoints d) (mf_checkpoint_epoch m)") (simp_all add: read_checkpoint_file_def assms)
  then show ?thesis by (simp add: load_checkpoint_def)
qed

text \<open>The checkpoint file of the handle, written into its directory.\<close>

definition checkpoint_file_of :: "eng_prims \<Rightarrow> bytes \<Rightarrow> trace_db \<Rightarrow> disk \<Rightarrow> disk result" where
  "checkpoint_file_of P nonce db d =
     write_checkpoint_file P nonce d (mf_latest_epoch (td_manifest db)) (mf_schemas (td_manifest db))
       (checkpoint_records (td_store db) (mf_latest_epoch (td_manifest db))) (td_receipts db) (td_jobs db) (td_encryption db)"

lemma checkpoint_file_frame:
  assumes "checkpoint_file_of P nonce db d = Inr d1"
  shows "d1 = d\<lparr>dk_checkpoints := dk_checkpoints d1\<rparr>"
    and "e \<noteq> mf_latest_epoch (td_manifest db) \<Longrightarrow> bm_get (dk_checkpoints d1) e = bm_get (dk_checkpoints d) e"
    and "\<exists>body. bm_get (dk_checkpoints d1) (mf_latest_epoch (td_manifest db)) = Some body"
  using assms by (auto simp: checkpoint_file_of_def write_checkpoint_file_def rbind_eq_Inr Let_def)

text \<open>The file alone changes nothing for a manifest that does not name it.\<close>

lemma unnamed_checkpoint_inv:
  assumes "engine_inv P opts mk (db, d)" and "eng_prims_ok P" and "length nonce = nonce_len"
    and "checkpoint_file_of P nonce db d = Inr d1"
    and "bm_get (dk_checkpoints d1) (mf_latest_epoch (td_manifest db)) = Some body" and "slice 8 40 body \<noteq> zero32"
  shows "engine_inv P opts mk (db, d\<lparr>dk_checkpoints := dk_checkpoints d1, dk_manifest_bak := bak\<rparr>)"
proof -
  let ?m = "td_manifest db" and ?d = "d\<lparr>dk_checkpoints := dk_checkpoints d1, dk_manifest_bak := bak\<rparr>"
  from assms(1) obtain es st2 where base: "read_manifest_inner P (dk_manifest d) = Inr ?m" "mf_modules ?m \<noteq> []"
      "open_encryption P opts mk ?m = Inr (td_encryption db)" "mk \<noteq> None \<longrightarrow> td_encryption db \<noteq> None"
      "wal_encryption (td_wal db) = td_encryption db" "db_ok db" "wal_inv (log_of_prims P) (td_wal db) (dk_wal d) es"
    and epochs: "\<forall>e \<in> set es. 0 < cr_epoch (we_commit e) \<and> cr_epoch (we_commit e) \<le> mf_latest_epoch ?m"
    and rec: "recovers P db d es st2"
    and agree: "stores_agree (mf_checkpoint_epoch ?m) (mf_latest_epoch ?m) (td_store db) st2" by (rule engine_invE)
  have "\<exists>st2. recovers P db ?d es st2 \<and> stores_agree (mf_checkpoint_epoch ?m) (mf_latest_epoch ?m) (td_store db) st2"
  proof (cases "mf_checkpoint_epoch ?m = mf_latest_epoch ?m")
    case True
    from checkpoint_recovers [OF assms(1-3) assms(4) [unfolded checkpoint_file_of_def] assms(5,6), of ?d ?m es "td_wal db"]
      epochs True show ?thesis by simp
  next
    case False
    have "load_checkpoint P (td_dir db) ?d (td_encryption db) ?m = load_checkpoint P (td_dir db) d (td_encryption db) ?m"
      using checkpoint_file_frame(2) [OF assms(4) False] by (intro load_checkpoint_get_cong) simp_all
    then have "recovers P db ?d es st2" using rec by (simp add: recovers_def)
    with agree show ?thesis by blast
  qed
  then obtain st3 where rec3: "recovers P db ?d es st3"
    and agree3: "stores_agree (mf_checkpoint_epoch ?m) (mf_latest_epoch ?m) (td_store db) st3" by blast
  show ?thesis
    by (rule engine_invI [OF _ base(2-6) _ epochs rec3 agree3]) (use base in simp_all)
qed

text \<open>Once the manifest names the file, the log may hold the old commits or none.\<close>

lemma named_checkpoint_inv:
  assumes "engine_inv P opts mk (db, d)" and "eng_prims_ok P" and "length nonce = nonce_len"
    and "checkpoint_file_of P nonce db d = Inr d1"
    and "bm_get (dk_checkpoints d1) (mf_latest_epoch (td_manifest db)) = Some body" and "slice 8 40 body \<noteq> zero32"
    and "write_manifest P d1 (checkpointed db) = Inr (d2, m')" and "mf_manifest_checksum m' \<noteq> zero32"
    and "wal_inv (log_of_prims P) w log_file es" and "wal_encryption w = td_encryption db"
    and "\<forall>e \<in> set es. 0 < cr_epoch (we_commit e) \<and> cr_epoch (we_commit e) \<le> mf_latest_epoch (td_manifest db)"
  shows "engine_inv P opts mk (db\<lparr>td_manifest := m', td_wal := w\<rparr>, d2\<lparr>dk_wal := log_file\<rparr>)"
proof -
  let ?m = "td_manifest db" and ?db = "db\<lparr>td_manifest := m', td_wal := w\<rparr>" and ?d = "d2\<lparr>dk_wal := log_file\<rparr>"
  from write_manifestE [OF assms(7)] obtain cs content bak where m': "m' = (checkpointed db)\<lparr>mf_manifest_checksum := cs\<rparr>"
    and d2: "d2 = d1\<lparr>dk_manifest_bak := bak, dk_manifest := Some content\<rparr>" by metis
  have m: "mf_checkpoint_epoch m' = mf_latest_epoch ?m" "mf_latest_epoch m' = mf_latest_epoch ?m" "mf_schemas m' = mf_schemas ?m"
    "mf_modules m' = mf_modules ?m" "mf_encryption m' = mf_encryption ?m" "mf_database_id m' = mf_database_id ?m"
    by (simp_all add: m' checkpointed_def)
  have old: "\<forall>e \<in> set es. cr_epoch (we_commit e) \<le> mf_latest_epoch ?m" using assms(11) by blast
  have cps: "dk_checkpoints ?d = dk_checkpoints d1" by (simp add: d2)
  from checkpoint_recovers [OF assms(1-3) assms(4) [unfolded checkpoint_file_of_def] assms(5,6) cps m(1-3) old, of w]
  obtain st2 where rec: "recovers P ?db ?d es st2"
    and agree: "stores_agree (mf_latest_epoch m') (mf_latest_epoch m') (td_store db) st2" by blast
  from assms(1) have base: "mf_modules ?m \<noteq> []" "open_encryption P opts mk ?m = Inr (td_encryption db)"
      "mk \<noteq> None \<longrightarrow> td_encryption db \<noteq> None" "db_ok db" by (auto elim: engine_invE)
  show ?thesis
  proof (rule engine_invI [OF _ _ _ _ _ _ _ _ rec])
    show "read_manifest_inner P (dk_manifest ?d) = Inr (td_manifest ?db)"
      using write_manifest_read [OF _ assms(7,8)] assms(2) by (simp add: eng_prims_ok_def)
    show "open_encryption P opts mk (td_manifest ?db) = Inr (td_encryption ?db)"
      using base(2) open_encryption_cong [OF m(5,6)] by simp
    show "db_ok ?db" using base(4) by (simp add: db_ok_def m(3))
  qed (use base assms(9-11) agree m in simp_all)
qed

text \<open>A checkpoint that succeeded, taken apart.\<close>

lemma checkpoint_success:
  assumes "engine_inv P opts mk (db, d)" and "eng_prims_ok P" and "length nonce = nonce_len"
    and "db_checkpoint P nonce (db, d) = (Inr e, (db', d'))"
    and "bm_get (dk_checkpoints d') e = Some body" and "slice 8 40 body \<noteq> zero32"
    and "mf_manifest_checksum (td_manifest db') \<noteq> zero32"
  obtains d2 m' w where "db' = db\<lparr>td_manifest := m', td_wal := w\<rparr>" and "d' = d2\<lparr>dk_wal := []\<rparr>"
    and "wal_inv (log_of_prims P) w [] []" and "wal_encryption w = td_encryption db"
    and "\<And>bak. engine_inv P opts mk (db, d\<lparr>dk_checkpoints := dk_checkpoints d', dk_manifest_bak := bak\<rparr>)"
    and "\<And>v log_file es. wal_inv (log_of_prims P) v log_file es \<Longrightarrow> wal_encryption v = td_encryption db \<Longrightarrow>
      \<forall>e \<in> set es. 0 < cr_epoch (we_commit e) \<and> cr_epoch (we_commit e) \<le> mf_latest_epoch (td_manifest db) \<Longrightarrow>
      engine_inv P opts mk (db\<lparr>td_manifest := m', td_wal := v\<rparr>, d2\<lparr>dk_wal := log_file\<rparr>)"
    and "\<And>v. same_current db (db\<lparr>td_manifest := m', td_wal := v\<rparr>)"
  using assms(1,2,4)
proof (cases rule: db_checkpointE)
  case (success d1 d2 m' w)
  have e: "e = mf_latest_epoch (td_manifest db)" and db': "db' = db\<lparr>td_manifest := m', td_wal := w\<rparr>"
    and d': "d' = d2\<lparr>dk_wal := []\<rparr>" using success(5,6) by simp_all
  from write_manifestE [OF success(2)] obtain cs content bak where m': "m' = (checkpointed db)\<lparr>mf_manifest_checksum := cs\<rparr>"
    and d2: "d2 = d1\<lparr>dk_manifest_bak := bak, dk_manifest := Some content\<rparr>" by metis
  have cp: "checkpoint_file_of P nonce db d = Inr d1" using success(1) by (simp add: checkpoint_file_of_def)
  have body: "bm_get (dk_checkpoints d1) (mf_latest_epoch (td_manifest db)) = Some body" using assms(5) by (simp add: e d' d2)
  have "mf_manifest_checksum m' \<noteq> zero32" using assms(7) by (simp add: db')
  note named = named_checkpoint_inv [OF assms(1-3) cp body assms(6) success(2) this]
  from assms(1) obtain st2 where
    "stores_agree (mf_checkpoint_epoch (td_manifest db)) (mf_latest_epoch (td_manifest db)) (td_store db) st2"
    by (rule engine_invE)
  note ag = stores_agreeD [OF this]
  have same: "same_current db (db\<lparr>td_manifest := m', td_wal := v\<rparr>)" for v
    using stores_agree_refl [OF ag(1,3,5)] by (simp add: same_current_def m' checkpointed_def)
  have cps: "dk_checkpoints d' = dk_checkpoints d1" by (simp add: d' d2)
  note unnamed = unnamed_checkpoint_inv [OF assms(1-3) cp body assms(6), folded cps]
  show thesis by (rule that [OF db' d' success(3,4) unnamed named same])
qed simp

text \<open>
  A checkpoint keeps the invariant, and so does every directory that a crash can leave of it, each
  with a handle that holds the same data.
\<close>

lemma checkpoint_keeps_inv:
  assumes "engine_inv P opts mk (db, d)" and "eng_prims_ok P" and "length nonce = nonce_len"
    and "db_checkpoint P nonce (db, d) = (Inr e, (db', d'))"
    and "bm_get (dk_checkpoints d') e = Some body" and "slice 8 40 body \<noteq> zero32"
    and "mf_manifest_checksum (td_manifest db') \<noteq> zero32"
  shows "engine_inv P opts mk (db', d') \<and> td_dir db' = td_dir db \<and> same_current db db' \<and> dk_wal d' = []"
  by (rule checkpoint_success [OF assms]) simp

lemma checkpoint_crash_inv:
  assumes "engine_inv P opts mk (db, d)" and "eng_prims_ok P" and "length nonce = nonce_len"
    and "db_checkpoint P nonce (db, d) = (Inr e, (db', d'))"
    and "bm_get (dk_checkpoints d') e = Some body" and "slice 8 40 body \<noteq> zero32"
    and "mf_manifest_checksum (td_manifest db') \<noteq> zero32" and "checkpoint_crash d d' dc"
  shows "\<exists>dbc. engine_inv P opts mk (dbc, dc) \<and> td_dir dbc = td_dir db \<and> same_current db dbc"
proof (rule checkpoint_success [OF assms(1-7)])
  fix d2 m' w assume db': "db' = db\<lparr>td_manifest := m', td_wal := w\<rparr>" and d': "d' = d2\<lparr>dk_wal := []\<rparr>"
    and w: "wal_inv (log_of_prims P) w [] []" "wal_encryption w = td_encryption db"
    and unnamed: "\<And>bak. engine_inv P opts mk (db, d\<lparr>dk_checkpoints := dk_checkpoints d', dk_manifest_bak := bak\<rparr>)"
    and named: "\<And>v log_file es. wal_inv (log_of_prims P) v log_file es \<Longrightarrow> wal_encryption v = td_encryption db \<Longrightarrow>
      \<forall>e \<in> set es. 0 < cr_epoch (we_commit e) \<and> cr_epoch (we_commit e) \<le> mf_latest_epoch (td_manifest db) \<Longrightarrow>
      engine_inv P opts mk (db\<lparr>td_manifest := m', td_wal := v\<rparr>, d2\<lparr>dk_wal := log_file\<rparr>)"
    and same: "\<And>v. same_current db (db\<lparr>td_manifest := m', td_wal := v\<rparr>)"
  from assms(1) obtain es st2 where wal: "wal_inv (log_of_prims P) (td_wal db) (dk_wal d) es"
      "wal_encryption (td_wal db) = td_encryption db"
      "\<forall>e \<in> set es. 0 < cr_epoch (we_commit e) \<and> cr_epoch (we_commit e) \<le> mf_latest_epoch (td_manifest db)"
    and agree: "stores_agree (mf_checkpoint_epoch (td_manifest db)) (mf_latest_epoch (td_manifest db)) (td_store db) st2"
    by (rule engine_invE)
  have here: "same_current db db"
    using stores_agreeD [OF agree] by (auto simp: same_current_def intro: stores_agree_refl)
  from assms(8) show ?thesis
  proof cases
    case not_started
    with assms(1) here show ?thesis by blast
  next
    case after_file
    with unnamed [of "dk_manifest_bak d"] here show ?thesis by (intro exI [of _ db]) simp
  next
    case after_backup
    with unnamed here show ?thesis by blast
  next
    case before_cut
    with named [OF wal] same [of "td_wal db"] show ?thesis
      by (intro exI [of _ "db\<lparr>td_manifest := m', td_wal := td_wal db\<rparr>"]) (simp add: d')
  next
    case finished
    with named [OF w] same show ?thesis by (intro exI [of _ db']) (simp add: db' d')
  qed
qed

end
