(* ===== verification/Commands.thy ===== *)
theory Commands
  imports Checkpointing
begin

text \<open>
  The write commands of the engine meet the contract of the write path: replaying the commit that
  a command logs rebuilds what the command installs in memory. \<open>command\<close> collects the commands of
  \<open>TraceDb\<close> that go through \<open>commit_planned\<close>; the interpretation \<open>cmds\<close> of \<open>logged_commands\<close> gives
  the invariant, the epoch law and crash atomicity for each of them.
\<close>

section \<open>Invalidations that a write already carries\<close>

abbreviation invalidation_key :: "feature_invalidation \<Rightarrow> string" where
  "invalidation_key i \<equiv> record_key (fi_table i) (fi_tenant_id i) (fi_record_id i)"

definition carries :: "epoch \<Rightarrow> store \<Rightarrow> feature_invalidation \<Rightarrow> bool" where
  "carries e st i \<longleftrightarrow> trim (fi_tenant_id i) \<noteq> [] \<and>
     (\<exists>vs f. bm_get st (invalidation_key i) = Some vs \<and> is_live (last vs) \<and>
        bm_get (sr_features (last vs)) (fi_feature i) = Some f \<and> fs_status f = fi_status i \<and> fs_valid_for_epoch f = e)"

lemma carried_invalidations_noop:
  assumes "store_ok E st" and "feats_wf st" and "\<forall>i \<in> set is. carries (cr_epoch c) st i"
  shows "rfold (replay_invalidation c) st is = Inr st"
  using assms(3)
proof (induction "is")
  case (Cons i "is")
  then obtain vs f where "bm_get st (invalidation_key i) = Some vs" "is_live (last vs)"
    "bm_get (sr_features (last vs)) (fi_feature i) = Some f" "fs_status f = fi_status i" "fs_valid_for_epoch f = cr_epoch c"
    and "trim (fi_tenant_id i) \<noteq> []" by (auto simp: carries_def)
  with invalidation_noop [OF assms(1,2)] Cons show ?case by (simp add: replay_invalidation_def)
qed simp

lemma feature_next_dirty:
  "\<not> bm_contains (ri_fields m) (vc_name vec) \<Longrightarrow> list_ex (bm_contains (ri_fields m)) (vc_source_columns vec) \<Longrightarrow>
    fs_status (feature_next P m merged e vec old) = Dirty \<and> fs_valid_for_epoch (feature_next P m merged e vec old) = e"
  by (simp add: feature_next_def Let_def feature_dirty_from_def feature_missing_def split: option.splits)

text \<open>The write of one record and the input it was made from.\<close>

fun input_write :: "store_write \<Rightarrow> (table_schema \<times> record_input) option" where
  "input_write (Replace s m) = Some (s, m)"
| "input_write (Mutate s m) = Some (s, m)"
| "input_write (Remove s d) = None"

lemma write_key_input: "input_write w = Some (s, m) \<Longrightarrow> write_key w = record_key (ri_table m) (ri_tenant_id m) (ri_id m)"
  by (cases w) auto

lemma write_record_built:
  assumes "write_record P w e prev = Inr r" and "input_write w = Some (s, m)"
  shows "\<exists>merged prev'. r = new_record m e merged (build_features P s m merged prev' e)"
  using assms
  by (cases w) (auto simp: rbind_eq_Inr build_replacement_record_def Let_def)

lemma write_carries:
  assumes "store_ok E st" and "apply_write P st w e = Inr st'" and "input_write w = Some (s, m)"
    and "distinct (map vc_name (ts_vector_columns s))" and "trim (ri_tenant_id m) \<noteq> []"
    and "i \<in> set (feature_invalidations_for_mutation s m)"
  shows "carries e st' i"
proof -
  from assms(2) [unfolded write_factors [OF assms(1)]] obtain r prev where r: "write_record P w e prev = Inr r"
    and st': "st' = bm_insert (write_key w) (install_version (versions_or_default st (write_key w)) r e) st"
    by (auto simp: rbind_eq_Inr)
  from write_record_built [OF r assms(3)] obtain merged prev' where
    rec: "r = new_record m e merged (build_features P s m merged prev' e)" by blast
  from assms(6) obtain vec where vec: "vec \<in> set (ts_vector_columns s)" "\<not> bm_contains (ri_fields m) (vc_name vec)"
      "list_ex (bm_contains (ri_fields m)) (vc_source_columns vec)"
    and i: "i = \<lparr>fi_table = ri_table m, fi_tenant_id = ri_tenant_id m, fi_record_id = ri_id m,
      fi_feature = vc_name vec, fi_status = Dirty\<rparr>"
    by (auto simp: feature_invalidations_for_mutation_def)
  have "is_live r" by (simp add: rec is_live_def new_record_def)
  moreover have "\<exists>f. bm_get (sr_features r) (vc_name vec) = Some f \<and> fs_status f = Dirty \<and> fs_valid_for_epoch f = e"
    by (simp add: rec new_record_def build_features_def foldl_feature_step [OF assms(4) vec(1)]
      feature_next_dirty [OF vec(2,3)])
  ultimately show ?thesis
    using assms(5) by (simp add: carries_def i st' write_key_input [OF assms(3)] install_version_def)
qed

lemma write_keeps_carries:
  assumes "store_ok E st" and "apply_write P st w e' = Inr st'" and "carries e st i" and "write_key w \<noteq> invalidation_key i"
  shows "carries e st' i"
proof -
  from apply_writeE [OF assms(1,2)] obtain r where
    "st' = bm_insert (write_key w) (install_version (versions_or_default st (write_key w)) r e') st" .
  then show ?thesis using assms(3,4) by (auto simp: carries_def)
qed

section \<open>Writing several records in one commit\<close>

text \<open>
  Planned into one delta, replayed one after the other over an agreeing store: the outcomes agree
  and every invalidation of the batch is already carried.
\<close>

lemma stores_agree_plan_write:
  assumes "stores_agree E0 E (apply_delta st d) st2" and "E \<le> e" and "bm_wf st" and "bm_wf d"
    and "ids_nul_free (write_ids w)" and "plan_write P st d w e = Inr d'"
  shows "\<exists>st2'. apply_write P st2 w e = Inr st2' \<and> stores_agree E0 e (apply_delta st d') st2'"
proof -
  have "apply_write P (apply_delta st d) w e = Inr (apply_delta st d')"
    using plan_write_step(1) [OF assms(3,4), of P w e] assms(6) by simp
  from stores_agree_write [OF assms(1,2,5) this] show ?thesis .
qed

definition record_fits :: "record_input \<Rightarrow> bool" where
  "record_fits m \<longleftrightarrow> nul_free (ri_table m) \<and> nul_free (ri_tenant_id m) \<and> trim (ri_tenant_id m) \<noteq> []"

abbreviation input_key :: "record_input \<Rightarrow> string" where
  "input_key m \<equiv> record_key (ri_table m) (ri_tenant_id m) (ri_id m)"

lemma invalidation_keys: "i \<in> set (feature_invalidations_for_mutation s m) \<Longrightarrow> invalidation_key i = input_key m"
  by (auto simp: feature_invalidations_for_mutation_def)

lemma put_batch_stepE:
  assumes "put_batch_step P db (d, is, evs) m = Inr (d', is', evs')"
  obtains s where "find_schema (mf_schemas (td_manifest db)) (ri_table m) = Some s"
    and "plan_replacement_into P (td_store db) d s m (next_epoch db) = Inr d'"
    and "is' = is @ feature_invalidations_for_mutation s m"
  using assms
  by (auto simp: put_batch_step_def rbind_eq_Inr table_for_def ok_or_eq_Inr manifest_table_def intro: that)

lemma put_batch_replays:
  assumes "db_ok db" and "rfold (put_batch_step P db) (d, is, evs) ms = Inr (d', is', evs')"
    and "bm_wf (td_store db)" and "bm_wf d"
    and "stores_agree E0 (next_epoch db) (apply_delta (td_store db) d) st2"
    and "\<forall>m \<in> set ms. record_fits m" and "distinct (map input_key ms)"
    and "\<forall>i \<in> set is. carries (next_epoch db) st2 i \<and> invalidation_key i \<notin> input_key ` set ms"
  shows "\<exists>st2'. rfold (replay_replacement P (mf_schemas (td_manifest db)) (next_epoch db)) st2 ms = Inr st2' \<and>
    stores_agree E0 (next_epoch db) (apply_delta (td_store db) d') st2' \<and> (\<forall>i \<in> set is'. carries (next_epoch db) st2' i)"
  using assms
proof (induction ms arbitrary: d "is" evs st2)
  case Nil
  then show ?case by auto
next
  case (Cons m ms)
  let ?e = "next_epoch db"
  from Cons.prems(2) obtain d1 is1 evs1 where step: "put_batch_step P db (d, is, evs) m = Inr (d1, is1, evs1)"
    and rest: "rfold (put_batch_step P db) (d1, is1, evs1) ms = Inr (d', is', evs')"
    by (auto simp: rbind_eq_Inr)
  from step obtain s where s: "find_schema (mf_schemas (td_manifest db)) (ri_table m) = Some s"
    and plan: "plan_replacement_into P (td_store db) d s m ?e = Inr d1"
    and is1: "is1 = is @ feature_invalidations_for_mutation s m" by (rule put_batch_stepE)
  let ?w = "Replace s m"
  have fits: "ids_nul_free (write_ids ?w)" "trim (ri_tenant_id m) \<noteq> []" using Cons.prems(6) by (simp_all add: record_fits_def)
  have planw: "plan_write P (td_store db) d ?w ?e = Inr d1" using plan by simp
  from stores_agree_plan_write [OF Cons.prems(5) order_refl Cons.prems(3,4) fits(1) planw] obtain st3 where
    st3: "apply_write P st2 ?w ?e = Inr st3" and agree: "stores_agree E0 ?e (apply_delta (td_store db) d1) st3" by blast
  have names: "distinct (map vc_name (ts_vector_columns s))"
    using Cons.prems(1) find_schema_SomeD [OF s] by (auto simp: db_ok_def)
  have ok2: "store_ok ?e st2" by (rule stores_agreeD(2) [OF Cons.prems(5)])
  have "carries ?e st3 i \<and> invalidation_key i \<notin> input_key ` set ms" if "i \<in> set is1" for i
  proof (cases "i \<in> set is")
    case True
    with Cons.prems(8) write_keeps_carries [OF ok2 st3] show ?thesis by (auto dest!: bspec)
  next
    case False
    with that is1 have i: "i \<in> set (feature_invalidations_for_mutation s m)" by simp
    from write_carries [OF ok2 st3 _ names fits(2) i] invalidation_keys [OF i] Cons.prems(7) show ?thesis by simp
  qed
  with Cons.IH [OF Cons.prems(1) rest Cons.prems(3) plan_write_step(2) [OF Cons.prems(3,4) planw] agree] Cons.prems(6,7)
  obtain st4 where "rfold (replay_replacement P (mf_schemas (td_manifest db)) ?e) st3 ms = Inr st4"
    "stores_agree E0 ?e (apply_delta (td_store db) d') st4" "\<forall>i \<in> set is'. carries ?e st4 i" by auto
  moreover have "replay_replacement P (mf_schemas (td_manifest db)) ?e st2 m = Inr st3"
    using st3 s by (simp add: replay_replacement_def schema_for_def)
  ultimately show ?case by auto
qed

section \<open>The contract of each command\<close>

lemma record_commit_fields [simp]:
  "cr_epoch (commit_for_db db) = next_epoch db" "cr_parent_epoch (commit_for_db db) = sat_sub64 (next_epoch db) 1"
  "cr_commit_marker (commit_for_db db) = ''COMMITTED''" "cr_schema_changes (commit_for_db db) = []"
  "cr_replacements (commit_for_db db) = []" "cr_mutations (commit_for_db db) = []" "cr_deletions (commit_for_db db) = []"
  "cr_feature_invalidations (commit_for_db db) = []" "cr_idempotency_receipts (commit_for_db db) = []"
  "cr_job_events (commit_for_db db) = []"
  by (simp_all add: commit_for_db_def commit_for_database_def commit_empty_def)

lemma logs_dataI:
  assumes "cr_epoch c = next_epoch db" and "cr_parent_epoch c = sat_sub64 (next_epoch db) 1"
    and "cr_commit_marker c = ''COMMITTED''" and "cr_schema_changes c = []"
    and "td_dir db' = td_dir db" "td_wal db' = td_wal db" "td_encryption db' = td_encryption db"
    and "td_manifest db' = td_manifest db" and "db_ok db'"
    and "td_receipts db' = td_receipts db @ cr_idempotency_receipts c"
    and "rfold job_replay (td_jobs db) (cr_job_events c) = Inr (td_jobs db')"
    and "\<And>E0 st2. stores_agree E0 (mf_latest_epoch (td_manifest db)) (td_store db) st2 \<Longrightarrow>
        \<exists>st2'. apply_commit P (mf_schemas (td_manifest db)) st2 c = Inr st2' \<and>
           stores_agree E0 (next_epoch db) (td_store db') st2'"
  shows "logs P db c db'"
  using assms unfolding logs_def by simp

lemma le_next_epoch: "e \<noteq> - 1 \<Longrightarrow> e \<le> epoch_next e"
  using word_next_gt [of e] by (simp add: epoch_next_def)

text \<open>One record is put or mutated.\<close>

lemma record_write_replays:
  assumes "db_ok db" and "mf_latest_epoch (td_manifest db) \<noteq> - 1" and "input_write w = Some (s, m)" and "record_fits m"
    and "find_schema (mf_schemas (td_manifest db)) (ri_table m) = Some s"
    and "plan_write P (td_store db) [] w (next_epoch db) = Inr d"
    and "stores_agree E0 (mf_latest_epoch (td_manifest db)) (td_store db) st2"
  shows "\<exists>st2'. apply_write P st2 w (next_epoch db) = Inr st2' \<and>
    stores_agree E0 (next_epoch db) (apply_delta (td_store db) d) st2' \<and>
    (\<forall>i \<in> set (feature_invalidations_for_mutation s m). carries (next_epoch db) st2' i)"
proof -
  note ag = stores_agreeD [OF assms(7)]
  have "ids_nul_free (write_ids w)" using assms(3,4) by (cases w) (auto simp: record_fits_def)
  with stores_agree_plan_write [of E0 _ "td_store db" "[]" st2 "next_epoch db" w P d] assms(6,7) ag(7) le_next_epoch [OF assms(2)]
  obtain st2' where st2': "apply_write P st2 w (next_epoch db) = Inr st2'"
    "stores_agree E0 (next_epoch db) (apply_delta (td_store db) d) st2'"
    by (auto simp: apply_delta_def bm_extend_def)
  have "distinct (map vc_name (ts_vector_columns s))"
    using assms(1) find_schema_SomeD [OF assms(5)] by (auto simp: db_ok_def)
  with write_carries [OF ag(2) st2'(1) assms(3)] assms(4) st2' show ?thesis by (auto simp: record_fits_def)
qed

text \<open>A commit of the engine that changes no schema and no job.\<close>

definition data_commit :: "trace_db \<Rightarrow> commit_record \<Rightarrow> bool" where
  "data_commit db c \<longleftrightarrow> cr_epoch c = next_epoch db \<and> cr_parent_epoch c = sat_sub64 (next_epoch db) 1 \<and>
     cr_commit_marker c = ''COMMITTED'' \<and> cr_schema_changes c = [] \<and> cr_job_events c = []"

lemma logs_deltaI:
  assumes "db_ok db" and "data_commit db c"
    and "\<And>E0 st2. stores_agree E0 (mf_latest_epoch (td_manifest db)) (td_store db) st2 \<Longrightarrow>
        \<exists>st2'. apply_commit P (mf_schemas (td_manifest db)) st2 c = Inr st2' \<and>
           stores_agree E0 (next_epoch db) (apply_delta (td_store db) d) st2'"
  shows "logs P db c (install_delta d c db)"
  by (rule logs_dataI) (use assms in \<open>simp_all add: data_commit_def install_delta_def db_ok_def\<close>)

lemma record_write_logs:
  assumes "db_ok db" and "mf_latest_epoch (td_manifest db) \<noteq> - 1" and "input_write w = Some (s, m)" and "record_fits m"
    and "find_schema (mf_schemas (td_manifest db)) (ri_table m) = Some s"
    and "plan_write P (td_store db) [] w (next_epoch db) = Inr d"
    and "data_commit db c" and "cr_deletions c = []" and "cr_feature_invalidations c = feature_invalidations_for_mutation s m"
    and "w = Replace s m \<and> cr_replacements c = [m] \<and> cr_mutations c = [] \<or>
         w = Mutate s m \<and> cr_replacements c = [] \<and> cr_mutations c = [m]"
  shows "logs P db c (install_delta d c db)"
proof (rule logs_deltaI [OF assms(1,7)])
  fix E0 st2 assume "stores_agree E0 (mf_latest_epoch (td_manifest db)) (td_store db) st2"
  from record_write_replays [OF assms(1-6) this] obtain st2' where
    st2': "apply_write P st2 w (next_epoch db) = Inr st2'"
    and ag: "stores_agree E0 (next_epoch db) (apply_delta (td_store db) d) st2'"
    and carry: "\<forall>i \<in> set (feature_invalidations_for_mutation s m). carries (next_epoch db) st2' i" by blast
  have e: "cr_epoch c = next_epoch db" using assms(7) by (simp add: data_commit_def)
  have "rfold (replay_invalidation c) st2' (feature_invalidations_for_mutation s m) = Inr st2'"
    using carried_invalidations_noop [OF stores_agreeD(2,6) [OF ag]] carry e by simp
  then show "\<exists>st2'. apply_commit P (mf_schemas (td_manifest db)) st2 c = Inr st2' \<and>
      stores_agree E0 (next_epoch db) (apply_delta (td_store db) d) st2'"
    using st2' assms(5,8-10) ag e
    by (auto simp: apply_commit_def replay_mutation_def replay_replacement_def schema_for_def)
qed

lemma mutation_logs:
  assumes "db_ok db" and "mf_latest_epoch (td_manifest db) \<noteq> - 1" and "record_fits m"
    and "mutation_plan P event m receipt db = Inr (c, install)"
  shows "logs P db c (install db)"
proof -
  from assms(4) obtain s d where "find_schema (mf_schemas (td_manifest db)) (ri_table m) = Some s"
    "plan_write P (td_store db) [] (Mutate s m) (next_epoch db) = Inr d" "install = install_delta d c"
    "cr_mutations c = [m]" "cr_replacements c = []" "cr_deletions c = []"
    "cr_feature_invalidations c = feature_invalidations_for_mutation s m" "data_commit db c"
    by (auto simp: mutation_plan_def rbind_eq_Inr table_for_def ok_or_eq_Inr manifest_table_def plan_mutation_def Let_def
      record_commit_for_db_def data_commit_def)
  then show ?thesis using record_write_logs [OF assms(1,2) _ assms(3), of "Mutate s m"] by auto
qed

lemma put_logs:
  assumes "db_ok db" and "mf_latest_epoch (td_manifest db) \<noteq> - 1" and "record_fits m"
    and "put_plan P m receipt db = Inr (c, install)"
  shows "logs P db c (install db)"
proof -
  from assms(4) obtain s d where "find_schema (mf_schemas (td_manifest db)) (ri_table m) = Some s"
    "plan_write P (td_store db) [] (Replace s m) (next_epoch db) = Inr d" "install = install_delta d c"
    "cr_mutations c = []" "cr_replacements c = [m]" "cr_deletions c = []"
    "cr_feature_invalidations c = feature_invalidations_for_mutation s m" "data_commit db c"
    by (auto simp: put_plan_def rbind_eq_Inr table_for_def ok_or_eq_Inr manifest_table_def plan_replacement_def Let_def
      record_commit_for_db_def data_commit_def)
  then show ?thesis using record_write_logs [OF assms(1,2) _ assms(3), of "Replace s m"] by auto
qed

lemma put_batch_logs:
  assumes "db_ok db" and "mf_latest_epoch (td_manifest db) \<noteq> - 1"
    and "\<forall>m \<in> set ms. record_fits m" and "distinct (map input_key ms)"
    and "put_batch_plan P ms receipt db = Inr (c, install)"
  shows "logs P db c (install db)"
proof -
  from assms(5) obtain d "is" evs where plan: "rfold (put_batch_step P db) ([], [], []) ms = Inr (d, is, evs)"
    and c: "cr_replacements c = ms" "cr_mutations c = []" "cr_deletions c = []" "cr_feature_invalidations c = is"
    and dc: "data_commit db c" and inst: "install = install_delta d c"
    by (auto simp: put_batch_plan_def rbind_eq_Inr Let_def record_commit_for_db_def data_commit_def)
  have e: "cr_epoch c = next_epoch db" using dc by (simp add: data_commit_def)
  show ?thesis unfolding inst
  proof (rule logs_deltaI [OF assms(1) dc])
    fix E0 st2 assume ag: "stores_agree E0 (mf_latest_epoch (td_manifest db)) (td_store db) st2"
    from stores_agree_mono [OF ag le_next_epoch [OF assms(2)]]
    have "stores_agree E0 (next_epoch db) (apply_delta (td_store db) []) st2" by (simp add: apply_delta_def bm_extend_def)
    from put_batch_replays [OF assms(1) plan stores_agreeD(7) [OF ag] _ this assms(3,4)] obtain st2' where
      st2': "rfold (replay_replacement P (mf_schemas (td_manifest db)) (next_epoch db)) st2 ms = Inr st2'"
      and ag2: "stores_agree E0 (next_epoch db) (apply_delta (td_store db) d) st2'"
      and carry: "\<forall>i \<in> set is. carries (next_epoch db) st2' i" by auto
    have "rfold (replay_invalidation c) st2' is = Inr st2'"
      using carried_invalidations_noop [OF stores_agreeD(2,6) [OF ag2]] carry e by simp
    with st2' ag2 c e show "\<exists>st2'. apply_commit P (mf_schemas (td_manifest db)) st2 c = Inr st2' \<and>
        stores_agree E0 (next_epoch db) (apply_delta (td_store db) d) st2'"
      by (simp add: apply_commit_def)
  qed
qed

lemma delete_logs:
  assumes "db_ok db" and "mf_latest_epoch (td_manifest db) \<noteq> - 1"
    and "nul_free (rd_table x)" and "nul_free (rd_tenant_id x)" and "delete_plan P x receipt db = Inr (c, install)"
  shows "logs P db c (install db)"
proof -
  from assms(5) obtain s d where s: "find_schema (mf_schemas (td_manifest db)) (rd_table x) = Some s"
    and plan: "plan_write P (td_store db) [] (Remove s x) (next_epoch db) = Inr d" and inst: "install = install_delta d c"
    and c: "cr_mutations c = []" "cr_replacements c = []" "cr_deletions c = [x]" "cr_feature_invalidations c = []"
    and dc: "data_commit db c"
    by (auto simp: delete_plan_def rbind_eq_Inr table_for_def ok_or_eq_Inr manifest_table_def plan_delete_def Let_def
      record_commit_for_db_def data_commit_def)
  show ?thesis unfolding inst
  proof (rule logs_deltaI [OF assms(1) dc])
    fix E0 st2 assume ag: "stores_agree E0 (mf_latest_epoch (td_manifest db)) (td_store db) st2"
    from stores_agree_plan_write [OF _ le_next_epoch [OF assms(2)] stores_agreeD(7) [OF ag] _ _ plan, of E0 st2] ag assms(3,4)
    obtain st2' where "apply_write P st2 (Remove s x) (next_epoch db) = Inr st2'"
      "stores_agree E0 (next_epoch db) (apply_delta (td_store db) d) st2'" by (auto simp: apply_delta_def bm_extend_def)
    with c dc s show "\<exists>st2'. apply_commit P (mf_schemas (td_manifest db)) st2 c = Inr st2' \<and>
        stores_agree E0 (next_epoch db) (apply_delta (td_store db) d) st2'"
      by (simp add: apply_commit_def data_commit_def replay_deletion_def schema_for_def)
  qed
qed

lemma plan_feature_invalidation_applies:
  assumes "bm_wf st" and "plan_feature_invalidation st i e = Inr d"
  shows "\<exists>f. apply_feature_invalidation st i e = Inr (apply_delta st d, f)"
proof -
  let ?k = "invalidation_key i"
  from assms(2) obtain f vs' where "versions_or_default st ?k \<noteq> []"
    and "invalidate_versions i e (versions_or_default st ?k) = Inr (f, vs')" and d: "d = bm_insert ?k vs' []"
    by (auto simp: plan_feature_invalidation_def plan_feature_invalidation_into_def versions_for_planning_def Let_def
      rbind_eq_Inr ensure_eq_Inr)
  then have "apply_feature_invalidation st i e = Inr (bm_insert ?k vs' st, f)"
    by (cases "bm_get st ?k") (simp_all add: apply_feature_invalidation_def)
  moreover have "apply_delta st d = bm_insert ?k vs' st"
    using apply_delta_insert [OF assms(1), of "[]"] by (simp add: d apply_delta_def bm_extend_def)
  ultimately show ?thesis by simp
qed

lemma feature_status_logs:
  assumes "db_ok db" and "mf_latest_epoch (td_manifest db) \<noteq> - 1"
    and "trim (fi_tenant_id i) \<noteq> []" and "feature_status_plan i db = Inr (c, install)"
  shows "logs P db c (install db)"
proof -
  from assms(4) obtain d where plan: "plan_feature_invalidation (td_store db) i (next_epoch db) = Inr d"
    and inst: "install = install_delta d c"
    and c: "cr_mutations c = []" "cr_replacements c = []" "cr_deletions c = []" "cr_feature_invalidations c = [i]"
    and dc: "data_commit db c"
    by (auto simp: feature_status_plan_def rbind_eq_Inr Let_def record_commit_for_db_def data_commit_def)
  show ?thesis unfolding inst
  proof (rule logs_deltaI [OF assms(1) dc])
    fix E0 st2 assume ag: "stores_agree E0 (mf_latest_epoch (td_manifest db)) (td_store db) st2"
    from plan_feature_invalidation_applies [OF stores_agreeD(7) [OF ag] plan] obtain f where
      "apply_feature_invalidation (td_store db) i (next_epoch db) = Inr (apply_delta (td_store db) d, f)" ..
    from stores_agree_invalidate [OF ag this] obtain st2' where
      "apply_feature_invalidation st2 i (next_epoch db) = Inr (st2', f)"
      and "stores_agree E0 (mf_latest_epoch (td_manifest db)) (apply_delta (td_store db) d) st2'" by blast
    with c dc assms(3) stores_agree_mono [OF _ le_next_epoch [OF assms(2)]]
    show "\<exists>st2'. apply_commit P (mf_schemas (td_manifest db)) st2 c = Inr st2' \<and>
        stores_agree E0 (next_epoch db) (apply_delta (td_store db) d) st2'"
      by (simp add: apply_commit_def data_commit_def replay_invalidation_def)
  qed
qed

text \<open>Commits that leave the records alone.\<close>

lemma empty_commit_replays:
  assumes "cr_replacements c = []" "cr_mutations c = []" "cr_deletions c = []" "cr_feature_invalidations c = []"
    and "mf_latest_epoch (td_manifest db) \<noteq> - 1"
    and "stores_agree E0 (mf_latest_epoch (td_manifest db)) (td_store db) st2"
  shows "\<exists>st2'. apply_commit P schemas st2 c = Inr st2' \<and> stores_agree E0 (next_epoch db) (td_store db) st2'"
  using assms(1-4) stores_agree_mono [OF assms(6) le_next_epoch [OF assms(5)]] by (simp add: apply_commit_def)

lemma receipt_logs:
  assumes "db_ok db" and "mf_latest_epoch (td_manifest db) \<noteq> - 1" and "receipt_plan receipt db = Inr (c, install)"
  shows "logs P db c (install db)"
proof (rule logs_dataI)
  fix E0 st2 assume "stores_agree E0 (mf_latest_epoch (td_manifest db)) (td_store db) st2"
  then show "\<exists>st2'. apply_commit P (mf_schemas (td_manifest db)) st2 c = Inr st2' \<and>
      stores_agree E0 (next_epoch db) (td_store (install db)) st2'"
    using assms(2,3) by (auto simp: receipt_plan_def Let_def record_commit_for_db_def intro!: empty_commit_replays)
qed (use assms in \<open>auto simp: receipt_plan_def Let_def record_commit_for_db_def db_ok_def\<close>)

lemma job_logs:
  assumes "db_ok db" and "mf_latest_epoch (td_manifest db) \<noteq> - 1"
    and "job_exec (td_jobs db) cmd = Inr (planned, [event])" and "job_plan event planned db = Inr (c, install)"
  shows "logs P db c (install db)"
proof (rule logs_dataI)
  fix E0 st2 assume "stores_agree E0 (mf_latest_epoch (td_manifest db)) (td_store db) st2"
  then show "\<exists>st2'. apply_commit P (mf_schemas (td_manifest db)) st2 c = Inr st2' \<and>
      stores_agree E0 (next_epoch db) (td_store (install db)) st2'"
    using assms(2,4) by (auto simp: job_plan_def Let_def record_commit_for_db_def intro!: empty_commit_replays)
next
  have wf: "catalog_wf (td_jobs db)" using assms(1) by (simp add: db_ok_def)
  then show "db_ok (install db)" using job_exec_wf [OF wf assms(3)] assms(1,4)
    by (auto simp: job_plan_def Let_def db_ok_def)
  show "rfold job_replay (td_jobs db) (cr_job_events c) = Inr (td_jobs (install db))"
    using job_exec_replay [OF wf assms(3)] assms(4) by (auto simp: job_plan_def Let_def)
qed (use assms in \<open>auto simp: job_plan_def Let_def record_commit_for_db_def\<close>)

text \<open>A schema is new, or the one that the table already has.\<close>

definition schema_fits :: "table_schema \<Rightarrow> trace_db \<Rightarrow> bool" where
  "schema_fits s db \<longleftrightarrow> find_schema (mf_schemas (td_manifest db)) (ts_name s) \<in> {None, Some s}"

lemma upsert_schema_finds:
  assumes "find_schema ss (ts_name s) \<in> {None, Some s}"
  shows "find_schema (upsert_schema ss s) t = (if t = ts_name s then Some s else find_schema ss t)"
    and "set (upsert_schema ss s) \<subseteq> insert s (set ss)"
proof -
  have "upsert_schema ss s = (if find_schema ss (ts_name s) = None then ss @ [s] else ss)"
    using assms upsert_present [of ss s] by (auto simp: upsert_schema_def)
  with assms show "find_schema (upsert_schema ss s) t = (if t = ts_name s then Some s else find_schema ss t)"
    "set (upsert_schema ss s) \<subseteq> insert s (set ss)"
    by (auto simp: find_schema_def find_snoc split: option.splits)
qed

lemma schema_logs:
  assumes "db_ok db" and "mf_latest_epoch (td_manifest db) \<noteq> - 1" and "schema_fits s db"
    and "apply_schema_plan P s receipt db = Inr (c, install)"
  shows "logs P db c (install db)"
proof -
  let ?ss = "mf_schemas (td_manifest db)"
  note up = upsert_schema_finds [OF assms(3) [unfolded schema_fits_def]]
  from assms(4) have valid: "distinct (map vc_name (ts_vector_columns s))"
    by (auto simp: apply_schema_plan_def rbind_eq_Inr dest: validate_vector_names)
  from assms(4) have c: "cr_epoch c = next_epoch db" "cr_parent_epoch c = sat_sub64 (next_epoch db) 1"
      "cr_commit_marker c = ''COMMITTED''" "cr_schema_changes c = [s]" "cr_replacements c = []" "cr_mutations c = []"
      "cr_deletions c = []" "cr_feature_invalidations c = []" "cr_job_events c = []"
    and inst: "install db = db\<lparr>td_manifest := (td_manifest db)\<lparr>mf_schemas := upsert_schema ?ss s\<rparr>,
      td_receipts := td_receipts db @ cr_idempotency_receipts c\<rparr>"
    by (auto simp: apply_schema_plan_def rbind_eq_Inr Let_def)
  have "db_ok (install db)" using assms(1) valid up(2) by (auto simp: inst db_ok_def)
  moreover have "\<exists>st2'. apply_commit P (upsert_schema ?ss s) st2 c = Inr st2' \<and> stores_agree E0 (next_epoch db) (td_store db) st2'"
    if "stores_agree E0 (mf_latest_epoch (td_manifest db)) (td_store db) st2" for E0 st2
    by (rule empty_commit_replays [OF c(5-8) assms(2) that])
  moreover have "find_schema (upsert_schema ?ss s) t = Some x" if "find_schema ?ss t = Some x" for t x
    using that assms(3) by (auto simp: up(1) schema_fits_def)
  ultimately show ?thesis by (simp add: logs_def c inst up(1))
qed

section \<open>The commands of the engine\<close>

text \<open>A job event comes with the catalog that \<open>job_exec\<close> planned.\<close>

datatype command =
    ApplySchema table_schema "idempotency_receipt option"
  | Insert record_input "idempotency_receipt option"
  | Patch record_input "idempotency_receipt option"
  | Put record_input "idempotency_receipt option"
  | PutBatch "record_input list" "idempotency_receipt option"
  | Delete record_deletion "idempotency_receipt option"
  | RecordReceipt idempotency_receipt
  | SetFeatureStatus feature_invalidation
  | LogJob job_event job_catalog

fun command_plan :: "eng_prims \<Rightarrow> command \<Rightarrow> trace_db \<Rightarrow> (commit_record \<times> (trace_db \<Rightarrow> trace_db)) result" where
  "command_plan P (ApplySchema s receipt) = apply_schema_plan P s receipt"
| "command_plan P (Insert m receipt) = mutation_plan P ''insert.index'' m receipt"
| "command_plan P (Patch m receipt) = mutation_plan P ''record.patch'' m receipt"
| "command_plan P (Put m receipt) = put_plan P m receipt"
| "command_plan P (PutBatch ms receipt) = put_batch_plan P ms receipt"
| "command_plan P (Delete x receipt) = delete_plan P x receipt"
| "command_plan P (RecordReceipt receipt) = receipt_plan receipt"
| "command_plan P (SetFeatureStatus i) = feature_status_plan i"
| "command_plan P (LogJob event planned) = job_plan event planned"

text \<open>
  What a command needs of its arguments: no NUL in table and tenant, a tenant that is not blank, a
  batch without two inputs for one record, a schema that is new or unchanged, a job event that the
  catalog planned.
\<close>

fun command_fits :: "command \<Rightarrow> trace_db \<Rightarrow> bool" where
  "command_fits (ApplySchema s receipt) db = schema_fits s db"
| "command_fits (Insert m receipt) db = record_fits m"
| "command_fits (Patch m receipt) db = record_fits m"
| "command_fits (Put m receipt) db = record_fits m"
| "command_fits (PutBatch ms receipt) db = ((\<forall>m \<in> set ms. record_fits m) \<and> distinct (map input_key ms))"
| "command_fits (Delete x receipt) db = (nul_free (rd_table x) \<and> nul_free (rd_tenant_id x))"
| "command_fits (RecordReceipt receipt) db = True"
| "command_fits (SetFeatureStatus i) db = (trim (fi_tenant_id i) \<noteq> [])"
| "command_fits (LogJob event planned) db = (\<exists>cmd. job_exec (td_jobs db) cmd = Inr (planned, [event]))"

lemmas command_logs = schema_logs mutation_logs put_logs put_batch_logs delete_logs receipt_logs feature_status_logs job_logs

interpretation cmds: logged_commands command_plan command_fits
proof
  fix P x db c install assume "db_ok db" "mf_latest_epoch (td_manifest db) \<noteq> - 1" "command_fits x db"
    "command_plan P x db = Inr (c, install)"
  then show "logs P db c (install db)" by (cases x) (auto intro: command_logs)
next
  fix P x db c install db' w assume "command_plan P x db = Inr (c, install)"
  then show "install (db'\<lparr>td_wal := w\<rparr>) = (install db')\<lparr>td_wal := w\<rparr>"
    by (cases x) (auto simp: apply_schema_plan_def mutation_plan_def put_plan_def put_batch_plan_def delete_plan_def
      receipt_plan_def feature_status_plan_def job_plan_def rbind_eq_Inr Let_def install_delta_def)
qed

text \<open>The operations of \<open>TraceDb\<close> that carry out the commands.\<close>

fun run_command :: "eng_prims \<Rightarrow> bytes \<Rightarrow> bytes \<Rightarrow> command \<Rightarrow> (eng_state, epoch) op" where
  "run_command P nonce file_nonce (ApplySchema s receipt) = apply_schema_with_idempotency_receipt P nonce s receipt"
| "run_command P nonce file_nonce (Insert m receipt) = insert_with_idempotency_receipt P nonce m receipt"
| "run_command P nonce file_nonce (Patch m receipt) = patch_with_idempotency_receipt P nonce m receipt"
| "run_command P nonce file_nonce (Put m receipt) = put_with_idempotency_receipt P nonce m receipt"
| "run_command P nonce file_nonce (PutBatch ms receipt) = put_batch_with_idempotency_receipt P nonce ms receipt"
| "run_command P nonce file_nonce (Delete x receipt) = delete_with_idempotency_receipt P nonce x receipt"
| "run_command P nonce file_nonce (RecordReceipt receipt) = record_idempotency_receipt P nonce receipt"
| "run_command P nonce file_nonce (SetFeatureStatus i) = set_feature_status P nonce i"
| "run_command P nonce file_nonce (LogJob event planned) = append_job_event P nonce file_nonce event planned"

lemmas command_defs = apply_schema_with_idempotency_receipt_def insert_with_idempotency_receipt_def
  patch_with_idempotency_receipt_def put_with_idempotency_receipt_def put_batch_with_idempotency_receipt_def
  delete_with_idempotency_receipt_def record_idempotency_receipt_def set_feature_status_def

lemma run_command_planned:
  assumes "command_fits x db" and "\<forall>event planned. x \<noteq> LogJob event planned"
  shows "run_command P nonce file_nonce x = commit_planned P nonce (command_plan P x)"
  using assms by (cases x) (auto simp: command_defs ensure_def ebind_def ereads_def)

text \<open>A job command writes the catalog file after its commit; only that file can differ.\<close>

lemma write_job_catalog_frame:
  "write_job_catalog_file P nonce d jobs enc = Inr d' \<Longrightarrow> d' = d\<lparr>dk_job_catalog := dk_job_catalog d'\<rparr>"
  by (auto simp: write_job_catalog_file_def rbind_eq_Inr)

lemma run_job_planned:
  assumes "run_command P nonce file_nonce (LogJob event planned) s = (res, (db', d'))"
  obtains r d1 where "commit_planned P nonce (command_plan P (LogJob event planned)) s = (r, (db', d1))"
    and "d' = d1\<lparr>dk_job_catalog := dk_job_catalog d'\<rparr>" and "\<forall>e. res = Inr e \<longrightarrow> r = Inr e"
    and "\<forall>err. r = Inl err \<longrightarrow> res = Inl err \<and> d' = d1"
proof -
  obtain r db1 d1 where r: "commit_planned P nonce (job_plan event planned) s = (r, (db1, d1))" by (metis prod.exhaust)
  show thesis
  proof (cases r)
    case (Inl err)
    with r assms have "res = Inl err" "db' = db1" "d' = d1" by (simp_all add: append_job_event_def ebind_def)
    with r Inl show thesis by (intro that [of r d1]) simp_all
  next
    case (Inr e)
    show thesis
    proof (cases "write_job_catalog_file P file_nonce d1 (td_jobs db1) (td_encryption db1)")
      case (Inl err)
      with r Inr assms have "res = Inl err" "db' = db1" "d' = d1"
        by (simp_all add: append_job_event_def ebind_def eupdates_def)
      with r Inr show thesis by (intro that [of r d1]) simp_all
    next
      case (Inr d2)
      with r \<open>r = Inr e\<close> assms have "res = Inr e" "db' = db1" "d' = d2"
        by (simp_all add: append_job_event_def ebind_def eupdates_def ereturn_def)
      with r \<open>r = Inr e\<close> write_job_catalog_frame [OF Inr] show thesis by (intro that [of r d1]) simp_all
    qed
  qed
qed

end
