(* ===== verification/Policy.thy ===== *)
theory Policy
  imports Core
begin

text \<open>
  Record policies and the visibility oracle, from \<open>crates/tracedb-policy/src/lib.rs\<close>, with the two
  stores that consult them: the edge store of \<open>crates/tracedb-graph/src/lib.rs\<close> and the temporal index
  of \<open>crates/tracedb-temporal/src/lib.rs\<close>. \<open>visible_iff\<close> characterises the oracle;
  \<open>visible_neighbors_iff\<close> and \<open>as_of_iff\<close> say what the two stores return after any insertions.
\<close>

section \<open>Policies\<close>

datatype visibility_mode = TenantVisible | Public | Acl | Hidden

record acl_entry =
  ae_user_id :: string
  ae_allow :: bool

record retention_policy =
  rp_retain_until_epoch :: "u64 option"
  rp_legal_hold :: bool

record policy =
  po_tenant_id :: string
  po_workspace_id :: "string option"
  po_owner_id :: "string option"
  po_visibility :: visibility_mode
  po_acl :: "acl_entry list"
  po_sensitivity :: string
  po_retention :: retention_policy
  po_suppress_from_ai :: bool
  po_allow_embedding :: bool
  po_allow_training :: bool

definition allow_user :: "string \<Rightarrow> acl_entry" where
  "allow_user user_id = \<lparr>ae_user_id = user_id, ae_allow = True\<rparr>"

definition policy_tenant :: "string \<Rightarrow> policy" where
  "policy_tenant tenant_id =
     \<lparr>po_tenant_id = tenant_id, po_workspace_id = None, po_owner_id = None, po_visibility = TenantVisible,
      po_acl = [], po_sensitivity = ''normal'',
      po_retention = \<lparr>rp_retain_until_epoch = None, rp_legal_hold = False\<rparr>,
      po_suppress_from_ai = False, po_allow_embedding = True, po_allow_training = False\<rparr>"

definition with_visibility :: "visibility_mode \<Rightarrow> policy \<Rightarrow> policy" where
  "with_visibility v p = p\<lparr>po_visibility := v\<rparr>"

definition with_acl :: "acl_entry list \<Rightarrow> policy \<Rightarrow> policy" where
  "with_acl acl p = p\<lparr>po_acl := acl\<rparr>"

definition suppress_from_ai :: "bool \<Rightarrow> policy \<Rightarrow> policy" where
  "suppress_from_ai b p = p\<lparr>po_suppress_from_ai := b\<rparr>"

section \<open>Actors\<close>

record actor_context =
  ac_tenant_id :: string
  ac_user_id :: string
  ac_database_id :: string
  ac_branch_id :: string
  ac_token_identity :: string
  ac_request_id :: string
  ac_policy_epoch :: u64
  ac_scopes :: "string list"
  ac_audit :: bool

definition tenant_user :: "string \<Rightarrow> string \<Rightarrow> actor_context" where
  "tenant_user tenant_id user_id =
     \<lparr>ac_tenant_id = tenant_id, ac_user_id = user_id, ac_database_id = ''local'', ac_branch_id = ''main'',
      ac_token_identity = ''user:'' @ user_id, ac_request_id = [], ac_policy_epoch = 0, ac_scopes = [],
      ac_audit = False\<rparr>"

definition managed_request ::
    "string \<Rightarrow> string \<Rightarrow> string \<Rightarrow> string \<Rightarrow> string \<Rightarrow> u64 \<Rightarrow> string list \<Rightarrow> actor_context" where
  "managed_request tenant_id database_id branch_id token_identity request_id policy_epoch scopes =
     \<lparr>ac_tenant_id = tenant_id, ac_user_id = token_identity, ac_database_id = database_id,
      ac_branch_id = branch_id, ac_token_identity = token_identity, ac_request_id = request_id,
      ac_policy_epoch = policy_epoch, ac_scopes = scopes, ac_audit = True\<rparr>"

section \<open>The visibility oracle\<close>

record visibility_decision =
  vd_allowed :: bool
  vd_reasons :: "string list"

definition visible :: "policy \<Rightarrow> actor_context \<Rightarrow> visibility_decision" where
  "visible p actor =
     (let reasons =
        (if po_tenant_id p \<noteq> ac_tenant_id actor then [''tenant_mismatch''] else []) @
        (case po_visibility p of
           Public \<Rightarrow> [] | TenantVisible \<Rightarrow> []
         | Hidden \<Rightarrow> [''hidden'']
         | Acl \<Rightarrow> if list_ex (\<lambda>e. ae_allow e \<and> ae_user_id e = ac_user_id actor) (po_acl p) then [] else [''acl_denied'']) @
        (if po_suppress_from_ai p then [''suppress_from_ai''] else [])
      in \<lparr>vd_allowed = (reasons = []), vd_reasons = reasons\<rparr>)"

lemma visible_iff:
  "vd_allowed (visible p actor) \<longleftrightarrow>
     po_tenant_id p = ac_tenant_id actor \<and> po_visibility p \<noteq> Hidden \<and> \<not> po_suppress_from_ai p \<and>
     (po_visibility p = Acl \<longrightarrow> (\<exists>e \<in> set (po_acl p). ae_allow e \<and> ae_user_id e = ac_user_id actor))"
  by (auto simp: visible_def Let_def list_ex_iff split: visibility_mode.splits)

lemma visible_reasons: "vd_allowed (visible p actor) \<longleftrightarrow> vd_reasons (visible p actor) = []"
  by (simp add: visible_def Let_def)

section \<open>The edge store\<close>

record edge =
  eg_edge_id :: string
  eg_from :: string
  eg_to :: string
  eg_edge_type :: string
  eg_weight :: u32
  eg_policy :: policy

type_synonym graph_store = "(string, edge list) bmap"

definition add_edge :: "edge \<Rightarrow> graph_store \<Rightarrow> graph_store" where
  "add_edge e g = bm_insert (eg_from e) ((case bm_get g (eg_from e) of Some es \<Rightarrow> es | None \<Rightarrow> []) @ [e]) g"

text \<open>\<open>Vec::dedup\<close> removes equal neighbours.\<close>

definition visible_neighbors :: "graph_store \<Rightarrow> string \<Rightarrow> actor_context \<Rightarrow> string list" where
  "visible_neighbors g from actor =
     remdups_adj (sort (map eg_to
       (filter (\<lambda>e. vd_allowed (visible (eg_policy e) actor))
         (case bm_get g from of Some es \<Rightarrow> es | None \<Rightarrow> []))))"

lemma bm_get_add_edges:
  "bm_get (fold add_edge es g) v =
     (case filter (\<lambda>e. eg_from e = v) es of
        [] \<Rightarrow> bm_get g v
      | xs \<Rightarrow> Some ((case bm_get g v of Some ys \<Rightarrow> ys | None \<Rightarrow> []) @ xs))"
  by (induction es arbitrary: g) (auto simp: add_edge_def split: list.splits option.splits)

lemma sorted_remdups_adj_distinct: "sorted xs \<Longrightarrow> sorted_wrt (<) (remdups_adj xs)"
proof (induction xs rule: remdups_adj.induct)
  case (3 x y xs)
  have "x < z" if "x \<noteq> y" "z \<in> set (remdups_adj (y # xs))" for z
    using that 3(3) by (metis leD le_less_trans list.set_intros(1) nless_le order_le_less_trans
        remdups_adj_set set_ConsD sorted_simps(2) sorted_wrt.simps(2))
  with 3 show ?case by auto
qed auto

text \<open>
  The neighbours an actor sees are the targets of the inserted edges whose policy allows that
  actor, each once, in ascending order.
\<close>

lemma visible_neighbors_iff:
  "set (visible_neighbors (fold add_edge es []) v actor) =
     {eg_to e | e. e \<in> set es \<and> eg_from e = v \<and> vd_allowed (visible (eg_policy e) actor)} \<and>
   sorted_wrt (<) (visible_neighbors (fold add_edge es []) v actor)"
proof -
  have "sorted_wrt (<) (visible_neighbors g v actor)" for g
    unfolding visible_neighbors_def by (rule sorted_remdups_adj_distinct) simp
  moreover have "(case bm_get (fold add_edge es []) v of Some xs \<Rightarrow> xs | None \<Rightarrow> []) = filter (\<lambda>e. eg_from e = v) es"
    by (simp add: bm_get_add_edges split: list.splits)
  then have "set (visible_neighbors (fold add_edge es []) v actor) =
     {eg_to e | e. e \<in> set es \<and> eg_from e = v \<and> vd_allowed (visible (eg_policy e) actor)}"
    by (auto simp: visible_neighbors_def)
  ultimately show ?thesis by blast
qed

section \<open>The temporal index\<close>

record temporal_range =
  tr_start_epoch :: u64
  tr_end_epoch :: "u64 option"

definition closed_range :: "u64 \<Rightarrow> u64 \<Rightarrow> temporal_range" where
  "closed_range a b = \<lparr>tr_start_epoch = a, tr_end_epoch = Some b\<rparr>"

definition range_contains :: "temporal_range \<Rightarrow> u64 \<Rightarrow> bool" where
  "range_contains r e =
     (tr_start_epoch r \<le> e \<and> (case tr_end_epoch r of Some b \<Rightarrow> e \<le> b | None \<Rightarrow> True))"

type_synonym temporal_index = "(string, temporal_range list) bmap"

definition temporal_insert :: "string \<Rightarrow> temporal_range \<Rightarrow> temporal_index \<Rightarrow> temporal_index" where
  "temporal_insert record_id r ix =
     bm_insert record_id ((case bm_get ix record_id of Some rs \<Rightarrow> rs | None \<Rightarrow> []) @ [r]) ix"

definition as_of :: "temporal_index \<Rightarrow> string \<Rightarrow> u64 \<Rightarrow> bool" where
  "as_of ix record_id e =
     (case bm_get ix record_id of Some rs \<Rightarrow> list_ex (\<lambda>r. range_contains r e) rs | None \<Rightarrow> False)"

lemma as_of_insert:
  "as_of (temporal_insert record_id r ix) k e \<longleftrightarrow> as_of ix k e \<or> (k = record_id \<and> range_contains r e)"
  by (auto simp: as_of_def temporal_insert_def split: option.splits)

lemma as_of_iff:
  "as_of (fold (\<lambda>(k, r). temporal_insert k r) xs []) k e \<longleftrightarrow> (\<exists>r. (k, r) \<in> set xs \<and> range_contains r e)"
proof -
  have "as_of (fold (\<lambda>(k, r). temporal_insert k r) xs ix) k e \<longleftrightarrow>
      as_of ix k e \<or> (\<exists>r. (k, r) \<in> set xs \<and> range_contains r e)" for ix
    by (induction xs arbitrary: ix) (auto simp: as_of_insert)
  then show ?thesis by (simp add: as_of_def)
qed

end
