(* ===== verification/Reads.thy ===== *)
theory Reads
  imports Engine Policy
begin

text \<open>
  The read commands of the engine (\<open>get\<close>, \<open>scan\<close> and their actor-aware forms) and the pagination
  cursors, from \<open>crates/tracedb-query/src/lib.rs\<close>: decimal offsets, and signed tokens that bind a
  page to a tenant, an actor, a query and a snapshot epoch.

  HMAC-SHA-256, the URL-safe base64 alphabet and the JSON codec of the cursor payload are
  parameters. The environment variables and the clock are arguments. The numbers of type \<open>usize\<close>
  are natural numbers.
\<close>

section \<open>Data\<close>

record record_get_request =
  rg_table :: string
  rg_tenant_id :: string
  rg_id :: string

record record_scan_request =
  rq_table :: string
  rq_tenant_id :: string
  rq_limit :: nat
  rq_cursor :: "string option"

record record_output =
  ro_table :: string
  ro_id :: string
  ro_tenant_id :: string
  ro_version_id :: u64
  ro_fields :: fields

record record_scan_output =
  so_records :: "record_output list"
  so_returned_count :: nat
  so_next_cursor :: "string option"

record cursor_scope =
  cs_kind :: string
  cs_tenant_id :: string
  cs_database_id :: string
  cs_branch_id :: string
  cs_actor_digest :: string
  cs_query_digest :: string
  cs_limit :: nat
  cs_order_key :: string

record cursor_state =
  ct_offset :: nat
  ct_snapshot_epoch :: epoch

text \<open>The payload repeats the fields of the scope.\<close>

record signed_cursor_payload = cursor_scope +
  sp_version :: u32
  sp_snapshot_epoch :: u64
  sp_offset :: nat
  sp_expires_at :: u64

record cur_prims = eng_prims +
  hmac_sha256 :: "bytes \<Rightarrow> bytes \<Rightarrow> bytes"
  b64url_encode :: "bytes \<Rightarrow> string"
  b64url_decode :: "string \<Rightarrow> bytes option"
  cursor_json :: "signed_cursor_payload \<Rightarrow> string + bytes"
  cursor_parse :: "bytes \<Rightarrow> string + signed_cursor_payload"

text \<open>What the process environment and the clock provide to one call.\<close>

record cursor_env =
  ce_signing_key_b64 :: "string option"
  ce_ttl_secs :: "string option"
  ce_now :: u64

definition cursor_token_prefix :: string where "cursor_token_prefix = ''tdbc1''"
definition cursor_version :: u32 where "cursor_version = 1"
definition default_cursor_ttl_secs :: u64 where "default_cursor_ttl_secs = 60 * 60"

section \<open>Numbers\<close>

text \<open>\<open>str::parse\<close> for unsigned 64-bit integers: an optional plus sign, then digits, in range.\<close>

definition parse_u64 :: "string \<Rightarrow> nat option" where
  "parse_u64 s =
     (let ds = (if starts_with s ''+'' then drop 1 s else s);
          n = foldl (\<lambda>a c. 10 * a + (byte_val c - 48)) 0 ds
      in if ds \<noteq> [] \<and> list_all is_ascii_digit ds \<and> int n < 18446744073709551616 then Some n else None)"

definition parse_legacy_cursor_offset :: "string option \<Rightarrow> nat result" where
  "parse_legacy_cursor_offset cursor =
     (case cursor of
        None \<Rightarrow> Inr 0
      | Some val \<Rightarrow>
          if trim val = [] then Inl (InvalidCommand ''cursor must be a non-empty offset'')
          else ok_or (InvalidCommand (''invalid cursor offset: '' @ val)) (parse_u64 val))"

section \<open>Cursor scopes\<close>

definition cursor_actor_digest :: "cur_prims \<Rightarrow> actor_context \<Rightarrow> string" where
  "cursor_actor_digest P actor =
     stable_body_hash (prims.truncate P) (json_text P (JObject
       [(''branch_id'', JString (ac_branch_id actor)), (''database_id'', JString (ac_database_id actor)),
        (''policy_epoch'', JNumber (PosInt (ac_policy_epoch actor))),
        (''scopes'', JArray (map JString (ac_scopes actor))),
        (''tenant_id'', JString (ac_tenant_id actor)),
        (''token_identity'', JString (ac_token_identity actor))]))"

definition cursor_scope_for_scan :: "cur_prims \<Rightarrow> actor_context \<Rightarrow> record_scan_request \<Rightarrow> nat \<Rightarrow> cursor_scope" where
  "cursor_scope_for_scan P actor request limit =
     \<lparr>cs_kind = ''scan'', cs_tenant_id = rq_tenant_id request, cs_database_id = ac_database_id actor,
      cs_branch_id = ac_branch_id actor, cs_actor_digest = cursor_actor_digest P actor,
      cs_query_digest = stable_body_hash (prims.truncate P) (json_text P (JObject
        [(''kind'', JString ''scan''), (''order'', JString ''record_id_asc''),
         (''table'', JString (rq_table request)), (''tenant_id'', JString (rq_tenant_id request))])),
      cs_limit = limit, cs_order_key = ''record_id_asc''\<rparr>"

section \<open>Signed cursors\<close>

definition invalid_cursor :: "string \<Rightarrow> error" where
  "invalid_cursor reason = InvalidCommand (''invalid cursor: '' @ reason)"

definition cursor_signing_key :: "cur_prims \<Rightarrow> cursor_env \<Rightarrow> bytes option result" where
  "cursor_signing_key P env =
     (case ce_signing_key_b64 env of
        None \<Rightarrow> Inr None
      | Some val \<Rightarrow>
          if trim val = [] then Inr None
          else
          rbind (ensure (\<not> has_whitespace val)
            (InvalidCommand ''TRACEDB_CURSOR_SIGNING_KEY_B64 must be strict base64 without whitespace'')) (\<lambda>_.
          rbind (ok_or (InvalidCommand ''TRACEDB_CURSOR_SIGNING_KEY_B64 must be strict base64'') (b64_decode P val)) (\<lambda>decoded.
          rbind (ensure (length decoded = 32)
            (InvalidCommand (''TRACEDB_CURSOR_SIGNING_KEY_B64 must decode to exactly 32 bytes, got '' @
               show_nat (length decoded)))) (\<lambda>_.
          Inr (Some decoded)))))"

definition cursor_ttl_secs :: "cursor_env \<Rightarrow> u64" where
  "cursor_ttl_secs env =
     (case Option.bind (ce_ttl_secs env) parse_u64 of
        Some n \<Rightarrow> if 0 < n then of_nat n else default_cursor_ttl_secs
      | None \<Rightarrow> default_cursor_ttl_secs)"

definition encode_signed_cursor :: "cur_prims \<Rightarrow> cursor_env \<Rightarrow> signed_cursor_payload \<Rightarrow> string result" where
  "encode_signed_cursor P env payload =
     rbind (cursor_signing_key P env) (\<lambda>key_opt.
     rbind (ok_or (InvalidCommand ''TRACEDB_CURSOR_SIGNING_KEY_B64 is required'') key_opt) (\<lambda>key.
     rbind (json_result (cursor_json P payload)) (\<lambda>payload_json.
     let payload_b64 = b64url_encode P payload_json in
     Inr (cursor_token_prefix @ ''.'' @ payload_b64 @ ''.'' @
          b64url_encode P (hmac_sha256 P key payload_b64)))))"

text \<open>The fields are compared in this order; each has its own message.\<close>

definition validate_signed_cursor_payload ::
    "cursor_env \<Rightarrow> cursor_scope \<Rightarrow> signed_cursor_payload \<Rightarrow> unit result" where
  "validate_signed_cursor_payload env scope payload =
     rbind (ensure (sp_version payload = cursor_version) (invalid_cursor ''unsupported version'')) (\<lambda>_.
     rbind (ensure (\<not> sp_expires_at payload < ce_now env) (invalid_cursor ''expired'')) (\<lambda>_.
     rbind (ensure (cs_kind payload = cs_kind scope) (invalid_cursor ''kind mismatch'')) (\<lambda>_.
     rbind (ensure (cs_tenant_id payload = cs_tenant_id scope) (invalid_cursor ''tenant mismatch'')) (\<lambda>_.
     rbind (ensure (cs_database_id payload = cs_database_id scope) (invalid_cursor ''database mismatch'')) (\<lambda>_.
     rbind (ensure (cs_branch_id payload = cs_branch_id scope) (invalid_cursor ''branch mismatch'')) (\<lambda>_.
     rbind (ensure (cs_actor_digest payload = cs_actor_digest scope) (invalid_cursor ''actor mismatch'')) (\<lambda>_.
     rbind (ensure (cs_query_digest payload = cs_query_digest scope) (invalid_cursor ''query mismatch'')) (\<lambda>_.
     rbind (ensure (cs_limit payload = cs_limit scope) (invalid_cursor ''limit mismatch'')) (\<lambda>_.
     ensure (cs_order_key payload = cs_order_key scope) (invalid_cursor ''ordering mismatch''))))))))))"

text \<open>\<open>str::split\<close> at one byte: always at least one part.\<close>

fun split_at :: "char \<Rightarrow> string \<Rightarrow> string list" where
  "split_at c [] = [[]]"
| "split_at c (x # xs) =
     (if x = c then [] # split_at c xs
      else case split_at c xs of [] \<Rightarrow> [[x]] | p # ps \<Rightarrow> (x # p) # ps)"

definition decode_signed_cursor ::
    "cur_prims \<Rightarrow> cursor_env \<Rightarrow> cursor_scope \<Rightarrow> string \<Rightarrow> signed_cursor_payload result" where
  "decode_signed_cursor P env scope token =
     rbind (cursor_signing_key P env) (\<lambda>key_opt.
     rbind (ok_or (InvalidCommand ''TRACEDB_CURSOR_SIGNING_KEY_B64 is required to verify cursor'') key_opt) (\<lambda>key.
     case split_at (CHR ''.'') token of
       [pfx, payload_b64, signature_b64] \<Rightarrow>
         if pfx \<noteq> cursor_token_prefix then Inl (invalid_cursor ''malformed token'')
         else
         rbind (ok_or (invalid_cursor ''malformed signature'') (b64url_decode P signature_b64)) (\<lambda>signature.
         rbind (ensure (signature = hmac_sha256 P key payload_b64) (invalid_cursor ''signature mismatch'')) (\<lambda>_.
         rbind (ok_or (invalid_cursor ''malformed payload'') (b64url_decode P payload_b64)) (\<lambda>payload_bytes.
         rbind (json_result (cursor_parse P payload_bytes)) (\<lambda>payload.
         rbind (validate_signed_cursor_payload env scope payload) (\<lambda>_.
         Inr payload)))))
     | _ \<Rightarrow> Inl (invalid_cursor ''malformed token'')))"

definition resolve_cursor_state ::
    "cur_prims \<Rightarrow> cursor_env \<Rightarrow> cursor_scope \<Rightarrow> string option \<Rightarrow> epoch \<Rightarrow> cursor_state result" where
  "resolve_cursor_state P env scope cursor_opt latest_epoch =
     (case cursor_opt of
        None \<Rightarrow> Inr \<lparr>ct_offset = 0, ct_snapshot_epoch = latest_epoch\<rparr>
      | Some cursor \<Rightarrow>
          if starts_with cursor cursor_token_prefix then
            rbind (decode_signed_cursor P env scope cursor) (\<lambda>payload.
            Inr \<lparr>ct_offset = sp_offset payload, ct_snapshot_epoch = sp_snapshot_epoch payload\<rparr>)
          else
          rbind (cursor_signing_key P env) (\<lambda>key.
          rbind (ensure (key = None) (InvalidCommand ''invalid cursor: signed cursor token is required'')) (\<lambda>_.
          rbind (parse_legacy_cursor_offset (Some cursor)) (\<lambda>offset.
          Inr \<lparr>ct_offset = offset, ct_snapshot_epoch = latest_epoch\<rparr>))))"

definition encode_next_cursor ::
    "cur_prims \<Rightarrow> cursor_env \<Rightarrow> cursor_scope \<Rightarrow> nat \<Rightarrow> epoch \<Rightarrow> string result" where
  "encode_next_cursor P env scope offset snapshot_epoch =
     rbind (cursor_signing_key P env) (\<lambda>key.
     if key = None then Inr (show_nat offset)
     else encode_signed_cursor P env
       (cursor_scope.extend scope (signed_cursor_payload.fields cursor_version snapshot_epoch offset
          (sat_add64 (ce_now env) (cursor_ttl_secs env)))))"

section \<open>Reading\<close>

definition validate_actor_tenant :: "actor_context \<Rightarrow> string \<Rightarrow> unit result" where
  "validate_actor_tenant actor tenant =
     ensure (ac_tenant_id actor = tenant)
       (InvalidCommand (''actor tenant '' @ ac_tenant_id actor @ '' cannot query tenant '' @ tenant))"

definition to_record_output :: "stored_record \<Rightarrow> record_output" where
  "to_record_output r =
     \<lparr>ro_table = rh_table_id (sr_header r), ro_id = rh_record_id (sr_header r),
      ro_tenant_id = rh_tenant_id (sr_header r), ro_version_id = rh_version_id (sr_header r),
      ro_fields = sr_fields r\<rparr>"

definition db_get :: "trace_db \<Rightarrow> record_get_request \<Rightarrow> record_output option result" where
  "db_get db request =
     rbind (table_for db (rg_table request)) (\<lambda>_.
     Inr (map_option to_record_output
       (get_record (td_store db) (rg_table request) (rg_tenant_id request) (rg_id request)
          (mf_latest_epoch (td_manifest db)))))"

definition db_get_as :: "actor_context \<Rightarrow> trace_db \<Rightarrow> record_get_request \<Rightarrow> record_output option result" where
  "db_get_as actor db request =
     rbind (validate_actor_tenant actor (rg_tenant_id request)) (\<lambda>_. db_get db request)"

definition sorted_visible_records :: "trace_db \<Rightarrow> record_scan_request \<Rightarrow> epoch \<Rightarrow> stored_record list" where
  "sorted_visible_records db request e =
     sort_key (\<lambda>r. rh_record_id (sr_header r))
       (visible_records_at (td_store db) (rq_table request) (rq_tenant_id request) e)"

text \<open>One page, and whether there is more after it.\<close>

definition scan_page :: "stored_record list \<Rightarrow> nat \<Rightarrow> nat \<Rightarrow> record_output list \<times> bool" where
  "scan_page records offset limit =
     (let page = map to_record_output (take (limit + 1) (drop offset records))
      in (take limit page, limit < length page))"

definition db_scan :: "trace_db \<Rightarrow> record_scan_request \<Rightarrow> record_scan_output result" where
  "db_scan db request =
     rbind (table_for db (rq_table request)) (\<lambda>_.
     let limit = max (rq_limit request) 1 in
     rbind (parse_legacy_cursor_offset (rq_cursor request)) (\<lambda>offset.
     let (records, has_more) = scan_page
           (sorted_visible_records db request (mf_latest_epoch (td_manifest db))) offset limit
     in Inr \<lparr>so_records = records, so_returned_count = length records,
             so_next_cursor = (if has_more then Some (show_nat (offset + length records)) else None)\<rparr>))"

definition db_scan_as ::
    "cur_prims \<Rightarrow> cursor_env \<Rightarrow> actor_context \<Rightarrow> trace_db \<Rightarrow> record_scan_request \<Rightarrow> record_scan_output result" where
  "db_scan_as P env actor db request =
     rbind (validate_actor_tenant actor (rq_tenant_id request)) (\<lambda>_.
     rbind (table_for db (rq_table request)) (\<lambda>_.
     let limit = max (rq_limit request) 1;
         scope = cursor_scope_for_scan P actor request limit
     in
     rbind (resolve_cursor_state P env scope (rq_cursor request) (mf_latest_epoch (td_manifest db))) (\<lambda>cursor.
     let (records, has_more) = scan_page
           (sorted_visible_records db request (ct_snapshot_epoch cursor)) (ct_offset cursor) limit
     in
     rbind (if has_more
            then rbind (encode_next_cursor P env scope (ct_offset cursor + length records)
                   (ct_snapshot_epoch cursor)) (\<lambda>c. Inr (Some c))
            else Inr None) (\<lambda>next_cursor.
     Inr \<lparr>so_records = records, so_returned_count = length records, so_next_cursor = next_cursor\<rparr>))))"

end
