(* ===== verification/Reads_Props.thy ===== *)
theory Reads_Props
  imports Reads Store_Props
begin

text \<open>
  Properties of scans and cursors: following the cursors lists every record once, signed cursors
  round-trip, are bound to their scope and carry a MAC of their payload, and a page of a signed
  scan does not change when records are written after its snapshot.
\<close>

section \<open>Decimal offsets\<close>

lemma show_nat_digits: "list_all is_ascii_digit (show_nat n) \<and> show_nat n \<noteq> []"
proof (induction n rule: show_nat.induct)
  case (1 n)
  then show ?case
    by (subst (1 2) show_nat.simps) (auto simp: is_ascii_digit_def [abs_def])
qed

lemma digit_name_char: "is_ascii_digit c \<Longrightarrow> name_char c"
  by (simp add: name_char_def is_ascii_alphanumeric_def)

lemma trim_show_nat: "trim (show_nat n) = show_nat n"
  using show_nat_digits [of n] by (intro trim_name_id) (auto simp: list_all_iff digit_name_char)

lemma parse_show_nat: "n < 18446744073709551616 \<Longrightarrow> parse_u64 (show_nat n) = Some n"
proof -
  assume n: "n < 18446744073709551616"
  have "\<not> starts_with (show_nat n) ''+''"
    using show_nat_digits [of n] by (cases "show_nat n") (auto simp: starts_with_def is_ascii_digit_def)
  with n show_nat_digits [of n] show_nat_value [of n] show ?thesis
    by (simp add: parse_u64_def Let_def)
qed

lemma legacy_offset_roundtrip:
  "n < 18446744073709551616 \<Longrightarrow> parse_legacy_cursor_offset (Some (show_nat n)) = Inr n"
  using show_nat_digits [of n] by (simp add: parse_legacy_cursor_offset_def trim_show_nat parse_show_nat)

section \<open>Pagination\<close>

text \<open>A client that follows the cursors; the fuel bounds the number of requests.\<close>

fun scan_all :: "nat \<Rightarrow> trace_db \<Rightarrow> record_scan_request \<Rightarrow> record_output list option" where
  "scan_all 0 db request = None"
| "scan_all (Suc n) db request =
     (case db_scan db request of
        Inl _ \<Rightarrow> None
      | Inr out \<Rightarrow>
          (case so_next_cursor out of
             None \<Rightarrow> Some (so_records out)
           | Some c \<Rightarrow> map_option ((@) (so_records out)) (scan_all n db (request\<lparr>rq_cursor := Some c\<rparr>))))"

abbreviation visible_count :: "trace_db \<Rightarrow> record_scan_request \<Rightarrow> nat" where
  "visible_count db request \<equiv>
     length (sorted_visible_records db request (mf_latest_epoch (td_manifest db)))"

lemma scan_page_eq:
  "scan_page xs offset limit =
     (map to_record_output (take limit (drop offset xs)), limit < length xs - offset)"
  by (auto simp: scan_page_def Let_def take_map min_def)

lemma scan_all_from:
  assumes "table_for db (rq_table request) = Inr s" and "visible_count db request < 18446744073709551616"
    and "parse_legacy_cursor_offset (rq_cursor request) = Inr offset" and "offset \<le> visible_count db request"
    and "visible_count db request - offset < n"
  shows "scan_all n db request =
    Some (map to_record_output (drop offset (sorted_visible_records db request (mf_latest_epoch (td_manifest db)))))"
  using assms
proof (induction n arbitrary: request offset)
  case 0
  then show ?case by simp
next
  case (Suc n)
  let ?all = "sorted_visible_records db request (mf_latest_epoch (td_manifest db))"
  define L where "L = max (rq_limit request) 1"
  let ?out = "map to_record_output (take L (drop offset ?all))"
  have out: "db_scan db request = Inr \<lparr>so_records = ?out, so_returned_count = length ?out,
      so_next_cursor = (if L < length ?all - offset then Some (show_nat (offset + L)) else None)\<rparr>"
    using Suc.prems(1,3) unfolding db_scan_def Let_def scan_page_eq L_def [symmetric]
    by (auto simp: min_def)
  show ?case
  proof (cases "L < length ?all - offset")
    case False
    then have "take L (drop offset ?all) = drop offset ?all"
      by (intro take_all) (simp only: not_less length_drop)
    with out False show ?thesis by (simp only: scan_all.simps sum.case record_scan_output.select_convs if_False option.case)
  next
    case True
    let ?next = "request\<lparr>rq_cursor := Some (show_nat (offset + L))\<rparr>"
    have same: "sorted_visible_records db ?next (mf_latest_epoch (td_manifest db)) = ?all"
      by (simp add: sorted_visible_records_def)
    have "0 < L" by (simp add: L_def)
    then have "offset + L \<le> length ?all" "length ?all - (offset + L) < n"
      using True Suc.prems(4,5) by linarith+
    then have "scan_all n db ?next = Some (map to_record_output (drop (offset + L) ?all))"
      using Suc.IH [of ?next "offset + L"] Suc.prems True same
      by (simp add: legacy_offset_roundtrip)
    moreover have "take L (drop offset ?all) @ drop (offset + L) ?all = drop offset ?all"
      by (metis add.commute append_take_drop_id drop_drop)
    ultimately show ?thesis
      using out True by (simp flip: map_append)
  qed
qed

text \<open>
  C22: Following the cursors lists every record once. On a table that exists, a client that
  starts without a cursor and requests page after page with the returned cursor (whatever limit
  it asks for) ends after at most one request per visible record and one more, and the pages
  together are exactly the visible records in order of their ids, none missing and none twice.
\<close>

theorem scan_pagination_complete:
  assumes "table_for db (rq_table request) = Inr s" and "visible_count db request < 18446744073709551616"
    and "rq_cursor request = None" and "visible_count db request < n"
  shows "scan_all n db request =
    Some (map to_record_output (sorted_visible_records db request (mf_latest_epoch (td_manifest db))))"
  using scan_all_from [of db request s 0 n] assms by (simp add: parse_legacy_cursor_offset_def)

section \<open>Signed cursors\<close>

text \<open>
  Base64 without padding decodes what it encoded and does not use the full stop; the JSON codec
  reads back what it wrote.
\<close>

definition cursor_prims_ok :: "cur_prims \<Rightarrow> bool" where
  "cursor_prims_ok P \<longleftrightarrow>
     (\<forall>bs. b64url_decode P (b64url_encode P bs) = Some bs \<and> CHR ''.'' \<notin> set (b64url_encode P bs)) \<and>
     (\<forall>p bs. cursor_json P p = Inr bs \<longrightarrow> cursor_parse P bs = Inr p)"

lemma split_at_none: "c \<notin> set xs \<Longrightarrow> split_at c xs = [xs]"
  by (induction xs) auto

lemma split_at_part: "c \<notin> set xs \<Longrightarrow> split_at c (xs @ c # ys) = xs # split_at c ys"
  by (induction xs) auto

lemma split_at_join: "split_at c s = ps \<Longrightarrow> join [c] ps = s \<and> ps \<noteq> []"
proof (induction s arbitrary: ps)
  case Nil
  then show ?case by auto
next
  case (Cons x xs)
  obtain p qs where p: "split_at c xs = p # qs" and j: "join [c] (p # qs) = xs"
    using Cons.IH [OF refl] by (cases "split_at c xs") auto
  with Cons.prems show ?case
    by (cases qs) (auto split: if_splits)
qed

abbreviation payload_for :: "cursor_env \<Rightarrow> cursor_scope \<Rightarrow> nat \<Rightarrow> epoch \<Rightarrow> signed_cursor_payload" where
  "payload_for env scope offset e \<equiv>
     cursor_scope.extend scope (signed_cursor_payload.fields cursor_version e offset
       (sat_add64 (ce_now env) (cursor_ttl_secs env)))"

lemma encoded_cursor:
  assumes "cursor_prims_ok P" and "cursor_signing_key P env = Inr (Some key)"
    and "encode_next_cursor P env scope offset e = Inr token"
  obtains bs where "cursor_parse P bs = Inr (payload_for env scope offset e)"
    and "token = cursor_token_prefix @ ''.'' @ b64url_encode P bs @ ''.'' @
      b64url_encode P (hmac_sha256 P key (b64url_encode P bs))"
  using assms
  by (auto simp: encode_next_cursor_def encode_signed_cursor_def rbind_eq_Inr json_result_eq_Inr Let_def
        cursor_prims_ok_def)

lemma decode_encoded:
  assumes "cursor_prims_ok P" and "cursor_signing_key P env' = Inr (Some key)"
    and "cursor_parse P bs = Inr p"
    and "token = cursor_token_prefix @ ''.'' @ b64url_encode P bs @ ''.'' @
      b64url_encode P (hmac_sha256 P key (b64url_encode P bs))"
  shows "decode_signed_cursor P env' scope' token =
    rbind (validate_signed_cursor_payload env' scope' p) (\<lambda>_. Inr p)"
proof -
  have "split_at (CHR ''.'') token = [cursor_token_prefix, b64url_encode P bs,
      b64url_encode P (hmac_sha256 P key (b64url_encode P bs))]"
    using assms(1) unfolding assms(4)
    by (simp add: split_at_part [of "CHR ''.''" "''tdbc1''", simplified] cursor_token_prefix_def
        split_at_part split_at_none cursor_prims_ok_def)
  then show ?thesis
    using assms(1-3) by (simp add: decode_signed_cursor_def cursor_prims_ok_def)
qed

lemmas cursor_rec_simps = cursor_scope.defs signed_cursor_payload.defs

lemma validate_payload_iff:
  "validate_signed_cursor_payload env' scope' (payload_for env scope offset e) = Inr () \<longleftrightarrow>
     ce_now env' \<le> sat_add64 (ce_now env) (cursor_ttl_secs env) \<and> scope' = scope"
  by (auto simp: validate_signed_cursor_payload_def rbind_eq_Inr ensure_eq_Inr cursor_rec_simps not_less)

text \<open>
  C24: Signed cursors round-trip and are bound to their scope. With a signing key set, the cursor
  issued for a scope (kind, tenant, database, branch, actor, query, limit and order), an offset and
  a snapshot epoch is accepted under the same key exactly when it has not expired and the request
  has the same scope; then it yields exactly that offset and that epoch. Every other request is
  refused with an error.
\<close>

theorem signed_cursor_bound_to_scope:
  assumes "cursor_prims_ok P" and "cursor_signing_key P env = Inr (Some key)"
    and "cursor_signing_key P env' = Inr (Some key)"
    and "encode_next_cursor P env scope offset e = Inr token"
  shows "if ce_now env' \<le> sat_add64 (ce_now env) (cursor_ttl_secs env) \<and> scope' = scope
    then resolve_cursor_state P env' scope' (Some token) latest =
      Inr \<lparr>ct_offset = offset, ct_snapshot_epoch = e\<rparr>
    else \<exists>err. resolve_cursor_state P env' scope' (Some token) latest = Inl err"
proof -
  obtain bs where bs: "cursor_parse P bs = Inr (payload_for env scope offset e)"
    and token: "token = cursor_token_prefix @ ''.'' @ b64url_encode P bs @ ''.'' @
      b64url_encode P (hmac_sha256 P key (b64url_encode P bs))"
    by (rule encoded_cursor [OF assms(1,2,4)])
  have "starts_with token cursor_token_prefix" by (simp add: token)
  then have res: "resolve_cursor_state P env' scope' (Some token) latest =
      rbind (validate_signed_cursor_payload env' scope' (payload_for env scope offset e))
        (\<lambda>_. Inr \<lparr>ct_offset = offset, ct_snapshot_epoch = e\<rparr>)"
    by (simp add: resolve_cursor_state_def decode_encoded [OF assms(1,3) bs token] rbind_assoc cursor_rec_simps)
  show ?thesis
    using validate_payload_iff [of env' scope' scope e offset env]
    unfolding res
    by (cases "validate_signed_cursor_payload env' scope' (payload_for env scope offset e)") auto
qed

text \<open>
  Only authenticated cursors are accepted. With a signing key set, every cursor string that a
  request is accepted with is a token of three parts whose signature part decodes to the HMAC of
  its payload part under the key, whose payload names the scope of the request and has not
  expired, and the offset and epoch are the ones of this payload. Plain offsets are refused.
\<close>

theorem accepted_cursor_is_authentic:
  assumes "cursor_signing_key P env = Inr (Some key)"
    and "resolve_cursor_state P env scope (Some token) latest = Inr st"
  shows "\<exists>payload_b64 signature_b64 payload_bytes p.
    token = cursor_token_prefix @ ''.'' @ payload_b64 @ ''.'' @ signature_b64 \<and>
    b64url_decode P signature_b64 = Some (hmac_sha256 P key payload_b64) \<and>
    b64url_decode P payload_b64 = Some payload_bytes \<and> cursor_parse P payload_bytes = Inr p \<and>
    cursor_scope.truncate p = scope \<and> ce_now env \<le> sp_expires_at p \<and>
    st = \<lparr>ct_offset = sp_offset p, ct_snapshot_epoch = sp_snapshot_epoch p\<rparr>"
proof -
  from assms obtain p where p: "decode_signed_cursor P env scope token = Inr p"
    and st: "st = \<lparr>ct_offset = sp_offset p, ct_snapshot_epoch = sp_snapshot_epoch p\<rparr>"
    by (auto simp: resolve_cursor_state_def rbind_eq_Inr ensure_eq_Inr split: if_splits)
  from p assms(1) obtain a b s bs where parts: "split_at (CHR ''.'') token = [a, b, s]" "a = cursor_token_prefix"
    and sig: "b64url_decode P s = Some (hmac_sha256 P key b)" "b64url_decode P b = Some bs"
    and parse: "cursor_parse P bs = Inr p" and val: "validate_signed_cursor_payload env scope p = Inr ()"
    by (auto simp: decode_signed_cursor_def rbind_eq_Inr ensure_eq_Inr ok_or_eq_Inr json_result_eq_Inr
          split: list.splits if_splits)
  from split_at_join [OF parts(1)] parts(2) have "token = cursor_token_prefix @ ''.'' @ b @ ''.'' @ s"
    by simp
  moreover from val have "cursor_scope.truncate p = scope" "ce_now env \<le> sp_expires_at p"
    by (auto simp: validate_signed_cursor_payload_def rbind_eq_Inr ensure_eq_Inr cursor_rec_simps not_less)
  ultimately show ?thesis using sig parse st by blast
qed

section \<open>Stable pages\<close>

lemma to_record_output_erase [simp]: "to_record_output (erase_end r) = to_record_output r"
  by (simp add: to_record_output_def erase_end_def)

lemma sort_key_visible:
  assumes "bm_wf st" "ids_ok st" "nul_free table" "nul_free tenant"
  shows "sort_key (\<lambda>r. rh_record_id (sr_header r)) (visible_records_at st table tenant e) =
    visible_records_at st table tenant e"
  using visible_records_char [OF assms, of e] by (intro sort_key_id_if_sorted) (simp add: strict_sorted_iff)

lemma scan_page_agree:
  assumes "bm_wf (td_store db)" "ids_ok (td_store db)" "bm_wf (td_store db2)" "ids_ok (td_store db2)"
    and "nul_free (rq_table request)" "nul_free (rq_tenant_id request)"
    and "\<And>rid. map_option erase_end (get_record (td_store db) (rq_table request) (rq_tenant_id request) rid e) =
      map_option erase_end (get_record (td_store db2) (rq_table request) (rq_tenant_id request) rid e)"
  shows "scan_page (sorted_visible_records db request e) offset limit =
    scan_page (sorted_visible_records db2 request e) offset limit"
proof -
  have "map to_record_output (sorted_visible_records db request e) =
      map to_record_output (map erase_end (visible_records_at (td_store db) (rq_table request) (rq_tenant_id request) e))"
    by (simp add: sorted_visible_records_def sort_key_visible assms)
  also have "\<dots> = map to_record_output (map erase_end
      (visible_records_at (td_store db2) (rq_table request) (rq_tenant_id request) e))"
    by (simp only: visible_records_agree [OF assms])
  also have "\<dots> = map to_record_output (sorted_visible_records db2 request e)"
    by (simp add: sorted_visible_records_def sort_key_visible assms)
  finally show ?thesis
    by (simp add: scan_page_def Let_def take_map [symmetric] drop_map [symmetric])
qed

lemma run_writes_ids_ok:
  assumes "store_ok E st" "ids_ok st" "ascending E ws" "run_writes (apply_write P) st ws = Inr st'"
    and "\<forall>(w, e) \<in> set ws. ids_nul_free (write_ids w)"
  shows "ids_ok st'"
  using assms
proof (induction ws arbitrary: E st)
  case Nil
  then show ?case by simp
next
  case (Cons we ws)
  obtain w e where we: "we = (w, e)" by (cases we)
  from Cons.prems we obtain u where u: "apply_write P st w e = Inr u" "run_writes (apply_write P) u ws = Inr st'"
    by (auto simp: rbind_eq_Inr)
  with Cons.prems we have "store_ok e u" "ids_ok u" "ascending e ws"
    by (auto intro: read_after_write(1) apply_write_ids_ok)
  with Cons.IH u Cons.prems(5) show ?case by auto
qed

text \<open>
  C23: Pages of a signed scan are stable. Take a database and the same database after any writes
  at epochs after a snapshot epoch. A request with a cursor that resolves to this snapshot epoch
  is answered identically by both: the same records, the same count and the same next cursor, so a
  client that pages through a result is not disturbed by concurrent writers.
\<close>

theorem signed_scan_stable_under_writes:
  assumes "store_ok E (td_store db)" and "ids_ok (td_store db)" and "ascending E ws"
    and "run_writes (apply_write Q) (td_store db) ws = Inr (td_store db2)"
    and "\<forall>(w, e) \<in> set ws. sp_snapshot_epoch p < e \<and> ids_nul_free (write_ids w)"
    and "mf_schemas (td_manifest db2) = mf_schemas (td_manifest db)"
    and "nul_free (rq_table request)" and "nul_free (rq_tenant_id request)"
    and "rq_cursor request = Some token" and "starts_with token cursor_token_prefix"
    and "decode_signed_cursor P env (cursor_scope_for_scan P actor request (max (rq_limit request) 1)) token = Inr p"
  shows "db_scan_as P env actor db2 request = db_scan_as P env actor db request"
proof -
  have wf: "bm_wf (td_store db)" "bm_wf (td_store db2)"
    using assms(1) records.run_ok [OF assms(1,3,4)] by (auto simp: store_ok_def)
  have ids: "ids_ok (td_store db2)"
    using run_writes_ids_ok [OF assms(1-4)] assms(5) by auto
  have "map_option erase_end (get_record (td_store db2) (rq_table request) (rq_tenant_id request) rid (sp_snapshot_epoch p)) =
      map_option erase_end (get_record (td_store db) (rq_table request) (rq_tenant_id request) rid (sp_snapshot_epoch p))" for rid
    using records.run_past [OF assms(1,3,4), of "sp_snapshot_epoch p"] assms(5) by (auto simp flip: read_store_get)
  then have page: "scan_page (sorted_visible_records db2 request (sp_snapshot_epoch p)) offset limit =
      scan_page (sorted_visible_records db request (sp_snapshot_epoch p)) offset limit" for offset limit
    by (intro scan_page_agree) (use wf ids assms(2,7,8) in auto)
  have "table_for db2 (rq_table request) = table_for db (rq_table request)"
    by (simp add: table_for_def manifest_table_def assms(6))
  with page assms(11) show ?thesis
    by (simp add: db_scan_as_def resolve_cursor_state_def Let_def assms(9,10))
qed

section \<open>Witnesses\<close>

text \<open>A database with two records, and parameters with a codec for one cursor.\<close>

definition demo_second :: record_input where
  "demo_second = demo_input ''b'' [(''body'', JString ''y'')]"

definition demo_pages :: store where
  "demo_pages = projr (apply_write demo_hash demo_store (Replace demo_schema demo_second) 2)"

definition demo_db :: "store \<Rightarrow> epoch \<Rightarrow> trace_db" where
  "demo_db st e = \<lparr>td_dir = ''/db'', td_manifest = (manifest_empty ''d'')\<lparr>mf_schemas := [demo_schema], mf_latest_epoch := e\<rparr>,
     td_store = st,
     td_wal = \<lparr>wal_tail_cache = tail_from_scan [] \<lparr>sc_entries = [], sc_torn_tail = None\<rparr>, wal_encryption = None,
               wal_recovery_torn_tail = None\<rparr>,
     td_encryption = None, td_receipts = [], td_jobs = [], td_last_recovery_torn_tail = None\<rparr>"

definition demo_scan :: record_scan_request where
  "demo_scan = \<lparr>rq_table = ''docs'', rq_tenant_id = ''t1'', rq_limit = 1, rq_cursor = None\<rparr>"

definition demo_actor :: actor_context where
  "demo_actor = \<lparr>ac_tenant_id = ''t1'', ac_user_id = ''u'', ac_database_id = ''d'', ac_branch_id = ''main'',
     ac_token_identity = ''i'', ac_request_id = ''r'', ac_policy_epoch = 1, ac_scopes = [], ac_audit = False\<rparr>"

definition demo_cursor_env :: cursor_env where
  "demo_cursor_env = \<lparr>ce_signing_key_b64 = Some (replicate 32 CHR ''k''), ce_ttl_secs = None, ce_now = 5\<rparr>"

fun demo_b64 :: "bytes \<Rightarrow> string" where
  "demo_b64 [] = []"
| "demo_b64 (c # cs) = (if c = CHR ''.'' then ''--'' else [CHR ''_'', c]) @ demo_b64 cs"

fun demo_unb64 :: "string \<Rightarrow> bytes option" where
  "demo_unb64 [] = Some []"
| "demo_unb64 [c] = None"
| "demo_unb64 (a # b # cs) = map_option ((#) (if a = CHR ''-'' then CHR ''.'' else b)) (demo_unb64 cs)"

lemma demo_b64_ok: "demo_unb64 (demo_b64 bs) = Some bs \<and> CHR ''.'' \<notin> set (demo_b64 bs)"
  by (induction bs) auto

definition demo_cur_base :: cur_prims where
  "demo_cur_base = eng_prims.extend
     (wal_prims.extend (art_prims.extend \<lparr>sha256 = \<lambda>bs. take 32 (bs @ zero32), json_text = \<lambda>_. [],
         bin_header_ser = \<lambda>_. Inl [], bin_header_de = \<lambda>_. Inl [], b64_encode = \<lambda>bs. bs, b64_decode = Some,
         aead_encrypt = \<lambda>k n a m. Inr m, aead_decrypt = \<lambda>k n a c. Some c\<rparr>
       (wal_prims.fields (\<lambda>_. Inl []) (\<lambda>_. Inl [])))
     (eng_prims.fields (\<lambda>_. Inl []) (\<lambda>_. Inl []) (\<lambda>_. Inl []) (\<lambda>_. Inl []) (\<lambda>_. Inl []) (\<lambda>_. Inl []) (\<lambda>_. Inl []) (\<lambda>_. Inl [])))
     (cur_prims.fields (\<lambda>k m. k @ m) demo_b64 demo_unb64 (\<lambda>_. Inl []) (\<lambda>_. Inl []))"

definition demo_scope :: cursor_scope where
  "demo_scope = cursor_scope_for_scan demo_cur_base demo_actor demo_scan 1"

definition demo_cur :: cur_prims where
  "demo_cur = demo_cur_base
     \<lparr>cursor_json := \<lambda>p. if p = payload_for demo_cursor_env demo_scope 1 2 then Inr ''p'' else Inl [],
      cursor_parse := \<lambda>bs. if bs = ''p'' then Inr (payload_for demo_cursor_env demo_scope 1 2) else Inl []\<rparr>"

definition demo_token :: string where
  "demo_token = projr (encode_next_cursor demo_cur demo_cursor_env demo_scope 1 2)"

lemma demo_cur_simps [simp]:
  "b64url_encode demo_cur = demo_b64" "b64url_decode demo_cur = demo_unb64" "hmac_sha256 demo_cur k m = k @ m"
  "b64_decode demo_cur bs = Some bs"
  "cursor_json demo_cur p = (if p = payload_for demo_cursor_env demo_scope 1 2 then Inr ''p'' else Inl [])"
  "cursor_parse demo_cur bs = (if bs = ''p'' then Inr (payload_for demo_cursor_env demo_scope 1 2) else Inl [])"
  by (simp_all add: demo_cur_def demo_cur_base_def art_prims.defs wal_prims.defs eng_prims.defs cur_prims.defs)

lemma demo_cur_ok: "cursor_prims_ok demo_cur"
  using demo_b64_ok by (auto simp: cursor_prims_ok_def split: if_splits)

lemma demo_signing_key: "cursor_signing_key demo_cur demo_cursor_env = Inr (Some (replicate 32 CHR ''k''))"
proof -
  have "trim (replicate 32 CHR ''k'') \<noteq> []" "\<not> has_whitespace (replicate 32 CHR ''k'')" by code_simp+
  then show ?thesis by (simp add: cursor_signing_key_def demo_cursor_env_def)
qed

lemma demo_token_encoded: "encode_next_cursor demo_cur demo_cursor_env demo_scope 1 2 = Inr demo_token"
  by (simp add: demo_token_def encode_next_cursor_def encode_signed_cursor_def demo_signing_key Let_def)

lemma demo_ttl: "ce_now demo_cursor_env \<le> sat_add64 (ce_now demo_cursor_env) (cursor_ttl_secs demo_cursor_env)"
  by code_simp

lemma demo_token_decoded:
  "starts_with demo_token cursor_token_prefix"
  "decode_signed_cursor demo_cur demo_cursor_env demo_scope demo_token = Inr (payload_for demo_cursor_env demo_scope 1 2)"
proof -
  obtain bs where bs: "cursor_parse demo_cur bs = Inr (payload_for demo_cursor_env demo_scope 1 2)"
    and token: "demo_token = cursor_token_prefix @ ''.'' @ b64url_encode demo_cur bs @ ''.'' @
      b64url_encode demo_cur (hmac_sha256 demo_cur (replicate 32 CHR ''k'') (b64url_encode demo_cur bs))"
    by (rule encoded_cursor [OF demo_cur_ok demo_signing_key demo_token_encoded])
  show "starts_with demo_token cursor_token_prefix" unfolding token by simp
  have "validate_signed_cursor_payload demo_cursor_env demo_scope (payload_for demo_cursor_env demo_scope 1 2) = Inr ()"
    using demo_ttl by (simp add: validate_payload_iff)
  then show "decode_signed_cursor demo_cur demo_cursor_env demo_scope demo_token = Inr (payload_for demo_cursor_env demo_scope 1 2)"
    by (simp add: decode_encoded [OF demo_cur_ok demo_signing_key bs token])
qed

theorem scan_pagination_complete_witness:
  "scan_all 3 (demo_db demo_pages 2) demo_scan =
     Some (map to_record_output (sorted_visible_records (demo_db demo_pages 2) demo_scan 2)) \<and>
   map ro_id (the (scan_all 3 (demo_db demo_pages 2) demo_scan)) = [''a'', ''b'']"
proof -
  have hyps: "table_for (demo_db demo_pages 2) (rq_table demo_scan) = Inr demo_schema"
      "visible_count (demo_db demo_pages 2) demo_scan = 2" "rq_cursor demo_scan = None"
      "map ro_id (the (scan_all 3 (demo_db demo_pages 2) demo_scan)) = [''a'', ''b'']"
      "mf_latest_epoch (td_manifest (demo_db demo_pages 2)) = 2"
    by code_simp+
  with scan_pagination_complete [OF hyps(1) _ hyps(3), of 3] show ?thesis by simp
qed

theorem signed_cursor_bound_to_scope_witness:
  "resolve_cursor_state demo_cur demo_cursor_env demo_scope (Some demo_token) 9 = Inr \<lparr>ct_offset = 1, ct_snapshot_epoch = 2\<rparr> \<and>
   (\<exists>err. resolve_cursor_state demo_cur demo_cursor_env (demo_scope\<lparr>cs_tenant_id := ''t2''\<rparr>) (Some demo_token) 9 = Inl err)"
proof -
  note bound = signed_cursor_bound_to_scope [OF demo_cur_ok demo_signing_key demo_signing_key demo_token_encoded]
  have "cs_tenant_id demo_scope = ''t1''" by (simp add: demo_scope_def cursor_scope_for_scan_def demo_scan_def)
  then have "cs_tenant_id (demo_scope\<lparr>cs_tenant_id := ''t2''\<rparr>) \<noteq> cs_tenant_id demo_scope" by simp
  then have other: "demo_scope\<lparr>cs_tenant_id := ''t2''\<rparr> \<noteq> demo_scope" by (rule contrapos_nn) (rule arg_cong)
  from bound [of demo_scope 9] demo_ttl bound [of "demo_scope\<lparr>cs_tenant_id := ''t2''\<rparr>" 9] other show ?thesis by auto
qed

theorem accepted_cursor_is_authentic_witness:
  "\<exists>payload_b64 signature_b64. demo_token = cursor_token_prefix @ ''.'' @ payload_b64 @ ''.'' @ signature_b64 \<and>
     demo_unb64 signature_b64 = Some (replicate 32 CHR ''k'' @ payload_b64)"
proof -
  have "resolve_cursor_state demo_cur demo_cursor_env demo_scope (Some demo_token) 9 = Inr \<lparr>ct_offset = 1, ct_snapshot_epoch = 2\<rparr>"
    using demo_token_decoded by (simp add: resolve_cursor_state_def cursor_rec_simps)
  from accepted_cursor_is_authentic [OF demo_signing_key this] show ?thesis by auto
qed

definition demo_later :: store where
  "demo_later = projr (apply_write demo_hash demo_pages (Remove demo_schema demo_deletion) 3)"

theorem signed_scan_stable_under_writes_witness:
  "db_scan_as demo_cur demo_cursor_env demo_actor (demo_db demo_later 3) (demo_scan\<lparr>rq_cursor := Some demo_token\<rparr>) =
     db_scan_as demo_cur demo_cursor_env demo_actor (demo_db demo_pages 2) (demo_scan\<lparr>rq_cursor := Some demo_token\<rparr>) \<and>
   demo_later \<noteq> demo_pages"
proof -
  let ?req = "demo_scan\<lparr>rq_cursor := Some demo_token\<rparr>" and ?p = "payload_for demo_cursor_env demo_scope 1 2"
  have w: "apply_write demo_hash demo_store (Replace demo_schema demo_second) 2 = Inr demo_pages" by code_simp
  have le: "(1 :: epoch) \<le> 2" by simp
  have ok: "store_ok 2 demo_pages" by (rule read_after_write(1) [OF demo_store_ok(1) le w])
  have ids: "ids_ok demo_pages" by (rule apply_write_ids_ok [OF demo_store_ok _ w]) code_simp
  have st: "td_store (demo_db st e) = st" for st e by (simp add: demo_db_def)
  have later: "run_writes (apply_write demo_hash) demo_pages [(Remove demo_schema demo_deletion, 3)] = Inr demo_later"
    "demo_later \<noteq> demo_pages" by code_simp+
  have nul: "nul_free ''docs''" "nul_free ''t1''" by code_simp+
  have hyps: "ascending 2 [(Remove demo_schema demo_deletion, 3)]"
    "\<forall>(w, e) \<in> set [(Remove demo_schema demo_deletion, 3)]. sp_snapshot_epoch ?p < e \<and> ids_nul_free (write_ids w)"
    "mf_schemas (td_manifest (demo_db demo_later 3)) = mf_schemas (td_manifest (demo_db demo_pages 2))"
    "nul_free (rq_table ?req)" "nul_free (rq_tenant_id ?req)" "rq_cursor ?req = Some demo_token"
    using nul by (simp_all add: demo_deletion_def demo_db_def demo_scan_def cursor_rec_simps)
  have scope: "cursor_scope_for_scan demo_cur demo_actor ?req (max (rq_limit ?req) 1) = demo_scope"
    by (simp add: demo_scope_def cursor_scope_for_scan_def cursor_actor_digest_def demo_cur_def demo_scan_def prims.defs)
  have decoded: "decode_signed_cursor demo_cur demo_cursor_env
      (cursor_scope_for_scan demo_cur demo_actor ?req (max (rq_limit ?req) 1)) demo_token = Inr ?p"
    using demo_token_decoded(2) by (simp only: scope)
  from signed_scan_stable_under_writes [where db = "demo_db demo_pages 2" and ?db2.0 = "demo_db demo_later 3", unfolded st,
      OF ok ids hyps(1) later(1) hyps(2-6) demo_token_decoded(1) decoded] later(2) show ?thesis by simp
qed

end
