(* ===== verification/Engine_Runs.thy ===== *)
theory Engine_Runs
  imports Commands Reads_Props
begin

text \<open>
  Runs of the engine: a directory is created, commands and checkpoints are carried out, the
  process is restarted or crashes in the middle of a command or a checkpoint. Every state that such
  a run reaches satisfies the invariant of the engine; the theorems at the end say what this means
  for a client.
\<close>

section \<open>A fresh directory\<close>

lemma ereads_Inr [simp]: "ereads f s = (Inr y, s') \<longleftrightarrow> f s = Inr y \<and> s' = s"
  by (auto simp: ereads_def)

lemma eupdates_Inr [simp]: "eupdates f s = (Inr y, s') \<longleftrightarrow> f s = Inr (y, s')"
  by (auto simp: eupdates_def split: sum.splits)

lemma create_manifest_fresh:
  assumes "create_manifest_if_missing P dek nonce dir mk empty_disk = (Inr (), d1)"
  obtains m m1 where "write_manifest P empty_disk m = Inr (d1, m1)" and "mf_latest_epoch m = 0" and "mf_checkpoint_epoch m = 0"
    and "mf_schemas m = []" and "mf_modules m = builtin_module_manifests" and "mk \<noteq> None \<longrightarrow> mf_encryption m \<noteq> None"
    and "mf_database_id m = database_id_from_path (prims.truncate P) dir" and "mf_branch_id m = ''main''"
  using assms
  by (cases mk)
     (auto simp: create_manifest_if_missing_def empty_disk_def Let_def rbind_eq_Inr manifest_empty_def intro: that)

lemma read_written_manifest:
  assumes "manifest_codec_ok P" and "write_manifest P empty_disk m = Inr (d1, m1)" and "read_manifest P d1 = Inr mm"
  shows "mm = m1" and "read_manifest_inner P (dk_manifest d1) = Inr m1" and "dk_wal d1 = []" and "dk_checkpoints d1 = []"
    and "dk_json_checkpoints d1 = []" and "\<exists>cs. m1 = m\<lparr>mf_manifest_checksum := cs\<rparr>"
proof -
  from write_manifestE [OF assms(2)] obtain cs body bak where m1: "m1 = m\<lparr>mf_manifest_checksum := cs\<rparr>"
    and body: "manifest_json_pretty P m1 = Inr body"
    and d1: "d1 = empty_disk\<lparr>dk_manifest_bak := bak, dk_manifest := Some body\<rparr>"
    and bak: "bak = (case read_manifest_inner P (dk_manifest empty_disk) of Inl _ \<Rightarrow> dk_manifest_bak empty_disk | Inr _ \<Rightarrow> dk_manifest empty_disk)" .
  have "bak = None" by (simp add: bak read_manifest_inner_def empty_disk_def)
  then have inner: "read_manifest_inner P (Some body) = Inr mm"
    using assms(3) by (auto simp: read_manifest_def d1 split: sum.splits if_splits)
  have "manifest_parse P body = Inr m1"
    using assms(1) body unfolding manifest_codec_ok_def by (metis sum.inject(2))
  with inner show "mm = m1" by (auto simp: read_manifest_inner_def rbind_eq_Inr json_result_eq_Inr Let_def)
  with inner show "read_manifest_inner P (dk_manifest d1) = Inr m1" by (simp add: d1)
  show "dk_wal d1 = []" "dk_checkpoints d1 = []" "dk_json_checkpoints d1 = []" "\<exists>cs. m1 = m\<lparr>mf_manifest_checksum := cs\<rparr>"
    using m1 by (simp_all add: d1 empty_disk_def) blast
qed

lemma opened_dir: "open_with_options P env dek nonce opts dir d = (Inr db, d') \<Longrightarrow> td_dir db = dir"
  by (auto simp: open_with_options_def ebind_Inr Let_def simp del: ebind_simps)
     (auto simp: ereturn_def)

lemma builtin_modules_ne: "builtin_module_manifests \<noteq> []"
  by (simp add: builtin_module_manifests_def builtin_module_names_def)

lemma open_encryption_Some:
  "open_encryption P opts mk m = Inr enc \<Longrightarrow> enc \<noteq> None \<longleftrightarrow> mf_encryption m \<noteq> None"
  by (cases "mf_encryption m"; cases "oo_encryption_context opts"; cases enc)
     (auto simp: open_encryption_def rbind_eq_Inr split: if_splits)

lemma fresh_open:
  assumes "eng_prims_ok P" and "options_master_key P env opts = Inr mk"
    and "open_with_options P env dek nonce opts dir empty_disk = (Inr db, d)"
  shows "engine_inv P opts mk (db, d) \<and> td_dir db = dir \<and> mf_latest_epoch (td_manifest db) = 0 \<and>
    mf_schemas (td_manifest db) = [] \<and> td_store db = [] \<and> td_receipts db = [] \<and> td_jobs db = [] \<and>
    mf_database_id (td_manifest db) = database_id_from_path (prims.truncate P) dir \<and> mf_branch_id (td_manifest db) = ''main''"
proof -
  let ?L = "log_of_prims P"
  have codec: "manifest_codec_ok P" using assms(1) by (simp add: eng_prims_ok_def)
  from assms(2,3) obtain d1 mm where created: "create_manifest_if_missing P dek nonce dir mk empty_disk = (Inr (), d1)"
    and mm: "read_manifest P d1 = Inr mm"
    by (auto simp: open_with_options_def ebind_Inr simp del: ebind_simps)
  from create_manifest_fresh [OF created] obtain m m1 where wm: "write_manifest P empty_disk m = Inr (d1, m1)"
    and m: "mf_latest_epoch m = 0" "mf_checkpoint_epoch m = 0" "mf_schemas m = []" "mf_modules m = builtin_module_manifests"
      "mk \<noteq> None \<longrightarrow> mf_encryption m \<noteq> None" "mf_database_id m = database_id_from_path (prims.truncate P) dir"
      "mf_branch_id m = ''main''" .
  note rd = read_written_manifest [OF codec wm mm]
  from rd(6) m have m1: "mf_latest_epoch m1 = 0" "mf_checkpoint_epoch m1 = 0" "mf_schemas m1 = []"
      "mf_modules m1 \<noteq> []" "mk \<noteq> None \<longrightarrow> mf_encryption m1 \<noteq> None"
      "mf_database_id m1 = database_id_from_path (prims.truncate P) dir" "mf_branch_id m1 = ''main''"
    by (auto simp: builtin_modules_ne)
  from assms(2,3) created mm m1(4) obtain enc where enc: "open_encryption P opts mk m1 = Inr enc"
    by (auto simp: open_with_options_def ebind_Inr rd(1) Let_def simp del: ebind_simps)
  have some: "mk \<noteq> None \<longrightarrow> enc \<noteq> None" using open_encryption_Some [OF enc] m1(5) by blast
  obtain w where w: "wal_open ?L enc [] = Inr (w, [])" "wal_inv ?L w [] []" "wal_encryption w = enc"
    using empty_log_opens by blast
  have load: "load_checkpoint P dir d' enc m1 = Inr (m1, [], [], [])" for d' by (simp add: load_checkpoint_def m1)
  have scan: "scan_with_metadata ?L w [] = Inr \<lparr>sc_entries = [], sc_torn_tail = wal_recovery_torn_tail w\<rparr>"
    using w(2) by (simp add: scan_with_metadata_def wal_inv_def)
  let ?db = "\<lparr>td_dir = dir, td_manifest = m1, td_store = [], td_wal = w, td_encryption = enc, td_receipts = [],
    td_jobs = [], td_last_recovery_torn_tail = wal_recovery_torn_tail w\<rparr>"
  have d1: "d1\<lparr>dk_wal := []\<rparr> = d1" using rd(3) by simp
  have step: "ebind (create_manifest_if_missing P dek nonce dir mk) g empty_disk = g () d1" for g :: "unit \<Rightarrow> (disk, trace_db) op"
    by (simp add: ebind_def created)
  have "open_with_options P env dek nonce opts dir empty_disk = (Inr ?db, d1)"
    using assms(2) step mm [unfolded rd(1)] m1(4) enc some w(1) scan load rd(3) d1
    by (cases enc; cases mk)
       (simp_all add: open_with_options_def adopt_master_key_def
          ebind_eupdates Let_def commits_after_def replay_log_def apply_commits_def advance_manifest_def)
  then have db: "db = ?db" and d: "d = d1" using assms(3) by simp_all
  have rec: "recovers P ?db d1 [] []"
    unfolding recovers_def Let_def using load by (intro exI [of _ "[]"]) (simp add: commits_after_def apply_commits_def)
  have agree: "stores_agree 0 0 [] []"
    by (rule stores_agree_refl) (simp_all add: store_ok_def ids_ok_def feats_wf_def)
  have "engine_inv P opts mk (?db, d1)"
  proof (rule engine_invI [OF _ _ _ _ _ _ _ _ rec])
    show "db_ok ?db" by (simp add: db_ok_def m1 catalog_wf_def)
  qed (use rd(2,3) m1 enc some w agree in simp_all)
  with m1 show ?thesis by (simp add: db d)
qed

section \<open>What a client sees\<close>

text \<open>Two handles that answer every read, and hold the same schemas, receipts and jobs.\<close>

definition same_answers :: "trace_db \<Rightarrow> trace_db \<Rightarrow> bool" where
  "same_answers db db2 \<longleftrightarrow>
     mf_schemas (td_manifest db2) = mf_schemas (td_manifest db) \<and>
     mf_latest_epoch (td_manifest db2) = mf_latest_epoch (td_manifest db) \<and>
     td_receipts db2 = td_receipts db \<and> td_jobs db2 = td_jobs db \<and>
     (\<forall>request. db_get db2 request = db_get db request) \<and>
     (\<forall>request. nul_free (rq_table request) \<and> nul_free (rq_tenant_id request) \<longrightarrow> db_scan db2 request = db_scan db request)"

lemma same_current_answers:
  assumes "same_current db db2"
  shows "same_answers db db2"
proof -
  let ?E = "mf_latest_epoch (td_manifest db)"
  from assms have fields: "mf_schemas (td_manifest db2) = mf_schemas (td_manifest db)"
      "mf_latest_epoch (td_manifest db2) = ?E" "td_receipts db2 = td_receipts db" "td_jobs db2 = td_jobs db"
    and agree: "stores_agree ?E ?E (td_store db) (td_store db2)" by (simp_all add: same_current_def)
  note ag = stores_agreeD [OF agree] and get = stores_agree_get [OF agree order_refl]
  have table: "table_for db2 t = table_for db t" for t by (simp add: table_for_def manifest_table_def fields)
  have "map_option to_record_output (get_record (td_store db2) t n i ?E) =
      map_option to_record_output (get_record (td_store db) t n i ?E)" for t n i
    using arg_cong [OF get, of "map_option to_record_output" t n i] by (simp add: option.map_comp comp_def)
  then have "db_get db2 request = db_get db request" for request by (simp add: db_get_def table fields)
  moreover have "db_scan db2 request = db_scan db request" if "nul_free (rq_table request)" "nul_free (rq_tenant_id request)" for request
    using scan_page_agree [of db db2 request ?E] ag get that by (simp add: db_scan_def table fields)
  ultimately show ?thesis using fields by (simp add: same_answers_def)
qed

section \<open>Runs\<close>

text \<open>
  The states that a process reaches that creates a directory and works on it. \<open>env\<close> and \<open>opts\<close> fix
  the master key. A crash leaves one of the directories of \<open>crash_disk\<close> or \<open>checkpoint_crash\<close>, and
  the process opens it again. Checksums that happen to be zero are left out, because the readers
  take them for missing, and so is the wrap-around of the epoch after \<open>2^64\<close> commits.
\<close>

inductive reached :: "eng_prims \<Rightarrow> string option \<Rightarrow> open_options \<Rightarrow> string \<Rightarrow> eng_state \<Rightarrow> bool" for P env opts dir where
  created: "open_with_options P env dek nonce opts dir empty_disk = (Inr db, d) \<Longrightarrow> reached P env opts dir (db, d)"
| command: "reached P env opts dir (db, d) \<Longrightarrow> command_fits x db \<Longrightarrow> mf_latest_epoch (td_manifest db) \<noteq> - 1 \<Longrightarrow>
    length nonce = nonce_len \<Longrightarrow> run_command P nonce file_nonce x (db, d) = (res, (db', d')) \<Longrightarrow>
    mf_manifest_checksum (td_manifest db') \<noteq> zero32 \<Longrightarrow> reached P env opts dir (db', d')"
| checkpoint: "reached P env opts dir (db, d) \<Longrightarrow> length nonce = nonce_len \<Longrightarrow>
    db_checkpoint P nonce (db, d) = (Inr e, (db', d')) \<Longrightarrow> bm_get (dk_checkpoints d') e = Some body \<Longrightarrow>
    slice 8 40 body \<noteq> zero32 \<Longrightarrow> mf_manifest_checksum (td_manifest db') \<noteq> zero32 \<Longrightarrow> reached P env opts dir (db', d')"
| restart: "reached P env opts dir (db, d) \<Longrightarrow> open_with_options P env dek nonce opts dir d = (Inr db2, d2) \<Longrightarrow>
    reached P env opts dir (db2, d2)"
| crash_in_command: "reached P env opts dir (db, d) \<Longrightarrow> command_fits x db \<Longrightarrow> mf_latest_epoch (td_manifest db) \<noteq> - 1 \<Longrightarrow>
    length nonce = nonce_len \<Longrightarrow> commit_planned P nonce (command_plan P x) (db, d) = (Inr e, (db', d')) \<Longrightarrow>
    mf_manifest_checksum (td_manifest db') \<noteq> zero32 \<Longrightarrow> crash_disk d d' dc \<Longrightarrow>
    open_with_options P env dek rnd opts dir dc = (Inr db2, d2) \<Longrightarrow> mf_manifest_checksum (td_manifest db2) \<noteq> zero32 \<Longrightarrow>
    reached P env opts dir (db2, d2)"
| crash_in_checkpoint: "reached P env opts dir (db, d) \<Longrightarrow> length nonce = nonce_len \<Longrightarrow>
    db_checkpoint P nonce (db, d) = (Inr e, (db', d')) \<Longrightarrow> bm_get (dk_checkpoints d') e = Some body \<Longrightarrow>
    slice 8 40 body \<noteq> zero32 \<Longrightarrow> mf_manifest_checksum (td_manifest db') \<noteq> zero32 \<Longrightarrow> checkpoint_crash d d' dc \<Longrightarrow>
    open_with_options P env dek rnd opts dir dc = (Inr db2, d2) \<Longrightarrow> reached P env opts dir (db2, d2)"

lemma engine_inv_job_file:
  "engine_inv P opts mk (db, d) \<Longrightarrow> engine_inv P opts mk (db, d\<lparr>dk_job_catalog := f\<rparr>)"
proof -
  assume inv: "engine_inv P opts mk (db, d)"
  have "load_checkpoint P dir (d\<lparr>dk_job_catalog := f\<rparr>) enc m = load_checkpoint P dir d enc m" for dir enc m
    by (rule load_checkpoint_cong) simp_all
  with inv show ?thesis by (simp add: engine_inv_def recovers_def)
qed

lemma command_step_inv:
  assumes "engine_inv P opts mk (db, d)" and "eng_prims_ok P" and "command_fits x db"
    and "mf_latest_epoch (td_manifest db) \<noteq> - 1" and "length nonce = nonce_len"
    and "run_command P nonce file_nonce x (db, d) = (res, (db', d'))" and "mf_manifest_checksum (td_manifest db') \<noteq> zero32"
  shows "engine_inv P opts mk (db', d') \<and> td_dir db' = td_dir db"
proof -
  have planned: "engine_inv P opts mk (db1, d1) \<and> td_dir db1 = td_dir db"
    if "commit_planned P nonce (command_plan P x) (db, d) = (r, (db1, d1))" "mf_manifest_checksum (td_manifest db1) \<noteq> zero32" for r db1 d1
    using cmds.command_keeps_inv [OF assms(1-5) that] cmds.command_epoch [OF assms(1-4) that(1)] by (cases r) auto
  show ?thesis
  proof (cases "\<exists>event planned. x = LogJob event planned")
    case True
    then obtain event planned_jobs where x: "x = LogJob event planned_jobs" by blast
    from assms(6) obtain r d1 where r: "commit_planned P nonce (command_plan P x) (db, d) = (r, (db', d1))"
      and d': "d' = d1\<lparr>dk_job_catalog := dk_job_catalog d'\<rparr>"
      unfolding x by (rule run_job_planned)
    from planned [OF r assms(7)] engine_inv_job_file [of P opts mk db' d1 "dk_job_catalog d'"] d' show ?thesis by simp
  next
    case False
    with run_command_planned [OF assms(3)] assms(6,7) planned show ?thesis by auto
  qed
qed

lemma reached_inv:
  assumes "reached P env opts dir s" and "eng_prims_ok P" and "options_master_key P env opts = Inr mk"
  shows "engine_inv P opts mk s \<and> td_dir (fst s) = dir"
  using assms(1)
proof induction
  case (created dek nonce db d)
  from fresh_open [OF assms(2,3) this] show ?case by simp
next
  case (command db d x nonce file_nonce res db' d')
  then have inv: "engine_inv P opts mk (db, d)" "td_dir db = dir" by simp_all
  from command_step_inv [OF inv(1) assms(2) command(2-6)] inv(2) show ?case by simp
next
  case (checkpoint db d nonce e db' d' body)
  then have inv: "engine_inv P opts mk (db, d)" "td_dir db = dir" by simp_all
  from checkpoint_keeps_inv [OF inv(1) assms(2) checkpoint(2-6)] inv(2) show ?case by simp
next
  case (restart db d dek nonce db2 d2)
  then have inv: "engine_inv P opts mk (db, d)" "td_dir db = dir" by simp_all
  from engine_reopen [OF assms(3) inv(1), of dek nonce] inv(2) restart(2) show ?case by auto
next
  case (crash_in_command db d x nonce e db' d' dc dek rnd db2 d2)
  then have inv: "engine_inv P opts mk (db, d)" "td_dir db = dir" by simp_all
  from cmds.command_crash [OF inv(1) assms(2) crash_in_command(2-6) assms(3) crash_in_command(7), of dek rnd]
    inv(2) crash_in_command(8,9) opened_dir [OF crash_in_command(8)] show ?case by auto
next
  case (crash_in_checkpoint db d nonce e db' d' body dc dek rnd db2 d2)
  then have inv: "engine_inv P opts mk (db, d)" "td_dir db = dir" by simp_all
  from checkpoint_crash_inv [OF inv(1) assms(2) crash_in_checkpoint(2-7)] obtain dbc where
    "engine_inv P opts mk (dbc, dc)" "td_dir dbc = dir" using inv(2) by blast
  with engine_reopen [OF assms(3) this(1), of dek rnd] crash_in_checkpoint(8) show ?case by auto
qed

section \<open>Theorems\<close>

lemma inv_reopens:
  assumes "engine_inv P opts mk (db, d)" and "options_master_key P env opts = Inr mk"
  shows "\<exists>db2. open_with_options P env dek nonce opts (td_dir db) d = (Inr db2, d) \<and> same_answers db db2"
proof -
  from engine_reopen [OF assms(2,1), of dek nonce] obtain db2 where
    "open_with_options P env dek nonce opts (td_dir db) d = (Inr db2, d)" "same_data db db2" by blast
  with same_current_answers [OF same_data_current [OF _ engine_inv_epochs [OF assms(1)]]] show ?thesis by blast
qed





section \<open>Witnesses\<close>

text \<open>Opening an empty directory without a master key succeeds, and so does a command whose commit can be appended.\<close>

lemma fresh_open_succeeds:
  assumes "eng_prims_ok P" and "options_master_key P env opts = Inr None"
    and "\<And>d m d' m'. write_manifest P d m = Inr (d', m') \<Longrightarrow> mf_manifest_checksum m' \<noteq> zero32"
  shows "\<exists>db d. open_with_options P env dek nonce opts dir empty_disk = (Inr db, d) \<and> td_encryption db = None"
proof -
  let ?m0 = "manifest_empty (database_id_from_path (prims.truncate P) dir)" and ?L = "log_of_prims P"
  have codec: "manifest_codec_ok P" using assms(1) by (simp add: eng_prims_ok_def)
  have none: "dk_manifest empty_disk = None" "dk_manifest_bak empty_disk = None" by (simp_all add: empty_disk_def)
  from write_manifest_over [OF codec] none(1) obtain d1 m1 where wm: "write_manifest P empty_disk ?m0 = Inr (d1, m1)" by metis
  from write_manifest_read [OF codec wm assms(3) [OF wm]] have rd: "read_manifest P d1 = Inr m1" by (simp add: read_manifest_def)
  note r = read_written_manifest [OF codec wm rd]
  from r(6) have m1: "mf_modules m1 \<noteq> []" "mf_encryption m1 = None" "mf_latest_epoch m1 = 0" "mf_checkpoint_epoch m1 = 0"
    by (auto simp: manifest_empty_def builtin_modules_ne)
  obtain w where w: "wal_open ?L None [] = Inr (w, [])" "wal_inv ?L w [] []" "wal_encryption w = None"
    using empty_log_opens by blast
  have scan: "scan_with_metadata ?L w [] = Inr \<lparr>sc_entries = [], sc_torn_tail = wal_recovery_torn_tail w\<rparr>"
    using w(2) by (simp add: scan_with_metadata_def wal_inv_def)
  show ?thesis
    using assms(2) none wm rd m1 w(1) scan r(3)
    by (simp add: open_with_options_def create_manifest_if_missing_def adopt_master_key_def open_encryption_def
      ebind_eupdates Let_def load_checkpoint_def commits_after_def replay_log_def apply_commits_def advance_manifest_def)
qed

lemma commit_planned_succeeds:
  assumes "engine_inv P opts mk (db, d)" and "manifest_codec_ok P" and "plan db = Inr (c, install)"
    and "append_commit (log_of_prims P) nonce (td_wal db) (dk_wal d) c = Inr (w, log_file, l)"
  shows "\<exists>s'. commit_planned P nonce plan (db, d) = (Inr (cr_epoch c), s')"
proof -
  let ?db = "install (db\<lparr>td_wal := w\<rparr>)" and ?d = "d\<lparr>dk_wal := log_file\<rparr>"
  have "read_manifest_inner P (dk_manifest ?d) = Inr (td_manifest db)" using assms(1) by (auto elim: engine_invE)
  from write_manifest_total [OF assms(2) this] obtain d' m' where
    "write_manifest P ?d (bumped ?db (cr_epoch c)) = Inr (d', m')" by blast
  then show ?thesis
    using assms(3,4) by (simp add: commit_planned_def ebind_def [of "refresh_from_disk_if_stale P"] refresh_noop [OF assms(1)]
      append_to_wal_def ebind_eupdates ebind_def [of "bump_manifest P (cr_epoch c)"] bump_manifest_eq)
qed

definition demo_options :: open_options where
  "demo_options = options_from_env"

lemma demo_master_key: "options_master_key demo_eng None demo_options = Inr None"
  by (simp add: options_master_key_def demo_options_def options_from_env_def master_key_from_env_def)

lemma demo_created:
  obtains db d where "open_with_options demo_eng None zero32 demo_nonce demo_options ''/db'' empty_disk = (Inr db, d)"
    and "td_encryption db = None" and "reached demo_eng None demo_options ''/db'' (db, d)"
    and "engine_inv demo_eng demo_options None (db, d)" and "mf_latest_epoch (td_manifest db) = 0"
    and "receipt_plan demo_receipt db = Inr (demo_receipt_commit, \<lambda>db. db\<lparr>td_receipts := td_receipts db @ [demo_receipt]\<rparr>)"
    and "mf_schemas (td_manifest db) = []" and "td_store db = []" and "td_receipts db = []" and "td_jobs db = []"
proof -
  have "\<exists>db d. open_with_options demo_eng None zero32 demo_nonce demo_options ''/db'' empty_disk = (Inr db, d) \<and> td_encryption db = None"
    by (rule fresh_open_succeeds [OF demo_eng_ok demo_master_key]) (rule demo_written_checksum)
  then obtain db d where op: "open_with_options demo_eng None zero32 demo_nonce demo_options ''/db'' empty_disk = (Inr db, d)"
    "td_encryption db = None" by blast
  note f = fresh_open [OF demo_eng_ok demo_master_key op(1)]
  have "receipt_plan demo_receipt db = Inr (demo_receipt_commit, \<lambda>db. db\<lparr>td_receipts := td_receipts db @ [demo_receipt]\<rparr>)"
    using f by (simp add: receipt_plan_def record_commit_for_db_def commit_for_db_def demo_receipt_commit_def epoch_next_def
      commit_for_database_def commit_empty_def)
  with f that [OF op reached.created [OF op(1)]] show thesis by blast
qed

lemma demo_command:
  obtains db d db' d' where "reached demo_eng None demo_options ''/db'' (db, d)" and "mf_latest_epoch (td_manifest db) = 0"
    and "commit_planned demo_eng demo_nonce (command_plan demo_eng (RecordReceipt demo_receipt)) (db, d) = (Inr 1, (db', d'))"
    and "mf_manifest_checksum (td_manifest db') \<noteq> zero32" and "td_receipts db = []" and "td_receipts db' = [demo_receipt]"
    and "mf_latest_epoch (td_manifest db') = 1" and "mf_schemas (td_manifest db') = []" and "td_store db' = []"
    and "td_jobs db' = []" and "td_encryption db' = None"
proof -
  from demo_created obtain db d where db: "td_encryption db = None" "reached demo_eng None demo_options ''/db'' (db, d)"
    "engine_inv demo_eng demo_options None (db, d)" "mf_latest_epoch (td_manifest db) = 0"
    "receipt_plan demo_receipt db = Inr (demo_receipt_commit, \<lambda>db. db\<lparr>td_receipts := td_receipts db @ [demo_receipt]\<rparr>)"
    "mf_schemas (td_manifest db) = []" "td_store db = []" "td_receipts db = []" "td_jobs db = []" .
  from db(3) obtain es where wal: "wal_inv (log_of_prims demo_eng) (td_wal db) (dk_wal d) es"
    and enc: "wal_encryption (td_wal db) = None"
    and epochs: "\<forall>e \<in> set es. 0 < cr_epoch (we_commit e) \<and> cr_epoch (we_commit e) \<le> mf_latest_epoch (td_manifest db)"
    using db(1) by (metis engine_invE)
  from epochs db(4) have "es = []" by (cases es) auto
  then have "commit_ser (log_of_prims demo_eng) (demo_receipt_commit\<lparr>cr_previous_commit_hash := last_checksum es\<rparr>) = Inr ''{r''"
    by (simp add: last_checksum_def demo_receipt_commit_def commit_for_database_def commit_empty_def)
  with append_plain_succeeds [OF wal enc] obtain w log_file l where
    app: "append_commit (log_of_prims demo_eng) demo_nonce (td_wal db) (dk_wal d) demo_receipt_commit = Inr (w, log_file, l)"
    by (fastforce simp: max_payload_len_def)
  let ?plan = "command_plan demo_eng (RecordReceipt demo_receipt)"
  let ?install = "\<lambda>db. db\<lparr>td_receipts := td_receipts db @ [demo_receipt]\<rparr>"
  have codec: "manifest_codec_ok demo_eng" using demo_eng_ok by (simp add: eng_prims_ok_def)
  have plan: "?plan db = Inr (demo_receipt_commit, ?install)" using db(5) by simp
  have e: "cr_epoch demo_receipt_commit = 1"
    by (simp add: demo_receipt_commit_def commit_for_database_def commit_empty_def)
  from commit_planned_succeeds [where plan = ?plan, OF db(3) codec plan app] e obtain db' d' where
    run: "commit_planned demo_eng demo_nonce ?plan (db, d) = (Inr 1, (db', d'))" by auto
  from cmds.install_wal have wal_free: "\<And>c install w. ?plan db = Inr (c, install) \<Longrightarrow>
      install (db\<lparr>td_wal := w\<rparr>) = (install db)\<lparr>td_wal := w\<rparr>" .
  show thesis
  proof (rule commit_plannedE [OF db(3) codec run wal_free])
    fix c install w2 log_file2 l2 d2 m' assume "?plan db = Inr (c, install)" and res: "(db', d') = ((install db)\<lparr>td_wal := w2, td_manifest := m'\<rparr>, d2)"
      and wm: "write_manifest demo_eng (d\<lparr>dk_wal := log_file2\<rparr>) (bumped (install db) (cr_epoch c)) = Inr (d2, m')"
    with plan have c: "c = demo_receipt_commit" "install = ?install" by simp_all
    from write_manifestE [OF wm] obtain cs where
      m': "m' = (bumped (install db) (cr_epoch c))\<lparr>mf_manifest_checksum := cs\<rparr>" by metis
    show thesis
      by (rule that [OF db(2,4) run])
         (use demo_written_checksum [OF wm] db res in \<open>simp_all add: c m' e bumped_def\<close>)
  qed simp_all
qed





end
