(* ===== verification/F32.thy ===== *)
theory F32
  imports TDB_Prelude "HOL-Library.Product_Lexorder" "HOL-Library.Multiset"
begin

text \<open>
  The floating point numbers that the ranking code computes with. A Rust \<open>f32\<close> is its bit pattern,
  a 32-bit word with a sign bit, 8 exponent bits and 23 fraction bits; an \<open>f64\<close> is a 64-bit word
  with 11 and 52. The arithmetic operations are those of IEEE 754 with the rounding mode Rust
  uses, to nearest with ties to even: each computes the exact result as an integer multiple of a
  power of two, with a flag for a discarded remainder, and rounds once.

  Only \<open>ln\<close> has no definition here: Rust leaves its precision to the platform's mathematical
  library, so the definitions that call it take it as an argument.
\<close>

type_synonym f32 = u32
type_synonym f64 = u64

section \<open>Formats\<close>

record float_format =
  ff_exp_bits :: nat
  ff_frac_bits :: nat

definition binary32 :: float_format where
  "binary32 = \<lparr>ff_exp_bits = 8, ff_frac_bits = 23\<rparr>"

definition binary64 :: float_format where
  "binary64 = \<lparr>ff_exp_bits = 11, ff_frac_bits = 52\<rparr>"

definition ff_bias :: "float_format \<Rightarrow> int" where
  "ff_bias F = 2 ^ (ff_exp_bits F - 1) - 1"

text \<open>A decoded float: \<open>Fin s m e\<close> is \<open>m * 2^e\<close> with the sign \<open>s\<close> (\<open>True\<close> for negative).\<close>

datatype decoded = NaN | Inf bool | Fin bool int int

definition decode_bits :: "float_format \<Rightarrow> int \<Rightarrow> decoded" where
  "decode_bits F bits =
     (let fb = ff_frac_bits F; eb = ff_exp_bits F;
          frac = bits mod 2 ^ fb;
          ex = bits div 2 ^ fb mod 2 ^ eb;
          s = (bits div 2 ^ (fb + eb) mod 2 = 1)
      in if ex = 2 ^ eb - 1 then (if frac = 0 then Inf s else NaN)
         else if ex = 0 then Fin s frac (1 - ff_bias F - int fb)
         else Fin s (2 ^ fb + frac) (ex - ff_bias F - int fb))"

function bit_len :: "int \<Rightarrow> nat" where
  "bit_len n = (if n \<le> 0 then 0 else Suc (bit_len (n div 2)))"
  by pat_completeness auto
termination
  by (relation "measure nat") auto

declare bit_len.simps [simp del]

definition pack_bits :: "float_format \<Rightarrow> bool \<Rightarrow> int \<Rightarrow> int \<Rightarrow> int" where
  "pack_bits F s ex frac =
     (if s then 2 ^ (ff_frac_bits F + ff_exp_bits F) else 0) + ex * 2 ^ ff_frac_bits F + frac"

definition inf_bits :: "float_format \<Rightarrow> bool \<Rightarrow> int" where
  "inf_bits F s = pack_bits F s (2 ^ ff_exp_bits F - 1) 0"

definition nan_bits :: "float_format \<Rightarrow> int" where
  "nan_bits F = pack_bits F False (2 ^ ff_exp_bits F - 1) (2 ^ (ff_frac_bits F - 1))"

text \<open>
  Rounding of \<open>m * 2^e\<close>, where \<open>sticky\<close> says that a positive remainder below one unit of \<open>2^e\<close> was
  discarded. \<open>q\<close> is the exponent of the last kept bit, never below that of the subnormal numbers.
\<close>

definition round_half_even :: "int \<Rightarrow> nat \<Rightarrow> bool \<Rightarrow> int" where
  "round_half_even m d sticky =
     (let sig = m div 2 ^ d; lo = m mod 2 ^ d
      in if d = 0 then m
         else if 2 ^ (d - 1) < lo \<or> (lo = 2 ^ (d - 1) \<and> (sticky \<or> odd sig)) then sig + 1
         else sig)"

definition round_pack :: "float_format \<Rightarrow> bool \<Rightarrow> int \<Rightarrow> int \<Rightarrow> bool \<Rightarrow> int" where
  "round_pack F s m e sticky =
     (if m = 0 then pack_bits F s 0 0
      else
        let fb = ff_frac_bits F;
            qmin = 1 - ff_bias F - int fb;
            q = max (e + int (bit_len m) - 1 - int fb) qmin;
            sig0 = (if q \<le> e then m * 2 ^ nat (e - q) else round_half_even m (nat (q - e)) sticky);
            (sig, q') = (if sig0 = 2 ^ (fb + 1) then (2 ^ fb, q + 1) else (sig0, q))
        in if sig < 2 ^ fb then pack_bits F s 0 sig
           else
             let ex = q' - qmin + 1
             in if 2 ^ ff_exp_bits F - 1 \<le> ex then inf_bits F s else pack_bits F s ex (sig - 2 ^ fb))"

definition round_decoded :: "float_format \<Rightarrow> decoded \<Rightarrow> int" where
  "round_decoded F d =
     (case d of NaN \<Rightarrow> nan_bits F | Inf s \<Rightarrow> inf_bits F s | Fin s m e \<Rightarrow> round_pack F s m e False)"

section \<open>Conversions\<close>

definition decode32 :: "f32 \<Rightarrow> decoded" where
  "decode32 x = decode_bits binary32 (uint x)"

definition encode32 :: "int \<Rightarrow> f32" where
  "encode32 n = word_of_int n"

definition decode64 :: "f64 \<Rightarrow> decoded" where
  "decode64 x = decode_bits binary64 (uint x)"

text \<open>\<open>n as f32\<close> for an unsigned integer, \<open>n as f64\<close> for a signed one, \<open>x as f32\<close> for an \<open>f64\<close>.\<close>

definition f32_of_nat :: "nat \<Rightarrow> f32" where
  "f32_of_nat n = encode32 (round_pack binary32 False (int n) 0 False)"

definition f64_of_int :: "int \<Rightarrow> f64" where
  "f64_of_int i = word_of_int (round_pack binary64 (i < 0) \<bar>i\<bar> 0 False)"

definition f32_of_f64 :: "f64 \<Rightarrow> f32" where
  "f32_of_f64 x = encode32 (round_decoded binary32 (decode64 x))"

section \<open>Arithmetic\<close>

definition f32_neg_zero :: f32 where "f32_neg_zero = 0x80000000"
definition f32_nan :: f32 where "f32_nan = 0x7FC00000"
definition f32_neg_infinity :: f32 where "f32_neg_infinity = 0xFF800000"

definition fin_signed :: "bool \<Rightarrow> int \<Rightarrow> int" where
  "fin_signed s m = (if s then - m else m)"

definition f32_neg :: "f32 \<Rightarrow> f32" where
  "f32_neg x = xor x 0x80000000"

definition f32_abs :: "f32 \<Rightarrow> f32" where
  "f32_abs x = and x 0x7FFFFFFF"

definition f32_add :: "f32 \<Rightarrow> f32 \<Rightarrow> f32" where
  "f32_add x y =
     (case (decode32 x, decode32 y) of
        (NaN, _) \<Rightarrow> f32_nan
      | (_, NaN) \<Rightarrow> f32_nan
      | (Inf s, Inf t) \<Rightarrow> if s = t then x else f32_nan
      | (Inf _, _) \<Rightarrow> x
      | (_, Inf _) \<Rightarrow> y
      | (Fin s m e, Fin t n f) \<Rightarrow>
          let g = min e f;
              v = fin_signed s m * 2 ^ nat (e - g) + fin_signed t n * 2 ^ nat (f - g)
          in if v = 0 then (if s \<and> t then f32_neg_zero else 0)
             else encode32 (round_pack binary32 (v < 0) \<bar>v\<bar> g False))"

definition f32_sub :: "f32 \<Rightarrow> f32 \<Rightarrow> f32" where
  "f32_sub x y = f32_add x (f32_neg y)"

definition f32_mul :: "f32 \<Rightarrow> f32 \<Rightarrow> f32" where
  "f32_mul x y =
     (case (decode32 x, decode32 y) of
        (NaN, _) \<Rightarrow> f32_nan
      | (_, NaN) \<Rightarrow> f32_nan
      | (Inf s, Inf t) \<Rightarrow> encode32 (inf_bits binary32 (s \<noteq> t))
      | (Inf s, Fin t n _) \<Rightarrow> if n = 0 then f32_nan else encode32 (inf_bits binary32 (s \<noteq> t))
      | (Fin s m _, Inf t) \<Rightarrow> if m = 0 then f32_nan else encode32 (inf_bits binary32 (s \<noteq> t))
      | (Fin s m e, Fin t n f) \<Rightarrow> encode32 (round_pack binary32 (s \<noteq> t) (m * n) (e + f) False))"

text \<open>The quotient is computed with 60 extra bits, more than the format can keep.\<close>

definition f32_div :: "f32 \<Rightarrow> f32 \<Rightarrow> f32" where
  "f32_div x y =
     (case (decode32 x, decode32 y) of
        (NaN, _) \<Rightarrow> f32_nan
      | (_, NaN) \<Rightarrow> f32_nan
      | (Inf _, Inf _) \<Rightarrow> f32_nan
      | (Inf s, Fin t _ _) \<Rightarrow> encode32 (inf_bits binary32 (s \<noteq> t))
      | (Fin s _ _, Inf t) \<Rightarrow> encode32 (pack_bits binary32 (s \<noteq> t) 0 0)
      | (Fin s m e, Fin t n f) \<Rightarrow>
          if n = 0 then (if m = 0 then f32_nan else encode32 (inf_bits binary32 (s \<noteq> t)))
          else encode32 (round_pack binary32 (s \<noteq> t) (m * 2 ^ 60 div n) (e - f - 60)
                 (m * 2 ^ 60 mod n \<noteq> 0)))"

text \<open>The integer part of the square root, bit by bit from the top.\<close>

fun isqrt_from :: "nat \<Rightarrow> int \<Rightarrow> int \<Rightarrow> int" where
  "isqrt_from 0 r n = (if (r + 1) * (r + 1) \<le> n then r + 1 else r)"
| "isqrt_from (Suc k) r n =
     (let r' = r + 2 ^ Suc k in isqrt_from k (if r' * r' \<le> n then r' else r) n)"

definition isqrt :: "int \<Rightarrow> int" where
  "isqrt n = isqrt_from (bit_len n div 2 + 1) 0 n"

definition f32_sqrt :: "f32 \<Rightarrow> f32" where
  "f32_sqrt x =
     (case decode32 x of
        NaN \<Rightarrow> f32_nan
      | Inf s \<Rightarrow> if s then f32_nan else x
      | Fin s m e \<Rightarrow>
          if m = 0 then x
          else if s then f32_nan
          else
            let m' = (if even e then m else 2 * m) * 2 ^ 60;
                h = ((if even e then e else e - 1) - 60) div 2;
                r = isqrt m'
            in encode32 (round_pack binary32 False r h (r * r \<noteq> m')))"

text \<open>\<open>iter().sum::<f32>()\<close>.\<close>

definition f32_sum :: "f32 list \<Rightarrow> f32" where
  "f32_sum xs = fold (\<lambda>x acc. f32_add acc x) xs f32_neg_zero"

section \<open>Comparison\<close>

datatype ordering = Less | Equal | Greater

definition then_with :: "ordering \<Rightarrow> ordering \<Rightarrow> ordering" where
  "then_with a b = (case a of Equal \<Rightarrow> b | _ \<Rightarrow> a)"

definition cmp :: "'a::linorder \<Rightarrow> 'a \<Rightarrow> ordering" where
  "cmp x y = (if x < y then Less else if x = y then Equal else Greater)"

definition f32_partial_cmp :: "f32 \<Rightarrow> f32 \<Rightarrow> ordering option" where
  "f32_partial_cmp x y =
     (case (decode32 x, decode32 y) of
        (NaN, _) \<Rightarrow> None
      | (_, NaN) \<Rightarrow> None
      | (Inf s, Inf t) \<Rightarrow> Some (if s = t then Equal else if s then Less else Greater)
      | (Inf s, Fin _ _ _) \<Rightarrow> Some (if s then Less else Greater)
      | (Fin _ _ _, Inf t) \<Rightarrow> Some (if t then Greater else Less)
      | (Fin s m e, Fin t n f) \<Rightarrow>
          let g = min e f
          in Some (cmp (fin_signed s m * 2 ^ nat (e - g)) (fin_signed t n * 2 ^ nat (f - g))))"

definition f32_gt :: "f32 \<Rightarrow> f32 \<Rightarrow> bool" where
  "f32_gt x y = (f32_partial_cmp x y = Some Greater)"

definition f32_le :: "f32 \<Rightarrow> f32 \<Rightarrow> bool" where
  "f32_le x y = (f32_partial_cmp x y = Some Less \<or> f32_partial_cmp x y = Some Equal)"

definition f32_eq :: "f32 \<Rightarrow> f32 \<Rightarrow> bool" where
  "f32_eq x y = (f32_partial_cmp x y = Some Equal)"

definition f32_is_nan :: "f32 \<Rightarrow> bool" where
  "f32_is_nan x = (decode32 x = NaN)"

definition f32_is_finite :: "f32 \<Rightarrow> bool" where
  "f32_is_finite x = (case decode32 x of Fin _ _ _ \<Rightarrow> True | _ \<Rightarrow> False)"

definition f32_max :: "f32 \<Rightarrow> f32 \<Rightarrow> f32" where
  "f32_max x y = (if f32_is_nan x then y else if f32_is_nan y then x else if f32_gt y x then y else x)"

definition f32_min :: "f32 \<Rightarrow> f32 \<Rightarrow> f32" where
  "f32_min x y = (if f32_is_nan x then y else if f32_is_nan y then x else if f32_gt x y then y else x)"

section \<open>Sorting\<close>

text \<open>
  \<open>slice::sort_by\<close>, a stable sort: each element is inserted before the first later one that is not
  \<open>Less\<close>. For a comparison that is a total preorder this is the result the library specifies; for
  another comparison the library fixes only that the result is a permutation.
\<close>

fun insert_by :: "('a \<Rightarrow> 'a \<Rightarrow> ordering) \<Rightarrow> 'a \<Rightarrow> 'a list \<Rightarrow> 'a list" where
  "insert_by c x [] = [x]"
| "insert_by c x (y # ys) = (if c y x = Less then y # insert_by c x ys else x # y # ys)"

definition sort_by :: "('a \<Rightarrow> 'a \<Rightarrow> ordering) \<Rightarrow> 'a list \<Rightarrow> 'a list" where
  "sort_by c xs = foldr (insert_by c) xs []"

text \<open>\<open>Iterator::min_by\<close>: the first of the minimal elements.\<close>

fun min_by :: "('a \<Rightarrow> 'a \<Rightarrow> ordering) \<Rightarrow> 'a list \<Rightarrow> 'a option" where
  "min_by c [] = None"
| "min_by c (x # xs) = Some (fold (\<lambda>y b. if c b y = Greater then y else b) xs x)"

text \<open>\<open>score_order\<close> of the ranking code: descending, with incomparable scores equal.\<close>

definition score_order :: "f32 \<Rightarrow> f32 \<Rightarrow> ordering" where
  "score_order l r = (case f32_partial_cmp r l of Some o' \<Rightarrow> o' | None \<Rightarrow> Equal)"

lemma set_insert_by [simp]: "set (insert_by c x xs) = insert x (set xs)"
  by (induction xs) auto

lemma length_insert_by [simp]: "length (insert_by c x xs) = Suc (length xs)"
  by (induction xs) auto

lemma set_sort_by [simp]: "set (sort_by c xs) = set xs"
  unfolding sort_by_def by (induction xs) auto

lemma length_sort_by [simp]: "length (sort_by c xs) = length xs"
  unfolding sort_by_def by (induction xs) auto

lemma distinct_map_insert_by:
  "distinct (map f (insert_by c x xs)) \<longleftrightarrow> distinct (map f (x # xs))"
  by (induction xs) auto

lemma distinct_map_sort_by [simp]: "distinct (map f (sort_by c xs)) \<longleftrightarrow> distinct (map f xs)"
  unfolding sort_by_def
proof (induction xs)
  case (Cons x xs)
  have "set (foldr (insert_by c) xs []) = set xs"
    using set_sort_by [of c xs] by (simp add: sort_by_def)
  with Cons show ?case by (auto simp: distinct_map_insert_by)
qed simp

lemma sort_by_Nil [simp]: "sort_by c [] = []"
  by (simp add: sort_by_def)

lemma min_by_fold_in: "fold (\<lambda>y b. if c b y = Greater then y else b) xs x \<in> insert x (set xs)"
proof (induction xs arbitrary: x)
  case (Cons y ys)
  then show ?case using Cons.IH [of y] Cons.IH [of x] by auto
qed simp

lemma min_by_SomeD: "min_by c xs = Some x \<Longrightarrow> x \<in> set xs"
proof (cases xs)
  case (Cons y ys)
  assume "min_by c xs = Some x"
  with Cons min_by_fold_in [of c ys y] show ?thesis by auto
qed simp

lemma min_by_None_iff [simp]: "min_by c xs = None \<longleftrightarrow> xs = []"
  by (cases xs) auto

text \<open>A comparison that is a total preorder: sorting by it gives an ordered list.\<close>

definition total_preorder :: "'a set \<Rightarrow> ('a \<Rightarrow> 'a \<Rightarrow> ordering) \<Rightarrow> bool" where
  "total_preorder A c \<longleftrightarrow>
     (\<forall>x \<in> A. \<forall>y \<in> A. c x y = Greater \<longrightarrow> c y x = Less) \<and>
     (\<forall>x \<in> A. \<forall>y \<in> A. c x y = Less \<longrightarrow> c y x = Greater) \<and>
     (\<forall>x \<in> A. \<forall>y \<in> A. \<forall>z \<in> A. c x y \<noteq> Greater \<longrightarrow> c y z \<noteq> Greater \<longrightarrow> c x z \<noteq> Greater)"

lemma total_preorder_total: "total_preorder A c \<Longrightarrow> x \<in> A \<Longrightarrow> y \<in> A \<Longrightarrow> c y x \<noteq> Less \<Longrightarrow> c x y \<noteq> Greater"
  unfolding total_preorder_def by blast

lemma total_preorder_trans:
  "total_preorder A c \<Longrightarrow> x \<in> A \<Longrightarrow> y \<in> A \<Longrightarrow> z \<in> A \<Longrightarrow>
   c x y \<noteq> Greater \<Longrightarrow> c y z \<noteq> Greater \<Longrightarrow> c x z \<noteq> Greater"
  unfolding total_preorder_def by blast

lemma sorted_insert_by:
  assumes "total_preorder A c" and "x \<in> A" and "set xs \<subseteq> A"
    and "sorted_wrt (\<lambda>a b. c a b \<noteq> Greater) xs"
  shows "sorted_wrt (\<lambda>a b. c a b \<noteq> Greater) (insert_by c x xs)"
  using assms(3,4)
proof (induction xs)
  case (Cons y ys)
  have y: "y \<in> A" and ys: "set ys \<subseteq> A" using Cons.prems(1) by auto
  have after: "c y z \<noteq> Greater" if "z \<in> set ys" for z using Cons.prems(2) that by simp
  show ?case
  proof (cases "c y x = Less")
    case True
    have "sorted_wrt (\<lambda>a b. c a b \<noteq> Greater) (insert_by c x ys)"
      using Cons.IH [OF ys] Cons.prems(2) by simp
    with True after show ?thesis by simp
  next
    case False
    then have xy: "c x y \<noteq> Greater"
      by (rule total_preorder_total [OF assms(1,2) y])
    have "c x z \<noteq> Greater" if "z \<in> set ys" for z
      by (rule total_preorder_trans [OF assms(1,2) y _ xy after [OF that]]) (use ys that in blast)
    with False xy Cons.prems(2) show ?thesis by simp
  qed
qed simp

lemma sorted_sort_by:
  "total_preorder A c \<Longrightarrow> set xs \<subseteq> A \<Longrightarrow> sorted_wrt (\<lambda>a b. c a b \<noteq> Greater) (sort_by c xs)"
proof (induction xs)
  case (Cons x xs)
  have "sorted_wrt (\<lambda>a b. c a b \<noteq> Greater) (insert_by c x (sort_by c xs))"
    by (rule sorted_insert_by [OF Cons.prems(1)]) (use Cons in simp_all)
  then show ?case by (simp add: sort_by_def)
qed simp

section \<open>The order of the scores\<close>

lemma cmp_simps [simp]: "cmp x x = Equal" "cmp x y = Less \<longleftrightarrow> x < y" "cmp x y = Equal \<longleftrightarrow> x = y"
  "cmp x y = Greater \<longleftrightarrow> y < x"
  by (auto simp: cmp_def)

lemma then_with_simps [simp]: "then_with Equal b = b" "then_with Less b = Less" "then_with Greater b = Greater"
  by (simp_all add: then_with_def)

lemma then_with_eq [simp]:
  "then_with a b = Less \<longleftrightarrow> a = Less \<or> (a = Equal \<and> b = Less)"
  "then_with a b = Equal \<longleftrightarrow> a = Equal \<and> b = Equal"
  "then_with a b = Greater \<longleftrightarrow> a = Greater \<or> (a = Equal \<and> b = Greater)"
  by (cases a; simp)+

text \<open>Every number that is not a NaN has a rank, its value in units of the smallest subnormal.\<close>

definition f32_rank :: "f32 \<Rightarrow> int \<times> int" where
  "f32_rank x =
     (case decode32 x of
        NaN \<Rightarrow> (0, 0)
      | Inf s \<Rightarrow> (if s then - 1 else 1, 0)
      | Fin s m e \<Rightarrow> (0, fin_signed s m * 2 ^ nat (e + 149)))"

lemma decode32_exp:
  assumes "decode32 x = Fin s m e"
  shows "- 149 \<le> e"
proof -
  define ex where "ex = uint x div 8388608 mod 256"
  have "0 \<le> ex" by (simp add: ex_def)
  moreover have "e = - 149 \<or> (ex \<noteq> 0 \<and> e = ex - 150)"
    using assms
    by (simp add: decode32_def decode_bits_def binary32_def ff_bias_def Let_def flip: ex_def split: if_splits)
  ultimately show ?thesis by linarith
qed

lemma cmp_scale: "cmp (a * 2 ^ k) (b * 2 ^ k) = cmp a b" for a b :: int
  by (simp add: cmp_def)

lemma partial_cmp_rank:
  assumes "\<not> f32_is_nan x" and "\<not> f32_is_nan y"
  shows "f32_partial_cmp x y = Some (cmp (f32_rank x) (f32_rank y))"
proof (cases "decode32 x"; cases "decode32 y")
  fix s m e t n f
  assume d: "decode32 x = Fin s m e" "decode32 y = Fin t n f"
  let ?g = "min e f"
  have ge: "- 149 \<le> e" "- 149 \<le> f" using d decode32_exp by blast+
  then have scale: "(2 :: int) ^ nat (e + 149) = 2 ^ nat (e - ?g) * 2 ^ nat (?g + 149)"
    "(2 :: int) ^ nat (f + 149) = 2 ^ nat (f - ?g) * 2 ^ nat (?g + 149)"
    by (simp_all flip: power_add nat_add_distrib)
  have "cmp (fin_signed s m * 2 ^ nat (e + 149)) (fin_signed t n * 2 ^ nat (f + 149)) =
      cmp (fin_signed s m * 2 ^ nat (e - ?g)) (fin_signed t n * 2 ^ nat (f - ?g))"
    unfolding scale by (simp only: mult.assoc [symmetric] cmp_scale)
  moreover have "cmp (0 :: int, a) (0 :: int, b) = cmp a b" for a b :: int
    by (simp add: cmp_def)
  ultimately show ?thesis using d by (simp add: f32_partial_cmp_def f32_rank_def Let_def)
qed (use assms in \<open>auto simp: f32_partial_cmp_def f32_rank_def f32_is_nan_def cmp_def\<close>)

lemma score_order_rank:
  "\<not> f32_is_nan x \<Longrightarrow> \<not> f32_is_nan y \<Longrightarrow> score_order x y = cmp (f32_rank y) (f32_rank x)"
  by (simp add: score_order_def partial_cmp_rank)

text \<open>Sorting by a total preorder that separates the elements does not depend on their order.\<close>

lemma sorted_wrt_unique:
  assumes "total_preorder A c" and "\<And>x y. x \<in> A \<Longrightarrow> y \<in> A \<Longrightarrow> c x y = Equal \<Longrightarrow> x = y"
    and "sorted_wrt (\<lambda>a b. c a b \<noteq> Greater) xs" "sorted_wrt (\<lambda>a b. c a b \<noteq> Greater) ys"
    and "mset xs = mset ys" "set xs \<subseteq> A"
  shows "xs = ys"
  using assms(3-6)
proof (induction xs arbitrary: ys)
  case (Cons x xs)
  then obtain y zs where ys: "ys = y # zs" by (cases ys) auto
  have in_A: "x \<in> A" "y \<in> A" using Cons.prems ys by (metis list.set_intros(1) mset_eq_setD subsetD)+
  have "x = y"
  proof (rule ccontr)
    assume ne: "x \<noteq> y"
    have "y \<in> set (x # xs)" "x \<in> set (y # zs)"
      using Cons.prems(3) ys by (metis list.set_intros(1) mset_eq_setD)+
    with ne have "c x y \<noteq> Greater" "c y x \<noteq> Greater" using Cons.prems(1,2) ys by auto
    moreover have "c x y = Less \<Longrightarrow> c y x = Greater"
      using assms(1) in_A unfolding total_preorder_def by blast
    ultimately have "c x y = Equal" by (metis ordering.exhaust)
    with assms(2) in_A ne show False by blast
  qed
  moreover have "xs = zs"
    using Cons.IH [of zs] Cons.prems ys calculation by simp
  ultimately show ?case using ys by simp
qed simp

lemma mset_insert_by [simp]: "mset (insert_by c x xs) = add_mset x (mset xs)"
  by (induction xs) auto

lemma mset_sort_by [simp]: "mset (sort_by c xs) = mset xs"
  unfolding sort_by_def by (induction xs) auto

lemma sort_by_cong_mset:
  assumes "total_preorder A c" and "\<And>x y. x \<in> A \<Longrightarrow> y \<in> A \<Longrightarrow> c x y = Equal \<Longrightarrow> x = y"
    and "mset xs = mset ys" and "set xs \<subseteq> A"
  shows "sort_by c xs = sort_by c ys"
proof (rule sorted_wrt_unique [OF assms(1,2)])
  show "sorted_wrt (\<lambda>a b. c a b \<noteq> Greater) (sort_by c xs)"
    by (rule sorted_sort_by [OF assms(1,4)])
  have "set ys \<subseteq> A" using assms(3,4) by (metis mset_eq_setD)
  then show "sorted_wrt (\<lambda>a b. c a b \<noteq> Greater) (sort_by c ys)"
    by (rule sorted_sort_by [OF assms(1)])
qed (use assms in simp_all)

end
