(* ===== verification/Segment.thy ===== *)
theory Segment
  imports Reads F32
begin

text \<open>
  Sealed segments, from \<open>crates/tracedb-segment/src/lib.rs\<close>: the segment object with its module
  blocks, its checksum over a normalised JSON form, verification, and the file format (a JSON document
  in a \<open>bincode\<close> byte string in an artifact envelope, possibly encrypted; plain JSON is still read).

  The artifact files of a database are a map from relative paths to contents. A file is written to a
  temporary name and renamed, so it has its old or its new contents. The codecs are parameters, and
  the nonce an encryption draws is an argument. \<open>publish_returns_written\<close> shows that publishing to a
  new path returns the object of exactly the given records, and that later reads return the same.
\<close>

section \<open>Data\<close>

record segment_record =
  sg_table :: string
  sg_record_id :: string
  sg_tenant_id :: string
  sg_version_id :: u64
  sg_fields :: fields
  sg_text :: "(string, string) bmap"
  sg_vectors :: "(string, f32 list) bmap"

record module_block_descriptor =
  mb_module_id :: string
  mb_module_version :: string
  mb_block_kind :: string
  mb_codec_id :: string
  mb_logical_row_count :: nat
  mb_checksum :: bytes

record segment_object =
  sb_format_version :: u32
  sb_segment_id :: string
  sb_generation :: u64
  sb_state :: segment_state
  sb_state_history :: "segment_state list"
  sb_epoch_min :: u64
  sb_epoch_max :: u64
  sb_table_set :: "string list"
  sb_tenant_set :: "string list"
  sb_module_blocks :: "module_block_descriptor list"
  sb_records :: "segment_record list"
  sb_payload_checksum :: bytes
  sb_object_checksum :: bytes

record seg_prims = cur_prims +
  segment_records_bin :: "segment_record list \<Rightarrow> string + bytes"
  bytes_bin :: "bytes \<Rightarrow> string + bytes"
  bytes_unbin :: "bytes \<Rightarrow> string + bytes"
  segment_json :: "segment_object \<Rightarrow> string + bytes"
  segment_parse :: "bytes \<Rightarrow> string + segment_object"

abbreviation (input) seg_art :: "'z seg_prims_scheme \<Rightarrow> art_prims" where
  "seg_art P \<equiv> art_prims.truncate P"

type_synonym artifact_files = "(string, bytes) bmap"

definition segment_object_format_version :: u32 where "segment_object_format_version = 2"
definition segment_legacy_json_format_version :: u32 where "segment_legacy_json_format_version = 1"

text \<open>\<open>map_err(|error| ArtifactCorruption(format!("...{error}")))\<close>.\<close>

definition artifact_result :: "string \<Rightarrow> string + 'a \<Rightarrow> 'a result" where
  "artifact_result what r = (case r of Inl e \<Rightarrow> Inl (ArtifactCorruption (what @ e)) | Inr x \<Rightarrow> Inr x)"

lemma artifact_result_eq_Inr [result_simps]: "artifact_result what r = Inr x \<longleftrightarrow> r = Inr x"
  by (auto simp: artifact_result_def split: sum.splits)

lemma artifact_result_Inr [simp]: "artifact_result what (Inr x) = Inr x"
  by (simp add: artifact_result_def)

section \<open>Building\<close>

definition module_block_new :: "'z prims_scheme \<Rightarrow> string \<Rightarrow> string \<Rightarrow> string \<Rightarrow> nat \<Rightarrow> module_block_descriptor" where
  "module_block_new P module_id block_kind codec_id logical_row_count =
     \<lparr>mb_module_id = module_id, mb_module_version = cargo_pkg_version, mb_block_kind = block_kind,
      mb_codec_id = codec_id, mb_logical_row_count = logical_row_count,
      mb_checksum = sha256 P (module_id @ '':'' @ block_kind @ '':'' @ codec_id @ '':'' @ show_nat logical_row_count)\<rparr>"

definition publication_state_history :: "segment_state list" where
  "publication_state_history = [Building, Built, Verifying, Verified, Publishing, Published]"

definition sorted_unique :: "string list \<Rightarrow> string list" where
  "sorted_unique vals = remdups_adj (sort vals)"

text \<open>The checksum is that of the JSON text after one round trip.\<close>

definition compute_segment_object_checksum :: "seg_prims \<Rightarrow> segment_object \<Rightarrow> bytes result" where
  "compute_segment_object_checksum P ob =
     rbind (json_result (segment_json P (ob\<lparr>sb_object_checksum := zero32\<rparr>))) (\<lambda>bs.
     rbind (json_result (segment_parse P bs)) (\<lambda>round_tripped.
     rbind (json_result (segment_json P round_tripped)) (\<lambda>bs'.
     Inr (sha256 P bs'))))"

definition compute_segment_object_checksum_legacy_json :: "seg_prims \<Rightarrow> segment_object \<Rightarrow> bytes result" where
  "compute_segment_object_checksum_legacy_json P ob =
     rbind (json_result (segment_json P (ob\<lparr>sb_object_checksum := zero32\<rparr>))) (\<lambda>bs.
     rbind (json_result (segment_parse P bs)) (\<lambda>round_tripped.
     rbind (json_result (segment_json P round_tripped)) (\<lambda>bs'.
     Inr (sha256 P bs'))))"

text \<open>The object before its own checksum is known.\<close>

definition unsealed_object ::
    "seg_prims \<Rightarrow> string \<Rightarrow> u64 \<Rightarrow> segment_record list \<Rightarrow> bytes \<Rightarrow> segment_object" where
  "unsealed_object P segment_id generation records payload_checksum =
     \<lparr>sb_format_version = segment_object_format_version, sb_segment_id = segment_id,
      sb_generation = generation, sb_state = Published, sb_state_history = publication_state_history,
      sb_epoch_min = generation, sb_epoch_max = generation,
      sb_table_set = sorted_unique (map sg_table records),
      sb_tenant_set = sorted_unique (map sg_tenant_id records),
      sb_module_blocks =
        [module_block_new P ''tracedb-text'' ''postings'' ''text-postings-v1''
           (length (filter (\<lambda>r. sg_text r \<noteq> []) records)),
         module_block_new P ''tracedb-vector'' ''vector-pages'' ''vector-pages-v1''
           (length (filter (\<lambda>r. sg_vectors r \<noteq> []) records)),
         module_block_new P ''tracedb-policy'' ''policy-bitmaps'' ''policy-bitmap-v1'' (length records)],
      sb_records = records, sb_payload_checksum = payload_checksum, sb_object_checksum = zero32\<rparr>"

definition from_records :: "seg_prims \<Rightarrow> string \<Rightarrow> u64 \<Rightarrow> segment_record list \<Rightarrow> segment_object result" where
  "from_records P segment_id generation records =
     rbind (artifact_result ''serialize segment records: '' (segment_records_bin P records)) (\<lambda>bs.
     let ob = unsealed_object P segment_id generation records (sha256 P bs) in
     rbind (compute_segment_object_checksum P ob) (\<lambda>checksum.
     Inr (ob\<lparr>sb_object_checksum := checksum\<rparr>)))"

definition segment_minimal :: "seg_prims \<Rightarrow> string \<Rightarrow> u64 \<Rightarrow> segment_object result" where
  "segment_minimal P segment_id generation = from_records P segment_id generation []"

definition object_manifest :: "segment_object \<Rightarrow> segment_manifest" where
  "object_manifest ob =
     \<lparr>sm_segment_id = sb_segment_id ob, sm_generation = sb_generation ob, sm_state = sb_state ob,
      sm_table_set = sb_table_set ob, sm_tenant_set = sb_tenant_set ob\<rparr>"

definition published_segment :: "string \<Rightarrow> u64 \<Rightarrow> segment_manifest" where
  "published_segment segment_id generation =
     \<lparr>sm_segment_id = segment_id, sm_generation = generation, sm_state = Published,
      sm_table_set = [], sm_tenant_set = []\<rparr>"

section \<open>Verifying\<close>

definition verify_segment_object :: "seg_prims \<Rightarrow> segment_object \<Rightarrow> unit result" where
  "verify_segment_object P ob =
     rbind (ensure (sb_format_version ob \<in> {segment_object_format_version, segment_legacy_json_format_version})
       (ManifestCorruption (''unsupported segment object format '' @ show_nat (unat (sb_format_version ob))))) (\<lambda>_.
     rbind (ensure (trim (sb_segment_id ob) \<noteq> [])
       (ManifestCorruption ''segment object id cannot be empty'')) (\<lambda>_.
     rbind (ensure (sb_payload_checksum ob \<noteq> zero32)
       (ManifestCorruption (''segment object '' @ sb_segment_id ob @ '' has empty payload checksum''))) (\<lambda>_.
     rbind (compute_segment_object_checksum P ob) (\<lambda>actual.
     rbind (if actual = sb_object_checksum ob then Inr True
            else if sb_format_version ob = segment_legacy_json_format_version
            then rbind (compute_segment_object_checksum_legacy_json P ob) (\<lambda>legacy.
                 Inr (legacy = sb_object_checksum ob))
            else Inr False) (\<lambda>checksum_matches.
     ensure checksum_matches
       (ManifestCorruption (''segment object checksum mismatch: expected '' @
          debug_bytes (sb_object_checksum ob) @ '', got '' @ debug_bytes actual)))))))"

section \<open>Files\<close>

definition segment_from_body :: "seg_prims \<Rightarrow> bytes \<Rightarrow> segment_object result" where
  "segment_from_body P body =
     (if starts_with body artifact_envelope_magic then
        rbind (decode_artifact_envelope (seg_art P) body) (\<lambda>envelope.
        rbind (ensure (ah_kind (ae_header envelope) = ''segment'')
          (ArtifactCorruption (''segment artifact kind mismatch: '' @ ah_kind (ae_header envelope)))) (\<lambda>_.
        rbind (artifact_result ''decode binary segment payload: '' (bytes_unbin P (ae_payload envelope))) (\<lambda>json_bytes.
        json_result (segment_parse P json_bytes))))
      else json_result (segment_parse P body))"

definition read_segment_object_with_encryption ::
    "seg_prims \<Rightarrow> artifact_files \<Rightarrow> string \<Rightarrow> encryption_context option \<Rightarrow> segment_object result" where
  "read_segment_object_with_encryption P files path encryption =
     rbind (ok_or (Io IoNotFound ''No such file or directory (os error 2)'') (bm_get files path)) (\<lambda>content.
     rbind (decrypt_artifact_if_needed (seg_art P) encryption ''segment'' content) (\<lambda>body.
     rbind (segment_from_body P body) (\<lambda>ob.
     rbind (verify_segment_object P ob) (\<lambda>_.
     Inr ob))))"

definition read_segment_object :: "seg_prims \<Rightarrow> artifact_files \<Rightarrow> string \<Rightarrow> segment_object result" where
  "read_segment_object P files path = read_segment_object_with_encryption P files path None"

text \<open>What \<open>write_segment_object_with_encryption\<close> puts into the file.\<close>

definition segment_file_content ::
    "seg_prims \<Rightarrow> bytes \<Rightarrow> segment_object \<Rightarrow> encryption_context option \<Rightarrow> bytes result" where
  "segment_file_content P nonce ob encryption =
     rbind (verify_segment_object P ob) (\<lambda>_.
     rbind (json_result (segment_json P ob)) (\<lambda>json_bytes.
     rbind (artifact_result ''encode binary segment payload: '' (bytes_bin P json_bytes)) (\<lambda>payload.
     let header = artifact_header_new P ''segment'' ''bincode'' (sb_segment_id ob) (sb_generation ob)
           (sb_generation ob) (sb_epoch_min ob) (sb_epoch_max ob) (sb_object_checksum ob) payload in
     rbind (encode_artifact_envelope (seg_art P) header payload) (\<lambda>body.
     case encryption of
       Some ctx \<Rightarrow> encrypt_artifact (seg_art P) nonce ctx ''segment'' body
     | None \<Rightarrow> Inr body))))"

definition write_segment_object_with_encryption ::
    "seg_prims \<Rightarrow> bytes \<Rightarrow> string \<Rightarrow> segment_object \<Rightarrow> encryption_context option \<Rightarrow> (artifact_files, unit) op" where
  "write_segment_object_with_encryption P nonce path ob encryption =
     eupdates (\<lambda>files. rbind (segment_file_content P nonce ob encryption) (\<lambda>body.
       Inr ((), bm_insert path body files)))"

definition write_segment_object :: "seg_prims \<Rightarrow> string \<Rightarrow> segment_object \<Rightarrow> (artifact_files, unit) op" where
  "write_segment_object P path ob = write_segment_object_with_encryption P [] path ob None"

definition publish_segment_object ::
    "seg_prims \<Rightarrow> string \<Rightarrow> string \<Rightarrow> u64 \<Rightarrow> (artifact_files, segment_object) op" where
  "publish_segment_object P path segment_id generation files =
     (if bm_contains files path then
        ereads (\<lambda>files.
          rbind (read_segment_object P files path) (\<lambda>ob.
          rbind (ensure (sb_segment_id ob = segment_id)
            (ManifestCorruption (''segment object id mismatch: expected '' @ segment_id @ '', got '' @ sb_segment_id ob))) (\<lambda>_.
          rbind (ensure (sb_generation ob = generation)
            (ManifestCorruption (''segment object generation mismatch: expected '' @ show_nat (unat generation) @
               '', got '' @ show_nat (unat (sb_generation ob))))) (\<lambda>_.
          rbind (ensure (sb_state ob = Published)
            (ManifestCorruption (''segment object '' @ sb_segment_id ob @ '' is not published''))) (\<lambda>_.
          Inr ob))))) files
      else
        ebind (ereads (\<lambda>_. segment_minimal P segment_id generation)) (\<lambda>ob.
        ebind (write_segment_object P path ob) (\<lambda>_.
        ereads (\<lambda>files. read_segment_object P files path))) files)"

definition publish_segment_records_with_encryption ::
    "seg_prims \<Rightarrow> bytes \<Rightarrow> string \<Rightarrow> string \<Rightarrow> u64 \<Rightarrow> segment_record list \<Rightarrow> encryption_context option \<Rightarrow>
     (artifact_files, segment_object) op" where
  "publish_segment_records_with_encryption P nonce path segment_id generation records encryption files =
     (if bm_contains files path then
        ereads (\<lambda>files. read_segment_object_with_encryption P files path encryption) files
      else
        ebind (ereads (\<lambda>_. from_records P segment_id generation records)) (\<lambda>ob.
        ebind (write_segment_object_with_encryption P nonce path ob encryption) (\<lambda>_.
        ereads (\<lambda>files. read_segment_object_with_encryption P files path encryption))) files)"

definition publish_segment_records ::
    "seg_prims \<Rightarrow> string \<Rightarrow> string \<Rightarrow> u64 \<Rightarrow> segment_record list \<Rightarrow> (artifact_files, segment_object) op" where
  "publish_segment_records P path segment_id generation records =
     publish_segment_records_with_encryption P [] path segment_id generation records None"

section \<open>Reading back\<close>

text \<open>
  What is asked of the codecs. JSON reads back an object when its numbers are finite and survive
  the decimal form; \<open>reads_back\<close> states this for one object.
\<close>

definition reads_back :: "seg_prims \<Rightarrow> segment_object \<Rightarrow> bool" where
  "reads_back P ob \<longleftrightarrow> (\<forall>bs. segment_json P ob = Inr bs \<longrightarrow> segment_parse P bs = Inr ob)"

definition bytes_codec_ok :: "seg_prims \<Rightarrow> bool" where
  "bytes_codec_ok P \<longleftrightarrow> (\<forall>bs out. bytes_bin P bs = Inr out \<longrightarrow> bytes_unbin P out = Inr bs)"

lemma header_new_truncate [simp]:
  "artifact_header_new (art_prims.truncate P) = artifact_header_new P"
  by (simp add: artifact_header_new_def art_prims.defs fun_eq_iff)

lemma compute_checksum_ignores [simp]:
  "compute_segment_object_checksum P (ob\<lparr>sb_object_checksum := c\<rparr>) = compute_segment_object_checksum P ob"
  by (simp add: compute_segment_object_checksum_def)

text \<open>Decoding what was encoded, for any header made by \<open>new\<close>.\<close>

lemma decode_sealed:
  assumes "header_codec_ok P" and "encode_artifact_envelope P h payload = Inr bs"
    and "ah_object_checksum h = zero32"
  shows "starts_with bs artifact_envelope_magic \<and>
    (\<exists>sum. decode_artifact_envelope P bs = Inr \<lparr>ae_header = h\<lparr>ah_object_checksum := sum\<rparr>, ae_payload = payload\<rparr>)"
proof -
  from assms(2) obtain without hb where
    pay: "ah_payload_len h = of_nat (length payload)" "ah_payload_checksum h = sha256 P payload"
    and wo: "serialize_artifact_header P (h\<lparr>ah_object_checksum := zero32\<rparr>) = Inr without"
    and hb: "serialize_artifact_header P (h\<lparr>ah_object_checksum := sha256 P (without @ payload)\<rparr>) = Inr hb"
    and bs: "bs = artifact_envelope_magic @ u32_le (of_nat (length hb)) @ hb @ payload"
    by (auto simp: encode_artifact_envelope_def rbind_eq_Inr ensure_eq_Inr)
  from hb assms(1) have "bin_header_de P hb = Inr (h\<lparr>ah_object_checksum := sha256 P (without @ payload)\<rparr>)"
    and "length hb < 2 ^ 32"
    by (auto simp: serialize_artifact_header_def header_codec_ok_def split: sum.splits)
  from decode_layout [OF this(2,1), of payload] pay wo show ?thesis
    unfolding bs by auto
qed

lemma decrypt_encrypted:
  assumes "aead_ok P" and "length nonce = nonce_len" and "encrypt_artifact P nonce ctx kind plain = Inr body"
  shows "decrypt_artifact_if_needed P (Some ctx) kind body = Inr plain"
proof -
  from assms(3) obtain c where
    c: "aead_encrypt P (ec_dek ctx) nonce (artifact_aad kind (ec_key_id ctx)) plain = Inr c"
    and body: "body = encrypted_artifact_magic @ nonce @ c"
    by (auto simp: encrypt_artifact_def split: sum.splits)
  from assms(1) c have "c \<noteq> []"
    and "aead_decrypt P (ec_dek ctx) nonce (artifact_aad kind (ec_key_id ctx)) c = Some plain"
    by (auto simp: aead_ok_def)
  then show ?thesis
    using decrypt_layout [OF assms(2), of c P ctx kind]
    by (simp add: decrypt_artifact_if_needed_def is_encrypted_artifact_def body)
qed

lemma plain_not_encrypted: "starts_with bs artifact_envelope_magic \<Longrightarrow> \<not> is_encrypted_artifact bs"
  by (auto simp: starts_with_iff_prefix prefix_def is_encrypted_artifact_def artifact_envelope_magic_def
      encrypted_artifact_magic_def)

text \<open>An artifact body, encrypted or not, is read back as it was written.\<close>

lemma body_roundtrip:
  assumes "aead_ok P" and "encryption = None \<or> length nonce = nonce_len"
    and "starts_with plain artifact_envelope_magic"
    and "(case encryption of Some ctx \<Rightarrow> encrypt_artifact P nonce ctx kind plain | None \<Rightarrow> Inr plain) = Inr body"
  shows "decrypt_artifact_if_needed P encryption kind body = Inr plain"
  using assms decrypt_encrypted plain_not_encrypted
  by (cases encryption) (auto simp: decrypt_artifact_if_needed_def)

definition seg_codecs_ok :: "seg_prims \<Rightarrow> bool" where
  "seg_codecs_ok P \<longleftrightarrow> header_codec_ok (seg_art P) \<and> aead_ok (seg_art P) \<and> bytes_codec_ok P"

lemma segment_content_read:
  assumes codecs: "seg_codecs_ok P" and ob: "reads_back P ob"
    and nonce: "encryption = None \<or> length nonce = nonce_len"
    and content: "segment_file_content P nonce ob encryption = Inr body"
  shows "read_segment_object_with_encryption P (bm_insert path body files) path encryption = Inr ob"
proof -
  let ?header = "\<lambda>payload. artifact_header_new P ''segment'' ''bincode'' (sb_segment_id ob) (sb_generation ob)
           (sb_generation ob) (sb_epoch_min ob) (sb_epoch_max ob) (sb_object_checksum ob) payload"
  from content obtain json_bytes payload plain where
    ok: "verify_segment_object P ob = Inr ()" and js: "segment_json P ob = Inr json_bytes"
    and pay: "bytes_bin P json_bytes = Inr payload"
    and enc: "encode_artifact_envelope (seg_art P) (?header payload) payload = Inr plain"
    and body: "(case encryption of Some ctx \<Rightarrow> encrypt_artifact (seg_art P) nonce ctx ''segment'' plain | None \<Rightarrow> Inr plain) = Inr body"
    by (auto simp: segment_file_content_def result_simps Let_def)
  have zero: "ah_object_checksum (?header payload) = zero32" by (simp add: artifact_header_new_def)
  from decode_sealed [OF _ enc zero] codecs obtain s where
    magic: "starts_with plain artifact_envelope_magic"
    and dec: "decode_artifact_envelope (seg_art P) plain =
        Inr \<lparr>ae_header = (?header payload)\<lparr>ah_object_checksum := s\<rparr>, ae_payload = payload\<rparr>"
    by (auto simp: seg_codecs_ok_def)
  have "segment_from_body P plain = Inr ob"
    using magic dec pay js ob codecs
    by (simp add: segment_from_body_def artifact_header_new_def reads_back_def seg_codecs_ok_def bytes_codec_ok_def)
  moreover have "decrypt_artifact_if_needed (seg_art P) encryption ''segment'' body = Inr plain"
    using body_roundtrip [OF _ nonce magic body] codecs by (simp add: seg_codecs_ok_def)
  ultimately show ?thesis
    using ok by (simp add: read_segment_object_with_encryption_def)
qed

text \<open>
  Publishing to a new path: on success the object holds the given records under the given identity,
  lists exactly their tables and tenants, and every later read of that path returns it.
\<close>

lemma sorted_unique_spec: "set (sorted_unique xs) = set xs" "sorted_wrt (<) (sorted_unique xs)"
  unfolding sorted_unique_def by (simp, rule sorted_remdups_adj_distinct, simp)

theorem publish_returns_written:
  assumes codecs: "seg_codecs_ok P" and fresh: "\<not> bm_contains files path"
    and nonce: "encryption = None \<or> length nonce = nonce_len"
    and ok: "from_records P segment_id generation records = Inr ob" and rb: "reads_back P ob"
    and run: "publish_segment_records_with_encryption P nonce path segment_id generation records encryption files = (Inr ob', files')"
  shows "ob' = ob \<and> sb_records ob' = records \<and> sb_segment_id ob' = segment_id \<and> sb_generation ob' = generation \<and>
    sb_state ob' = Published \<and> set (sb_table_set ob') = sg_table ` set records \<and>
    set (sb_tenant_set ob') = sg_tenant_id ` set records \<and>
    read_segment_object_with_encryption P files' path encryption = Inr ob' \<and>
    (\<forall>other. other \<noteq> path \<longrightarrow> bm_get files' other = bm_get files other)"
proof -
  from run fresh ok obtain body where
    content: "segment_file_content P nonce ob encryption = Inr body"
    and files': "files' = bm_insert path body files"
    and rd: "read_segment_object_with_encryption P files' path encryption = Inr ob'"
    by (auto simp: publish_segment_records_with_encryption_def ebind_def ereads_def eupdates_def
        write_segment_object_with_encryption_def rbind_eq_Inr split: sum.splits prod.splits)
  have "ob' = ob"
    using segment_content_read [OF codecs rb nonce content, of path files] rd by (simp add: files')
  moreover from ok obtain pc sum where "ob = (unsealed_object P segment_id generation records pc)\<lparr>sb_object_checksum := sum\<rparr>"
    by (auto simp: from_records_def rbind_eq_Inr Let_def)
  ultimately show ?thesis
    using rd by (simp add: unsealed_object_def sorted_unique_spec files')
qed

text \<open>
  Publishing to a path that is in use writes nothing and returns what is there, whatever its identity,
  generation or records: a segment file left by an interrupted attempt is taken as it is.
\<close>

lemma publish_existing_ignores_records:
  assumes "bm_contains files path"
  shows "publish_segment_records_with_encryption P nonce path segment_id generation records encryption files =
    (read_segment_object_with_encryption P files path encryption, files)"
  using assms by (simp add: publish_segment_records_with_encryption_def ereads_def)

end
