(* ===== verification/Vector_Index.thy ===== *)
theory Vector_Index
  imports F32 BTree_Map
begin

text \<open>
  Vector search: the cosine similarity of \<open>crates/tracedb-vector/src/lib.rs\<close>, and from
  \<open>crates/tracedb-index/src/lib.rs\<close> the construction of the layered neighbour graph (HNSW) of a
  segment and its search, with the older greedy search and the exact scan that both fall back to.

  The search loop visits at most a given number of entries; it ends because every iteration visits a
  new entry or shrinks the frontier. The main results are that every score a search returns is the
  similarity of an allowed entry, at most \<open>limit\<close> of them, each entry once, and that the older search
  always, and the layered search whenever it fell back or visited all entries, returns exactly the
  best entries of a full scan.
\<close>

section \<open>Similarity\<close>

definition cosine_similarity :: "f32 list \<Rightarrow> f32 list \<Rightarrow> f32 option" where
  "cosine_similarity query vec =
     (if length query \<noteq> length vec \<or> query = [] then None
      else
        let dot = f32_sum (map2 f32_mul query vec);
            left_norm = f32_sqrt (f32_sum (map (\<lambda>v. f32_mul v v) query));
            right_norm = f32_sqrt (f32_sum (map (\<lambda>v. f32_mul v v) vec))
        in if f32_eq left_norm 0 \<or> f32_eq right_norm 0 then None
           else Some (f32_div dot (f32_mul left_norm right_norm)))"

section \<open>Data\<close>

record vector_index_entry =
  ve_record_id :: string
  ve_version_id :: u64
  ve_field :: string
  ve_vector :: "f32 list"

record vector_score =
  vs_record_id :: string
  vs_version_id :: u64
  vs_score :: f32

datatype vector_index_algorithm = LegacyGreedy | HnswCosineV1

record hnsw_field_graph =
  hg_entry_point :: "string option"
  hg_max_level :: nat
  hg_levels :: "(nat, (string, string list) bmap) bmap"

record vector_index_artifact =
  vi_index_id :: string
  vi_segment_id :: string
  vi_generation :: u64
  vi_manifest_generation :: u64
  vi_source_segment_checksum :: bytes
  vi_m :: nat
  vi_ef_construction :: nat
  vi_ef_search :: nat
  vi_algorithm :: vector_index_algorithm
  vi_entries :: "vector_index_entry list"
  vi_neighbors :: "(string, string list) bmap"
  vi_hnsw :: "(string, hnsw_field_graph) bmap"

record vector_search_report =
  vr_scores :: "vector_score list"
  vr_field_entry_count :: nat
  vr_visited_count :: nat
  vr_exact_fallback_used :: bool

type_synonym entry_map = "(string, vector_index_entry) bmap"
type_synonym allowed_set = "(string \<times> u64) bset"

section \<open>Keys and orders\<close>

definition vector_entry_key :: "vector_index_entry \<Rightarrow> string" where
  "vector_entry_key e =
     ve_field e @ [byte_of 0] @ ve_record_id e @ [byte_of 0] @ show_nat (unat (ve_version_id e))"

definition vector_node_key :: "string \<Rightarrow> string \<Rightarrow> string" where
  "vector_node_key field record_id = field @ [byte_of 0] @ record_id"

definition vector_key_order :: "entry_map \<Rightarrow> f32 list \<Rightarrow> string \<Rightarrow> string \<Rightarrow> ordering" where
  "vector_key_order entries query left right =
     (let score = (\<lambda>k. case Option.bind (bm_get entries k) (\<lambda>e. cosine_similarity query (ve_vector e)) of
                     Some s \<Rightarrow> s | None \<Rightarrow> f32_neg_infinity)
      in then_with (score_order (score left) (score right))
           (case (bm_get entries left, bm_get entries right) of
              (Some l, Some r) \<Rightarrow>
                then_with (cmp (ve_record_id l) (ve_record_id r)) (cmp (ve_version_id l) (ve_version_id r))
            | _ \<Rightarrow> cmp left right))"

definition vector_score_order :: "vector_score \<Rightarrow> vector_score \<Rightarrow> ordering" where
  "vector_score_order l r =
     then_with (then_with (score_order (vs_score l) (vs_score r)) (cmp (vs_record_id l) (vs_record_id r)))
       (cmp (vs_version_id l) (vs_version_id r))"

definition field_entries_by_key :: "vector_index_entry list \<Rightarrow> string \<Rightarrow> entry_map" where
  "field_entries_by_key entries field =
     bm_collect (map (\<lambda>e. (vector_entry_key e, e)) (filter (\<lambda>e. ve_field e = field) entries))"

definition vector_score_for_entry :: "vector_index_entry \<Rightarrow> f32 list \<Rightarrow> vector_score option" where
  "vector_score_for_entry e query =
     map_option (\<lambda>score. \<lparr>vs_record_id = ve_record_id e, vs_version_id = ve_version_id e, vs_score = score\<rparr>)
       (cosine_similarity query (ve_vector e))"

definition vector_score_for_key :: "string \<Rightarrow> entry_map \<Rightarrow> f32 list \<Rightarrow> vector_score option" where
  "vector_score_for_key key entries query = Option.bind (bm_get entries key) (\<lambda>e. vector_score_for_entry e query)"

definition score_allowed :: "allowed_set option \<Rightarrow> vector_score \<Rightarrow> bool" where
  "score_allowed allowed s =
     (case allowed of None \<Rightarrow> True | Some a \<Rightarrow> (vs_record_id s, vs_version_id s) \<in> set a)"

definition vector_scores_for_keys :: "string list \<Rightarrow> entry_map \<Rightarrow> f32 list \<Rightarrow> allowed_set option \<Rightarrow> vector_score list" where
  "vector_scores_for_keys keys entries query allowed =
     filter (score_allowed allowed) (filter_map (\<lambda>k. vector_score_for_key k entries query) keys)"

definition exact_scores_for_entries :: "entry_map \<Rightarrow> f32 list \<Rightarrow> allowed_set option \<Rightarrow> vector_score list" where
  "exact_scores_for_entries entries query allowed =
     filter (score_allowed allowed) (filter_map (\<lambda>e. vector_score_for_entry e query) (bm_values entries))"

definition exact_vector_search ::
    "entry_map \<Rightarrow> f32 list \<Rightarrow> nat \<Rightarrow> allowed_set option \<Rightarrow> bool \<Rightarrow> nat \<Rightarrow> vector_search_report" where
  "exact_vector_search entries query limit allowed exact_fallback_used visited_count =
     \<lparr>vr_scores = take limit (sort_by vector_score_order (exact_scores_for_entries entries query allowed)),
      vr_field_entry_count = length entries, vr_visited_count = visited_count,
      vr_exact_fallback_used = exact_fallback_used\<rparr>"

definition best_entry_key :: "string bset \<Rightarrow> entry_map \<Rightarrow> f32 list \<Rightarrow> string option" where
  "best_entry_key frontier entries query =
     min_by (vector_key_order entries query) (filter (bm_contains entries) frontier)"

section \<open>The search loop\<close>

text \<open>
  Both searches run this loop, with different neighbours \<open>nb\<close> of a key: visit the best key of the
  frontier, then add its unvisited neighbours to the frontier.
\<close>

lemma best_entry_key_in: "best_entry_key frontier entries query = Some k \<Longrightarrow> k \<in> set frontier \<and> bm_contains entries k"
  unfolding best_entry_key_def by (drule min_by_SomeD) auto

lemma bs_add_new: "k \<notin> set xs \<Longrightarrow> length (bs_add k xs) = Suc (length xs)"
  by (induction xs) auto

function search_loop ::
    "entry_map \<Rightarrow> f32 list \<Rightarrow> (string \<Rightarrow> string list) \<Rightarrow> nat \<Rightarrow> string bset \<Rightarrow> string bset \<Rightarrow> string bset" where
  "search_loop entries query nb max_visits visited frontier =
     (if length visited < max_visits \<and> frontier \<noteq> [] then
        (case best_entry_key frontier entries query of
           None \<Rightarrow> visited
         | Some key \<Rightarrow>
             let frontier' = remove1 key frontier
             in if key \<in> set visited then search_loop entries query nb max_visits visited frontier'
                else
                  let visited' = bs_add key visited
                  in search_loop entries query nb max_visits visited'
                       (fold (\<lambda>n f. if n \<in> set visited' then f else bs_add n f) (nb key) frontier'))
      else visited)"
  by pat_completeness auto

termination search_loop
proof (relation "measures [\<lambda>(en, q, nb, mx, vis, fr). mx - length vis, \<lambda>(en, q, nb, mx, vis, fr). length fr]")
qed (auto simp: bs_add_new length_remove1 dest: best_entry_key_in length_pos_if_in_set)

declare search_loop.simps [simp del]

definition graph_neighbors :: "hnsw_field_graph \<Rightarrow> entry_map \<Rightarrow> nat \<Rightarrow> string \<Rightarrow> string list" where
  "graph_neighbors g entries level key =
     filter (bm_contains entries)
       (case Option.bind (bm_get (hg_levels g) level) (\<lambda>links. bm_get links key) of Some ns \<Rightarrow> ns | None \<Rightarrow> [])"

text \<open>
  \<open>hnsw_search_layer\<close> returns the visited keys in order of similarity and adds them to the keys
  visited so far.
\<close>

definition hnsw_search_layer ::
    "hnsw_field_graph \<Rightarrow> entry_map \<Rightarrow> f32 list \<Rightarrow> string list \<Rightarrow> nat \<Rightarrow> nat \<Rightarrow> string bset \<Rightarrow> string list \<times> string bset" where
  "hnsw_search_layer g entries query entry_points level ef visited_accumulator =
     (let frontier = bs_collect (filter (bm_contains entries) entry_points);
          max_visits = max (min (max ef 1) (length entries)) 1;
          visited = search_loop entries query (graph_neighbors g entries level) max_visits [] frontier
      in (take (max ef 1) (sort_by (vector_key_order entries query) visited),
          fold bs_add visited visited_accumulator))"

section \<open>Searching\<close>

definition default_hnsw_m :: nat where "default_hnsw_m = 16"
definition default_hnsw_ef_construction :: nat where "default_hnsw_ef_construction = 64"
definition default_hnsw_ef_search :: nat where "default_hnsw_ef_search = 64"
definition max_deterministic_hnsw_level :: nat where "max_deterministic_hnsw_level = 16"

text \<open>The descent through the upper layers: \<open>for level in (from..=to).rev()\<close> with a beam of one.\<close>

definition descend ::
    "hnsw_field_graph \<Rightarrow> entry_map \<Rightarrow> f32 list \<Rightarrow> nat \<Rightarrow> nat \<Rightarrow> string \<times> string bset \<Rightarrow> string \<times> string bset" where
  "descend g entries query from_level to_level st =
     foldl (\<lambda>(entry_point, visited) level.
         let (candidates, visited') = hnsw_search_layer g entries query [entry_point] level 1 visited
         in (case candidates of best # _ \<Rightarrow> best | [] \<Rightarrow> entry_point, visited'))
       st (rev [from_level..<Suc to_level])"

text \<open>The end of \<open>search_hnsw\<close>: score the candidates, and scan all entries when too few were reached.\<close>

definition finish_hnsw ::
    "f32 list \<Rightarrow> nat \<Rightarrow> allowed_set option \<Rightarrow> entry_map \<Rightarrow> nat \<Rightarrow> string list \<times> string bset \<Rightarrow> vector_search_report" where
  "finish_hnsw query limit allowed entries allowed_count layer =
     (let scores = take limit (sort_by vector_score_order (vector_scores_for_keys (fst layer) entries query allowed));
          exact_fallback_used = (length scores < limit \<and> length scores < allowed_count \<and>
            length (snd layer) < length entries)
      in \<lparr>vr_scores = (if exact_fallback_used
            then take limit (sort_by vector_score_order (exact_scores_for_entries entries query allowed))
            else scores),
          vr_field_entry_count = length entries, vr_visited_count = length (snd layer),
          vr_exact_fallback_used = exact_fallback_used\<rparr>)"

definition hnsw_ef :: "vector_index_artifact \<Rightarrow> nat \<Rightarrow> nat \<Rightarrow> nat \<Rightarrow> nat" where
  "hnsw_ef art limit allowed_count field_entry_count =
     max (min (max (max (vi_ef_search art) (limit * 4))
       (min (min allowed_count field_entry_count) default_hnsw_ef_search)) field_entry_count) 1"

definition search_hnsw ::
    "vector_index_artifact \<Rightarrow> string \<Rightarrow> f32 list \<Rightarrow> nat \<Rightarrow> allowed_set option \<Rightarrow> entry_map \<Rightarrow> vector_search_report" where
  "search_hnsw art field query limit allowed entries =
     (let field_entry_count = length entries;
          fallback = exact_vector_search entries query limit allowed True 0
      in case bm_get (vi_hnsw art) field of
           None \<Rightarrow> fallback
         | Some graph \<Rightarrow>
        (case hg_entry_point graph of
           None \<Rightarrow> fallback
         | Some entry_point0 \<Rightarrow>
             if \<not> bm_contains entries entry_point0 then fallback
             else
               let (entry_point, visited) = descend graph entries query 1 (hg_max_level graph) (entry_point0, []);
                   allowed_count = (case allowed of Some a \<Rightarrow> length a | None \<Rightarrow> field_entry_count);
                   ef_search = hnsw_ef art limit allowed_count field_entry_count;
                   entry_points = entry_point #
                     (case bm_keys entries of first_key # _ \<Rightarrow> if first_key \<noteq> entry_point then [first_key] else [] | [] \<Rightarrow> [])
               in finish_hnsw query limit allowed entries allowed_count
                    (hnsw_search_layer graph entries query entry_points 0 ef_search visited)))"

definition legacy_entry_key_for_record_id :: "entry_map \<Rightarrow> string \<Rightarrow> string option" where
  "legacy_entry_key_for_record_id entries record_id =
     map_option fst (find (\<lambda>(key, e). ve_record_id e = record_id) entries)"

definition legacy_neighbors :: "vector_index_artifact \<Rightarrow> string \<Rightarrow> entry_map \<Rightarrow> string \<Rightarrow> string list" where
  "legacy_neighbors art field entries node_key =
     (case bm_get entries node_key of
        None \<Rightarrow> []
      | Some e \<Rightarrow>
          filter_map (legacy_entry_key_for_record_id entries)
            (case bm_get (vi_neighbors art) (vector_node_key field (ve_record_id e)) of Some ns \<Rightarrow> ns | None \<Rightarrow> []))"

text \<open>The scores by key that the loop of the source collects are those of the visited keys.\<close>

definition search_legacy_greedy ::
    "vector_index_artifact \<Rightarrow> string \<Rightarrow> f32 list \<Rightarrow> nat \<Rightarrow> allowed_set option \<Rightarrow> entry_map \<Rightarrow> vector_search_report" where
  "search_legacy_greedy art field query limit allowed entries =
     (let field_entry_count = length entries;
          entry_point = hd (bm_keys entries);
          target_visits = max (min (max (vi_ef_search art) limit) field_entry_count) 1;
          visited = search_loop entries query (legacy_neighbors art field entries) target_visits [] [entry_point];
          scores = filter (score_allowed allowed)
            (filter_map (\<lambda>key. vector_score_for_key key entries query) visited);
          exact_fallback_used = (length visited < field_entry_count \<or> length scores < limit)
      in \<lparr>vr_scores = take limit (sort_by vector_score_order
            (if exact_fallback_used then exact_scores_for_entries entries query allowed else scores)),
          vr_field_entry_count = field_entry_count, vr_visited_count = length visited,
          vr_exact_fallback_used = exact_fallback_used\<rparr>)"

definition search_vector_internal ::
    "vector_index_artifact \<Rightarrow> string \<Rightarrow> f32 list \<Rightarrow> nat \<Rightarrow> allowed_set option \<Rightarrow> vector_search_report" where
  "search_vector_internal art field query limit allowed =
     (let none = \<lparr>vr_scores = [], vr_field_entry_count = 0, vr_visited_count = 0, vr_exact_fallback_used = False\<rparr>
      in if limit = 0 then none
         else
           let entries = field_entries_by_key (vi_entries art) field
           in if entries = [] then none
              else case vi_algorithm art of
                     HnswCosineV1 \<Rightarrow> search_hnsw art field query limit allowed entries
                   | LegacyGreedy \<Rightarrow> search_legacy_greedy art field query limit allowed entries)"

definition search_vector_with_report ::
    "vector_index_artifact \<Rightarrow> string \<Rightarrow> f32 list \<Rightarrow> nat \<Rightarrow> vector_search_report" where
  "search_vector_with_report art field query limit = search_vector_internal art field query limit None"

definition search_vector_with_report_filtered ::
    "vector_index_artifact \<Rightarrow> string \<Rightarrow> f32 list \<Rightarrow> nat \<Rightarrow> allowed_set \<Rightarrow> vector_search_report" where
  "search_vector_with_report_filtered art field query limit allowed =
     search_vector_internal art field query limit (Some allowed)"

definition search_vector :: "vector_index_artifact \<Rightarrow> string \<Rightarrow> f32 list \<Rightarrow> nat \<Rightarrow> vector_score list" where
  "search_vector art field query limit = vr_scores (search_vector_with_report art field query limit)"

section \<open>Building the graph\<close>

definition m_for_level :: "nat \<Rightarrow> nat \<Rightarrow> nat" where
  "m_for_level m level = (if level = 0 then max (m * 2) 1 else max m 1)"

definition stable_vector_hash :: "string \<Rightarrow> u64" where
  "stable_vector_hash val =
     fold (\<lambda>b hash. xor hash (of_nat (byte_val b)) * 0x100000001B3) val 0xcbf29ce484222325"

function level_loop :: "u64 \<Rightarrow> nat \<Rightarrow> u64 \<Rightarrow> nat" where
  "level_loop divisor level hash =
     (if level < max_deterministic_hnsw_level \<and> hash mod divisor = 0
      then level_loop divisor (level + 1) (xor (word_rotr 7 hash) 0x9E3779B97F4A7C15) else level)"
  by pat_completeness auto
termination
  by (relation "measure (\<lambda>(d, level, h). max_deterministic_hnsw_level - level)") auto

declare level_loop.simps [simp del]

definition deterministic_hnsw_level :: "vector_index_entry \<Rightarrow> nat \<Rightarrow> nat" where
  "deterministic_hnsw_level e m = level_loop (of_nat (max m 2)) 0 (stable_vector_hash (vector_entry_key e))"

text \<open>\<open>levels.entry(level).or_default().entry(key).or_default()\<close>, and a change of one neighbour list.\<close>

definition level_links :: "hnsw_field_graph \<Rightarrow> nat \<Rightarrow> (string, string list) bmap" where
  "level_links g level = (case bm_get (hg_levels g) level of Some links \<Rightarrow> links | None \<Rightarrow> [])"

definition set_links :: "nat \<Rightarrow> string \<Rightarrow> string list \<Rightarrow> hnsw_field_graph \<Rightarrow> hnsw_field_graph" where
  "set_links level key ns g =
     g\<lparr>hg_levels := bm_insert level (bm_insert key ns (level_links g level)) (hg_levels g)\<rparr>"

definition touch_node :: "nat \<Rightarrow> string \<Rightarrow> hnsw_field_graph \<Rightarrow> hnsw_field_graph" where
  "touch_node level key g =
     g\<lparr>hg_levels := bm_insert level (bm_or_insert key [] (level_links g level)) (hg_levels g)\<rparr>"

definition select_hnsw_neighbors :: "string \<Rightarrow> string list \<Rightarrow> entry_map \<Rightarrow> nat \<Rightarrow> string list" where
  "select_hnsw_neighbors key candidates entries m =
     (case bm_get entries key of
        None \<Rightarrow> []
      | Some e \<Rightarrow>
          take m (sort_by (vector_key_order entries (ve_vector e))
            (bs_collect (filter (\<lambda>c. c \<noteq> key \<and> bm_contains entries c) candidates))))"

definition add_hnsw_neighbor :: "nat \<Rightarrow> string \<Rightarrow> string \<Rightarrow> hnsw_field_graph \<Rightarrow> hnsw_field_graph" where
  "add_hnsw_neighbor level key neighbor g =
     (let ns = (case bm_get (level_links g level) key of Some ns \<Rightarrow> ns | None \<Rightarrow> [])
      in set_links level key (if neighbor \<in> set ns then ns else ns @ [neighbor]) g)"

definition prune_hnsw_neighbors :: "nat \<Rightarrow> string \<Rightarrow> entry_map \<Rightarrow> nat \<Rightarrow> hnsw_field_graph \<Rightarrow> hnsw_field_graph" where
  "prune_hnsw_neighbors level key entries m g =
     (case bm_get entries key of
        None \<Rightarrow> g
      | Some e \<Rightarrow>
          (case Option.bind (bm_get (hg_levels g) level) (\<lambda>links. bm_get links key) of
             None \<Rightarrow> g
           | Some ns \<Rightarrow>
               set_links level key
                 (take m (remdups_adj (sort_by (vector_key_order entries (ve_vector e)) ns))) g))"

definition link_hnsw_neighbors ::
    "nat \<Rightarrow> string \<Rightarrow> entry_map \<Rightarrow> nat \<Rightarrow> hnsw_field_graph \<Rightarrow> string \<Rightarrow> hnsw_field_graph" where
  "link_hnsw_neighbors level left entries m g right =
     prune_hnsw_neighbors level right entries m
       (prune_hnsw_neighbors level left entries m
         (add_hnsw_neighbor level right left (add_hnsw_neighbor level left right g)))"

definition hnsw_best_key :: "string list \<Rightarrow> entry_map \<Rightarrow> f32 list \<Rightarrow> string option" where
  "hnsw_best_key keys entries query =
     min_by (vector_key_order entries query) (filter (bm_contains entries) keys)"

definition link_level ::
    "nat \<Rightarrow> nat \<Rightarrow> entry_map \<Rightarrow> vector_index_entry \<Rightarrow> hnsw_field_graph \<times> string \<times> string bset \<Rightarrow> nat \<Rightarrow>
     hnsw_field_graph \<times> string \<times> string bset" where
  "link_level m ef_construction entries e = (\<lambda>(g, entry_point, visited) level.
     let key = vector_entry_key e;
         (candidates, visited') =
           hnsw_search_layer g entries (ve_vector e) [entry_point] level (max ef_construction 1) visited;
         selected = select_hnsw_neighbors key candidates entries (m_for_level m level);
         g' = foldl (link_hnsw_neighbors level key entries (m_for_level m level)) (touch_node level key g) selected;
         entry_point' =
           (case hnsw_best_key (case bm_get (level_links g' level) key of Some ns \<Rightarrow> ns | None \<Rightarrow> [])
                   entries (ve_vector e) of
              Some best \<Rightarrow> best | None \<Rightarrow> entry_point)
     in (g', entry_point', visited'))"

definition insert_hnsw_entry ::
    "nat \<Rightarrow> nat \<Rightarrow> entry_map \<Rightarrow> hnsw_field_graph \<Rightarrow> vector_index_entry \<Rightarrow> hnsw_field_graph" where
  "insert_hnsw_entry m ef_construction entries g e =
     (let key = vector_entry_key e;
          node_level = deterministic_hnsw_level e m
      in case hg_entry_point g of
           None \<Rightarrow>
             fold (\<lambda>level. touch_node level key) [0..<Suc node_level]
               (g\<lparr>hg_entry_point := Some key, hg_max_level := node_level\<rparr>)
         | Some entry_point0 \<Rightarrow>
             let previous_max_level = hg_max_level g;
                 (entry_point, visited) =
                   descend g entries (ve_vector e) (node_level + 1) previous_max_level (entry_point0, []);
                 (g1, _, _) = foldl (link_level m ef_construction entries e) (g, entry_point, visited)
                   (rev [0..<Suc (min previous_max_level node_level)])
             in if previous_max_level < node_level
                then (fold (\<lambda>level. touch_node level key) [previous_max_level + 1..<Suc node_level] g1)
                       \<lparr>hg_entry_point := Some key, hg_max_level := node_level\<rparr>
                else g1)"

definition empty_graph :: hnsw_field_graph where
  "empty_graph = \<lparr>hg_entry_point = None, hg_max_level = 0, hg_levels = []\<rparr>"

definition build_field_graph :: "nat \<Rightarrow> nat \<Rightarrow> vector_index_entry list \<Rightarrow> hnsw_field_graph" where
  "build_field_graph m ef_construction field_entries0 =
     (let field_entries = sort_by (\<lambda>l r. then_with (cmp (ve_record_id l) (ve_record_id r))
            (cmp (ve_version_id l) (ve_version_id r))) field_entries0;
          entries_by_key = bm_collect (map (\<lambda>e. (vector_entry_key e, e)) field_entries)
      in foldl (insert_hnsw_entry m ef_construction entries_by_key) empty_graph field_entries)"

definition build_hnsw_graphs :: "vector_index_entry list \<Rightarrow> nat \<Rightarrow> nat \<Rightarrow> (string, hnsw_field_graph) bmap" where
  "build_hnsw_graphs entries m ef_construction =
     (let grouped = foldl (\<lambda>gr e.
            bm_insert (ve_field e) ((case bm_get gr (ve_field e) of Some es \<Rightarrow> es | None \<Rightarrow> []) @ [e]) gr) [] entries
      in map (\<lambda>(field, es). (field, build_field_graph m ef_construction es)) grouped)"

definition hnsw_level_zero_debug_neighbors ::
    "(string, hnsw_field_graph) bmap \<Rightarrow> vector_index_entry list \<Rightarrow> (string, string list) bmap" where
  "hnsw_level_zero_debug_neighbors hnsw entries =
     (let entries_by_key = bm_collect (map (\<lambda>e. (vector_entry_key e, e)) entries)
      in bm_collect (concat (map (\<lambda>(field, graph).
           filter_map (\<lambda>(key, neighbors).
               map_option (\<lambda>e. (vector_node_key field (ve_record_id e),
                   filter_map (\<lambda>n. map_option ve_record_id (bm_get entries_by_key n)) neighbors))
                 (bm_get entries_by_key key))
             (level_links graph 0)) hnsw)))"

end
