(* ===== verification/Vector_Index_Props.thy ===== *)
theory Vector_Index_Props
  imports Vector_Index
begin

text \<open>
  Properties of the vector index: what the search loop visits, that every returned score is the
  similarity of an allowed entry, when the result is that of a full scan, and that the layered
  graph a build produces only links known entries with a bounded number of neighbours.
\<close>

section \<open>The search loop\<close>

lemma search_loop_invariant:
  assumes "set frontier \<union> set visited \<subseteq> K" and "\<And>k. k \<in> K \<Longrightarrow> set (nb k) \<subseteq> K" and "sorted_wrt (<) visited"
  shows "set (search_loop entries query nb mx visited frontier) \<subseteq> K \<and>
    sorted_wrt (<) (search_loop entries query nb mx visited frontier)"
  using assms
proof (induction entries query nb mx visited frontier rule: search_loop.induct)
  case (1 entries query nb mx visited frontier)
  show ?case
  proof (cases "length visited < mx \<and> frontier \<noteq> []")
    case True
    show ?thesis
    proof (cases "best_entry_key frontier entries query")
      case (Some key)
      note key = best_entry_key_in [OF Some]
      let ?fr = "remove1 key frontier" and ?vis = "bs_add key visited"
      let ?fr' = "fold (\<lambda>n f. if n \<in> set ?vis then f else bs_add n f) (nb key) ?fr"
      have frK: "set ?fr \<union> set visited \<subseteq> K"
        using "1.prems"(1) set_remove1_subset [of key frontier] by blast
      have fold: "set (fold (\<lambda>n f. if n \<in> V then f else bs_add n f) ns fr) \<subseteq> set ns \<union> set fr" for V ns fr
        by (induction ns arbitrary: fr) (auto, force)
      have "set ?fr' \<union> set ?vis \<subseteq> K"
        using fold [of "set ?vis" "nb key" ?fr] frK key "1.prems"(1,2) by auto blast
      then show ?thesis
        using "1.IH"(1) [OF True Some refl _ frK "1.prems"(2,3)]
          "1.IH"(2) [OF True Some refl _ refl _ "1.prems"(2) bs_add_sorted [OF "1.prems"(3)]] True Some
        by (subst (1 2) search_loop.simps) (auto simp: Let_def)
    qed (use True "1.prems" in \<open>simp add: search_loop.simps\<close>)
  qed (use "1.prems" in \<open>auto simp: search_loop.simps\<close>)
qed

text \<open>If the loop stops before its budget is used up, it has visited everything it could reach.\<close>

lemma search_loop_closed:
  assumes "\<And>k. k \<in> set visited \<Longrightarrow> set (nb k) \<subseteq> set visited \<union> set frontier"
    and "set frontier \<subseteq> set (bm_keys entries)" and "\<And>k. set (nb k) \<subseteq> set (bm_keys entries)"
    and "length (search_loop entries query nb mx visited frontier) < mx" (is "length ?r < mx")
  shows "set visited \<union> set frontier \<subseteq> set ?r \<and> (\<forall>k \<in> set ?r. set (nb k) \<subseteq> set ?r)"
  using assms
proof (induction entries query nb mx visited frontier rule: search_loop.induct)
  case (1 entries query nb mx visited frontier)
  have contains: "bm_contains entries k" if "k \<in> set frontier" for k
    using that "1.prems"(2) by (auto simp: bm_contains_def bm_get_def bm_keys_def map_of_eq_None_iff)
  show ?case
  proof (cases "length visited < mx \<and> frontier \<noteq> []")
    case True
    obtain key where Some: "best_entry_key frontier entries query = Some key"
      using True contains unfolding best_entry_key_def
      by (metis (no_types, lifting) filter_True min_by_None_iff not_None_eq)
    note key = best_entry_key_in [OF Some]
    let ?fr = "remove1 key frontier" and ?vis = "bs_add key visited"
    let ?fr' = "fold (\<lambda>n f. if n \<in> set ?vis then f else bs_add n f) (nb key) ?fr"
    have fold: "set (fold (\<lambda>n f. if n \<in> V then f else bs_add n f) ns fr) = set ns - V \<union> set fr" for V ns fr
      by (induction ns arbitrary: fr) auto
    have frontier: "set frontier \<subseteq> insert key (set ?fr)" by (metis in_set_remove1 insert_iff subsetI)
    show ?thesis
    proof (cases "key \<in> set visited")
      case old: True
      have unfold: "search_loop entries query nb mx visited frontier = search_loop entries query nb mx visited ?fr"
        using True Some old by (subst search_loop.simps) simp
      have "set visited \<union> set ?fr \<subseteq> set (search_loop entries query nb mx visited ?fr) \<and>
          (\<forall>k \<in> set (search_loop entries query nb mx visited ?fr). set (nb k) \<subseteq> set (search_loop entries query nb mx visited ?fr))"
      proof (rule "1.IH"(1) [OF True Some refl old])
        show "set (nb k) \<subseteq> set visited \<union> set ?fr" if "k \<in> set visited" for k
          using "1.prems"(1) [OF that] frontier old by blast
      qed (use "1.prems" unfold set_remove1_subset [of key frontier] in auto)
      with frontier old show ?thesis unfolding unfold by blast
    next
      case new: False
      have unfold: "search_loop entries query nb mx visited frontier = search_loop entries query nb mx ?vis ?fr'"
        using True Some new by (subst search_loop.simps) (simp add: Let_def)
      have "set ?vis \<union> set ?fr' \<subseteq> set (search_loop entries query nb mx ?vis ?fr') \<and>
          (\<forall>k \<in> set (search_loop entries query nb mx ?vis ?fr'). set (nb k) \<subseteq> set (search_loop entries query nb mx ?vis ?fr'))"
      proof (rule "1.IH"(2) [OF True Some refl new refl])
        show "set (nb k) \<subseteq> set ?vis \<union> set ?fr'" if "k \<in> set ?vis" for k
          using that "1.prems"(1) [of k] frontier unfolding fold by auto
        show "set ?fr' \<subseteq> set (bm_keys entries)"
          using "1.prems"(2,3) set_remove1_subset [of key frontier] unfolding fold by blast
      qed (use "1.prems" unfold in auto)
      moreover have "set frontier \<subseteq> set ?vis \<union> set ?fr'" using frontier unfolding fold by auto
      ultimately show ?thesis unfolding unfold set_bs_add by blast
    qed
  next
    case False
    then have "search_loop entries query nb mx visited frontier = visited"
      by (subst search_loop.simps) auto
    with False "1.prems" show ?thesis by auto
  qed
qed

section \<open>The entries of a field\<close>

lemma bm_collect_get_key:
  "bm_get (bm_collect (map (\<lambda>e. (f e, e)) es)) k = Some e \<Longrightarrow> e \<in> set es \<and> f e = k"
proof -
  assume "bm_get (bm_collect (map (\<lambda>e. (f e, e)) es)) k = Some e"
  then have "map_of (rev (map (\<lambda>e. (f e, e)) es)) k = Some e"
    by (simp add: bm_collect_def bm_extend_def bm.get_extend split: option.splits)
  then show ?thesis by (auto dest: map_of_SomeD)
qed

lemma field_entries_wf: "bm_wf (field_entries_by_key entries field)"
  by (simp add: field_entries_by_key_def bm_collect_def bm_extend_wf)

lemma field_entries_get:
  "bm_get (field_entries_by_key entries field) k = Some e \<Longrightarrow>
   e \<in> set entries \<and> ve_field e = field \<and> vector_entry_key e = k"
  unfolding field_entries_by_key_def by (drule bm_collect_get_key) auto

text \<open>In a map of entries by their keys, keys, entries and (record, version) pairs correspond.\<close>

definition keyed :: "entry_map \<Rightarrow> string \<Rightarrow> bool" where
  "keyed entries field \<longleftrightarrow>
     bm_wf entries \<and> (\<forall>k e. bm_get entries k = Some e \<longrightarrow> ve_field e = field \<and> vector_entry_key e = k)"

lemma field_entries_keyed: "keyed (field_entries_by_key entries field) field"
  using field_entries_wf field_entries_get by (fastforce simp: keyed_def)

definition score_id :: "vector_score \<Rightarrow> string \<times> u64" where
  "score_id s = (vs_record_id s, vs_version_id s)"

lemma vector_score_for_keyD:
  assumes "keyed entries field" and "vector_score_for_key k entries query = Some s"
  shows "\<exists>e. bm_get entries k = Some e \<and> vs_record_id s = ve_record_id e \<and> vs_version_id s = ve_version_id e \<and>
    cosine_similarity query (ve_vector e) = Some (vs_score s) \<and>
    k = field @ [byte_of 0] @ fst (score_id s) @ [byte_of 0] @ show_nat (unat (snd (score_id s)))"
proof -
  obtain e where e: "bm_get entries k = Some e" and sc: "vector_score_for_entry e query = Some s"
    using assms(2) by (auto simp: vector_score_for_key_def bind_eq_Some_conv)
  have "ve_field e = field" "vector_entry_key e = k" using assms(1) e by (auto simp: keyed_def)
  then show ?thesis using e sc by (auto simp: vector_score_for_entry_def vector_entry_key_def score_id_def)
qed

text \<open>The key of a score is determined by its record and version, so different keys give different scores.\<close>

lemma distinct_key_scores:
  assumes "keyed entries field" and "distinct keys"
  shows "distinct (map score_id (filter_map (\<lambda>k. vector_score_for_key k entries query) keys))"
  using assms(2)
proof (induction keys)
  case (Cons k keys)
  have "score_id s \<noteq> score_id t"
    if "vector_score_for_key k entries query = Some s" "j \<in> set keys" "vector_score_for_key j entries query = Some t" for s t j
    using vector_score_for_keyD [OF assms(1) that(1)] vector_score_for_keyD [OF assms(1) that(3)] that(2) Cons.prems
    by (metis distinct.simps(2))
  with Cons show ?case by (fastforce simp: set_filter_map split: option.splits)
qed simp

lemma exact_scores_eq:
  assumes "keyed entries field"
  shows "exact_scores_for_entries entries query allowed = vector_scores_for_keys (bm_keys entries) entries query allowed"
proof -
  have "filter_map (\<lambda>e. vector_score_for_entry e query) (map snd es) =
      filter_map (\<lambda>k. vector_score_for_key k entries query) (map fst es)" if "set es \<subseteq> set entries" for es
    using that
  proof (induction es)
    case (Cons x es)
    obtain k e where x: "x = (k, e)" by (cases x)
    have "bm_get entries k = Some e"
      using Cons.prems assms x by (simp add: keyed_def flip: bm_entries_get)
    with Cons show ?case by (simp add: x vector_score_for_key_def split: option.splits)
  qed simp
  then show ?thesis
    by (simp add: exact_scores_for_entries_def vector_scores_for_keys_def bm_values_def bm_keys_def)
qed

section \<open>Soundness of the search\<close>

text \<open>What a list of scores may contain.\<close>

definition scores_ok :: "vector_index_entry list \<Rightarrow> string \<Rightarrow> f32 list \<Rightarrow> allowed_set option \<Rightarrow> vector_score list \<Rightarrow> bool" where
  "scores_ok entries field query allowed scores \<longleftrightarrow>
     distinct (map score_id scores) \<and>
     (\<forall>s \<in> set scores. score_allowed allowed s \<and>
        (\<exists>e \<in> set entries. ve_field e = field \<and> ve_record_id e = vs_record_id s \<and> ve_version_id e = vs_version_id s \<and>
           cosine_similarity query (ve_vector e) = Some (vs_score s)))"

lemma scores_ok_take: "scores_ok es f q a xs \<Longrightarrow> scores_ok es f q a (take n xs)"
  unfolding scores_ok_def by (auto simp: take_map [symmetric] dest: in_set_takeD intro: distinct_take)

lemma scores_ok_sort: "scores_ok es f q a xs \<Longrightarrow> scores_ok es f q a (sort_by c xs)"
  by (simp add: scores_ok_def)

lemma scores_ok_keys:
  assumes "distinct keys"
  shows "scores_ok entries field query allowed
    (vector_scores_for_keys keys (field_entries_by_key entries field) query allowed)"
proof -
  let ?m = "field_entries_by_key entries field"
  have "distinct (map score_id (vector_scores_for_keys keys ?m query allowed))"
    unfolding vector_scores_for_keys_def
    by (rule distinct_map_filter) (rule distinct_key_scores [OF field_entries_keyed assms])
  moreover have "\<exists>e \<in> set entries. ve_field e = field \<and> ve_record_id e = vs_record_id s \<and>
      ve_version_id e = vs_version_id s \<and> cosine_similarity query (ve_vector e) = Some (vs_score s)"
    if "vector_score_for_key k ?m query = Some s" for k s
    using vector_score_for_keyD [OF field_entries_keyed that] field_entries_get by fastforce
  ultimately show ?thesis
    by (auto simp: scores_ok_def vector_scores_for_keys_def set_filter_map)
qed

lemma search_loop_distinct:
  "distinct (search_loop entries query nb mx [] frontier)"
  using search_loop_invariant [of frontier "[]" UNIV nb entries query mx] strict_sorted_iff by auto

lemma layer_distinct: "distinct (fst (hnsw_search_layer g entries query eps level ef acc))"
proof -
  have "distinct (sort_by c (search_loop entries query nb mx [] fr))" for c nb mx fr
    using distinct_map_sort_by [of "\<lambda>x. x" c "search_loop entries query nb mx [] fr"] search_loop_distinct by simp
  then show ?thesis by (simp add: hnsw_search_layer_def Let_def)
qed

lemma bm_keys_distinct: "keyed entries field \<Longrightarrow> distinct (bm_keys entries)"
  using bm_wf_distinct by (auto simp: keyed_def bm_keys_def)

lemma exact_scores_ok:
  "scores_ok entries field query allowed (exact_scores_for_entries (field_entries_by_key entries field) query allowed)"
  using scores_ok_keys [OF bm_keys_distinct [OF field_entries_keyed]] exact_scores_eq [OF field_entries_keyed]
  by metis

lemma finish_hnsw_ok:
  assumes "distinct (fst layer)"
  shows "scores_ok entries field query allowed
      (vr_scores (finish_hnsw query limit allowed (field_entries_by_key entries field) n layer)) \<and>
    length (vr_scores (finish_hnsw query limit allowed (field_entries_by_key entries field) n layer)) \<le> limit"
  using assms
  by (simp add: finish_hnsw_def Let_def scores_ok_take scores_ok_sort exact_scores_ok scores_ok_keys)

lemma exact_search_ok:
  "scores_ok entries field query allowed
      (vr_scores (exact_vector_search (field_entries_by_key entries field) query limit allowed b n)) \<and>
    length (vr_scores (exact_vector_search (field_entries_by_key entries field) query limit allowed b n)) \<le> limit"
  by (simp add: exact_vector_search_def scores_ok_take scores_ok_sort exact_scores_ok)

lemma search_hnsw_ok:
  "scores_ok (vi_entries art) field query allowed
     (vr_scores (search_hnsw art field query limit allowed (field_entries_by_key (vi_entries art) field))) \<and>
   length (vr_scores (search_hnsw art field query limit allowed (field_entries_by_key (vi_entries art) field))) \<le> limit"
  by (simp add: search_hnsw_def Let_def case_prod_unfold exact_search_ok finish_hnsw_ok layer_distinct split: option.split)

lemma search_legacy_ok:
  "scores_ok (vi_entries art) field query allowed
     (vr_scores (search_legacy_greedy art field query limit allowed (field_entries_by_key (vi_entries art) field))) \<and>
   length (vr_scores (search_legacy_greedy art field query limit allowed (field_entries_by_key (vi_entries art) field))) \<le> limit"
  unfolding search_legacy_greedy_def Let_def vector_scores_for_keys_def [symmetric]
  by (simp add: scores_ok_take scores_ok_sort exact_scores_ok scores_ok_keys search_loop_distinct)

text \<open>
  C12: A vector search returns only what it may. Whatever the index artifact contains, also one with
  a damaged or foreign neighbour graph, the search returns at most \<open>limit\<close> scores, each record version
  at most once, and every score is the cosine similarity of the query to the vector of an entry of
  the searched field that the caller allowed.
\<close>

theorem vector_search_sound:
  "length (vr_scores (search_vector_internal art field query limit allowed)) \<le> limit \<and>
   distinct (map (\<lambda>s. (vs_record_id s, vs_version_id s)) (vr_scores (search_vector_internal art field query limit allowed))) \<and>
   (\<forall>s \<in> set (vr_scores (search_vector_internal art field query limit allowed)).
      score_allowed allowed s \<and>
      (\<exists>e \<in> set (vi_entries art). ve_field e = field \<and> ve_record_id e = vs_record_id s \<and>
         ve_version_id e = vs_version_id s \<and> cosine_similarity query (ve_vector e) = Some (vs_score s)))"
proof -
  have "scores_ok (vi_entries art) field query allowed (vr_scores (search_vector_internal art field query limit allowed)) \<and>
      length (vr_scores (search_vector_internal art field query limit allowed)) \<le> limit"
    using search_hnsw_ok search_legacy_ok
    by (simp add: search_vector_internal_def Let_def scores_ok_def [of _ _ _ _ "[]"] split: vector_index_algorithm.split)
  then show ?thesis by (simp add: scores_ok_def score_id_def [abs_def])
qed

section \<open>When the search is exact\<close>

definition exact_scores :: "vector_index_artifact \<Rightarrow> string \<Rightarrow> f32 list \<Rightarrow> allowed_set option \<Rightarrow> vector_score list" where
  "exact_scores art field query allowed =
     sort_by vector_score_order (exact_scores_for_entries (field_entries_by_key (vi_entries art) field) query allowed)"

lemma filter_map_mset: "mset xs = mset ys \<Longrightarrow> mset (filter_map f xs) = mset (filter_map f ys)"
  by (simp add: filter_map_def)

lemma vector_scores_mset:
  "mset xs = mset ys \<Longrightarrow>
   mset (vector_scores_for_keys xs entries query allowed) = mset (vector_scores_for_keys ys entries query allowed)"
  unfolding vector_scores_for_keys_def using filter_map_mset by (metis mset_filter)

lemma score_order_total:
  assumes "\<And>s. s \<in> A \<Longrightarrow> \<not> f32_is_nan (vs_score s)"
  shows "total_preorder A vector_score_order"
proof -
  have rank: "vector_score_order x y =
      cmp (f32_rank (vs_score y), vs_record_id x, vs_version_id x) (f32_rank (vs_score x), vs_record_id y, vs_version_id y)"
    if "x \<in> A" "y \<in> A" for x y
    using that assms by (auto simp: vector_score_order_def score_order_rank then_with_def cmp_def)
  show ?thesis
    unfolding total_preorder_def
    by (auto simp: rank)
qed

lemma sort_scores_cong:
  assumes "mset xs = mset ys" and "distinct (map score_id xs)" and "\<And>s. s \<in> set xs \<Longrightarrow> \<not> f32_is_nan (vs_score s)"
  shows "sort_by vector_score_order xs = sort_by vector_score_order ys"
proof (rule sort_by_cong_mset [of "set xs"])
  show "total_preorder (set xs) vector_score_order" using assms(3) by (rule score_order_total)
  show "x = y" if "x \<in> set xs" "y \<in> set xs" "vector_score_order x y = Equal" for x y
  proof -
    have "score_id x = score_id y" using that(3) by (simp add: vector_score_order_def score_id_def)
    with assms(2) that show ?thesis by (simp add: distinct_map inj_on_def)
  qed
qed (use assms in auto)

lemma visited_all:
  assumes "sorted_wrt (<) r" and "set r \<subseteq> set ks" and "sorted_wrt (<) (ks :: string list)"
    and "length ks \<le> length r \<or> set ks \<subseteq> set r"
  shows "r = ks"
proof -
  have "distinct r" "distinct ks" using assms(1,3) by (simp_all add: strict_sorted_iff)
  then have "set r = set ks"
    using assms(2,4) by (metis card_subset_eq card_mono distinct_card finite_set le_antisym subset_antisym)
  then show ?thesis using assms(1,3) strict_sorted_equal by blast
qed

lemma sorted_bm_keys: "bm_wf m \<Longrightarrow> sorted_wrt (<) (bm_keys m)"
  by (simp add: bm_wf_def bm_keys_def)

lemma bm_contains_keys: "bm_contains m k \<longleftrightarrow> k \<in> set (bm_keys m)"
  by (auto simp: bm_contains_def bm_get_def bm_keys_def map_of_eq_None_iff)

lemma length_bm_keys [simp]: "length (bm_keys m) = length m"
  by (simp add: bm_keys_def)

text \<open>The older search: if it visited every entry it has exactly the scores of the scan, otherwise it scans.\<close>

lemma legacy_neighbors_keys: "set (legacy_neighbors art field entries k) \<subseteq> set (bm_keys entries)"
  by (force simp: legacy_neighbors_def set_filter_map legacy_entry_key_for_record_id_def bm_keys_def
      dest!: find_SomeD split: option.splits)

lemma legacy_exact:
  assumes "keyed entries field" and "entries \<noteq> []"
  shows "vr_scores (search_legacy_greedy art field query limit allowed entries) =
    take limit (sort_by vector_score_order (exact_scores_for_entries entries query allowed))"
proof -
  let ?v = "search_loop entries query (legacy_neighbors art field entries)
    (max (min (max (vi_ef_search art) limit) (length entries)) 1) [] [hd (bm_keys entries)]"
  have hd_in: "hd (bm_keys entries) \<in> set (bm_keys entries)"
    using assms(2) by (cases entries) (auto simp: bm_keys_def)
  have inv: "set ?v \<subseteq> set (bm_keys entries) \<and> sorted_wrt (<) ?v"
    by (rule search_loop_invariant) (use hd_in legacy_neighbors_keys in auto)
  have "exact_scores_for_entries entries query allowed = vector_scores_for_keys ?v entries query allowed"
    if "\<not> length ?v < length entries"
  proof -
    have "?v = bm_keys entries"
      by (rule visited_all) (use inv that sorted_bm_keys assms(1) in \<open>auto simp: keyed_def\<close>)
    then show ?thesis using exact_scores_eq [OF assms(1)] by metis
  qed
  then show ?thesis
    by (simp add: search_legacy_greedy_def Let_def flip: vector_scores_for_keys_def)
qed

text \<open>The layered search with a beam that covers the field reaches whatever the bottom layer connects.\<close>

definition bottom_connected :: "hnsw_field_graph \<Rightarrow> entry_map \<Rightarrow> bool" where
  "bottom_connected g entries \<longleftrightarrow>
     (\<forall>k \<in> set (bm_keys entries).
        (hd (bm_keys entries), k) \<in> {(a, b). b \<in> set (graph_neighbors g entries 0 a)}\<^sup>*)"

lemma bottom_layer_all:
  assumes "keyed entries field" and "entries \<noteq> []" and conn: "bottom_connected g entries"
    and start: "hd (bm_keys entries) \<in> set eps" and ef: "length entries \<le> ef"
  shows "mset (fst (hnsw_search_layer g entries query eps 0 ef acc)) = mset (bm_keys entries)"
proof -
  let ?nb = "graph_neighbors g entries 0" and ?fr = "bs_collect (filter (bm_contains entries) eps)"
  let ?r = "search_loop entries query ?nb (length entries) [] ?fr"
  have nb: "set (?nb k) \<subseteq> set (bm_keys entries)" for k
    by (auto simp: graph_neighbors_def bm_contains_keys)
  have fr: "set ?fr \<subseteq> set (bm_keys entries)" by (auto simp: bm_contains_keys)
  have hd_in: "hd (bm_keys entries) \<in> set ?fr"
    using assms(2) start by (cases entries) (auto simp: bm_contains_keys bm_keys_def)
  have inv: "set ?r \<subseteq> set (bm_keys entries) \<and> sorted_wrt (<) ?r"
    by (rule search_loop_invariant) (use fr nb in auto)
  have "set (bm_keys entries) \<subseteq> set ?r" if "length ?r < length entries"
  proof
    fix k assume "k \<in> set (bm_keys entries)"
    then have "(hd (bm_keys entries), k) \<in> {(a, b). b \<in> set (?nb a)}\<^sup>*"
      using conn by (simp add: bottom_connected_def)
    moreover have "set [] \<union> set ?fr \<subseteq> set ?r \<and> (\<forall>k \<in> set ?r. set (?nb k) \<subseteq> set ?r)"
      by (rule search_loop_closed) (use fr nb that in auto)
    ultimately show "k \<in> set ?r"
      using hd_in by (induction rule: rtrancl_induct) auto
  qed
  then have "?r = bm_keys entries"
    using inv sorted_bm_keys assms(1) by (intro visited_all) (auto simp: keyed_def)
  moreover have "max (min (max ef 1) (length entries)) 1 = length entries" "max ef (Suc 0) = ef"
    using ef assms(2) by (cases entries; simp)+
  ultimately show ?thesis
    using ef by (simp add: hnsw_search_layer_def Let_def)
qed

lemma finish_hnsw_exact:
  assumes "keyed entries field" and "mset (fst layer) = mset (bm_keys entries)"
    and "\<And>s. s \<in> set (exact_scores_for_entries entries query allowed) \<Longrightarrow> \<not> f32_is_nan (vs_score s)"
  shows "vr_scores (finish_hnsw query limit allowed entries n layer) =
    take limit (sort_by vector_score_order (exact_scores_for_entries entries query allowed))"
proof -
  have "sort_by vector_score_order (exact_scores_for_entries entries query allowed) =
      sort_by vector_score_order (vector_scores_for_keys (fst layer) entries query allowed)"
  proof (rule sort_scores_cong [OF _ _ assms(3)])
    show "mset (exact_scores_for_entries entries query allowed) = mset (vector_scores_for_keys (fst layer) entries query allowed)"
      using vector_scores_mset [OF assms(2)] exact_scores_eq [OF assms(1)] by metis
    show "distinct (map score_id (exact_scores_for_entries entries query allowed))"
      unfolding exact_scores_eq [OF assms(1)] vector_scores_for_keys_def
      by (rule distinct_map_filter) (rule distinct_key_scores [OF assms(1) bm_keys_distinct [OF assms(1)]])
  qed
  then show ?thesis by (simp add: finish_hnsw_def Let_def)
qed

lemma search_hnsw_exact:
  assumes "keyed entries field" and "entries \<noteq> []" and "length entries \<le> max (vi_ef_search art) (limit * 4)"
    and "\<And>g. bm_get (vi_hnsw art) field = Some g \<Longrightarrow> bottom_connected g entries"
    and "\<And>s. s \<in> set (exact_scores_for_entries entries query allowed) \<Longrightarrow> \<not> f32_is_nan (vs_score s)"
  shows "vr_scores (search_hnsw art field query limit allowed entries) =
    take limit (sort_by vector_score_order (exact_scores_for_entries entries query allowed))"
proof -
  have ef: "length entries \<le> hnsw_ef art limit n (length entries)" for n
    using assms(3) by (auto simp: hnsw_ef_def)
  have start: "hd (bm_keys entries) \<in> set (ep #
      (case bm_keys entries of first_key # _ \<Rightarrow> if first_key \<noteq> ep then [first_key] else [] | [] \<Rightarrow> []))" for ep
    using assms(2) by (cases entries) (auto simp: bm_keys_def)
  have "mset (fst (hnsw_search_layer g entries query (ep # (case bm_keys entries of first_key # _ \<Rightarrow>
      if first_key \<noteq> ep then [first_key] else [] | [] \<Rightarrow> [])) 0 (hnsw_ef art limit n (length entries)) acc)) = mset (bm_keys entries)"
    if "bm_get (vi_hnsw art) field = Some g" for g ep n acc
    by (rule bottom_layer_all [OF assms(1,2) assms(4) [OF that] start ef])
  from finish_hnsw_exact [OF assms(1) this assms(5)] show ?thesis
    by (simp add: search_hnsw_def exact_vector_search_def Let_def case_prod_unfold split: option.split)
qed

text \<open>
  C11: When the vector search is exact. The older greedy search always returns the best entries of a full
  scan, in order. So does the layered search on a field whose entries fit its beam (the larger of
  the artifact's \<open>ef_search\<close> and four times the limit) and are connected in the bottom layer. (Under
  the condition that no similarity is a NaN, where the order of scores would be undefined.)
\<close>

theorem vector_search_exact:
  assumes "\<forall>e \<in> set (vi_entries art). \<forall>s. ve_field e = field \<and> cosine_similarity query (ve_vector e) = Some s \<longrightarrow>
      \<not> f32_is_nan s"
    and "vi_algorithm art = HnswCosineV1 \<Longrightarrow>
      length (field_entries_by_key (vi_entries art) field) \<le> max (vi_ef_search art) (limit * 4) \<and>
      (\<forall>g. bm_get (vi_hnsw art) field = Some g \<longrightarrow> bottom_connected g (field_entries_by_key (vi_entries art) field))"
  shows "vr_scores (search_vector_internal art field query limit allowed) = take limit (exact_scores art field query allowed)"
proof -
  let ?m = "field_entries_by_key (vi_entries art) field"
  have "\<not> f32_is_nan (vs_score s)" if "s \<in> set (exact_scores_for_entries ?m query allowed)" for s
    using exact_scores_ok [of "vi_entries art" field query allowed] that assms(1) unfolding scores_ok_def by blast
  then have "vi_algorithm art = HnswCosineV1 \<Longrightarrow> ?m \<noteq> [] \<Longrightarrow> vr_scores (search_hnsw art field query limit allowed ?m) =
      take limit (sort_by vector_score_order (exact_scores_for_entries ?m query allowed))"
    using assms(2) by (intro search_hnsw_exact [OF field_entries_keyed]) blast+
  then show ?thesis
    by (simp add: search_vector_internal_def exact_scores_def Let_def legacy_exact [OF field_entries_keyed]
        exact_scores_for_entries_def bm_values_def split: vector_index_algorithm.split)
qed

section \<open>The graph that is built\<close>

definition links_of :: "hnsw_field_graph \<Rightarrow> nat \<Rightarrow> string \<Rightarrow> string list option" where
  "links_of g level key = Option.bind (bm_get (hg_levels g) level) (\<lambda>links. bm_get links key)"

text \<open>
  A well-formed graph over the keys \<open>K\<close>: the entry point and all nodes and neighbours are known keys, no
  node is its own neighbour, and the number of neighbours is bounded on each layer.
\<close>

definition graph_ok :: "nat \<Rightarrow> string set \<Rightarrow> hnsw_field_graph \<Rightarrow> bool" where
  "graph_ok m K g \<longleftrightarrow>
     (\<forall>ep. hg_entry_point g = Some ep \<longrightarrow> ep \<in> K) \<and>
     (\<forall>level key ns. links_of g level key = Some ns \<longrightarrow>
        key \<in> K \<and> set ns \<subseteq> K - {key} \<and> length ns \<le> m_for_level m level)"

lemma level_links_get: "bm_get (level_links g level) key = links_of g level key"
  by (simp add: level_links_def links_of_def split: option.splits)

lemma links_of_set_links:
  "links_of (set_links level key ns g) l k = (if l = level \<and> k = key then Some ns else links_of g l k)"
  by (auto simp: links_of_def set_links_def level_links_def split: option.splits)

lemma links_of_touch:
  "links_of (touch_node level key g) l k =
     (if l = level \<and> k = key \<and> links_of g level key = None then Some [] else links_of g l k)"
  by (auto simp: links_of_def touch_node_def level_links_def bm_get_or_insert split: option.splits)

lemma touch_entry [simp]: "hg_entry_point (touch_node l k g) = hg_entry_point g"
  by (simp add: touch_node_def)

lemma set_links_entry [simp]: "hg_entry_point (set_links l k ns g) = hg_entry_point g"
  by (simp add: set_links_def)

lemma graph_ok_touch: "graph_ok m K g \<Longrightarrow> key \<in> K \<Longrightarrow> graph_ok m K (touch_node level key g)"
  by (auto simp: graph_ok_def links_of_touch split: if_splits)

lemma graph_ok_touches: "graph_ok m K g \<Longrightarrow> key \<in> K \<Longrightarrow> graph_ok m K (fold (\<lambda>level. touch_node level key) ls g)"
  by (induction ls arbitrary: g) (auto intro: graph_ok_touch)

lemma links_of_prune:
  assumes "bm_get entries key = Some e" and "links_of g level key = Some ns"
  shows "\<exists>ns'. set ns' \<subseteq> set ns \<and> length ns' \<le> m \<and>
    prune_hnsw_neighbors level key entries m g = set_links level key ns' g"
  using assms
  by (intro exI [of _ "take m (remdups_adj (sort_by (vector_key_order entries (ve_vector e)) ns))"])
     (auto simp: prune_hnsw_neighbors_def links_of_def dest: in_set_takeD)

definition old_links :: "hnsw_field_graph \<Rightarrow> nat \<Rightarrow> string \<Rightarrow> string list" where
  "old_links g level key = (case links_of g level key of Some ns \<Rightarrow> ns | None \<Rightarrow> [])"

definition with_link :: "string list \<Rightarrow> string \<Rightarrow> string list" where
  "with_link ns n = (if n \<in> set ns then ns else ns @ [n])"

lemma set_with_link [simp]: "set (with_link ns n) = insert n (set ns)"
  by (auto simp: with_link_def)

lemma add_neighbor_eq:
  "add_hnsw_neighbor level key n g = set_links level key (with_link (old_links g level key) n) g"
  unfolding add_hnsw_neighbor_def with_link_def old_links_def level_links_get Let_def by (rule refl)

lemma old_links_set:
  "old_links (set_links level key ns g) l k = (if l = level \<and> k = key then ns else old_links g l k)"
  by (simp add: old_links_def links_of_set_links)

lemma graph_ok_link:
  assumes ok: "graph_ok m (set (bm_keys entries)) g" and "left \<in> set (bm_keys entries)" "right \<in> set (bm_keys entries)"
    and ne: "left \<noteq> right"
  shows "graph_ok m (set (bm_keys entries)) (link_hnsw_neighbors level left entries (m_for_level m level) g right)"
proof -
  let ?K = "set (bm_keys entries)"
  obtain e e' where e: "bm_get entries left = Some e" "bm_get entries right = Some e'"
    using assms(2,3) by (auto simp: bm_contains_def simp flip: bm_contains_keys)
  define A where "A k n = with_link (old_links g level k) n" for k n
  let ?g2 = "set_links level right (A right left) (set_links level left (A left right) g)"
  have add: "add_hnsw_neighbor level right left (add_hnsw_neighbor level left right g) = ?g2"
    using ne by (simp add: add_neighbor_eq old_links_set A_def)
  obtain ns1 where ns1: "set ns1 \<subseteq> set (A left right)" "length ns1 \<le> m_for_level m level"
    "prune_hnsw_neighbors level left entries (m_for_level m level) ?g2 = set_links level left ns1 ?g2"
    using links_of_prune [OF e(1), of ?g2 level "A left right" "m_for_level m level"] ne
    by (auto simp: links_of_set_links)
  obtain ns2 where ns2: "set ns2 \<subseteq> set (A right left)" "length ns2 \<le> m_for_level m level"
    "prune_hnsw_neighbors level right entries (m_for_level m level) (set_links level left ns1 ?g2) =
       set_links level right ns2 (set_links level left ns1 ?g2)"
    using links_of_prune [OF e(2), of "set_links level left ns1 ?g2" level "A right left" "m_for_level m level"] ne
    by (auto simp: links_of_set_links)
  have link: "link_hnsw_neighbors level left entries (m_for_level m level) g right =
      set_links level right ns2 (set_links level left ns1 ?g2)"
    by (simp only: link_hnsw_neighbors_def add ns1(3) ns2(3))
  have old: "set (old_links g level k) \<subseteq> ?K - {k}" for k
  proof (cases "links_of g level k")
    case (Some ns)
    with ok have "set ns \<subseteq> ?K - {k}" unfolding graph_ok_def by blast
    with Some show ?thesis by (simp add: old_links_def)
  qed (simp add: old_links_def)
  have "set (A left right) \<subseteq> ?K - {left}" "set (A right left) \<subseteq> ?K - {right}"
    using old [of left] old [of right] assms(2,3) ne by (auto simp: A_def)
  then show ?thesis
    using ok ns1(1,2) ns2(1,2) assms(2,3) unfolding link graph_ok_def by (auto simp: links_of_set_links)
qed

lemma graph_ok_links:
  assumes "graph_ok m (set (bm_keys entries)) g" and "key \<in> set (bm_keys entries)"
    and "set ns \<subseteq> set (bm_keys entries) - {key}"
  shows "graph_ok m (set (bm_keys entries)) (foldl (link_hnsw_neighbors level key entries (m_for_level m level)) g ns)"
  using assms by (induction ns arbitrary: g) (auto intro: graph_ok_link)

lemma link_level_ok:
  assumes "graph_ok m (set (bm_keys entries)) g" and "vector_entry_key e \<in> set (bm_keys entries)"
  shows "graph_ok m (set (bm_keys entries)) (fst (link_level m ef entries e (g, ep, vis) level))"
proof -
  let ?key = "vector_entry_key e"
  have sel: "set (select_hnsw_neighbors ?key cs entries n) \<subseteq> set (bm_keys entries) - {?key}" for cs n
    by (auto simp: select_hnsw_neighbors_def bm_contains_keys dest: in_set_takeD split: option.splits)
  show ?thesis
    by (auto simp: link_level_def Let_def case_prod_unfold
        intro!: graph_ok_links [OF graph_ok_touch [OF assms] assms(2) sel])
qed

lemma link_levels_ok:
  assumes "vector_entry_key e \<in> set (bm_keys entries)" and "graph_ok m (set (bm_keys entries)) (fst st)"
  shows "graph_ok m (set (bm_keys entries)) (fst (foldl (link_level m ef entries e) st levels))"
  using assms(2)
proof (induction levels arbitrary: st)
  case (Cons level levels)
  obtain g ep vis where st: "st = (g, ep, vis)" by (cases st)
  show ?case
    using link_level_ok [OF _ assms(1), of m g ef ep vis level] Cons by (simp add: st)
qed simp

lemma insert_hnsw_entry_ok:
  assumes "graph_ok m (set (bm_keys entries)) g" and key: "vector_entry_key e \<in> set (bm_keys entries)"
  shows "graph_ok m (set (bm_keys entries)) (insert_hnsw_entry m ef entries g e)"
proof -
  let ?K = "set (bm_keys entries)"
  have upd: "graph_ok m ?K (g'\<lparr>hg_entry_point := Some (vector_entry_key e), hg_max_level := n\<rparr>)" if "graph_ok m ?K g'" for g' n
    using that key by (simp add: graph_ok_def links_of_def)
  have linked: "graph_ok m ?K (fst (foldl (link_level m ef entries e) (g, st) levels))" for st levels
    using link_levels_ok [OF key, of m "(g, st)"] assms(1) by simp
  show ?thesis
  proof (cases "hg_entry_point g")
    case None
    then show ?thesis
      using graph_ok_touches [OF upd [OF assms(1)] key] by (simp add: insert_hnsw_entry_def Let_def del: upt_Suc)
  next
    case (Some ep)
    then show ?thesis
      using upd [OF graph_ok_touches [OF linked key]] linked
      by (simp add: insert_hnsw_entry_def Let_def case_prod_unfold del: upt_Suc)
  qed
qed

lemma build_field_graph_ok:
  "graph_ok m (vector_entry_key ` set es) (build_field_graph m ef es)"
proof -
  define fs where "fs = sort_by (\<lambda>l r. then_with (cmp (ve_record_id l) (ve_record_id r))
      (cmp (ve_version_id l) (ve_version_id r))) es"
  let ?m = "bm_collect (map (\<lambda>e. (vector_entry_key e, e)) fs)"
  have keys: "set (bm_keys ?m) = vector_entry_key ` set es"
  proof -
    have "fst ` set (fold (\<lambda>(k, v). bm_insert k v) kvs m0) = fst ` set kvs \<union> fst ` set m0"
      for kvs :: "(string \<times> vector_index_entry) list" and m0
    proof (induction kvs arbitrary: m0)
      case (Cons kv kvs)
      then show ?case using set_keys_insert [of "fst kv" "snd kv" m0] by (cases kv) simp
    qed simp
    then have "set (bm_keys ?m) = vector_entry_key ` set fs"
      by (simp add: bm_collect_def bm_extend_def bm_keys_def image_image)
    then show ?thesis by (simp add: fs_def)
  qed
  have "graph_ok m (set (bm_keys ?m)) (foldl (insert_hnsw_entry m ef ?m) g xs)"
    if "graph_ok m (set (bm_keys ?m)) g" "set xs \<subseteq> set es" for g xs
    using that
  proof (induction xs arbitrary: g)
    case (Cons x xs)
    have "vector_entry_key x \<in> set (bm_keys ?m)" using Cons.prems(2) unfolding keys by auto
    from insert_hnsw_entry_ok [OF Cons.prems(1) this] Cons show ?case by simp
  qed simp
  moreover have "graph_ok m (set (bm_keys ?m)) empty_graph"
    by (simp add: graph_ok_def empty_graph_def links_of_def)
  ultimately show ?thesis
    unfolding keys by (simp add: build_field_graph_def Let_def flip: fs_def) (simp add: fs_def)
qed

lemma grouped_get:
  "bm_get (foldl (\<lambda>gr e. bm_insert (ve_field e) ((case bm_get gr (ve_field e) of Some es \<Rightarrow> es | None \<Rightarrow> []) @ [e]) gr) [] entries) field =
     (case filter (\<lambda>e. ve_field e = field) entries of [] \<Rightarrow> None | es \<Rightarrow> Some es)"
proof (induction entries rule: rev_induct)
  case (snoc e entries)
  then show ?case by (auto split: list.splits option.splits)
qed simp

lemma bm_get_map_values: "bm_get (map (\<lambda>(k, v). (k, f v)) m) k = map_option f (bm_get m k)"
  by (induction m) (auto simp: bm_get_Cons)

text \<open>
  C16: The graph that a build produces is well formed and bounded. For each vector field its graph only
  has nodes, neighbours and an entry point that are keys of entries of that field, no node is its
  own neighbour, and a node has at most \<open>2m\<close> neighbours on the bottom layer and \<open>m\<close> on every other.
\<close>

theorem hnsw_graph_bounded:
  assumes "bm_get (build_hnsw_graphs entries m ef) field = Some g"
  shows "(\<forall>ep. hg_entry_point g = Some ep \<longrightarrow> (\<exists>e \<in> set entries. ve_field e = field \<and> ep = vector_entry_key e)) \<and>
    (\<forall>level links key ns. bm_get (hg_levels g) level = Some links \<and> bm_get links key = Some ns \<longrightarrow>
       length ns \<le> (if level = 0 then max (m * 2) 1 else max m 1) \<and> key \<notin> set ns \<and>
       (\<forall>k \<in> insert key (set ns). \<exists>e \<in> set entries. ve_field e = field \<and> k = vector_entry_key e))"
proof -
  obtain es where es: "filter (\<lambda>e. ve_field e = field) entries = es" and g: "g = build_field_graph m ef es"
    using assms by (auto simp: build_hnsw_graphs_def Let_def bm_get_map_values grouped_get split: list.splits)
  have known: "\<exists>e \<in> set entries. ve_field e = field \<and> k = vector_entry_key e" if "k \<in> vector_entry_key ` set es" for k
    using that es by auto
  have ok: "graph_ok m (vector_entry_key ` set es) g" unfolding g by (rule build_field_graph_ok)
  have links: "key \<in> vector_entry_key ` set es \<and> set ns \<subseteq> vector_entry_key ` set es - {key} \<and> length ns \<le> m_for_level m level"
    if "bm_get (hg_levels g) level = Some links" "bm_get links key = Some ns" for level links key ns
  proof -
    have "links_of g level key = Some ns" using that by (simp add: links_of_def)
    with ok show ?thesis unfolding graph_ok_def by blast
  qed
  show ?thesis
  proof (intro conjI allI impI)
    show "\<exists>e \<in> set entries. ve_field e = field \<and> ep = vector_entry_key e" if "hg_entry_point g = Some ep" for ep
      using ok that known unfolding graph_ok_def by blast
    fix level links' key ns
    assume "bm_get (hg_levels g) level = Some links' \<and> bm_get links' key = Some ns"
    note l = links [OF conjunct1 [OF this] conjunct2 [OF this]]
    show "length ns \<le> (if level = 0 then max (m * 2) 1 else max m 1)" using l by (simp add: m_for_level_def)
    show "key \<notin> set ns" using l by blast
    show "\<forall>k \<in> insert key (set ns). \<exists>e \<in> set entries. ve_field e = field \<and> k = vector_entry_key e"
      using l known by blast
  qed
qed

section \<open>An example index\<close>

definition demo_vec_entries :: "vector_index_entry list" where
  "demo_vec_entries =
     [\<lparr>ve_record_id = ''a'', ve_version_id = 1, ve_field = ''v'', ve_vector = [0x3F800000, 0]\<rparr>,
      \<lparr>ve_record_id = ''b'', ve_version_id = 2, ve_field = ''v'', ve_vector = [0x3F800000, 0x3F800000]\<rparr>]"

definition demo_index :: vector_index_artifact where
  "demo_index =
     \<lparr>vi_index_id = ''i'', vi_segment_id = ''s'', vi_generation = 1, vi_manifest_generation = 1,
      vi_source_segment_checksum = [], vi_m = 2, vi_ef_construction = 4, vi_ef_search = 4,
      vi_algorithm = HnswCosineV1, vi_entries = demo_vec_entries, vi_neighbors = [],
      vi_hnsw = build_hnsw_graphs demo_vec_entries 2 4\<rparr>"

definition demo_query :: "f32 list" where
  "demo_query = [0, 0x3F800000]"

lemma demo_graph:
  "build_hnsw_graphs demo_vec_entries 2 4 =
     [(''v'', \<lparr>hg_entry_point = Some (vector_entry_key (demo_vec_entries ! 0)), hg_max_level = 0,
        hg_levels = [(0, [(vector_entry_key (demo_vec_entries ! 0), [vector_entry_key (demo_vec_entries ! 1)]),
                          (vector_entry_key (demo_vec_entries ! 1), [vector_entry_key (demo_vec_entries ! 0)])])]\<rparr>)]"
  by code_simp

lemma demo_search: "map vs_record_id (vr_scores (search_vector_internal demo_index ''v'' demo_query 1 (Some [(''b'', 2)]))) = [''b'']"
  by code_simp

theorem vector_search_sound_witness:
  "length (vr_scores (search_vector_internal demo_index ''v'' demo_query 1 (Some [(''b'', 2)]))) = 1 \<and>
   (\<exists>s. vr_scores (search_vector_internal demo_index ''v'' demo_query 1 (Some [(''b'', 2)])) = [s] \<and>
      cosine_similarity demo_query [0x3F800000, 0x3F800000] = Some (vs_score s))"
proof -
  let ?r = "vr_scores (search_vector_internal demo_index ''v'' demo_query 1 (Some [(''b'', 2)]))"
  obtain s where s: "?r = [s]" and sid: "vs_record_id s = ''b''" using demo_search by auto
  have "s \<in> set ?r" using s by simp
  with vector_search_sound [of demo_index "''v''" demo_query 1 "Some [(''b'', 2)]"]
  obtain e where "e \<in> set demo_vec_entries" "ve_record_id e = ''b''"
    "cosine_similarity demo_query (ve_vector e) = Some (vs_score s)"
    using sid by (auto simp: demo_index_def)
  then show ?thesis using s by (auto simp: demo_vec_entries_def)
qed

lemma demo_field_entries:
  "field_entries_by_key demo_vec_entries ''v'' =
     [(vector_entry_key (demo_vec_entries ! 0), demo_vec_entries ! 0),
      (vector_entry_key (demo_vec_entries ! 1), demo_vec_entries ! 1)]"
  by code_simp

lemma demo_connected: "bm_get (build_hnsw_graphs demo_vec_entries 2 4) ''v'' = Some g \<Longrightarrow>
  bottom_connected g (field_entries_by_key demo_vec_entries ''v'')"
proof -
  assume g: "bm_get (build_hnsw_graphs demo_vec_entries 2 4) ''v'' = Some g"
  let ?a = "vector_entry_key (demo_vec_entries ! 0)" and ?b = "vector_entry_key (demo_vec_entries ! 1)"
  have "?b \<in> set (graph_neighbors g (field_entries_by_key demo_vec_entries ''v'') 0 ?a)"
    using g unfolding demo_graph demo_field_entries
    by (auto simp: graph_neighbors_def bm_get_Cons bm_contains_def)
  then show ?thesis
    unfolding bottom_connected_def demo_field_entries by (auto simp: bm_keys_def)
qed

lemma demo_not_nan:
  "list_all (\<lambda>e. case cosine_similarity demo_query (ve_vector e) of None \<Rightarrow> True | Some s \<Rightarrow> \<not> f32_is_nan s) demo_vec_entries"
  by code_simp

theorem vector_search_exact_witness:
  "vr_scores (search_vector_internal demo_index ''v'' demo_query 1 None) = take 1 (exact_scores demo_index ''v'' demo_query None)"
proof (rule vector_search_exact)
  show "\<forall>e \<in> set (vi_entries demo_index). \<forall>s. ve_field e = ''v'' \<and> cosine_similarity demo_query (ve_vector e) = Some s \<longrightarrow> \<not> f32_is_nan s"
    using demo_not_nan by (auto simp: demo_index_def list_all_iff split: option.splits)
  show "length (field_entries_by_key (vi_entries demo_index) ''v'') \<le> max (vi_ef_search demo_index) (1 * 4) \<and>
      (\<forall>g. bm_get (vi_hnsw demo_index) ''v'' = Some g \<longrightarrow> bottom_connected g (field_entries_by_key (vi_entries demo_index) ''v''))"
    using demo_connected by (simp add: demo_index_def demo_field_entries)
qed

theorem hnsw_graph_bounded_witness:
  "\<exists>g. bm_get (build_hnsw_graphs demo_vec_entries 2 4) ''v'' = Some g \<and>
     (\<forall>ep. hg_entry_point g = Some ep \<longrightarrow> (\<exists>e \<in> set demo_vec_entries. ve_field e = ''v'' \<and> ep = vector_entry_key e))"
proof -
  obtain g where g: "bm_get (build_hnsw_graphs demo_vec_entries 2 4) ''v'' = Some g"
    by (simp add: demo_graph bm_get_Cons)
  from g hnsw_graph_bounded [OF g] show ?thesis by blast
qed

end
