(* ===== verification/Text_Search.thy ===== *)
theory Text_Search
  imports F32 BTree_Map
begin

text \<open>
  Lexical scoring, from \<open>crates/tracedb-text/src/lib.rs\<close>: tokens, BM25 over a corpus that is scanned
  for each query, and a prepared corpus that keeps the tokens of its documents and, for the rare
  terms of the query it was built for, postings lists. \<open>prepared_scores_equal_direct\<close> shows that the
  prepared corpus gives the scores of the direct scan for every query, whichever of its two paths
  the query takes.

  The natural logarithm is the argument \<open>ln32\<close>. Counters of type \<open>usize\<close> are natural numbers: they
  are bounded by the size of the documents in memory.
\<close>

section \<open>Tokens\<close>

fun split_bytes :: "(char \<Rightarrow> bool) \<Rightarrow> string \<Rightarrow> string \<Rightarrow> string list" where
  "split_bytes sep acc [] = [rev acc]"
| "split_bytes sep acc (c # cs) =
     (if sep c then rev acc # split_bytes sep [] cs else split_bytes sep (c # acc) cs)"

definition tokenize :: "string \<Rightarrow> string list" where
  "tokenize input =
     map (map to_ascii_lower)
       (filter (\<lambda>t. t \<noteq> []) (split_bytes (\<lambda>c. \<not> is_ascii_alphanumeric c) [] input))"

section \<open>Data\<close>

record prepared_text_document =
  pd_id :: string
  pd_tokens :: "string list"

record prepared_text_posting =
  pp_document_index :: nat
  pp_term_frequency :: nat

record prepared_text_corpus =
  pc_doc_count :: nat
  pc_avg_len :: f32
  pc_documents :: "prepared_text_document list"
  pc_postings :: "(string, prepared_text_posting list) bmap"

record text_score_report =
  ts_scores :: "(string \<times> f32) list"
  ts_tokenized_documents :: nat
  ts_scored_documents :: nat
  ts_term_postings_visited :: nat

record query_scoped_doc =
  qd_id :: string
  qd_doc_len :: nat
  qd_document_index :: nat
  qd_tf :: "(string, nat) bmap"

definition empty_corpus :: prepared_text_corpus where
  "empty_corpus = \<lparr>pc_doc_count = 0, pc_avg_len = 0, pc_documents = [], pc_postings = []\<rparr>"

definition empty_report :: text_score_report where
  "empty_report = \<lparr>ts_scores = [], ts_tokenized_documents = 0, ts_scored_documents = 0,
     ts_term_postings_visited = 0\<rparr>"

section \<open>BM25\<close>

definition bm25_from_term_frequency ::
    "(f32 \<Rightarrow> f32) \<Rightarrow> string list \<Rightarrow> (string, nat) bmap \<Rightarrow> nat \<Rightarrow> nat \<Rightarrow> f32 \<Rightarrow> (string, nat) bmap \<Rightarrow> f32" where
  "bm25_from_term_frequency ln32 query_terms tf doc_len doc_count avg_len df =
     (let k1 = 0x3FC00000; b = 0x3F400000; one = 0x3F800000; half = 0x3F000000;
          dl = f32_of_nat doc_len
      in foldl (\<lambda>score term.
           let freq = f32_of_nat (case bm_get tf term of Some n \<Rightarrow> n | None \<Rightarrow> 0)
           in if f32_eq freq 0 then score
              else
                let doc_freq = f32_of_nat (case bm_get df term of Some n \<Rightarrow> n | None \<Rightarrow> 0);
                    idf = ln32 (f32_add (f32_div (f32_add (f32_sub (f32_of_nat doc_count) doc_freq) half)
                                           (f32_add doc_freq half)) one);
                    denom = f32_add freq (f32_mul k1 (f32_add (f32_sub one b)
                              (f32_div (f32_mul b dl) (f32_max avg_len one))))
                in f32_add score (f32_div (f32_mul idf (f32_mul freq (f32_add k1 one))) denom))
         0 query_terms)"

section \<open>Scanning the documents\<close>

text \<open>\<open>*map.entry(key).or_default() += 1\<close>.\<close>

definition bump :: "string \<Rightarrow> (string, nat) bmap \<Rightarrow> (string, nat) bmap" where
  "bump t m = bm_insert t (case bm_get m t of Some n \<Rightarrow> n + 1 | None \<Rightarrow> 1) m"

definition count_terms :: "string bset \<Rightarrow> string list \<Rightarrow> (string, nat) bmap" where
  "count_terms query_term_set tokens =
     foldl (\<lambda>tf token. if token \<in> set query_term_set then bump token tf else tf) [] tokens"

text \<open>
  One iteration of the loop over the documents that the three scoring functions share: the term
  frequencies of the query terms, their document frequencies, and the documents that match.
\<close>

definition scope_doc ::
    "string bset \<Rightarrow> nat \<Rightarrow> string \<Rightarrow> string list \<Rightarrow> (string, nat) bmap \<times> query_scoped_doc list \<Rightarrow>
     (string, nat) bmap \<times> query_scoped_doc list" where
  "scope_doc query_term_set document_index doc_id tokens acc =
     (let tf = count_terms query_term_set tokens
      in if tf = [] then acc
         else (foldl (\<lambda>df term. bump term df) (fst acc) (bm_keys tf),
               snd acc @ [\<lparr>qd_id = doc_id, qd_doc_len = length tokens,
                           qd_document_index = document_index, qd_tf = tf\<rparr>]))"

definition score_docs ::
    "(f32 \<Rightarrow> f32) \<Rightarrow> string list \<Rightarrow> nat \<Rightarrow> f32 \<Rightarrow> (string, nat) bmap \<Rightarrow> query_scoped_doc list \<Rightarrow>
     (string \<times> f32) list" where
  "score_docs ln32 query_terms doc_count avg_len df docs =
     filter_map (\<lambda>doc.
       let score = bm25_from_term_frequency ln32 query_terms (qd_tf doc) (qd_doc_len doc) doc_count avg_len df
       in if f32_gt score 0 then Some (qd_id doc, score) else None) docs"

definition score_corpus_with_stats ::
    "(f32 \<Rightarrow> f32) \<Rightarrow> string \<Rightarrow> (string \<times> string) list \<Rightarrow> text_score_report" where
  "score_corpus_with_stats ln32 query docs =
     (let query_terms = tokenize query
      in if query_terms = [] \<or> docs = [] then empty_report
         else
           let query_term_set = bs_collect query_terms;
               (total_len, acc) =
                 foldl (\<lambda>(total_len, acc) (document_index, (doc_id, body)).
                     let tokens = tokenize body
                     in (total_len + length tokens,
                         scope_doc query_term_set document_index doc_id tokens acc))
                   (0, ([], [])) (enumerate 0 docs);
               (df, matching_docs) = acc;
               avg_len = f32_div (f32_of_nat total_len) (f32_of_nat (length docs));
               scores = score_docs ln32 query_terms (length docs) avg_len df matching_docs
           in \<lparr>ts_scores = scores, ts_tokenized_documents = length docs,
               ts_scored_documents = length scores, ts_term_postings_visited = 0\<rparr>)"

definition score_corpus ::
    "(f32 \<Rightarrow> f32) \<Rightarrow> string \<Rightarrow> (string \<times> string) list \<Rightarrow> (string \<times> f32) list" where
  "score_corpus ln32 query docs = ts_scores (score_corpus_with_stats ln32 query docs)"

section \<open>Prepared corpora\<close>

definition from_documents :: "(string \<times> string) list \<Rightarrow> prepared_text_corpus" where
  "from_documents docs =
     (if docs = [] then empty_corpus
      else
        let (total_len, documents) =
              foldl (\<lambda>(total_len, documents) (doc_id, body).
                  let tokens = tokenize body
                  in (total_len + length tokens, documents @ [\<lparr>pd_id = doc_id, pd_tokens = tokens\<rparr>]))
                (0, []) docs
        in \<lparr>pc_doc_count = length docs,
            pc_avg_len = f32_div (f32_of_nat total_len) (f32_of_nat (length docs)),
            pc_documents = documents, pc_postings = []\<rparr>)"

definition selective_postings ::
    "query_scoped_doc list \<Rightarrow> (string, nat) bmap \<Rightarrow> nat \<Rightarrow> (string, prepared_text_posting list) bmap" where
  "selective_postings matching_docs df doc_count =
     (let cutoff = max (doc_count div 4) 1
      in foldl (\<lambda>postings doc.
           foldl (\<lambda>postings (term, term_frequency).
               if (case bm_get df term of Some doc_freq \<Rightarrow> doc_freq \<le> cutoff | None \<Rightarrow> False)
               then bm_insert term
                      ((case bm_get postings term of Some ps \<Rightarrow> ps | None \<Rightarrow> []) @
                       [\<lparr>pp_document_index = qd_document_index doc, pp_term_frequency = term_frequency\<rparr>])
                      postings
               else postings)
             postings (qd_tf doc))
         [] matching_docs)"

definition from_documents_with_initial_score ::
    "(f32 \<Rightarrow> f32) \<Rightarrow> string \<Rightarrow> (string \<times> string) list \<Rightarrow> prepared_text_corpus \<times> text_score_report" where
  "from_documents_with_initial_score ln32 query docs =
     (if docs = [] then (empty_corpus, empty_report)
      else
        let query_terms = tokenize query;
            query_term_set = bs_collect query_terms;
            (total_len, documents, acc) =
              foldl (\<lambda>(total_len, documents, acc) (document_index, (doc_id, body)).
                  let tokens = tokenize body
                  in (total_len + length tokens,
                      documents @ [\<lparr>pd_id = doc_id, pd_tokens = tokens\<rparr>],
                      if query_terms = [] then acc
                      else scope_doc query_term_set document_index doc_id tokens acc))
                (0, [], ([], [])) (enumerate 0 docs);
            (df, matching_docs) = acc;
            avg_len = f32_div (f32_of_nat total_len) (f32_of_nat (length docs));
            corpus = \<lparr>pc_doc_count = length docs, pc_avg_len = avg_len, pc_documents = documents,
                      pc_postings = selective_postings matching_docs df (length docs)\<rparr>;
            score_report =
              (if query_terms = [] then empty_report
               else
                 let scores = score_docs ln32 query_terms (length docs) avg_len df matching_docs
                 in \<lparr>ts_scores = scores, ts_tokenized_documents = length docs,
                     ts_scored_documents = length scores, ts_term_postings_visited = 0\<rparr>)
        in (corpus, score_report))"

definition document_count :: "prepared_text_corpus \<Rightarrow> nat" where
  "document_count corpus = pc_doc_count corpus"

text \<open>
  \<open>self.documents[*document_index]\<close> panics outside the vector; \<open>postings_in_range\<close> below shows that
  the postings of a built corpus only name documents it has.
\<close>

definition postings_step ::
    "(string, prepared_text_posting list) bmap \<Rightarrow>
     (string, nat) bmap \<times> nat \<times> (nat, (string, nat) bmap) bmap \<Rightarrow> string \<Rightarrow>
     (string, nat) bmap \<times> nat \<times> (nat, (string, nat) bmap) bmap" where
  "postings_step all_postings = (\<lambda>(df, visited, tf_by_doc) term.
     case bm_get all_postings term of
       None \<Rightarrow> (df, visited, tf_by_doc)
     | Some postings \<Rightarrow>
         (bm_insert term (length postings) df, visited + length postings,
          foldl (\<lambda>tf_by_doc p.
              bm_insert (pp_document_index p)
                (bm_insert term (pp_term_frequency p)
                  (case bm_get tf_by_doc (pp_document_index p) of Some tf \<Rightarrow> tf | None \<Rightarrow> []))
                tf_by_doc)
            tf_by_doc postings))"

definition score_query_from_postings ::
    "(f32 \<Rightarrow> f32) \<Rightarrow> prepared_text_corpus \<Rightarrow> string list \<Rightarrow> string bset \<Rightarrow> text_score_report" where
  "score_query_from_postings ln32 corpus query_terms query_term_set =
     (let (df, visited, tf_by_doc) =
            foldl (postings_step (pc_postings corpus)) ([], 0, []) query_term_set;
          scores = filter_map (\<lambda>(document_index, tf).
            let doc = pc_documents corpus ! document_index;
                score = bm25_from_term_frequency ln32 query_terms tf (length (pd_tokens doc))
                          (pc_doc_count corpus) (pc_avg_len corpus) df
            in if f32_gt score 0 then Some (pd_id doc, score) else None) tf_by_doc
      in \<lparr>ts_scores = scores, ts_tokenized_documents = 0, ts_scored_documents = length scores,
          ts_term_postings_visited = visited\<rparr>)"

definition score_query_by_scanning_tokens ::
    "(f32 \<Rightarrow> f32) \<Rightarrow> prepared_text_corpus \<Rightarrow> string list \<Rightarrow> string bset \<Rightarrow> text_score_report" where
  "score_query_by_scanning_tokens ln32 corpus query_terms query_term_set =
     (let (df, matching_docs) =
            foldl (\<lambda>acc (document_index, doc).
                scope_doc query_term_set document_index (pd_id doc) (pd_tokens doc) acc)
              ([], []) (enumerate 0 (pc_documents corpus));
          scores = score_docs ln32 query_terms (pc_doc_count corpus) (pc_avg_len corpus) df matching_docs
      in \<lparr>ts_scores = scores, ts_tokenized_documents = 0, ts_scored_documents = length scores,
          ts_term_postings_visited = 0\<rparr>)"

definition score_query_with_stats ::
    "(f32 \<Rightarrow> f32) \<Rightarrow> prepared_text_corpus \<Rightarrow> string \<Rightarrow> text_score_report" where
  "score_query_with_stats ln32 corpus query =
     (let query_terms = tokenize query
      in if query_terms = [] \<or> pc_doc_count corpus = 0 then empty_report
         else
           let query_term_set = bs_collect query_terms
           in if list_all (bm_contains (pc_postings corpus)) query_term_set
              then score_query_from_postings ln32 corpus query_terms query_term_set
              else score_query_by_scanning_tokens ln32 corpus query_terms query_term_set)"

section \<open>Term frequencies\<close>

lemma bump_wf [wf_intros]: "bm_wf m \<Longrightarrow> bm_wf (bump t m)"
  by (simp add: bump_def)

lemma bm_get_bump:
  "bm_get (bump t m) u =
     (if u = t then Some (case bm_get m t of Some n \<Rightarrow> n + 1 | None \<Rightarrow> 1) else bm_get m u)"
  by (simp add: bump_def)

lemma count_terms_Nil [simp]: "count_terms qs [] = []"
  by (simp add: count_terms_def)

lemma count_terms_snoc:
  "count_terms qs (ts @ [t]) = (if t \<in> set qs then bump t (count_terms qs ts) else count_terms qs ts)"
  by (simp add: count_terms_def)

lemma count_terms_wf [wf_intros]: "bm_wf (count_terms qs ts)"
  by (induction ts rule: rev_induct) (auto simp: count_terms_snoc intro: bump_wf)

lemma bm_get_count_terms:
  "bm_get (count_terms qs ts) t =
     (if t \<in> set qs \<and> t \<in> set ts then Some (count_list ts t) else None)"
proof (induction ts rule: rev_induct)
  case (snoc x xs)
  then show ?case
    by (auto simp: count_terms_snoc bm_get_bump count_notin)
qed simp

lemma bm_get_None_keys: "bm_get m k = None \<longleftrightarrow> k \<notin> set (bm_keys m)"
  by (simp add: bm_get_def bm_keys_def map_of_eq_None_iff)

lemma keys_count_terms: "set (bm_keys (count_terms qs ts)) = set qs \<inter> set ts"
proof -
  have "t \<in> set (bm_keys (count_terms qs ts)) \<longleftrightarrow> t \<in> set qs \<inter> set ts" for t
    using bm_get_None_keys [of "count_terms qs ts" t] by (simp add: bm_get_count_terms split: if_splits)
  then show ?thesis by blast
qed

lemma count_terms_empty_iff: "count_terms qs ts = [] \<longleftrightarrow> set qs \<inter> set ts = {}"
  using keys_count_terms [of qs ts] by (cases "count_terms qs ts") (auto simp: bm_keys_def)

lemma distinct_keys_count_terms: "distinct (bm_keys (count_terms qs ts))"
  using bm_wf_distinct [OF count_terms_wf [of qs ts]] by (simp add: bm_keys_def)

section \<open>The scan, declaratively\<close>

text \<open>The documents a scan works on, with their position, identifier and tokens.\<close>

type_synonym token_doc = "nat \<times> string \<times> string list"

definition scan_docs ::
    "string bset \<Rightarrow> token_doc list \<Rightarrow> (string, nat) bmap \<times> query_scoped_doc list" where
  "scan_docs qs tds = foldl (\<lambda>acc (i, doc_id, tokens). scope_doc qs i doc_id tokens acc) ([], []) tds"

definition doc_of :: "string bset \<Rightarrow> token_doc \<Rightarrow> query_scoped_doc option" where
  "doc_of qs = (\<lambda>(i, doc_id, tokens).
     let tf = count_terms qs tokens
     in if tf = [] then None
        else Some \<lparr>qd_id = doc_id, qd_doc_len = length tokens, qd_document_index = i, qd_tf = tf\<rparr>)"

definition docs_with :: "string \<Rightarrow> token_doc list \<Rightarrow> token_doc list" where
  "docs_with t tds = filter (\<lambda>(i, doc_id, tokens). t \<in> set tokens) tds"

lemma doc_of_eq:
  "doc_of qs (i, d, ts) =
     (if count_terms qs ts = [] then None
      else Some \<lparr>qd_id = d, qd_doc_len = length ts, qd_document_index = i, qd_tf = count_terms qs ts\<rparr>)"
  by (simp add: doc_of_def Let_def)

lemma docs_with_Nil [simp]: "docs_with t [] = []"
  by (simp add: docs_with_def)

lemma docs_with_Cons:
  "docs_with t ((i, d, ts) # tds) = (if t \<in> set ts then (i, d, ts) # docs_with t tds else docs_with t tds)"
  by (simp add: docs_with_def)

lemma docs_with_snoc:
  "docs_with t (tds @ [(i, d, ts)]) =
     (if t \<in> set ts then docs_with t tds @ [(i, d, ts)] else docs_with t tds)"
  by (simp add: docs_with_def)

lemma scan_docs_Nil [simp]: "scan_docs qs [] = ([], [])"
  by (simp add: scan_docs_def)

lemma scan_docs_snoc:
  "scan_docs qs (tds @ [(i, d, ts)]) = scope_doc qs i d ts (scan_docs qs tds)"
  by (simp add: scan_docs_def)

lemma filter_map_snoc [simp]: "filter_map f (xs @ [x]) = filter_map f xs @ (case f x of None \<Rightarrow> [] | Some y \<Rightarrow> [y])"
  by (simp add: filter_map_def split: option.splits)

lemma snd_scan_docs: "snd (scan_docs qs tds) = filter_map (doc_of qs) tds"
proof (induction tds rule: rev_induct)
  case (snoc x xs)
  obtain i d ts where x: "x = (i, d, ts)" by (cases x)
  show ?case by (auto simp: x scan_docs_snoc scope_doc_def doc_of_def Let_def snoc)
qed simp

lemma bump_keys_wf: "bm_wf m \<Longrightarrow> bm_wf (foldl (\<lambda>df t. bump t df) m ks)"
  by (induction ks arbitrary: m) (auto intro: bump_wf)

lemma bm_get_bump_keys:
  "distinct ks \<Longrightarrow> bm_get (foldl (\<lambda>df t. bump t df) m ks) u =
     (if u \<in> set ks then Some (case bm_get m u of Some n \<Rightarrow> n + 1 | None \<Rightarrow> 1) else bm_get m u)"
  by (induction ks arbitrary: m) (auto simp: bm_get_bump)

lemma scan_docs_df_wf: "bm_wf (fst (scan_docs qs tds))"
proof (induction tds rule: rev_induct)
  case (snoc x xs)
  then show ?case by (cases x) (auto simp: scan_docs_snoc scope_doc_def Let_def intro: bump_keys_wf)
qed simp

lemma bm_get_scan_docs_df:
  "bm_get (fst (scan_docs qs tds)) t =
     (if t \<in> set qs \<and> docs_with t tds \<noteq> [] then Some (length (docs_with t tds)) else None)"
proof (induction tds rule: rev_induct)
  case (snoc x xs)
  obtain i d ts where x: "x = (i, d, ts)" by (cases x)
  have keys: "t \<in> set (bm_keys (count_terms qs ts)) \<longleftrightarrow> t \<in> set qs \<and> t \<in> set ts"
    by (simp add: keys_count_terms)
  show ?case
    by (auto simp: x scan_docs_snoc scope_doc_def Let_def docs_with_def count_terms_empty_iff
        bm_get_bump_keys [OF distinct_keys_count_terms] keys snoc)
qed (simp add: docs_with_def)

section \<open>Postings, declaratively\<close>

definition posting_of :: "string \<Rightarrow> token_doc \<Rightarrow> prepared_text_posting" where
  "posting_of t = (\<lambda>(i, d, ts). \<lparr>pp_document_index = i, pp_term_frequency = count_list ts t\<rparr>)"

definition push_postings ::
    "(string \<Rightarrow> bool) \<Rightarrow> (string, prepared_text_posting list) bmap \<Rightarrow> query_scoped_doc \<Rightarrow>
     (string, prepared_text_posting list) bmap" where
  "push_postings keep postings doc =
     foldl (\<lambda>postings (term, term_frequency).
         if keep term
         then bm_insert term
                ((case bm_get postings term of Some ps \<Rightarrow> ps | None \<Rightarrow> []) @
                 [\<lparr>pp_document_index = qd_document_index doc, pp_term_frequency = term_frequency\<rparr>])
                postings
         else postings)
       postings (qd_tf doc)"

lemma selective_postings_alt:
  "selective_postings ds df n =
     foldl (push_postings (\<lambda>t. case bm_get df t of Some f \<Rightarrow> f \<le> max (n div 4) 1 | None \<Rightarrow> False)) [] ds"
  unfolding selective_postings_def push_postings_def [abs_def] Let_def by (rule refl)

lemma bm_get_push_postings:
  assumes "bm_wf (qd_tf doc)"
  shows "bm_get (push_postings keep ps doc) t =
     (case bm_get (qd_tf doc) t of
        Some f \<Rightarrow> if keep t then Some ((case bm_get ps t of Some q \<Rightarrow> q | None \<Rightarrow> []) @
                        [\<lparr>pp_document_index = qd_document_index doc, pp_term_frequency = f\<rparr>])
                  else bm_get ps t
      | None \<Rightarrow> bm_get ps t)"
proof -
  have "bm_get (foldl (\<lambda>postings (term, f).
            if keep term then bm_insert term ((case bm_get postings term of Some q \<Rightarrow> q | None \<Rightarrow> []) @
                 [\<lparr>pp_document_index = i, pp_term_frequency = f\<rparr>]) postings else postings) ps tf) t =
     (case bm_get tf t of
        Some f \<Rightarrow> if keep t then Some ((case bm_get ps t of Some q \<Rightarrow> q | None \<Rightarrow> []) @
                        [\<lparr>pp_document_index = i, pp_term_frequency = f\<rparr>]) else bm_get ps t
      | None \<Rightarrow> bm_get ps t)" if "distinct (map fst tf)" for tf i
    using that
  proof (induction tf arbitrary: ps)
    case (Cons e tf)
    have "bm_get tf (fst e) = None" using Cons.prems by (simp add: bm_get_None_keys bm_keys_def)
    with Cons show ?case by (cases e) (auto simp: bm_get_Cons split: option.splits)
  qed simp
  from this [OF bm_wf_distinct [OF assms]] show ?thesis
    by (simp add: push_postings_def)
qed

lemma bm_get_postings_scan:
  "bm_get (foldl (push_postings keep) [] (filter_map (doc_of qs) tds)) t =
     (if t \<in> set qs \<and> keep t \<and> docs_with t tds \<noteq> []
      then Some (map (posting_of t) (docs_with t tds)) else None)"
proof (induction tds rule: rev_induct)
  case (snoc x xs)
  obtain i d ts where x: "x = (i, d, ts)" by (cases x)
  show ?case
  proof (cases "count_terms qs ts = []")
    case True
    then have "\<not> (t \<in> set qs \<and> t \<in> set ts)" by (auto simp: count_terms_empty_iff)
    then show ?thesis using snoc True by (auto simp: x doc_of_eq docs_with_snoc)
  next
    case False
    then show ?thesis
      by (auto simp: x doc_of_eq docs_with_snoc bm_get_push_postings count_terms_wf
          bm_get_count_terms snoc posting_of_def)
  qed
qed simp

section \<open>Scoring from postings\<close>

lemma bm_insert_neq_Nil [simp]: "bm_insert k v m \<noteq> []"
  by (cases m) auto

lemma count_terms_snoc_term:
  "t \<in> set tokens \<Longrightarrow>
   count_terms (terms @ [t]) tokens = bm_insert t (count_list tokens t) (count_terms terms tokens)"
  by (rule bm.entries_ext) (auto intro: wf_intros simp: bm_get_count_terms)

lemma count_terms_skip_term:
  "t \<notin> set tokens \<Longrightarrow> count_terms (terms @ [t]) tokens = count_terms terms tokens"
  by (rule bm.entries_ext) (auto intro: wf_intros simp: bm_get_count_terms)

definition doc_tf_get :: "token_doc list \<Rightarrow> string list \<Rightarrow> nat \<Rightarrow> (string, nat) bmap option" where
  "doc_tf_get tds terms i =
     (case find (\<lambda>td. fst td = i) tds of
        None \<Rightarrow> None
      | Some (j, d, tokens) \<Rightarrow>
          (case count_terms terms tokens of [] \<Rightarrow> None | tf \<Rightarrow> Some tf))"

definition insert_posting ::
    "string \<Rightarrow> (nat, (string, nat) bmap) bmap \<Rightarrow> prepared_text_posting \<Rightarrow> (nat, (string, nat) bmap) bmap" where
  "insert_posting term tf_by_doc p =
     bm_insert (pp_document_index p)
       (bm_insert term (pp_term_frequency p)
         (case bm_get tf_by_doc (pp_document_index p) of Some tf \<Rightarrow> tf | None \<Rightarrow> []))
       tf_by_doc"

lemma postings_step_Some:
  "bm_get ps t = Some l \<Longrightarrow>
   postings_step ps (df, n, m) t = (bm_insert t (length l) df, n + length l, foldl (insert_posting t) m l)"
  by (simp add: postings_step_def insert_posting_def [abs_def])

lemma insert_postings_wf: "bm_wf m \<Longrightarrow> bm_wf (foldl (insert_posting t) m l)"
  by (induction l arbitrary: m) (auto simp: insert_posting_def)

lemma bm_get_insert_postings:
  "distinct (map fst tds) \<Longrightarrow>
   bm_get (foldl (insert_posting t) m (map (posting_of t) tds)) i =
     (case find (\<lambda>td. fst td = i) tds of
        Some (j, d, tokens) \<Rightarrow>
          Some (bm_insert t (count_list tokens t) (case bm_get m i of Some tf \<Rightarrow> tf | None \<Rightarrow> []))
      | None \<Rightarrow> bm_get m i)"
proof (induction tds arbitrary: m)
  case (Cons td tds)
  obtain j d tokens where td: "td = (j, d, tokens)" by (cases td)
  have "find (\<lambda>td. fst td = j) tds = None"
    using Cons.prems by (force simp: td find_None_iff)
  with Cons show ?case by (auto simp: td insert_posting_def posting_of_def split: option.splits)
qed simp

lemma find_docs_with:
  "distinct (map fst tds) \<Longrightarrow>
   find (\<lambda>td. fst td = i) (docs_with t tds) =
     (case find (\<lambda>td. fst td = i) tds of
        Some (j, d, tokens) \<Rightarrow> if t \<in> set tokens then Some (j, d, tokens) else None
      | None \<Rightarrow> None)"
proof (induction tds)
  case (Cons td tds)
  obtain j d tokens where td: "td = (j, d, tokens)" by (cases td)
  have "find (\<lambda>td. fst td = j) tds = None"
    using Cons.prems by (force simp: td find_None_iff)
  with Cons show ?case by (auto simp: td docs_with_def split: option.splits)
qed (simp add: docs_with_def)

lemma docs_with_distinct: "distinct (map fst tds) \<Longrightarrow> distinct (map fst (docs_with t tds))"
  by (simp add: docs_with_def distinct_map_filter)

lemma doc_tf_get_snoc:
  assumes "distinct (map fst tds)"
  shows "doc_tf_get tds (terms @ [t]) i =
     (case find (\<lambda>td. fst td = i) (docs_with t tds) of
        Some (j, d, tokens) \<Rightarrow>
          Some (bm_insert t (count_list tokens t) (case doc_tf_get tds terms i of Some tf \<Rightarrow> tf | None \<Rightarrow> []))
      | None \<Rightarrow> doc_tf_get tds terms i)"
proof (cases "find (\<lambda>td. fst td = i) tds")
  case None
  then show ?thesis by (simp add: doc_tf_get_def find_docs_with [OF assms])
next
  case (Some td)
  obtain j d tokens where td: "td = (j, d, tokens)" by (cases td)
  show ?thesis
  proof (cases "t \<in> set tokens")
    case True
    show ?thesis
      using Some True by (auto simp: doc_tf_get_def find_docs_with [OF assms] td count_terms_snoc_term
          split: list.splits)
  next
    case False
    then show ?thesis
      using Some by (simp add: doc_tf_get_def find_docs_with [OF assms] td count_terms_skip_term)
  qed
qed

lemma postings_fold:
  assumes "distinct (map fst tds)"
    and "\<And>t. t \<in> set terms \<Longrightarrow> bm_get ps t = Some (map (posting_of t) (docs_with t tds))"
  shows "\<exists>df n m. foldl (postings_step ps) ([], 0, []) terms = (df, n, m) \<and> bm_wf df \<and> bm_wf m \<and>
    (\<forall>t. bm_get df t = (if t \<in> set terms then Some (length (docs_with t tds)) else None)) \<and>
    (\<forall>i. bm_get m i = doc_tf_get tds terms i)"
  using assms(2)
proof (induction terms rule: rev_induct)
  case Nil
  have "count_terms [] tokens = []" for tokens
    by (simp add: count_terms_empty_iff)
  then show ?case by (auto simp: doc_tf_get_def split: option.splits)
next
  case (snoc t terms)
  then obtain df n m where IH: "foldl (postings_step ps) ([], 0, []) terms = (df, n, m)" "bm_wf df"
    "bm_wf m" "\<And>t. bm_get df t = (if t \<in> set terms then Some (length (docs_with t tds)) else None)"
    "\<And>i. bm_get m i = doc_tf_get tds terms i"
    by auto
  have "bm_get (foldl (insert_posting t) m (map (posting_of t) (docs_with t tds))) i =
      doc_tf_get tds (terms @ [t]) i" for i
    by (simp only: bm_get_insert_postings [OF docs_with_distinct [OF assms(1)]] IH(5)
        doc_tf_get_snoc [OF assms(1)])
  then show ?case
    using IH(1,2,3,4) snoc.prems by (auto simp: postings_step_Some intro: insert_postings_wf)
qed

text \<open>The entries of the rebuilt table are the matching documents in order.\<close>

definition tf_entry :: "string list \<Rightarrow> token_doc \<Rightarrow> (nat \<times> (string, nat) bmap) option" where
  "tf_entry terms = (\<lambda>(i, d, tokens).
     let tf = count_terms terms tokens in if tf = [] then None else Some (i, tf))"

lemma filter_map_keys_subset: "fst ` set (filter_map (tf_entry terms) tds) \<subseteq> fst ` set tds"
  by (force simp: set_filter_map tf_entry_def Let_def split: if_splits)

lemma tf_entries_wf: "sorted_wrt (<) (map fst tds) \<Longrightarrow> bm_wf (filter_map (tf_entry terms) tds)"
proof (induction tds)
  case (Cons td tds)
  obtain j d tokens where td: "td = (j, d, tokens)" by (cases td)
  have "j < k" if "k \<in> fst ` set (filter_map (tf_entry terms) tds)" for k
    using subsetD [OF filter_map_keys_subset that] Cons.prems by (auto simp: td)
  with Cons show ?case by (auto simp: td tf_entry_def Let_def bm_wf_Cons)
qed simp

lemma bm_get_tf_entries:
  "distinct (map fst tds) \<Longrightarrow> bm_get (filter_map (tf_entry terms) tds) i = doc_tf_get tds terms i"
proof (induction tds)
  case (Cons td tds)
  obtain j d tokens where td: "td = (j, d, tokens)" by (cases td)
  have "find (\<lambda>td. fst td = j) tds = None"
    using Cons.prems by (force simp: td find_None_iff)
  then have none: "doc_tf_get tds terms j = None" by (simp add: doc_tf_get_def)
  show ?case
  proof (cases "i = j")
    case True
    with Cons none show ?thesis
      by (simp add: td tf_entry_def Let_def bm_get_Cons doc_tf_get_def split: list.splits)
  next
    case False
    with Cons show ?thesis
      by (simp add: td tf_entry_def Let_def bm_get_Cons doc_tf_get_def)
  qed
qed (simp add: doc_tf_get_def)

section \<open>The prepared corpus scores like the scan\<close>

definition token_docs :: "(string \<times> string) list \<Rightarrow> token_doc list" where
  "token_docs docs = map (\<lambda>(i, (d, body)). (i, d, tokenize body)) (enumerate 0 docs)"

definition corpus_len :: "(string \<times> string) list \<Rightarrow> nat" where
  "corpus_len docs = sum_list (map (\<lambda>(d, body). length (tokenize body)) docs)"

definition corpus_docs :: "(string \<times> string) list \<Rightarrow> prepared_text_document list" where
  "corpus_docs docs = map (\<lambda>(d, body). \<lparr>pd_id = d, pd_tokens = tokenize body\<rparr>) docs"

lemma map_fst_token_docs: "map fst (token_docs docs) = [0..<length docs]"
proof -
  have "map fst (token_docs docs) = map fst (enumerate 0 docs)"
    by (auto simp: token_docs_def simp del: map_fst_enumerate)
  then show ?thesis by simp
qed

lemma token_docs_sorted: "sorted_wrt (<) (map fst (token_docs docs))"
  by (simp add: map_fst_token_docs sorted_wrt_upt)

lemma token_docs_nth:
  "(i, d, ts) \<in> set (token_docs docs) \<Longrightarrow>
   i < length docs \<and> corpus_docs docs ! i = \<lparr>pd_id = d, pd_tokens = ts\<rparr>"
  by (auto simp: token_docs_def corpus_docs_def in_set_enumerate_eq)

lemma foldl_pair: "foldl (\<lambda>(a, b) x. (f a x, g b x)) (a, b) xs = (foldl f a xs, foldl g b xs)"
  by (induction xs arbitrary: a b) auto

lemma foldl_add_nat: "foldl (\<lambda>n x. n + h x) (k :: nat) xs = k + sum_list (map h xs)"
  by (induction xs arbitrary: k) auto

lemma foldl_snoc_map: "foldl (\<lambda>l x. l @ [h x]) l xs = l @ map h xs"
  by (induction xs arbitrary: l) auto

lemma sum_enumerate: "sum_list (map (\<lambda>(i, x). h x) (enumerate k xs)) = sum_list (map h xs)" for h :: "'a \<Rightarrow> nat"
  by (induction xs arbitrary: k) auto

lemma map_enumerate_snd: "map (\<lambda>(i, x). h x) (enumerate k xs) = map h xs"
  by (induction xs arbitrary: k) auto

lemma enumerate_map: "enumerate k (map h xs) = map (\<lambda>(i, x). (i, h x)) (enumerate k xs)"
  by (induction xs arbitrary: k) auto

lemma foldl_scope_docs:
  "foldl (\<lambda>acc (i, (d, body)). scope_doc qs i d (tokenize body) acc) ([], []) (enumerate 0 docs) =
     scan_docs qs (token_docs docs)"
  by (simp add: scan_docs_def token_docs_def foldl_map case_prod_unfold)

lemma foldl_corpus_len:
  "foldl (\<lambda>n (i, (d, body)). n + length (tokenize body)) 0 (enumerate k docs) = corpus_len docs"
  using foldl_add_nat [of "\<lambda>(i, (d, body)). length (tokenize body)" 0 "enumerate k docs"]
    sum_enumerate [of "\<lambda>(d, body). length (tokenize body)" k docs]
  by (simp add: corpus_len_def case_prod_unfold)

lemma foldl_corpus_docs:
  "foldl (\<lambda>l (i, (d, body)). l @ [\<lparr>pd_id = d, pd_tokens = tokenize body\<rparr>]) [] (enumerate k docs) =
     corpus_docs docs"
  using foldl_snoc_map [of "\<lambda>(i, (d, body)). \<lparr>pd_id = d, pd_tokens = tokenize body\<rparr>" "[]" "enumerate k docs"]
    map_enumerate_snd [of "\<lambda>(d, body). \<lparr>pd_id = d, pd_tokens = tokenize body\<rparr>" k docs]
  by (simp add: corpus_docs_def case_prod_unfold)

lemmas scan_folds = foldl_scope_docs [unfolded case_prod_unfold] foldl_corpus_len [unfolded case_prod_unfold]
  foldl_corpus_docs [unfolded case_prod_unfold]

text \<open>The average document length that every scoring path uses.\<close>

definition avg_len_of :: "(string \<times> string) list \<Rightarrow> f32" where
  "avg_len_of docs = f32_div (f32_of_nat (corpus_len docs)) (f32_of_nat (length docs))"

definition scan_scores :: "(f32 \<Rightarrow> f32) \<Rightarrow> string list \<Rightarrow> (string \<times> string) list \<Rightarrow> (string \<times> f32) list" where
  "scan_scores ln32 terms docs =
     score_docs ln32 terms (length docs) (avg_len_of docs)
       (fst (scan_docs (bs_collect terms) (token_docs docs)))
       (snd (scan_docs (bs_collect terms) (token_docs docs)))"

lemma score_corpus_with_stats_eq:
  "tokenize q \<noteq> [] \<Longrightarrow> docs \<noteq> [] \<Longrightarrow>
   score_corpus_with_stats ln32 q docs =
     \<lparr>ts_scores = scan_scores ln32 (tokenize q) docs, ts_tokenized_documents = length docs,
      ts_scored_documents = length (scan_scores ln32 (tokenize q) docs), ts_term_postings_visited = 0\<rparr>"
proof -
  assume ne: "tokenize q \<noteq> []" "docs \<noteq> []"
  let ?qs = "bs_collect (tokenize q)"
  have "foldl (\<lambda>(n, acc) (i, (d, body)). let tokens = tokenize body in
          (n + length tokens, scope_doc ?qs i d tokens acc)) (0, ([], [])) (enumerate 0 docs) =
        (corpus_len docs, scan_docs ?qs (token_docs docs))"
    using foldl_pair [of "\<lambda>n (i, (d, body)). n + length (tokenize body)"
        "\<lambda>acc (i, (d, body)). scope_doc ?qs i d (tokenize body) acc" 0 "([], [])" "enumerate 0 docs"]
    by (simp add: scan_folds Let_def case_prod_unfold)
  with ne show ?thesis
    by (simp add: score_corpus_with_stats_def scan_scores_def avg_len_of_def case_prod_unfold Let_def)
qed

definition initial_postings :: "string \<Rightarrow> (string \<times> string) list \<Rightarrow> (string, prepared_text_posting list) bmap" where
  "initial_postings q docs =
     (if tokenize q = [] then []
      else selective_postings (snd (scan_docs (bs_collect (tokenize q)) (token_docs docs)))
             (fst (scan_docs (bs_collect (tokenize q)) (token_docs docs))) (length docs))"

lemma initial_corpus_eq:
  assumes "docs \<noteq> []"
  shows "from_documents_with_initial_score ln32 q docs =
    (\<lparr>pc_doc_count = length docs, pc_avg_len = avg_len_of docs, pc_documents = corpus_docs docs,
      pc_postings = initial_postings q docs\<rparr>,
     score_corpus_with_stats ln32 q docs)"
proof -
  let ?qs = "bs_collect (tokenize q)"
  let ?acc = "\<lambda>acc (i, (d, body)). if tokenize q = [] then acc else scope_doc ?qs i d (tokenize body) acc"
  have "foldl (\<lambda>(n, l, acc) (i, (d, body)). let tokens = tokenize body in
          (n + length tokens, l @ [\<lparr>pd_id = d, pd_tokens = tokens\<rparr>],
           if tokenize q = [] then acc else scope_doc ?qs i d tokens acc)) (0, [], ([], [])) (enumerate 0 docs) =
        (corpus_len docs, corpus_docs docs, foldl ?acc ([], []) (enumerate 0 docs))"
    using foldl_pair [of "\<lambda>n (i, (d, body)). n + length (tokenize body)"
        "\<lambda>(l, acc) x. ((\<lambda>l (i, (d, body)). l @ [\<lparr>pd_id = d, pd_tokens = tokenize body\<rparr>]) l x, ?acc acc x)"
        0 "([], ([], []))" "enumerate 0 docs"]
      foldl_pair [of "\<lambda>l (i, (d, body)). l @ [\<lparr>pd_id = d, pd_tokens = tokenize body\<rparr>]" ?acc "[]" "([], [])" "enumerate 0 docs"]
    by (simp add: scan_folds Let_def case_prod_unfold)
  moreover have "foldl ?acc ([], []) (enumerate 0 docs) =
      (if tokenize q = [] then ([], []) else scan_docs ?qs (token_docs docs))"
  proof (cases "tokenize q = []")
    case True
    have "foldl (\<lambda>acc x. acc) a xs = a" for a :: 'z and xs :: "'y list"
      by (induction xs) auto
    with True show ?thesis by (simp add: case_prod_unfold)
  next
    case False
    then show ?thesis using foldl_scope_docs [of ?qs docs] by simp
  qed
  ultimately show ?thesis
    using assms score_corpus_with_stats_eq [of q docs ln32]
    by (auto simp: from_documents_with_initial_score_def initial_postings_def scan_scores_def avg_len_of_def
        case_prod_unfold Let_def selective_postings_def score_corpus_with_stats_def)
qed

text \<open>Both paths of the prepared corpus compute the scores of the scan.\<close>

lemma scanning_scores:
  "pc_documents c = corpus_docs docs \<Longrightarrow> pc_doc_count c = length docs \<Longrightarrow> pc_avg_len c = avg_len_of docs \<Longrightarrow>
   ts_scores (score_query_by_scanning_tokens ln32 c terms (bs_collect terms)) = scan_scores ln32 terms docs"
proof -
  assume c: "pc_documents c = corpus_docs docs" "pc_doc_count c = length docs" "pc_avg_len c = avg_len_of docs"
  have "foldl (\<lambda>acc (i, doc). scope_doc (bs_collect terms) i (pd_id doc) (pd_tokens doc) acc) ([], [])
      (enumerate 0 (corpus_docs docs)) = scan_docs (bs_collect terms) (token_docs docs)"
    by (simp add: scan_docs_def token_docs_def corpus_docs_def enumerate_map foldl_map case_prod_unfold)
  with c show ?thesis
    by (simp add: score_query_by_scanning_tokens_def scan_scores_def case_prod_unfold Let_def)
qed

lemma posting_scores_entries:
  assumes "\<And>i d ts. (i, d, ts) \<in> set tds \<Longrightarrow> documents ! i = \<lparr>pd_id = d, pd_tokens = ts\<rparr>"
  shows "filter_map (\<lambda>(i, tf).
       let doc = documents ! i;
           score = bm25_from_term_frequency ln32 terms tf (length (pd_tokens doc)) n avg df
       in if f32_gt score 0 then Some (pd_id doc, score) else None) (filter_map (tf_entry qs) tds) =
     score_docs ln32 terms n avg df (filter_map (doc_of qs) tds)"
  using assms
proof (induction tds)
  case (Cons td tds)
  obtain i d ts where td: "td = (i, d, ts)" by (cases td)
  have "documents ! i = \<lparr>pd_id = d, pd_tokens = ts\<rparr>" using Cons.prems td by simp
  moreover have "documents ! j = \<lparr>pd_id = d', pd_tokens = us\<rparr>" if "(j, d', us) \<in> set tds" for j d' us
    using Cons.prems that by simp
  ultimately show ?case
    using Cons.IH by (simp add: td tf_entry_def doc_of_eq score_docs_def Let_def)
qed (simp add: score_docs_def)

lemma bm_get_initial_postings:
  "bm_get (initial_postings q docs) t = Some ps \<Longrightarrow>
   ps = map (posting_of t) (docs_with t (token_docs docs)) \<and> docs_with t (token_docs docs) \<noteq> []"
  by (auto simp: initial_postings_def selective_postings_alt snd_scan_docs bm_get_postings_scan
      split: if_splits)

text \<open>The postings of a built corpus only name documents that it has.\<close>

lemma postings_in_range:
  assumes "bm_get (pc_postings (fst (from_documents_with_initial_score ln32 q docs))) t = Some ps" and "p \<in> set ps"
  shows "pp_document_index p < length (pc_documents (fst (from_documents_with_initial_score ln32 q docs)))"
proof (cases "docs = []")
  case True
  with assms show ?thesis by (simp add: from_documents_with_initial_score_def empty_corpus_def)
next
  case False
  then have "p \<in> posting_of t ` set (docs_with t (token_docs docs))"
    using assms bm_get_initial_postings [of q docs t ps] by (auto simp: initial_corpus_eq)
  then show ?thesis
    using False by (auto simp: initial_corpus_eq posting_of_def docs_with_def corpus_docs_def
        dest: token_docs_nth)
qed

lemma posting_path_scores:
  assumes postings: "\<And>t. t \<in> set terms \<Longrightarrow> bm_get (pc_postings c) t = Some (map (posting_of t) (docs_with t (token_docs docs)))"
    and found: "\<And>t. t \<in> set terms \<Longrightarrow> docs_with t (token_docs docs) \<noteq> []"
    and c: "pc_documents c = corpus_docs docs" "pc_doc_count c = length docs" "pc_avg_len c = avg_len_of docs"
  shows "ts_scores (score_query_from_postings ln32 c terms (bs_collect terms)) = scan_scores ln32 terms docs"
proof -
  let ?tds = "token_docs docs" and ?qs = "bs_collect terms"
  have dist: "distinct (map fst ?tds)" by (simp add: map_fst_token_docs)
  obtain df n m where fold: "foldl (postings_step (pc_postings c)) ([], 0, []) ?qs = (df, n, m)"
    and wf: "bm_wf df" "bm_wf m"
    and df: "\<And>t. bm_get df t = (if t \<in> set ?qs then Some (length (docs_with t ?tds)) else None)"
    and m: "\<And>i. bm_get m i = doc_tf_get ?tds ?qs i"
    using postings_fold [OF dist, of ?qs "pc_postings c"] postings by (metis set_bs_collect)
  have df_eq: "df = fst (scan_docs ?qs ?tds)"
    by (rule bm.entries_ext [OF wf(1) scan_docs_df_wf]) (use found in \<open>auto simp: df bm_get_scan_docs_df\<close>)
  have m_eq: "m = filter_map (tf_entry ?qs) ?tds"
    by (rule bm.entries_ext [OF wf(2) tf_entries_wf [OF token_docs_sorted]])
       (simp add: m bm_get_tf_entries [OF dist])
  have "documents ! i = \<lparr>pd_id = d, pd_tokens = ts\<rparr>"
    if "(i, d, ts) \<in> set ?tds" "documents = corpus_docs docs" for i d ts documents
    using token_docs_nth that by blast
  from posting_scores_entries [OF this [of _ _ _ "corpus_docs docs"]] show ?thesis
    by (simp add: score_query_from_postings_def fold c df_eq m_eq scan_scores_def snd_scan_docs Let_def)
qed

lemma initial_posting_path:
  assumes "docs \<noteq> []"
    and all: "list_all (bm_contains (pc_postings (fst (from_documents_with_initial_score ln32 q0 docs)))) (bs_collect terms)"
  shows "ts_scores (score_query_from_postings ln32 (fst (from_documents_with_initial_score ln32 q0 docs)) terms
      (bs_collect terms)) = scan_scores ln32 terms docs"
proof (rule posting_path_scores)
  fix t assume "t \<in> set terms"
  with all obtain ps where ps: "bm_get (initial_postings q0 docs) t = Some ps"
    by (auto simp: list_all_iff bm_contains_def initial_corpus_eq [OF assms(1)])
  with bm_get_initial_postings [OF ps] show
    "bm_get (pc_postings (fst (from_documents_with_initial_score ln32 q0 docs))) t =
       Some (map (posting_of t) (docs_with t (token_docs docs)))"
    "docs_with t (token_docs docs) \<noteq> []"
    by (simp_all add: initial_corpus_eq [OF assms(1)])
qed (simp_all add: initial_corpus_eq [OF assms(1)])

lemma from_documents_eq:
  assumes "docs \<noteq> []"
  shows "from_documents docs = \<lparr>pc_doc_count = length docs, pc_avg_len = avg_len_of docs,
      pc_documents = corpus_docs docs, pc_postings = []\<rparr>"
  using assms foldl_pair [of "\<lambda>n (d, body). n + length (tokenize body)"
      "\<lambda>l (d, body). l @ [\<lparr>pd_id = d, pd_tokens = tokenize body\<rparr>]" 0 "[]" docs]
    foldl_add_nat [of "\<lambda>(d, body). length (tokenize body)" 0 docs]
    foldl_snoc_map [of "\<lambda>(d, body). \<lparr>pd_id = d, pd_tokens = tokenize body\<rparr>" "[]" docs]
  by (simp add: from_documents_def avg_len_of_def corpus_len_def corpus_docs_def Let_def case_prod_unfold)

text \<open>
  C10: The prepared corpus is an optimisation that changes no score. A corpus built from documents,
  with or without the postings of an initial query, gives for every later query exactly the
  scores that scanning the documents gives, and the report made while building it is the report of
  the scan.
\<close>

theorem prepared_scores_equal_direct:
  "ts_scores (score_query_with_stats ln32 (fst (from_documents_with_initial_score ln32 q0 docs)) q) =
     score_corpus ln32 q docs \<and>
   ts_scores (score_query_with_stats ln32 (from_documents docs) q) = score_corpus ln32 q docs \<and>
   snd (from_documents_with_initial_score ln32 q0 docs) = score_corpus_with_stats ln32 q0 docs \<and>
   ts_scored_documents (score_query_with_stats ln32 (fst (from_documents_with_initial_score ln32 q0 docs)) q) =
     length (score_corpus ln32 q docs)"
proof (cases "docs = []")
  case True
  then show ?thesis
    by (simp add: from_documents_with_initial_score_def from_documents_def score_query_with_stats_def
        empty_corpus_def score_corpus_def score_corpus_with_stats_def empty_report_def)
next
  case False
  let ?c = "fst (from_documents_with_initial_score ln32 q0 docs)"
  have c: "pc_documents ?c = corpus_docs docs" "pc_doc_count ?c = length docs" "pc_avg_len ?c = avg_len_of docs"
    "length docs \<noteq> 0"
    using False by (simp_all add: initial_corpus_eq)
  have direct: "score_corpus ln32 q docs = scan_scores ln32 (tokenize q) docs" if "tokenize q \<noteq> []"
    using that False by (simp add: score_corpus_def score_corpus_with_stats_eq)
  have empty: "score_corpus ln32 q docs = []" if "tokenize q = []"
    using that by (simp add: score_corpus_def score_corpus_with_stats_def empty_report_def)
  have "tokenize q \<noteq> [] \<Longrightarrow> ts_scores (score_query_with_stats ln32 ?c q) = scan_scores ln32 (tokenize q) docs"
    using initial_posting_path [OF False] scanning_scores [OF c(1-3)] c(2,4)
    by (simp add: score_query_with_stats_def Let_def)
  moreover have "tokenize q \<noteq> [] \<Longrightarrow> ts_scores (score_query_with_stats ln32 (from_documents docs) q) = scan_scores ln32 (tokenize q) docs"
    using scanning_scores [of "from_documents docs" docs] False
    by (auto simp: from_documents_eq score_query_with_stats_def Let_def bm_contains_def list_all_iff
        simp flip: set_empty)
  moreover have "ts_scored_documents (score_query_with_stats ln32 ?c q) = length (ts_scores (score_query_with_stats ln32 ?c q))"
    by (simp add: score_query_with_stats_def score_query_from_postings_def score_query_by_scanning_tokens_def
        empty_report_def Let_def case_prod_unfold)
  moreover have "ts_scores (score_query_with_stats ln32 c' q) = []" if "tokenize q = []" for c'
    using that by (simp add: score_query_with_stats_def empty_report_def)
  ultimately show ?thesis
    using False direct empty by (cases "tokenize q = []") (simp_all add: initial_corpus_eq)
qed

end
