(* ===== verification/Index_Artifacts.thy ===== *)
theory Index_Artifacts
  imports Segment Vector_Index_Props Text_Search
begin

text \<open>
  The index artifacts of a sealed segment, from \<open>crates/tracedb-index/src/lib.rs\<close>: the inverted text
  index with its scoring, the bitmap indexes, the vector index of a segment (its graph is in
  \<open>Vector_Index\<close>), the list of artifacts that is built for a segment, and their files.

  Results: \<open>index_artifact_roundtrip\<close> (what is written is what is read), \<open>visible_record_ids_iff\<close>
  (the bitmap answers exactly the tenant and scalar predicates), \<open>score_text_sound\<close> (the text index
  scores only indexed records that contain a query term, each once).
\<close>

section \<open>Data\<close>

record index_record =
  xr_table :: string
  xr_record_id :: string
  xr_tenant_id :: string
  xr_version_id :: u64
  xr_fields :: fields
  xr_text :: "(string, string) bmap"
  xr_vectors :: "(string, f32 list) bmap"

record text_index_document =
  xd_record_id :: string
  xd_fields :: "(string, string) bmap"
  xd_lengths :: "(string, nat) bmap"

record text_index_posting =
  xp_record_id :: string
  xp_term_frequency :: nat
  xp_doc_len :: nat

record text_index_artifact =
  ti_index_id :: string
  ti_segment_id :: string
  ti_generation :: u64
  ti_manifest_generation :: u64
  ti_source_segment_checksum :: bytes
  ti_doc_count :: nat
  ti_avg_len :: f32
  ti_documents :: "text_index_document list"
  ti_postings :: "(string, text_index_posting list) bmap"

record text_score =
  tx_record_id :: string
  tx_score :: f32

record bitmap_record =
  br_record_id :: string
  br_tenant_id :: string
  br_fields :: fields

record bitmap_index_artifact =
  bi_index_id :: string
  bi_segment_id :: string
  bi_generation :: u64
  bi_manifest_generation :: u64
  bi_source_segment_checksum :: bytes
  bi_records :: "bitmap_record list"
  bi_tenant_records :: "(string, string list) bmap"

datatype index_payload =
    PrimaryPayload bitmap_index_artifact
  | PolicyPayload bitmap_index_artifact
  | TextPayload text_index_artifact
  | VectorPayload vector_index_artifact

record index_artifact =
  ia_index_id :: string
  ia_segment_id :: string
  ia_segment_generation :: u64
  ia_manifest_generation :: u64
  ia_kind :: string
  ia_state_history :: "string list"
  ia_policy_aware :: bool
  ia_source_segment_checksum :: bytes
  ia_record_count :: nat
  ia_payload :: index_payload

record idx_prims = seg_prims +
  index_json :: "index_artifact \<Rightarrow> string + bytes"
  index_parse :: "bytes \<Rightarrow> string + index_artifact"

definition as_text :: "index_artifact \<Rightarrow> text_index_artifact option" where
  "as_text art = (case ia_payload art of TextPayload t \<Rightarrow> Some t | _ \<Rightarrow> None)"

definition as_vector :: "index_artifact \<Rightarrow> vector_index_artifact option" where
  "as_vector art = (case ia_payload art of VectorPayload v \<Rightarrow> Some v | _ \<Rightarrow> None)"

definition as_bitmap :: "index_artifact \<Rightarrow> bitmap_index_artifact option" where
  "as_bitmap art = (case ia_payload art of PrimaryPayload b \<Rightarrow> Some b | PolicyPayload b \<Rightarrow> Some b | _ \<Rightarrow> None)"

definition ready_state_history :: "string list" where
  "ready_state_history = [''PENDING'', ''BUILDING'', ''READY'']"

text \<open>\<open>IndexGeneration\<close>, the lifecycle summary of an index.\<close>

datatype index_lifecycle_state = LcPending | LcBuilding | LcReady | LcStale | LcDeprecated | LcFailed

record index_generation =
  ig_index_id :: string
  ig_generation :: u64
  ig_kind :: string
  ig_state :: index_lifecycle_state
  ig_policy_aware :: bool

definition index_generation_ready :: "string \<Rightarrow> string \<Rightarrow> u64 \<Rightarrow> index_generation" where
  "index_generation_ready index_id kind generation =
     \<lparr>ig_index_id = index_id, ig_generation = generation, ig_kind = kind, ig_state = LcReady,
      ig_policy_aware = True\<rparr>"

definition artifact_id :: "string \<Rightarrow> string \<Rightarrow> u64 \<Rightarrow> string" where
  "artifact_id segment_id kind generation = segment_id @ '':'' @ kind @ '':'' @ show_nat (unat generation)"

section \<open>The text index\<close>

definition posting_key :: "string \<Rightarrow> string \<Rightarrow> string" where
  "posting_key field term = field @ [byte_of 0] @ term"

text \<open>\<open>postings.entry(key).or_default().push(posting)\<close>.\<close>

definition push_posting :: "string \<Rightarrow> 'p \<Rightarrow> (string, 'p list) bmap \<Rightarrow> (string, 'p list) bmap" where
  "push_posting key p postings = bm_insert key ((case bm_get postings key of Some ps \<Rightarrow> ps | None \<Rightarrow> []) @ [p]) postings"

definition term_frequencies :: "string list \<Rightarrow> (string, nat) bmap" where
  "term_frequencies tokens = foldl (\<lambda>tf token. bump token tf) [] tokens"

text \<open>One text field of one record.\<close>

definition index_text_field ::
    "string \<Rightarrow> (string, string) bmap \<times> (string, nat) bmap \<times> (string, text_index_posting list) bmap \<times> nat \<Rightarrow>
     string \<times> string \<Rightarrow>
     (string, string) bmap \<times> (string, nat) bmap \<times> (string, text_index_posting list) bmap \<times> nat" where
  "index_text_field record_id = (\<lambda>(flds, lengths, postings, total_len) (field, body).
     let tokens = tokenize body;
         lengths' = bm_insert field (length tokens) lengths;
         postings' = foldl (\<lambda>ps (term, term_frequency).
           push_posting (posting_key field term)
             \<lparr>xp_record_id = record_id, xp_term_frequency = term_frequency,
              xp_doc_len = (case bm_get lengths' field of Some n \<Rightarrow> n | None \<Rightarrow> 0)\<rparr> ps)
           postings (term_frequencies tokens)
     in (bm_insert field body flds, lengths', postings', total_len + length tokens))"

definition index_text_record ::
    "text_index_document list \<times> (string, text_index_posting list) bmap \<times> nat \<Rightarrow> index_record \<Rightarrow>
     text_index_document list \<times> (string, text_index_posting list) bmap \<times> nat" where
  "index_text_record = (\<lambda>(documents, postings, total_len) r.
     let (flds, lengths, postings', total_len') =
           foldl (index_text_field (xr_record_id r)) ([], [], postings, total_len) (xr_text r)
     in (documents @ [\<lparr>xd_record_id = xr_record_id r, xd_fields = flds, xd_lengths = lengths\<rparr>],
         postings', total_len'))"

definition build_text_index ::
    "string \<Rightarrow> u64 \<Rightarrow> u64 \<Rightarrow> bytes \<Rightarrow> index_record list \<Rightarrow> text_index_artifact" where
  "build_text_index segment_id generation manifest_generation source_checksum records =
     (let (documents, postings, total_len) = foldl index_text_record ([], [], 0) records;
          doc_count = length documents
      in \<lparr>ti_index_id = artifact_id segment_id ''text'' generation, ti_segment_id = segment_id,
          ti_generation = generation, ti_manifest_generation = manifest_generation,
          ti_source_segment_checksum = source_checksum, ti_doc_count = doc_count,
          ti_avg_len = (if doc_count = 0 then 0 else f32_div (f32_of_nat total_len) (f32_of_nat doc_count)),
          ti_documents = documents, ti_postings = postings\<rparr>)"

text \<open>
  One term of one field. The maps are keyed by record and by term, so a later field replaces the
  frequencies and lengths that an earlier one stored.
\<close>

definition score_term ::
    "text_index_artifact \<Rightarrow> string \<Rightarrow>
     (string, (string, nat) bmap) bmap \<times> (string, nat) bmap \<times> (string, nat) bmap \<Rightarrow> string \<Rightarrow>
     (string, (string, nat) bmap) bmap \<times> (string, nat) bmap \<times> (string, nat) bmap" where
  "score_term art field = (\<lambda>(tf_by_doc, doc_len_by_doc, df) term.
     case bm_get (ti_postings art) (posting_key field term) of
       None \<Rightarrow> (tf_by_doc, doc_len_by_doc, df)
     | Some postings \<Rightarrow>
         (foldl (\<lambda>m p. bm_insert (xp_record_id p)
              (bm_insert term (xp_term_frequency p)
                 (case bm_get m (xp_record_id p) of Some tf \<Rightarrow> tf | None \<Rightarrow> [])) m) tf_by_doc postings,
          foldl (\<lambda>m p. bm_insert (xp_record_id p) (xp_doc_len p) m) doc_len_by_doc postings,
          bm_insert term (length postings) df))"

definition score_text_fields :: "text_index_artifact \<Rightarrow> string option \<Rightarrow> string list" where
  "score_text_fields art text_field =
     (case text_field of
        Some field \<Rightarrow> [field]
      | None \<Rightarrow> bs_collect (concat (map (\<lambda>doc. bm_keys (xd_fields doc)) (ti_documents art))))"

definition score_text :: "(f32 \<Rightarrow> f32) \<Rightarrow> text_index_artifact \<Rightarrow> string \<Rightarrow> string option \<Rightarrow> text_score list" where
  "score_text ln32 art query text_field =
     (let query_terms = tokenize query
      in if query_terms = [] \<or> ti_doc_count art = 0 then []
         else
           let (tf_by_doc, doc_len_by_doc, df) =
                 foldl (\<lambda>acc field. foldl (score_term art field) acc (bs_collect query_terms))
                   ([], [], []) (score_text_fields art text_field);
               scores = filter_map (\<lambda>(record_id, tf).
                 let score = bm25_from_term_frequency ln32 query_terms tf
                       (case bm_get doc_len_by_doc record_id of Some n \<Rightarrow> n | None \<Rightarrow> 0)
                       (ti_doc_count art) (ti_avg_len art) df
                 in if f32_gt score 0 then Some \<lparr>tx_record_id = record_id, tx_score = score\<rparr> else None) tf_by_doc
           in sort_by (\<lambda>l r. score_order (tx_score l) (tx_score r)) scores)"

section \<open>The vector index of a segment\<close>

definition segment_vector_entries :: "index_record list \<Rightarrow> vector_index_entry list" where
  "segment_vector_entries records =
     concat (map (\<lambda>r. map (\<lambda>(field, vec).
       \<lparr>ve_record_id = xr_record_id r, ve_version_id = xr_version_id r, ve_field = field, ve_vector = vec\<rparr>)
       (xr_vectors r)) records)"

definition entry_order :: "vector_index_entry \<Rightarrow> vector_index_entry \<Rightarrow> ordering" where
  "entry_order l r =
     then_with (then_with (cmp (ve_field l) (ve_field r)) (cmp (ve_record_id l) (ve_record_id r)))
       (cmp (ve_version_id l) (ve_version_id r))"

definition build_vector_index ::
    "string \<Rightarrow> u64 \<Rightarrow> u64 \<Rightarrow> bytes \<Rightarrow> index_record list \<Rightarrow> vector_index_artifact" where
  "build_vector_index segment_id generation manifest_generation source_checksum records =
     (let entries = sort_by entry_order (segment_vector_entries records);
          hnsw = build_hnsw_graphs entries default_hnsw_m default_hnsw_ef_construction
      in \<lparr>vi_index_id = artifact_id segment_id ''vector'' generation, vi_segment_id = segment_id,
          vi_generation = generation, vi_manifest_generation = manifest_generation,
          vi_source_segment_checksum = source_checksum, vi_m = default_hnsw_m,
          vi_ef_construction = default_hnsw_ef_construction, vi_ef_search = default_hnsw_ef_search,
          vi_algorithm = HnswCosineV1, vi_entries = entries,
          vi_neighbors = hnsw_level_zero_debug_neighbors hnsw entries, vi_hnsw = hnsw\<rparr>)"

section \<open>Bitmap indexes\<close>

definition build_bitmap_index ::
    "string \<Rightarrow> u64 \<Rightarrow> u64 \<Rightarrow> bytes \<Rightarrow> index_record list \<Rightarrow> bitmap_index_artifact" where
  "build_bitmap_index segment_id generation manifest_generation source_checksum records =
     (let brs = map (\<lambda>r. \<lparr>br_record_id = xr_record_id r, br_tenant_id = xr_tenant_id r, br_fields = xr_fields r\<rparr>) records;
          tenant_records = foldl (\<lambda>m r. push_posting (br_tenant_id r) (br_record_id r) m) [] brs
      in \<lparr>bi_index_id = artifact_id segment_id ''policy'' generation, bi_segment_id = segment_id,
          bi_generation = generation, bi_manifest_generation = manifest_generation,
          bi_source_segment_checksum = source_checksum, bi_records = brs,
          bi_tenant_records = map (\<lambda>(tenant, ids). (tenant, sort ids)) tenant_records\<rparr>)"

definition build_policy_bitmap_index ::
    "string \<Rightarrow> u64 \<Rightarrow> u64 \<Rightarrow> bytes \<Rightarrow> index_record list \<Rightarrow> bitmap_index_artifact" where
  "build_policy_bitmap_index = build_bitmap_index"

text \<open>
  Equality of JSON values: numbers are equal when they have the same kind and the same value, so the
  two floating point zeros are equal. A JSON number is never NaN.
\<close>

definition f64_eq :: "f64 \<Rightarrow> f64 \<Rightarrow> bool" where
  "f64_eq a b \<longleftrightarrow> a = b \<or> (a \<in> {0, 0x8000000000000000} \<and> b \<in> {0, 0x8000000000000000})"

definition number_eq :: "json_number \<Rightarrow> json_number \<Rightarrow> bool" where
  "number_eq m n =
     (case (m, n) of
        (Float a, Float b) \<Rightarrow> f64_eq a b
      | _ \<Rightarrow> m = n)"

fun json_eq :: "json \<Rightarrow> json \<Rightarrow> bool"
and json_list_eq :: "json list \<Rightarrow> json list \<Rightarrow> bool"
and json_map_eq :: "(string \<times> json) list \<Rightarrow> (string \<times> json) list \<Rightarrow> bool" where
  "json_eq (JNumber m) (JNumber n) = number_eq m n"
| "json_eq (JArray xs) (JArray ys) = json_list_eq xs ys"
| "json_eq (JObject xs) (JObject ys) = json_map_eq xs ys"
| "json_eq v w = (v = w)"
| "json_list_eq [] [] = True"
| "json_list_eq (x # xs) (y # ys) = (json_eq x y \<and> json_list_eq xs ys)"
| "json_list_eq _ _ = False"
| "json_map_eq [] [] = True"
| "json_map_eq ((k, x) # xs) ((l, y) # ys) = (k = l \<and> json_eq x y \<and> json_map_eq xs ys)"
| "json_map_eq _ _ = False"

text \<open>Whether the value under a key is the expected one.\<close>

definition has_value :: "fields \<Rightarrow> string \<Rightarrow> json \<Rightarrow> bool" where
  "has_value flds key expected = (case bm_get flds key of Some v \<Rightarrow> json_eq v expected | None \<Rightarrow> False)"

definition visible_record_ids :: "bitmap_index_artifact \<Rightarrow> string \<Rightarrow> fields \<Rightarrow> string bset" where
  "visible_record_ids art tenant_id scalar_eq =
     bs_collect (map br_record_id
       (filter (\<lambda>r. list_all (\<lambda>(key, val). has_value (br_fields r) key val) scalar_eq)
         (filter (\<lambda>r. br_tenant_id r = tenant_id) (bi_records art))))"

section \<open>All artifacts of a segment\<close>

definition index_artifact_new ::
    "string \<Rightarrow> string \<Rightarrow> u64 \<Rightarrow> u64 \<Rightarrow> bytes \<Rightarrow> nat \<Rightarrow> index_payload \<Rightarrow> index_artifact" where
  "index_artifact_new kind segment_id generation manifest_generation source_checksum record_count payload =
     \<lparr>ia_index_id = artifact_id segment_id kind generation, ia_segment_id = segment_id,
      ia_segment_generation = generation, ia_manifest_generation = manifest_generation, ia_kind = kind,
      ia_state_history = ready_state_history, ia_policy_aware = True,
      ia_source_segment_checksum = source_checksum, ia_record_count = record_count, ia_payload = payload\<rparr>"

definition build_bitmap_artifact ::
    "string \<Rightarrow> string \<Rightarrow> u64 \<Rightarrow> u64 \<Rightarrow> bytes \<Rightarrow> index_record list \<Rightarrow> index_artifact" where
  "build_bitmap_artifact kind segment_id generation manifest_generation source_checksum records =
     index_artifact_new kind segment_id generation manifest_generation source_checksum (length records)
       (if kind = ''primary''
        then PrimaryPayload (build_bitmap_index segment_id generation manifest_generation source_checksum records)
        else PolicyPayload (build_bitmap_index segment_id generation manifest_generation source_checksum records))"

definition build_segment_index_artifacts ::
    "string \<Rightarrow> u64 \<Rightarrow> u64 \<Rightarrow> bytes \<Rightarrow> index_record list \<Rightarrow> index_artifact list" where
  "build_segment_index_artifacts segment_id generation manifest_generation source_checksum records =
     [build_bitmap_artifact ''primary'' segment_id generation manifest_generation source_checksum records,
      build_bitmap_artifact ''policy'' segment_id generation manifest_generation source_checksum records] @
     (if list_ex (\<lambda>r. xr_text r \<noteq> []) records
      then [index_artifact_new ''text'' segment_id generation manifest_generation source_checksum (length records)
              (TextPayload (build_text_index segment_id generation manifest_generation source_checksum records))]
      else []) @
     (if list_ex (\<lambda>r. xr_vectors r \<noteq> []) records
      then [index_artifact_new ''vector'' segment_id generation manifest_generation source_checksum (length records)
              (VectorPayload (build_vector_index segment_id generation manifest_generation source_checksum records))]
      else [])"

section \<open>Files\<close>

definition serialize_index_artifact_payload :: "idx_prims \<Rightarrow> index_artifact \<Rightarrow> bytes result" where
  "serialize_index_artifact_payload P art =
     rbind (json_result (index_json P art)) (\<lambda>json_bytes.
     artifact_result [] (bytes_bin P json_bytes))"

definition payload_checksum :: "idx_prims \<Rightarrow> index_artifact \<Rightarrow> bytes result" where
  "payload_checksum P art = rbind (serialize_index_artifact_payload P art) (\<lambda>bs. Inr (sha256 P bs))"

text \<open>The checksum is that of the body before encryption.\<close>

definition index_file_content ::
    "idx_prims \<Rightarrow> bytes \<Rightarrow> index_artifact \<Rightarrow> encryption_context option \<Rightarrow> (bytes \<times> bytes) result" where
  "index_file_content P nonce art encryption =
     rbind (serialize_index_artifact_payload P art) (\<lambda>payload.
     let header = artifact_header_new P (''index-'' @ ia_kind art) ''bincode'' (ia_segment_id art)
           (ia_segment_generation art) (ia_manifest_generation art) (ia_segment_generation art)
           (ia_segment_generation art) (ia_source_segment_checksum art) payload in
     rbind (encode_artifact_envelope (art_prims.truncate P) header payload) (\<lambda>body.
     rbind (case encryption of
              Some ctx \<Rightarrow> encrypt_artifact (art_prims.truncate P) nonce ctx ''index'' body
            | None \<Rightarrow> Inr body) (\<lambda>content.
     Inr (sha256 P body, content))))"

definition write_index_artifact ::
    "idx_prims \<Rightarrow> bytes \<Rightarrow> string \<Rightarrow> index_artifact \<Rightarrow> encryption_context option \<Rightarrow> (artifact_files, bytes) op" where
  "write_index_artifact P nonce path art encryption =
     eupdates (\<lambda>files. rbind (index_file_content P nonce art encryption) (\<lambda>(checksum, content).
       Inr (checksum, bm_insert path content files)))"

definition read_index_artifact ::
    "idx_prims \<Rightarrow> artifact_files \<Rightarrow> string \<Rightarrow> encryption_context option \<Rightarrow> index_artifact result" where
  "read_index_artifact P files path encryption =
     rbind (ok_or (Io IoNotFound ''No such file or directory (os error 2)'') (bm_get files path)) (\<lambda>content.
     rbind (decrypt_artifact_if_needed (art_prims.truncate P) encryption ''index'' content) (\<lambda>body.
     rbind (ensure (starts_with body artifact_envelope_magic)
       (ArtifactCorruption ''index artifact envelope magic mismatch'')) (\<lambda>_.
     rbind (decode_artifact_envelope (art_prims.truncate P) body) (\<lambda>envelope.
     let kind = ah_kind (ae_header envelope) in
     rbind (ensure (starts_with kind ''index-'')
       (ArtifactCorruption (''index artifact kind mismatch: '' @ kind))) (\<lambda>_.
     rbind (artifact_result [] (bytes_unbin P (ae_payload envelope))) (\<lambda>json_bytes.
     rbind (json_result (index_parse P json_bytes)) (\<lambda>art.
     rbind (ensure (kind = ''index-'' @ ia_kind art)
       (ArtifactCorruption (''index artifact payload kind mismatch: envelope '' @ kind @ '', payload '' @ ia_kind art))) (\<lambda>_.
     Inr art))))))))"

section \<open>Properties\<close>

definition index_reads_back :: "idx_prims \<Rightarrow> index_artifact \<Rightarrow> bool" where
  "index_reads_back P art \<longleftrightarrow> (\<forall>bs. index_json P art = Inr bs \<longrightarrow> index_parse P bs = Inr art)"

definition idx_codecs_ok :: "idx_prims \<Rightarrow> bool" where
  "idx_codecs_ok P \<longleftrightarrow> seg_codecs_ok (seg_prims.truncate P)"

lemma idx_codecs_okD:
  assumes "idx_codecs_ok P"
  shows "header_codec_ok (art_prims.truncate P)" "aead_ok (art_prims.truncate P)"
    "bytes_bin P bs = Inr bin \<Longrightarrow> bytes_unbin P bin = Inr bs"
  using assms by (simp_all add: idx_codecs_ok_def seg_codecs_ok_def bytes_codec_ok_def seg_prims.defs art_prims.defs)

text \<open>An index artifact is read back as it was written, encrypted or not.\<close>

lemma index_artifact_roundtrip:
  assumes codecs: "idx_codecs_ok P" and art: "index_reads_back P art"
    and nonce: "encryption = None \<or> length nonce = nonce_len"
    and run: "write_index_artifact P nonce path art encryption files = (Inr checksum, files')"
  shows "read_index_artifact P files' path encryption = Inr art \<and>
    (\<forall>other. other \<noteq> path \<longrightarrow> bm_get files' other = bm_get files other)"
proof -
  let ?header = "\<lambda>payload. artifact_header_new P (''index-'' @ ia_kind art) ''bincode'' (ia_segment_id art)
           (ia_segment_generation art) (ia_manifest_generation art) (ia_segment_generation art)
           (ia_segment_generation art) (ia_source_segment_checksum art) payload"
  from run obtain content where content: "index_file_content P nonce art encryption = Inr (checksum, content)"
    and files': "files' = bm_insert path content files"
    by (auto simp: write_index_artifact_def eupdates_def rbind_eq_Inr split: sum.splits)
  from content obtain json_bytes payload plain where
    js: "index_json P art = Inr json_bytes" and pay: "bytes_bin P json_bytes = Inr payload"
    and enc: "encode_artifact_envelope (art_prims.truncate P) (?header payload) payload = Inr plain"
    and body: "(case encryption of Some ctx \<Rightarrow> encrypt_artifact (art_prims.truncate P) nonce ctx ''index'' plain | None \<Rightarrow> Inr plain) = Inr content"
    by (auto simp: index_file_content_def serialize_index_artifact_payload_def result_simps Let_def)
  have zero: "ah_object_checksum (?header payload) = zero32" by (simp add: artifact_header_new_def)
  from decode_sealed [OF idx_codecs_okD(1) [OF codecs] enc zero] obtain s where
    magic: "starts_with plain artifact_envelope_magic"
    and dec: "decode_artifact_envelope (art_prims.truncate P) plain =
        Inr \<lparr>ae_header = (?header payload)\<lparr>ah_object_checksum := s\<rparr>, ae_payload = payload\<rparr>"
    by auto
  note dec' = body_roundtrip [OF idx_codecs_okD(2) [OF codecs] nonce magic body]
  show ?thesis
    using dec' magic dec idx_codecs_okD(3) [OF codecs pay] js art
    by (simp add: read_index_artifact_def files' Let_def artifact_header_new_def index_reads_back_def starts_with_def)
qed

text \<open>The bitmap answers the tenant mask and the scalar predicates exactly.\<close>

lemma visible_record_ids_iff:
  "set (visible_record_ids (build_bitmap_index segment_id generation manifest_generation source_checksum records) tenant_id scalar_eq) =
     {xr_record_id r | r. r \<in> set records \<and> xr_tenant_id r = tenant_id \<and>
        (\<forall>(key, val) \<in> set scalar_eq. has_value (xr_fields r) key val)}"
  by (auto simp: visible_record_ids_def build_bitmap_index_def Let_def List.filter_map o_def image_iff list_all_iff)


subsection \<open>Which records the text index scores\<close>

lemma split_bytes_cases:
  "p \<in> set (split_bytes sep acc (c # cs)) \<Longrightarrow>
     p = rev acc \<or> (sep c \<and> p \<in> set (split_bytes sep [] cs)) \<or>
     (\<not> sep c \<and> p \<in> set (split_bytes sep (c # acc) cs))"
  by (cases "sep c") simp_all

lemma split_bytes_no_sep:
  "p \<in> set (split_bytes sep acc cs) \<Longrightarrow> list_all (\<lambda>c. \<not> sep c) acc \<Longrightarrow> list_all (\<lambda>c. \<not> sep c) p"
proof (induction cs arbitrary: acc)
  case (Cons c cs)
  from split_bytes_cases [OF Cons.prems(1)] Cons.prems(2) Cons.IH [of "[]"] Cons.IH [of "c # acc"]
  show ?case by (elim disjE conjE) simp_all
qed simp

lemma alnum_not_nul: "is_ascii_alphanumeric c \<Longrightarrow> to_ascii_lower c \<noteq> byte_of 0"
proof
  assume c: "is_ascii_alphanumeric c" and "to_ascii_lower c = byte_of 0"
  then have "of_char (to_ascii_lower c) = (0 :: nat)" by simp
  with c show False
    by (auto simp: is_ascii_alphanumeric_def is_ascii_alphabetic_def is_ascii_digit_def to_ascii_lower_def split: if_splits)
qed

lemma token_no_nul: "t \<in> set (tokenize body) \<Longrightarrow> byte_of 0 \<notin> set t"
proof -
  assume "t \<in> set (tokenize body)"
  then obtain p where "p \<in> set (split_bytes (\<lambda>c. \<not> is_ascii_alphanumeric c) [] body)" and t: "t = map to_ascii_lower p"
    by (auto simp: tokenize_def)
  from split_bytes_no_sep [OF this(1)] have "\<forall>c \<in> set p. is_ascii_alphanumeric c" by (simp add: list_all_iff)
  then show ?thesis unfolding t using alnum_not_nul by (metis image_iff list.set_map)
qed

lemma posting_key_inj:
  assumes "byte_of 0 \<notin> set t" "byte_of 0 \<notin> set t'"
  shows "posting_key f t = posting_key f' t' \<longleftrightarrow> f = f' \<and> t = t'"
proof
  assume "posting_key f t = posting_key f' t'"
  then have eq: "rev t @ byte_of 0 # rev f = rev t' @ byte_of 0 # rev f'"
    by (metis append.assoc append_Cons append_Nil posting_key_def rev.simps(2) rev_append rev_rev_ident)
  have "takeWhile (\<lambda>c. c \<noteq> byte_of 0) (rev s @ byte_of 0 # g) = rev s" if "byte_of 0 \<notin> set s" for s g
    using that by (simp add: takeWhile_append)
  from this [OF assms(1), of "rev f"] this [OF assms(2), of "rev f'"] eq have "rev t = rev t'" by simp
  with eq show "f = f' \<and> t = t'" by simp
qed simp

text \<open>The pairs of a key and a record that a postings map lists.\<close>

definition listed :: "(string, text_index_posting list) bmap \<Rightarrow> (string \<times> string) set" where
  "listed m = {(k, rid). \<exists>ps. bm_get m k = Some ps \<and> rid \<in> xp_record_id ` set ps}"

lemma listed_Nil [simp]: "listed [] = {}"
  by (simp add: listed_def)

lemma listed_push: "listed (push_posting k p m) = insert (k, xp_record_id p) (listed m)"
  by (auto simp: listed_def push_posting_def split: if_splits option.splits)

lemma term_frequencies_keys: "fst ` set (term_frequencies tokens) = set tokens"
proof -
  have "term_frequencies tokens = count_terms tokens tokens"
    unfolding term_frequencies_def count_terms_def by (rule foldl_cong) auto
  then show ?thesis using keys_count_terms [of tokens tokens] by (simp add: bm_keys_def)
qed

lemma listed_push_terms:
  "listed (foldl (\<lambda>ps (term, tf). push_posting (posting_key field term)
       \<lparr>xp_record_id = rid, xp_term_frequency = tf, xp_doc_len = n\<rparr> ps) postings tfs) =
   listed postings \<union> (\<lambda>term. (posting_key field term, rid)) ` fst ` set tfs"
  by (induction tfs arbitrary: postings) (auto simp: listed_push)

abbreviation (input) field_listed :: "string \<Rightarrow> string \<times> string \<Rightarrow> (string \<times> string) set" where
  "field_listed rid fb \<equiv> {(posting_key (fst fb) term, rid) | term. term \<in> set (tokenize (snd fb))}"

lemma listed_fields:
  "listed (fst (snd (snd (foldl (index_text_field rid) (flds, lengths, postings, tot) fbs)))) =
     listed postings \<union> (\<Union>fb \<in> set fbs. field_listed rid fb)"
proof (induction fbs arbitrary: flds lengths postings tot)
  case (Cons fb fbs)
  have "fst (snd (snd (index_text_field rid (flds, lengths, postings, tot) fb))) =
      foldl (\<lambda>ps (term, tf). push_posting (posting_key (fst fb) term)
       \<lparr>xp_record_id = rid, xp_term_frequency = tf, xp_doc_len = length (tokenize (snd fb))\<rparr> ps)
       postings (term_frequencies (tokenize (snd fb)))"
    by (simp add: index_text_field_def Let_def split: prod.splits)
  then have "listed (fst (snd (snd (index_text_field rid (flds, lengths, postings, tot) fb)))) =
      listed postings \<union> field_listed rid fb"
    by (simp only: listed_push_terms term_frequencies_keys) blast
  then show ?case
    using Cons.IH by (cases "index_text_field rid (flds, lengths, postings, tot) fb") auto
qed simp

lemma listed_records:
  "listed (fst (snd (foldl index_text_record (docs, postings, tot) records))) =
     listed postings \<union> (\<Union>r \<in> set records. \<Union>fb \<in> set (xr_text r). field_listed (xr_record_id r) fb)"
proof (induction records arbitrary: docs postings tot)
  case (Cons r records)
  have "listed (fst (snd (index_text_record (docs, postings, tot) r))) =
      listed postings \<union> (\<Union>fb \<in> set (xr_text r). field_listed (xr_record_id r) fb)"
    using listed_fields [of "xr_record_id r" "[]" "[]" postings tot "xr_text r"]
    by (simp add: index_text_record_def Let_def case_prod_beta)
  then show ?case
    using Cons.IH by (cases "index_text_record (docs, postings, tot) r") (auto simp: Un_assoc)
qed simp

lemma build_text_index_postings:
  "listed (ti_postings (build_text_index segment_id generation manifest_generation source_checksum records)) =
     (\<Union>r \<in> set records. \<Union>fb \<in> set (xr_text r). field_listed (xr_record_id r) fb)"
  using listed_records [of "[]" "[]" 0 records] by (simp add: build_text_index_def Let_def case_prod_beta)

lemma fst_foldl_insert:
  "fst ` set (foldl (\<lambda>m p. bm_insert (f p) (g m p) m) m ps) = fst ` set m \<union> f ` set ps"
  by (induction ps arbitrary: m) auto

lemma foldl_insert_wf: "bm_wf m \<Longrightarrow> bm_wf (foldl (\<lambda>m p. bm_insert (f p) (g m p) m) m ps)"
  by (induction ps arbitrary: m) auto

lemma score_term_docs:
  assumes "bm_wf (fst acc)"
  shows "bm_wf (fst (score_term art field acc term)) \<and>
    fst ` set (fst (score_term art field acc term)) =
      fst ` set (fst acc) \<union> {rid. (posting_key field term, rid) \<in> listed (ti_postings art)}"
proof (cases "bm_get (ti_postings art) (posting_key field term)")
  case None
  then show ?thesis using assms by (cases acc) (simp add: score_term_def listed_def)
next
  case (Some ps)
  have "{rid. (posting_key field term, rid) \<in> listed (ti_postings art)} = xp_record_id ` set ps"
    using Some by (auto simp: listed_def)
  then show ?thesis
    using Some assms by (cases acc) (simp add: score_term_def fst_foldl_insert foldl_insert_wf)
qed

lemma score_terms_docs:
  assumes "bm_wf (fst acc)"
  shows "bm_wf (fst (foldl (score_term art field) acc terms)) \<and>
    fst ` set (fst (foldl (score_term art field) acc terms)) =
      fst ` set (fst acc) \<union> {rid. \<exists>term \<in> set terms. (posting_key field term, rid) \<in> listed (ti_postings art)}"
  using assms
proof (induction terms arbitrary: acc)
  case (Cons t ts)
  from score_term_docs [OF Cons.prems, of art field t] Cons.IH [of "score_term art field acc t"]
  show ?case by auto
qed simp

lemma score_fields_docs:
  assumes "bm_wf (fst acc)"
  shows "bm_wf (fst (foldl (\<lambda>acc field. foldl (score_term art field) acc terms) acc flds)) \<and>
    fst ` set (fst (foldl (\<lambda>acc field. foldl (score_term art field) acc terms) acc flds)) =
      fst ` set (fst acc) \<union>
      {rid. \<exists>field \<in> set flds. \<exists>term \<in> set terms. (posting_key field term, rid) \<in> listed (ti_postings art)}"
  using assms
proof (induction flds arbitrary: acc)
  case (Cons f fs)
  from score_terms_docs [OF Cons.prems, of art f terms] Cons.IH [of "foldl (score_term art f) acc terms"]
  show ?case by auto
qed simp

lemma distinct_map_filter_map:
  assumes "distinct (map f xs)" and "\<And>x y. x \<in> set xs \<Longrightarrow> g x = Some y \<Longrightarrow> h y = f x"
  shows "distinct (map h (filter_map g xs))"
  using assms
proof (induction xs)
  case (Cons x xs)
  have "h y \<noteq> f x" if "y \<in> set (filter_map g xs)" for y
  proof -
    from that obtain z where "z \<in> set xs" "g z = Some y" by (auto simp: set_filter_map)
    with Cons.prems show ?thesis by (metis distinct.simps(2) image_eqI list.set_intros(2) list.set_map list.simps(9))
  qed
  moreover have "distinct (map h (filter_map g xs))" using Cons by simp
  moreover have "h y = f x" if "g x = Some y" for y using Cons.prems that by simp
  ultimately have "g x = Some y \<Longrightarrow> h y \<notin> h ` set (filter_map g xs)" for y by fastforce
  with \<open>distinct (map h (filter_map g xs))\<close> show ?case by (cases "g x") auto
qed simp

text \<open>
  The text index of a segment scores exactly records whose searched fields share a token with the
  query: every scored record is one of these, with a positive score, and is listed once.
\<close>

theorem score_text_sound:
  fixes records segment_id generation manifest_generation source_checksum
  defines "art \<equiv> build_text_index segment_id generation manifest_generation source_checksum records"
  shows "distinct (map tx_record_id (score_text ln32 art query text_field)) \<and>
    (\<forall>s \<in> set (score_text ln32 art query text_field). f32_gt (tx_score s) 0 \<and>
      (\<exists>r \<in> set records. xr_record_id r = tx_record_id s \<and>
        (\<exists>(field, body) \<in> set (xr_text r). (text_field = None \<or> text_field = Some field) \<and>
           set (tokenize body) \<inter> set (tokenize query) \<noteq> {})))"
proof -
  define scores_of where "scores_of = (\<lambda>tfs lens df. filter_map (\<lambda>(record_id, tf).
      let score = bm25_from_term_frequency ln32 (tokenize query) tf
            (case bm_get lens record_id of Some n \<Rightarrow> n | None \<Rightarrow> 0) (ti_doc_count art) (ti_avg_len art) df
      in if f32_gt score 0 then Some \<lparr>tx_record_id = record_id, tx_score = score\<rparr> else None) tfs)"
  let ?acc = "foldl (\<lambda>acc field. foldl (score_term art field) acc (bs_collect (tokenize query))) ([], [], [])
       (score_text_fields art text_field)"
  have wf: "bm_wf (fst ?acc)" and keys: "fst ` set (fst ?acc) = {rid. \<exists>field \<in> set (score_text_fields art text_field).
      \<exists>term \<in> set (tokenize query). (posting_key field term, rid) \<in> listed (ti_postings art)}"
    using score_fields_docs [of "([], [], [])" art "bs_collect (tokenize query)" "score_text_fields art text_field"] by auto
  have key: "\<exists>r \<in> set records. xr_record_id r = rid \<and> (\<exists>(field, body) \<in> set (xr_text r).
      (text_field = None \<or> text_field = Some field) \<and> set (tokenize body) \<inter> set (tokenize query) \<noteq> {})"
    if "rid \<in> fst ` set (fst ?acc)" for rid
  proof -
    from that keys obtain field t r fb t' where f: "field \<in> set (score_text_fields art text_field)"
      and t: "t \<in> set (tokenize query)" and r: "r \<in> set records" "xr_record_id r = rid" "fb \<in> set (xr_text r)"
      and t': "t' \<in> set (tokenize (snd fb))" and eq: "posting_key field t = posting_key (fst fb) t'"
      by (auto simp: art_def build_text_index_postings)
    have "field = fst fb" "t = t'"
      using posting_key_inj [OF token_no_nul [OF t] token_no_nul [OF t']] eq by simp_all
    with f t t' r show ?thesis
      by (cases text_field) (auto simp: score_text_fields_def intro!: bexI [of _ r] bexI [of _ fb])
  qed
  obtain tfs lens df where acc: "?acc = (tfs, lens, df)" by (cases ?acc) auto
  have "distinct (map fst tfs)" using wf acc by (simp add: bm_wf_distinct)
  then have "distinct (map tx_record_id (scores_of tfs lens df))"
    unfolding scores_of_def by (rule distinct_map_filter_map) (auto simp: Let_def split: if_splits)
  moreover have "tx_record_id s \<in> fst ` set tfs \<and> f32_gt (tx_score s) 0" if "s \<in> set (scores_of tfs lens df)" for s
    using that by (force simp: scores_of_def set_filter_map Let_def split: if_splits)
  moreover have "score_text ln32 art query text_field =
      (if tokenize query = [] \<or> ti_doc_count art = 0 then []
       else sort_by (\<lambda>l r. score_order (tx_score l) (tx_score r)) (scores_of tfs lens df))"
    by (simp add: score_text_def acc scores_of_def Let_def)
  ultimately show ?thesis
    using key acc by simp
qed

end
