(* ===== verification/Sealing.thy ===== *)
theory Sealing
  imports Index_Artifacts
begin

text \<open>
  Sealing, compaction and vacuum of the engine, from \<open>crates/tracedb-query/src/lib.rs\<close>:
  \<open>publish_segment\<close>, \<open>compact\<close>, \<open>vacuum\<close>, and what a query reads of the sealed segments.

  The state is the handle, the directory and the artifact files, which are named by their path
  relative to the database directory. Segment identifiers have no path separator. Encryption
  draws one nonce per file; \<open>nonces n\<close> is the one for the n-th file of an operation.
\<close>

section \<open>Numbers and messages\<close>

text \<open>\<open>as_f64() as f32\<close>.\<close>

definition number_as_f32 :: "json_number \<Rightarrow> f32" where
  "number_as_f32 n =
     (case n of
        PosInt u \<Rightarrow> f32_of_f64 (f64_of_int (uint u))
      | NegInt i \<Rightarrow> f32_of_f64 (f64_of_int i)
      | Float bits \<Rightarrow> f32_of_f64 bits)"

definition error_text :: "error \<Rightarrow> string" where
  "error_text err =
     (case err of
        Io _ m \<Rightarrow> ''io error: '' @ m
      | Json m \<Rightarrow> ''json error: '' @ m
      | UnknownTable m \<Rightarrow> ''unknown table: '' @ m
      | InvalidSchema m \<Rightarrow> ''invalid schema: '' @ m
      | InvalidRecord m \<Rightarrow> ''invalid record: '' @ m
      | InvalidVectorDimensions column expected actual \<Rightarrow>
          ''invalid vector dimensions for '' @ column @ '': expected '' @ show_nat expected @ '', got '' @ show_nat actual
      | WalCorruption m \<Rightarrow> ''wal corruption: '' @ m
      | ManifestCorruption m \<Rightarrow> ''manifest corruption: '' @ m
      | Crypto m \<Rightarrow> ''crypto error: '' @ m
      | ArtifactCorruption m \<Rightarrow> ''artifact corruption: '' @ m
      | ModuleRejected module reason \<Rightarrow> ''module '' @ module @ '' rejected: '' @ reason
      | NotFound m \<Rightarrow> ''not found: '' @ m
      | InvalidCommand m \<Rightarrow> ''invalid command: '' @ m)"

definition map_err :: "(error \<Rightarrow> error) \<Rightarrow> 'a result \<Rightarrow> 'a result" where
  "map_err f r = (case r of Inl e \<Rightarrow> Inl (f e) | Inr x \<Rightarrow> Inr x)"

lemma map_err_eq_Inr [result_simps]: "map_err f r = Inr x \<longleftrightarrow> r = Inr x"
  by (auto simp: map_err_def split: sum.splits)

lemma map_err_Inr [simp]: "map_err f (Inr x) = Inr x"
  by (simp add: map_err_def)

definition segment_state_debug :: "segment_state \<Rightarrow> string" where
  "segment_state_debug s =
     (case s of Building \<Rightarrow> ''Building'' | Built \<Rightarrow> ''Built'' | Verifying \<Rightarrow> ''Verifying'' | Verified \<Rightarrow> ''Verified''
      | Publishing \<Rightarrow> ''Publishing'' | Published \<Rightarrow> ''Published'' | Superseded \<Rightarrow> ''Superseded''
      | Reclaimable \<Rightarrow> ''Reclaimable'' | Deleted \<Rightarrow> ''Deleted'' | SegFailed \<Rightarrow> ''Failed'')"

section \<open>The records of a snapshot\<close>

definition segment_text :: "table_schema \<Rightarrow> stored_record \<Rightarrow> (string, string) bmap" where
  "segment_text schema r =
     foldl (\<lambda>m column. case Option.bind (bm_get (sr_fields r) column) as_str of
         Some val \<Rightarrow> bm_insert column val m | None \<Rightarrow> m) [] (ts_text_indexed_columns schema)"

definition segment_vectors :: "table_schema \<Rightarrow> stored_record \<Rightarrow> (string, f32 list) bmap" where
  "segment_vectors schema r =
     foldl (\<lambda>m vec. case Option.bind (bm_get (sr_fields r) (vc_name vec)) (value_as_f32_vec number_as_f32) of
         Some vals \<Rightarrow> bm_insert (vc_name vec) vals m | None \<Rightarrow> m) [] (ts_vector_columns schema)"

definition segment_record_of :: "table_schema \<Rightarrow> stored_record \<Rightarrow> segment_record" where
  "segment_record_of schema r =
     \<lparr>sg_table = rh_table_id (sr_header r), sg_record_id = rh_record_id (sr_header r),
      sg_tenant_id = rh_tenant_id (sr_header r), sg_version_id = rh_version_id (sr_header r),
      sg_fields = sr_fields r, sg_text = segment_text schema r, sg_vectors = segment_vectors schema r\<rparr>"

definition segment_records_for_snapshot :: "trace_db \<Rightarrow> segment_record list" where
  "segment_records_for_snapshot db =
     (let snap = snapshot (td_store db) (mf_latest_epoch (td_manifest db))
      in concat (map (\<lambda>schema. map (segment_record_of schema) (snapshot_all_visible_records snap (ts_name schema)))
           (mf_schemas (td_manifest db))))"

section \<open>Reading sealed segments\<close>

definition segment_path :: "string \<Rightarrow> string" where
  "segment_path segment_id = ''segments/'' @ segment_id @ ''.tseg''"

definition index_path :: "string \<Rightarrow> string" where
  "index_path index_id = ''indexes/'' @ index_id @ ''.tidx''"

definition index_verification_error :: "index_manifest \<Rightarrow> error \<Rightarrow> error" where
  "index_verification_error ix err =
     ArtifactCorruption (''index artifact '' @ im_index_id ix @ '' failed verification: '' @ error_text err)"

definition validate_ready_index ::
    "idx_prims \<Rightarrow> artifact_files \<Rightarrow> encryption_context option \<Rightarrow> unit \<Rightarrow> index_manifest \<Rightarrow> unit result" where
  "validate_ready_index P files encryption u ix =
     rbind (map_err (index_verification_error ix) (read_index_artifact P files (im_object_path ix) encryption)) (\<lambda>art.
     rbind (payload_checksum P art) (\<lambda>sum.
     rbind (ensure (im_payload_checksum ix = zero32 \<or> sum = im_payload_checksum ix)
       (ArtifactCorruption (''index artifact '' @ im_index_id ix @ '' payload checksum mismatch: manifest '' @
          debug_bytes (im_payload_checksum ix) @ '', artifact '' @ debug_bytes sum))) (\<lambda>_.
     ensure (im_source_segment_checksum ix = zero32 \<or> ia_source_segment_checksum art = im_source_segment_checksum ix)
       (ArtifactCorruption (''index artifact '' @ im_index_id ix @ '' source segment checksum mismatch'')))))"

definition validate_ready_indexes_for_segment ::
    "idx_prims \<Rightarrow> artifact_files \<Rightarrow> trace_db \<Rightarrow> string \<Rightarrow> unit result" where
  "validate_ready_indexes_for_segment P files db segment_id =
     rfold (validate_ready_index P files (td_encryption db)) ()
       (filter (\<lambda>ix. im_segment_id ix = segment_id \<and> im_state ix = IxReady) (mf_indexes (td_manifest db)))"

text \<open>One round of the loop over the segments of the manifest.\<close>

definition sealed_segment_step ::
    "idx_prims \<Rightarrow> artifact_files \<Rightarrow> trace_db \<Rightarrow> string \<Rightarrow> string \<Rightarrow> segment_record list \<Rightarrow> segment_manifest \<Rightarrow>
     segment_record list result" where
  "sealed_segment_step P files db table tenant_id out seg =
     (if sm_state seg \<noteq> Published then Inr out
      else if sm_table_set seg \<noteq> [] \<and> table \<notin> set (sm_table_set seg) then Inr out
      else if sm_tenant_set seg \<noteq> [] \<and> tenant_id \<notin> set (sm_tenant_set seg) then Inr out
      else if \<not> bm_contains files (segment_path (sm_segment_id seg)) then Inr out
      else
        rbind (read_segment_object_with_encryption (seg_prims.truncate P) files (segment_path (sm_segment_id seg))
                 (td_encryption db)) (\<lambda>ob.
        rbind (validate_ready_indexes_for_segment P files db (sm_segment_id seg)) (\<lambda>_.
        Inr (out @ filter (\<lambda>r. sg_table r = table \<and> sg_tenant_id r = tenant_id) (sb_records ob)))))"

definition sealed_segment_records ::
    "idx_prims \<Rightarrow> artifact_files \<Rightarrow> trace_db \<Rightarrow> string \<Rightarrow> string \<Rightarrow> segment_record list result" where
  "sealed_segment_records P files db table tenant_id =
     rfold (sealed_segment_step P files db table tenant_id) [] (mf_segments (td_manifest db))"

section \<open>Building the indexes of a segment\<close>

definition index_record_from_segment :: "segment_record \<Rightarrow> index_record" where
  "index_record_from_segment r =
     \<lparr>xr_table = sg_table r, xr_record_id = sg_record_id r, xr_tenant_id = sg_tenant_id r,
      xr_version_id = sg_version_id r, xr_fields = sg_fields r, xr_text = sg_text r, xr_vectors = sg_vectors r\<rparr>"

definition index_manifest_for ::
    "trace_db \<Rightarrow> segment_object \<Rightarrow> u64 \<Rightarrow> index_artifact \<Rightarrow> bytes \<Rightarrow> bytes \<Rightarrow> index_manifest" where
  "index_manifest_for db ob parent_generation art checksum pay_checksum =
     \<lparr>im_index_id = ia_index_id art, im_segment_id = sb_segment_id ob, im_generation = sb_generation ob,
      im_kind = ia_kind art, im_state = IxReady, im_policy_aware = True,
      im_parent_manifest_generation = parent_generation, im_object_path = index_path (ia_index_id art),
      im_checksum = checksum, im_source_segment_checksum = sb_object_checksum ob,
      im_payload_checksum = pay_checksum, im_artifact_format_version = 1, im_codec = ''bincode'',
      im_created_epoch = mf_latest_epoch (td_manifest db), im_ready_epoch = Some (mf_latest_epoch (td_manifest db))\<rparr>"

fun write_index_files ::
    "idx_prims \<Rightarrow> (nat \<Rightarrow> bytes) \<Rightarrow> trace_db \<Rightarrow> segment_object \<Rightarrow> u64 \<Rightarrow> nat \<Rightarrow> index_artifact list \<Rightarrow>
     (artifact_files, index_manifest list) op" where
  "write_index_files P nonces db ob parent_generation n [] = ereturn []"
| "write_index_files P nonces db ob parent_generation n (art # arts) =
     ebind (write_index_artifact P (nonces n) (index_path (ia_index_id art)) art (td_encryption db)) (\<lambda>checksum.
     ebind (ereads (\<lambda>_. payload_checksum P art)) (\<lambda>pay_checksum.
     ebind (write_index_files P nonces db ob parent_generation (Suc n) arts) (\<lambda>manifests.
     ereturn (index_manifest_for db ob parent_generation art checksum pay_checksum # manifests))))"

definition build_segment_indexes ::
    "idx_prims \<Rightarrow> (nat \<Rightarrow> bytes) \<Rightarrow> trace_db \<Rightarrow> segment_object \<Rightarrow> u64 \<Rightarrow> (artifact_files, index_manifest list) op" where
  "build_segment_indexes P nonces db ob parent_generation =
     write_index_files P nonces db ob parent_generation 1
       (build_segment_index_artifacts (sb_segment_id ob) (sb_generation ob) parent_generation
         (sb_object_checksum ob) (map index_record_from_segment (sb_records ob)))"

section \<open>Publishing\<close>

type_synonym seal_state = "trace_db \<times> disk \<times> artifact_files"

text \<open>An operation on the files, and one on the handle and the directory.\<close>

definition on_files :: "(trace_db \<Rightarrow> (artifact_files, 'a) op) \<Rightarrow> (seal_state, 'a) op" where
  "on_files f = (\<lambda>(db, d, files). case f db files of (r, files') \<Rightarrow> (r, (db, d, files')))"

definition on_engine :: "(eng_state, 'a) op \<Rightarrow> (seal_state, 'a) op" where
  "on_engine f = (\<lambda>(db, d, files). case f (db, d) of (r, (db', d')) \<Rightarrow> (r, (db', d', files)))"

definition check_parent_generation :: "u64 \<Rightarrow> manifest \<Rightarrow> unit result" where
  "check_parent_generation parent_generation durable =
     ensure (parent_generation = mf_manifest_generation durable)
       (ManifestCorruption (''parent manifest generation mismatch: expected '' @
          show_nat (unat (mf_manifest_generation durable)) @ '', got '' @ show_nat (unat parent_generation)))"

definition install_sealed_manifest ::
    "idx_prims \<Rightarrow> manifest \<Rightarrow> manifest \<Rightarrow> segment_object \<Rightarrow> index_manifest list \<Rightarrow> (seal_state, unit) op" where
  "install_sealed_manifest P durable kept ob index_manifests =
     on_engine (eupdates (\<lambda>(db, d).
       rbind (write_manifest (eng_prims.truncate P) d
         (kept\<lparr>mf_segments := mf_segments kept @ [object_manifest ob],
               mf_indexes := mf_indexes kept @ index_manifests,
               mf_manifest_generation := mf_manifest_generation durable + 1,
               mf_parent_checksum := mf_manifest_checksum durable\<rparr>)) (\<lambda>(d', m).
       Inr ((), (db\<lparr>td_manifest := m\<rparr>, d')))))"

text \<open>
  The common end of both publications: write the object and its indexes, then the manifest \<open>kept\<close>
  that is made of the durable one, extended by the new segment.
\<close>

definition seal_records ::
    "idx_prims \<Rightarrow> (nat \<Rightarrow> bytes) \<Rightarrow> string \<Rightarrow> u64 \<Rightarrow> u64 \<Rightarrow> manifest \<Rightarrow> manifest \<Rightarrow> (seal_state, unit) op" where
  "seal_records P nonces segment_id generation parent_generation durable kept =
     ebind (on_files (\<lambda>db. publish_segment_records_with_encryption (seg_prims.truncate P) (nonces 0)
              (segment_path segment_id) segment_id generation (segment_records_for_snapshot db) (td_encryption db))) (\<lambda>ob.
     ebind (on_files (\<lambda>db. build_segment_indexes P nonces db ob parent_generation)) (\<lambda>index_manifests.
     install_sealed_manifest P durable kept ob index_manifests))"

text \<open>A segment that the manifest already has as published is only read and compared.\<close>

definition reuse_published_segment ::
    "idx_prims \<Rightarrow> string \<Rightarrow> manifest \<Rightarrow> segment_manifest \<Rightarrow> (seal_state, unit) op" where
  "reuse_published_segment P segment_id durable existing =
     eupdates (\<lambda>(db, d, files).
       rbind (ensure (sm_state existing = Published)
         (ManifestCorruption (''segment '' @ sm_segment_id existing @ '' already exists in state '' @
            segment_state_debug (sm_state existing)))) (\<lambda>_.
       rbind (read_segment_object_with_encryption (seg_prims.truncate P) files (segment_path segment_id) (td_encryption db)) (\<lambda>ob.
       rbind (ensure (sb_generation ob = sm_generation existing)
         (ManifestCorruption (''segment object generation mismatch: manifest '' @
            show_nat (unat (sm_generation existing)) @ '', object '' @ show_nat (unat (sb_generation ob))))) (\<lambda>_.
       Inr ((), (db\<lparr>td_manifest := durable\<rparr>, d, files))))))"

definition publish_segment_with_parent_generation ::
    "idx_prims \<Rightarrow> (nat \<Rightarrow> bytes) \<Rightarrow> string \<Rightarrow> u64 \<Rightarrow> (seal_state, unit) op" where
  "publish_segment_with_parent_generation P nonces segment_id parent_generation =
     ebind (on_engine (ereads (\<lambda>(db, d). read_manifest (eng_prims.truncate P) d))) (\<lambda>durable.
     ebind (ereads (\<lambda>_. check_parent_generation parent_generation durable)) (\<lambda>_.
     case find (\<lambda>seg. sm_segment_id seg = segment_id) (mf_segments durable) of
       Some existing \<Rightarrow> reuse_published_segment P segment_id durable existing
     | None \<Rightarrow>
         seal_records P nonces segment_id (of_nat (length (mf_segments durable)) + 1) parent_generation durable durable))"

definition publish_segment :: "idx_prims \<Rightarrow> (nat \<Rightarrow> bytes) \<Rightarrow> string \<Rightarrow> (seal_state, unit) op" where
  "publish_segment P nonces segment_id s =
     publish_segment_with_parent_generation P nonces segment_id (mf_manifest_generation (td_manifest (fst s))) s"

text \<open>Compaction drops the published segments and their indexes from the manifest.\<close>

definition published_segment_ids :: "manifest \<Rightarrow> string list" where
  "published_segment_ids m = bs_collect (map sm_segment_id (filter (\<lambda>seg. sm_state seg = Published) (mf_segments m)))"

definition retain_unpublished :: "manifest \<Rightarrow> manifest" where
  "retain_unpublished m =
     m\<lparr>mf_segments := filter (\<lambda>seg. sm_segment_id seg \<notin> set (published_segment_ids m)) (mf_segments m),
       mf_indexes := filter (\<lambda>ix. im_segment_id ix \<notin> set (published_segment_ids m)) (mf_indexes m)\<rparr>"

definition publish_compacted_segment ::
    "idx_prims \<Rightarrow> (nat \<Rightarrow> bytes) \<Rightarrow> string \<Rightarrow> u64 \<Rightarrow> (seal_state, unit) op" where
  "publish_compacted_segment P nonces segment_id parent_generation =
     ebind (on_engine (ereads (\<lambda>(db, d). read_manifest (eng_prims.truncate P) d))) (\<lambda>durable.
     ebind (ereads (\<lambda>_.
       rbind (check_parent_generation parent_generation durable) (\<lambda>_.
       ensure (\<not> list_ex (\<lambda>seg. sm_segment_id seg = segment_id) (mf_segments durable))
         (ManifestCorruption (''compacted segment '' @ segment_id @ '' already exists''))))) (\<lambda>_.
     seal_records P nonces segment_id (mf_manifest_generation durable + 1) parent_generation durable
       (retain_unpublished durable)))"

definition compact_segment_id :: "manifest \<Rightarrow> string" where
  "compact_segment_id m =
     ''compact-'' @ show_nat (unat (mf_latest_epoch m)) @ ''-'' @ show_nat (unat (mf_manifest_generation m + 1))"

definition db_compact :: "idx_prims \<Rightarrow> (nat \<Rightarrow> bytes) \<Rightarrow> (seal_state, unit) op" where
  "db_compact P nonces s =
     (let m = td_manifest (fst s)
      in publish_compacted_segment P nonces (compact_segment_id m) (mf_manifest_generation m) s)"

section \<open>Vacuum\<close>

text \<open>\<open>Path::file_name\<close> for a path that ends in a file name, and \<open>Path::extension\<close> of a name.\<close>

definition path_file_name :: "string \<Rightarrow> string" where
  "path_file_name path = rev (takeWhile (\<lambda>c. c \<noteq> CHR ''/'') (rev path))"

definition file_extension :: "string \<Rightarrow> string option" where
  "file_extension name =
     (let ext_rev = takeWhile (\<lambda>c. c \<noteq> CHR ''.'') (rev name)
      in if length name \<le> Suc (length ext_rev) then None else Some (rev ext_rev))"

text \<open>Whether a path names a file directly in a directory.\<close>

definition in_dir :: "string \<Rightarrow> string \<Rightarrow> bool" where
  "in_dir dir path = (starts_with path (dir @ ''/'') \<and> CHR ''/'' \<notin> set (drop (length dir + 1) path))"

definition vacuum_removes :: "string bset \<Rightarrow> string \<Rightarrow> bool" where
  "vacuum_removes referenced name =
     (file_extension name = Some ''tmp'' \<or>
      (file_extension name \<in> {Some ''tseg'', Some ''tidx''} \<and> name \<notin> set referenced))"

definition vacuum_artifact_dir :: "string \<Rightarrow> string bset \<Rightarrow> artifact_files \<Rightarrow> nat \<times> artifact_files" where
  "vacuum_artifact_dir dir referenced files =
     (let doomed = (\<lambda>(path, _). in_dir dir path \<and> vacuum_removes referenced (path_file_name path))
      in (length (filter doomed files), filter (\<lambda>e. \<not> doomed e) files))"

definition db_vacuum :: "idx_prims \<Rightarrow> (seal_state, nat) op" where
  "db_vacuum P =
     ebind (on_engine (refresh_from_disk_if_stale (eng_prims.truncate P))) (\<lambda>_.
     on_files (\<lambda>db files.
       let referenced_segments = bs_collect (map (\<lambda>seg. sm_segment_id seg @ ''.tseg'') (mf_segments (td_manifest db)));
           referenced_indexes = bs_collect (map (\<lambda>ix. path_file_name (im_object_path ix)) (mf_indexes (td_manifest db)));
           (removed_segments, files1) = vacuum_artifact_dir ''segments'' referenced_segments files;
           (removed_indexes, files2) = vacuum_artifact_dir ''indexes'' referenced_indexes files1
       in (Inr (removed_segments + removed_indexes), files2)))"

end
