(* ===== verification/Planner.thy ===== *)
theory Planner
  imports Core F32
begin

text \<open>
  The query planner's data and its choice of a strategy, from \<open>crates/tracedb-planner/src/lib.rs\<close>.
  Timings are left out. \<open>plan_opens_what_is_asked\<close> relates the opened and skipped paths of a plan
  to the query.
\<close>

section \<open>Queries and plans\<close>

record query_fragment =
  qf_text_field :: "string option"
  qf_text :: "string option"
  qf_vector_field :: "string option"
  qf_vector_dimensions :: "nat option"

datatype planner_strategy =
    RelationalFirst | TextFirst | VectorFirst | GraphFirst | TemporalFirst | PolicyPartitionFirst
  | FeatureStateFirst | HybridRecall | ExactHotPlusAnnWarm

text \<open>The \<open>Debug\<close> form.\<close>

definition strategy_debug :: "planner_strategy \<Rightarrow> string" where
  "strategy_debug s =
     (case s of RelationalFirst \<Rightarrow> ''RelationalFirst'' | TextFirst \<Rightarrow> ''TextFirst'' | VectorFirst \<Rightarrow> ''VectorFirst''
      | GraphFirst \<Rightarrow> ''GraphFirst'' | TemporalFirst \<Rightarrow> ''TemporalFirst'' | PolicyPartitionFirst \<Rightarrow> ''PolicyPartitionFirst''
      | FeatureStateFirst \<Rightarrow> ''FeatureStateFirst'' | HybridRecall \<Rightarrow> ''HybridRecall''
      | ExactHotPlusAnnWarm \<Rightarrow> ''ExactHotPlusAnnWarm'')"

record trace_query =
  tq_target_table :: string
  tq_tenant_id :: string
  tq_scalar_eq :: fields
  tq_text_field :: "string option"
  tq_text_terms :: "string list"
  tq_vector_field :: "string option"
  tq_vector_dimensions :: "nat option"
  tq_graph_seeds :: "string list"
  tq_temporal_as_of :: "u64 option"
  tq_limit :: nat
  tq_explain :: bool

text \<open>\<open>str::split_whitespace\<close>: the non-empty pieces between white-space characters.\<close>

function split_ws :: "string \<Rightarrow> string \<Rightarrow> string list" where
  "split_ws acc s =
     (case s of
        [] \<Rightarrow> (if acc = [] then [] else [rev acc])
      | c # cs \<Rightarrow>
          (case find (\<lambda>w. w \<noteq> [] \<and> starts_with s w) whitespace_encodings of
             Some w \<Rightarrow> (if acc = [] then [] else [rev acc]) @ split_ws [] (drop (length w) s)
           | None \<Rightarrow> split_ws (c # acc) cs))"
  by pat_completeness auto
termination
  by (relation "measure (\<lambda>(acc, s). length s)")
     (auto simp: find_Some_iff starts_with_def simp del: drop_Suc_Cons intro!: diff_less)

definition split_whitespace :: "string \<Rightarrow> string list" where
  "split_whitespace s = split_ws [] s"

definition trace_query_hybrid ::
    "string \<Rightarrow> string \<Rightarrow> string option \<Rightarrow> string option \<Rightarrow> string option \<Rightarrow> nat option \<Rightarrow> nat \<Rightarrow> trace_query" where
  "trace_query_hybrid target_table tenant_id text_field text vector_field vector_dimensions limit =
     \<lparr>tq_target_table = target_table, tq_tenant_id = tenant_id, tq_scalar_eq = [], tq_text_field = text_field,
      tq_text_terms = (case text of Some t \<Rightarrow> split_whitespace t | None \<Rightarrow> []),
      tq_vector_field = vector_field, tq_vector_dimensions = vector_dimensions, tq_graph_seeds = [],
      tq_temporal_as_of = None, tq_limit = limit, tq_explain = True\<rparr>"

record skipped_access_path =
  sk_access_path_id :: string
  sk_reason :: string

record physical_plan =
  pl_strategy :: planner_strategy
  pl_opened_paths :: "string list"
  pl_skipped_paths :: "skipped_access_path list"
  pl_exact_fallback :: bool
  pl_confidence_target :: "nat option"

definition opened_paths :: "trace_query \<Rightarrow> string list" where
  "opened_paths query =
     [''PolicyPath'', ''RelationalPath'', ''HotOverlayPath''] @
     (if tq_text_terms query \<noteq> [] then [''LexicalPath''] else []) @
     (if tq_vector_dimensions query \<noteq> None then [''VectorPath''] else []) @
     (if tq_graph_seeds query \<noteq> [] then [''GraphPath''] else []) @
     (if tq_temporal_as_of query \<noteq> None then [''TemporalPath''] else [])"

definition plan_trace_query :: "trace_query \<Rightarrow> nat \<Rightarrow> physical_plan" where
  "plan_trace_query query visible_records =
     (let has_vector = (tq_vector_dimensions query \<noteq> None);
          has_text = (tq_text_terms query \<noteq> []);
          exact_fallback = (has_vector \<and> visible_records \<le> 32);
          strategy =
            (if exact_fallback then PolicyPartitionFirst
             else if has_vector \<and> has_text then HybridRecall
             else if has_vector then VectorFirst
             else if has_text then TextFirst
             else RelationalFirst);
          skipped_paths =
            map (\<lambda>path. \<lparr>sk_access_path_id = path, sk_reason = ''query did not request this evidence stream''\<rparr>)
              (filter (\<lambda>path. \<not> list_ex (\<lambda>opened. opened = path) (opened_paths query))
                [''GraphPath'', ''TemporalPath'', ''ModulePath''])
      in \<lparr>pl_strategy = strategy, pl_opened_paths = opened_paths query, pl_skipped_paths = skipped_paths,
          pl_exact_fallback = exact_fallback, pl_confidence_target = Some 95\<rparr>)"

section \<open>Access paths, candidates and rows\<close>

record access_path_descriptor =
  ad_access_path_id :: string
  ad_module_id :: "string option"
  ad_policy_aware :: bool

record access_path_explain =
  ae_access_path_id :: string
  ae_opened :: bool
  ae_visibility_checked_before_open :: bool
  ae_candidates :: nat

datatype feature_freshness = FreshReady | FreshDirty | FreshPending | FreshFailed | FreshMissing

record score_components =
  sc_vector :: "f32 option"
  sc_lexical :: "f32 option"
  sc_relational :: "f32 option"
  sc_freshness_penalty :: "f32 option"
  sc_final_score :: f32

record candidate =
  ca_record_id :: string
  ca_version_id :: u64
  ca_score_components :: score_components
  ca_score_upper_bound :: "f32 option"
  ca_source :: string
  ca_freshness :: feature_freshness
  ca_visibility_checked :: bool

definition minimum_access_path_descriptors :: "access_path_descriptor list" where
  "minimum_access_path_descriptors =
     [\<lparr>ad_access_path_id = ''PolicyPath'', ad_module_id = None, ad_policy_aware = True\<rparr>,
      \<lparr>ad_access_path_id = ''RelationalPath'', ad_module_id = None, ad_policy_aware = True\<rparr>,
      \<lparr>ad_access_path_id = ''HotOverlayPath'', ad_module_id = None, ad_policy_aware = True\<rparr>,
      \<lparr>ad_access_path_id = ''LexicalPath'', ad_module_id = Some ''tracedb-text'', ad_policy_aware = True\<rparr>,
      \<lparr>ad_access_path_id = ''VectorPath'', ad_module_id = Some ''tracedb-vector'', ad_policy_aware = True\<rparr>]"

record query_row =
  qr_record_id :: string
  qr_version_id :: u64
  qr_tenant_id :: string
  qr_fields :: fields
  qr_score :: score_components

record explain_output =
  ex_read_epoch :: epoch
  ex_schema_epoch :: epoch
  ex_policy_epoch :: epoch
  ex_tenant_mask_visible_records :: nat
  ex_scalar_filter_applied :: bool
  ex_scalar_filter_predicates :: "string list"
  ex_scalar_filter_visible_records :: nat
  ex_scalar_filter_removed_records :: nat
  ex_opened_candidate_streams :: "string list"
  ex_access_paths :: "access_path_explain list"
  ex_planner_candidates :: "candidate list"
  ex_candidate_budget :: nat
  ex_text_candidates :: nat
  ex_vector_candidates :: nat
  ex_hot_overlay_searched :: bool
  ex_freshness_mode :: string
  ex_dirty_feature_count :: nat
  ex_pending_feature_count :: nat
  ex_failed_feature_count :: nat
  ex_missing_feature_count :: nat
  ex_fusion_method :: string
  ex_deduped_candidate_count :: nat
  ex_materialized_count :: nat
  ex_final_visibility_guard_count :: nat
  ex_final_visibility_guard_removed :: nat
  ex_returned_count :: nat
  ex_segments_scanned :: nat
  ex_module_versions :: "string list"
  ex_selected_strategy :: "string option"
  ex_skipped_access_paths :: "string list"
  ex_exact_fallback_triggered :: bool
  ex_early_stop_reason :: "string option"
  ex_lexical_cache_hits :: nat
  ex_lexical_cache_misses :: nat
  ex_lexical_indexed_documents :: nat
  ex_lexical_scored_documents :: nat

definition explain_default :: explain_output where
  "explain_default =
     \<lparr>ex_read_epoch = 0, ex_schema_epoch = 0, ex_policy_epoch = 0, ex_tenant_mask_visible_records = 0,
      ex_scalar_filter_applied = False, ex_scalar_filter_predicates = [], ex_scalar_filter_visible_records = 0,
      ex_scalar_filter_removed_records = 0, ex_opened_candidate_streams = [], ex_access_paths = [],
      ex_planner_candidates = [], ex_candidate_budget = 0, ex_text_candidates = 0, ex_vector_candidates = 0,
      ex_hot_overlay_searched = False, ex_freshness_mode = [], ex_dirty_feature_count = 0,
      ex_pending_feature_count = 0, ex_failed_feature_count = 0, ex_missing_feature_count = 0,
      ex_fusion_method = [], ex_deduped_candidate_count = 0, ex_materialized_count = 0,
      ex_final_visibility_guard_count = 0, ex_final_visibility_guard_removed = 0, ex_returned_count = 0,
      ex_segments_scanned = 0, ex_module_versions = [], ex_selected_strategy = None,
      ex_skipped_access_paths = [], ex_exact_fallback_triggered = False, ex_early_stop_reason = None,
      ex_lexical_cache_hits = 0, ex_lexical_cache_misses = 0, ex_lexical_indexed_documents = 0,
      ex_lexical_scored_documents = 0\<rparr>"

record query_output =
  qo_results :: "query_row list"
  qo_explain :: explain_output
  qo_next_cursor :: "string option"

section \<open>What a plan opens\<close>

lemma opened_paths_iff:
  "''GraphPath'' \<in> set (opened_paths query) \<longleftrightarrow> tq_graph_seeds query \<noteq> []"
  "''TemporalPath'' \<in> set (opened_paths query) \<longleftrightarrow> tq_temporal_as_of query \<noteq> None"
  "''LexicalPath'' \<in> set (opened_paths query) \<longleftrightarrow> tq_text_terms query \<noteq> []"
  "''VectorPath'' \<in> set (opened_paths query) \<longleftrightarrow> tq_vector_dimensions query \<noteq> None"
  by (auto simp: opened_paths_def)

lemma plan_opens_what_is_asked:
  "pl_opened_paths (plan_trace_query query n) = opened_paths query"
  "map sk_access_path_id (pl_skipped_paths (plan_trace_query query n)) =
     filter (\<lambda>path. path \<notin> set (opened_paths query)) [''GraphPath'', ''TemporalPath'', ''ModulePath'']"
proof -
  have "list_ex (\<lambda>opened. opened = path) (opened_paths query) \<longleftrightarrow> path \<in> set (opened_paths query)" for path
    by (auto simp: list_ex_iff)
  then show "map sk_access_path_id (pl_skipped_paths (plan_trace_query query n)) =
      filter (\<lambda>path. path \<notin> set (opened_paths query)) [''GraphPath'', ''TemporalPath'', ''ModulePath'']"
    by (simp add: plan_trace_query_def Let_def)
qed (simp add: plan_trace_query_def Let_def)

end
