(* ===== verification/Modules.thy ===== *)
theory Modules
  imports Jobs Core F32
begin

text \<open>
  The module registry of \<open>crates/tracedb-modules/src/lib.rs\<close>, the eight built-in modules that the
  engine registers, and the descriptor check of \<open>crates/tracedb-module/src/lib.rs\<close>. A value of the
  trait \<open>TraceDbModule\<close> is a record of what its methods return.

  \<open>register_history_wf\<close> shows that a registry never holds a module twice or one that breaks the
  rules of registration, and \<open>catalog_registers_builtins\<close> that the engine's registration of the
  built-in modules, which ignores errors, loses none of them.
\<close>

section \<open>Descriptors\<close>

record access_path_meta =
  ap_access_path_id :: string
  ap_policy_aware :: bool

record trace_db_module =
  tm_module_id :: string
  tm_version :: string
  tm_types :: "string list"
  tm_operators :: "string list"
  tm_access_paths :: "access_path_meta list"
  tm_segment_codecs :: "string list"
  tm_wal_decoders :: "string list"
  tm_explain_hooks :: "string list"
  tm_has_hidden_durable_state :: bool

record registered_module =
  rm_module_id :: string
  rm_version :: string
  rm_types :: "string list"
  rm_operators :: "string list"
  rm_access_paths :: "access_path_meta list"
  rm_segment_codecs :: "string list"
  rm_wal_decoders :: "string list"
  rm_explain_hooks :: "string list"

section \<open>The registry\<close>

definition registered_of :: "trace_db_module \<Rightarrow> registered_module" where
  "registered_of m =
     \<lparr>rm_module_id = tm_module_id m, rm_version = tm_version m, rm_types = tm_types m,
      rm_operators = tm_operators m, rm_access_paths = tm_access_paths m,
      rm_segment_codecs = tm_segment_codecs m, rm_wal_decoders = tm_wal_decoders m,
      rm_explain_hooks = tm_explain_hooks m\<rparr>"

text \<open>The registry is unchanged when an error is returned.\<close>

definition register_module :: "registered_module list \<Rightarrow> trace_db_module \<Rightarrow> registered_module list result" where
  "register_module modules m =
     rbind (ensure (\<not> tm_has_hidden_durable_state m)
       (ModuleRejected (tm_module_id m) ''hidden durable state is not allowed'')) (\<lambda>_.
     rbind (ensure (\<not> (tm_access_paths m \<noteq> [] \<and> tm_explain_hooks m = []))
       (ModuleRejected (tm_module_id m) ''ranked/queryable modules must provide explain hooks'')) (\<lambda>_.
     rbind (ensure (\<not> (tm_segment_codecs m \<noteq> [] \<and> tm_wal_decoders m = []))
       (ModuleRejected (tm_module_id m) ''durable storage modules must provide WAL decoders'')) (\<lambda>_.
     Inr (if list_ex (\<lambda>r. rm_module_id r = tm_module_id m) modules then modules
          else modules @ [registered_of m]))))"

text \<open>\<open>registry.register(...).ok()\<close>: an error leaves the registry as it was.\<close>

definition register_ok :: "registered_module list \<Rightarrow> trace_db_module \<Rightarrow> registered_module list" where
  "register_ok modules m = (case register_module modules m of Inl _ \<Rightarrow> modules | Inr modules' \<Rightarrow> modules')"

definition registry_module_ids :: "registered_module list \<Rightarrow> string list" where
  "registry_module_ids modules = map rm_module_id modules"

definition builtin_module_ids :: "string list" where
  "builtin_module_ids =
     [''tracedb-text'', ''tracedb-vector'', ''tracedb-graph'', ''tracedb-temporal'', ''tracedb-policy'',
      ''tracedb-provenance'', ''tracedb-features'', ''tracedb-retrieval-core'']"

section \<open>The built-in modules\<close>

text \<open>
  Every built-in module has one type, one policy-aware access path, one codec and one decoder, and
  takes the version and the operators of the trait's default methods.
\<close>

definition builtin_module ::
    "string \<Rightarrow> string \<Rightarrow> string \<Rightarrow> string \<Rightarrow> string \<Rightarrow> string list \<Rightarrow> trace_db_module" where
  "builtin_module module_id type_id access_path_id codec_id decoder_id hook_ids =
     \<lparr>tm_module_id = module_id, tm_version = cargo_pkg_version, tm_types = [type_id], tm_operators = [],
      tm_access_paths = [\<lparr>ap_access_path_id = access_path_id, ap_policy_aware = True\<rparr>],
      tm_segment_codecs = [codec_id], tm_wal_decoders = [decoder_id], tm_explain_hooks = hook_ids,
      tm_has_hidden_durable_state = False\<rparr>"

definition text_module :: trace_db_module where
  "text_module = builtin_module ''tracedb-text'' ''TEXT_INDEXED'' ''LexicalPath'' ''text-postings-v1'' ''text-wal-v1'' [''lexical'']"

definition vector_module :: trace_db_module where
  "vector_module = builtin_module ''tracedb-vector'' ''VECTOR<F32,N,COSINE>'' ''VectorPath'' ''vector-pages-v1'' ''vector-wal-v1''
     [''vector'', ''freshness'']"

definition graph_module :: trace_db_module where
  "graph_module = builtin_module ''tracedb-graph'' ''EDGE'' ''GraphPath'' ''graph-adjacency-v1'' ''graph-wal-v1'' [''graph-explain-v1'']"

definition temporal_module :: trace_db_module where
  "temporal_module = builtin_module ''tracedb-temporal'' ''TEMPORAL_RANGE'' ''TemporalPath'' ''temporal-range-v1'' ''temporal-wal-v1''
     [''temporal-explain-v1'']"

definition policy_module :: trace_db_module where
  "policy_module = builtin_module ''tracedb-policy'' ''POLICY'' ''PolicyMaskPath'' ''policy-bitmap-v1'' ''policy-wal-v1'' [''policy-explain-v1'']"

definition provenance_module :: trace_db_module where
  "provenance_module = builtin_module ''tracedb-provenance'' ''PROVENANCE'' ''ProvenancePath'' ''provenance-block-v1'' ''provenance-wal-v1''
     [''provenance-explain-v1'']"

definition features_module :: trace_db_module where
  "features_module = builtin_module ''tracedb-features'' ''FEATURE_STATE'' ''FeatureStatePath'' ''feature-state-v1'' ''feature-wal-v1''
     [''feature-explain-v1'']"

definition retrieval_core_module :: trace_db_module where
  "retrieval_core_module = builtin_module ''tracedb-retrieval-core'' ''SUPPRESSION_STATE'' ''RetrievalOverlayPath''
     ''retrieval-overlay-v1'' ''retrieval-wal-v1'' [''retrieval-explain-v1'']"

definition registered_module_catalog :: "registered_module list" where
  "registered_module_catalog =
     foldl register_ok []
       [text_module, vector_module, graph_module, temporal_module, policy_module, provenance_module,
        features_module, retrieval_core_module]"

definition registered_modules :: "string list" where
  "registered_modules = map rm_module_id registered_module_catalog"

section \<open>Standard manifests and certification\<close>

definition standard_module_manifests :: "module_manifest list" where
  "standard_module_manifests =
     map (\<lambda>module_id. \<lparr>mm_module_id = module_id, mm_version = cargo_pkg_version,
            mm_trust_level = ''FIRST_PARTY_SIGNED''\<rparr>)
       [''tracedb-text'', ''tracedb-vector'', ''tracedb-graph'', ''tracedb-temporal'', ''tracedb-policy'',
        ''tracedb-provenance'', ''tracedb-features'', ''tracedb-retrieval-core'']"

definition standard_module_manifest_ids :: "string list" where
  "standard_module_manifest_ids = map mm_module_id standard_module_manifests"

datatype module_capability_level = CapFunction | CapType | CapIndex | CapPlanner | CapStorage | CapRuntimeJob | CapBridge

datatype module_trust_level = CoreSigned | FirstPartySigned | ThirdPartySandboxed | LocalDevUnsafe

record module_descriptor =
  md_module_id :: string
  md_version :: string
  md_capability_level :: module_capability_level
  md_trust_level :: module_trust_level
  md_provided_types :: "string list"
  md_provided_jobs :: "string list"
  md_storage_codecs :: "string list"
  md_planner_rules :: "string list"

definition first_party :: "string \<Rightarrow> module_capability_level \<Rightarrow> module_descriptor" where
  "first_party module_id level =
     \<lparr>md_module_id = module_id, md_version = cargo_pkg_version, md_capability_level = level,
      md_trust_level = FirstPartySigned, md_provided_types = [], md_provided_jobs = [],
      md_storage_codecs = [], md_planner_rules = []\<rparr>"

record module_conformance_report =
  cf_module_id :: string
  cf_accepted :: bool
  cf_reasons :: "string list"

definition certify_module_descriptor :: "module_descriptor \<Rightarrow> module_conformance_report" where
  "certify_module_descriptor d =
     (let reasons =
        (if trim (md_module_id d) = [] then [''module_id_empty''] else []) @
        (if md_trust_level d = LocalDevUnsafe then [''local_dev_unsafe_requires_explicit_opt_in''] else [])
      in \<lparr>cf_module_id = md_module_id d, cf_accepted = (reasons = []), cf_reasons = reasons\<rparr>)"

section \<open>What the registry keeps\<close>

definition module_rules_ok :: "registered_module \<Rightarrow> bool" where
  "module_rules_ok r \<longleftrightarrow>
     (rm_access_paths r \<noteq> [] \<longrightarrow> rm_explain_hooks r \<noteq> []) \<and>
     (rm_segment_codecs r \<noteq> [] \<longrightarrow> rm_wal_decoders r \<noteq> [])"

definition registry_wf :: "registered_module list \<Rightarrow> bool" where
  "registry_wf modules \<longleftrightarrow> distinct (registry_module_ids modules) \<and> list_all module_rules_ok modules"

text \<open>Whether a module passes the three checks.\<close>

definition admissible :: "trace_db_module \<Rightarrow> bool" where
  "admissible m \<longleftrightarrow> \<not> tm_has_hidden_durable_state m \<and> module_rules_ok (registered_of m)"

lemma register_module_Inr:
  "register_module modules m = Inr modules' \<longleftrightarrow>
     admissible m \<and>
     modules' = (if tm_module_id m \<in> set (registry_module_ids modules) then modules else modules @ [registered_of m])"
proof -
  have "list_ex (\<lambda>r. rm_module_id r = tm_module_id m) modules \<longleftrightarrow> tm_module_id m \<in> set (registry_module_ids modules)"
    by (force simp: list_ex_iff registry_module_ids_def)
  then show ?thesis
    by (auto simp: register_module_def admissible_def module_rules_ok_def registered_of_def rbind_eq_Inr ensure_eq_Inr)
qed

lemma register_module_wf: "registry_wf modules \<Longrightarrow> register_module modules m = Inr modules' \<Longrightarrow> registry_wf modules'"
  by (auto simp: register_module_Inr registry_wf_def admissible_def registry_module_ids_def registered_of_def)

text \<open>A registration that is accepted makes the module present; it never changes a module that is there.\<close>

lemma register_module_keeps:
  assumes "register_module modules m = Inr modules'"
  shows "tm_module_id m \<in> set (registry_module_ids modules')" and "take (length modules) modules' = modules"
  using assms by (auto simp: register_module_Inr registry_module_ids_def registered_of_def split: if_splits)

lemma register_ok_eq:
  "register_ok modules m =
     (if admissible m \<and> tm_module_id m \<notin> set (registry_module_ids modules)
      then modules @ [registered_of m] else modules)"
  using register_module_Inr [of modules m]
  by (cases "register_module modules m") (auto simp: register_ok_def)

lemma register_ok_wf: "registry_wf modules \<Longrightarrow> registry_wf (register_ok modules m)"
  using register_module_wf by (auto simp: register_ok_def split: sum.splits)

theorem register_history_wf: "registry_wf (foldl register_ok [] ms)"
proof (induction ms rule: rev_induct)
  case Nil
  show ?case by (simp add: registry_wf_def registry_module_ids_def)
next
  case (snoc m ms)
  then show ?case by (simp add: register_ok_wf)
qed

lemmas builtin_module_defs =
  text_module_def vector_module_def graph_module_def temporal_module_def policy_module_def
  provenance_module_def features_module_def retrieval_core_module_def builtin_module_def

lemma builtin_admissible:
  "hook_ids \<noteq> [] \<Longrightarrow> admissible (builtin_module i t a c d hook_ids)"
  by (simp add: admissible_def module_rules_ok_def registered_of_def builtin_module_def)

theorem catalog_registers_builtins:
  "registered_modules = builtin_module_ids"
  "map mm_module_id builtin_module_manifests = registered_modules"
  "standard_module_manifests = builtin_module_manifests"
  by (simp_all add: registered_modules_def registered_module_catalog_def register_ok_eq registry_module_ids_def
      admissible_def module_rules_ok_def registered_of_def builtin_module_defs builtin_module_ids_def
      builtin_module_manifests_def builtin_module_names_def standard_module_manifests_def)

lemma certified_iff:
  "cf_accepted (certify_module_descriptor d) \<longleftrightarrow> trim (md_module_id d) \<noteq> [] \<and> md_trust_level d \<noteq> LocalDevUnsafe"
  by (simp add: certify_module_descriptor_def Let_def)

end
