(* ===== verification/Hybrid_Query.thy ===== *)
theory Hybrid_Query
  imports Sealing Planner Modules
begin

text \<open>
  The hybrid query of the engine, from \<open>crates/tracedb-query/src/lib.rs\<close>: validation, the visible
  and the sealed records after policy and scalar filters, the access paths with their candidates,
  rank fusion, materialisation with the final visibility guard, pagination, and the cache of
  prepared text corpora.

  The state of a query is the lexical cache, which the code keeps behind a mutex of the handle. The
  logarithm, the JSON form of a query and the decoding of a policy field are parameters. Timings are
  left out. Numbers of type \<open>usize\<close> are natural numbers; where the code saturates, the bound is
  written out.
\<close>

section \<open>Queries\<close>

datatype freshness_mode = Strict | Lazy | AllowDirty

definition freshness_str :: "freshness_mode \<Rightarrow> string" where
  "freshness_str m = (case m of Strict \<Rightarrow> ''STRICT'' | Lazy \<Rightarrow> ''LAZY'' | AllowDirty \<Rightarrow> ''ALLOW_DIRTY'')"

record hybrid_query =
  hq_table :: string
  hq_tenant_id :: string
  hq_cursor :: "string option"
  hq_text_field :: "string option"
  hq_text :: "string option"
  hq_vector_field :: "string option"
  hq_vector :: "f32 list option"
  hq_scalar_eq :: fields
  hq_graph_seed :: "string option"
  hq_temporal_as_of :: "u64 option"
  hq_top_k :: nat
  hq_freshness :: freshness_mode
  hq_explain :: bool

record qry_prims = idx_prims +
  ln_f32 :: "f32 \<Rightarrow> f32"
  hybrid_query_json :: "hybrid_query \<Rightarrow> string option"
  policy_from_value :: "json \<Rightarrow> policy option"

definition usize_max :: nat where "usize_max = 18446744073709551615"

definition sat_usize :: "nat \<Rightarrow> nat" where
  "sat_usize n = min n usize_max"

definition cursor_scope_for_query :: "qry_prims \<Rightarrow> actor_context \<Rightarrow> hybrid_query \<Rightarrow> nat \<Rightarrow> cursor_scope" where
  "cursor_scope_for_query P actor query limit =
     \<lparr>cs_kind = ''query'', cs_tenant_id = hq_tenant_id query, cs_database_id = ac_database_id actor,
      cs_branch_id = ac_branch_id actor, cs_actor_digest = cursor_actor_digest (cur_prims.truncate P) actor,
      cs_query_digest = stable_body_hash (prims.truncate P)
        (case hybrid_query_json P (query\<lparr>hq_cursor := None\<rparr>) of Some s \<Rightarrow> s | None \<Rightarrow> ''{}''),
      cs_limit = limit, cs_order_key = ''ranked''\<rparr>"

section \<open>The cache of prepared corpora\<close>

text \<open>Table, tenant, epoch, manifest generation, scalar predicates and text columns.\<close>

type_synonym lexical_cache_key = "string \<times> string \<times> u64 \<times> u64 \<times> string \<times> string list"

record lexical_cache_entry =
  le_corpus :: prepared_text_corpus
  le_last_used :: u64

record lexical_corpus_cache =
  lc_entries :: "(lexical_cache_key, lexical_cache_entry) bmap"
  lc_capacity :: nat
  lc_tick :: u64

definition min_lexical_cache_documents :: nat where "min_lexical_cache_documents = 2048"
definition default_lexical_cache_capacity :: nat where "default_lexical_cache_capacity = 64"

definition cache_default :: lexical_corpus_cache where
  "cache_default = \<lparr>lc_entries = [], lc_capacity = default_lexical_cache_capacity, lc_tick = 0\<rparr>"

definition next_tick :: "lexical_corpus_cache \<Rightarrow> u64" where
  "next_tick c = sat_add64 (lc_tick c) 1"

definition cache_get ::
    "lexical_corpus_cache \<Rightarrow> lexical_cache_key \<Rightarrow> prepared_text_corpus option \<times> lexical_corpus_cache" where
  "cache_get c key =
     (let c' = c\<lparr>lc_tick := next_tick c\<rparr>
      in case bm_get (lc_entries c') key of
           None \<Rightarrow> (None, c')
         | Some e \<Rightarrow> (Some (le_corpus e), c'\<lparr>lc_entries := bm_insert key (e\<lparr>le_last_used := next_tick c\<rparr>) (lc_entries c')\<rparr>))"

definition lru_order :: "lexical_cache_key \<times> lexical_cache_entry \<Rightarrow> lexical_cache_key \<times> lexical_cache_entry \<Rightarrow> ordering" where
  "lru_order l r = then_with (cmp (le_last_used (snd l)) (le_last_used (snd r))) (cmp (fst l) (fst r))"

text \<open>\<open>evict_lru\<close>: remove the least recently used entry while there are more than the capacity.\<close>

lemma mem_contains: "e \<in> set m \<Longrightarrow> bm_contains m (fst e)"
  by (induction m) (auto simp: bm_contains_def bm_get_Cons)

lemma remove_shorter: "bm_contains m k \<Longrightarrow> length (bm_remove k m) < length m"
  by (induction m) (auto simp: bm_contains_def bm_get_Cons)

function evict_lru :: "nat \<Rightarrow> (lexical_cache_key, lexical_cache_entry) bmap \<Rightarrow> (lexical_cache_key, lexical_cache_entry) bmap" where
  "evict_lru capacity entries =
     (if length entries \<le> capacity then entries
      else case min_by lru_order entries of
             None \<Rightarrow> entries
           | Some e \<Rightarrow> evict_lru capacity (bm_remove (fst e) entries))"
  by pat_completeness auto
termination
proof (relation "measure (\<lambda>(capacity, entries). length entries)", goal_cases)
  case (2 capacity entries e)
  then have "e \<in> set entries" by (auto dest: min_by_SomeD)
  then show ?case by (simp add: remove_shorter [OF mem_contains])
qed simp

definition cache_insert :: "lexical_corpus_cache \<Rightarrow> lexical_cache_key \<Rightarrow> prepared_text_corpus \<Rightarrow> lexical_corpus_cache" where
  "cache_insert c key corpus =
     c\<lparr>lc_tick := next_tick c,
       lc_entries := evict_lru (lc_capacity c)
         (bm_insert key \<lparr>le_corpus = corpus, le_last_used = next_tick c\<rparr> (lc_entries c))\<rparr>"

definition cache_clear :: "lexical_corpus_cache \<Rightarrow> lexical_corpus_cache" where
  "cache_clear c = c\<lparr>lc_entries := [], lc_tick := 0\<rparr>"

section \<open>Columns and predicates of a query\<close>

definition selected_text_columns :: "table_schema \<Rightarrow> string option \<Rightarrow> string list" where
  "selected_text_columns schema text_field =
     (case text_field of Some field \<Rightarrow> [field] | None \<Rightarrow> ts_text_indexed_columns schema)"

definition selected_vector_column :: "table_schema \<Rightarrow> string option \<Rightarrow> vector_column option" where
  "selected_vector_column schema vector_field =
     (case vector_field of
        Some field \<Rightarrow> find (\<lambda>v. vc_name v = field) (ts_vector_columns schema)
      | None \<Rightarrow> (case ts_vector_columns schema of [] \<Rightarrow> None | v # _ \<Rightarrow> Some v))"

definition validate_text_query_field :: "table_schema \<Rightarrow> string option \<Rightarrow> string option \<Rightarrow> unit result" where
  "validate_text_query_field schema query text_field =
     (if query = None then Inr ()
      else case text_field of
             None \<Rightarrow> Inr ()
           | Some field \<Rightarrow>
               ensure (field \<in> set (ts_text_indexed_columns schema))
                 (InvalidCommand (''invalid text query column '' @ field @ '': not in schema text indexed columns'')))"

definition validate_vector_query_dimensions ::
    "table_schema \<Rightarrow> f32 list option \<Rightarrow> string option \<Rightarrow> unit result" where
  "validate_vector_query_dimensions schema query_opt vector_field =
     (case query_opt of
        None \<Rightarrow> Inr ()
      | Some query \<Rightarrow>
          (case selected_vector_column schema vector_field of
             None \<Rightarrow>
               (case vector_field of
                  Some field \<Rightarrow> Inl (InvalidCommand (''invalid vector query column '' @ field @ '': not in schema vector columns''))
                | None \<Rightarrow> Inl (InvalidSchema (''table '' @ ts_name schema @ '' has no vector columns'')))
           | Some v \<Rightarrow>
               ensure (length query = vc_dimensions v)
                 (InvalidVectorDimensions (vc_name v) (vc_dimensions v) (length query))))"

definition validate_scalar_eq_predicates :: "table_schema \<Rightarrow> fields \<Rightarrow> unit result" where
  "validate_scalar_eq_predicates schema scalar_eq =
     rfold (\<lambda>_ column. ensure (column \<in> set (ts_scalar_columns schema))
         (InvalidCommand (''invalid scalar predicate column '' @ column @ '': not in schema scalar columns'')))
       () (bm_keys scalar_eq)"

definition record_matches_scalar_eq :: "fields \<Rightarrow> fields \<Rightarrow> bool" where
  "record_matches_scalar_eq flds scalar_eq =
     list_all (\<lambda>(column, expected). has_value flds column expected) scalar_eq"

definition filter_records_by_scalar_eq :: "stored_record list \<Rightarrow> fields \<Rightarrow> stored_record list" where
  "filter_records_by_scalar_eq records scalar_eq =
     (if scalar_eq = [] then records else filter (\<lambda>r. record_matches_scalar_eq (sr_fields r) scalar_eq) records)"

definition filter_segment_records_by_scalar_eq :: "segment_record list \<Rightarrow> fields \<Rightarrow> segment_record list" where
  "filter_segment_records_by_scalar_eq records scalar_eq =
     (if scalar_eq = [] then records else filter (\<lambda>r. record_matches_scalar_eq (sg_fields r) scalar_eq) records)"

definition scalar_value_label :: "qry_prims \<Rightarrow> json \<Rightarrow> string" where
  "scalar_value_label P v = (case as_str v of Some s \<Rightarrow> s | None \<Rightarrow> json_text P v)"

definition scalar_filter_predicates :: "qry_prims \<Rightarrow> fields \<Rightarrow> string list" where
  "scalar_filter_predicates P scalar_eq = map (\<lambda>(column, v). column @ '' = '' @ scalar_value_label P v) scalar_eq"

definition scalar_eq_cache_key :: "qry_prims \<Rightarrow> fields \<Rightarrow> string" where
  "scalar_eq_cache_key P scalar_eq = json_text P (JObject scalar_eq)"

definition query_has_evidence :: "hybrid_query \<Rightarrow> bool" where
  "query_has_evidence query \<longleftrightarrow>
     (case hq_text query of Some text \<Rightarrow> trim text \<noteq> [] | None \<Rightarrow> False) \<or>
     hq_vector query \<noteq> None \<or> hq_graph_seed query \<noteq> None \<or> hq_temporal_as_of query \<noteq> None"

section \<open>Policies\<close>

definition policy_field_name :: string where "policy_field_name = ''__tracedb_policy''"

definition policy_from_fields :: "qry_prims \<Rightarrow> fields \<Rightarrow> string \<Rightarrow> policy" where
  "policy_from_fields P flds tenant_id =
     (case Option.bind (bm_get flds policy_field_name) (policy_from_value P) of
        Some p \<Rightarrow> p | None \<Rightarrow> policy_tenant tenant_id)"

definition stored_record_visible :: "qry_prims \<Rightarrow> actor_context \<Rightarrow> stored_record \<Rightarrow> bool" where
  "stored_record_visible P actor r =
     vd_allowed (visible (policy_from_fields P (sr_fields r) (rh_tenant_id (sr_header r))) actor)"

definition segment_record_visible :: "qry_prims \<Rightarrow> actor_context \<Rightarrow> segment_record \<Rightarrow> bool" where
  "segment_record_visible P actor r =
     vd_allowed (visible (policy_from_fields P (sg_fields r) (sg_tenant_id r)) actor)"

definition default_query_actor :: "string \<Rightarrow> epoch \<Rightarrow> actor_context" where
  "default_query_actor tenant_id policy_epoch =
     managed_request tenant_id ''local'' ''main'' ''legacy-query'' ''query'' policy_epoch [''records:read'']"

section \<open>Text of a record\<close>

definition text_body :: "table_schema \<Rightarrow> stored_record \<Rightarrow> string option \<Rightarrow> string option" where
  "text_body schema r text_field =
     (let parts = filter_map (\<lambda>column. Option.bind (bm_get (sr_fields r) column) as_str)
            (selected_text_columns schema text_field)
      in if parts \<noteq> [] then Some (join '' '' parts) else None)"

definition segment_text_body :: "segment_record \<Rightarrow> string option \<Rightarrow> string option" where
  "segment_text_body r text_field =
     (let parts = (case text_field of
            Some field \<Rightarrow> (case bm_get (sg_text r) field of Some s \<Rightarrow> [s] | None \<Rightarrow> [])
          | None \<Rightarrow> bm_values (sg_text r))
      in if parts \<noteq> [] then Some (join '' '' parts) else None)"

definition or_empty :: "string option \<Rightarrow> string" where
  "or_empty s = (case s of Some x \<Rightarrow> x | None \<Rightarrow> [])"

definition lexical_documents ::
    "table_schema \<Rightarrow> stored_record list \<Rightarrow> segment_record list \<Rightarrow> string option \<Rightarrow> (string \<times> string) list" where
  "lexical_documents schema vis sealed text_field =
     map (\<lambda>r. (rh_record_id (sr_header r), or_empty (text_body schema r text_field))) vis @
     map (\<lambda>r. (sg_record_id r, or_empty (segment_text_body r text_field))) sealed"

record lexical_query_report =
  lq_cache_hit :: bool
  lq_cache_miss :: bool
  lq_indexed_documents :: nat
  lq_score_report :: text_score_report

definition score_prepared_lexical_corpus ::
    "qry_prims \<Rightarrow> trace_db \<Rightarrow> table_schema \<Rightarrow> string \<Rightarrow> string \<Rightarrow> stored_record list \<Rightarrow> segment_record list \<Rightarrow>
     string option \<Rightarrow> string \<Rightarrow> lexical_corpus_cache \<Rightarrow> lexical_query_report \<times> lexical_corpus_cache" where
  "score_prepared_lexical_corpus P db schema tenant_id scalar_eq_key vis sealed text_field query cache =
     (let indexed_documents = length vis + length sealed in
      if indexed_documents < min_lexical_cache_documents then
        (\<lparr>lq_cache_hit = False, lq_cache_miss = False, lq_indexed_documents = indexed_documents,
          lq_score_report = score_corpus_with_stats (ln_f32 P) query (lexical_documents schema vis sealed text_field)\<rparr>,
         cache)
      else
        let key = (ts_name schema, tenant_id, mf_latest_epoch (td_manifest db), mf_manifest_generation (td_manifest db),
                   scalar_eq_key, selected_text_columns schema text_field)
        in case cache_get cache key of
             (Some corpus, cache') \<Rightarrow>
               (\<lparr>lq_cache_hit = True, lq_cache_miss = False, lq_indexed_documents = document_count corpus,
                 lq_score_report = score_query_with_stats (ln_f32 P) corpus query\<rparr>, cache')
           | (None, cache') \<Rightarrow>
               (case from_documents_with_initial_score (ln_f32 P) query (lexical_documents schema vis sealed text_field) of
                  (corpus, report) \<Rightarrow>
                    (\<lparr>lq_cache_hit = False, lq_cache_miss = True, lq_indexed_documents = document_count corpus,
                      lq_score_report = report\<rparr>, cache_insert cache' key corpus)))"

section \<open>Candidates\<close>

definition no_score :: score_components where
  "no_score = \<lparr>sc_vector = None, sc_lexical = None, sc_relational = None, sc_freshness_penalty = None, sc_final_score = 0\<rparr>"

definition relational_score :: "f32 \<Rightarrow> score_components" where
  "relational_score score = no_score\<lparr>sc_relational := Some score, sc_final_score := score\<rparr>"

definition lexical_score :: "f32 \<Rightarrow> score_components" where
  "lexical_score score = no_score\<lparr>sc_lexical := Some score, sc_final_score := score\<rparr>"

definition vector_only_score :: "f32 \<Rightarrow> score_components" where
  "vector_only_score score = no_score\<lparr>sc_vector := Some score, sc_final_score := score\<rparr>"

definition planner_descriptor :: "string \<Rightarrow> string option \<Rightarrow> access_path_descriptor" where
  "planner_descriptor access_path_id module_id =
     \<lparr>ad_access_path_id = access_path_id, ad_module_id = module_id, ad_policy_aware = True\<rparr>"

definition planner_candidate :: "stored_record \<Rightarrow> string \<Rightarrow> f32 \<Rightarrow> (f32 \<Rightarrow> score_components) \<Rightarrow> candidate" where
  "planner_candidate r source score_upper_bound score =
     \<lparr>ca_record_id = rh_record_id (sr_header r), ca_version_id = rh_version_id (sr_header r),
      ca_score_components = score score_upper_bound, ca_score_upper_bound = Some score_upper_bound,
      ca_source = source, ca_freshness = FreshReady, ca_visibility_checked = True\<rparr>"

definition segment_candidate :: "segment_record \<Rightarrow> string \<Rightarrow> f32 \<Rightarrow> (f32 \<Rightarrow> score_components) \<Rightarrow> candidate" where
  "segment_candidate r source score_upper_bound score =
     \<lparr>ca_record_id = sg_record_id r, ca_version_id = sg_version_id r,
      ca_score_components = score score_upper_bound, ca_score_upper_bound = Some score_upper_bound,
      ca_source = source, ca_freshness = FreshReady, ca_visibility_checked = True\<rparr>"

definition candidate_order :: "candidate \<Rightarrow> candidate \<Rightarrow> ordering" where
  "candidate_order l r =
     then_with (then_with
       (F32.score_order (sc_final_score (ca_score_components l)) (sc_final_score (ca_score_components r)))
       (cmp (ca_record_id l) (ca_record_id r)))
       (cmp (ca_version_id l) (ca_version_id r))"

definition vector_feature_freshness :: "table_schema \<Rightarrow> stored_record \<Rightarrow> string option \<Rightarrow> feature_freshness" where
  "vector_feature_freshness schema r vector_field =
     (case Option.bind (selected_vector_column schema vector_field) (\<lambda>v. bm_get (sr_features r) (vc_name v)) of
        Some state \<Rightarrow>
          (case fs_status state of Ready \<Rightarrow> FreshReady | Dirty \<Rightarrow> FreshDirty | Pending \<Rightarrow> FreshPending
           | Failed \<Rightarrow> FreshFailed | Missing \<Rightarrow> FreshMissing)
      | None \<Rightarrow> FreshMissing)"

text \<open>The penalty of a dirty vector is \<open>0.05\<close>.\<close>

definition freshness_penalty :: "feature_status \<Rightarrow> freshness_mode \<Rightarrow> f32 option" where
  "freshness_penalty status mode =
     (case (status, mode) of
        (Ready, _) \<Rightarrow> Some 0
      | (Dirty, AllowDirty) \<Rightarrow> Some 0x3D4CCCCD
      | _ \<Rightarrow> None)"

definition query_vector_score ::
    "table_schema \<Rightarrow> stored_record \<Rightarrow> string option \<Rightarrow> f32 list \<Rightarrow> freshness_mode \<Rightarrow> (f32 \<times> f32) option" where
  "query_vector_score schema r vector_field query freshness =
     Option.bind (selected_vector_column schema vector_field) (\<lambda>v.
     Option.bind (bm_get (sr_features r) (vc_name v)) (\<lambda>state.
     Option.bind (freshness_penalty (fs_status state) freshness) (\<lambda>penalty.
     Option.bind (Option.bind (bm_get (sr_fields r) (vc_name v)) (value_as_f32_vec number_as_f32)) (\<lambda>val.
     Option.bind (cosine_similarity query val) (\<lambda>score.
     Some (score, penalty))))))"

definition segment_vector_score ::
    "table_schema \<Rightarrow> segment_record \<Rightarrow> string option \<Rightarrow> f32 list \<Rightarrow> f32 option" where
  "segment_vector_score schema r vector_field query =
     Option.bind (selected_vector_column schema vector_field) (\<lambda>v.
     Option.bind (bm_get (sg_vectors r) (vc_name v)) (\<lambda>val. cosine_similarity query val))"

definition vector_candidate ::
    "table_schema \<Rightarrow> string option \<Rightarrow> f32 list \<Rightarrow> freshness_mode \<Rightarrow> stored_record \<Rightarrow> candidate option" where
  "vector_candidate schema vector_field query freshness r =
     map_option (\<lambda>(score, penalty).
       \<lparr>ca_record_id = rh_record_id (sr_header r), ca_version_id = rh_version_id (sr_header r),
        ca_score_components = no_score\<lparr>sc_vector := Some score,
          sc_freshness_penalty := (if f32_gt penalty 0 then Some penalty else None),
          sc_final_score := f32_sub score penalty\<rparr>,
        ca_score_upper_bound = Some 0x3F800000, ca_source = ''VectorPath'',
        ca_freshness = vector_feature_freshness schema r vector_field, ca_visibility_checked = True\<rparr>)
     (query_vector_score schema r vector_field query freshness)"

definition record_has_graph_seed :: "stored_record \<Rightarrow> string \<Rightarrow> bool" where
  "record_has_graph_seed r seed =
     (case Option.bind (bm_get (sr_fields r) ''edges'') as_array of
        Some edges \<Rightarrow> list_ex (\<lambda>edge. as_str edge = Some seed) edges
      | None \<Rightarrow> False)"

definition record_valid_as_of :: "stored_record \<Rightarrow> u64 \<Rightarrow> bool" where
  "record_valid_as_of r as_of_epoch =
     (let start = (case Option.bind (bm_get (sr_fields r) ''valid_from'') as_u64 of Some n \<Rightarrow> n | None \<Rightarrow> 0);
          stop = (case Option.bind (bm_get (sr_fields r) ''valid_to'') as_u64 of Some n \<Rightarrow> n | None \<Rightarrow> - 1)
      in start \<le> as_of_epoch \<and> as_of_epoch \<le> stop)"

section \<open>Sealed vectors through the index artifacts\<close>

record vector_index_candidate_report =
  vx_candidates :: "candidate list"
  vx_exact_fallback_used :: bool

type_synonym index_search_state = "bool \<times> bool \<times> candidate list \<times> (string \<times> u64) bset"

definition eligible_segment_ids :: "manifest \<Rightarrow> table_schema \<Rightarrow> string bset" where
  "eligible_segment_ids m schema =
     bs_collect (map sm_segment_id (filter (\<lambda>seg. sm_table_set seg = [] \<or> ts_name schema \<in> set (sm_table_set seg))
       (filter (\<lambda>seg. sm_state seg = Published) (mf_segments m))))"

definition take_index_score ::
    "(string \<times> u64, segment_record) bmap \<Rightarrow> candidate list \<times> (string \<times> u64) bset \<Rightarrow> vector_score \<Rightarrow>
     candidate list \<times> (string \<times> u64) bset" where
  "take_index_score eligible = (\<lambda>(candidates, seen) score.
     let key = (vs_record_id score, vs_version_id score)
     in case bm_get eligible key of
          None \<Rightarrow> (candidates, seen)
        | Some r \<Rightarrow>
            if key \<in> set seen then (candidates, seen)
            else (candidates @ [segment_candidate r ''VectorPath'' (vs_score score) vector_only_score], bs_add key seen))"

text \<open>One vector index of the manifest.\<close>

definition search_index_artifact ::
    "idx_prims \<Rightarrow> artifact_files \<Rightarrow> trace_db \<Rightarrow> vector_column \<Rightarrow> f32 list \<Rightarrow> nat \<Rightarrow> (string \<times> u64, segment_record) bmap \<Rightarrow>
     index_search_state \<Rightarrow> index_manifest \<Rightarrow> index_search_state result" where
  "search_index_artifact P files db v query limit eligible = (\<lambda>(used_artifact, used_exact_fallback, candidates, seen) ix.
     rbind (map_err (index_verification_error ix) (read_index_artifact P files (im_object_path ix) (td_encryption db))) (\<lambda>art.
     case as_vector art of
       None \<Rightarrow> Inr (used_artifact, used_exact_fallback, candidates, seen)
     | Some vector_artifact \<Rightarrow>
         let report = search_vector_with_report_filtered vector_artifact (vc_name v) query limit (bm_keys eligible);
             (candidates', seen') = foldl (take_index_score eligible) (candidates, seen) (vr_scores report)
         in Inr (True, used_exact_fallback \<or> vr_exact_fallback_used report, candidates', seen')))"

definition sealed_exact_candidates ::
    "table_schema \<Rightarrow> segment_record list \<Rightarrow> string option \<Rightarrow> f32 list \<Rightarrow> (string \<times> u64) bset \<Rightarrow> candidate list" where
  "sealed_exact_candidates schema sealed vector_field query seen =
     filter_map (\<lambda>r.
       if (sg_record_id r, sg_version_id r) \<in> set seen then None
       else map_option (\<lambda>score. segment_candidate r ''VectorPath'' score vector_only_score)
              (segment_vector_score schema r vector_field query)) sealed"

definition sealed_vector_candidates_from_index_artifacts ::
    "idx_prims \<Rightarrow> artifact_files \<Rightarrow> trace_db \<Rightarrow> table_schema \<Rightarrow> segment_record list \<Rightarrow> string option \<Rightarrow> f32 list \<Rightarrow> nat \<Rightarrow>
     vector_index_candidate_report option result" where
  "sealed_vector_candidates_from_index_artifacts P files db schema sealed vector_field query limit =
     (if sealed = [] then Inr (Some \<lparr>vx_candidates = [], vx_exact_fallback_used = False\<rparr>)
      else case selected_vector_column schema vector_field of
        None \<Rightarrow> Inr None
      | Some v \<Rightarrow>
          let eligible = bm_collect (map (\<lambda>r. ((sg_record_id r, sg_version_id r), r)) sealed) in
          rbind (rfold (search_index_artifact P files db v query limit eligible) (False, False, [], [])
            (filter (\<lambda>ix. im_kind ix = ''vector'' \<and> im_state ix = IxReady \<and>
                im_segment_id ix \<in> set (eligible_segment_ids (td_manifest db) schema))
              (mf_indexes (td_manifest db)))) (\<lambda>(used_artifact, used_exact_fallback, candidates, seen).
          if \<not> used_artifact then Inr None
          else
            let all = candidates @
                  (if used_exact_fallback then sealed_exact_candidates schema sealed vector_field query seen else [])
            in Inr (Some \<lparr>vx_candidates = sort_by candidate_order all, vx_exact_fallback_used = used_exact_fallback\<rparr>)))"

section \<open>Access paths\<close>

record memory_access_path =
  mp_descriptor :: access_path_descriptor
  mp_candidates :: "candidate list"

definition path_open :: "memory_access_path \<Rightarrow> query_fragment \<Rightarrow> string list \<Rightarrow> nat \<Rightarrow> candidate list" where
  "path_open p query visibility max_candidates =
     (let path_id = ad_access_path_id (mp_descriptor p);
          query_allows_path =
            (if path_id = ''LexicalPath'' then (case qf_text query of Some text \<Rightarrow> trim text \<noteq> [] | None \<Rightarrow> False)
             else if path_id = ''VectorPath'' then qf_vector_dimensions query \<noteq> None
             else True)
      in take max_candidates (filter (\<lambda>c. query_allows_path \<and>
           (\<not> ad_policy_aware (mp_descriptor p) \<or> ca_record_id c \<in> set visibility)) (mp_candidates p)))"

definition next_batch :: "memory_access_path \<Rightarrow> nat \<Rightarrow> candidate list" where
  "next_batch p max_work_units = take max_work_units (mp_candidates p)"

definition path_explain :: "memory_access_path \<Rightarrow> access_path_explain" where
  "path_explain p =
     \<lparr>ae_access_path_id = ad_access_path_id (mp_descriptor p), ae_opened = True,
      ae_visibility_checked_before_open = ad_policy_aware (mp_descriptor p), ae_candidates = length (mp_candidates p)\<rparr>"

record query_access_input =
  qi_schema :: table_schema
  qi_visible :: "stored_record list"
  qi_sealed_records :: "segment_record list"
  qi_tenant_id :: string
  qi_scalar_eq_key :: string
  qi_text_field :: "string option"
  qi_text :: "string option"
  qi_vector_field :: "string option"
  qi_vector_query :: "f32 list option"
  qi_graph_seed :: "string option"
  qi_temporal_as_of :: "u64 option"
  qi_freshness :: freshness_mode
  qi_fallback_candidate_limit :: "nat option"

record access_paths_result =
  qp_paths :: "memory_access_path list"
  qp_lexical_cache_hits :: nat
  qp_lexical_cache_misses :: nat
  qp_lexical_indexed_documents :: nat
  qp_lexical_scored_documents :: nat
  qp_vector_exact_fallback_used :: bool

text \<open>A path whose candidates all have the same relational score.\<close>

definition relational_path :: "string \<Rightarrow> string option \<Rightarrow> f32 \<Rightarrow> stored_record list \<Rightarrow> memory_access_path" where
  "relational_path path_id module_id score records =
     \<lparr>mp_descriptor = planner_descriptor path_id module_id,
      mp_candidates = map (\<lambda>r. planner_candidate r path_id score relational_score) records\<rparr>"

definition lexical_candidates ::
    "stored_record list \<Rightarrow> segment_record list \<Rightarrow> (string \<times> f32) list \<Rightarrow> candidate list" where
  "lexical_candidates vis sealed scores =
     (let records_by_id = bm_collect (map (\<lambda>r. (rh_record_id (sr_header r), r)) vis);
          sealed_by_id = bm_collect (map (\<lambda>r. (sg_record_id r, r)) sealed)
      in filter_map (\<lambda>(record_id, score).
           case bm_get records_by_id record_id of
             Some r \<Rightarrow> Some (planner_candidate r ''LexicalPath'' score lexical_score)
           | None \<Rightarrow> map_option (\<lambda>r. segment_candidate r ''LexicalPath'' score lexical_score) (bm_get sealed_by_id record_id))
         (sort_by (\<lambda>l r. F32.score_order (snd l) (snd r)) scores))"

text \<open>Candidates, the numbers of cache hits and misses, of indexed and of scored documents.\<close>

definition lexical_path_candidates ::
    "qry_prims \<Rightarrow> trace_db \<Rightarrow> query_access_input \<Rightarrow> lexical_corpus_cache \<Rightarrow>
     (candidate list \<times> nat \<times> nat \<times> nat \<times> nat) \<times> lexical_corpus_cache" where
  "lexical_path_candidates P db inp cache =
     (case qi_text inp of
        None \<Rightarrow> (([], 0, 0, 0, 0), cache)
      | Some text \<Rightarrow>
          (case score_prepared_lexical_corpus P db (qi_schema inp) (qi_tenant_id inp) (qi_scalar_eq_key inp)
                  (qi_visible inp) (qi_sealed_records inp) (qi_text_field inp) text cache of
             (report, cache') \<Rightarrow>
               ((lexical_candidates (qi_visible inp) (qi_sealed_records inp) (ts_scores (lq_score_report report)),
                 (if lq_cache_hit report then 1 else 0), (if lq_cache_miss report then 1 else 0),
                 lq_indexed_documents report, ts_scored_documents (lq_score_report report)), cache')))"

definition vector_path_candidates ::
    "qry_prims \<Rightarrow> artifact_files \<Rightarrow> trace_db \<Rightarrow> query_access_input \<Rightarrow> (candidate list \<times> bool) result" where
  "vector_path_candidates P files db inp =
     (case qi_vector_query inp of
        None \<Rightarrow> Inr ([], False)
      | Some query \<Rightarrow>
          let limit = (case qi_fallback_candidate_limit inp of Some n \<Rightarrow> n | None \<Rightarrow> usize_max);
              hot = filter_map (vector_candidate (qi_schema inp) (qi_vector_field inp) query (qi_freshness inp)) (qi_visible inp)
          in
          rbind (sealed_vector_candidates_from_index_artifacts (idx_prims.truncate P) files db (qi_schema inp)
                   (qi_sealed_records inp) (qi_vector_field inp) query limit) (\<lambda>index_report.
          case index_report of
            Some report \<Rightarrow>
              Inr (sort_by candidate_order (hot @ vx_candidates report), vx_exact_fallback_used report)
          | None \<Rightarrow>
              Inr (sort_by candidate_order
                     (hot @ sealed_exact_candidates (qi_schema inp) (qi_sealed_records inp) (qi_vector_field inp) query []),
                   qi_sealed_records inp \<noteq> [])))"

definition query_access_paths ::
    "qry_prims \<Rightarrow> artifact_files \<Rightarrow> trace_db \<Rightarrow> query_access_input \<Rightarrow> (lexical_corpus_cache, access_paths_result) op" where
  "query_access_paths P files db inp =
     (\<lambda>cache.
        let limit = (case qi_fallback_candidate_limit inp of Some n \<Rightarrow> n | None \<Rightarrow> usize_max);
            fallback = take limit (qi_visible inp);
            ((lexical, hits, misses, indexed, scored), cache') = lexical_path_candidates P db inp cache
        in case vector_path_candidates P files db inp of
             Inl e \<Rightarrow> (Inl e, cache')
           | Inr (vector, exact_fallback) \<Rightarrow>
               (Inr \<lparr>qp_paths =
                  [relational_path ''PolicyPath'' None 0x3F800000 fallback,
                   relational_path ''RelationalPath'' None 0x3F400000 fallback,
                   relational_path ''HotOverlayPath'' None 0x3F800000 fallback,
                   \<lparr>mp_descriptor = planner_descriptor ''LexicalPath'' (Some ''tracedb-text''), mp_candidates = lexical\<rparr>,
                   \<lparr>mp_descriptor = planner_descriptor ''VectorPath'' (Some ''tracedb-vector''), mp_candidates = vector\<rparr>] @
                  (case qi_graph_seed inp of
                     Some seed \<Rightarrow> [relational_path ''GraphPath'' (Some ''tracedb-graph'') 0x3F19999A
                       (filter (\<lambda>r. record_has_graph_seed r seed) (qi_visible inp))]
                   | None \<Rightarrow> []) @
                  (case qi_temporal_as_of inp of
                     Some e \<Rightarrow> [relational_path ''TemporalPath'' (Some ''tracedb-temporal'') 0x3F266666
                       (filter (\<lambda>r. record_valid_as_of r e) (qi_visible inp))]
                   | None \<Rightarrow> []),
                 qp_lexical_cache_hits = hits, qp_lexical_cache_misses = misses, qp_lexical_indexed_documents = indexed,
                 qp_lexical_scored_documents = scored, qp_vector_exact_fallback_used = exact_fallback\<rparr>, cache'))"

section \<open>Rank fusion\<close>

record stream_candidate =
  st_record_id :: string
  st_score :: f32
  st_freshness_penalty :: f32

record ranked_stream =
  rk_name :: string
  rk_candidates :: "stream_candidate list"

record fused_candidate =
  fc_record_id :: string
  fc_vector :: "f32 option"
  fc_lexical :: "f32 option"
  fc_relational :: "f32 option"
  fc_freshness_penalty :: f32
  fc_final_score :: f32

definition ranked_stream_from_candidates :: "string \<Rightarrow> candidate list \<Rightarrow> ranked_stream" where
  "ranked_stream_from_candidates name candidates =
     \<lparr>rk_name = name, rk_candidates = map (\<lambda>c.
        \<lparr>st_record_id = ca_record_id c, st_score = sc_final_score (ca_score_components c),
         st_freshness_penalty = (case sc_freshness_penalty (ca_score_components c) of Some p \<Rightarrow> p | None \<Rightarrow> 0)\<rparr>) candidates\<rparr>"

definition candidate_stream_name :: "string \<Rightarrow> string" where
  "candidate_stream_name access_path_id =
     (if access_path_id = ''PolicyPath'' then ''policy''
      else if access_path_id = ''RelationalPath'' then ''relational''
      else if access_path_id = ''HotOverlayPath'' then ''hot_overlay''
      else if access_path_id = ''GraphPath'' then ''graph''
      else if access_path_id = ''TemporalPath'' then ''temporal''
      else ''relational'')"

text \<open>One candidate at its position in its stream: \<open>1 / (60 + rank)\<close> is added to its score.\<close>

definition fuse_candidate ::
    "string \<Rightarrow> (string, fused_candidate) bmap \<Rightarrow> nat \<times> stream_candidate \<Rightarrow> (string, fused_candidate) bmap" where
  "fuse_candidate name fused = (\<lambda>(idx, c).
     let rank = f32_add (f32_of_nat idx) 0x3F800000;
         entry = (case bm_get fused (st_record_id c) of Some e \<Rightarrow> e
           | None \<Rightarrow> \<lparr>fc_record_id = st_record_id c, fc_vector = None, fc_lexical = None, fc_relational = None,
                      fc_freshness_penalty = 0, fc_final_score = 0\<rparr>);
         entry1 = entry\<lparr>fc_final_score := f32_add (fc_final_score entry) (f32_div 0x3F800000 (f32_add 0x42700000 rank)),
                        fc_freshness_penalty := f32_max (fc_freshness_penalty entry) (st_freshness_penalty c)\<rparr>
     in bm_insert (st_record_id c)
          (if name = ''text'' then entry1\<lparr>fc_lexical := Some (st_score c)\<rparr>
           else if name = ''vector'' then entry1\<lparr>fc_vector := Some (st_score c)\<rparr>
           else entry1\<lparr>fc_relational := Some (st_score c)\<rparr>) fused)"

definition fuse_order :: "fused_candidate \<Rightarrow> fused_candidate \<Rightarrow> ordering" where
  "fuse_order l r =
     then_with (F32.score_order (fc_final_score l) (fc_final_score r)) (cmp (fc_record_id l) (fc_record_id r))"

definition fuse_map :: "ranked_stream list \<Rightarrow> (string, fused_candidate) bmap" where
  "fuse_map streams =
     foldl (\<lambda>fused stream. foldl (fuse_candidate (rk_name stream)) fused (enumerate 0 (rk_candidates stream))) [] streams"

definition fuse_rrf :: "ranked_stream list \<Rightarrow> fused_candidate list" where
  "fuse_rrf streams =
     sort_by fuse_order
       (map (\<lambda>c. c\<lparr>fc_final_score := f32_sub (fc_final_score c) (fc_freshness_penalty c)\<rparr>) (bm_values (fuse_map streams)))"

definition is_evidence_stream :: "string \<Rightarrow> bool" where
  "is_evidence_stream name \<longleftrightarrow> name \<in> {''text'', ''vector'', ''graph'', ''temporal''}"

text \<open>Fallback candidates are appended behind the evidence, unless their record is there already.\<close>

definition append_unseen ::
    "fused_candidate list \<times> string bset \<Rightarrow> fused_candidate \<Rightarrow> fused_candidate list \<times> string bset" where
  "append_unseen = (\<lambda>(fused, seen) c.
     if fc_record_id c \<in> set seen then (fused, seen) else (fused @ [c], bs_add (fc_record_id c) seen))"

definition fuse_query_streams :: "ranked_stream list \<Rightarrow> fused_candidate list" where
  "fuse_query_streams streams =
     (let evidence_streams = filter (\<lambda>s. is_evidence_stream (rk_name s) \<and> rk_candidates s \<noteq> []) streams
      in if evidence_streams = [] then fuse_rrf streams
         else
           let fused = fuse_rrf evidence_streams;
               fallback_streams = filter (\<lambda>s. \<not> is_evidence_stream (rk_name s) \<and> rk_candidates s \<noteq> []) streams
           in fst (foldl append_unseen (fused, bs_collect (map fc_record_id fused)) (fuse_rrf fallback_streams)))"

definition lexical_first_order :: "fused_candidate \<Rightarrow> fused_candidate \<Rightarrow> ordering" where
  "lexical_first_order l r =
     (case (fc_lexical l, fc_lexical r) of
        (Some ll, Some rl) \<Rightarrow>
          then_with (then_with (then_with (F32.score_order ll rl)
            (case (fc_vector l, fc_vector r) of
               (Some lv, Some rv) \<Rightarrow> F32.score_order lv rv
             | (Some _, None) \<Rightarrow> Less | (None, Some _) \<Rightarrow> Greater | (None, None) \<Rightarrow> Equal))
            (F32.score_order (fc_final_score l) (fc_final_score r)))
            (cmp (fc_record_id l) (fc_record_id r))
      | (Some _, None) \<Rightarrow> Less
      | (None, Some _) \<Rightarrow> Greater
      | (None, None) \<Rightarrow> fuse_order l r)"

definition vector_first_order :: "fused_candidate \<Rightarrow> fused_candidate \<Rightarrow> ordering" where
  "vector_first_order l r =
     (case (fc_vector l, fc_vector r) of
        (Some lv, Some rv) \<Rightarrow> then_with (F32.score_order lv rv) (fuse_order l r)
      | (Some _, None) \<Rightarrow> Less
      | (None, Some _) \<Rightarrow> Greater
      | (None, None) \<Rightarrow> fuse_order l r)"

text \<open>The tolerance is \<open>1e-6\<close>.\<close>

definition lexical_scores_are_tied :: "fused_candidate list \<Rightarrow> bool" where
  "lexical_scores_are_tied candidates =
     (case filter f32_is_finite (filter_map fc_lexical candidates) of
        [] \<Rightarrow> True
      | first # scores \<Rightarrow>
          let (lo, hi) = foldl (\<lambda>(lo, hi) score. (f32_min lo score, f32_max hi score)) (first, first) scores
          in f32_le (f32_abs (f32_sub hi lo)) 0x358637BD)"

definition ranked_candidates :: "hybrid_query \<Rightarrow> ranked_stream list \<Rightarrow> fused_candidate list" where
  "ranked_candidates query streams =
     (let fused = fuse_query_streams streams
      in if hq_text query \<noteq> None \<and> \<not> lexical_scores_are_tied fused then sort_by lexical_first_order fused
         else if hq_vector query \<noteq> None then sort_by vector_first_order fused
         else fused)"

section \<open>Rows\<close>

definition score_components_from_candidate :: "fused_candidate \<Rightarrow> score_components" where
  "score_components_from_candidate c =
     \<lparr>sc_vector = fc_vector c, sc_lexical = fc_lexical c, sc_relational = fc_relational c,
      sc_freshness_penalty = (if f32_gt (fc_freshness_penalty c) 0 then Some (fc_freshness_penalty c) else None),
      sc_final_score = fc_final_score c\<rparr>"

definition query_row_from_stored :: "stored_record \<Rightarrow> fused_candidate \<Rightarrow> query_row" where
  "query_row_from_stored r c =
     \<lparr>qr_record_id = rh_record_id (sr_header r), qr_version_id = rh_version_id (sr_header r),
      qr_tenant_id = rh_tenant_id (sr_header r), qr_fields = sr_fields r, qr_score = score_components_from_candidate c\<rparr>"

definition query_row_from_segment :: "segment_record \<Rightarrow> fused_candidate \<Rightarrow> query_row" where
  "query_row_from_segment r c =
     \<lparr>qr_record_id = sg_record_id r, qr_version_id = sg_version_id r, qr_tenant_id = sg_tenant_id r,
      qr_fields = sg_fields r, qr_score = score_components_from_candidate c\<rparr>"

definition sealed_visible_records :: "store \<Rightarrow> epoch \<Rightarrow> segment_record list \<Rightarrow> segment_record list" where
  "sealed_visible_records st e sealed =
     filter (\<lambda>r. \<not> is_tombstoned_at st (sg_table r) (sg_tenant_id r) (sg_record_id r) e) sealed"

text \<open>
  The row of a candidate: the hot record before the sealed one. \<open>None\<close> stands for a candidate that
  the final visibility guard removes.
\<close>

definition candidate_row ::
    "(string, stored_record) bmap \<Rightarrow> (string, segment_record) bmap \<Rightarrow> fused_candidate \<Rightarrow> query_row option" where
  "candidate_row records_by_id sealed_by_id c =
     (case bm_get records_by_id (fc_record_id c) of
        Some r \<Rightarrow> Some (query_row_from_stored r c)
      | None \<Rightarrow> map_option (\<lambda>r. query_row_from_segment r c) (bm_get sealed_by_id (fc_record_id c)))"

text \<open>The loop over the ranked candidates: rows, candidates removed by the guard, candidates checked.\<close>

definition materialize_step ::
    "string bset \<Rightarrow> (string, stored_record) bmap \<Rightarrow> (string, segment_record) bmap \<Rightarrow> nat \<Rightarrow>
     query_row list \<times> nat \<times> nat \<Rightarrow> fused_candidate \<Rightarrow> query_row list \<times> nat \<times> nat" where
  "materialize_step visible_ids records_by_id sealed_by_id window = (\<lambda>(rows, removed, checked) c.
     if fc_record_id c \<notin> set visible_ids then (rows, removed + 1, checked + 1)
     else if window \<le> length rows then (rows, removed, checked + 1)
     else case candidate_row records_by_id sealed_by_id c of
            Some row \<Rightarrow> (rows @ [row], removed, checked + 1)
          | None \<Rightarrow> (rows, removed, checked + 1))"

definition materialize ::
    "store \<Rightarrow> epoch \<Rightarrow> stored_record list \<Rightarrow> segment_record list \<Rightarrow> nat \<Rightarrow> fused_candidate list \<Rightarrow> query_row list \<times> nat \<times> nat" where
  "materialize st e vis sealed window fused =
     (let sealed_vis = sealed_visible_records st e sealed;
          visible_ids = bs_collect (map (\<lambda>r. rh_record_id (sr_header r)) vis @ map sg_record_id sealed_vis);
          records_by_id = bm_collect (map (\<lambda>r. (rh_record_id (sr_header r), r)) vis);
          sealed_by_id = bm_collect (map (\<lambda>r. (sg_record_id r, r)) sealed_vis)
      in foldl (materialize_step visible_ids records_by_id sealed_by_id window) ([], 0, 0) fused)"

section \<open>Explanations\<close>

definition count_feature :: "explain_output \<Rightarrow> feature_status option \<Rightarrow> explain_output" where
  "count_feature ex status =
     (case status of
        Some Dirty \<Rightarrow> ex\<lparr>ex_dirty_feature_count := ex_dirty_feature_count ex + 1\<rparr>
      | Some Pending \<Rightarrow> ex\<lparr>ex_pending_feature_count := ex_pending_feature_count ex + 1\<rparr>
      | Some Failed \<Rightarrow> ex\<lparr>ex_failed_feature_count := ex_failed_feature_count ex + 1\<rparr>
      | Some Missing \<Rightarrow> ex\<lparr>ex_missing_feature_count := ex_missing_feature_count ex + 1\<rparr>
      | None \<Rightarrow> ex\<lparr>ex_missing_feature_count := ex_missing_feature_count ex + 1\<rparr>
      | Some Ready \<Rightarrow> ex)"

definition query_trace_query :: "hybrid_query \<Rightarrow> trace_query" where
  "query_trace_query query =
     (trace_query_hybrid (hq_table query) (hq_tenant_id query) (hq_text_field query) (hq_text query)
        (hq_vector_field query) (map_option length (hq_vector query)) (hq_top_k query))
       \<lparr>tq_scalar_eq := hq_scalar_eq query,
        tq_graph_seeds := (case hq_graph_seed query of Some seed \<Rightarrow> [seed] | None \<Rightarrow> []),
        tq_temporal_as_of := hq_temporal_as_of query\<rparr>"

definition explain_plan :: "hybrid_query \<Rightarrow> table_schema \<Rightarrow> stored_record list \<Rightarrow> explain_output \<Rightarrow> explain_output" where
  "explain_plan query schema vis ex =
     (let plan = plan_trace_query (query_trace_query query) (length vis);
          ex1 = ex\<lparr>ex_selected_strategy := Some (strategy_debug (pl_strategy plan)),
                   ex_skipped_access_paths := map (\<lambda>p. sk_access_path_id p @ '': '' @ sk_reason p) (pl_skipped_paths plan),
                   ex_exact_fallback_triggered := pl_exact_fallback plan,
                   ex_early_stop_reason := Some ''all opened streams exhausted under fixed budget'',
                   ex_module_versions := map (\<lambda>m. rm_module_id m @ ''@'' @ rm_version m) registered_module_catalog\<rparr>
      in foldl count_feature ex1
           (concat (map (\<lambda>r. map (\<lambda>v. map_option fs_status (bm_get (sr_features r) (vc_name v))) (ts_vector_columns schema)) vis)))"

text \<open>The stream of a path, and what opening it adds to the explanation.\<close>

definition path_stream_name :: "memory_access_path \<Rightarrow> string" where
  "path_stream_name p =
     (let source = ad_access_path_id (mp_descriptor p)
      in if source = ''LexicalPath'' then ''text'' else if source = ''VectorPath'' then ''vector''
         else candidate_stream_name source)"

definition explain_open :: "explain_output \<Rightarrow> memory_access_path \<times> candidate list \<Rightarrow> explain_output" where
  "explain_open ex = (\<lambda>(p, batch).
     let ex1 =
       (if ad_access_path_id (mp_descriptor p) = ''LexicalPath'' then ex\<lparr>ex_text_candidates := length batch\<rparr>
        else if ad_access_path_id (mp_descriptor p) = ''VectorPath'' then ex\<lparr>ex_vector_candidates := length batch\<rparr>
        else ex)
     in ex1\<lparr>ex_opened_candidate_streams := ex_opened_candidate_streams ex @ [path_stream_name p],
            ex_planner_candidates := ex_planner_candidates ex @ batch,
            ex_access_paths := ex_access_paths ex @ [path_explain p]\<rparr>)"

definition explain_paths ::
    "access_paths_result \<Rightarrow> (memory_access_path \<times> candidate list) list \<Rightarrow> fused_candidate list \<Rightarrow> explain_output \<Rightarrow> explain_output" where
  "explain_paths aps opened fused ex =
     (let ex1 = foldl explain_open ex opened
      in ex1\<lparr>ex_lexical_cache_hits := qp_lexical_cache_hits aps, ex_lexical_cache_misses := qp_lexical_cache_misses aps,
             ex_lexical_indexed_documents := qp_lexical_indexed_documents aps,
             ex_lexical_scored_documents := qp_lexical_scored_documents aps,
             ex_exact_fallback_triggered := (ex_exact_fallback_triggered ex1 \<or> qp_vector_exact_fallback_used aps),
             ex_deduped_candidate_count := length fused\<rparr>)"

section \<open>The query\<close>

definition query_visible_records ::
    "qry_prims \<Rightarrow> trace_db \<Rightarrow> hybrid_query \<Rightarrow> epoch \<Rightarrow> actor_context \<Rightarrow> stored_record list" where
  "query_visible_records P db query read_epoch actor =
     filter (stored_record_visible P actor)
       (visible_records_at (td_store db) (hq_table query) (hq_tenant_id query) read_epoch)"

definition query_sealed_records ::
    "qry_prims \<Rightarrow> artifact_files \<Rightarrow> trace_db \<Rightarrow> hybrid_query \<Rightarrow> epoch \<Rightarrow> actor_context \<Rightarrow> segment_record list result" where
  "query_sealed_records P files db query read_epoch actor =
     rbind (sealed_segment_records (idx_prims.truncate P) files db (hq_table query) (hq_tenant_id query)) (\<lambda>records.
     Inr (filter (segment_record_visible P actor) (filter (\<lambda>r. sg_version_id r \<le> read_epoch) records)))"

definition query_fragment_of :: "hybrid_query \<Rightarrow> query_fragment" where
  "query_fragment_of query =
     \<lparr>qf_text_field = hq_text_field query, qf_text = hq_text query, qf_vector_field = hq_vector_field query,
      qf_vector_dimensions = map_option length (hq_vector query)\<rparr>"

definition query_access_input_of ::
    "qry_prims \<Rightarrow> hybrid_query \<Rightarrow> table_schema \<Rightarrow> stored_record list \<Rightarrow> segment_record list \<Rightarrow> nat \<Rightarrow> query_access_input" where
  "query_access_input_of P query schema vis sealed candidate_budget =
     \<lparr>qi_schema = schema, qi_visible = vis, qi_sealed_records = sealed, qi_tenant_id = hq_tenant_id query,
      qi_scalar_eq_key = scalar_eq_cache_key P (hq_scalar_eq query), qi_text_field = hq_text_field query,
      qi_text = hq_text query, qi_vector_field = hq_vector_field query, qi_vector_query = hq_vector query,
      qi_graph_seed = hq_graph_seed query, qi_temporal_as_of = hq_temporal_as_of query,
      qi_freshness = hq_freshness query,
      qi_fallback_candidate_limit = (if query_has_evidence query then Some candidate_budget else None)\<rparr>"

definition explain_start :: "qry_prims \<Rightarrow> trace_db \<Rightarrow> hybrid_query \<Rightarrow> epoch \<Rightarrow> explain_output" where
  "explain_start P db query read_epoch =
     explain_default\<lparr>ex_read_epoch := read_epoch, ex_schema_epoch := mf_latest_epoch (td_manifest db),
       ex_policy_epoch := read_epoch, ex_scalar_filter_applied := (hq_scalar_eq query \<noteq> []),
       ex_scalar_filter_predicates := scalar_filter_predicates P (hq_scalar_eq query),
       ex_freshness_mode := freshness_str (hq_freshness query), ex_fusion_method := ''RRF''\<rparr>"

definition page_end :: "hybrid_query \<Rightarrow> cursor_state \<Rightarrow> nat" where
  "page_end query cursor = sat_usize (ct_offset cursor + hq_top_k query)"

definition requested_window :: "hybrid_query \<Rightarrow> cursor_state \<Rightarrow> nat" where
  "requested_window query cursor = sat_usize (page_end query cursor + 1)"

definition candidate_budget :: "hybrid_query \<Rightarrow> cursor_state \<Rightarrow> nat" where
  "candidate_budget query cursor =
     max (max (sat_usize (requested_window query cursor * 4)) (requested_window query cursor)) 1"

definition visibility_ids :: "stored_record list \<Rightarrow> segment_record list \<Rightarrow> string list" where
  "visibility_ids vis sealed = map (\<lambda>r. rh_record_id (sr_header r)) vis @ map sg_record_id sealed"

definition open_paths :: "hybrid_query \<Rightarrow> string list \<Rightarrow> nat \<Rightarrow> memory_access_path list \<Rightarrow> (memory_access_path \<times> candidate list) list" where
  "open_paths query visibility budget paths = map (\<lambda>p. (p, path_open p (query_fragment_of query) visibility budget)) paths"

definition opened_streams :: "(memory_access_path \<times> candidate list) list \<Rightarrow> ranked_stream list" where
  "opened_streams opened = map (\<lambda>(p, batch). ranked_stream_from_candidates (path_stream_name p) batch) opened"

definition next_query_cursor ::
    "qry_prims \<Rightarrow> cursor_env \<Rightarrow> cursor_scope option \<Rightarrow> nat \<Rightarrow> epoch \<Rightarrow> string result" where
  "next_query_cursor P env scope_opt offset read_epoch =
     (case scope_opt of
        Some scope \<Rightarrow> encode_next_cursor (cur_prims.truncate P) env scope offset read_epoch
      | None \<Rightarrow> Inr (show_nat offset))"

definition explain_filters ::
    "qry_prims \<Rightarrow> trace_db \<Rightarrow> hybrid_query \<Rightarrow> cursor_state \<Rightarrow> nat \<Rightarrow> stored_record list \<Rightarrow> segment_record list \<Rightarrow> explain_output" where
  "explain_filters P db query cursor tenant_mask vis sealed =
     (explain_start P db query (ct_snapshot_epoch cursor))
       \<lparr>ex_tenant_mask_visible_records := tenant_mask, ex_scalar_filter_visible_records := length vis,
        ex_scalar_filter_removed_records := tenant_mask - length vis, ex_candidate_budget := candidate_budget query cursor,
        ex_hot_overlay_searched := True, ex_segments_scanned := length sealed\<rparr>"

text \<open>
  From the opened paths to the output: the streams are fused, and the page is cut out of the rows.
  \<open>tenant_mask\<close> is the number of visible records before the scalar filter.
\<close>

definition query_page ::
    "qry_prims \<Rightarrow> cursor_env \<Rightarrow> trace_db \<Rightarrow> hybrid_query \<Rightarrow> cursor_state \<Rightarrow> cursor_scope option \<Rightarrow>
     table_schema \<Rightarrow> nat \<Rightarrow> stored_record list \<Rightarrow> segment_record list \<Rightarrow> access_paths_result \<Rightarrow> query_output result" where
  "query_page P env db query cursor scope_opt schema tenant_mask vis sealed aps =
     (let opened = open_paths query (visibility_ids vis sealed) (candidate_budget query cursor) (qp_paths aps);
          fused = ranked_candidates query (opened_streams opened);
          (rows, removed, checked) =
            materialize (td_store db) (ct_snapshot_epoch cursor) vis sealed (requested_window query cursor) fused;
          page = take (hq_top_k query) (drop (ct_offset cursor) rows);
          ex0 = explain_filters P db query cursor tenant_mask vis sealed;
          ex1 = (if hq_explain query then explain_paths aps opened fused (explain_plan query schema vis ex0) else ex0);
          ex2 = ex1\<lparr>ex_materialized_count := length page, ex_final_visibility_guard_count := checked,
                    ex_final_visibility_guard_removed := removed, ex_returned_count := length page\<rparr>
      in
      rbind (if page_end query cursor < length rows
             then rbind (next_query_cursor P env scope_opt (ct_offset cursor + length page) (ct_snapshot_epoch cursor)) (\<lambda>c. Inr (Some c))
             else Inr None) (\<lambda>next_cursor.
      Inr \<lparr>qo_results = page, qo_explain = ex2, qo_next_cursor = next_cursor\<rparr>))"

definition run_streams ::
    "qry_prims \<Rightarrow> cursor_env \<Rightarrow> artifact_files \<Rightarrow> trace_db \<Rightarrow> hybrid_query \<Rightarrow> cursor_state \<Rightarrow> cursor_scope option \<Rightarrow>
     table_schema \<Rightarrow> nat \<Rightarrow> stored_record list \<Rightarrow> segment_record list \<Rightarrow> (lexical_corpus_cache, query_output) op" where
  "run_streams P env files db query cursor scope_opt schema tenant_mask vis sealed =
     ebind (query_access_paths P files db (query_access_input_of P query schema vis sealed (candidate_budget query cursor))) (\<lambda>aps.
     ereads (\<lambda>_. query_page P env db query cursor scope_opt schema tenant_mask vis sealed aps))"

definition validated_schema :: "trace_db \<Rightarrow> hybrid_query \<Rightarrow> table_schema result" where
  "validated_schema db query =
     rbind (table_for db (hq_table query)) (\<lambda>schema.
     rbind (validate_text_query_field schema (hq_text query) (hq_text_field query)) (\<lambda>_.
     rbind (validate_vector_query_dimensions schema (hq_vector query) (hq_vector_field query)) (\<lambda>_.
     rbind (validate_scalar_eq_predicates schema (hq_scalar_eq query)) (\<lambda>_. Inr schema))))"

definition query_with_timing_internal ::
    "qry_prims \<Rightarrow> cursor_env \<Rightarrow> artifact_files \<Rightarrow> trace_db \<Rightarrow> hybrid_query \<Rightarrow> cursor_state \<Rightarrow> cursor_scope option \<Rightarrow>
     actor_context option \<Rightarrow> (lexical_corpus_cache, query_output) op" where
  "query_with_timing_internal P env files db query cursor scope_opt actor_opt =
     (let read_epoch = ct_snapshot_epoch cursor in
      ebind (ereads (\<lambda>_. validated_schema db query)) (\<lambda>schema.
      if hq_top_k query = 0 then
        ereturn \<lparr>qo_results = [], qo_explain = explain_start P db query read_epoch, qo_next_cursor = None\<rparr>
      else
        let actor = (case actor_opt of Some a \<Rightarrow> a | None \<Rightarrow> default_query_actor (hq_tenant_id query) read_epoch);
            vis = query_visible_records P db query read_epoch actor
        in
        ebind (ereads (\<lambda>_. query_sealed_records P files db query read_epoch actor)) (\<lambda>sealed.
        run_streams P env files db query cursor scope_opt schema (length vis)
          (filter_records_by_scalar_eq vis (hq_scalar_eq query))
          (filter_segment_records_by_scalar_eq sealed (hq_scalar_eq query)))))"

definition db_query ::
    "qry_prims \<Rightarrow> cursor_env \<Rightarrow> artifact_files \<Rightarrow> trace_db \<Rightarrow> hybrid_query \<Rightarrow> (lexical_corpus_cache, query_output) op" where
  "db_query P env files db query =
     ebind (ereads (\<lambda>_. parse_legacy_cursor_offset (hq_cursor query))) (\<lambda>offset.
     query_with_timing_internal P env files db query
       \<lparr>ct_offset = offset, ct_snapshot_epoch = mf_latest_epoch (td_manifest db)\<rparr> None None)"

definition db_query_as ::
    "qry_prims \<Rightarrow> cursor_env \<Rightarrow> artifact_files \<Rightarrow> actor_context \<Rightarrow> trace_db \<Rightarrow> hybrid_query \<Rightarrow>
     (lexical_corpus_cache, query_output) op" where
  "db_query_as P env files actor db query =
     ebind (ereads (\<lambda>_.
       rbind (validate_actor_tenant actor (hq_tenant_id query)) (\<lambda>_.
       let scope = cursor_scope_for_query P actor query (max (hq_top_k query) 1) in
       rbind (resolve_cursor_state (cur_prims.truncate P) env scope (hq_cursor query)
                (mf_latest_epoch (td_manifest db))) (\<lambda>cursor. Inr (scope, cursor))))) (\<lambda>(scope, cursor).
     query_with_timing_internal P env files db query cursor (Some scope) (Some actor))"

end
