(* ===== verification/Hybrid_Props.thy ===== *)
theory Hybrid_Props
  imports Hybrid_Query Store_Props
begin

text \<open>
  What a hybrid query returns. \<open>fuse_query_streams_ids\<close> shows that fusion keeps every record of every
  stream exactly once, whatever the scores are; \<open>materialize_rows\<close> gives the rows in closed form; the
  theorem \<open>hybrid_query_answers\<close> states which records are returned. \<open>cache_run_ok\<close> is the invariant of
  the lexical cache.
\<close>

section \<open>Fusion\<close>

definition fused_ok :: "(string, fused_candidate) bmap \<Rightarrow> bool" where
  "fused_ok m \<longleftrightarrow> bm_wf m \<and> (\<forall>x \<in> set m. fc_record_id (snd x) = fst x)"

lemma set_bm_insert: "set (bm_insert k v m) \<subseteq> insert (k, v) (set m)"
  by (induction m) auto

lemma fused_ok_insert: "fused_ok m \<Longrightarrow> fc_record_id e = k \<Longrightarrow> fused_ok (bm_insert k e m)"
  using set_bm_insert [of k e m] by (fastforce simp: fused_ok_def)

lemma fused_ok_get: "fused_ok m \<Longrightarrow> bm_get m k = Some e \<Longrightarrow> fc_record_id e = k"
  by (force simp: fused_ok_def dest: bm_getD)

lemma fused_ok_Nil: "fused_ok []"
  by (simp add: fused_ok_def)

lemma fuse_candidate_ok: "fused_ok m \<Longrightarrow> fused_ok (fuse_candidate name m ic)"
  by (cases ic)
     (auto simp: fuse_candidate_def Let_def intro!: fused_ok_insert dest: fused_ok_get split: option.splits)

lemma fuse_candidate_keys: "fst ` set (fuse_candidate name m ic) = insert (st_record_id (snd ic)) (fst ` set m)"
  by (cases ic) (simp add: fuse_candidate_def Let_def)

lemma fold_candidates:
  "fused_ok m \<Longrightarrow> fused_ok (foldl (fuse_candidate name) m ics)"
  "fst ` set (foldl (fuse_candidate name) m ics) = (st_record_id \<circ> snd) ` set ics \<union> fst ` set m"
  by (induction ics arbitrary: m) (auto simp: fuse_candidate_ok fuse_candidate_keys)

definition stream_ids :: "ranked_stream list \<Rightarrow> string set" where
  "stream_ids streams = (\<Union>s \<in> set streams. st_record_id ` set (rk_candidates s))"

lemma fuse_map_ok: "fused_ok (fuse_map streams)" and fuse_map_keys: "fst ` set (fuse_map streams) = stream_ids streams"
proof -
  have enum: "(\<lambda>x. st_record_id (snd x)) ` set (enumerate 0 cs) = st_record_id ` set cs" for cs
    by (metis image_image list.set_map map_snd_enumerate)
  have "fused_ok m \<Longrightarrow> fused_ok (foldl (\<lambda>fused stream. foldl (fuse_candidate (rk_name stream)) fused
      (enumerate 0 (rk_candidates stream))) m streams)" for m
    by (induction streams arbitrary: m) (auto simp: fold_candidates)
  then show "fused_ok (fuse_map streams)" by (simp add: fuse_map_def fused_ok_Nil)
  have "fst ` set (foldl (\<lambda>fused stream. foldl (fuse_candidate (rk_name stream)) fused
      (enumerate 0 (rk_candidates stream))) m streams) = stream_ids streams \<union> fst ` set m" for m
    by (induction streams arbitrary: m) (simp_all add: fold_candidates(2) enum stream_ids_def o_def Un_ac)
  then show "fst ` set (fuse_map streams) = stream_ids streams" by (simp add: fuse_map_def)
qed

lemma fuse_rrf_ids:
  "distinct (map fc_record_id (fuse_rrf streams))" "fc_record_id ` set (fuse_rrf streams) = stream_ids streams"
proof -
  have ids: "map fc_record_id (bm_values (fuse_map streams)) = map fst (fuse_map streams)"
    using fuse_map_ok [of streams] by (simp add: fused_ok_def bm_values_def)
  have "distinct (map fst (fuse_map streams))"
    using fuse_map_ok [of streams] by (simp add: fused_ok_def bm_wf_distinct)
  then show "distinct (map fc_record_id (fuse_rrf streams))"
    by (simp add: fuse_rrf_def o_def flip: ids)
  have "fc_record_id ` set (fuse_rrf streams) = set (map fc_record_id (bm_values (fuse_map streams)))"
    by (simp add: fuse_rrf_def image_image)
  then show "fc_record_id ` set (fuse_rrf streams) = stream_ids streams"
    by (simp only: ids set_map fuse_map_keys)
qed

lemma append_unseen_ids:
  assumes "distinct (map fc_record_id fused)" and "set seen = fc_record_id ` set fused"
    and "distinct (map fc_record_id cs)"
  shows "distinct (map fc_record_id (fst (foldl append_unseen (fused, seen) cs)))
    \<and> fc_record_id ` set (fst (foldl append_unseen (fused, seen) cs)) = fc_record_id ` set fused \<union> fc_record_id ` set cs"
  using assms by (induction cs arbitrary: fused seen) (auto simp: append_unseen_def)

text \<open>Every record of every stream is ranked, and exactly once.\<close>

lemma fuse_query_streams_ids:
  "distinct (map fc_record_id (fuse_query_streams streams))"
  "fc_record_id ` set (fuse_query_streams streams) = stream_ids streams"
proof -
  let ?E = "filter (\<lambda>s. is_evidence_stream (rk_name s) \<and> rk_candidates s \<noteq> []) streams"
  let ?F = "filter (\<lambda>s. \<not> is_evidence_stream (rk_name s) \<and> rk_candidates s \<noteq> []) streams"
  have un: "stream_ids ?E \<union> stream_ids ?F = stream_ids streams"
    by (fastforce simp: stream_ids_def)
  have "distinct (map fc_record_id (fuse_query_streams streams)) \<and>
      fc_record_id ` set (fuse_query_streams streams) = stream_ids streams"
  proof (cases "?E = []")
    case True
    then show ?thesis unfolding fuse_query_streams_def Let_def by (simp add: fuse_rrf_ids)
  next
    case False
    with append_unseen_ids [of "fuse_rrf ?E" "bs_collect (map fc_record_id (fuse_rrf ?E))" "fuse_rrf ?F"]
    show ?thesis unfolding fuse_query_streams_def Let_def by (simp add: fuse_rrf_ids un)
  qed
  then show "distinct (map fc_record_id (fuse_query_streams streams))"
    and "fc_record_id ` set (fuse_query_streams streams) = stream_ids streams" by auto
qed

lemma ranked_candidates_ids:
  "distinct (map fc_record_id (ranked_candidates query streams))"
  "fc_record_id ` set (ranked_candidates query streams) = stream_ids streams"
  by (simp_all add: ranked_candidates_def Let_def fuse_query_streams_ids)

section \<open>Materialisation\<close>

lemma filter_map_append: "filter_map f (xs @ ys) = filter_map f xs @ filter_map f ys"
  by (simp add: filter_map_def)

lemma materialize_rows:
  fixes visible_ids :: "string bset"
  defines "row \<equiv> (\<lambda>recs seals c. if fc_record_id c \<in> set visible_ids then candidate_row recs seals c else None)"
  shows "foldl (materialize_step visible_ids recs seals window) ([], 0, 0) cs =
    (take window (filter_map (row recs seals) cs),
     length (filter (\<lambda>c. fc_record_id c \<notin> set visible_ids) cs), length cs)"
proof (induction cs rule: rev_induct)
  case (snoc c cs)
  then show ?case
    by (cases "candidate_row recs seals c") (auto simp: materialize_step_def row_def filter_map_append min_def)
qed simp

lemma bm_collect_get_None:
  fixes f :: "'a \<Rightarrow> 'k::linorder"
  shows "bm_get (bm_collect (map (\<lambda>r. (f r, r)) rs)) k = None \<longleftrightarrow> k \<notin> f ` set rs"
proof -
  have "bm_get (bm_collect (map (\<lambda>r. (f r, r)) rs)) k = map_of (rev (map (\<lambda>r. (f r, r)) rs)) k"
    by (simp add: bm_collect_def bm_extend_def bm.get_extend split: option.splits)
  then show ?thesis by (simp add: map_of_eq_None_iff image_image)
qed

text \<open>The identifiers a row is taken from, and the row of an identifier.\<close>

lemma candidate_row_id: 
  assumes "candidate_row (bm_collect (map (\<lambda>r. (rh_record_id (sr_header r), r)) vis))
      (bm_collect (map (\<lambda>r. (sg_record_id r, r)) seals)) c = Some row"
  shows "qr_record_id row = fc_record_id c"
    and "(\<exists>r \<in> set vis. row = query_row_from_stored r c) \<or>
      (fc_record_id c \<notin> (\<lambda>r. rh_record_id (sr_header r)) ` set vis \<and> (\<exists>r \<in> set seals. row = query_row_from_segment r c))"
proof -
  let ?hot = "bm_get (bm_collect (map (\<lambda>r. (rh_record_id (sr_header r), r)) vis)) (fc_record_id c)"
  let ?seal = "bm_get (bm_collect (map (\<lambda>r. (sg_record_id r, r)) seals)) (fc_record_id c)"
  consider r where "?hot = Some r" "row = query_row_from_stored r c"
    | r where "?hot = None" "?seal = Some r" "row = query_row_from_segment r c"
    using assms by (auto simp: candidate_row_def split: option.splits)
  note row = this
  from row show "qr_record_id row = fc_record_id c"
    by cases (auto simp: query_row_from_stored_def query_row_from_segment_def dest!: bm_collect_get_key)
  from row show "(\<exists>r \<in> set vis. row = query_row_from_stored r c) \<or>
      (fc_record_id c \<notin> (\<lambda>r. rh_record_id (sr_header r)) ` set vis \<and> (\<exists>r \<in> set seals. row = query_row_from_segment r c))"
    by cases (auto simp: bm_collect_get_None dest!: bm_collect_get_key)
qed

lemma candidate_row_hot:
  assumes "fc_record_id c \<in> (\<lambda>r. rh_record_id (sr_header r)) ` set vis"
  shows "\<exists>r \<in> set vis. rh_record_id (sr_header r) = fc_record_id c \<and>
    candidate_row (bm_collect (map (\<lambda>r. (rh_record_id (sr_header r), r)) vis)) seals c = Some (query_row_from_stored r c)"
proof -
  from assms obtain r where "bm_get (bm_collect (map (\<lambda>r. (rh_record_id (sr_header r), r)) vis)) (fc_record_id c) = Some r"
    using bm_collect_get_None [of "\<lambda>r. rh_record_id (sr_header r)" vis "fc_record_id c"]
    by (cases "bm_get (bm_collect (map (\<lambda>r. (rh_record_id (sr_header r), r)) vis)) (fc_record_id c)") auto
  with bm_collect_get_key [OF this] show ?thesis by (auto simp: candidate_row_def)
qed

section \<open>The page of a query\<close>

lemma query_page_results:
  assumes "query_page P env db query cursor scope_opt schema n vis sealed aps = Inr out"
  defines "fused \<equiv> ranked_candidates query (opened_streams (open_paths query (visibility_ids vis sealed)
      (candidate_budget query cursor) (qp_paths aps)))"
  defines "rows \<equiv> fst (materialize (td_store db) (ct_snapshot_epoch cursor) vis sealed (requested_window query cursor) fused)"
  shows "qo_results out = take (hq_top_k query) (drop (ct_offset cursor) rows)"
    and "length rows \<le> page_end query cursor \<Longrightarrow> qo_next_cursor out = None"
    and "ex_returned_count (qo_explain out) = length (qo_results out)"
  using assms(1) unfolding query_page_def rows_def fused_def
  by (auto simp: Let_def case_prod_beta rbind_eq_Inr split: if_splits)

text \<open>The records a query works on.\<close>

definition query_hot :: "qry_prims \<Rightarrow> trace_db \<Rightarrow> hybrid_query \<Rightarrow> epoch \<Rightarrow> actor_context \<Rightarrow> stored_record list" where
  "query_hot P db query e actor = filter_records_by_scalar_eq (query_visible_records P db query e actor) (hq_scalar_eq query)"

definition query_sealed :: "hybrid_query \<Rightarrow> segment_record list \<Rightarrow> segment_record list" where
  "query_sealed query sealed = filter_segment_records_by_scalar_eq sealed (hq_scalar_eq query)"

lemma query_hot_iff:
  "r \<in> set (query_hot P db query e actor) \<longleftrightarrow>
     r \<in> set (visible_records_at (td_store db) (hq_table query) (hq_tenant_id query) e) \<and>
     stored_record_visible P actor r \<and> record_matches_scalar_eq (sr_fields r) (hq_scalar_eq query)"
  by (auto simp: query_hot_def filter_records_by_scalar_eq_def query_visible_records_def record_matches_scalar_eq_def)

lemma query_sealed_iff:
  assumes "query_sealed_records P files db query e actor = Inr sealed"
  obtains records where
    "sealed_segment_records (idx_prims.truncate P) files db (hq_table query) (hq_tenant_id query) = Inr records"
    "\<And>r. r \<in> set (query_sealed query sealed) \<longleftrightarrow> r \<in> set records \<and> sg_version_id r \<le> e \<and>
       segment_record_visible P actor r \<and> record_matches_scalar_eq (sg_fields r) (hq_scalar_eq query)"
    "length (query_sealed query sealed) \<le> length records"
proof -
  from assms obtain records where records:
      "sealed_segment_records (idx_prims.truncate P) files db (hq_table query) (hq_tenant_id query) = Inr records"
    and sealed: "sealed = filter (segment_record_visible P actor) (filter (\<lambda>r. sg_version_id r \<le> e) records)"
    by (auto simp: query_sealed_records_def rbind_eq_Inr)
  have "length (query_sealed query sealed) \<le> length sealed"
    by (simp add: query_sealed_def filter_segment_records_by_scalar_eq_def)
  also have "\<dots> \<le> length records" unfolding sealed by (meson le_trans length_filter_le)
  finally show thesis
    by (intro that [OF records])
       (auto simp: sealed query_sealed_def filter_segment_records_by_scalar_eq_def record_matches_scalar_eq_def)
qed

lemma query_sealed_length:
  assumes "query_sealed_records P files db query e actor = Inr sealed"
    and "sealed_segment_records (idx_prims.truncate P) files db (hq_table query) (hq_tenant_id query) = Inr records"
  shows "length (query_sealed query sealed) \<le> length records"
  using query_sealed_iff [OF assms(1)] assms(2) by (metis sum.inject(2))

lemma query_hot_length:
  "length (query_hot P db query e actor) \<le> length (visible_records_at (td_store db) (hq_table query) (hq_tenant_id query) e)"
  by (auto simp: query_hot_def filter_records_by_scalar_eq_def query_visible_records_def intro: le_trans [OF length_filter_le])

lemma query_internal_runs:
  assumes "query_with_timing_internal P env files db query cursor scope_opt (Some actor) cache = (Inr out, cache')"
  obtains (empty) "hq_top_k query = 0" "qo_results out = []" "qo_next_cursor out = None"
  | (page) schema sealed aps n where "0 < hq_top_k query"
    "query_sealed_records P files db query (ct_snapshot_epoch cursor) actor = Inr sealed"
    "query_access_paths P files db (query_access_input_of P query schema (query_hot P db query (ct_snapshot_epoch cursor) actor)
        (query_sealed query sealed) (candidate_budget query cursor)) cache = (Inr aps, cache')"
    "query_page P env db query cursor scope_opt schema n (query_hot P db query (ct_snapshot_epoch cursor) actor)
        (query_sealed query sealed) aps = Inr out"
proof -
  have "thesis" if "0 < hq_top_k query"
    using assms that
    by (auto simp: query_with_timing_internal_def Let_def ebind_Inr ereads_def run_streams_def query_hot_def [symmetric]
        query_sealed_def [symmetric] intro: page)
  moreover have "thesis" if "hq_top_k query = 0"
    using assms that by (auto simp: query_with_timing_internal_def Let_def ebind_Inr ereads_def ereturn_def intro: empty)
  ultimately show thesis by blast
qed

lemma db_query_as_runs:
  assumes "db_query_as P env files actor db query cache = (Inr out, cache')"
  obtains cursor scope where "ac_tenant_id actor = hq_tenant_id query"
    "resolve_cursor_state (cur_prims.truncate P) env (cursor_scope_for_query P actor query (max (hq_top_k query) 1))
       (hq_cursor query) (mf_latest_epoch (td_manifest db)) = Inr cursor"
    "query_with_timing_internal P env files db query cursor (Some scope) (Some actor) cache = (Inr out, cache')"
  using assms
  by (auto simp: db_query_as_def ebind_Inr ereads_def Let_def rbind_eq_Inr validate_actor_tenant_def ensure_eq_Inr)

section \<open>Which records a query returns\<close>

text \<open>
  A row that stands for the visible version of a record, and one that stands for a sealed record.
\<close>

definition hot_row :: "qry_prims \<Rightarrow> trace_db \<Rightarrow> hybrid_query \<Rightarrow> epoch \<Rightarrow> actor_context \<Rightarrow> query_row \<Rightarrow> bool" where
  "hot_row P db query e actor row \<longleftrightarrow>
     (\<exists>r. get_record (td_store db) (hq_table query) (hq_tenant_id query) (qr_record_id row) e = Some r \<and>
        stored_record_visible P actor r \<and> record_matches_scalar_eq (sr_fields r) (hq_scalar_eq query) \<and>
        qr_version_id row = rh_version_id (sr_header r) \<and> qr_tenant_id row = hq_tenant_id query \<and>
        qr_fields row = sr_fields r)"

definition sealed_row ::
    "qry_prims \<Rightarrow> artifact_files \<Rightarrow> trace_db \<Rightarrow> hybrid_query \<Rightarrow> epoch \<Rightarrow> actor_context \<Rightarrow> query_row \<Rightarrow> bool" where
  "sealed_row P files db query e actor row \<longleftrightarrow>
     (\<exists>records r. sealed_segment_records (idx_prims.truncate P) files db (hq_table query) (hq_tenant_id query) = Inr records \<and>
        r \<in> set records \<and> sg_version_id r \<le> e \<and> segment_record_visible P actor r \<and>
        record_matches_scalar_eq (sg_fields r) (hq_scalar_eq query) \<and>
        \<not> is_tombstoned_at (td_store db) (hq_table query) (hq_tenant_id query) (qr_record_id row) e \<and>
        qr_record_id row = sg_record_id r \<and> qr_version_id row = sg_version_id r \<and>
        qr_tenant_id row = hq_tenant_id query \<and> qr_fields row = sg_fields r)"

lemma sealed_segment_step_scope:
  assumes "sealed_segment_step P files db table tenant_id out seg = Inr out'"
    and "\<forall>r \<in> set out. sg_table r = table \<and> sg_tenant_id r = tenant_id"
  shows "\<forall>r \<in> set out'. sg_table r = table \<and> sg_tenant_id r = tenant_id"
  using assms by (auto simp: rbind_eq_Inr sealed_segment_step_def split: if_splits)

lemma sealed_segment_records_scope:
  assumes "sealed_segment_records P files db table tenant_id = Inr records" and "r \<in> set records"
  shows "sg_table r = table \<and> sg_tenant_id r = tenant_id"
proof -
  have "\<forall>r \<in> set out'. sg_table r = table \<and> sg_tenant_id r = tenant_id"
    if "rfold (sealed_segment_step P files db table tenant_id) out segs = Inr out'"
      "\<forall>r \<in> set out. sg_table r = table \<and> sg_tenant_id r = tenant_id" for out out' segs
    using that by (induction segs arbitrary: out) (auto simp: rbind_eq_Inr dest!: sealed_segment_step_scope)
  from this [of "[]"] assms show ?thesis by (auto simp: sealed_segment_records_def)
qed

section \<open>Rows of a page\<close>

definition row_of :: "store \<Rightarrow> epoch \<Rightarrow> stored_record list \<Rightarrow> segment_record list \<Rightarrow> fused_candidate \<Rightarrow> query_row option" where
  "row_of st e vis sealed c =
     (if fc_record_id c \<in> set (visibility_ids vis (sealed_visible_records st e sealed))
      then candidate_row (bm_collect (map (\<lambda>r. (rh_record_id (sr_header r), r)) vis))
             (bm_collect (map (\<lambda>r. (sg_record_id r, r)) (sealed_visible_records st e sealed))) c
      else None)"

lemma materialize_eq:
  "fst (materialize st e vis sealed window fused) = take window (filter_map (row_of st e vis sealed) fused)"
  by (simp add: materialize_def Let_def materialize_rows row_of_def [abs_def] visibility_ids_def)

lemma row_of_id: "row_of st e vis sealed c = Some row \<Longrightarrow> qr_record_id row = fc_record_id c"
  by (auto simp: row_of_def candidate_row_id(1) split: if_splits)

lemma row_of_visible:
  "row_of st e vis sealed c = Some row \<Longrightarrow> fc_record_id c \<in> set (visibility_ids vis (sealed_visible_records st e sealed))"
  by (auto simp: row_of_def split: if_splits)

lemma materialize_row:
  assumes "row \<in> set (fst (materialize st e vis sealed window fused))"
  shows "(\<exists>r \<in> set vis. \<exists>c. row = query_row_from_stored r c) \<or>
    (\<exists>r \<in> set sealed. \<exists>c. \<not> is_tombstoned_at st (sg_table r) (sg_tenant_id r) (sg_record_id r) e \<and>
       row = query_row_from_segment r c)"
proof -
  from assms obtain c where "candidate_row (bm_collect (map (\<lambda>r. (rh_record_id (sr_header r), r)) vis))
      (bm_collect (map (\<lambda>r. (sg_record_id r, r)) (sealed_visible_records st e sealed))) c = Some row"
    by (auto simp: materialize_eq set_filter_map row_of_def split: if_splits dest!: in_set_takeD)
  from candidate_row_id(2) [OF this] show ?thesis by (auto simp: sealed_visible_records_def)
qed

lemma filter_map_distinct:
  assumes "distinct (map f xs)" and "\<And>x y. g x = Some y \<Longrightarrow> h y = f x"
  shows "distinct (map h (filter_map g xs))"
  using assms(1)
proof (induction xs)
  case (Cons x xs)
  have "h ` set (filter_map g xs) \<subseteq> f ` set xs" using assms(2) by (auto simp: set_filter_map)
  with Cons assms(2) [of x] show ?case by (auto split: option.splits)
qed simp

lemma materialize_distinct:
  assumes "distinct (map fc_record_id fused)"
  shows "distinct (map qr_record_id (fst (materialize st e vis sealed window fused)))"
proof -
  have "distinct (map qr_record_id (filter_map (row_of st e vis sealed) fused))"
    using assms row_of_id by (rule filter_map_distinct)
  then show ?thesis by (simp add: materialize_eq flip: take_map)
qed

text \<open>No row is cut off when the window holds all records.\<close>

lemma visible_rows_length:
  assumes "distinct (map fc_record_id fused)"
  shows "length (filter_map (row_of st e vis sealed) fused) \<le> length vis + length sealed"
proof -
  let ?rows = "filter_map (row_of st e vis sealed) fused"
  let ?ids = "visibility_ids vis (sealed_visible_records st e sealed)"
  have d: "distinct (map qr_record_id ?rows)" using assms row_of_id by (rule filter_map_distinct)
  have "qr_record_id ` set ?rows \<subseteq> set ?ids"
    by (auto simp: set_filter_map row_of_id row_of_visible)
  then have "card (qr_record_id ` set ?rows) \<le> card (set ?ids)" by (intro card_mono) auto
  also have "\<dots> \<le> length ?ids" by (rule card_length)
  also have "\<dots> \<le> length vis + length sealed" by (simp add: visibility_ids_def sealed_visible_records_def)
  finally show ?thesis using distinct_card [OF d] by simp
qed

lemma materialize_all:
  assumes "distinct (map fc_record_id fused)" and "length vis + length sealed \<le> window"
  shows "fst (materialize st e vis sealed window fused) = filter_map (row_of st e vis sealed) fused"
  using visible_rows_length [OF assms(1), of st e vis sealed] assms(2) by (simp add: materialize_eq)

lemma row_of_hot:
  assumes "r \<in> set vis" and "fc_record_id c = rh_record_id (sr_header r)"
  shows "\<exists>row. row_of st e vis sealed c = Some row"
proof -
  have "fc_record_id c \<in> (\<lambda>r. rh_record_id (sr_header r)) ` set vis" using assms by force
  from candidate_row_hot [OF this] this show ?thesis by (auto simp: row_of_def visibility_ids_def)
qed

lemma policy_path_opened:
  assumes "query_access_paths P files db inp cache = (Inr aps, cache')"
  shows "relational_path ''PolicyPath'' None 0x3F800000
    (take (case qi_fallback_candidate_limit inp of Some n \<Rightarrow> n | None \<Rightarrow> usize_max) (qi_visible inp)) \<in> set (qp_paths aps)"
  using assms by (auto simp: query_access_paths_def Let_def case_prod_beta split: sum.splits prod.splits)

lemma policy_path_open:
  assumes "length vis \<le> budget" and "\<forall>r \<in> set vis. rh_record_id (sr_header r) \<in> set visibility"
  shows "path_open (relational_path ''PolicyPath'' None score vis) qf visibility budget =
    map (\<lambda>r. planner_candidate r ''PolicyPath'' score relational_score) vis"
  using assms by (simp add: path_open_def relational_path_def planner_descriptor_def planner_candidate_def Let_def filter_True)

text \<open>Every hot record is in a stream, when the page can hold all of them.\<close>

lemma hot_in_streams:
  assumes paths: "query_access_paths P files db (query_access_input_of P query schema vis sealed budget) cache = (Inr aps, cache')"
    and bound: "length vis \<le> budget" "length vis \<le> usize_max" and r: "r \<in> set vis"
  shows "rh_record_id (sr_header r) \<in> stream_ids (opened_streams (open_paths query (visibility_ids vis sealed) budget (qp_paths aps)))"
proof -
  let ?p = "relational_path ''PolicyPath'' None 0x3F800000 vis"
  let ?cs = "path_open ?p (query_fragment_of query) (visibility_ids vis sealed) budget"
  have "take (case qi_fallback_candidate_limit (query_access_input_of P query schema vis sealed budget) of
      Some n \<Rightarrow> n | None \<Rightarrow> usize_max) vis = vis"
    using bound by (simp add: query_access_input_of_def)
  with policy_path_opened [OF paths] have "?p \<in> set (qp_paths aps)" by (simp add: query_access_input_of_def)
  then have "ranked_stream_from_candidates (path_stream_name ?p) ?cs
      \<in> set (opened_streams (open_paths query (visibility_ids vis sealed) budget (qp_paths aps)))"
    by (force simp: opened_streams_def open_paths_def)
  moreover have "?cs = map (\<lambda>r. planner_candidate r ''PolicyPath'' 0x3F800000 relational_score) vis"
    using bound by (intro policy_path_open) (auto simp: visibility_ids_def)
  ultimately show ?thesis using r
    by (force simp: stream_ids_def ranked_stream_from_candidates_def planner_candidate_def image_image)
qed

section \<open>The answer of a query\<close>

lemma page_rows_sound:
  assumes "query_page P env db query cursor scope_opt schema n vis sealed aps = Inr out"
  shows "length (qo_results out) \<le> hq_top_k query" and "distinct (map qr_record_id (qo_results out))"
    and "row \<in> set (qo_results out) \<Longrightarrow>
      (\<exists>r \<in> set vis. \<exists>c. row = query_row_from_stored r c) \<or>
      (\<exists>r \<in> set sealed. \<exists>c. \<not> is_tombstoned_at (td_store db) (sg_table r) (sg_tenant_id r) (sg_record_id r) (ct_snapshot_epoch cursor) \<and>
         row = query_row_from_segment r c)"
  using query_page_results(1) [OF assms]
  by (auto simp: materialize_distinct ranked_candidates_ids simp flip: take_map drop_map
      dest!: in_set_takeD in_set_dropD materialize_row)

lemma get_record_tenant:
  assumes "ids_ok st" "nul_free table" "nul_free tenant" and "get_record st table tenant rid e = Some r"
  shows "rh_tenant_id (sr_header r) = tenant"
proof -
  from assms(4) obtain vs where "bm_get st (record_key table tenant rid) = Some vs" "visible_record_at vs e = Some r"
    by (auto simp: get_record_def Option.bind_eq_Some_conv)
  then have "r \<in> set vs" by (auto dest: visible_record_at_SomeD)
  from ids_ok_get [OF assms(1) \<open>bm_get st _ = Some vs\<close> this] record_key_inj [OF assms(2) _ assms(3)] show ?thesis
    by (auto simp: header_key_ids record_ids_def)
qed

lemma row_is_answer:
  assumes store: "bm_wf (td_store db)" "ids_ok (td_store db)" "nul_free (hq_table query)" "nul_free (hq_tenant_id query)"
    and sealed: "query_sealed_records P files db query e actor = Inr sealed"
    and row: "(\<exists>r \<in> set (query_hot P db query e actor). \<exists>c. row = query_row_from_stored r c) \<or>
      (\<exists>r \<in> set (query_sealed query sealed). \<exists>c.
         \<not> is_tombstoned_at (td_store db) (sg_table r) (sg_tenant_id r) (sg_record_id r) e \<and> row = query_row_from_segment r c)"
  shows "hot_row P db query e actor row \<or> sealed_row P files db query e actor row"
  using row
proof (elim disjE bexE exE conjE)
  fix r c assume "r \<in> set (query_hot P db query e actor)" and row: "row = query_row_from_stored r c"
  then have r: "r \<in> set (visible_records_at (td_store db) (hq_table query) (hq_tenant_id query) e)"
    "stored_record_visible P actor r" "record_matches_scalar_eq (sr_fields r) (hq_scalar_eq query)"
    by (simp_all add: query_hot_iff)
  with visible_records_char [OF store]
  have "get_record (td_store db) (hq_table query) (hq_tenant_id query) (rh_record_id (sr_header r)) e = Some r" by blast
  moreover from get_record_tenant [OF store(2-4) this] have "rh_tenant_id (sr_header r) = hq_tenant_id query" by blast
  ultimately show ?thesis using r row by (auto simp: hot_row_def query_row_from_stored_def)
next
  fix r c assume r: "r \<in> set (query_sealed query sealed)" and row: "row = query_row_from_segment r c"
    and nt: "\<not> is_tombstoned_at (td_store db) (sg_table r) (sg_tenant_id r) (sg_record_id r) e"
  from query_sealed_iff [OF sealed] obtain records where records:
    "sealed_segment_records (idx_prims.truncate P) files db (hq_table query) (hq_tenant_id query) = Inr records"
    "r \<in> set records" "sg_version_id r \<le> e" "segment_record_visible P actor r"
    "record_matches_scalar_eq (sg_fields r) (hq_scalar_eq query)" using r by metis
  with sealed_segment_records_scope [OF records(1,2)] nt row show ?thesis
    by (auto simp: sealed_row_def query_row_from_segment_def)
qed

text \<open>When the page can hold every record, no visible one is missing.\<close>

lemma page_rows_complete:
  assumes page: "query_page P env db query cursor scope_opt schema n vis sealed aps = Inr out"
    and paths: "query_access_paths P files db (query_access_input_of P query schema vis sealed (candidate_budget query cursor))
      cache = (Inr aps, cache')"
    and fits: "length vis + length sealed \<le> hq_top_k query" and size: "hq_top_k query < usize_max"
    and first: "ct_offset cursor = 0" and r: "r \<in> set vis"
  shows "rh_record_id (sr_header r) \<in> qr_record_id ` set (qo_results out)" and "qo_next_cursor out = None"
proof -
  let ?opened = "open_paths query (visibility_ids vis sealed) (candidate_budget query cursor) (qp_paths aps)"
  let ?fused = "ranked_candidates query (opened_streams ?opened)"
  have ends: "page_end query cursor = hq_top_k query" and window: "requested_window query cursor = Suc (hq_top_k query)"
    using size first by (simp_all add: page_end_def requested_window_def sat_usize_def)
  have dist: "distinct (map fc_record_id ?fused)" by (rule ranked_candidates_ids)
  have rows: "fst (materialize (td_store db) (ct_snapshot_epoch cursor) vis sealed (requested_window query cursor) ?fused)
      = filter_map (row_of (td_store db) (ct_snapshot_epoch cursor) vis sealed) ?fused" (is "?rows = ?all")
    using fits window by (intro materialize_all [OF dist]) simp
  have len: "length ?all \<le> hq_top_k query"
    using visible_rows_length [OF dist, of "td_store db" "ct_snapshot_epoch cursor" vis sealed] fits by simp
  show "qo_next_cursor out = None" using query_page_results(2) [OF page] rows len ends by simp
  have "rh_record_id (sr_header r) \<in> fc_record_id ` set ?fused"
    unfolding ranked_candidates_ids using fits size window r
    by (intro hot_in_streams [OF paths]) (auto simp: candidate_budget_def)
  then obtain c where c: "c \<in> set ?fused" "fc_record_id c = rh_record_id (sr_header r)" by auto
  from row_of_hot [OF r c(2)] obtain row where
    "row_of (td_store db) (ct_snapshot_epoch cursor) vis sealed c = Some row" by blast
  with c row_of_id [OF this] have "rh_record_id (sr_header r) \<in> qr_record_id ` set ?all"
    by (force simp: set_filter_map)
  then show "rh_record_id (sr_header r) \<in> qr_record_id ` set (qo_results out)"
    using query_page_results(1) [OF page] rows len first by simp
qed

text \<open>
  C40: The answer of a hybrid query. A query of an actor that succeeds belongs to the actor's tenant and
  returns at most \<open>top_k\<close> rows with distinct record ids. Each row is the version of a record of that
  table and tenant that a read at the snapshot epoch returns, or a sealed record of them that is not
  younger than the snapshot and not deleted at it; in both cases the policy of the record allows the
  actor, and its fields satisfy every scalar predicate. When the first page can hold all records of the
  table and the tenant, every visible record that the policy allows and the predicates select is
  returned, whatever its scores are, and there is no further page.
\<close>

theorem hybrid_query_answers:
  assumes store: "bm_wf (td_store db)" "ids_ok (td_store db)" "nul_free (hq_table query)" "nul_free (hq_tenant_id query)"
    and run: "db_query_as P env files actor db query cache = (Inr out, cache')"
  shows "\<exists>cursor. resolve_cursor_state (cur_prims.truncate P) env
        (cursor_scope_for_query P actor query (max (hq_top_k query) 1)) (hq_cursor query)
        (mf_latest_epoch (td_manifest db)) = Inr cursor
    \<and> ac_tenant_id actor = hq_tenant_id query
    \<and> length (qo_results out) \<le> hq_top_k query \<and> distinct (map qr_record_id (qo_results out))
    \<and> (\<forall>row \<in> set (qo_results out). hot_row P db query (ct_snapshot_epoch cursor) actor row \<or>
         sealed_row P files db query (ct_snapshot_epoch cursor) actor row)
    \<and> (\<forall>records r. ct_offset cursor = 0 \<longrightarrow> 0 < hq_top_k query \<longrightarrow> hq_top_k query < usize_max \<longrightarrow>
         sealed_segment_records (idx_prims.truncate P) files db (hq_table query) (hq_tenant_id query) = Inr records \<longrightarrow>
         length (visible_records_at (td_store db) (hq_table query) (hq_tenant_id query) (ct_snapshot_epoch cursor))
           + length records \<le> hq_top_k query \<longrightarrow>
         get_record (td_store db) (hq_table query) (hq_tenant_id query) (rh_record_id (sr_header r))
           (ct_snapshot_epoch cursor) = Some r \<longrightarrow>
         stored_record_visible P actor r \<longrightarrow> record_matches_scalar_eq (sr_fields r) (hq_scalar_eq query) \<longrightarrow>
         rh_record_id (sr_header r) \<in> qr_record_id ` set (qo_results out) \<and> qo_next_cursor out = None)"
proof -
  from db_query_as_runs [OF run] obtain cursor scope where tenant: "ac_tenant_id actor = hq_tenant_id query"
    and cursor: "resolve_cursor_state (cur_prims.truncate P) env (cursor_scope_for_query P actor query (max (hq_top_k query) 1))
       (hq_cursor query) (mf_latest_epoch (td_manifest db)) = Inr cursor"
    and internal: "query_with_timing_internal P env files db query cursor (Some scope) (Some actor) cache = (Inr out, cache')"
    by blast
  from internal show ?thesis
  proof (cases rule: query_internal_runs)
    case empty
    with cursor tenant show ?thesis by (intro exI [of _ cursor]) simp
  next
    case (page schema sealed aps n)
    let ?e = "ct_snapshot_epoch cursor"
    let ?vis = "query_hot P db query ?e actor"
    have sound: "hot_row P db query ?e actor row \<or> sealed_row P files db query ?e actor row"
      if "row \<in> set (qo_results out)" for row
      by (rule row_is_answer [OF store page(2) page_rows_sound(3) [OF page(4) that]])
    have complete: "rh_record_id (sr_header r) \<in> qr_record_id ` set (qo_results out) \<and> qo_next_cursor out = None"
      if "ct_offset cursor = 0" "hq_top_k query < usize_max"
        "sealed_segment_records (idx_prims.truncate P) files db (hq_table query) (hq_tenant_id query) = Inr records"
        and fits: "length (visible_records_at (td_store db) (hq_table query) (hq_tenant_id query) ?e) + length records \<le> hq_top_k query"
        and r: "get_record (td_store db) (hq_table query) (hq_tenant_id query) (rh_record_id (sr_header r)) ?e = Some r"
        "stored_record_visible P actor r" "record_matches_scalar_eq (sr_fields r) (hq_scalar_eq query)" for records r
    proof -
      have "r \<in> set ?vis" using r visible_records_char [OF store] by (auto simp: query_hot_iff)
      moreover have "length ?vis + length (query_sealed query sealed) \<le> hq_top_k query"
        using fits query_hot_length [of P db query ?e actor] query_sealed_length [OF page(2) that(3)] by simp
      ultimately show ?thesis using page_rows_complete [OF page(4) page(3) _ that(2) that(1)] by blast
    qed
    show ?thesis
      using cursor tenant sound complete page_rows_sound(1,2) [OF page(4)] by (intro exI [of _ cursor]) auto
  qed
qed

section \<open>The lexical cache\<close>

definition cache_ok :: "lexical_corpus_cache \<Rightarrow> bool" where
  "cache_ok c \<longleftrightarrow> bm_wf (lc_entries c) \<and> length (lc_entries c) \<le> lc_capacity c"

lemma evict_lru_ok: "bm_wf m \<Longrightarrow> bm_wf (evict_lru n m) \<and> length (evict_lru n m) \<le> n"
proof (induction n m rule: evict_lru.induct)
  case (1 capacity entries)
  show ?case
  proof (cases "length entries \<le> capacity")
    case True
    then show ?thesis using 1 by (simp add: evict_lru.simps)
  next
    case False
    then obtain e where e: "min_by lru_order entries = Some e"
      using min_by_None_iff [of lru_order entries] by (cases "min_by lru_order entries") auto
    from False e 1(2) 1(1) [OF False e] show ?thesis
      by (subst (1 2) evict_lru.simps) (simp del: evict_lru.simps)
  qed
qed

lemma length_insert_present: "bm_contains m k \<Longrightarrow> bm_wf m \<Longrightarrow> length (bm_insert k v m) = length m"
proof -
  assume "bm_contains m k" and wf: "bm_wf m"
  then have "k \<in> fst ` set m" by (force simp: bm_contains_def dest: bm_getD)
  then have "fst ` set (bm_insert k v m) = fst ` set m" by auto
  with bm_wf_distinct [OF wf] bm_wf_distinct [OF bm_wf_insert [OF wf]] show ?thesis
    by (metis distinct_card length_map set_map)
qed

lemma cache_get_ok: "cache_ok c \<Longrightarrow> cache_ok (snd (cache_get c key)) \<and> lc_capacity (snd (cache_get c key)) = lc_capacity c"
  by (auto simp: cache_get_def Let_def cache_ok_def length_insert_present bm_contains_def split: option.splits)

lemma cache_insert_ok: "cache_ok c \<Longrightarrow> cache_ok (cache_insert c key corpus) \<and> lc_capacity (cache_insert c key corpus) = lc_capacity c"
  using evict_lru_ok [of "bm_insert key \<lparr>le_corpus = corpus, le_last_used = next_tick c\<rparr> (lc_entries c)" "lc_capacity c"]
  by (auto simp: cache_insert_def cache_ok_def)

lemma score_prepared_cache_ok:
  assumes "cache_ok cache"
  shows "cache_ok (snd (score_prepared_lexical_corpus P db schema tenant key vis sealed text_field query cache))"
proof -
  let ?key = "(ts_name schema, tenant, mf_latest_epoch (td_manifest db), mf_manifest_generation (td_manifest db), key,
    selected_text_columns schema text_field)"
  have ok: "cache_ok (snd (cache_get cache ?key))" using assms by (simp add: cache_get_ok)
  obtain found cache1 where get: "cache_get cache ?key = (found, cache1)" by fastforce
  with ok have "cache_ok cache1" by simp
  then show ?thesis using assms
    by (cases found) (simp_all add: score_prepared_lexical_corpus_def Let_def get case_prod_beta cache_insert_ok)
qed

text \<open>Whatever a query does, also when it fails, the cache holds at most its capacity of corpora.\<close>

lemma query_access_paths_cache:
  assumes "cache_ok cache" and "query_access_paths P files db inp cache = (res, cache')"
  shows "cache_ok cache'"
proof -
  have "cache' = snd (lexical_path_candidates P db inp cache)"
    using assms(2) by (auto simp: query_access_paths_def Let_def case_prod_beta split: sum.splits)
  moreover have "cache_ok (snd (lexical_path_candidates P db inp cache))"
    using assms(1) by (simp add: lexical_path_candidates_def case_prod_beta score_prepared_cache_ok split: option.splits)
  ultimately show ?thesis by simp
qed

lemma cache_run_ok:
  assumes "cache_ok cache" and "db_query_as P env files actor db query cache = (res, cache')"
  shows "cache_ok cache'"
proof -
  have internal: "cache_ok c'" if "query_with_timing_internal P env files db query cursor scope_opt actor_opt cache = (r, c')"
    for cursor scope_opt actor_opt r c'
    using that assms(1) query_access_paths_cache
    by (auto simp: query_with_timing_internal_def Let_def ebind_def ereads_def ereturn_def run_streams_def
        split: sum.splits prod.splits if_splits)
  show ?thesis
    using assms internal by (auto simp: db_query_as_def ebind_def ereads_def split: sum.splits prod.splits)
qed

end
