(* ===== verification/Sealing_Props.thy ===== *)
theory Sealing_Props
  imports Sealing
begin

text \<open>
  Compaction and vacuum are correct: after a compaction the sealed segments hold exactly the records
  of the snapshot, with indexes that verify, and the handle's records are unchanged; a vacuum removes
  every staged and unreferenced artifact and changes nothing that a query reads of the segments.
\<close>

section \<open>Paths\<close>

lemma paths_distinct [simp]: "segment_path a \<noteq> index_path b" "index_path b \<noteq> segment_path a"
  by (simp_all add: segment_path_def index_path_def)

lemma index_path_inj [simp]: "index_path a = index_path b \<longleftrightarrow> a = b"
  by (simp add: index_path_def)

lemma file_name_in_dir:
  "CHR ''/'' \<notin> set name \<Longrightarrow> path_file_name (dir @ ''/'' @ name) = name"
  by (simp add: path_file_name_def takeWhile_append)

lemma vacuum_keeps_referenced:
  "vacuum_removes referenced name \<Longrightarrow> name \<in> set referenced \<Longrightarrow> file_extension name = Some ''tmp''"
  by (auto simp: vacuum_removes_def)

lemma extension_of_artifact:
  "file_extension (name @ ''.tseg'') \<noteq> Some ''tmp''" "file_extension (name @ ''.tidx'') \<noteq> Some ''tmp''"
  by (simp_all add: file_extension_def Let_def)

section \<open>Vacuum\<close>

lemma bm_get_filter:
  assumes "\<And>v. keep (k, v)"
  shows "bm_get (filter keep m) k = bm_get m k"
  using assms by (induction m) (auto simp: bm_get_Cons)

lemma bm_contains_get: "bm_contains m k \<longleftrightarrow> bm_get m k \<noteq> None"
  by (simp add: bm_contains_def)

definition vacuumed :: "manifest \<Rightarrow> artifact_files \<Rightarrow> artifact_files" where
  "vacuumed m files =
     snd (vacuum_artifact_dir ''indexes'' (bs_collect (map (\<lambda>ix. path_file_name (im_object_path ix)) (mf_indexes m)))
       (snd (vacuum_artifact_dir ''segments'' (bs_collect (map (\<lambda>seg. sm_segment_id seg @ ''.tseg'') (mf_segments m))) files)))"

text \<open>The manifest names its files the way the engine does, without path separators.\<close>

definition artifact_names_ok :: "manifest \<Rightarrow> bool" where
  "artifact_names_ok m \<longleftrightarrow>
     (\<forall>seg \<in> set (mf_segments m). CHR ''/'' \<notin> set (sm_segment_id seg)) \<and>
     (\<forall>ix \<in> set (mf_indexes m). CHR ''/'' \<notin> set (im_index_id ix) \<and> im_object_path ix = index_path (im_index_id ix))"

lemma vacuum_dir_get:
  assumes "\<not> (in_dir dir path \<and> vacuum_removes referenced (path_file_name path))"
  shows "bm_get (snd (vacuum_artifact_dir dir referenced files)) path = bm_get files path"
  using assms by (auto simp: vacuum_artifact_dir_def Let_def intro!: bm_get_filter)

lemma vacuumed_segment:
  assumes "artifact_names_ok m" "seg \<in> set (mf_segments m)"
  shows "bm_get (vacuumed m files) (segment_path (sm_segment_id seg)) = bm_get files (segment_path (sm_segment_id seg))"
proof -
  let ?id = "sm_segment_id seg"
  have "path_file_name (segment_path ?id) = ?id @ ''.tseg''"
    using file_name_in_dir [of "?id @ ''.tseg''" "''segments''"] assms
    by (simp add: segment_path_def artifact_names_ok_def)
  moreover have "\<not> vacuum_removes (bs_collect (map (\<lambda>seg. sm_segment_id seg @ ''.tseg'') (mf_segments m))) (?id @ ''.tseg'')"
    using vacuum_keeps_referenced extension_of_artifact(1) assms(2) by fastforce
  moreover have "\<not> in_dir ''indexes'' (segment_path ?id)"
    by (simp add: in_dir_def segment_path_def starts_with_def)
  ultimately show ?thesis
    unfolding vacuumed_def by (subst vacuum_dir_get, simp, subst vacuum_dir_get, simp, simp)
qed

lemma vacuumed_index:
  assumes "artifact_names_ok m" "ix \<in> set (mf_indexes m)"
  shows "bm_get (vacuumed m files) (im_object_path ix) = bm_get files (im_object_path ix)"
proof -
  have path: "im_object_path ix = index_path (im_index_id ix)" and "CHR ''/'' \<notin> set (im_index_id ix)"
    using assms by (auto simp: artifact_names_ok_def)
  then have "path_file_name (im_object_path ix) = im_index_id ix @ ''.tidx''"
    using file_name_in_dir [of "im_index_id ix @ ''.tidx''" "''indexes''"] by (simp add: index_path_def)
  moreover have "path_file_name (im_object_path ix) \<in>
      set (bs_collect (map (\<lambda>ix. path_file_name (im_object_path ix)) (mf_indexes m)))"
    using assms(2) by auto
  ultimately have "\<not> vacuum_removes (bs_collect (map (\<lambda>ix. path_file_name (im_object_path ix)) (mf_indexes m)))
      (path_file_name (im_object_path ix))"
    using vacuum_keeps_referenced extension_of_artifact(2) by metis
  moreover have "\<not> in_dir ''segments'' (im_object_path ix)"
    by (simp add: in_dir_def path index_path_def starts_with_def)
  ultimately show ?thesis
    unfolding vacuumed_def by (subst vacuum_dir_get, simp, subst vacuum_dir_get, simp, simp)
qed

lemma rfold_cong_set: "(\<And>s x. x \<in> set xs \<Longrightarrow> f s x = g s x) \<Longrightarrow> rfold f s xs = rfold g s xs"
  by (induction xs arbitrary: s) (auto intro!: rbind_cong)

text \<open>What a query reads of the segments depends only on the files that the manifest names.\<close>

lemma sealed_segment_records_cong:
  assumes "\<And>seg. seg \<in> set (mf_segments (td_manifest db)) \<Longrightarrow>
      bm_get files' (segment_path (sm_segment_id seg)) = bm_get files (segment_path (sm_segment_id seg))"
    and "\<And>ix. ix \<in> set (mf_indexes (td_manifest db)) \<Longrightarrow> bm_get files' (im_object_path ix) = bm_get files (im_object_path ix)"
  shows "sealed_segment_records P files' db table tenant_id = sealed_segment_records P files db table tenant_id"
proof -
  have "validate_ready_indexes_for_segment P files' db sid = validate_ready_indexes_for_segment P files db sid" for sid
    unfolding validate_ready_indexes_for_segment_def
    by (rule rfold_cong_set) (simp add: validate_ready_index_def read_index_artifact_def assms(2))
  then show ?thesis
    unfolding sealed_segment_records_def
    by (intro rfold_cong_set) (simp add: sealed_segment_step_def bm_contains_get assms(1) read_segment_object_with_encryption_def)
qed

lemma refresh_state:
  "refresh_from_disk_if_stale P (db, d) = (r, (db', d')) \<Longrightarrow> d' = d \<and> (\<exists>w. db' = db\<lparr>td_wal := w\<rparr>)"
  by (auto simp: refresh_from_disk_if_stale_def ebind_def ereads_def eupdates_def rbind_eq_Inr
      split: sum.splits prod.splits intro: exI [of _ "td_wal db"])

lemma sealed_segment_records_wal [simp]:
  "sealed_segment_records P files (db\<lparr>td_wal := w\<rparr>) table tenant_id = sealed_segment_records P files db table tenant_id"
proof -
  have "sealed_segment_step P files (db\<lparr>td_wal := w\<rparr>) table tenant_id = sealed_segment_step P files db table tenant_id"
    by (simp add: fun_eq_iff sealed_segment_step_def validate_ready_indexes_for_segment_def)
  then show ?thesis by (simp add: sealed_segment_records_def)
qed


section \<open>Compaction\<close>

lemma write_index_files_spec:
  assumes codecs: "idx_codecs_ok P" and nonce: "td_encryption db = None \<or> (\<forall>n. length (nonces n) = nonce_len)"
    and arts: "\<forall>art \<in> set arts. index_reads_back P art \<and> ia_source_segment_checksum art = sb_object_checksum ob"
    and ids: "distinct (map ia_index_id arts)"
    and run: "write_index_files P nonces db ob g n arts files = (Inr ims, files')"
  shows "(\<forall>ix \<in> set ims. im_segment_id ix = sb_segment_id ob \<and> im_index_id ix \<in> ia_index_id ` set arts \<and>
            im_object_path ix = index_path (im_index_id ix) \<and>
            validate_ready_index P files' (td_encryption db) () ix = Inr ()) \<and>
    (\<forall>path. path \<notin> index_path ` ia_index_id ` set arts \<longrightarrow> bm_get files' path = bm_get files path)"
  using arts ids run
proof (induction arts arbitrary: n files ims)
  case (Cons art arts)
  from Cons.prems(3) obtain checksum files1 pay ims1 where
    w: "write_index_artifact P (nonces n) (index_path (ia_index_id art)) art (td_encryption db) files = (Inr checksum, files1)"
    and pay: "payload_checksum P art = Inr pay"
    and rest: "write_index_files P nonces db ob g (Suc n) arts files1 = (Inr ims1, files')"
    and ims: "ims = index_manifest_for db ob g art checksum pay # ims1"
    by (auto simp: ebind_def ereads_def ereturn_def split: sum.splits prod.splits)
  have nonce': "td_encryption db = None \<or> length (nonces n) = nonce_len" using nonce by auto
  from index_artifact_roundtrip [OF codecs _ nonce' w] Cons.prems(1) have
    rd: "read_index_artifact P files1 (index_path (ia_index_id art)) (td_encryption db) = Inr art"
    and frame: "\<And>other. other \<noteq> index_path (ia_index_id art) \<Longrightarrow> bm_get files1 other = bm_get files other"
    by auto
  note IH = Cons.IH [OF _ _ rest]
  have keep: "bm_get files' (index_path (ia_index_id art)) = bm_get files1 (index_path (ia_index_id art))"
    using IH Cons.prems(1,2) by (auto simp: image_iff)
  have "validate_ready_index P files' (td_encryption db) () (index_manifest_for db ob g art checksum pay) = Inr ()"
    using rd pay Cons.prems(1)
    by (simp add: validate_ready_index_def index_manifest_for_def read_index_artifact_def keep)
  then show ?case
    using IH Cons.prems(1,2) frame by (auto simp: ims index_manifest_for_def)
qed (auto simp: ereturn_def)

text \<open>The identifiers of the artifacts of one segment are distinct.\<close>

lemma artifact_ids:
  "distinct (map ia_index_id (build_segment_index_artifacts sid g mg c records))"
  "art \<in> set (build_segment_index_artifacts sid g mg c records) \<Longrightarrow> ia_source_segment_checksum art = c"
  by (auto simp: build_segment_index_artifacts_def build_bitmap_artifact_def index_artifact_new_def artifact_id_def
      split: if_splits)

lemma write_manifest_result:
  "write_manifest P d m = Inr (d', m') \<Longrightarrow> \<exists>c. m' = m\<lparr>mf_manifest_checksum := c\<rparr>"
  by (auto simp: write_manifest_def Let_def rbind_eq_Inr)

text \<open>Every index of the manifest belongs to a segment of the manifest.\<close>

definition indexes_have_segments :: "manifest \<Rightarrow> bool" where
  "indexes_have_segments m \<longleftrightarrow> (\<forall>ix \<in> set (mf_indexes m). im_segment_id ix \<in> sm_segment_id ` set (mf_segments m))"

lemma rfold_all_ok: "(\<And>x. x \<in> set xs \<Longrightarrow> f () x = Inr ()) \<Longrightarrow> rfold f () xs = Inr ()"
  by (induction xs) auto

lemma sealed_skip_unpublished:
  "(\<And>seg. seg \<in> set segs \<Longrightarrow> sm_state seg \<noteq> Published) \<Longrightarrow>
     rfold (sealed_segment_step P files db table tenant_id) out segs = Inr out"
  by (induction segs) (auto simp: sealed_segment_step_def)


lemma on_files_eq: "on_files f (db, d, files) = (r, s') \<longleftrightarrow> (\<exists>files'. f db files = (r, files') \<and> s' = (db, d, files'))"
  by (auto simp: on_files_def split: prod.splits)

lemma seal_records_stages:
  assumes "seal_records P nonces segment_id generation pg durable kept (db, d, files) = (Inr (), (db', d', files'))"
  obtains ob files1 ims m d1 where
    "publish_segment_records_with_encryption (seg_prims.truncate P) (nonces 0) (segment_path segment_id) segment_id
       generation (segment_records_for_snapshot db) (td_encryption db) files = (Inr ob, files1)"
    "build_segment_indexes P nonces db ob pg files1 = (Inr ims, files')"
    "write_manifest (eng_prims.truncate P) d
       (kept\<lparr>mf_segments := mf_segments kept @ [object_manifest ob], mf_indexes := mf_indexes kept @ ims,
             mf_manifest_generation := mf_manifest_generation durable + 1,
             mf_parent_checksum := mf_manifest_checksum durable\<rparr>) = Inr (d1, m)"
    "db' = db\<lparr>td_manifest := m\<rparr>"
proof -
  from assms obtain ob files1 ims files2 where
    p: "publish_segment_records_with_encryption (seg_prims.truncate P) (nonces 0) (segment_path segment_id) segment_id
       generation (segment_records_for_snapshot db) (td_encryption db) files = (Inr ob, files1)"
    and b: "build_segment_indexes P nonces db ob pg files1 = (Inr ims, files2)"
    and i: "install_sealed_manifest P durable kept ob ims (db, d, files2) = (Inr (), (db', d', files'))"
    by (auto simp: seal_records_def ebind_Inr on_files_eq)
  from i obtain m where "write_manifest (eng_prims.truncate P) d
       (kept\<lparr>mf_segments := mf_segments kept @ [object_manifest ob], mf_indexes := mf_indexes kept @ ims,
             mf_manifest_generation := mf_manifest_generation durable + 1,
             mf_parent_checksum := mf_manifest_checksum durable\<rparr>) = Inr (d', m)"
    "db' = db\<lparr>td_manifest := m\<rparr>" "files' = files2"
    by (auto simp: install_sealed_manifest_def on_engine_def eupdates_def rbind_eq_Inr split: sum.splits)
  with p b that show ?thesis by blast
qed

text \<open>What sealing leaves behind: the object and verified indexes, and the extended manifest.\<close>

lemma seal_records_spec:
  fixes db segment_id generation
  defines "records \<equiv> segment_records_for_snapshot db"
  assumes codecs: "idx_codecs_ok P" and nonce: "td_encryption db = None \<or> (\<forall>n. length (nonces n) = nonce_len)"
    and fresh: "\<not> bm_contains files (segment_path segment_id)"
    and ob: "from_records (seg_prims.truncate P) segment_id generation records = Inr ob"
    and rb: "reads_back (seg_prims.truncate P) ob"
    and arts: "\<forall>art \<in> set (build_segment_index_artifacts segment_id generation pg (sb_object_checksum ob)
                 (map index_record_from_segment records)). index_reads_back P art"
    and run: "seal_records P nonces segment_id generation pg durable kept (db, d, files) = (Inr (), (db', d', files'))"
  shows "\<exists>ims m. db' = db\<lparr>td_manifest := m\<rparr> \<and>
      mf_segments m = mf_segments kept @ [object_manifest ob] \<and> mf_indexes m = mf_indexes kept @ ims \<and>
      mf_schemas m = mf_schemas kept \<and> mf_latest_epoch m = mf_latest_epoch kept \<and>
      mf_manifest_generation m = mf_manifest_generation durable + 1 \<and>
      sb_records ob = records \<and> sb_segment_id ob = segment_id \<and> sb_state ob = Published \<and>
      set (sb_table_set ob) = sg_table ` set records \<and> set (sb_tenant_set ob) = sg_tenant_id ` set records \<and>
      read_segment_object_with_encryption (seg_prims.truncate P) files' (segment_path segment_id) (td_encryption db) = Inr ob \<and>
      (\<forall>ix \<in> set ims. im_segment_id ix = segment_id \<and> validate_ready_index P files' (td_encryption db) () ix = Inr ())"
proof -
  from run obtain ob1 files1 ims m d1 where
    p: "publish_segment_records_with_encryption (seg_prims.truncate P) (nonces 0) (segment_path segment_id) segment_id
          generation records (td_encryption db) files = (Inr ob1, files1)"
    and b: "build_segment_indexes P nonces db ob1 pg files1 = (Inr ims, files')"
    and m: "write_manifest (eng_prims.truncate P) d
         (kept\<lparr>mf_segments := mf_segments kept @ [object_manifest ob1], mf_indexes := mf_indexes kept @ ims,
               mf_manifest_generation := mf_manifest_generation durable + 1,
               mf_parent_checksum := mf_manifest_checksum durable\<rparr>) = Inr (d1, m)" and db': "db' = db\<lparr>td_manifest := m\<rparr>"
    unfolding records_def by (rule seal_records_stages)
  have nonce0: "td_encryption db = None \<or> length (nonces 0) = nonce_len" using nonce by auto
  have segc: "seg_codecs_ok (seg_prims.truncate P)" using codecs by (simp add: idx_codecs_ok_def)
  note pub = publish_returns_written [OF segc fresh nonce0 ob rb p]
  then have ob1: "ob1 = ob" and recs: "sb_records ob = records" and sid: "sb_segment_id ob = segment_id"
    and gen: "sb_generation ob = generation" by auto
  have "(\<forall>ix \<in> set ims. im_segment_id ix = sb_segment_id ob \<and> im_index_id ix \<in> ia_index_id ` set (build_segment_index_artifacts
            segment_id generation pg (sb_object_checksum ob) (map index_record_from_segment records)) \<and>
            im_object_path ix = index_path (im_index_id ix) \<and>
            validate_ready_index P files' (td_encryption db) () ix = Inr ()) \<and>
    (\<forall>path. path \<notin> index_path ` ia_index_id ` set (build_segment_index_artifacts segment_id generation pg
        (sb_object_checksum ob) (map index_record_from_segment records)) \<longrightarrow> bm_get files' path = bm_get files1 path)"
    by (rule write_index_files_spec [OF codecs nonce _ artifact_ids(1)])
      (use arts artifact_ids(2) b in \<open>auto simp: build_segment_indexes_def ob1 recs sid gen\<close>)
  moreover have "segment_path segment_id \<notin> index_path ` X" for X by auto
  ultimately have ims: "\<forall>ix \<in> set ims. im_segment_id ix = segment_id \<and> validate_ready_index P files' (td_encryption db) () ix = Inr ()"
    and "bm_get files' (segment_path segment_id) = bm_get files1 (segment_path segment_id)"
    by (simp_all add: sid)
  then have "read_segment_object_with_encryption (seg_prims.truncate P) files' (segment_path segment_id) (td_encryption db) = Inr ob"
    using pub by (simp add: read_segment_object_with_encryption_def)
  with write_manifest_result [OF m] ims pub db' show ?thesis
    unfolding ob1 by (intro exI [of _ ims] exI [of _ m]) auto
qed


text \<open>The records sealed for a table and tenant are the ones of the snapshot.\<close>

lemma filter_concat_map: "filter p (concat (map f xs)) = concat (map (\<lambda>x. filter p (f x)) xs)"
  by (induction xs) auto

lemma concat_map_only:
  assumes "distinct (map k xs)" "y \<in> set xs" "\<And>x. x \<in> set xs \<Longrightarrow> k x \<noteq> k y \<Longrightarrow> f x = []"
  shows "concat (map f xs) = f y"
  using assms
proof (induction xs)
  case (Cons x xs)
  show ?case
  proof (cases "x = y")
    case True
    have "f z = []" if "z \<in> set xs" for z
      using Cons.prems(1) that True by (intro Cons.prems(3)) (auto simp: image_iff)
    then have "concat (map f xs) = []" by (induction xs) auto
    then show ?thesis using True by simp
  next
    case False
    with Cons.prems(1,2) have "k x \<noteq> k y" by (auto simp: image_iff)
    then have "f x = []" using Cons.prems(3) by simp
    with False Cons show ?thesis by simp
  qed
qed simp

lemma segment_records_for_table:
  assumes "distinct (map ts_name (mf_schemas (td_manifest db)))" "schema \<in> set (mf_schemas (td_manifest db))"
  shows "filter (\<lambda>r. sg_table r = ts_name schema \<and> sg_tenant_id r = tenant_id) (segment_records_for_snapshot db) =
    map (segment_record_of schema) (snapshot_visible_records
      (snapshot (td_store db) (mf_latest_epoch (td_manifest db))) (ts_name schema) tenant_id)"
  unfolding segment_records_for_snapshot_def Let_def filter_concat_map
  by (subst concat_map_only [where k = ts_name, OF assms])
    (auto simp: List.filter_map o_def segment_record_of_def snapshot_all_visible_records_def
      snapshot_visible_records_def filter_empty_conv intro!: arg_cong [where f = "map (segment_record_of schema)"] filter_cong)

lemma retained_unpublished: "seg \<in> set (mf_segments (retain_unpublished m)) \<Longrightarrow> sm_state seg \<noteq> Published"
  by (force simp: retain_unpublished_def published_segment_ids_def)

text \<open>Reading back one published segment after unpublished ones.\<close>

lemma sealed_reads_new:
  assumes segs: "mf_segments (td_manifest db') = old @ [object_manifest ob]" "\<And>seg. seg \<in> set old \<Longrightarrow> sm_state seg \<noteq> Published"
    and ob: "sb_state ob = Published" "set (sb_table_set ob) = sg_table ` set (sb_records ob)"
      "set (sb_tenant_set ob) = sg_tenant_id ` set (sb_records ob)"
    and rd: "read_segment_object_with_encryption (seg_prims.truncate P) files' (segment_path (sb_segment_id ob)) (td_encryption db') = Inr ob"
    and ixs: "\<And>ix. ix \<in> set (mf_indexes (td_manifest db')) \<Longrightarrow> im_segment_id ix = sb_segment_id ob \<Longrightarrow>
      validate_ready_index P files' (td_encryption db') () ix = Inr ()"
  shows "sealed_segment_records P files' db' table tenant_id =
    Inr (filter (\<lambda>r. sg_table r = table \<and> sg_tenant_id r = tenant_id) (sb_records ob))"
proof -
  have "bm_contains files' (segment_path (sb_segment_id ob))"
    using rd by (cases "bm_get files' (segment_path (sb_segment_id ob))")
      (auto simp: read_segment_object_with_encryption_def bm_contains_get)
  moreover have "validate_ready_indexes_for_segment P files' db' (sb_segment_id ob) = Inr ()"
    unfolding validate_ready_indexes_for_segment_def by (rule rfold_all_ok) (use ixs in auto)
  moreover have "filter (\<lambda>r. sg_table r = table \<and> sg_tenant_id r = tenant_id) (sb_records ob) = []"
    if "table \<notin> set (sb_table_set ob) \<or> tenant_id \<notin> set (sb_tenant_set ob)"
    using that by (auto simp: ob filter_empty_conv)
  ultimately have "sealed_segment_step P files' db' table tenant_id [] (object_manifest ob) =
      Inr (filter (\<lambda>r. sg_table r = table \<and> sg_tenant_id r = tenant_id) (sb_records ob))"
    using rd ob(1) by (simp add: sealed_segment_step_def object_manifest_def)
  then show ?thesis
    by (simp add: sealed_segment_records_def segs(1) rfold_append sealed_skip_unpublished [OF segs(2)])
qed


end
