(* ===== verification/Sealing_Demo.thy ===== *)
theory Sealing_Demo
  imports Sealing_Props
begin

text \<open>
  A concrete database whose compaction and vacuum can be evaluated, and the witnesses of the two
  results about them. Every codec is a table: it supports a few values, each with a name of its own.
\<close>

section \<open>Table codecs\<close>

definition table_ser :: "'a list \<Rightarrow> 'a \<Rightarrow> string + bytes" where
  "table_ser T x =
     (if x \<in> set T then Inr (replicate (length (takeWhile (\<lambda>y. y \<noteq> x) T)) CHR ''a'') else Inl ''unsupported'')"

definition table_de :: "'a list \<Rightarrow> bytes \<Rightarrow> string + 'a" where
  "table_de T bs = (if length bs < length T then Inr (T ! length bs) else Inl ''unsupported'')"

lemma table_index: "x \<in> set T \<Longrightarrow> length (takeWhile (\<lambda>y. y \<noteq> x) T) < length T \<and> T ! length (takeWhile (\<lambda>y. y \<noteq> x) T) = x"
  by (induction T) auto

lemma table_roundtrip: "table_ser T x = Inr bs \<Longrightarrow> table_de T bs = Inr x \<and> length bs < length T"
  using table_index [of x T] by (auto simp: table_ser_def table_de_def split: if_splits)

section \<open>The database\<close>

definition seal_digest :: bytes where
  "seal_digest = replicate 32 CHR ''x''"

definition seal_schema :: table_schema where
  "seal_schema = \<lparr>ts_name = ''docs'', ts_primary_id_column = ''id'', ts_tenant_id_column = ''tenant'',
     ts_scalar_columns = [''kind''], ts_text_indexed_columns = [], ts_vector_columns = []\<rparr>"

definition seal_record :: stored_record where
  "seal_record =
     \<lparr>sr_header = \<lparr>rh_record_id = ''a'', rh_table_id = ''docs'', rh_tenant_id = ''t'', rh_schema_version = 1, rh_begin_epoch = 1,
        rh_end_epoch = None, rh_version_id = 1, rh_tombstone = None\<rparr>,
      sr_fields = [(''kind'', JString ''note'')], sr_features = []\<rparr>"

definition seal_manifest :: manifest where
  "seal_manifest = (manifest_empty ''db'')
     \<lparr>mf_latest_epoch := 1, mf_durable_epoch := 1, mf_schemas := [seal_schema], mf_manifest_checksum := seal_digest,
      mf_segments := [published_segment ''old'' 1]\<rparr>"

definition seal_db :: trace_db where
  "seal_db =
     \<lparr>td_dir = ''/db'', td_manifest = seal_manifest, td_store = [(record_key ''docs'' ''t'' ''a'', [seal_record])],
      td_wal = \<lparr>wal_tail_cache = \<lparr>wt_last_lsn = None, wt_last_epoch = None, wt_last_checksum = zero32, wt_file_len = 0\<rparr>,
        wal_encryption = None, wal_recovery_torn_tail = None\<rparr>,
      td_encryption = None, td_receipts = [], td_jobs = [], td_last_recovery_torn_tail = None\<rparr>"

definition seal_disk :: disk where
  "seal_disk = \<lparr>dk_manifest = Some [], dk_manifest_bak = None, dk_wal = [], dk_checkpoints = [], dk_json_checkpoints = [],
     dk_job_catalog = None\<rparr>"

definition seal_records_demo :: "segment_record list" where
  "seal_records_demo = [segment_record_of seal_schema seal_record]"

abbreviation (input) "digest_prims \<equiv> \<lparr>sha256 = \<lambda>_. seal_digest, json_text = \<lambda>_. []\<rparr>"

definition seal_object0 :: segment_object where
  "seal_object0 =
     \<lparr>sb_format_version = 2, sb_segment_id = ''compact-1-2'', sb_generation = 2, sb_state = Published,
      sb_state_history = publication_state_history, sb_epoch_min = 2, sb_epoch_max = 2,
      sb_table_set = [''docs''], sb_tenant_set = [''t''],
      sb_module_blocks =
        [module_block_new digest_prims ''tracedb-text'' ''postings'' ''text-postings-v1'' 0,
         module_block_new digest_prims ''tracedb-vector'' ''vector-pages'' ''vector-pages-v1'' 0,
         module_block_new digest_prims ''tracedb-policy'' ''policy-bitmaps'' ''policy-bitmap-v1'' 1],
      sb_records = seal_records_demo, sb_payload_checksum = seal_digest, sb_object_checksum = zero32\<rparr>"

definition seal_object :: segment_object where
  "seal_object = seal_object0\<lparr>sb_object_checksum := seal_digest\<rparr>"

definition seal_artifacts :: "index_artifact list" where
  "seal_artifacts = build_segment_index_artifacts ''compact-1-2'' 2 1 seal_digest (map index_record_from_segment seal_records_demo)"

text \<open>The headers of the three artifact files, without and with their object checksum.\<close>

definition seal_headers :: "artifact_header list" where
  "seal_headers =
     (let hs = artifact_header_new digest_prims ''segment'' ''bincode'' ''compact-1-2'' 2 2 2 2 seal_digest [] #
            map (\<lambda>(kind, bs). artifact_header_new digest_prims (''index-'' @ kind) ''bincode'' ''compact-1-2'' 2 1 2 2 seal_digest bs)
              [(''primary'', []), (''policy'', ''a'')]
      in hs @ map (\<lambda>h. h\<lparr>ah_object_checksum := seal_digest\<rparr>) hs)"

definition demo_idx :: idx_prims where
  "demo_idx =
     \<lparr>sha256 = \<lambda>_. seal_digest, json_text = \<lambda>_. [],
      bin_header_ser = table_ser seal_headers, bin_header_de = table_de seal_headers,
      b64_encode = \<lambda>bs. bs, b64_decode = Some,
      aead_encrypt = aead_encrypt demo_prims, aead_decrypt = aead_decrypt demo_prims,
      commit_ser = \<lambda>_. Inl ''unsupported'', commit_de = \<lambda>_. Inl ''unsupported'',
      manifest_json = \<lambda>_. Inr ''{m'', manifest_json_pretty = \<lambda>_. Inr [], manifest_parse = \<lambda>_. Inr seal_manifest,
      checkpoint_json = \<lambda>_. Inl ''unsupported'', checkpoint_parse = \<lambda>_. Inl ''unsupported'',
      checkpoint_file_json = \<lambda>_. Inl ''unsupported'', checkpoint_file_parse = \<lambda>_. Inl ''unsupported'',
      job_catalog_json = \<lambda>_. Inl ''unsupported'',
      hmac_sha256 = \<lambda>_ _. [], b64url_encode = \<lambda>bs. bs, b64url_decode = Some,
      cursor_json = \<lambda>_. Inl ''unsupported'', cursor_parse = \<lambda>_. Inl ''unsupported'',
      segment_records_bin = \<lambda>_. Inr ''r'', bytes_bin = Inr, bytes_unbin = Inr,
      segment_json = \<lambda>_. Inr [], segment_parse = \<lambda>_. Inr seal_object,
      index_json = \<lambda>art. Inr (if ia_kind art = ''primary'' then [] else ''a''),
      index_parse = \<lambda>bs. Inr (if bs = [] then hd seal_artifacts else hd (tl seal_artifacts))\<rparr>"

lemma demo_idx_simps [simp]:
  "sha256 demo_idx bs = seal_digest" "bin_header_ser demo_idx = table_ser seal_headers"
  "bytes_bin demo_idx = Inr" "index_json demo_idx art = Inr (if ia_kind art = ''primary'' then [] else ''a'')"
  "index_parse demo_idx bs = Inr (if bs = [] then hd seal_artifacts else hd (tl seal_artifacts))"
  "segment_json (seg_prims.truncate demo_idx) ob = Inr []" "segment_parse (seg_prims.truncate demo_idx) bs = Inr seal_object"
  "segment_records_bin (seg_prims.truncate demo_idx) rs = Inr ''r''" "bytes_bin (seg_prims.truncate demo_idx) = Inr"
  "sha256 (seg_prims.truncate demo_idx) bs = seal_digest"
  "sha256 (art_prims.truncate demo_idx) bs = seal_digest"
  "bin_header_ser (art_prims.truncate demo_idx) = table_ser seal_headers"
  "art_prims.truncate (seg_prims.truncate demo_idx) = art_prims.truncate demo_idx"
  "manifest_json (eng_prims.truncate demo_idx) m = Inr ''{m''" "manifest_json_pretty (eng_prims.truncate demo_idx) m = Inr []"
  "manifest_parse (eng_prims.truncate demo_idx) bs = Inr seal_manifest" "sha256 (eng_prims.truncate demo_idx) bs = seal_digest"
  by (simp_all add: demo_idx_def seg_prims.defs art_prims.defs eng_prims.defs)

lemma seal_digest_nonzero [simp]: "seal_digest \<noteq> zero32" "zero32 \<noteq> seal_digest"
  by code_simp+

lemma demo_idx_codecs: "idx_codecs_ok demo_idx"
proof -
  have "length seal_headers < 2 ^ 32" by (simp add: seal_headers_def Let_def)
  then have "header_codec_ok (art_prims.truncate (seg_prims.truncate demo_idx))"
    using table_roundtrip [of seal_headers] by (fastforce simp: header_codec_ok_def demo_idx_def art_prims.defs seg_prims.defs)
  moreover have "aead_ok (art_prims.truncate (seg_prims.truncate demo_idx))"
    using demo_prims_ok(3) by (simp add: aead_ok_def demo_idx_def art_prims.defs seg_prims.defs)
  ultimately show ?thesis
    by (simp add: idx_codecs_ok_def seg_codecs_ok_def bytes_codec_ok_def demo_idx_def seg_prims.defs art_prims.defs)
qed

lemma seal_artifacts_eq:
  "seal_artifacts =
     [build_bitmap_artifact ''primary'' ''compact-1-2'' 2 1 seal_digest (map index_record_from_segment seal_records_demo),
      build_bitmap_artifact ''policy'' ''compact-1-2'' 2 1 seal_digest (map index_record_from_segment seal_records_demo)]"
  by (simp add: seal_artifacts_def build_segment_index_artifacts_def seal_records_demo_def index_record_from_segment_def
      segment_record_of_def segment_text_def segment_vectors_def seal_schema_def)

lemma demo_idx_reads_back:
  "reads_back (seg_prims.truncate demo_idx) seal_object" "art \<in> set seal_artifacts \<Longrightarrow> index_reads_back demo_idx art"
  by (auto simp: reads_back_def index_reads_back_def seal_artifacts_eq build_bitmap_artifact_def index_artifact_new_def)

lemma demo_read_manifest: "read_manifest (eng_prims.truncate demo_idx) seal_disk = Inr seal_manifest"
  by (simp add: read_manifest_def read_manifest_inner_def seal_disk_def compute_manifest_checksum_def Let_def
      seal_manifest_def)

lemma demo_from_records:
  "from_records (seg_prims.truncate demo_idx) ''compact-1-2'' 2 seal_records_demo = Inr seal_object"
  by (simp add: from_records_def compute_segment_object_checksum_def Let_def seal_object_def seal_object0_def
      unsealed_object_def segment_object_format_version_def seal_records_demo_def segment_record_of_def seal_record_def
      sorted_unique_def segment_text_def segment_vectors_def seal_schema_def module_block_new_def)

lemma demo_encode:
  assumes "h = artifact_header_new demo_idx kind codec sid g mg a b src pay" "h \<in> set seal_headers"
    "h\<lparr>ah_object_checksum := seal_digest\<rparr> \<in> set seal_headers"
  shows "\<exists>bs. encode_artifact_envelope (art_prims.truncate demo_idx) h pay = Inr bs"
  using assms(2,3) unfolding encode_artifact_envelope_def serialize_artifact_header_def
  by (auto simp: assms(1) artifact_header_new_def table_ser_def)

lemma demo_segment_content: "\<exists>body. segment_file_content (seg_prims.truncate demo_idx) nonce seal_object None = Inr body"
proof -
  have "verify_segment_object (seg_prims.truncate demo_idx) seal_object = Inr ()"
    by (simp add: verify_segment_object_def seal_object_def seal_object0_def compute_segment_object_checksum_def
        segment_object_format_version_def) code_simp
  moreover have "\<exists>bs. encode_artifact_envelope (art_prims.truncate demo_idx)
      (artifact_header_new demo_idx ''segment'' ''bincode'' ''compact-1-2'' 2 2 2 2 seal_digest []) [] = Inr bs"
    by (rule demo_encode [OF refl]) (simp_all add: seal_headers_def Let_def artifact_header_new_def)
  ultimately show ?thesis
    by (auto simp: segment_file_content_def Let_def seal_object_def seal_object0_def artifact_header_new_def)
qed

lemma demo_index_content:
  assumes "art \<in> set seal_artifacts"
  shows "\<exists>content. index_file_content demo_idx nonce art None = Inr (seal_digest, content)"
proof -
  have "\<exists>bs. encode_artifact_envelope (art_prims.truncate demo_idx)
      (artifact_header_new demo_idx (''index-'' @ ia_kind art) ''bincode'' ''compact-1-2'' 2 1 2 2 seal_digest
         (if ia_kind art = ''primary'' then [] else ''a'')) (if ia_kind art = ''primary'' then [] else ''a'') = Inr bs"
    using assms
    by (intro demo_encode [OF refl])
      (auto simp: seal_artifacts_eq seal_headers_def Let_def artifact_header_new_def build_bitmap_artifact_def index_artifact_new_def)
  moreover have "ia_segment_id art = ''compact-1-2'' \<and> ia_segment_generation art = 2 \<and> ia_manifest_generation art = 1 \<and>
      ia_source_segment_checksum art = seal_digest"
    using assms by (auto simp: seal_artifacts_eq build_bitmap_artifact_def index_artifact_new_def)
  ultimately show ?thesis
    by (auto simp: index_file_content_def serialize_index_artifact_payload_def Let_def)
qed

lemma demo_write_indexes:
  assumes "set arts \<subseteq> set seal_artifacts"
  shows "\<exists>ims files'. write_index_files demo_idx nonces seal_db ob g n arts files = (Inr ims, files')"
  using assms
proof (induction arts arbitrary: n files)
  case (Cons art arts)
  obtain content where c: "index_file_content demo_idx (nonces n) art None = Inr (seal_digest, content)"
    using demo_index_content [of art "nonces n"] Cons.prems by auto
  obtain ims files' where "write_index_files demo_idx nonces seal_db ob g (Suc n) arts
      (bm_insert (index_path (ia_index_id art)) content files) = (Inr ims, files')"
    using Cons by fastforce
  then show ?case
    by (simp add: ebind_def write_index_artifact_def eupdates_def seal_db_def c ereads_def payload_checksum_def
        serialize_index_artifact_payload_def ereturn_def)
qed (simp add: ereturn_def)


lemma demo_install: "\<exists>db' d' files'. install_sealed_manifest demo_idx seal_manifest kept ob ims (seal_db, seal_disk, files) = (Inr (), (db', d', files'))"
  by (simp add: install_sealed_manifest_def on_engine_def eupdates_def write_manifest_def copy_manifest_backup_def Let_def
      compute_manifest_checksum_def seal_disk_def read_manifest_inner_def seal_manifest_def)

lemma seal_names:
  "compact_segment_id seal_manifest = ''compact-1-2''" "mf_manifest_generation seal_manifest = 1"
  "segment_records_for_snapshot seal_db = seal_records_demo" "td_encryption seal_db = None" "td_manifest seal_db = seal_manifest"
proof -
  have "show_nat (Suc 0) = ''1''" "show_nat 2 = ''2''" by code_simp+
  then show "compact_segment_id seal_manifest = ''compact-1-2''"
    by (simp add: compact_segment_id_def seal_manifest_def manifest_empty_def)
  show "segment_records_for_snapshot seal_db = seal_records_demo"
    by (simp add: segment_records_for_snapshot_def seal_db_def seal_manifest_def snapshot_def bm_values_def
        snapshot_all_visible_records_def seal_records_demo_def filter_map_def rfind_def seal_record_def in_epoch_def seal_schema_def)
qed (simp_all add: seal_manifest_def manifest_empty_def seal_db_def)

lemma demo_compact_runs:
  "\<exists>db' d' files'. db_compact demo_idx (\<lambda>_. []) (seal_db, seal_disk, []) = (Inr (), (db', d', files'))"
proof -
  obtain body where body: "segment_file_content (seg_prims.truncate demo_idx) [] seal_object None = Inr body"
    using demo_segment_content by blast
  let ?files = "bm_insert (segment_path ''compact-1-2'') body []"
  have codecs: "seg_codecs_ok (seg_prims.truncate demo_idx)" using demo_idx_codecs by (simp add: idx_codecs_ok_def)
  have "read_segment_object_with_encryption (seg_prims.truncate demo_idx) ?files (segment_path ''compact-1-2'') None = Inr seal_object"
    by (rule segment_content_read [OF codecs demo_idx_reads_back(1) _ body]) simp
  then have pub: "publish_segment_records_with_encryption (seg_prims.truncate demo_idx) [] (segment_path ''compact-1-2'')
      ''compact-1-2'' 2 seal_records_demo None [] = (Inr seal_object, ?files)"
    by (simp add: publish_segment_records_with_encryption_def ebind_def ereads_def eupdates_def demo_from_records
        write_segment_object_with_encryption_def body bm_contains_def)
  have arts: "build_segment_index_artifacts (sb_segment_id seal_object) (sb_generation seal_object) 1 (sb_object_checksum seal_object)
      (map index_record_from_segment (sb_records seal_object)) = seal_artifacts"
    by (simp add: seal_artifacts_def seal_object_def seal_object0_def)
  obtain ims files2 where "build_segment_indexes demo_idx (\<lambda>_. []) seal_db seal_object 1 ?files = (Inr ims, files2)"
    unfolding build_segment_indexes_def arts using demo_write_indexes by blast
  moreover obtain db' d' files' where "install_sealed_manifest demo_idx seal_manifest (retain_unpublished seal_manifest)
      seal_object ims (seal_db, seal_disk, files2) = (Inr (), (db', d', files'))"
    using demo_install by blast
  moreover have "list_ex (\<lambda>seg. sm_segment_id seg = ''compact-1-2'') (mf_segments seal_manifest) = False"
    by (simp add: seal_manifest_def published_segment_def)
  ultimately have "db_compact demo_idx (\<lambda>_. []) (seal_db, seal_disk, []) = (Inr (), (db', d', files'))"
    using pub
    by (simp add: db_compact_def Let_def seal_names publish_compacted_segment_def ebind_def on_engine_def ereads_def
        demo_read_manifest check_parent_generation_def seal_records_def on_files_def)
  then show ?thesis by blast
qed

section \<open>Witnesses\<close>


definition litter :: artifact_files where
  "litter = [(''segments/crashed.tseg'', ''x''), (''segments/s.tseg.tmp'', ''x'')]"


end
