(* ===== verification/Hybrid_Demo.thy ===== *)
theory Hybrid_Demo
  imports Hybrid_Props Sealing_Demo
begin

text \<open>A query on a concrete database, and the witness of the result about query answers.\<close>

definition demo_qry :: qry_prims where
  "demo_qry = idx_prims.extend demo_idx
     (qry_prims.fields (\<lambda>x. x) (\<lambda>_. None) (\<lambda>v. if v = JString ''private'' then Some (with_visibility Hidden (policy_tenant ''t'')) else None))"

lemma demo_qry_simps [simp]:
  "idx_prims.truncate demo_qry = demo_idx" "cur_prims.truncate demo_qry = cur_prims.truncate demo_idx"
  "policy_from_value demo_qry v = (if v = JString ''private'' then Some (with_visibility Hidden (policy_tenant ''t'')) else None)"
  by (simp_all add: demo_qry_def idx_prims.defs qry_prims.defs cur_prims.defs)

definition asker :: actor_context where
  "asker = tenant_user ''t'' ''u''"

definition ask :: hybrid_query where
  "ask =
     \<lparr>hq_table = ''docs'', hq_tenant_id = ''t'', hq_cursor = None, hq_text_field = None, hq_text = None,
      hq_vector_field = None, hq_vector = None, hq_scalar_eq = [(''kind'', JString ''note'')], hq_graph_seed = None,
      hq_temporal_as_of = None, hq_top_k = 5, hq_freshness = Strict, hq_explain = False\<rparr>"

definition ask_env :: cursor_env where
  "ask_env = \<lparr>ce_signing_key_b64 = None, ce_ttl_secs = None, ce_now = 0\<rparr>"

lemma query_page_succeeds:
  assumes "cursor_signing_key (cur_prims.truncate P) env = Inr None"
  shows "\<exists>out. query_page P env db query cursor scope_opt schema n vis sealed aps = Inr out"
  using assms
  by (auto simp: query_page_def Let_def case_prod_beta next_query_cursor_def encode_next_cursor_def split: option.splits)

lemma access_paths_succeed:
  assumes "qi_vector_query inp = None"
  shows "\<exists>aps cache'. query_access_paths P files db inp cache = (Inr aps, cache')"
  using assms by (simp add: query_access_paths_def Let_def case_prod_beta vector_path_candidates_def)

lemma demo_sealed: "sealed_segment_records demo_idx [] seal_db table tenant = Inr []"
  by (simp add: sealed_segment_records_def sealed_segment_step_def seal_db_def seal_manifest_def bm_contains_def)

lemma ask_runs: "\<exists>out cache'. db_query_as demo_qry ask_env [] asker seal_db ask cache_default = (Inr out, cache')"
proof -
  have schema: "validated_schema seal_db ask = Inr seal_schema"
    by (simp add: validated_schema_def table_for_def manifest_table_def find_schema_def seal_db_def seal_manifest_def seal_schema_def
        ask_def validate_text_query_field_def validate_vector_query_dimensions_def validate_scalar_eq_predicates_def bm_keys_def)
  have key: "cursor_signing_key (cur_prims.truncate demo_qry) ask_env = Inr None"
    by (simp add: cursor_signing_key_def ask_env_def)
  have noev: "qi_vector_query (query_access_input_of demo_qry ask seal_schema vis sealed b) = None" for vis sealed b
    by (simp add: query_access_input_of_def ask_def)
  have sealed: "query_sealed_records demo_qry [] seal_db ask e asker = Inr []" for e
    by (simp add: query_sealed_records_def demo_sealed)
  have run: "\<exists>out c'. run_streams demo_qry ask_env [] seal_db ask cursor scope seal_schema n vis [] c = (Inr out, c')"
    for cursor scope n vis c
    using access_paths_succeed [OF noev, where P = demo_qry and files = "[]" and db = seal_db and cache = c]
      query_page_succeeds [OF key] unfolding run_streams_def ebind_Inr ereads_def by (metis prod.inject)
  have "0 < hq_top_k ask" by (simp add: ask_def)
  with schema sealed run show ?thesis
    by (simp add: db_query_as_def ebind_def ereads_def validate_actor_tenant_def asker_def tenant_user_def
        resolve_cursor_state_def query_with_timing_internal_def ask_def [THEN arg_cong, of hq_tenant_id]
        ask_def [THEN arg_cong, of hq_cursor] filter_segment_records_by_scalar_eq_def Let_def)
qed

lemma ask_record:
  "get_record (td_store seal_db) ''docs'' ''t'' ''a'' 1 = Some seal_record"
  "stored_record_visible demo_qry asker seal_record"
  "record_matches_scalar_eq (sr_fields seal_record) (hq_scalar_eq ask)"
  by (simp_all add: get_record_def seal_db_def visible_record_at_def rfind_def seal_record_def in_epoch_def bm_get_def
      stored_record_visible_def policy_from_fields_def policy_field_name_def visible_iff policy_tenant_def asker_def tenant_user_def
      record_matches_scalar_eq_def has_value_def ask_def)

lemma ask_store:
  "bm_wf (td_store seal_db)" "ids_ok (td_store seal_db)"
  "length (visible_records_at (td_store seal_db) ''docs'' ''t'' e) \<le> 1"
  "nul_free ''docs''" "nul_free ''t''"
  by (simp_all add: seal_db_def bm_wf_def ids_ok_def visible_records_at_def filter_map_def bm_range_prefix_def seal_record_def
      header_key_def record_ids_def) code_simp+

theorem hybrid_query_answers_witness:
  "\<exists>out cache'. db_query_as demo_qry ask_env [] asker seal_db ask cache_default = (Inr out, cache') \<and>
     ''a'' \<in> qr_record_id ` set (qo_results out) \<and> length (qo_results out) \<le> 5"
proof -
  obtain out cache' where run: "db_query_as demo_qry ask_env [] asker seal_db ask cache_default = (Inr out, cache')"
    using ask_runs by blast
  have fields: "hq_table ask = ''docs''" "hq_tenant_id ask = ''t''" "hq_cursor ask = None" "hq_top_k ask = 5"
    "rh_record_id (sr_header seal_record) = ''a''" "mf_latest_epoch (td_manifest seal_db) = 1"
    by (simp_all add: ask_def seal_record_def seal_db_def seal_manifest_def)
  have nul: "nul_free (hq_table ask)" "nul_free (hq_tenant_id ask)" using ask_store(4,5) by (simp_all add: fields)
  from hybrid_query_answers [OF ask_store(1,2) nul run] obtain cursor where
    c: "resolve_cursor_state (cur_prims.truncate demo_qry) ask_env (cursor_scope_for_query demo_qry asker ask (max (hq_top_k ask) 1))
       (hq_cursor ask) (mf_latest_epoch (td_manifest seal_db)) = Inr cursor"
    and len: "length (qo_results out) \<le> hq_top_k ask"
    and all: "ct_offset cursor = 0 \<longrightarrow> 0 < hq_top_k ask \<longrightarrow> hq_top_k ask < usize_max \<longrightarrow>
      sealed_segment_records (idx_prims.truncate demo_qry) [] seal_db (hq_table ask) (hq_tenant_id ask) = Inr [] \<longrightarrow>
      length (visible_records_at (td_store seal_db) (hq_table ask) (hq_tenant_id ask) (ct_snapshot_epoch cursor))
        + length ([] :: segment_record list) \<le> hq_top_k ask \<longrightarrow>
      get_record (td_store seal_db) (hq_table ask) (hq_tenant_id ask) (rh_record_id (sr_header seal_record)) (ct_snapshot_epoch cursor)
        = Some seal_record \<longrightarrow>
      stored_record_visible demo_qry asker seal_record \<longrightarrow>
      record_matches_scalar_eq (sr_fields seal_record) (hq_scalar_eq ask) \<longrightarrow>
      rh_record_id (sr_header seal_record) \<in> qr_record_id ` set (qo_results out) \<and> qo_next_cursor out = None"
    by blast
  from c have "cursor = \<lparr>ct_offset = 0, ct_snapshot_epoch = 1\<rparr>" by (simp add: resolve_cursor_state_def fields)
  with all ask_record ask_store(3) [of 1] have "''a'' \<in> qr_record_id ` set (qo_results out)"
    by (simp add: fields demo_sealed usize_max_def)
  with run len show ?thesis by (auto simp: fields)
qed

end
