(* ===== verification/Front_Ends.thy ===== *)
theory Front_Ends
  imports Hybrid_Query
begin

text \<open>
  The two TraceQL forms of \<open>crates/tracedb-query/src/lib.rs\<close>: the line-oriented one
  (\<open>traceql_query_from_str\<close>) and the bounded \<open>SELECT\<close> form (\<open>traceql_sqlish_select_from_str\<close>).

  Texts are UTF-8 byte strings. All characters the parsers look for are ASCII, so a loop over the
  characters and one over the bytes see the same; white space is recognised by its encodings. The
  JSON parser of \<open>serde_json\<close>, with the text of its errors, and the debug form of a string in messages
  are parameters.
\<close>

section \<open>Text\<close>

record front_prims =
  json_parse :: "string \<Rightarrow> string + json"
  f32_vec_parse :: "string \<Rightarrow> string + f32 list"
  str_debug :: "string \<Rightarrow> string"

text \<open>The length of the white-space character at the start of a text.\<close>

definition ws_len :: "string \<Rightarrow> nat option" where
  "ws_len s = map_option length (find (\<lambda>w. w \<noteq> [] \<and> starts_with s w) whitespace_encodings)"

text \<open>\<open>str::find(char::is_whitespace)\<close>.\<close>

fun find_ws :: "string \<Rightarrow> nat option" where
  "find_ws [] = None"
| "find_ws (c # cs) = (if ws_len (c # cs) \<noteq> None then Some 0 else map_option Suc (find_ws cs))"

definition to_ascii_upper :: "char \<Rightarrow> char" where
  "to_ascii_upper c = (if 97 \<le> byte_val c \<and> byte_val c \<le> 122 then char_of (byte_val c - 32) else c)"

definition eq_ignore_ascii_case :: "string \<Rightarrow> string \<Rightarrow> bool" where
  "eq_ignore_ascii_case a b \<longleftrightarrow> map to_ascii_lower a = map to_ascii_lower b"

definition ends_with :: "string \<Rightarrow> string \<Rightarrow> bool" where
  "ends_with s p = starts_with (rev s) (rev p)"

definition split_once :: "char \<Rightarrow> string \<Rightarrow> (string \<times> string) option" where
  "split_once c s =
     (if c \<in> set s then Some (takeWhile (\<lambda>x. x \<noteq> c) s, tl (dropWhile (\<lambda>x. x \<noteq> c) s)) else None)"

text \<open>\<open>str::replace\<close> of a non-empty pattern.\<close>

function str_replace :: "string \<Rightarrow> string \<Rightarrow> string \<Rightarrow> string" where
  "str_replace pat rep s =
     (case s of
        [] \<Rightarrow> []
      | c # cs \<Rightarrow>
          if pat \<noteq> [] \<and> starts_with s pat then rep @ str_replace pat rep (drop (length pat) s)
          else c # str_replace pat rep cs)"
  by pat_completeness auto
termination
  by (relation "measure (\<lambda>(pat, rep, s). length s)") (auto simp del: drop_Suc_Cons intro!: diff_less)

declare str_replace.simps [simp del]

text \<open>\<open>str::parse::<usize>\<close> with the text of its errors; the first bad digit or overflow decides.\<close>

fun parse_digits :: "nat \<Rightarrow> string \<Rightarrow> string + nat" where
  "parse_digits n [] = Inr n"
| "parse_digits n (c # cs) =
     (if \<not> is_ascii_digit c then Inl ''invalid digit found in string''
      else
        let m = 10 * n + (byte_val c - 48)
        in if int m < 18446744073709551616 then parse_digits m cs else Inl ''number too large to fit in target type'')"

definition parse_usize :: "string \<Rightarrow> string + nat" where
  "parse_usize s =
     (if s = [] then Inl ''cannot parse integer from empty string''
      else if s = ''+'' \<or> s = ''-'' then Inl ''invalid digit found in string''
      else parse_digits 0 (if starts_with s ''+'' then tl s else s))"

section \<open>Errors and values\<close>

definition invalid_traceql :: "nat \<Rightarrow> string \<Rightarrow> error" where
  "invalid_traceql line_number message =
     (if line_number = 0 then InvalidCommand (''invalid TraceQL: '' @ message)
      else InvalidCommand (''invalid TraceQL at line '' @ show_nat line_number @ '': '' @ message))"

definition invalid_sqlish :: "string \<Rightarrow> error" where
  "invalid_sqlish message = InvalidCommand (''invalid SQL-ish: '' @ message)"

definition parse_traceql_value :: "front_prims \<Rightarrow> string \<Rightarrow> nat \<Rightarrow> json result" where
  "parse_traceql_value P raw line_number =
     (let val = trim raw in
      if val = [] then Inl (invalid_traceql line_number ''value cannot be empty'')
      else case json_parse P val of
             Inr parsed \<Rightarrow> Inr parsed
           | Inl err \<Rightarrow>
               if starts_with val ''\"'' \<or> ends_with val ''\"''
               then Inl (invalid_traceql line_number (''quoted value must be valid JSON: '' @ err))
               else Inr (JString val))"

definition parse_traceql_string_value :: "front_prims \<Rightarrow> string \<Rightarrow> nat \<Rightarrow> string result" where
  "parse_traceql_string_value P raw line_number =
     rbind (parse_traceql_value P raw line_number) (\<lambda>v.
     case v of
       JString s \<Rightarrow> Inr s
     | _ \<Rightarrow> Inl (invalid_traceql line_number ''MATCH value must be a string literal or bare string''))"

section \<open>Statements\<close>

record traceql_statement =
  tl_line_number :: nat
  tl_text :: string

definition push_traceql_statement :: "traceql_statement list \<Rightarrow> string \<Rightarrow> nat \<Rightarrow> traceql_statement list" where
  "push_traceql_statement statements raw line_number =
     (let text = trim raw
      in if text = [] \<or> starts_with text ''#'' then statements
         else statements @ [\<lparr>tl_line_number = line_number, tl_text = text\<rparr>])"

text \<open>The variables of the loop; \<open>ls_current\<close> is the text from \<open>start\<close> to the current index.\<close>

record split_state =
  ls_statements :: "traceql_statement list"
  ls_current :: string
  ls_line_number :: nat
  ls_statement_line :: nat
  ls_paren_depth :: nat
  ls_brace_depth :: nat
  ls_bracket_depth :: nat
  ls_in_string :: bool
  ls_escaped :: bool

definition split_start :: split_state where
  "split_start = \<lparr>ls_statements = [], ls_current = [], ls_line_number = 1, ls_statement_line = 1, ls_paren_depth = 0,
     ls_brace_depth = 0, ls_bracket_depth = 0, ls_in_string = False, ls_escaped = False\<rparr>"

definition at_top_level :: "split_state \<Rightarrow> bool" where
  "at_top_level s \<longleftrightarrow> ls_paren_depth s = 0 \<and> ls_brace_depth s = 0 \<and> ls_bracket_depth s = 0"

definition in_string_step :: "split_state \<Rightarrow> char \<Rightarrow> split_state" where
  "in_string_step s ch =
     (let s1 = s\<lparr>ls_current := ls_current s @ [ch],
                 ls_line_number := (if ch = CHR 0x0A then ls_line_number s + 1 else ls_line_number s)\<rparr>
      in if ls_escaped s then s1\<lparr>ls_escaped := False\<rparr>
         else if ch = CHR 0x5C then s1\<lparr>ls_escaped := True\<rparr>
         else if ch = CHR 0x22 then s1\<lparr>ls_in_string := False\<rparr>
         else s1)"

definition split_step :: "split_state \<Rightarrow> char \<Rightarrow> split_state result" where
  "split_step s ch =
     (if ls_in_string s then Inr (in_string_step s ch)
      else
        let s1 = s\<lparr>ls_current := ls_current s @ [ch]\<rparr>;
            line = ls_line_number s
        in if ch = CHR 0x22 then Inr (s1\<lparr>ls_in_string := True\<rparr>)
           else if ch = CHR ''('' then Inr (s1\<lparr>ls_paren_depth := ls_paren_depth s + 1\<rparr>)
           else if ch = CHR '')'' then
             rbind (ensure (0 < ls_paren_depth s) (invalid_traceql line ''unexpected closing parenthesis'')) (\<lambda>_.
             Inr (s1\<lparr>ls_paren_depth := ls_paren_depth s - 1\<rparr>))
           else if ch = CHR ''{'' then Inr (s1\<lparr>ls_brace_depth := ls_brace_depth s + 1\<rparr>)
           else if ch = CHR ''}'' then
             rbind (ensure (0 < ls_brace_depth s) (invalid_traceql line ''unexpected closing brace'')) (\<lambda>_.
             Inr (s1\<lparr>ls_brace_depth := ls_brace_depth s - 1\<rparr>))
           else if ch = CHR ''['' then Inr (s1\<lparr>ls_bracket_depth := ls_bracket_depth s + 1\<rparr>)
           else if ch = CHR '']'' then
             rbind (ensure (0 < ls_bracket_depth s) (invalid_traceql line ''unexpected closing bracket'')) (\<lambda>_.
             Inr (s1\<lparr>ls_bracket_depth := ls_bracket_depth s - 1\<rparr>))
           else if ch = CHR 0x0A \<and> at_top_level s then
             Inr (s\<lparr>ls_statements := push_traceql_statement (ls_statements s) (ls_current s) (ls_statement_line s),
                    ls_current := [], ls_line_number := line + 1, ls_statement_line := line + 1\<rparr>)
           else if ch = CHR 0x0A then Inr (s1\<lparr>ls_line_number := line + 1\<rparr>)
           else Inr s1)"

definition split_traceql_statements :: "string \<Rightarrow> traceql_statement list result" where
  "split_traceql_statements input =
     rbind (rfold split_step split_start input) (\<lambda>s.
     rbind (ensure (\<not> ls_in_string s) (invalid_traceql (ls_statement_line s) ''unterminated string literal in statement'')) (\<lambda>_.
     rbind (ensure (ls_paren_depth s = 0) (invalid_traceql (ls_statement_line s) ''unterminated opening parenthesis in statement'')) (\<lambda>_.
     rbind (ensure (ls_brace_depth s = 0) (invalid_traceql (ls_statement_line s) ''unterminated opening brace in statement'')) (\<lambda>_.
     rbind (ensure (ls_bracket_depth s = 0) (invalid_traceql (ls_statement_line s) ''unterminated opening bracket in statement'')) (\<lambda>_.
     Inr (push_traceql_statement (ls_statements s) (ls_current s) (ls_statement_line s)))))))"

section \<open>Directives\<close>

definition split_traceql_directive :: "string \<Rightarrow> string \<times> string" where
  "split_traceql_directive line =
     (case find_ws line of Some i \<Rightarrow> (take i line, trim (drop i line)) | None \<Rightarrow> (line, []))"

definition parse_traceql_single_argument :: "string \<Rightarrow> string \<Rightarrow> nat \<Rightarrow> string result" where
  "parse_traceql_single_argument directive body line_number =
     (let val = trim body in
      rbind (ensure (val \<noteq> []) (invalid_traceql line_number (directive @ '' requires one argument''))) (\<lambda>_.
      rbind (ensure (length (split_whitespace val) = 1)
        (invalid_traceql line_number (directive @ '' accepts exactly one argument''))) (\<lambda>_.
      Inr val)))"

definition set_traceql_once :: "string option \<Rightarrow> string \<Rightarrow> string \<Rightarrow> nat \<Rightarrow> string option result" where
  "set_traceql_once target directive val line_number =
     rbind (ensure (target = None) (invalid_traceql line_number (directive @ '' cannot be specified more than once''))) (\<lambda>_.
     Inr (Some val))"

definition parse_traceql_where :: "string \<Rightarrow> nat \<Rightarrow> (string \<times> string) result" where
  "parse_traceql_where body line_number =
     rbind (ok_or (invalid_traceql line_number ''WHERE must use field = value'') (split_once (CHR ''='') body)) (\<lambda>(field, val).
     rbind (ensure (trim field \<noteq> [] \<and> length (split_whitespace (trim field)) = 1)
       (invalid_traceql line_number ''WHERE field must be one identifier'')) (\<lambda>_.
     rbind (ensure (trim val \<noteq> []) (invalid_traceql line_number ''WHERE value cannot be empty'')) (\<lambda>_.
     Inr (trim field, trim val))))"

definition parse_traceql_column_value :: "string \<Rightarrow> string \<Rightarrow> nat \<Rightarrow> (string \<times> string) result" where
  "parse_traceql_column_value directive body line_number =
     (let body1 = trim body; err = invalid_traceql line_number (directive @ '' requires a column and value'') in
      rbind (ok_or err (find_ws body1)) (\<lambda>i.
      let column = trim (take i body1); val = trim (drop i body1) in
      rbind (ensure (column \<noteq> [] \<and> val \<noteq> []) err) (\<lambda>_. Inr (column, val))))"

definition parse_freshness_name :: "string \<Rightarrow> freshness_mode option" where
  "parse_freshness_name name =
     (let upper = map to_ascii_upper name
      in if upper = ''STRICT'' then Some Strict
         else if upper = ''LAZY'' then Some Lazy
         else if upper \<in> {''ALLOW_DIRTY'', ''ALLOWDIRTY'', ''ALLOW-DIRTY''} then Some AllowDirty
         else None)"

text \<open>The variables of \<open>traceql_query_from_str\<close>.\<close>

record traceql_state =
  ql_table :: "string option"
  ql_tenant :: "string option"
  ql_match_field :: "string option"
  ql_match :: "string option"
  ql_near_field :: "string option"
  ql_near :: "f32 list option"
  ql_where :: fields
  ql_where_seen :: "string bset"
  ql_top_k :: nat
  ql_top_k_seen :: bool
  ql_freshness :: freshness_mode
  ql_freshness_seen :: bool
  ql_explain_flag :: bool
  ql_explain_seen :: bool

definition traceql_start :: traceql_state where
  "traceql_start =
     \<lparr>ql_table = None, ql_tenant = None, ql_match_field = None, ql_match = None, ql_near_field = None, ql_near = None,
      ql_where = [], ql_where_seen = [], ql_top_k = 10, ql_top_k_seen = False, ql_freshness = Strict,
      ql_freshness_seen = False, ql_explain_flag = False, ql_explain_seen = False\<rparr>"

definition where_directive :: "front_prims \<Rightarrow> traceql_state \<Rightarrow> string \<Rightarrow> nat \<Rightarrow> traceql_state result" where
  "where_directive P s body line =
     rbind (parse_traceql_where body line) (\<lambda>(field, val).
     rbind (ensure (field \<notin> set (ql_where_seen s))
       (invalid_traceql line (''WHERE field '' @ str_debug P field @ '' cannot be specified more than once''))) (\<lambda>_.
     rbind (parse_traceql_value P val line) (\<lambda>v.
     Inr (s\<lparr>ql_where_seen := bs_add field (ql_where_seen s), ql_where := bm_insert field v (ql_where s)\<rparr>))))"

definition match_directive :: "front_prims \<Rightarrow> traceql_state \<Rightarrow> string \<Rightarrow> nat \<Rightarrow> traceql_state result" where
  "match_directive P s body line =
     rbind (parse_traceql_column_value ''MATCH'' body line) (\<lambda>(column, val).
     rbind (set_traceql_once (ql_match_field s) ''MATCH field'' column line) (\<lambda>field.
     rbind (parse_traceql_string_value P val line) (\<lambda>text.
     Inr (s\<lparr>ql_match_field := field, ql_match := Some text\<rparr>))))"

definition near_directive :: "front_prims \<Rightarrow> traceql_state \<Rightarrow> string \<Rightarrow> nat \<Rightarrow> traceql_state result" where
  "near_directive P s body line =
     rbind (parse_traceql_column_value ''NEAR'' body line) (\<lambda>(column, val).
     rbind (set_traceql_once (ql_near_field s) ''NEAR field'' column line) (\<lambda>field.
     rbind (case f32_vec_parse P (trim val) of
              Inr vec \<Rightarrow> Inr vec
            | Inl err \<Rightarrow> Inl (invalid_traceql line (''NEAR vector must be a JSON number array: '' @ err))) (\<lambda>vec.
     rbind (ensure (vec \<noteq> []) (invalid_traceql line ''NEAR vector cannot be empty'')) (\<lambda>_.
     Inr (s\<lparr>ql_near_field := field, ql_near := Some vec\<rparr>)))))"

definition freshness_directive :: "traceql_state \<Rightarrow> string \<Rightarrow> nat \<Rightarrow> traceql_state result" where
  "freshness_directive s body line =
     rbind (ensure (\<not> ql_freshness_seen s) (invalid_traceql line ''FRESHNESS cannot be specified more than once'')) (\<lambda>_.
     rbind (parse_traceql_single_argument ''FRESHNESS'' body line) (\<lambda>val.
     rbind (ok_or (invalid_traceql line ''FRESHNESS must be STRICT, LAZY, or ALLOW_DIRTY'') (parse_freshness_name val)) (\<lambda>mode.
     Inr (s\<lparr>ql_freshness := mode, ql_freshness_seen := True\<rparr>))))"

definition limit_directive :: "traceql_state \<Rightarrow> string \<Rightarrow> nat \<Rightarrow> traceql_state result" where
  "limit_directive s body line =
     rbind (ensure (\<not> ql_top_k_seen s) (invalid_traceql line ''LIMIT cannot be specified more than once'')) (\<lambda>_.
     rbind (parse_traceql_single_argument ''LIMIT'' body line) (\<lambda>val.
     rbind (case parse_usize val of
              Inr n \<Rightarrow> Inr n
            | Inl err \<Rightarrow> Inl (invalid_traceql line (''LIMIT must be a positive integer: '' @ err))) (\<lambda>n.
     rbind (ensure (n \<noteq> 0) (invalid_traceql line ''LIMIT must be greater than zero'')) (\<lambda>_.
     Inr (s\<lparr>ql_top_k := n, ql_top_k_seen := True\<rparr>)))))"

definition explain_directive :: "traceql_state \<Rightarrow> string \<Rightarrow> nat \<Rightarrow> traceql_state result" where
  "explain_directive s body line =
     rbind (ensure (\<not> ql_explain_seen s) (invalid_traceql line ''EXPLAIN cannot be specified more than once'')) (\<lambda>_.
     rbind (ensure (trim body = []) (invalid_traceql line ''EXPLAIN does not accept arguments'')) (\<lambda>_.
     Inr (s\<lparr>ql_explain_flag := True, ql_explain_seen := True\<rparr>)))"

definition traceql_statement_step :: "front_prims \<Rightarrow> traceql_state \<Rightarrow> traceql_statement \<Rightarrow> traceql_state result" where
  "traceql_statement_step P s statement =
     (let line = tl_line_number statement;
          (directive, body) = split_traceql_directive (tl_text statement);
          name = map to_ascii_upper directive
      in
      if name = ''FROM'' then
        rbind (parse_traceql_single_argument ''FROM'' body line) (\<lambda>val.
        rbind (set_traceql_once (ql_table s) ''FROM'' val line) (\<lambda>table. Inr (s\<lparr>ql_table := table\<rparr>)))
      else if name = ''TENANT'' then
        rbind (parse_traceql_single_argument ''TENANT'' body line) (\<lambda>val.
        rbind (set_traceql_once (ql_tenant s) ''TENANT'' val line) (\<lambda>tenant. Inr (s\<lparr>ql_tenant := tenant\<rparr>)))
      else if name = ''WHERE'' then where_directive P s body line
      else if name = ''MATCH'' then match_directive P s body line
      else if name = ''NEAR'' then near_directive P s body line
      else if name = ''FRESHNESS'' then freshness_directive s body line
      else if name = ''LIMIT'' then limit_directive s body line
      else if name = ''EXPLAIN'' then explain_directive s body line
      else Inl (invalid_traceql line (''unknown directive '' @ str_debug P directive)))"

definition traceql_finish :: "traceql_state \<Rightarrow> hybrid_query result" where
  "traceql_finish s =
     rbind (ok_or (invalid_traceql 0 ''FROM is required'') (ql_table s)) (\<lambda>table.
     rbind (ok_or (invalid_traceql 0 ''TENANT is required'') (ql_tenant s)) (\<lambda>tenant_id.
     Inr \<lparr>hq_table = table, hq_tenant_id = tenant_id, hq_cursor = None, hq_text_field = ql_match_field s,
          hq_text = ql_match s, hq_vector_field = ql_near_field s, hq_vector = ql_near s, hq_scalar_eq = ql_where s,
          hq_graph_seed = None, hq_temporal_as_of = None, hq_top_k = ql_top_k s, hq_freshness = ql_freshness s,
          hq_explain = ql_explain_flag s\<rparr>))"

section \<open>The SELECT form\<close>

definition strip_sqlish_keyword_prefix :: "string \<Rightarrow> string \<Rightarrow> string option" where
  "strip_sqlish_keyword_prefix input keyword =
     (let inp = trim_start input; rest = drop (length keyword) inp
      in if length inp < length keyword \<or> \<not> eq_ignore_ascii_case (take (length keyword) inp) keyword then None
         else if rest = [] \<or> ws_len rest \<noteq> None then Some (trim_start rest)
         else None)"

definition starts_with_sqlish_select :: "string \<Rightarrow> bool" where
  "starts_with_sqlish_select input \<longleftrightarrow>
     strip_sqlish_keyword_prefix input ''SELECT'' \<noteq> None \<or>
     Option.bind (strip_sqlish_keyword_prefix input ''EXPLAIN'') (\<lambda>rest. strip_sqlish_keyword_prefix rest ''SELECT'') \<noteq> None"

text \<open>
  The loop of \<open>normalize_sqlish_whitespace\<close>: the output so far, whether a space is pending, and the
  state of the quotes. A white-space character of several bytes is skipped as a whole.
\<close>

datatype quote_state = NoQuote | InDouble bool | InSingle

definition flush_space :: "string \<times> bool \<Rightarrow> string" where
  "flush_space = (\<lambda>(out, pending). if pending then out @ '' '' else out)"

definition quote_step :: "quote_state \<Rightarrow> char \<Rightarrow> quote_state" where
  "quote_step q ch =
     (case q of
        InDouble escaped \<Rightarrow>
          if escaped then InDouble False
          else if ch = CHR 0x5C then InDouble True
          else if ch = CHR 0x22 then NoQuote
          else InDouble False
      | InSingle \<Rightarrow> if ch = CHR 0x27 then NoQuote else InSingle
      | NoQuote \<Rightarrow> if ch = CHR 0x22 then InDouble False else if ch = CHR 0x27 then InSingle else NoQuote)"

function normalize_loop :: "quote_state \<Rightarrow> string \<times> bool \<Rightarrow> string \<Rightarrow> string" where
  "normalize_loop q acc s =
     (case s of
        [] \<Rightarrow> fst acc
      | c # cs \<Rightarrow>
          (case (if q = NoQuote then ws_len s else None) of
             Some n \<Rightarrow> normalize_loop NoQuote (fst acc, fst acc \<noteq> []) (drop n s)
           | None \<Rightarrow> normalize_loop (quote_step q c) (flush_space acc @ [c], False) cs))"
  by pat_completeness auto
termination
  by (relation "measure (\<lambda>(q, acc, s). length s)")
     (auto simp: ws_len_def find_Some_iff starts_with_def simp del: drop_Suc_Cons split: if_splits intro!: diff_less)

declare normalize_loop.simps [simp del]

definition normalize_sqlish_whitespace :: "string \<Rightarrow> string" where
  "normalize_sqlish_whitespace input = normalize_loop NoQuote ([], False) input"

definition take_sqlish_identifier :: "string \<Rightarrow> (string \<times> string) option" where
  "take_sqlish_identifier input =
     (let inp = trim_start input; stop = (case find_ws inp of Some i \<Rightarrow> i | None \<Rightarrow> length inp)
      in if stop = 0 then None else Some (take stop inp, drop stop inp))"

definition is_sqlish_identifier_char :: "char \<Rightarrow> bool" where
  "is_sqlish_identifier_char c \<longleftrightarrow> is_ascii_alphanumeric c \<or> c = CHR ''_'' \<or> c = CHR ''.''"

definition is_boundary :: "char option \<Rightarrow> bool" where
  "is_boundary c = (case c of None \<Rightarrow> True | Some ch \<Rightarrow> \<not> is_sqlish_identifier_char ch)"

definition head_of :: "string \<Rightarrow> char option" where
  "head_of s = (case s of [] \<Rightarrow> None | c # _ \<Rightarrow> Some c)"

text \<open>\<open>prev\<close> is the character before the rest of the input, \<open>i\<close> the index of the rest.\<close>

fun find_keyword :: "string \<Rightarrow> quote_state \<Rightarrow> char option \<Rightarrow> nat \<Rightarrow> string \<Rightarrow> nat option" where
  "find_keyword keyword q prev i [] = None"
| "find_keyword keyword q prev i (c # cs) =
     (if q \<noteq> NoQuote \<or> c = CHR 0x22 \<or> c = CHR 0x27 then find_keyword keyword (quote_step q c) (Some c) (Suc i) cs
      else if length keyword \<le> length (c # cs) \<and> eq_ignore_ascii_case (take (length keyword) (c # cs)) keyword \<and>
              is_boundary prev \<and> is_boundary (head_of (drop (length keyword) (c # cs)))
        then Some i
      else find_keyword keyword NoQuote (Some c) (Suc i) cs)"

definition find_sqlish_keyword :: "string \<Rightarrow> string \<Rightarrow> nat option" where
  "find_sqlish_keyword input keyword = find_keyword keyword NoQuote None 0 input"

lemma find_keyword_bound: "find_keyword keyword q prev i s = Some j \<Longrightarrow> j < i + length s"
  by (induction keyword q prev i s rule: find_keyword.induct) (fastforce split: if_splits)+

lemma find_sqlish_keyword_bound: "find_sqlish_keyword s keyword = Some j \<Longrightarrow> j < length s"
  using find_keyword_bound [of keyword NoQuote None 0 s j] by (simp add: find_sqlish_keyword_def)

function split_sqlish_and_conditions :: "string \<Rightarrow> string list" where
  "split_sqlish_and_conditions rest =
     (case find_sqlish_keyword rest ''AND'' of
        Some i \<Rightarrow> take i rest # split_sqlish_and_conditions (drop (i + 3) rest)
      | None \<Rightarrow> [rest])"
  by pat_completeness auto
termination
  by (relation "measure length") (auto dest!: find_sqlish_keyword_bound)

declare split_sqlish_and_conditions.simps [simp del]

definition reject_unsupported_sqlish_keywords :: "string \<Rightarrow> unit result" where
  "reject_unsupported_sqlish_keywords input =
     rfold (\<lambda>_ keyword. ensure (find_sqlish_keyword input keyword = None)
         (invalid_sqlish (keyword @ '' is not supported by the bounded SELECT adapter'')))
       () [''JOIN'', ''GROUP'', ''ORDER'', ''HAVING'', ''UNION'', ''OR'', ''INSERT'', ''UPDATE'', ''DELETE'', ''DROP'',
           ''CREATE'', ''ALTER'']"

definition parse_sqlish_value :: "front_prims \<Rightarrow> string \<Rightarrow> json result" where
  "parse_sqlish_value P raw =
     (let val = trim raw; quote = [CHR 0x27] in
      if starts_with val quote \<or> ends_with val quote then
        rbind (ensure (starts_with val quote \<and> ends_with val quote \<and> 2 \<le> length val)
          (invalid_sqlish ''single-quoted value is not closed'')) (\<lambda>_.
        Inr (JString (str_replace [CHR 0x27, CHR 0x27] quote (butlast (tl val)))))
      else
        map_err (\<lambda>err. case err of
            InvalidCommand message \<Rightarrow> InvalidCommand (str_replace ''invalid TraceQL at line 1'' ''invalid SQL-ish'' message)
          | other \<Rightarrow> other) (parse_traceql_value P val 1))"

definition parse_sqlish_limit :: "string option \<Rightarrow> nat result" where
  "parse_sqlish_limit limit_clause =
     (case limit_clause of
        None \<Rightarrow> Inr 10
      | Some clause \<Rightarrow>
          let val = trim clause in
          rbind (ensure (val \<noteq> []) (invalid_sqlish ''LIMIT requires a positive integer'')) (\<lambda>_.
          rbind (ensure (length (split_whitespace val) = 1) (invalid_sqlish ''LIMIT accepts exactly one positive integer'')) (\<lambda>_.
          rbind (case parse_usize val of
                   Inr n \<Rightarrow> Inr n
                 | Inl err \<Rightarrow> Inl (invalid_sqlish (''LIMIT must be a positive integer: '' @ err))) (\<lambda>n.
          rbind (ensure (n \<noteq> 0) (invalid_sqlish ''LIMIT must be greater than zero'')) (\<lambda>_. Inr n)))))"

text \<open>One condition of the \<open>WHERE\<close> clause.\<close>

definition sqlish_condition ::
    "front_prims \<Rightarrow> string option \<times> fields \<Rightarrow> string \<Rightarrow> (string option \<times> fields) result" where
  "sqlish_condition P = (\<lambda>(tenant_id, scalar_eq) raw_condition.
     let condition = trim raw_condition in
     rbind (ensure (condition \<noteq> []) (invalid_sqlish ''WHERE contains an empty condition'')) (\<lambda>_.
     rbind (ok_or (invalid_sqlish ''WHERE conditions must use field = value'') (split_once (CHR ''='') condition)) (\<lambda>(raw_field, raw_value).
     let field = trim raw_field in
     rbind (ensure (field \<noteq> [] \<and> length (split_whitespace field) = 1) (invalid_sqlish ''WHERE field must be one identifier'')) (\<lambda>_.
     rbind (parse_sqlish_value P (trim raw_value)) (\<lambda>v.
     if eq_ignore_ascii_case field ''tenant_id'' \<or> eq_ignore_ascii_case field ''tenant'' then
       (case v of
          JString s \<Rightarrow>
            if s = [] then Inl (invalid_sqlish ''tenant_id must be a string value'')
            else if tenant_id \<noteq> None then Inl (invalid_sqlish ''tenant_id cannot be specified more than once'')
            else Inr (Some s, scalar_eq)
        | _ \<Rightarrow> Inl (invalid_sqlish ''tenant_id must be a string value''))
     else if bm_contains scalar_eq field then
       Inl (invalid_sqlish (''WHERE field '' @ str_debug P field @ '' cannot be specified more than once''))
     else Inr (tenant_id, bm_insert field v scalar_eq))))))"

definition trim_end_semicolons :: "string \<Rightarrow> string" where
  "trim_end_semicolons s = rev (dropWhile (\<lambda>c. c = CHR '';'') (rev s))"

text \<open>Up to the \<open>WHERE\<close> clause: whether \<open>EXPLAIN\<close> was given, the table, and the rest.\<close>

definition sqlish_head :: "string \<Rightarrow> (bool \<times> string \<times> string) result" where
  "sqlish_head query =
     (let (explain, rest) =
        (case strip_sqlish_keyword_prefix query ''EXPLAIN'' of Some after \<Rightarrow> (True, after) | None \<Rightarrow> (False, query)) in
      rbind (ok_or (invalid_sqlish ''SELECT is required'') (strip_sqlish_keyword_prefix rest ''SELECT'')) (\<lambda>rest1.
      rbind (ensure (starts_with (trim_start rest1) ''*'') (invalid_sqlish ''only SELECT * is supported'')) (\<lambda>_.
      rbind (ok_or (invalid_sqlish ''FROM is required after SELECT *'')
        (strip_sqlish_keyword_prefix (trim_start (tl (trim_start rest1))) ''FROM'')) (\<lambda>rest2.
      rbind (ok_or (invalid_sqlish ''FROM requires a table'') (take_sqlish_identifier rest2)) (\<lambda>(table, after_table).
      rbind (ok_or (invalid_sqlish ''WHERE tenant_id = value is required'') (strip_sqlish_keyword_prefix after_table ''WHERE'')) (\<lambda>rest3.
      Inr (explain, table, rest3)))))))"

text \<open>From there on: the clauses, the limit, the conditions and the query.\<close>

definition sqlish_clauses :: "string \<Rightarrow> string \<times> string option" where
  "sqlish_clauses rest =
     (case find_sqlish_keyword rest ''LIMIT'' of
        Some i \<Rightarrow> (take i rest, Some (drop (i + 5) rest))
      | None \<Rightarrow> (rest, None))"

definition sqlish_query :: "front_prims \<Rightarrow> bool \<times> string \<times> string \<Rightarrow> hybrid_query result" where
  "sqlish_query P = (\<lambda>(explain, table, rest).
     rbind (parse_sqlish_limit (snd (sqlish_clauses rest))) (\<lambda>top_k.
     rbind (rfold (sqlish_condition P) (None, []) (split_sqlish_and_conditions (fst (sqlish_clauses rest)))) (\<lambda>(tenant, scalar_eq).
     rbind (ok_or (invalid_sqlish ''tenant_id is required'') tenant) (\<lambda>tenant_id.
     Inr \<lparr>hq_table = table, hq_tenant_id = tenant_id, hq_cursor = None, hq_text_field = None, hq_text = None,
          hq_vector_field = None, hq_vector = None, hq_scalar_eq = scalar_eq, hq_graph_seed = None,
          hq_temporal_as_of = None, hq_top_k = top_k, hq_freshness = Strict, hq_explain = explain\<rparr>))))"

definition traceql_sqlish_select_from_str :: "front_prims \<Rightarrow> string \<Rightarrow> hybrid_query result" where
  "traceql_sqlish_select_from_str P input =
     (let query = trim (trim_end_semicolons (trim (normalize_sqlish_whitespace input))) in
      rbind (reject_unsupported_sqlish_keywords query) (\<lambda>_.
      rbind (sqlish_head query) (sqlish_query P)))"

definition traceql_query_from_str :: "front_prims \<Rightarrow> string \<Rightarrow> hybrid_query result" where
  "traceql_query_from_str P input =
     (let inp = trim input in
      if starts_with_sqlish_select inp then traceql_sqlish_select_from_str P inp
      else
        rbind (split_traceql_statements inp) (\<lambda>statements.
        rbind (rfold (traceql_statement_step P) traceql_start statements) traceql_finish))"

end
