(* ===== verification/Graphql.thy ===== *)
theory Graphql
  imports Front_Ends Core_Props
begin

text \<open>
  The bounded GraphQL adapter of \<open>crates/tracedb-query/src/lib.rs\<close>: the compiler from a query text to a
  hybrid query (\<open>graphql_query_from_str\<close>) and the schema text for a list of tables
  (\<open>graphql_schema_sdl_from_tables\<close>). The conventions on texts and parameters are those of
  \<open>Front_Ends\<close>.
\<close>

section \<open>Scanning\<close>

definition invalid_graphql_adapter :: "string \<Rightarrow> error" where
  "invalid_graphql_adapter message = InvalidCommand (''invalid GraphQL adapter: '' @ message)"

definition is_newline :: "char \<Rightarrow> bool" where
  "is_newline c \<longleftrightarrow> c = CHR 0x0A \<or> c = CHR 0x0D"

text \<open>The scanner's mode; inside a string, whether the next character is escaped.\<close>

datatype scan_mode = Plain | InText bool | InComment

definition scan_step :: "scan_mode \<Rightarrow> char \<Rightarrow> scan_mode" where
  "scan_step mode ch =
     (case mode of
        InComment \<Rightarrow> if is_newline ch then Plain else InComment
      | InText escaped \<Rightarrow>
          if escaped then InText False
          else if ch = CHR 0x5C then InText True
          else if ch = CHR 0x22 then Plain
          else InText False
      | Plain \<Rightarrow> if ch = CHR 0x22 then InText False else if ch = CHR ''#'' then InComment else Plain)"

fun strip_comments :: "scan_mode \<Rightarrow> string \<Rightarrow> string" where
  "strip_comments mode [] = []"
| "strip_comments mode (c # cs) =
     (let keep = (case mode of InComment \<Rightarrow> is_newline c | InText _ \<Rightarrow> True | Plain \<Rightarrow> c \<noteq> CHR ''#'')
      in (if keep then [c] else []) @ strip_comments (scan_step mode c) cs)"

definition strip_graphql_comments :: "string \<Rightarrow> string" where
  "strip_graphql_comments input = strip_comments Plain input"

text \<open>
  \<open>matching_graphql_delimiter\<close> on the rest of the input from the opening index on: the offset of the
  closing delimiter.
\<close>

fun match_loop :: "char \<Rightarrow> char \<Rightarrow> scan_mode \<Rightarrow> nat \<Rightarrow> nat \<Rightarrow> string \<Rightarrow> nat option" where
  "match_loop opener closer mode depth i [] = None"
| "match_loop opener closer mode depth i (c # cs) =
     (if mode \<noteq> Plain \<or> c = CHR 0x22 \<or> c = CHR ''#'' then match_loop opener closer (scan_step mode c) depth (Suc i) cs
      else if c = opener then match_loop opener closer Plain (depth + 1) (Suc i) cs
      else if c = closer then
        (if depth = 0 then None else if depth = 1 then Some i else match_loop opener closer Plain (depth - 1) (Suc i) cs)
      else match_loop opener closer Plain depth (Suc i) cs)"

definition matching_graphql_delimiter :: "string \<Rightarrow> char \<Rightarrow> char \<Rightarrow> nat option" where
  "matching_graphql_delimiter rest opener closer =
     (if starts_with rest [opener] then match_loop opener closer Plain 0 0 rest else None)"

definition take_graphql_identifier :: "string \<Rightarrow> (string \<times> string) option" where
  "take_graphql_identifier input =
     (case trim_start input of
        [] \<Rightarrow> None
      | c # cs \<Rightarrow>
          if c = CHR ''_'' \<or> is_ascii_alphabetic c
          then Some (c # takeWhile (\<lambda>ch. ch = CHR ''_'' \<or> is_ascii_alphanumeric ch) cs,
                     dropWhile (\<lambda>ch. ch = CHR ''_'' \<or> is_ascii_alphanumeric ch) cs)
          else None)"

text \<open>Whether the whole text is one identifier, up to white space.\<close>

definition is_identifier :: "string \<Rightarrow> bool" where
  "is_identifier s = (case take_graphql_identifier s of Some (_, rest) \<Rightarrow> trim rest = [] | None \<Rightarrow> False)"

record depth_state =
  dp_paren :: nat
  dp_brace :: nat
  dp_bracket :: nat

definition depth_zero :: depth_state where
  "depth_zero = \<lparr>dp_paren = 0, dp_brace = 0, dp_bracket = 0\<rparr>"

record top_level_state =
  gs_parts :: "string list"
  gs_current :: string
  gs_depth :: depth_state
  gs_mode :: scan_mode

text \<open>Strings are recognised as in \<open>scan_step\<close>; a hash sign is an ordinary character here.\<close>

definition string_step :: "scan_mode \<Rightarrow> char \<Rightarrow> scan_mode" where
  "string_step mode ch = (if mode = Plain \<and> ch = CHR ''#'' then Plain else scan_step mode ch)"

definition split_top_step :: "char \<Rightarrow> top_level_state \<Rightarrow> char \<Rightarrow> top_level_state result" where
  "split_top_step separator s ch =
     (let s1 = s\<lparr>gs_current := gs_current s @ [ch], gs_mode := string_step (gs_mode s) ch\<rparr>; d = gs_depth s
      in if gs_mode s \<noteq> Plain \<or> ch = CHR 0x22 then Inr s1
         else if ch = CHR ''('' then Inr (s1\<lparr>gs_depth := d\<lparr>dp_paren := dp_paren d + 1\<rparr>\<rparr>)
         else if ch = CHR '')'' then
           rbind (ensure (0 < dp_paren d) (invalid_graphql_adapter ''unexpected closing parenthesis in argument value'')) (\<lambda>_.
           Inr (s1\<lparr>gs_depth := d\<lparr>dp_paren := dp_paren d - 1\<rparr>\<rparr>))
         else if ch = CHR ''{'' then Inr (s1\<lparr>gs_depth := d\<lparr>dp_brace := dp_brace d + 1\<rparr>\<rparr>)
         else if ch = CHR ''}'' then
           rbind (ensure (0 < dp_brace d) (invalid_graphql_adapter ''unexpected closing brace in argument value'')) (\<lambda>_.
           Inr (s1\<lparr>gs_depth := d\<lparr>dp_brace := dp_brace d - 1\<rparr>\<rparr>))
         else if ch = CHR ''['' then Inr (s1\<lparr>gs_depth := d\<lparr>dp_bracket := dp_bracket d + 1\<rparr>\<rparr>)
         else if ch = CHR '']'' then
           rbind (ensure (0 < dp_bracket d) (invalid_graphql_adapter ''unexpected closing bracket in argument value'')) (\<lambda>_.
           Inr (s1\<lparr>gs_depth := d\<lparr>dp_bracket := dp_bracket d - 1\<rparr>\<rparr>))
         else if ch = separator \<and> d = depth_zero then
           Inr (s\<lparr>gs_parts := gs_parts s @ [trim (gs_current s)], gs_current := []\<rparr>)
         else Inr s1)"

definition split_graphql_top_level :: "string \<Rightarrow> char \<Rightarrow> string list result" where
  "split_graphql_top_level input separator =
     rbind (rfold (split_top_step separator) \<lparr>gs_parts = [], gs_current = [], gs_depth = depth_zero, gs_mode = Plain\<rparr> input) (\<lambda>s.
     rbind (ensure (gs_mode s = Plain \<and> gs_depth s = depth_zero) (invalid_graphql_adapter ''unterminated argument value'')) (\<lambda>_.
     Inr (gs_parts s @ [trim (gs_current s)])))"

fun find_separator :: "char \<Rightarrow> scan_mode \<Rightarrow> depth_state \<Rightarrow> nat \<Rightarrow> string \<Rightarrow> nat option" where
  "find_separator separator mode d i [] = None"
| "find_separator separator mode d i (c # cs) =
     (if mode \<noteq> Plain \<or> c = CHR 0x22 then find_separator separator (string_step mode c) d (Suc i) cs
      else if c = CHR ''('' then find_separator separator Plain (d\<lparr>dp_paren := dp_paren d + 1\<rparr>) (Suc i) cs
      else if c = CHR '')'' then find_separator separator Plain (d\<lparr>dp_paren := dp_paren d - 1\<rparr>) (Suc i) cs
      else if c = CHR ''{'' then find_separator separator Plain (d\<lparr>dp_brace := dp_brace d + 1\<rparr>) (Suc i) cs
      else if c = CHR ''}'' then find_separator separator Plain (d\<lparr>dp_brace := dp_brace d - 1\<rparr>) (Suc i) cs
      else if c = CHR ''['' then find_separator separator Plain (d\<lparr>dp_bracket := dp_bracket d + 1\<rparr>) (Suc i) cs
      else if c = CHR '']'' then find_separator separator Plain (d\<lparr>dp_bracket := dp_bracket d - 1\<rparr>) (Suc i) cs
      else if c = separator \<and> d = depth_zero then Some i
      else find_separator separator Plain d (Suc i) cs)"

definition top_level_graphql_separator :: "string \<Rightarrow> char \<Rightarrow> nat option" where
  "top_level_graphql_separator input separator = find_separator separator Plain depth_zero 0 input"

definition split_graphql_name_value :: "front_prims \<Rightarrow> string \<Rightarrow> (string \<times> string) result" where
  "split_graphql_name_value P input =
     rbind (ok_or (invalid_graphql_adapter ''arguments must use name: value'') (top_level_graphql_separator input (CHR '':''))) (\<lambda>i.
     let name = trim (take i input); val = trim (drop (i + 1) input) in
     rbind (ensure (is_identifier name) (invalid_graphql_adapter ''argument name must be an identifier'')) (\<lambda>_.
     rbind (ensure (val \<noteq> []) (invalid_graphql_adapter (''argument '' @ str_debug P name @ '' value cannot be empty''))) (\<lambda>_.
     Inr (name, val))))"

section \<open>Values\<close>

definition parse_graphql_value :: "front_prims \<Rightarrow> string \<Rightarrow> json result" where
  "parse_graphql_value P input =
     (let inp = trim input in
      rbind (ensure (inp \<noteq> []) (invalid_graphql_adapter ''value cannot be empty'')) (\<lambda>_.
      rbind (ensure (\<not> starts_with inp ''{'') (invalid_graphql_adapter ''nested objects are only supported for where/filter'')) (\<lambda>_.
      case json_parse P inp of
        Inr v \<Rightarrow> Inr v
      | Inl err \<Rightarrow>
          if starts_with inp [CHR 0x22] \<or> ends_with inp [CHR 0x22]
          then Inl (invalid_graphql_adapter (''quoted value must be valid JSON: '' @ err))
          else Inr (JString inp))))"

definition graphql_field_step :: "front_prims \<Rightarrow> string \<Rightarrow> fields \<Rightarrow> string \<Rightarrow> fields result" where
  "graphql_field_step P name flds raw_entry =
     (let entry = trim raw_entry in
      if entry = [] then Inr flds
      else
        rbind (split_graphql_name_value P entry) (\<lambda>(field, val).
        rbind (parse_graphql_value P val) (\<lambda>v.
        rbind (ensure (\<not> bm_contains flds field)
          (invalid_graphql_adapter (name @ '' field '' @ str_debug P field @ '' cannot be specified more than once''))) (\<lambda>_.
        Inr (bm_insert field v flds)))))"

definition parse_graphql_scalar_object :: "front_prims \<Rightarrow> string \<Rightarrow> string \<Rightarrow> fields result" where
  "parse_graphql_scalar_object P input name =
     (let inp = trim input in
      rbind (ensure (starts_with inp ''{'') (invalid_graphql_adapter (name @ '' must be an object''))) (\<lambda>_.
      rbind (ok_or (invalid_graphql_adapter (name @ '' object is not closed''))
        (matching_graphql_delimiter inp (CHR ''{'') (CHR ''}''))) (\<lambda>stop.
      rbind (ensure (trim (drop (stop + 1) inp) = []) (invalid_graphql_adapter (''unexpected content after '' @ name @ '' object''))) (\<lambda>_.
      rbind (split_graphql_top_level (slice 1 stop inp) (CHR '','')) (\<lambda>entries.
      rfold (graphql_field_step P name) [] entries)))))"

definition parse_graphql_string :: "front_prims \<Rightarrow> string \<Rightarrow> string \<Rightarrow> string result" where
  "parse_graphql_string P input name =
     (let inp = trim input in
      rbind (ensure (starts_with inp [CHR 0x22]) (invalid_graphql_adapter (name @ '' must be a quoted non-empty string''))) (\<lambda>_.
      case json_parse P inp of
        Inl err \<Rightarrow> Inl (invalid_graphql_adapter (name @ '' must be a valid JSON string: '' @ err))
      | Inr (JString s) \<Rightarrow>
          if s \<noteq> [] then Inr s else Inl (invalid_graphql_adapter (name @ '' must be a quoted non-empty string''))
      | Inr _ \<Rightarrow> Inl (invalid_graphql_adapter (name @ '' must be a quoted non-empty string''))))"

definition parse_graphql_vector :: "front_prims \<Rightarrow> string \<Rightarrow> string \<Rightarrow> f32 list result" where
  "parse_graphql_vector P input name =
     rbind (parse_graphql_value P input) (\<lambda>v.
     rbind (ok_or (invalid_graphql_adapter (name @ '' must be a numeric vector array'')) (value_as_f32_vec number_as_f32 v)) (\<lambda>vec.
     rbind (ensure (vec \<noteq> []) (invalid_graphql_adapter (name @ '' vector cannot be empty''))) (\<lambda>_. Inr vec)))"

definition parse_graphql_limit :: "front_prims \<Rightarrow> string \<Rightarrow> nat result" where
  "parse_graphql_limit P input =
     rbind (parse_graphql_value P input) (\<lambda>v.
     rbind (ok_or (invalid_graphql_adapter ''limit must be a positive integer'') (as_u64 v)) (\<lambda>n.
     rbind (ensure (n \<noteq> 0) (invalid_graphql_adapter ''limit must be greater than zero'')) (\<lambda>_. Inr (unat n))))"

definition parse_graphql_bool :: "front_prims \<Rightarrow> string \<Rightarrow> string \<Rightarrow> bool result" where
  "parse_graphql_bool P input name =
     rbind (parse_graphql_value P input) (\<lambda>v.
     case v of JBool b \<Rightarrow> Inr b | _ \<Rightarrow> Inl (invalid_graphql_adapter (name @ '' must be a boolean'')))"

definition parse_graphql_freshness :: "front_prims \<Rightarrow> string \<Rightarrow> freshness_mode result" where
  "parse_graphql_freshness P input =
     rbind (parse_graphql_value P input) (\<lambda>v.
     ok_or (invalid_graphql_adapter ''freshness must be STRICT, LAZY, or ALLOW_DIRTY'')
       (Option.bind (as_str v) parse_freshness_name))"

section \<open>The query text\<close>

definition check_operation_prefix :: "string \<Rightarrow> unit result" where
  "check_operation_prefix pfx =
     (if pfx = [] then Inr ()
      else
        let tokens = split_whitespace pfx in
        rbind (ensure (tokens \<noteq> [] \<and> hd tokens = ''query'')
          (invalid_graphql_adapter ''only query operations are supported; mutations and subscriptions are not adapters'')) (\<lambda>_.
        rbind (ensure (CHR ''('' \<notin> set pfx)
          (invalid_graphql_adapter ''operation variables are not supported by the bounded adapter'')) (\<lambda>_.
        rbind (ensure (length tokens < 2 \<or> is_identifier (tokens ! 1))
          (invalid_graphql_adapter ''operation name must be a GraphQL identifier'')) (\<lambda>_.
        ensure (length tokens < 3)
          (invalid_graphql_adapter ''operation directives are not supported by the bounded adapter'')))))"

definition graphql_operation_body :: "string \<Rightarrow> string result" where
  "graphql_operation_body input =
     (let inp = trim input in
      rbind (ensure (inp \<noteq> []) (invalid_graphql_adapter ''query cannot be empty'')) (\<lambda>_.
      rbind (ensure (CHR ''{'' \<in> set inp) (invalid_graphql_adapter ''query selection set is required'')) (\<lambda>_.
      let pfx = takeWhile (\<lambda>c. c \<noteq> CHR ''{'') inp; rest = dropWhile (\<lambda>c. c \<noteq> CHR ''{'') inp in
      rbind (check_operation_prefix (trim pfx)) (\<lambda>_.
      rbind (ok_or (invalid_graphql_adapter ''query selection set is not closed'')
        (matching_graphql_delimiter rest (CHR ''{'') (CHR ''}''))) (\<lambda>stop.
      rbind (ensure (trim (drop (stop + 1) rest) = []) (invalid_graphql_adapter ''unexpected content after query selection set'')) (\<lambda>_.
      Inr (slice 1 stop rest)))))))"

fun contains_str :: "string \<Rightarrow> string \<Rightarrow> bool" where
  "contains_str [] p = (p = [])"
| "contains_str (c # cs) p = (starts_with (c # cs) p \<or> contains_str cs p)"

text \<open>The selection set after the arguments of the root field.\<close>

definition check_root_selection :: "string \<Rightarrow> unit result" where
  "check_root_selection rest0 =
     (let rest = trim_start rest0 in
      rbind (ensure (starts_with rest ''{'') (invalid_graphql_adapter ''root field selection set is required'')) (\<lambda>_.
      rbind (ok_or (invalid_graphql_adapter ''root field selection set is not closed'')
        (matching_graphql_delimiter rest (CHR ''{'') (CHR ''}''))) (\<lambda>stop.
      let selection_body = trim (slice 1 stop rest) in
      rbind (ensure (selection_body \<noteq> []) (invalid_graphql_adapter ''root field selection set cannot be empty'')) (\<lambda>_.
      rbind (ensure (\<not> contains_str selection_body ''...'') (invalid_graphql_adapter ''fragments are not supported'')) (\<lambda>_.
      ensure (trim (drop (stop + 1) rest) = []) (invalid_graphql_adapter ''exactly one root field is supported''))))))"

definition graphql_root_selection :: "string \<Rightarrow> (string \<times> string) result" where
  "graphql_root_selection body0 =
     (let body = trim body0 in
      rbind (ensure (body \<noteq> []) (invalid_graphql_adapter ''one root field is required'')) (\<lambda>_.
      rbind (ensure (\<not> starts_with body ''...'') (invalid_graphql_adapter ''fragments are not supported'')) (\<lambda>_.
      rbind (ok_or (invalid_graphql_adapter ''root field is required'') (take_graphql_identifier body)) (\<lambda>(table, rest0).
      let rest = trim_start rest0 in
      rbind (ensure (\<not> starts_with table ''__'') (invalid_graphql_adapter ''introspection fields are not supported'')) (\<lambda>_.
      rbind (ensure (\<not> starts_with rest '':'') (invalid_graphql_adapter ''root aliases are not supported'')) (\<lambda>_.
      rbind (ensure (starts_with rest ''('') (invalid_graphql_adapter ''root field arguments are required'')) (\<lambda>_.
      rbind (ok_or (invalid_graphql_adapter ''root field arguments are not closed'')
        (matching_graphql_delimiter rest (CHR ''('') (CHR '')''))) (\<lambda>stop.
      rbind (check_root_selection (drop (stop + 1) rest)) (\<lambda>_.
      Inr (table, slice 1 stop rest))))))))))"

section \<open>Arguments\<close>

definition graphql_canonical_name :: "string \<Rightarrow> string" where
  "graphql_canonical_name name =
     (if name \<in> {''tenant_id'', ''tenant''} then ''tenant_id''
      else if name \<in> {''where'', ''filter''} then ''where''
      else if name \<in> {''match'', ''text''} then ''match''
      else if name \<in> {''near'', ''vector''} then ''near''
      else name)"

text \<open>The query under construction, with the tenant as an option, and the argument names seen.\<close>

record graphql_state =
  gq_tenant :: "string option"
  gq_text_field :: "string option"
  gq_text :: "string option"
  gq_vector_field :: "string option"
  gq_vector :: "f32 list option"
  gq_where :: fields
  gq_top_k :: nat
  gq_freshness :: freshness_mode
  gq_explain :: bool
  gq_seen :: "string bset"

definition graphql_start :: graphql_state where
  "graphql_start =
     \<lparr>gq_tenant = None, gq_text_field = None, gq_text = None, gq_vector_field = None, gq_vector = None, gq_where = [],
      gq_top_k = 10, gq_freshness = Strict, gq_explain = False, gq_seen = []\<rparr>"

definition merge_where :: "front_prims \<Rightarrow> fields \<Rightarrow> string \<times> json \<Rightarrow> fields result" where
  "merge_where P flds = (\<lambda>(key, v).
     rbind (ensure (\<not> bm_contains flds key)
       (invalid_graphql_adapter (''where field '' @ str_debug P key @ '' cannot be specified more than once''))) (\<lambda>_.
     Inr (bm_insert key v flds)))"

definition graphql_apply :: "front_prims \<Rightarrow> graphql_state \<Rightarrow> string \<Rightarrow> string \<Rightarrow> graphql_state result" where
  "graphql_apply P s name val =
     (if name \<in> {''tenant_id'', ''tenant''} then
        rbind (parse_graphql_string P val ''tenant_id'') (\<lambda>v. Inr (s\<lparr>gq_tenant := Some v\<rparr>))
      else if name \<in> {''where'', ''filter''} then
        rbind (parse_graphql_scalar_object P val ''where'') (\<lambda>predicates.
        rbind (rfold (merge_where P) (gq_where s) predicates) (\<lambda>flds. Inr (s\<lparr>gq_where := flds\<rparr>)))
      else if name \<in> {''match'', ''text''} then
        rbind (parse_graphql_string P val name) (\<lambda>v. Inr (s\<lparr>gq_text := Some v\<rparr>))
      else if name \<in> {''match_field'', ''text_field''} then
        rbind (parse_graphql_string P val name) (\<lambda>v. Inr (s\<lparr>gq_text_field := Some v\<rparr>))
      else if name \<in> {''near'', ''vector''} then
        rbind (parse_graphql_vector P val name) (\<lambda>v. Inr (s\<lparr>gq_vector := Some v\<rparr>))
      else if name \<in> {''near_field'', ''vector_field''} then
        rbind (parse_graphql_string P val name) (\<lambda>v. Inr (s\<lparr>gq_vector_field := Some v\<rparr>))
      else if name = ''limit'' then
        rbind (parse_graphql_limit P val) (\<lambda>n. Inr (s\<lparr>gq_top_k := n\<rparr>))
      else if name = ''freshness'' then
        rbind (parse_graphql_freshness P val) (\<lambda>mode. Inr (s\<lparr>gq_freshness := mode\<rparr>))
      else if name = ''explain'' then
        rbind (parse_graphql_bool P val ''explain'') (\<lambda>b. Inr (s\<lparr>gq_explain := b\<rparr>))
      else Inl (invalid_graphql_adapter (''unknown root argument '' @ str_debug P name)))"

definition graphql_argument_step :: "front_prims \<Rightarrow> graphql_state \<Rightarrow> string \<Rightarrow> graphql_state result" where
  "graphql_argument_step P s raw_argument =
     (let argument = trim raw_argument in
      if argument = [] then Inr s
      else
        rbind (split_graphql_name_value P argument) (\<lambda>(name, val).
        rbind (ensure (graphql_canonical_name name \<notin> set (gq_seen s))
          (invalid_graphql_adapter (''argument '' @ str_debug P (graphql_canonical_name name) @
             '' cannot be specified more than once''))) (\<lambda>_.
        graphql_apply P (s\<lparr>gq_seen := bs_add (graphql_canonical_name name) (gq_seen s)\<rparr>) name val)))"

definition graphql_query_from_str :: "front_prims \<Rightarrow> string \<Rightarrow> hybrid_query result" where
  "graphql_query_from_str P input =
     rbind (graphql_operation_body (strip_graphql_comments input)) (\<lambda>body.
     rbind (graphql_root_selection body) (\<lambda>(table, arguments).
     rbind (split_graphql_top_level arguments (CHR '','')) (\<lambda>argument_pairs.
     rbind (rfold (graphql_argument_step P) graphql_start argument_pairs) (\<lambda>s.
     rbind (ok_or (invalid_graphql_adapter ''tenant_id is required'') (gq_tenant s)) (\<lambda>tenant_id.
     Inr \<lparr>hq_table = table, hq_tenant_id = tenant_id, hq_cursor = None, hq_text_field = gq_text_field s,
          hq_text = gq_text s, hq_vector_field = gq_vector_field s, hq_vector = gq_vector s, hq_scalar_eq = gq_where s,
          hq_graph_seed = None, hq_temporal_as_of = None, hq_top_k = gq_top_k s, hq_freshness = gq_freshness s,
          hq_explain = gq_explain s\<rparr>)))))"

section \<open>The schema text\<close>

definition validate_graphql_schema_identifier :: "front_prims \<Rightarrow> string \<Rightarrow> string \<Rightarrow> unit result" where
  "validate_graphql_schema_identifier P name ctx =
     (if is_identifier name \<and> \<not> starts_with name ''__'' then Inr ()
      else Inl (invalid_graphql_adapter (ctx @ '' '' @ str_debug P name @ '' cannot be exported as a GraphQL schema identifier'')))"

fun type_prefix_loop :: "bool \<Rightarrow> string \<Rightarrow> string" where
  "type_prefix_loop capitalize_next [] = []"
| "type_prefix_loop capitalize_next (c # cs) =
     (if c = CHR ''_'' then type_prefix_loop True cs
      else if capitalize_next then to_ascii_upper c # type_prefix_loop False cs
      else c # type_prefix_loop False cs)"

definition graphql_table_type_prefix :: "string \<Rightarrow> string" where
  "graphql_table_type_prefix table =
     (let out = type_prefix_loop True table in if out = [] then ''TraceDBTable'' else out)"

definition push_graphql_row_field ::
    "front_prims \<Rightarrow> string \<times> string bset \<Rightarrow> string \<times> string \<Rightarrow> (string \<times> string bset) result" where
  "push_graphql_row_field P = (\<lambda>(out, seen) (name, field_type).
     rbind (validate_graphql_schema_identifier P name ''column'') (\<lambda>_.
     let (fresh, seen') = bs_insert name seen
     in Inr (if fresh then out @ ''  '' @ name @ '': '' @ field_type @ [CHR 0x0A] else out, seen')))"

text \<open>Lines of the text; each \<open>push_str\<close> of the code ends with a newline.\<close>

definition text_lines :: "string list \<Rightarrow> string" where
  "text_lines ls = concat (map (\<lambda>l. l @ [CHR 0x0A]) ls)"

definition sdl_preamble :: string where
  "sdl_preamble = text_lines
     [''scalar TraceDBJSON'', [], ''enum TraceDBFreshness {'', ''  STRICT'', ''  LAZY'', ''  ALLOW_DIRTY'', ''}'', [],
      ''type TraceDBScore {'', ''  vector: Float'', ''  lexical: Float'', ''  relational: Float'',
      ''  freshness_penalty: Float'', ''  final_score: Float!'', ''}'', [], ''type Query {'']"

definition sdl_query_field :: "front_prims \<Rightarrow> string \<Rightarrow> table_schema \<Rightarrow> string result" where
  "sdl_query_field P out schema =
     rbind (validate_graphql_schema_identifier P (ts_name schema) ''table name'') (\<lambda>_.
     let type_prefix = graphql_table_type_prefix (ts_name schema) in
     Inr (out @ text_lines
       [''  '' @ ts_name schema @ ''('', ''    tenant_id: ID!'', ''    tenant: ID'', ''    where: '' @ type_prefix @ ''Where'',
        ''    filter: '' @ type_prefix @ ''Where'', ''    match: String'', ''    match_field: String'', ''    text: String'',
        ''    text_field: String'', ''    near: [Float!]'', ''    near_field: String'', ''    vector: [Float!]'',
        ''    vector_field: String'', ''    limit: Int'', ''    freshness: TraceDBFreshness'', ''    explain: Boolean'',
        ''  ): ['' @ type_prefix @ ''Row!]!'']))"

text \<open>The columns in the order in which they are pushed on the row type, with their types.\<close>

definition sdl_row_columns :: "table_schema \<Rightarrow> (string \<times> string) list" where
  "sdl_row_columns schema =
     [(ts_primary_id_column schema, ''ID''), (ts_tenant_id_column schema, ''ID'')] @
     map (\<lambda>c. (c, ''TraceDBJSON'')) (ts_scalar_columns schema) @
     map (\<lambda>c. (c, ''String'')) (ts_text_indexed_columns schema) @
     map (\<lambda>v. (vc_name v, ''[Float!]'')) (ts_vector_columns schema)"

definition sdl_where_fields :: "front_prims \<Rightarrow> string list \<Rightarrow> string bset result" where
  "sdl_where_fields P cols =
     rfold (\<lambda>where_fields field.
         rbind (validate_graphql_schema_identifier P field ''scalar column'') (\<lambda>_. Inr (bs_add field where_fields)))
       [] cols"

definition sdl_where_lines :: "string bset \<Rightarrow> string list" where
  "sdl_where_lines where_fields =
     (if where_fields = [] then [''  _empty: Boolean''] else map (\<lambda>field. ''  '' @ field @ '': TraceDBJSON'') where_fields)"

definition sdl_table_types :: "front_prims \<Rightarrow> string \<Rightarrow> table_schema \<Rightarrow> string result" where
  "sdl_table_types P out schema =
     (let type_prefix = graphql_table_type_prefix (ts_name schema) in
      rbind (sdl_where_fields P (ts_scalar_columns schema)) (\<lambda>where_fields.
      let out1 = out @ text_lines
        ([[], ''input '' @ type_prefix @ ''Where {''] @ sdl_where_lines where_fields @
         [''}'', [], ''type '' @ type_prefix @ ''Row {'', ''  record_id: ID!'', ''  tenant_id: ID!'', ''  version_id: Int!'',
          ''  fields: TraceDBJSON!'', ''  score: TraceDBScore!'']) in
      rbind (rfold (push_graphql_row_field P) (out1, []) (sdl_row_columns schema)) (\<lambda>(out2, _).
      Inr (out2 @ text_lines [''}'']))))"

definition graphql_schema_sdl_from_tables :: "front_prims \<Rightarrow> table_schema list \<Rightarrow> string result" where
  "graphql_schema_sdl_from_tables P schemas =
     (let out0 = sdl_preamble @ (if schemas = [] then text_lines [''  _empty: Boolean!''] else []) in
      rbind (rfold (sdl_query_field P) out0 schemas) (\<lambda>out1.
      rfold (sdl_table_types P) (out1 @ text_lines [''}'']) schemas))"

section \<open>Every accepted schema can be exported\<close>

text \<open>A schema that \<open>validate\<close> accepts has only names that the exporter accepts.\<close>

lemma name_identifier:
  assumes "is_graphql_safe_identifier name"
  shows "is_identifier name"
proof -
  have "list_all name_char name" "name \<noteq> []" using graphql_safe_name [OF assms] by auto
  then have "trim_start name = name" unfolding trim_start_def
    by (intro strip_all_id) (auto dest: whitespace_not_name)
  moreover obtain c cs where "name = c # cs" using \<open>name \<noteq> []\<close> by (cases name) auto
  moreover have "dropWhile (\<lambda>ch. ch = CHR ''_'' \<or> is_ascii_alphanumeric ch) cs = []"
    using assms \<open>name = c # cs\<close> by (simp add: is_graphql_safe_identifier_def list_all_iff)
  moreover have "trim [] = []" by (rule trim_name_id) simp
  ultimately show ?thesis using assms
    by (simp add: is_identifier_def take_graphql_identifier_def is_graphql_safe_identifier_def del: dropWhile_eq_Nil_conv)
qed

lemma export_identifier: "ident_ok name \<Longrightarrow> validate_graphql_schema_identifier P name ctx = Inr ()"
  by (simp add: validate_graphql_schema_identifier_def ident_ok_def name_identifier)

text \<open>The row type: the columns as one line each, in declaration order, when the names are distinct.\<close>

lemma push_row_fields:
  assumes "\<forall>c \<in> set cols. ident_ok (fst c)" and "distinct (map fst cols)" and "set (map fst cols) \<inter> set seen = {}"
  shows "\<exists>seen'. rfold (push_graphql_row_field P) (out, seen) cols =
    Inr (out @ text_lines (map (\<lambda>(name, ty). ''  '' @ name @ '': '' @ ty) cols), seen')"
  using assms
proof (induction cols arbitrary: out seen)
  case Nil
  then show ?case by (simp add: text_lines_def)
next
  case (Cons c cols)
  then show ?case
    using Cons.IH [of "bs_add (fst c) seen" "out @ ''  '' @ fst c @ '': '' @ snd c @ [CHR 0x0A]"]
    by (auto simp: push_graphql_row_field_def export_identifier bs_insert_def case_prod_beta text_lines_def)
qed

lemma where_fields_collect:
  "\<forall>c \<in> set cols. ident_ok c \<Longrightarrow> sdl_where_fields P cols = Inr (bs_collect cols)"
proof -
  have "\<forall>c \<in> set cols. ident_ok c \<Longrightarrow>
      rfold (\<lambda>ws f. rbind (validate_graphql_schema_identifier P f ''scalar column'') (\<lambda>_. Inr (bs_add f ws))) acc cols =
        Inr (fold bs_add cols acc)" for acc
    by (induction cols arbitrary: acc) (auto simp: export_identifier)
  then show "\<forall>c \<in> set cols. ident_ok c \<Longrightarrow> sdl_where_fields P cols = Inr (bs_collect cols)"
    by (simp add: sdl_where_fields_def bs_collect_def)
qed

lemma schema_row_columns:
  assumes "schema_ok s"
  shows "distinct (map fst (sdl_row_columns s))" and "\<forall>c \<in> set (sdl_row_columns s). ident_ok (fst c)"
proof -
  have "map fst (sdl_row_columns s) = ts_primary_id_column s # ts_tenant_id_column s #
      ts_scalar_columns s @ ts_text_indexed_columns s @ map vc_name (ts_vector_columns s)"
    by (simp add: sdl_row_columns_def comp_def)
  then show "distinct (map fst (sdl_row_columns s))" using assms by (simp add: schema_ok_def)
  show "\<forall>c \<in> set (sdl_row_columns s). ident_ok (fst c)" using assms
    by (auto simp: sdl_row_columns_def schema_ok_def vector_ok_def column_ok_def)
qed

text \<open>The text of the two types of one table.\<close>

definition sdl_types_text :: "table_schema \<Rightarrow> string" where
  "sdl_types_text s =
     (let type_prefix = graphql_table_type_prefix (ts_name s) in
      text_lines ([[], ''input '' @ type_prefix @ ''Where {''] @ sdl_where_lines (bs_collect (ts_scalar_columns s)) @
        [''}'', [], ''type '' @ type_prefix @ ''Row {'', ''  record_id: ID!'', ''  tenant_id: ID!'', ''  version_id: Int!'',
         ''  fields: TraceDBJSON!'', ''  score: TraceDBScore!''] @
        map (\<lambda>(name, ty). ''  '' @ name @ '': '' @ ty) (sdl_row_columns s) @ [''}'']))"

lemma text_lines_append [simp]: "text_lines (xs @ ys) = text_lines xs @ text_lines ys"
  by (simp add: text_lines_def)

lemma sdl_table_types_valid:
  assumes "schema_ok s"
  shows "sdl_table_types P out s = Inr (out @ sdl_types_text s)"
proof -
  have cols: "\<forall>c \<in> set (ts_scalar_columns s). ident_ok c" using assms by (auto simp: schema_ok_def column_ok_def)
  obtain seen where "rfold (push_graphql_row_field P) (out, []) (sdl_row_columns s) =
      Inr (out @ text_lines (map (\<lambda>(name, ty). ''  '' @ name @ '': '' @ ty) (sdl_row_columns s)), seen out)" for out
    using push_row_fields [OF schema_row_columns(2) [OF assms] schema_row_columns(1) [OF assms], of "[]" P]
    by (auto, metis)
  then show ?thesis
    by (simp add: sdl_table_types_def where_fields_collect [OF cols] sdl_types_text_def Let_def
        del: text_lines_append) (simp add: text_lines_def)
qed

lemma sdl_types_valid:
  "\<forall>s \<in> set schemas. schema_ok s \<Longrightarrow>
   rfold (sdl_table_types P) out schemas = Inr (out @ concat (map sdl_types_text schemas))"
  by (induction schemas arbitrary: out) (auto simp: sdl_table_types_valid)

lemma sdl_queries_valid:
  "\<forall>s \<in> set schemas. schema_ok s \<Longrightarrow> \<exists>out'. rfold (sdl_query_field P) out schemas = Inr out'"
  by (induction schemas arbitrary: out) (auto simp: sdl_query_field_def export_identifier schema_ok_def Let_def)

text \<open>
  Exporting never fails for schemas accepted by \<open>validate\<close>; the text ends with the two types of each
  table, in which every column of the table is one line.
\<close>

lemma sdl_export_total:
  assumes "\<forall>s \<in> set schemas. validate s = Inr ()"
  shows "\<exists>queries. graphql_schema_sdl_from_tables P schemas =
    Inr (queries @ text_lines [''}''] @ concat (map sdl_types_text schemas))"
proof -
  have ok: "\<forall>s \<in> set schemas. schema_ok s" using assms by (simp add: validate_iff)
  obtain queries where "rfold (sdl_query_field P) (sdl_preamble @ (if schemas = [] then text_lines [''  _empty: Boolean!''] else []))
      schemas = Inr queries"
    using sdl_queries_valid [OF ok] by blast
  then have "graphql_schema_sdl_from_tables P schemas = Inr (queries @ text_lines [''}''] @ concat (map sdl_types_text schemas))"
    by (simp only: graphql_schema_sdl_from_tables_def Let_def rbind_simps sdl_types_valid [OF ok] append_assoc)
  then show ?thesis ..
qed

text \<open>
  Two defects of the exported text. A table whose tenant column is called \<open>tenant_id\<close> (the default of
  the examples) gets that field twice in its row type; and two tables whose names differ only in the
  case after an underscore get types of the same name.
\<close>

lemma duplicate_tenant_field:
  assumes "ts_tenant_id_column s = ''tenant_id''"
  shows "\<exists>before_lines rest_lines. sdl_types_text s =
    text_lines (before_lines @ [''  tenant_id: ID!'', ''  version_id: Int!'', ''  fields: TraceDBJSON!'', ''  score: TraceDBScore!'',
      ''  '' @ ts_primary_id_column s @ '': ID'', ''  tenant_id: ID''] @ rest_lines)"
proof -
  let ?row = "\<lambda>(name, ty). ''  '' @ name @ '': '' @ ty" and ?ty = "graphql_table_type_prefix (ts_name s)"
  have "map ?row (sdl_row_columns s) =
      [''  '' @ ts_primary_id_column s @ '': ID'', ''  tenant_id: ID''] @ map ?row (drop 2 (sdl_row_columns s))"
    using assms by (simp add: sdl_row_columns_def)
  then have "sdl_types_text s = text_lines
     (([[], ''input '' @ ?ty @ ''Where {''] @ sdl_where_lines (bs_collect (ts_scalar_columns s)) @
       [''}'', [], ''type '' @ ?ty @ ''Row {'', ''  record_id: ID!'']) @
      [''  tenant_id: ID!'', ''  version_id: Int!'', ''  fields: TraceDBJSON!'', ''  score: TraceDBScore!'',
       ''  '' @ ts_primary_id_column s @ '': ID'', ''  tenant_id: ID''] @
      (map ?row (drop 2 (sdl_row_columns s)) @ [''}'']))"
    by (simp add: sdl_types_text_def Let_def text_lines_def)
  then show ?thesis by blast
qed

lemma type_prefix_collision: "graphql_table_type_prefix ''user_log'' = graphql_table_type_prefix ''UserLog''"
  by code_simp

end
