(* ===== verification/Traceql_Print.thy ===== *)
theory Traceql_Print
  imports Front_Props Reads_Props
begin

text \<open>
  The TraceQL form expresses every well-formed query over plain names: \<open>print_traceql\<close> writes a query
  as TraceQL directives, and compiling that text gives the query back. The texts of JSON values
  and of vectors are those of a printer that the JSON parser inverts and whose texts are
  self-delimiting, as JSON is.
\<close>

section \<open>Words\<close>

definition graph_char :: "char \<Rightarrow> bool" where
  "graph_char c \<longleftrightarrow> 33 \<le> byte_val c \<and> byte_val c \<le> 126"

text \<open>Characters of names: printable ASCII without quotes, brackets and the equals sign.\<close>

definition word_char :: "char \<Rightarrow> bool" where
  "word_char c \<longleftrightarrow> graph_char c \<and> c \<notin> {CHR 0x22, CHR ''('', CHR '')'', CHR ''{'', CHR ''}'', CHR ''['', CHR '']'', CHR ''=''}"

definition is_word :: "string \<Rightarrow> bool" where
  "is_word s \<longleftrightarrow> s \<noteq> [] \<and> list_all word_char s"

definition solid :: "string \<Rightarrow> bool" where
  "solid s \<longleftrightarrow> s \<noteq> [] \<and> graph_char (hd s) \<and> graph_char (last s)"

lemma word_solid: "is_word s \<Longrightarrow> solid s"
  by (auto simp: is_word_def solid_def word_char_def list_all_iff)

lemma solid_append: "solid a \<Longrightarrow> solid b \<Longrightarrow> solid (a @ b)"
  by (simp add: solid_def)

lemma solid_spaced: "solid a \<Longrightarrow> solid b \<Longrightarrow> solid (a @ '' '' @ b)"
  by (simp add: solid_def)

lemma graph_not_ws: "w \<in> set whitespace_encodings \<Longrightarrow> w \<noteq> [] \<and> \<not> graph_char (hd w) \<and> \<not> graph_char (last w)"
proof -
  have "list_all (\<lambda>w. w \<noteq> [] \<and> \<not> graph_char (hd w) \<and> \<not> graph_char (last w)) whitespace_encodings" by code_simp
  then show "w \<in> set whitespace_encodings \<Longrightarrow> w \<noteq> [] \<and> \<not> graph_char (hd w) \<and> \<not> graph_char (last w)"
    by (auto simp: list_all_iff)
qed

lemma starts_with_hd: "starts_with s w \<Longrightarrow> w \<noteq> [] \<Longrightarrow> hd s = hd w"
  by (cases w; cases s) (auto simp: starts_with_def)

lemma graph_no_ws: "graph_char c \<Longrightarrow> find (\<lambda>w. w \<noteq> [] \<and> starts_with (c # cs) w) whitespace_encodings = None"
  by (auto simp: find_None_iff dest!: graph_not_ws starts_with_hd)

lemma graph_no_ws_rev: "graph_char c \<Longrightarrow> find (\<lambda>w. w \<noteq> [] \<and> starts_with (c # cs) w) (map rev whitespace_encodings) = None"
  by (auto simp: find_None_iff hd_rev dest!: graph_not_ws starts_with_hd)

lemma space_ws: "find (\<lambda>w. w \<noteq> [] \<and> starts_with (CHR '' '' # cs) w) whitespace_encodings = Some '' ''"
  by (simp add: whitespace_encodings_def starts_with_def)

lemma space_ws_rev: "find (\<lambda>w. w \<noteq> [] \<and> starts_with (CHR '' '' # cs) w) (map rev whitespace_encodings) = Some '' ''"
  by (simp add: whitespace_encodings_def starts_with_def)

lemma trim_start_graph: "graph_char c \<Longrightarrow> trim_start (c # cs) = c # cs"
  by (simp add: trim_start_def strip_all.simps [of whitespace_encodings "c # cs"] graph_no_ws)

lemma trim_start_space: "trim_start (CHR '' '' # cs) = trim_start cs"
  by (simp add: trim_start_def strip_all.simps [of whitespace_encodings "CHR '' '' # cs"] space_ws)

lemma trim_end_graph: "s \<noteq> [] \<Longrightarrow> graph_char (last s) \<Longrightarrow> trim_end s = s"
  by (cases s rule: rev_cases)
     (simp_all add: trim_end_def strip_all.simps [of "map rev whitespace_encodings"] graph_no_ws_rev)

lemma trim_end_space: "trim_end (s @ '' '') = trim_end s"
  by (simp add: trim_end_def strip_all.simps [of "map rev whitespace_encodings" "CHR '' '' # rev s"] space_ws_rev)

lemma trim_solid: "solid s \<Longrightarrow> trim s = s"
  by (cases s) (auto simp: solid_def trim_def trim_start_graph trim_end_graph)

lemma trim_solid_space: "solid s \<Longrightarrow> trim (CHR '' '' # s) = s" "solid s \<Longrightarrow> trim (s @ '' '') = s"
proof -
  assume s: "solid s"
  then obtain c cs where cs: "s = c # cs" "graph_char c" by (cases s) (auto simp: solid_def)
  show "trim (CHR '' '' # s) = s" using trim_solid [OF s] by (simp add: trim_def trim_start_space)
  have "trim_start (s @ '' '') = s @ '' ''" using cs by (simp add: trim_start_graph)
  then show "trim (s @ '' '') = s" using s by (simp add: trim_def trim_end_space trim_end_graph solid_def)
qed

lemma word_no_ws: "is_word w \<Longrightarrow> split_whitespace w = [w]"
proof -
  have "list_all word_char s \<Longrightarrow> split_ws acc s = (if acc = [] \<and> s = [] then [] else [rev acc @ s])" for acc s
  proof (induction s arbitrary: acc)
    case Nil
    then show ?case by (simp add: split_ws.simps)
  next
    case (Cons c s)
    then show ?case by (simp add: split_ws.simps [of acc "c # s"] graph_no_ws word_char_def)
  qed
  then show "is_word w \<Longrightarrow> split_whitespace w = [w]" by (simp add: split_whitespace_def is_word_def)
qed

lemma find_ws_word: "list_all word_char w \<Longrightarrow> find_ws (w @ CHR '' '' # rest) = Some (length w)"
  by (induction w) (simp_all add: ws_len_def space_ws graph_no_ws word_char_def)

lemma split_directive_word:
  "list_all word_char d \<Longrightarrow> solid body \<Longrightarrow> split_traceql_directive (d @ '' '' @ body) = (d, body)"
  by (simp add: split_traceql_directive_def find_ws_word trim_solid_space)

section \<open>Splitting the text into lines\<close>

definition at_statement :: "split_state \<Rightarrow> bool" where
  "at_statement s \<longleftrightarrow> at_top_level s \<and> \<not> ls_in_string s \<and> \<not> ls_escaped s"

definition self_delimiting :: "string \<Rightarrow> bool" where
  "self_delimiting t \<longleftrightarrow>
     (\<forall>s. at_statement s \<longrightarrow> rfold split_step s t = Inr (s\<lparr>ls_current := ls_current s @ t\<rparr>))"

lemma self_delimiting_append: "self_delimiting a \<Longrightarrow> self_delimiting b \<Longrightarrow> self_delimiting (a @ b)"
  by (simp add: self_delimiting_def rfold_append at_statement_def at_top_level_def)

lemma self_delimiting_plain:
  "list_all (\<lambda>c. word_char c \<or> c = CHR '' '' \<or> c = CHR ''='') t \<Longrightarrow> self_delimiting t"
proof (induction t)
  case Nil
  show ?case by (simp add: self_delimiting_def)
next
  case (Cons c t)
  have "\<not> graph_char (CHR 0x0A)" by code_simp
  with Cons.prems have "c \<noteq> CHR 0x0A" "c \<notin> {CHR 0x22, CHR ''('', CHR '')'', CHR ''{'', CHR ''}'', CHR ''['', CHR '']''}"
    by (auto simp: word_char_def)
  then have "self_delimiting [c]"
    by (simp add: self_delimiting_def at_statement_def split_step_def Let_def)
  from self_delimiting_append [OF this, of t] Cons show ?case by simp
qed

definition line_ok :: "string \<Rightarrow> bool" where
  "line_ok l \<longleftrightarrow> solid l \<and> hd l \<noteq> CHR ''#'' \<and> self_delimiting l"

lemma push_line: "line_ok l \<Longrightarrow> push_traceql_statement sts l n = sts @ [\<lparr>tl_line_number = n, tl_text = l\<rparr>]"
  by (cases l) (auto simp: push_traceql_statement_def line_ok_def trim_solid starts_with_def solid_def Let_def)

lemma split_lines:
  assumes "list_all line_ok ls" and "ls \<noteq> []" and "at_statement s" and "ls_current s = []"
  shows "\<exists>s' sts n. rfold split_step s (join [CHR 0x0A] ls) = Inr s' \<and> at_statement s' \<and>
    push_traceql_statement (ls_statements s') (ls_current s') n = ls_statements s @ sts \<and> map tl_text sts = ls \<and>
    n = ls_statement_line s'"
  using assms
proof (induction "[CHR 0x0A]" ls arbitrary: s rule: join.induct)
  case 1
  then show ?case by simp
next
  case (2 l)
  then show ?case
    by (auto simp: line_ok_def self_delimiting_def at_statement_def at_top_level_def push_line [unfolded line_ok_def])
next
  case (3 l l' ls)
  let ?mid = "s\<lparr>ls_current := l\<rparr>"
  let ?next = "?mid\<lparr>ls_statements := ls_statements s @ [\<lparr>tl_line_number = ls_statement_line s, tl_text = l\<rparr>],
     ls_current := [], ls_line_number := ls_line_number s + 1, ls_statement_line := ls_line_number s + 1\<rparr>"
  have "rfold split_step s l = Inr ?mid" using 3 by (simp add: line_ok_def self_delimiting_def)
  moreover have "split_step ?mid (CHR 0x0A) = Inr ?next"
    using 3 by (simp add: split_step_def at_statement_def at_top_level_def push_line Let_def)
  ultimately have run: "rfold split_step s (join [CHR 0x0A] (l # l' # ls)) = rfold split_step ?next (join [CHR 0x0A] (l' # ls))"
    by (simp add: rfold_append)
  have "at_statement ?next" using 3 by (simp add: at_statement_def at_top_level_def)
  then obtain s' sts where "rfold split_step ?next (join [CHR 0x0A] (l' # ls)) = Inr s'" "at_statement s'"
      "push_traceql_statement (ls_statements s') (ls_current s') (ls_statement_line s') = ls_statements ?next @ sts"
      "map tl_text sts = l' # ls"
    using 3(1) [of ?next] 3(2) by auto
  then show ?case
    unfolding run by (intro exI [of _ s'] exI [of _ "\<lparr>tl_line_number = ls_statement_line s, tl_text = l\<rparr> # sts"]) auto
qed

lemma split_statements_lines:
  assumes "list_all line_ok ls" and "ls \<noteq> []"
  shows "\<exists>sts. split_traceql_statements (join [CHR 0x0A] ls) = Inr sts \<and> map tl_text sts = ls"
proof -
  have "at_statement split_start" by (simp add: at_statement_def at_top_level_def split_start_def)
  then obtain s' sts where "rfold split_step split_start (join [CHR 0x0A] ls) = Inr s'" "at_statement s'"
      "push_traceql_statement (ls_statements s') (ls_current s') (ls_statement_line s') = sts" "map tl_text sts = ls"
    using split_lines [OF assms, of split_start] by (auto simp: split_start_def)
  then show ?thesis by (auto simp: split_traceql_statements_def at_statement_def at_top_level_def)
qed

section \<open>Printing\<close>

definition freshness_text :: "freshness_mode \<Rightarrow> string" where
  "freshness_text mode = (case mode of Strict \<Rightarrow> ''STRICT'' | Lazy \<Rightarrow> ''LAZY'' | AllowDirty \<Rightarrow> ''ALLOW_DIRTY'')"

definition where_lines :: "(json \<Rightarrow> string) \<Rightarrow> fields \<Rightarrow> string list" where
  "where_lines jtext flds = map (\<lambda>(k, v). ''WHERE '' @ k @ '' = '' @ jtext v) flds"

definition match_lines :: "(json \<Rightarrow> string) \<Rightarrow> hybrid_query \<Rightarrow> string list" where
  "match_lines jtext q =
     (case hq_text_field q of None \<Rightarrow> [] | Some f \<Rightarrow> [''MATCH '' @ f @ '' '' @ jtext (JString (the (hq_text q)))])"

definition near_lines :: "(f32 list \<Rightarrow> string) \<Rightarrow> hybrid_query \<Rightarrow> string list" where
  "near_lines vtext q =
     (case hq_vector_field q of None \<Rightarrow> [] | Some f \<Rightarrow> [''NEAR '' @ f @ '' '' @ vtext (the (hq_vector q))])"

definition traceql_lines :: "(json \<Rightarrow> string) \<Rightarrow> (f32 list \<Rightarrow> string) \<Rightarrow> hybrid_query \<Rightarrow> string list" where
  "traceql_lines jtext vtext q =
     [''FROM '' @ hq_table q, ''TENANT '' @ hq_tenant_id q] @ where_lines jtext (hq_scalar_eq q) @
     match_lines jtext q @ near_lines vtext q @ [''FRESHNESS '' @ freshness_text (hq_freshness q)] @
     (if hq_explain q then [''EXPLAIN''] else []) @ [''LIMIT '' @ show_nat (hq_top_k q)]"

definition print_traceql :: "(json \<Rightarrow> string) \<Rightarrow> (f32 list \<Rightarrow> string) \<Rightarrow> hybrid_query \<Rightarrow> string" where
  "print_traceql jtext vtext q = join [CHR 0x0A] (traceql_lines jtext vtext q)"

text \<open>A text that the parser reads as a value, and a query in the range of TraceQL.\<close>

definition json_literal :: "front_prims \<Rightarrow> (json \<Rightarrow> string) \<Rightarrow> json \<Rightarrow> bool" where
  "json_literal P jtext v \<longleftrightarrow> solid (jtext v) \<and> self_delimiting (jtext v) \<and> json_parse P (jtext v) = Inr v"

definition vector_literal :: "front_prims \<Rightarrow> (f32 list \<Rightarrow> string) \<Rightarrow> f32 list \<Rightarrow> bool" where
  "vector_literal P vtext v \<longleftrightarrow> solid (vtext v) \<and> self_delimiting (vtext v) \<and> f32_vec_parse P (vtext v) = Inr v"

definition expressible :: "hybrid_query \<Rightarrow> bool" where
  "expressible q \<longleftrightarrow>
     compiled_ok q \<and> is_word (hq_table q) \<and> is_word (hq_tenant_id q) \<and> (\<forall>k \<in> fst ` set (hq_scalar_eq q). is_word k) \<and>
     (\<forall>f. hq_text_field q = Some f \<longrightarrow> is_word f) \<and> (\<forall>f. hq_vector_field q = Some f \<longrightarrow> is_word f) \<and>
     (hq_text_field q = None \<longleftrightarrow> hq_text q = None) \<and> (hq_vector_field q = None \<longleftrightarrow> hq_vector q = None)"

definition literals_ok :: "front_prims \<Rightarrow> (json \<Rightarrow> string) \<Rightarrow> (f32 list \<Rightarrow> string) \<Rightarrow> hybrid_query \<Rightarrow> bool" where
  "literals_ok P jtext vtext q \<longleftrightarrow>
     (\<forall>v \<in> snd ` set (hq_scalar_eq q). json_literal P jtext v) \<and>
     (\<forall>t. hq_text q = Some t \<longrightarrow> json_literal P jtext (JString t)) \<and>
     (\<forall>v. hq_vector q = Some v \<longrightarrow> vector_literal P vtext v)"

section \<open>The directives\<close>

definition runs :: "front_prims \<Rightarrow> traceql_state \<Rightarrow> string list \<Rightarrow> traceql_state \<Rightarrow> bool" where
  "runs P s ls s' \<longleftrightarrow> (\<forall>sts. map tl_text sts = ls \<longrightarrow> rfold (traceql_statement_step P) s sts = Inr s')"

lemma runs_Nil: "runs P s [] s"
  by (simp add: runs_def)

lemma runs_append: "runs P s xs t \<Longrightarrow> runs P t ys u \<Longrightarrow> runs P s (xs @ ys) u"
  by (auto simp: runs_def map_eq_append_conv rfold_append)

lemma runs_single:
  "(\<And>line. traceql_statement_step P s \<lparr>tl_line_number = line, tl_text = l\<rparr> = Inr s') \<Longrightarrow> runs P s [l] s'"
  by (auto simp: runs_def) (metis (full_types) rbind_simps(2) old.unit.exhaust traceql_statement.surjective)

lemma single_argument_word: "is_word w \<Longrightarrow> parse_traceql_single_argument d w line = Inr w"
  by (simp add: parse_traceql_single_argument_def trim_solid word_solid word_no_ws) (simp add: is_word_def)

lemma column_value_word:
  assumes "is_word f" and "solid t"
  shows "parse_traceql_column_value d (f @ '' '' @ t) line = Inr (f, t)"
proof -
  have "trim (f @ '' '' @ t) = f @ '' '' @ t" using assms by (intro trim_solid solid_spaced) (simp_all add: word_solid)
  moreover have "f \<noteq> []" "t \<noteq> []" "list_all word_char f" using assms by (auto simp: is_word_def solid_def)
  ultimately show ?thesis using assms
    by (simp add: parse_traceql_column_value_def find_ws_word trim_solid_space trim_solid [OF word_solid] Let_def)
qed

lemma where_word:
  assumes "is_word f" and "solid t"
  shows "parse_traceql_where (f @ '' = '' @ t) line = Inr (f, t)"
proof -
  have eq: "CHR ''='' \<notin> set f" using assms by (auto simp: is_word_def word_char_def list_all_iff)
  have "split_once (CHR ''='') (f @ '' = '' @ t) = Some (f @ '' '', CHR '' '' # t)"
    using eq by (auto simp: split_once_def takeWhile_append dropWhile_append)
  moreover have "f \<noteq> []" "t \<noteq> []" using assms by (auto simp: is_word_def solid_def)
  ultimately show ?thesis using assms
    by (simp add: parse_traceql_where_def trim_solid_space word_solid word_no_ws)
qed

lemma value_literal: "json_literal P jtext v \<Longrightarrow> parse_traceql_value P (jtext v) line = Inr v"
  by (auto simp: json_literal_def parse_traceql_value_def trim_solid solid_def Let_def)

lemmas step_simps = traceql_statement_step_def set_once_Inr Let_def single_argument_word

lemma directive_split:
  "is_word d \<Longrightarrow> solid body \<Longrightarrow> split_traceql_directive (d @ '' '' @ body) = (d, body)"
  by (rule split_directive_word) (simp_all add: is_word_def)

lemma upper_words:
  "map to_ascii_upper ''FROM'' = ''FROM''" "map to_ascii_upper ''TENANT'' = ''TENANT''" "map to_ascii_upper ''WHERE'' = ''WHERE''"
  "map to_ascii_upper ''MATCH'' = ''MATCH''" "map to_ascii_upper ''NEAR'' = ''NEAR''"
  "map to_ascii_upper ''FRESHNESS'' = ''FRESHNESS''" "map to_ascii_upper ''LIMIT'' = ''LIMIT''"
  "map to_ascii_upper ''EXPLAIN'' = ''EXPLAIN''"
  by code_simp+

lemma directive_words:
  "is_word ''FROM''" "is_word ''TENANT''" "is_word ''WHERE''" "is_word ''MATCH''" "is_word ''NEAR''" "is_word ''FRESHNESS''"
  "is_word ''LIMIT''" "is_word ''EXPLAIN''" "is_word ''STRICT''" "is_word ''LAZY''" "is_word ''ALLOW_DIRTY''"
  by code_simp+

lemma freshness_word: "is_word (freshness_text mode)"
  by (cases mode) (simp_all add: freshness_text_def directive_words)

lemma freshness_name: "parse_freshness_name (freshness_text mode) = Some mode"
proof (cases mode)
  show "mode = Strict \<Longrightarrow> ?thesis" by (erule ssubst) code_simp
  show "mode = Lazy \<Longrightarrow> ?thesis" by (erule ssubst) code_simp
  show "mode = AllowDirty \<Longrightarrow> ?thesis" by (erule ssubst) code_simp
qed

lemma from_runs:
  "is_word w \<Longrightarrow> ql_table s = None \<Longrightarrow> runs P s [''FROM '' @ w] (s\<lparr>ql_table := Some w\<rparr>)"
  using directive_split [OF directive_words(1) word_solid [of w]]
  by (intro runs_single) (simp add: step_simps set_traceql_once_def upper_words [simplified])

lemma tenant_runs:
  "is_word w \<Longrightarrow> ql_tenant s = None \<Longrightarrow> runs P s [''TENANT '' @ w] (s\<lparr>ql_tenant := Some w\<rparr>)"
  using directive_split [OF directive_words(2) word_solid [of w]]
  by (intro runs_single) (simp add: step_simps set_traceql_once_def upper_words [simplified])

lemma where_runs:
  assumes "is_word k" and "json_literal P jtext v" and "k \<notin> set (ql_where_seen s)"
  shows "runs P s [''WHERE '' @ k @ '' = '' @ jtext v]
    (s\<lparr>ql_where_seen := bs_add k (ql_where_seen s), ql_where := bm_insert k v (ql_where s)\<rparr>)"
proof -
  have t: "solid (jtext v)" using assms(2) by (simp add: json_literal_def)
  have body: "solid (k @ '' = '' @ jtext v)" using t word_solid [OF assms(1)] by (simp add: solid_def)
  have "where_directive P s (k @ '' = '' @ jtext v) line =
      Inr (s\<lparr>ql_where_seen := bs_add k (ql_where_seen s), ql_where := bm_insert k v (ql_where s)\<rparr>)" for line
    unfolding where_directive_def where_word [OF assms(1) t] using assms(3) by (simp add: value_literal [OF assms(2)])
  then show ?thesis using directive_split [OF directive_words(3) body]
    by (intro runs_single) (simp add: step_simps upper_words [simplified])
qed

lemma match_runs:
  assumes "is_word f" and "json_literal P jtext (JString t)" and "ql_match_field s = None"
  shows "runs P s [''MATCH '' @ f @ '' '' @ jtext (JString t)] (s\<lparr>ql_match_field := Some f, ql_match := Some t\<rparr>)"
proof -
  have t: "solid (jtext (JString t))" using assms(2) by (simp add: json_literal_def)
  have "match_directive P s (f @ '' '' @ jtext (JString t)) line =
      Inr (s\<lparr>ql_match_field := Some f, ql_match := Some t\<rparr>)" for line
    unfolding match_directive_def column_value_word [OF assms(1) t]
    using assms(3) by (simp add: parse_traceql_string_value_def value_literal [OF assms(2)] set_traceql_once_def)
  then show ?thesis using directive_split [OF directive_words(4) solid_spaced [OF word_solid [OF assms(1)] t]]
    by (intro runs_single) (simp add: step_simps upper_words [simplified])
qed

lemma near_runs:
  assumes "is_word f" and "vector_literal P vtext v" and "v \<noteq> []" and "ql_near_field s = None"
  shows "runs P s [''NEAR '' @ f @ '' '' @ vtext v] (s\<lparr>ql_near_field := Some f, ql_near := Some v\<rparr>)"
proof -
  have t: "solid (vtext v)" and parse: "f32_vec_parse P (vtext v) = Inr v" using assms(2) by (simp_all add: vector_literal_def)
  have "near_directive P s (f @ '' '' @ vtext v) line = Inr (s\<lparr>ql_near_field := Some f, ql_near := Some v\<rparr>)" for line
    unfolding near_directive_def column_value_word [OF assms(1) t]
    using assms(3,4) by (simp add: parse trim_solid [OF t] set_traceql_once_def)
  then show ?thesis using directive_split [OF directive_words(5) solid_spaced [OF word_solid [OF assms(1)] t]]
    by (intro runs_single) (simp add: step_simps upper_words [simplified])
qed

lemma freshness_runs:
  assumes "\<not> ql_freshness_seen s"
  shows "runs P s [''FRESHNESS '' @ freshness_text mode] (s\<lparr>ql_freshness := mode, ql_freshness_seen := True\<rparr>)"
  using directive_split [OF directive_words(6) word_solid [OF freshness_word [of mode]]] assms
  by (intro runs_single)
     (simp add: step_simps freshness_directive_def freshness_word freshness_name upper_words [simplified])

lemma explain_runs:
  assumes "\<not> ql_explain_seen s"
  shows "runs P s [''EXPLAIN''] (s\<lparr>ql_explain_flag := True, ql_explain_seen := True\<rparr>)"
proof -
  have "split_traceql_directive ''EXPLAIN'' = (''EXPLAIN'', [])" "trim [] = []" by code_simp+
  then show ?thesis using assms
    by (intro runs_single) (simp add: step_simps explain_directive_def upper_words [simplified])
qed

lemma parse_digits_value:
  "list_all is_ascii_digit s \<Longrightarrow> foldl (\<lambda>a c. 10 * a + (byte_val c - 48)) n s < 18446744073709551616 \<Longrightarrow>
   parse_digits n s = Inr (foldl (\<lambda>a c. 10 * a + (byte_val c - 48)) n s)"
proof (induction s arbitrary: n)
  case (Cons c s)
  have "m \<le> foldl (\<lambda>a c. 10 * a + (byte_val c - 48)) m s" for m :: nat
  proof (induction s arbitrary: m)
    case (Cons d s)
    show ?case using Cons [of "10 * m + (byte_val d - 48)"] by simp
  qed simp
  from this [of "10 * n + (byte_val c - 48)"] show ?case using Cons by (simp add: Let_def)
qed simp

lemma digit_word_char: "is_ascii_digit c \<Longrightarrow> word_char c"
  by (auto simp: is_ascii_digit_def word_char_def graph_char_def)

lemma show_nat_word: "is_word (show_nat n)"
  using show_nat_digits [of n] by (auto simp: is_word_def list_all_iff digit_word_char)

lemma parse_usize_show: "n < 18446744073709551616 \<Longrightarrow> parse_usize (show_nat n) = Inr n"
proof -
  assume n: "n < 18446744073709551616"
  have "\<not> is_ascii_digit (CHR ''+'')" "\<not> is_ascii_digit (CHR ''-'')" by code_simp+
  then have "\<not> starts_with (show_nat n) ''+''" "show_nat n \<noteq> ''+''" "show_nat n \<noteq> ''-''"
    using show_nat_digits [of n] by (cases "show_nat n"; auto simp: starts_with_def)+
  then show ?thesis using n show_nat_digits [of n] show_nat_value [of n] parse_digits_value [of "show_nat n" 0]
    by (simp add: parse_usize_def)
qed

lemma limit_runs:
  assumes "\<not> ql_top_k_seen s" and "0 < n" and "n < 18446744073709551616"
  shows "runs P s [''LIMIT '' @ show_nat n] (s\<lparr>ql_top_k := n, ql_top_k_seen := True\<rparr>)"
  using directive_split [OF directive_words(7) word_solid [OF show_nat_word [of n]]] assms
  by (intro runs_single)
     (simp add: step_simps limit_directive_def show_nat_word parse_usize_show upper_words [simplified])

section \<open>Round trip\<close>

lemma bm_insert_greatest: "\<forall>x \<in> set m. fst x < k \<Longrightarrow> bm_insert k v m = m @ [(k, v)]"
  by (induction m) auto

lemma bm_extend_Cons: "bm_extend m (kv # kvs) = bm_extend (bm_insert (fst kv) (snd kv) m) kvs"
  by (simp add: bm_extend_def case_prod_beta)

lemma bm_rebuild:
  "bm_wf (m @ kvs) \<Longrightarrow> bm_extend m kvs = m @ kvs"
proof (induction kvs arbitrary: m)
  case (Cons kv kvs)
  then have "\<forall>x \<in> set m. fst x < fst kv" by (auto simp: bm_wf_def sorted_wrt_append)
  then have "bm_insert (fst kv) (snd kv) m = m @ [kv]" by (simp add: bm_insert_greatest)
  then show ?case using Cons by (simp add: bm_extend_Cons)
qed (simp add: bm_extend_def)

lemma where_lines_run:
  assumes "\<forall>k \<in> fst ` set flds. is_word k" and "\<forall>v \<in> snd ` set flds. json_literal P jtext v"
    and "distinct (map fst flds)" and "fst ` set flds \<inter> set (ql_where_seen s) = {}"
  shows "\<exists>seen. runs P s (where_lines jtext flds)
    (s\<lparr>ql_where_seen := seen, ql_where := bm_extend (ql_where s) flds\<rparr>)"
  using assms
proof (induction flds arbitrary: s)
  case Nil
  then show ?case by (intro exI [of _ "ql_where_seen s"]) (simp add: where_lines_def runs_Nil bm_extend_def)
next
  case (Cons kv flds)
  let ?s = "s\<lparr>ql_where_seen := bs_add (fst kv) (ql_where_seen s), ql_where := bm_insert (fst kv) (snd kv) (ql_where s)\<rparr>"
  have "runs P s [''WHERE '' @ fst kv @ '' = '' @ jtext (snd kv)] ?s" using Cons.prems by (intro where_runs) auto
  moreover obtain seen where "runs P ?s (where_lines jtext flds)
      (?s\<lparr>ql_where_seen := seen, ql_where := bm_extend (ql_where ?s) flds\<rparr>)"
    using Cons.IH [of ?s] Cons.prems by auto
  moreover have "where_lines jtext (kv # flds) = [''WHERE '' @ fst kv @ '' = '' @ jtext (snd kv)] @ where_lines jtext flds"
    by (simp add: where_lines_def case_prod_beta)
  ultimately show ?case
    using runs_append by (intro exI [of _ seen]) (fastforce simp: bm_extend_Cons)
qed

text \<open>The state after the lines of a query.\<close>

definition final_state :: "string bset \<Rightarrow> hybrid_query \<Rightarrow> traceql_state" where
  "final_state seen q =
     \<lparr>ql_table = Some (hq_table q), ql_tenant = Some (hq_tenant_id q), ql_match_field = hq_text_field q, ql_match = hq_text q,
      ql_near_field = hq_vector_field q, ql_near = hq_vector q, ql_where = hq_scalar_eq q, ql_where_seen = seen,
      ql_top_k = hq_top_k q, ql_top_k_seen = True, ql_freshness = hq_freshness q, ql_freshness_seen = True,
      ql_explain_flag = hq_explain q, ql_explain_seen = hq_explain q\<rparr>"

lemma match_lines_run:
  assumes "expressible q" and "literals_ok P jtext vtext q" and "ql_match_field s = None" and "ql_match s = None"
  shows "runs P s (match_lines jtext q) (s\<lparr>ql_match_field := hq_text_field q, ql_match := hq_text q\<rparr>)"
proof (cases "hq_text_field q")
  case None
  moreover have "s\<lparr>ql_match_field := None, ql_match := None\<rparr> = s" using assms(3,4) by (cases s) simp
  ultimately show ?thesis using assms(1) by (simp add: match_lines_def runs_Nil expressible_def)
next
  case (Some f)
  then obtain t where "hq_text q = Some t" using assms(1) by (auto simp: expressible_def)
  with Some show ?thesis using assms
    by (auto simp: match_lines_def expressible_def literals_ok_def intro!: match_runs [simplified])
qed

lemma near_lines_run:
  assumes "expressible q" and "literals_ok P jtext vtext q" and "ql_near_field s = None" and "ql_near s = None"
  shows "runs P s (near_lines vtext q) (s\<lparr>ql_near_field := hq_vector_field q, ql_near := hq_vector q\<rparr>)"
proof (cases "hq_vector_field q")
  case None
  moreover have "s\<lparr>ql_near_field := None, ql_near := None\<rparr> = s" using assms(3,4) by (cases s) simp
  ultimately show ?thesis using assms(1) by (simp add: near_lines_def runs_Nil expressible_def)
next
  case (Some f)
  then obtain v where "hq_vector q = Some v" using assms(1) by (auto simp: expressible_def)
  with Some show ?thesis using assms
    by (auto simp: near_lines_def expressible_def literals_ok_def compiled_ok_def intro!: near_runs [simplified])
qed

lemma traceql_lines_run:
  assumes q: "expressible q" and lits: "literals_ok P jtext vtext q"
  shows "\<exists>seen. runs P traceql_start (traceql_lines jtext vtext q) (final_state seen q)"
proof -
  have ok: "compiled_ok q" and wf: "bm_wf (hq_scalar_eq q)" using q by (auto simp: expressible_def compiled_ok_def)
  let ?s1 = "traceql_start\<lparr>ql_table := Some (hq_table q)\<rparr>"
  let ?s2 = "?s1\<lparr>ql_tenant := Some (hq_tenant_id q)\<rparr>"
  have r1: "runs P traceql_start [''FROM '' @ hq_table q] ?s1"
    by (rule from_runs) (use q in \<open>simp_all add: expressible_def traceql_start_def\<close>)
  have r2: "runs P ?s1 [''TENANT '' @ hq_tenant_id q] ?s2"
    by (rule tenant_runs) (use q in \<open>simp_all add: expressible_def traceql_start_def\<close>)
  obtain seen where r3: "runs P ?s2 (where_lines jtext (hq_scalar_eq q)) (?s2\<lparr>ql_where_seen := seen, ql_where := hq_scalar_eq q\<rparr>)"
    using where_lines_run [of "hq_scalar_eq q" P jtext ?s2] q lits bm_wf_distinct [OF wf] bm_rebuild [of "[]", simplified, OF wf]
    by (auto simp: expressible_def literals_ok_def traceql_start_def)
  let ?s3 = "?s2\<lparr>ql_where_seen := seen, ql_where := hq_scalar_eq q\<rparr>"
  let ?s4 = "?s3\<lparr>ql_match_field := hq_text_field q, ql_match := hq_text q\<rparr>"
  let ?s5 = "?s4\<lparr>ql_near_field := hq_vector_field q, ql_near := hq_vector q\<rparr>"
  let ?s6 = "?s5\<lparr>ql_freshness := hq_freshness q, ql_freshness_seen := True\<rparr>"
  let ?s7 = "if hq_explain q then ?s6\<lparr>ql_explain_flag := True, ql_explain_seen := True\<rparr> else ?s6"
  have r4: "runs P ?s3 (match_lines jtext q) ?s4" by (rule match_lines_run [OF q lits]) (simp_all add: traceql_start_def)
  have r5: "runs P ?s4 (near_lines vtext q) ?s5" by (rule near_lines_run [OF q lits]) (simp_all add: traceql_start_def)
  have r6: "runs P ?s5 [''FRESHNESS '' @ freshness_text (hq_freshness q)] ?s6"
    by (rule freshness_runs) (simp add: traceql_start_def)
  have r7: "runs P ?s6 (if hq_explain q then [''EXPLAIN''] else []) ?s7"
    using explain_runs [of ?s6 P] by (simp add: runs_Nil traceql_start_def)
  have r8: "runs P ?s7 [''LIMIT '' @ show_nat (hq_top_k q)] (?s7\<lparr>ql_top_k := hq_top_k q, ql_top_k_seen := True\<rparr>)"
    by (rule limit_runs) (use ok in \<open>simp_all add: compiled_ok_def traceql_start_def\<close>)
  have "?s7\<lparr>ql_top_k := hq_top_k q, ql_top_k_seen := True\<rparr> = final_state seen q"
    by (simp add: final_state_def traceql_start_def)
  with runs_append [OF r1 runs_append [OF r2 runs_append [OF r3 runs_append [OF r4 runs_append [OF r5
      runs_append [OF r6 runs_append [OF r7 r8]]]]]]]
  show ?thesis by (intro exI [of _ seen]) (simp add: traceql_lines_def)
qed

lemma line_ok_directive:
  assumes "is_word d" and "hd d \<noteq> CHR ''#''" and "solid body" and "self_delimiting body"
  shows "line_ok (d @ '' '' @ body)"
proof -
  have "self_delimiting (d @ '' '')" using assms(1)
    by (intro self_delimiting_plain) (auto simp: is_word_def list_all_iff)
  with assms show ?thesis using solid_spaced [OF word_solid [OF assms(1)] assms(3)]
      self_delimiting_append [of "d @ '' ''" body]
    by (simp add: line_ok_def is_word_def)
qed

lemma word_self_delimiting: "is_word w \<Longrightarrow> self_delimiting w"
  by (intro self_delimiting_plain) (auto simp: is_word_def list_all_iff)

lemma spaced_self_delimiting:
  assumes "is_word f" and "self_delimiting t"
  shows "self_delimiting (f @ '' '' @ t)" and "self_delimiting (f @ '' = '' @ t)"
proof -
  have "self_delimiting (f @ '' '')" "self_delimiting (f @ '' = '')"
    using assms(1) by (auto intro!: self_delimiting_plain simp: is_word_def list_all_iff)
  from this [THEN self_delimiting_append, OF assms(2)]
  show "self_delimiting (f @ '' '' @ t)" "self_delimiting (f @ '' = '' @ t)" by simp_all
qed

lemma traceql_lines_ok:
  assumes q: "expressible q" and lits: "literals_ok P jtext vtext q"
  shows "list_all line_ok (traceql_lines jtext vtext q)"
proof -
  have word_line: "line_ok (d @ '' '' @ w)" if "is_word d" "hd d \<noteq> CHR ''#''" "is_word w" for d w
    using that by (intro line_ok_directive) (simp_all add: word_solid word_self_delimiting)
  have "line_ok (''WHERE'' @ '' '' @ (k @ '' = '' @ jtext v))" if kv: "(k, v) \<in> set (hq_scalar_eq q)" for k v
  proof -
    have "is_word k" "solid (jtext v)" "self_delimiting (jtext v)"
      using q lits kv by (force simp: expressible_def literals_ok_def json_literal_def)+
    then show ?thesis using word_solid [of k]
      by (intro line_ok_directive directive_words spaced_self_delimiting) (simp_all add: solid_def)
  qed
  then have wl: "list_all line_ok (where_lines jtext (hq_scalar_eq q))" by (auto simp: where_lines_def list_all_iff)
  have arg_line: "line_ok (d @ '' '' @ (f @ '' '' @ t))" if "is_word d" "hd d \<noteq> CHR ''#''" "is_word f" "solid t" "self_delimiting t" for d f t
    using that by (intro line_ok_directive solid_spaced spaced_self_delimiting) (simp_all add: word_solid)
  have ml: "list_all line_ok (match_lines jtext q)" using q lits arg_line [OF directive_words(4)]
    by (auto simp: match_lines_def expressible_def literals_ok_def json_literal_def split: option.split)
  have nl: "list_all line_ok (near_lines vtext q)" using q lits arg_line [OF directive_words(5)]
    by (auto simp: near_lines_def expressible_def literals_ok_def vector_literal_def split: option.split)
  have el: "line_ok ''EXPLAIN''" using word_solid [OF directive_words(8)] word_self_delimiting [OF directive_words(8)]
    by (simp add: line_ok_def)
  show ?thesis
    using wl ml nl el word_line [OF directive_words(1), of "hq_table q"] word_line [OF directive_words(2), of "hq_tenant_id q"]
      word_line [OF directive_words(6) _ freshness_word [of "hq_freshness q"]] word_line [OF directive_words(7) _ show_nat_word] q
    by (simp add: traceql_lines_def expressible_def)
qed

lemma join_solid: "list_all solid ls \<Longrightarrow> ls \<noteq> [] \<Longrightarrow> solid (join [CHR 0x0A] ls)"
  by (induction "[CHR 0x0A]" ls rule: join.induct) (auto simp: solid_def)

lemma printed_not_select: "\<not> starts_with_sqlish_select (print_traceql jtext vtext q)"
proof -
  obtain rest where eq: "print_traceql jtext vtext q = CHR ''F'' # rest" by (simp add: print_traceql_def traceql_lines_def)
  have "graph_char (CHR ''F'')" "to_ascii_lower (CHR ''F'') = CHR ''f''" "to_ascii_lower (CHR ''S'') = CHR ''s''"
    "to_ascii_lower (CHR ''E'') = CHR ''e''" by code_simp+
  then show ?thesis
    by (simp add: starts_with_sqlish_select_def eq strip_sqlish_keyword_prefix_def trim_start_graph eq_ignore_ascii_case_def Let_def)
qed

lemma traceql_finish_final:
  "compiled_ok q \<Longrightarrow> traceql_finish (final_state seen q) = Inr q"
  by (simp add: traceql_finish_def final_state_def compiled_ok_def)

lemma print_parse:
  assumes "expressible q" and "literals_ok P jtext vtext q"
  shows "traceql_query_from_str P (print_traceql jtext vtext q) = Inr q"
proof -
  have ok: "list_all line_ok (traceql_lines jtext vtext q)" and "traceql_lines jtext vtext q \<noteq> []"
    using traceql_lines_ok [OF assms] by (simp_all add: traceql_lines_def)
  then obtain sts where sts: "split_traceql_statements (print_traceql jtext vtext q) = Inr sts"
      "map tl_text sts = traceql_lines jtext vtext q"
    using split_statements_lines unfolding print_traceql_def by blast
  have "list_all solid (traceql_lines jtext vtext q)" using ok by (auto simp: list_all_iff line_ok_def)
  then have "trim (print_traceql jtext vtext q) = print_traceql jtext vtext q"
    unfolding print_traceql_def by (intro trim_solid join_solid) (simp_all add: traceql_lines_def)
  moreover obtain seen where "rfold (traceql_statement_step P) traceql_start sts = Inr (final_state seen q)"
    using traceql_lines_run [OF assms] sts(2) by (auto simp: runs_def)
  ultimately show ?thesis using assms(1)
    by (simp add: traceql_query_from_str_def printed_not_select sts(1) expressible_def traceql_finish_final)
qed


text \<open>A query with a filter whose literal contains a bracket inside a string, a text and an explanation.\<close>

definition demo_query :: hybrid_query where
  "demo_query = \<lparr>hq_table = ''docs'', hq_tenant_id = ''tenant-a'', hq_cursor = None, hq_text_field = Some ''body'',
     hq_text = Some ''a(b'', hq_vector_field = None, hq_vector = None, hq_scalar_eq = [(''status'', JBool True)],
     hq_graph_seed = None, hq_temporal_as_of = None, hq_top_k = 5, hq_freshness = Lazy, hq_explain = True\<rparr>"

definition demo_text :: "json \<Rightarrow> string" where
  "demo_text v = (case v of JBool True \<Rightarrow> ''true'' | JString s \<Rightarrow> [CHR 0x22] @ s @ [CHR 0x22] | _ \<Rightarrow> ''null'')"

definition demo_front :: front_prims where
  "demo_front = \<lparr>json_parse = (\<lambda>t. if t = ''true'' then Inr (JBool True)
       else if starts_with t [CHR 0x22] then Inr (JString (butlast (tl t))) else Inl ''expected value''),
     f32_vec_parse = (\<lambda>_. Inl ''expected value''), str_debug = (\<lambda>s. s)\<rparr>"

lemma demo_literals: "literals_ok demo_front demo_text (\<lambda>_. []) demo_query"
proof -
  have "graph_char (CHR 0x22)" by code_simp
  moreover have "self_delimiting [CHR 0x22, CHR ''a'', CHR ''('', CHR ''b'', CHR 0x22]"
    by (simp add: self_delimiting_def at_statement_def split_step_def in_string_step_def Let_def)
  ultimately have "json_literal demo_front demo_text (JString ''a(b'')"
    by (simp add: json_literal_def demo_text_def demo_front_def solid_def starts_with_def)
  moreover have "is_word ''true''" by code_simp
  then have "json_literal demo_front demo_text (JBool True)"
    using word_solid [of "''true''"] word_self_delimiting [of "''true''"]
    by (simp add: json_literal_def demo_text_def demo_front_def)
  ultimately show ?thesis by (simp add: literals_ok_def demo_query_def)
qed

lemma demo_expressible: "expressible demo_query"
proof -
  have "is_word ''docs''" "is_word ''tenant-a''" "is_word ''body''" "is_word ''status''" by code_simp+
  then show ?thesis by (simp add: expressible_def compiled_ok_def demo_query_def bm_wf_def)
qed


text \<open>C31: Whatever the text and the JSON parser, a query accepted by the TraceQL front end (in either form) or by the
  GraphQL adapter is well-formed: it names a table and a tenant, returns at least one and less than $2^{64}$
  results, filters by distinct fields in order, has no empty vector or column name, and carries no cursor, graph or
  temporal part, which these languages cannot express.\<close>

theorem accepted_queries_well_formed:
  assumes "traceql_query_from_str P input = Inr q \<or> graphql_query_from_str P input = Inr q"
  shows "compiled_ok q"
  using assms traceql_ok graphql_ok by blast

theorem accepted_queries_well_formed_witness:
  "traceql_query_from_str demo_front (print_traceql demo_text (\<lambda>_. []) demo_query) = Inr demo_query \<and> compiled_ok demo_query"
proof -
  have run: "traceql_query_from_str demo_front (print_traceql demo_text (\<lambda>_. []) demo_query) = Inr demo_query"
    by (rule print_parse [OF demo_expressible demo_literals])
  then show ?thesis using accepted_queries_well_formed [OF disjI1 [OF run]] by blast
qed

end
