(* ===== verification/Services.thy ===== *)
theory Services
  imports Jobs F32
begin

text \<open>
  The small stand-alone crates around the engine: feature lifecycles (\<open>tracedb-features\<close>), table
  descriptors (\<open>tracedb-schema\<close>), the database and branch catalog (\<open>tracedb-catalog\<close>), provenance and
  audit records, the retrieval overlay, usage meters, the segment cache and the segment server.

  Results: \<open>table_descriptor_valid_iff\<close>, \<open>recompute_once\<close> (asking twice for the same recomputation
  gives one job), \<open>catalog_run_ok\<close> (every branch belongs to a database of the catalog),
  \<open>segment_cache_run_ok\<close> (bounded, one entry per path, most recent first), \<open>usage_total\<close> and
  \<open>segment_server_run_ok\<close>. The catalog's JSON codec is a parameter; its files are written by one rename.
\<close>

section \<open>Feature lifecycles\<close>

datatype feature_freshness_mode = FmStrict | FmLazy | FmAllowDirty | FmOnRead | FmAllowStale

datatype feature_lifecycle_status = FlReady | FlDirty | FlPending | FlFailed | FlStale | FlDeprecated | FlMissing

record feature_lifecycle =
  fl_feature_id :: string
  fl_source_columns :: "string list"
  fl_status :: feature_lifecycle_status
  fl_source_hash :: u64
  fl_valid_for_epoch :: u64
  fl_last_job_id :: "string option"

definition feature_lifecycle_new :: "string \<Rightarrow> string list \<Rightarrow> feature_lifecycle" where
  "feature_lifecycle_new feature_id source_columns =
     \<lparr>fl_feature_id = feature_id, fl_source_columns = source_columns, fl_status = FlMissing, fl_source_hash = 0,
      fl_valid_for_epoch = 0, fl_last_job_id = None\<rparr>"

definition mark_dirty :: "u64 \<Rightarrow> u64 \<Rightarrow> feature_lifecycle \<Rightarrow> feature_lifecycle" where
  "mark_dirty e h f = f\<lparr>fl_status := FlDirty, fl_valid_for_epoch := e, fl_source_hash := h\<rparr>"

definition recompute_key :: "feature_lifecycle \<Rightarrow> string \<Rightarrow> string" where
  "recompute_key f target = fl_feature_id f @ '':'' @ target @ '':'' @ show_nat (unat (fl_source_hash f))"

text \<open>\<open>JobCatalog::enqueue\<close> never fails, so the error of the source's \<open>?\<close> does not occur.\<close>

definition enqueue_recompute ::
    "job_catalog \<Rightarrow> string \<Rightarrow> feature_lifecycle \<Rightarrow> trace_job \<times> job_catalog \<times> feature_lifecycle" where
  "enqueue_recompute jobs target f =
     (let (jobs', job) = enqueue jobs GenerateEmbedding target (recompute_key f target)
      in (job, jobs', f\<lparr>fl_last_job_id := Some (tj_job_id job), fl_status := FlPending\<rparr>))"

definition mark_failed :: "feature_lifecycle \<Rightarrow> feature_lifecycle" where
  "mark_failed f = f\<lparr>fl_status := FlFailed\<rparr>"

definition is_usable_for :: "feature_lifecycle \<Rightarrow> feature_freshness_mode \<Rightarrow> bool" where
  "is_usable_for f mode =
     (case mode of
        FmStrict \<Rightarrow> fl_status f = FlReady
      | FmLazy \<Rightarrow> fl_status f \<in> {FlReady, FlDirty}
      | FmAllowDirty \<Rightarrow> fl_status f \<in> {FlReady, FlDirty}
      | FmOnRead \<Rightarrow> fl_status f \<noteq> FlFailed
      | FmAllowStale \<Rightarrow> fl_status f \<notin> {FlFailed, FlDeprecated})"

lemma usable_monotone:
  "is_usable_for f FmStrict \<Longrightarrow> is_usable_for f FmAllowDirty"
  "is_usable_for f FmAllowDirty \<Longrightarrow> is_usable_for f FmAllowStale"
  "is_usable_for f FmAllowStale \<Longrightarrow> is_usable_for f FmOnRead"
  by (auto simp: is_usable_for_def)

text \<open>A second request for the same sources finds the job of the first.\<close>

lemma recompute_once:
  assumes "enqueue_recompute jobs target f = (job, jobs1, f1)"
    and "enqueue_recompute jobs1 target f1 = (job2, jobs2, f2)"
  shows "job2 = job \<and> jobs2 = jobs1 \<and> f2 = f1"
  using assms
  by (auto simp: enqueue_recompute_def enqueue_def Let_def recompute_key_def bm_or_insert_def split: option.splits)

section \<open>Table descriptors\<close>

datatype logical_type =
    LtBool | LtInt64 | LtFloat64 | LtText | LtTextIndexed | LtJson | LtId | LtTimestamp | LtBlobRef
  | LtVector string nat string | LtSparseVector | LtMultiVector | LtEdge string | LtTemporalRange | LtPolicy
  | LtProvenance | LtActivationState | LtSuppressionState

record column_descriptor =
  cd_name :: string
  cd_logical_type :: logical_type
  cd_primary :: bool
  cd_tenant :: bool
  cd_nullable :: bool

definition column_new :: "string \<Rightarrow> logical_type \<Rightarrow> column_descriptor" where
  "column_new name t = \<lparr>cd_name = name, cd_logical_type = t, cd_primary = False, cd_tenant = False, cd_nullable = True\<rparr>"

definition column_primary :: "string \<Rightarrow> logical_type \<Rightarrow> column_descriptor" where
  "column_primary name t = (column_new name t)\<lparr>cd_primary := True, cd_nullable := False\<rparr>"

definition column_tenant :: "string \<Rightarrow> column_descriptor" where
  "column_tenant name = (column_new name LtId)\<lparr>cd_tenant := True, cd_nullable := False\<rparr>"

record feature_descriptor =
  fd_name :: string
  fd_target_column :: string
  fd_source_columns :: "string list"
  fd_model_id :: string

definition feature_embedding :: "string \<Rightarrow> string list \<Rightarrow> string \<Rightarrow> feature_descriptor" where
  "feature_embedding target_column source_columns model_id =
     \<lparr>fd_name = target_column @ ''_feature'', fd_target_column = target_column, fd_source_columns = source_columns,
      fd_model_id = model_id\<rparr>"

record index_descriptor =
  id_name :: string
  id_kind :: string
  id_columns :: "string list"
  id_policy_aware :: bool

record policy_descriptor =
  pd_name :: string
  pd_required_tenant_column :: string

record edge_table_descriptor =
  ed_name :: string
  ed_target_table :: string

record module_requirement =
  mr_module_id :: string
  mr_min_version :: string

record table_descriptor =
  td_table_id :: string
  td_name :: string
  td_schema_version :: u64
  td_columns :: "column_descriptor list"
  td_indexes :: "index_descriptor list"
  td_features :: "feature_descriptor list"
  td_policies :: "policy_descriptor list"
  td_edge_tables :: "edge_table_descriptor list"
  td_module_requirements :: "module_requirement list"

definition table_descriptor_new :: "string \<Rightarrow> table_descriptor" where
  "table_descriptor_new name =
     \<lparr>td_table_id = ''table:'' @ name, td_name = name, td_schema_version = 1, td_columns = [], td_indexes = [],
      td_features = [], td_policies = [], td_edge_tables = [], td_module_requirements = []\<rparr>"

definition with_column :: "column_descriptor \<Rightarrow> table_descriptor \<Rightarrow> table_descriptor" where
  "with_column c t = t\<lparr>td_columns := td_columns t @ [c]\<rparr>"

definition with_feature :: "feature_descriptor \<Rightarrow> table_descriptor \<Rightarrow> table_descriptor" where
  "with_feature f t = t\<lparr>td_features := td_features t @ [f]\<rparr>"

definition with_edge_table :: "edge_table_descriptor \<Rightarrow> table_descriptor \<Rightarrow> table_descriptor" where
  "with_edge_table e t = t\<lparr>td_edge_tables := td_edge_tables t @ [e]\<rparr>"

definition with_module_requirement :: "module_requirement \<Rightarrow> table_descriptor \<Rightarrow> table_descriptor" where
  "with_module_requirement r t = t\<lparr>td_module_requirements := td_module_requirements t @ [r]\<rparr>"

definition has_column :: "table_descriptor \<Rightarrow> string \<Rightarrow> bool" where
  "has_column t name = list_ex (\<lambda>c. cd_name c = name) (td_columns t)"

definition validate_vector_column :: "unit \<Rightarrow> column_descriptor \<Rightarrow> string + unit" where
  "validate_vector_column u c =
     (case cd_logical_type c of
        LtVector element dimensions metric \<Rightarrow>
          ensure (dimensions \<noteq> 0) (''vector column '' @ cd_name c @ '' has zero dimensions'')
      | _ \<Rightarrow> Inr ())"

definition validate_feature :: "table_descriptor \<Rightarrow> unit \<Rightarrow> feature_descriptor \<Rightarrow> string + unit" where
  "validate_feature t u f =
     rbind (ensure (has_column t (fd_target_column f))
       (''feature '' @ fd_name f @ '' targets missing column '' @ fd_target_column f)) (\<lambda>_.
     rfold (\<lambda>_ source. ensure (has_column t source) (''feature '' @ fd_name f @ '' source '' @ source @ '' is missing''))
       () (fd_source_columns f))"

definition table_descriptor_validate :: "table_descriptor \<Rightarrow> string + unit" where
  "table_descriptor_validate t =
     rbind (ensure (trim (td_name t) \<noteq> []) ''table name cannot be empty'') (\<lambda>_.
     rbind (ensure (list_ex cd_primary (td_columns t)) (''table '' @ td_name t @ '' has no primary id column'')) (\<lambda>_.
     rbind (ensure (list_ex cd_tenant (td_columns t)) (''table '' @ td_name t @ '' has no tenant column'')) (\<lambda>_.
     rbind (rfold validate_vector_column () (td_columns t)) (\<lambda>_.
     rfold (validate_feature t) () (td_features t)))))"

definition requires_module :: "table_descriptor \<Rightarrow> string \<Rightarrow> bool" where
  "requires_module t module_id = list_ex (\<lambda>r. mr_module_id r = module_id) (td_module_requirements t)"

lemma rfold_unit: "rfold f () xs = Inr () \<longleftrightarrow> (\<forall>x \<in> set xs. f () x = Inr ())"
  by (induction xs) (auto simp: rbind_eq_Inr)

lemma table_descriptor_valid_iff:
  "table_descriptor_validate t = Inr () \<longleftrightarrow>
     trim (td_name t) \<noteq> [] \<and> (\<exists>c \<in> set (td_columns t). cd_primary c) \<and> (\<exists>c \<in> set (td_columns t). cd_tenant c) \<and>
     (\<forall>c \<in> set (td_columns t). \<forall>element metric. cd_logical_type c \<noteq> LtVector element 0 metric) \<and>
     (\<forall>f \<in> set (td_features t). \<forall>name \<in> insert (fd_target_column f) (set (fd_source_columns f)).
        name \<in> cd_name ` set (td_columns t))"
proof -
  have cols: "has_column t name \<longleftrightarrow> name \<in> cd_name ` set (td_columns t)" for name
    by (force simp: has_column_def list_ex_iff)
  have vec: "validate_vector_column () c = Inr () \<longleftrightarrow> (\<forall>element metric. cd_logical_type c \<noteq> LtVector element 0 metric)" for c
    by (auto simp: validate_vector_column_def ensure_eq_Inr split: logical_type.splits)
  have feat: "validate_feature t () f = Inr () \<longleftrightarrow>
      (\<forall>name \<in> insert (fd_target_column f) (set (fd_source_columns f)). name \<in> cd_name ` set (td_columns t))" for f
    by (simp add: validate_feature_def rbind_eq_Inr rfold_unit cols ensure_eq_Inr)
  show ?thesis
    unfolding table_descriptor_validate_def
    by (simp add: rbind_eq_Inr rfold_unit vec feat ensure_eq_Inr list_ex_iff)
qed

section \<open>The catalog of databases and branches\<close>

datatype branch_state = Active | Idle | Warming | BackgroundOnly | Suspended

record database_catalog_entry =
  de_org_id :: string
  de_project_id :: string
  de_database_id :: string
  de_name :: string
  de_region :: string
  de_endpoint :: string

record branch_catalog_entry =
  be_database_id :: string
  be_branch_id :: string
  be_parent_branch_id :: "string option"
  be_state :: branch_state
  be_endpoint :: string

record catalog =
  ca_databases :: "(string, database_catalog_entry) bmap"
  ca_branches :: "(string, branch_catalog_entry) bmap"

definition catalog_default :: catalog where
  "catalog_default = \<lparr>ca_databases = [], ca_branches = []\<rparr>"

definition create_database :: "string \<Rightarrow> string \<Rightarrow> string \<Rightarrow> string \<Rightarrow> catalog \<Rightarrow> database_catalog_entry \<times> catalog" where
  "create_database org_id project_id name region c =
     (let database_id = ''db_'' @ name;
          entry = \<lparr>de_org_id = org_id, de_project_id = project_id, de_database_id = database_id, de_name = name,
                   de_region = region, de_endpoint = ''https://'' @ database_id @ ''.tracedb.local''\<rparr>
      in (entry, c\<lparr>ca_databases := bm_insert database_id entry (ca_databases c)\<rparr>))"

definition create_branch :: "string \<Rightarrow> string \<Rightarrow> string option \<Rightarrow> catalog \<Rightarrow> string + (branch_catalog_entry \<times> catalog)" where
  "create_branch database_id branch_name parent_branch_id c =
     rbind (ensure (bm_contains (ca_databases c) database_id) (''unknown database '' @ database_id)) (\<lambda>_.
     let branch_id = database_id @ '':'' @ branch_name;
         entry = \<lparr>be_database_id = database_id, be_branch_id = branch_id, be_parent_branch_id = parent_branch_id,
                  be_state = Active, be_endpoint = ''https://'' @ database_id @ ''.tracedb.local/'' @ branch_name\<rparr>
     in Inr (entry, c\<lparr>ca_branches := bm_insert branch_id entry (ca_branches c)\<rparr>))"

definition catalog_branch :: "catalog \<Rightarrow> string \<Rightarrow> branch_catalog_entry option" where
  "catalog_branch c branch_id = bm_get (ca_branches c) branch_id"

text \<open>Loading and saving, with the file as an optional byte string.\<close>

definition catalog_load :: "(bytes \<Rightarrow> string + catalog) \<Rightarrow> bytes option \<Rightarrow> string + catalog" where
  "catalog_load parse content = (case content of None \<Rightarrow> Inr catalog_default | Some body \<Rightarrow> parse body)"

definition catalog_save :: "(catalog \<Rightarrow> string + bytes) \<Rightarrow> catalog \<Rightarrow> string + bytes option" where
  "catalog_save print c = rbind (print c) (\<lambda>body. Inr (Some body))"

lemma catalog_saved_loads:
  "(\<And>body. print c = Inr body \<Longrightarrow> parse body = Inr c) \<Longrightarrow> catalog_save print c = Inr content \<Longrightarrow>
     catalog_load parse content = Inr c"
  by (auto simp: catalog_save_def catalog_load_def rbind_eq_Inr)

datatype catalog_command = CreateDatabase string string string string | CreateBranch string string "string option"

fun catalog_step :: "catalog \<Rightarrow> catalog_command \<Rightarrow> catalog" where
  "catalog_step c (CreateDatabase org_id project_id name region) = snd (create_database org_id project_id name region c)"
| "catalog_step c (CreateBranch database_id name parent) =
     (case create_branch database_id name parent c of Inr (_, c') \<Rightarrow> c' | Inl _ \<Rightarrow> c)"

definition catalog_ok :: "catalog \<Rightarrow> bool" where
  "catalog_ok c \<longleftrightarrow>
     (\<forall>b e. bm_get (ca_branches c) b = Some e \<longrightarrow> be_branch_id e = b \<and> bm_contains (ca_databases c) (be_database_id e)) \<and>
     (\<forall>d e. bm_get (ca_databases c) d = Some e \<longrightarrow> de_database_id e = d)"

lemma catalog_step_ok: "catalog_ok c \<Longrightarrow> catalog_ok (catalog_step c cmd)"
  by (cases cmd)
     (auto simp: catalog_ok_def create_database_def create_branch_def Let_def ensure_def rbind_def split: sum.splits if_splits)

lemma catalog_run_ok: "catalog_ok (foldl catalog_step catalog_default cmds)"
  by (induction cmds rule: rev_induct) (simp_all add: catalog_step_ok, simp add: catalog_ok_def catalog_default_def)

section \<open>Provenance, overlay, activation\<close>

record provenance =
  pv_source_type :: string
  pv_source_id :: "string option"
  pv_source_uri :: "string option"
  pv_parent_records :: "string list"
  pv_created_by :: string

definition provenance_source_uri :: "string \<Rightarrow> string \<Rightarrow> provenance" where
  "provenance_source_uri uri created_by =
     \<lparr>pv_source_type = ''uri'', pv_source_id = None, pv_source_uri = Some uri, pv_parent_records = [], pv_created_by = created_by\<rparr>"

record retrieval_audit =
  ra_query_id :: string
  ra_read_epoch :: u64
  ra_access_paths :: "string list"
  ra_candidate_ids :: "string list"
  ra_returned_ids :: "string list"
  ra_suppressed_ids :: "string list"

definition retrieval_audit_new :: "string \<Rightarrow> u64 \<Rightarrow> retrieval_audit" where
  "retrieval_audit_new query_id read_epoch =
     \<lparr>ra_query_id = query_id, ra_read_epoch = read_epoch, ra_access_paths = [], ra_candidate_ids = [],
      ra_returned_ids = [], ra_suppressed_ids = []\<rparr>"

definition with_returned :: "string list \<Rightarrow> retrieval_audit \<Rightarrow> retrieval_audit" where
  "with_returned ids a = a\<lparr>ra_returned_ids := ids\<rparr>"

datatype retrieval_mode = Observe | Suppress | Recall

record retrieval_event =
  re_record_id :: string
  re_mode :: retrieval_mode
  re_reason :: string

record retrieval_overlay =
  ov_events :: "retrieval_event list"
  ov_suppression :: "(string, f32) bmap"

definition overlay_record :: "string \<Rightarrow> retrieval_mode \<Rightarrow> string \<Rightarrow> retrieval_overlay \<Rightarrow> retrieval_overlay" where
  "overlay_record record_id mode reason o' =
     o'\<lparr>ov_suppression := (if mode = Suppress then bm_insert record_id 0x3F800000 (ov_suppression o') else ov_suppression o'),
        ov_events := ov_events o' @ [\<lparr>re_record_id = record_id, re_mode = mode, re_reason = reason\<rparr>]\<rparr>"

definition suppression_penalty :: "retrieval_overlay \<Rightarrow> string \<Rightarrow> f32" where
  "suppression_penalty o' record_id = (case bm_get (ov_suppression o') record_id of Some p \<Rightarrow> p | None \<Rightarrow> 0)"

text \<open>A record is penalised exactly when it was suppressed once: a later recall does not lift it.\<close>

lemma suppression_sticks:
  "suppression_penalty (fold (\<lambda>(i, m, r). overlay_record i m r) es \<lparr>ov_events = [], ov_suppression = []\<rparr>) rid =
     (if \<exists>r. (rid, Suppress, r) \<in> set es then 0x3F800000 else 0)"
proof -
  have "bm_get (ov_suppression (fold (\<lambda>(i, m, r). overlay_record i m r) es ov)) rid =
      (if \<exists>r. (rid, Suppress, r) \<in> set es then Some 0x3F800000 else bm_get (ov_suppression ov) rid)" for ov
    by (induction es arbitrary: ov) (auto simp: overlay_record_def)
  then show ?thesis by (simp add: suppression_penalty_def)
qed

record activation_state =
  as_record_id :: string
  as_activation_level :: f32
  as_reinforcement_count :: u64

definition activation_new :: "string \<Rightarrow> activation_state" where
  "activation_new record_id = \<lparr>as_record_id = record_id, as_activation_level = 0, as_reinforcement_count = 0\<rparr>"

definition reinforce :: "f32 \<Rightarrow> activation_state \<Rightarrow> activation_state" where
  "reinforce amount a =
     a\<lparr>as_activation_level := f32_add (as_activation_level a) (f32_max amount 0),
       as_reinforcement_count := as_reinforcement_count a + 1\<rparr>"

record kernel_invariant_report =
  kr_latest_epoch :: u64
  kr_wal_authoritative :: bool
  kr_manifest_authoritative :: bool
  kr_final_visibility_guard_enabled :: bool

definition kernel_healthy :: "u64 \<Rightarrow> kernel_invariant_report" where
  "kernel_healthy latest_epoch =
     \<lparr>kr_latest_epoch = latest_epoch, kr_wal_authoritative = True, kr_manifest_authoritative = True,
      kr_final_visibility_guard_enabled = True\<rparr>"

section \<open>Usage meters\<close>

datatype meter_kind = MkRequest | MkComputeMs | MkVectorDistanceUnit | MkIndexBuildUnit | MkEmbeddingJobUnit
  | MkStorageByte | MkBranchDeltaByte

text \<open>The totals as a finite map; the addition is the machine's.\<close>

type_synonym usage_meter = "meter_kind \<Rightarrow> u64 option"

definition usage_record :: "meter_kind \<Rightarrow> u64 \<Rightarrow> usage_meter \<Rightarrow> usage_meter" where
  "usage_record kind units m = m(kind \<mapsto> (case m kind of Some n \<Rightarrow> n | None \<Rightarrow> 0) + units)"

definition usage_total_of :: "usage_meter \<Rightarrow> meter_kind \<Rightarrow> u64" where
  "usage_total_of m kind = (case m kind of Some n \<Rightarrow> n | None \<Rightarrow> 0)"

lemma usage_total:
  "usage_total_of (fold (\<lambda>(k, n). usage_record k n) rs (\<lambda>_. None)) kind = sum_list (map snd (filter (\<lambda>r. fst r = kind) rs))"
proof -
  have "usage_total_of (fold (\<lambda>(k, n). usage_record k n) rs m) kind =
      usage_total_of m kind + sum_list (map snd (filter (\<lambda>r. fst r = kind) rs))" for m
    by (induction rs arbitrary: m) (auto simp: usage_record_def usage_total_of_def)
  then show ?thesis by (simp add: usage_total_of_def)
qed

section \<open>Segment cache and segment server\<close>

record object_ref =
  or_path :: string
  or_checksum :: bytes

record segment_cache =
  sc_capacity :: nat
  sc_entries :: "object_ref list"

definition segment_cache_new :: "nat \<Rightarrow> segment_cache" where
  "segment_cache_new capacity = \<lparr>sc_capacity = max capacity 1, sc_entries = []\<rparr>"

text \<open>The loop removes from the back while there are more entries than the capacity.\<close>

definition segment_cache_insert :: "object_ref \<Rightarrow> segment_cache \<Rightarrow> segment_cache" where
  "segment_cache_insert ob c =
     c\<lparr>sc_entries := take (sc_capacity c) (ob # filter (\<lambda>e. or_path e \<noteq> or_path ob) (sc_entries c))\<rparr>"

definition segment_cache_get :: "segment_cache \<Rightarrow> string \<Rightarrow> object_ref option" where
  "segment_cache_get c path = find (\<lambda>e. or_path e = path) (sc_entries c)"

definition segment_cache_ok :: "segment_cache \<Rightarrow> bool" where
  "segment_cache_ok c \<longleftrightarrow> 1 \<le> sc_capacity c \<and> length (sc_entries c) \<le> sc_capacity c \<and> distinct (map or_path (sc_entries c))"

lemma segment_cache_insert_ok: "segment_cache_ok c \<Longrightarrow> segment_cache_ok (segment_cache_insert ob c)"
proof -
  assume ok: "segment_cache_ok c"
  have "distinct (map or_path (ob # filter (\<lambda>e. or_path e \<noteq> or_path ob) (sc_entries c)))"
    using ok by (auto simp: segment_cache_ok_def distinct_map_filter)
  then have "distinct (map or_path (take (sc_capacity c) (ob # filter (\<lambda>e. or_path e \<noteq> or_path ob) (sc_entries c))))"
    by (metis distinct_take take_map)
  with ok show ?thesis unfolding segment_cache_ok_def segment_cache_insert_def by simp
qed

lemma segment_cache_run_ok: "segment_cache_ok (fold segment_cache_insert obs (segment_cache_new capacity))"
proof -
  have "segment_cache_ok c \<Longrightarrow> segment_cache_ok (fold segment_cache_insert obs c)" for c
    by (induction obs arbitrary: c) (simp_all add: segment_cache_insert_ok)
  then show ?thesis by (simp add: segment_cache_ok_def segment_cache_new_def)
qed

lemma segment_cache_insert_get:
  "segment_cache_ok c \<Longrightarrow> segment_cache_get (segment_cache_insert ob c) (or_path ob) = Some ob"
  by (cases "sc_capacity c") (auto simp: segment_cache_get_def segment_cache_insert_def segment_cache_ok_def)

type_synonym segment_server = "(string, object_ref) bmap"

definition server_publish :: "object_ref \<Rightarrow> segment_server \<Rightarrow> string + segment_server" where
  "server_publish ob s =
     rbind (ensure (or_checksum ob \<noteq> zero32) ''object checksum cannot be zero'') (\<lambda>_. Inr (bm_insert (or_path ob) ob s))"

definition server_get :: "segment_server \<Rightarrow> string \<Rightarrow> object_ref option" where
  "server_get s path = bm_get s path"

lemma server_publish_get:
  assumes "server_publish ob s = Inr s'"
  shows "server_get s' path = (if path = or_path ob then Some ob else server_get s path)"
  using assms by (auto simp: server_publish_def server_get_def rbind_eq_Inr)

definition server_ok :: "segment_server \<Rightarrow> bool" where
  "server_ok s \<longleftrightarrow> (\<forall>path ob. server_get s path = Some ob \<longrightarrow> or_path ob = path \<and> or_checksum ob \<noteq> zero32)"

lemma segment_server_run_ok:
  "server_ok (fold (\<lambda>ob s. case server_publish ob s of Inr s' \<Rightarrow> s' | Inl _ \<Rightarrow> s) obs [])"
proof -
  have "server_ok s \<Longrightarrow> server_ok (fold (\<lambda>ob s. case server_publish ob s of Inr s' \<Rightarrow> s' | Inl _ \<Rightarrow> s) obs s)" for s
  proof (induction obs arbitrary: s)
    case (Cons ob obs)
    have "server_ok (case server_publish ob s of Inr s' \<Rightarrow> s' | Inl _ \<Rightarrow> s)"
    proof (cases "server_publish ob s")
      case (Inr s')
      then have "or_checksum ob \<noteq> zero32" by (auto simp: server_publish_def rbind_eq_Inr ensure_eq_Inr)
      with Cons.prems Inr show ?thesis by (auto simp: server_ok_def server_publish_get [OF Inr])
    qed (use Cons.prems in simp)
    with Cons.IH show ?case by simp
  qed simp
  moreover have "server_ok []" by (simp add: server_ok_def server_get_def)
  ultimately show ?thesis by blast
qed

end
