(* ===== verification/Keeper.thy ===== *)
theory Keeper
  imports BTree_Map "HOL-Library.Countable"
begin

text \<open>
  The branch write-ahead service of \<open>crates/tracedb-keeper/src/lib.rs\<close>: commits get the next epoch of
  their branch, a repeated idempotency key gets the acknowledgement of its first commit, and the
  whole state is written to one JSON file through a temporary file and a rename.

  The JSON codec is a parameter. The outcome of every file operation is an argument
  (\<open>keeper_env\<close>); a failed or interrupted write leaves any prefix of its bytes. The step relation
  \<open>keeper_step\<close> lets commits succeed, fail at any file operation, or be cut by a crash, after which
  the service is opened again.

  \<open>keeper_commits_once\<close> states the contract; \<open>failed_persist_acknowledges_lost_commit\<close> records
  that a commit whose write failed is acknowledged by a retry although the file never got it.
\<close>

section \<open>Data\<close>

record commit_request =
  cq_branch_id :: string
  cq_idempotency_key :: string
  cq_payload :: string

record commit_ack =
  ca_branch_id :: string
  ca_epoch :: u64
  ca_idempotency_key :: string

record durable_commit =
  dc_branch_id :: string
  dc_epoch :: u64
  dc_idempotency_key :: string
  dc_payload :: string

record branch_wal_service =
  bw_next_epoch :: "(string, u64) bmap"
  bw_idempotent :: "(string, commit_ack) bmap"
  bw_commit_log :: "durable_commit list"
  bw_durable_path :: "string option"

definition default_service :: branch_wal_service where
  "default_service = \<lparr>bw_next_epoch = [], bw_idempotent = [], bw_commit_log = [], bw_durable_path = None\<rparr>"

text \<open>
  \<open>serde_json::to_vec_pretty\<close> and \<open>from_slice\<close> of the service; the field \<open>durable_path\<close> is skipped, so
  a parsed service has none. The files are a map from paths to contents.
\<close>

record keeper_prims =
  kp_json :: "branch_wal_service \<Rightarrow> string + bytes"
  kp_parse :: "bytes \<Rightarrow> string + branch_wal_service"

type_synonym keeper_disk = "string \<rightharpoonup> bytes"

text \<open>
  The outcome of each operation of \<open>StdDurableWriteOps\<close> and of \<open>fs::read\<close>: \<open>None\<close> is success. A failed
  write also says how many bytes had reached the file.
\<close>

record keeper_env =
  ke_mkdir :: "string option"
  ke_write :: "(string \<times> nat) option"
  ke_sync :: "string option"
  ke_rename :: "string option"
  ke_sync_dir :: "string option"
  ke_read :: "string option"

definition env_ok :: keeper_env where
  "env_ok = \<lparr>ke_mkdir = None, ke_write = None, ke_sync = None, ke_rename = None, ke_sync_dir = None,
     ke_read = None\<rparr>"

section \<open>Paths\<close>

text \<open>
  \<open>Path::parent\<close> and \<open>Path::with_extension\<close> for a path whose last component is an ordinary file
  name: the directory part ends with the last slash, the extension starts with the last dot of
  the name that is not its first character.
\<close>

definition is_sep :: "char \<Rightarrow> bool" where
  "is_sep c = (c = CHR ''/'')"

definition dir_part :: "string \<Rightarrow> string" where
  "dir_part path = rev (dropWhile (\<lambda>c. \<not> is_sep c) (rev path))"

definition file_name :: "string \<Rightarrow> string" where
  "file_name path = rev (takeWhile (\<lambda>c. \<not> is_sep c) (rev path))"

definition file_stem :: "string \<Rightarrow> string" where
  "file_stem path =
     (let nm = file_name path; before = rev (dropWhile (\<lambda>c. c \<noteq> CHR ''.'') (rev nm))
      in if length before \<le> 1 then nm else butlast before)"

definition with_extension :: "string \<Rightarrow> string \<Rightarrow> string" where
  "with_extension path ext = dir_part path @ file_stem path @ ''.'' @ ext"

definition non_empty_parent :: "string \<Rightarrow> string option" where
  "non_empty_parent path = (if dir_part path = [] then None else Some (dir_part path))"

section \<open>Operations\<close>

definition idempotency_key :: "string \<Rightarrow> string \<Rightarrow> string" where
  "idempotency_key branch_id key = branch_id @ [CHR 0x1F] @ key"

text \<open>Each operation of \<open>StdDurableWriteOps\<close> either fails or has its effect.\<close>

definition op_result :: "string option \<Rightarrow> string + unit" where
  "op_result failure = (case failure of Some e \<Rightarrow> Inl e | None \<Rightarrow> Inr ())"

definition persist_body :: "keeper_env \<Rightarrow> string \<Rightarrow> bytes \<Rightarrow> keeper_disk \<Rightarrow> (string + unit) \<times> keeper_disk" where
  "persist_body env path body d =
     (let parent = non_empty_parent path;
          tmp_path = with_extension path ''json.tmp''
      in case (if parent = None then Inr () else op_result (ke_mkdir env)) of
           Inl e \<Rightarrow> (Inl e, d)
         | Inr _ \<Rightarrow>
        (case ke_write env of
           Some (e, n) \<Rightarrow> (Inl e, d(tmp_path \<mapsto> take n body))
         | None \<Rightarrow>
             let d1 = d(tmp_path \<mapsto> body)
             in case op_result (ke_sync env) of
                  Inl e \<Rightarrow> (Inl e, d1)
                | Inr _ \<Rightarrow>
               (case op_result (ke_rename env) of
                  Inl e \<Rightarrow> (Inl e, d1)
                | Inr _ \<Rightarrow>
                    let d2 = (d1(tmp_path := None))(path \<mapsto> body)
                    in (if parent = None then Inr () else op_result (ke_sync_dir env), d2))))"

definition persist :: "keeper_prims \<Rightarrow> keeper_env \<Rightarrow> branch_wal_service \<Rightarrow> keeper_disk \<Rightarrow> (string + unit) \<times> keeper_disk" where
  "persist P env s d =
     (case bw_durable_path s of
        None \<Rightarrow> (Inr (), d)
      | Some path \<Rightarrow>
          (case kp_json P s of
             Inl e \<Rightarrow> (Inl e, d)
           | Inr body \<Rightarrow> persist_body env path body d))"

definition open_service :: "keeper_prims \<Rightarrow> keeper_env \<Rightarrow> string \<Rightarrow> keeper_disk \<Rightarrow> string + branch_wal_service" where
  "open_service P env path d =
     rbind (case d path of
              Some body \<Rightarrow> (case ke_read env of Some e \<Rightarrow> Inl e | None \<Rightarrow> kp_parse P body)
            | None \<Rightarrow> Inr default_service)
       (\<lambda>service. Inr (service\<lparr>bw_durable_path := Some path\<rparr>))"

text \<open>The state after the commit is made in memory, before it is written.\<close>

definition apply_commit :: "branch_wal_service \<Rightarrow> commit_request \<Rightarrow> commit_ack \<times> branch_wal_service" where
  "apply_commit s request =
     (let key = idempotency_key (cq_branch_id request) (cq_idempotency_key request);
          next_epoch = bm_or_insert (cq_branch_id request) 1 (bw_next_epoch s);
          epoch = (case bm_get next_epoch (cq_branch_id request) of Some e \<Rightarrow> e | None \<Rightarrow> 1);
          ack = \<lparr>ca_branch_id = cq_branch_id request, ca_epoch = epoch,
                 ca_idempotency_key = cq_idempotency_key request\<rparr>
      in (ack, s\<lparr>bw_next_epoch := bm_insert (cq_branch_id request) (epoch + 1) next_epoch,
                bw_commit_log := bw_commit_log s @
                  [\<lparr>dc_branch_id = ca_branch_id ack, dc_epoch = ca_epoch ack,
                    dc_idempotency_key = ca_idempotency_key ack, dc_payload = cq_payload request\<rparr>],
                bw_idempotent := bm_insert key ack (bw_idempotent s)\<rparr>))"

definition commit_request_step ::
    "keeper_prims \<Rightarrow> keeper_env \<Rightarrow> commit_request \<Rightarrow> branch_wal_service \<times> keeper_disk \<Rightarrow>
     (string + commit_ack) \<times> branch_wal_service \<times> keeper_disk" where
  "commit_request_step P env request = (\<lambda>(s, d).
     case bm_get (bw_idempotent s) (idempotency_key (cq_branch_id request) (cq_idempotency_key request)) of
       Some existing \<Rightarrow> (Inr existing, s, d)
     | None \<Rightarrow>
         let (ack, s') = apply_commit s request;
             (res, d') = persist P env s' d
         in (rbind res (\<lambda>_. Inr ack), s', d'))"

section \<open>Temporary files\<close>

lemma path_split: "path = dir_part path @ file_name path"
proof -
  have "rev path = takeWhile (\<lambda>c. \<not> is_sep c) (rev path) @ dropWhile (\<lambda>c. \<not> is_sep c) (rev path)"
    by simp
  then have "path = rev (dropWhile (\<lambda>c. \<not> is_sep c) (rev path)) @ rev (takeWhile (\<lambda>c. \<not> is_sep c) (rev path))"
    by (metis rev_append rev_rev_ident)
  then show ?thesis by (simp add: dir_part_def file_name_def)
qed

lemma name_split: "\<exists>ext. file_name path = file_stem path @ ext \<and> (ext = [] \<or> CHR ''.'' \<notin> set (tl ext))"
proof -
  let ?nm = "file_name path"
  let ?ext = "rev (takeWhile (\<lambda>c. c \<noteq> CHR ''.'') (rev ?nm))"
  let ?before = "rev (dropWhile (\<lambda>c. c \<noteq> CHR ''.'') (rev ?nm))"
  have split: "?nm = ?before @ ?ext"
    by (metis rev_append rev_rev_ident takeWhile_dropWhile_id)
  show ?thesis
  proof (cases "length ?before \<le> 1")
    case True
    then show ?thesis by (auto simp: file_stem_def)
  next
    case False
    then have "?before = butlast ?before @ [last ?before]"
      by (metis append_butlast_last_id list.size(3) zero_le)
    then have "?nm = butlast ?before @ (last ?before # ?ext)"
      using split by (metis append.assoc append_Cons append_Nil)
    moreover have "CHR ''.'' \<notin> set ?ext" by (auto dest: set_takeWhileD)
    ultimately show ?thesis using False by (auto simp: file_stem_def Let_def)
  qed
qed

text \<open>The temporary file is never the file itself.\<close>

lemma tmp_path_neq: "with_extension path ''json.tmp'' \<noteq> path"
proof
  assume eq: "with_extension path ''json.tmp'' = path"
  obtain ext where nm: "file_name path = file_stem path @ ext" and ext: "ext = [] \<or> CHR ''.'' \<notin> set (tl ext)"
    using name_split by blast
  have "path = dir_part path @ file_stem path @ ext"
    using path_split [of path] nm by simp
  with eq have "ext = ''.json.tmp''"
    unfolding with_extension_def by (metis append.assoc append_Cons append_Nil same_append_eq)
  with ext show False by simp
qed

section \<open>Crashes\<close>

text \<open>What a crash during \<open>persist_body\<close> can leave.\<close>

inductive persist_cut :: "string \<Rightarrow> bytes \<Rightarrow> keeper_disk \<Rightarrow> keeper_disk \<Rightarrow> bool" for path body d where
  before_write: "persist_cut path body d d"
| during_write: "persist_cut path body d (d(with_extension path ''json.tmp'' \<mapsto> take n body))"
| after_rename: "persist_cut path body d ((d(with_extension path ''json.tmp'' := None))(path \<mapsto> body))"

inductive_cases persist_cutE: "persist_cut path body d d'"

lemma persist_cut_file: "persist_cut path body d d' \<Longrightarrow> d' path = d path \<or> d' path = Some body"
  by (erule persist_cutE) (use tmp_path_neq [of path] in auto)

lemma persist_body_file:
  assumes "persist_body env path body d = (r, d')"
  shows "d' path = d path \<or> d' path = Some body" "r = Inr () \<Longrightarrow> d' path = Some body"
  using assms tmp_path_neq [of path]
  by (auto simp: persist_body_def op_result_def Let_def split: option.splits sum.splits if_splits)

section \<open>The contract of the service\<close>

text \<open>The codec restores what it wrote; the path is not part of the file.\<close>

definition keeper_codec_ok :: "keeper_prims \<Rightarrow> bool" where
  "keeper_codec_ok P \<longleftrightarrow>
     (\<forall>s body. kp_json P s = Inr body \<longrightarrow> kp_parse P body = Inr (s\<lparr>bw_durable_path := None\<rparr>))"

definition commit_key :: "durable_commit \<Rightarrow> string" where
  "commit_key c = idempotency_key (dc_branch_id c) (dc_idempotency_key c)"

definition ack_of :: "durable_commit \<Rightarrow> commit_ack" where
  "ack_of c = \<lparr>ca_branch_id = dc_branch_id c, ca_epoch = dc_epoch c, ca_idempotency_key = dc_idempotency_key c\<rparr>"

definition branch_epochs :: "string \<Rightarrow> durable_commit list \<Rightarrow> u64 list" where
  "branch_epochs b log = map dc_epoch (filter (\<lambda>c. dc_branch_id c = b) log)"

definition numbered_from_one :: "u64 list \<Rightarrow> bool" where
  "numbered_from_one es \<longleftrightarrow> es = map of_nat [1..<Suc (length es)]"

definition service_inv :: "branch_wal_service \<Rightarrow> bool" where
  "service_inv s \<longleftrightarrow>
     bm_wf (bw_next_epoch s) \<and> bm_wf (bw_idempotent s) \<and>
     distinct (map commit_key (bw_commit_log s)) \<and>
     (\<forall>k. bm_get (bw_idempotent s) k = map_option ack_of (find (\<lambda>c. commit_key c = k) (bw_commit_log s))) \<and>
     (\<forall>b. numbered_from_one (branch_epochs b (bw_commit_log s))) \<and>
     (\<forall>b. bm_get (bw_next_epoch s) b =
        (if branch_epochs b (bw_commit_log s) = [] then None
         else Some (of_nat (Suc (length (branch_epochs b (bw_commit_log s)))))))"

inductive keeper_step ::
    "keeper_prims \<Rightarrow> string \<Rightarrow> branch_wal_service \<times> keeper_disk \<Rightarrow> branch_wal_service \<times> keeper_disk \<Rightarrow> bool"
  for P path where
  commit: "commit_request_step P env request (s, d) = (r, s', d') \<Longrightarrow> keeper_step P path (s, d) (s', d')"
| crash: "snd (apply_commit s request) = s1 \<Longrightarrow>
    bm_get (bw_idempotent s) (idempotency_key (cq_branch_id request) (cq_idempotency_key request)) = None \<Longrightarrow>
    kp_json P s1 = Inr body \<Longrightarrow> persist_cut path body d d' \<Longrightarrow> open_service P env path d' = Inr s' \<Longrightarrow>
    keeper_step P path (s, d) (s', d')"
| reopen: "open_service P env path d = Inr s' \<Longrightarrow> keeper_step P path (s, d) (s', d)"

inductive keeper_reached ::
    "keeper_prims \<Rightarrow> string \<Rightarrow> branch_wal_service \<times> keeper_disk \<Rightarrow> bool" for P path where
  fresh: "d path = None \<Longrightarrow> open_service P env path d = Inr s \<Longrightarrow> keeper_reached P path (s, d)"
| step: "keeper_reached P path st \<Longrightarrow> keeper_step P path st st' \<Longrightarrow> keeper_reached P path st'"

text \<open>The file holds some consistent state, or does not exist yet.\<close>

definition disk_inv :: "keeper_prims \<Rightarrow> string \<Rightarrow> keeper_disk \<Rightarrow> bool" where
  "disk_inv P path d \<longleftrightarrow> (\<forall>body. d path = Some body \<longrightarrow> (\<exists>s. service_inv s \<and> kp_json P s = Inr body))"

section \<open>Preservation\<close>

lemma service_inv_default: "service_inv default_service"
  by (simp add: service_inv_def default_service_def branch_epochs_def numbered_from_one_def)

lemma service_inv_path [simp]: "service_inv (s\<lparr>bw_durable_path := p\<rparr>) = service_inv s"
  by (simp add: service_inv_def)

lemma numbered_snoc: "numbered_from_one es \<Longrightarrow> numbered_from_one (es @ [of_nat (Suc (length es))])"
  by (simp add: numbered_from_one_def)

lemma apply_commit_eq:
  assumes "service_inv s"
  defines "b \<equiv> \<lambda>r. cq_branch_id r"
  shows "apply_commit s r =
    (let e = of_nat (Suc (length (branch_epochs (b r) (bw_commit_log s))));
         ack = \<lparr>ca_branch_id = b r, ca_epoch = e, ca_idempotency_key = cq_idempotency_key r\<rparr>
     in (ack, s\<lparr>bw_next_epoch := bm_insert (b r) (e + 1) (bm_or_insert (b r) 1 (bw_next_epoch s)),
        bw_commit_log := bw_commit_log s @ [\<lparr>dc_branch_id = b r, dc_epoch = e,
            dc_idempotency_key = cq_idempotency_key r, dc_payload = cq_payload r\<rparr>],
        bw_idempotent := bm_insert (idempotency_key (b r) (cq_idempotency_key r)) ack (bw_idempotent s)\<rparr>))"
  using assms by (auto simp: apply_commit_def service_inv_def Let_def bm_get_or_insert)

lemma find_append_one: "find P (xs @ [x]) = (case find P xs of Some y \<Rightarrow> Some y | None \<Rightarrow> if P x then Some x else None)"
  by (induction xs) auto

lemma service_inv_commit:
  assumes inv: "service_inv s"
    and fresh: "bm_get (bw_idempotent s) (idempotency_key (cq_branch_id r) (cq_idempotency_key r)) = None"
  shows "service_inv (snd (apply_commit s r))"
proof -
  let ?log = "bw_commit_log s" and ?k = "idempotency_key (cq_branch_id r) (cq_idempotency_key r)"
  have none: "find (\<lambda>c. commit_key c = ?k) ?log = None"
    using inv fresh by (simp add: service_inv_def)
  then have new: "?k \<notin> commit_key ` set ?log" by (auto simp: find_None_iff)
  have idem: "bm_get (bw_idempotent s) k = map_option ack_of (find (\<lambda>c. commit_key c = k) ?log)" for k
    using inv by (simp add: service_inv_def)
  have num: "numbered_from_one (branch_epochs b ?log)"
    and nxt: "bm_get (bw_next_epoch s) b = (if branch_epochs b ?log = [] then None
      else Some (of_nat (Suc (length (branch_epochs b ?log)))))" for b
    using inv by (simp_all add: service_inv_def)
  have "branch_epochs b (?log @ [c]) = branch_epochs b ?log @ (if dc_branch_id c = b then [dc_epoch c] else [])" for b c
    by (simp add: branch_epochs_def)
  then show ?thesis
    using inv new none num [THEN numbered_snoc] num
    by (auto simp: apply_commit_eq [OF inv] service_inv_def Let_def idem nxt find_append_one ack_of_def bm_get_or_insert commit_key_def bm_or_insert_wf split: option.splits)
qed

lemma apply_commit_path [simp]: "bw_durable_path (snd (apply_commit s r)) = bw_durable_path s"
  by (simp add: apply_commit_def Let_def)

lemma open_service_inv:
  assumes "keeper_codec_ok P" and "disk_inv P path d" and "open_service P env path d = Inr s"
  shows "service_inv s \<and> bw_durable_path s = Some path"
  using assms
  by (auto simp: open_service_def disk_inv_def keeper_codec_ok_def service_inv_default rbind_eq_Inr
      split: option.splits)

lemma disk_inv_write:
  "disk_inv P path d \<Longrightarrow> service_inv s \<Longrightarrow> kp_json P s = Inr body \<Longrightarrow>
   d' path = d path \<or> d' path = Some body \<Longrightarrow> disk_inv P path d'"
  unfolding disk_inv_def by auto

lemma commit_step_inv:
  assumes "commit_request_step P env r (s, d) = (res, s', d')" and "service_inv s"
    and "disk_inv P path d" and "bw_durable_path s = Some path"
  shows "service_inv s' \<and> disk_inv P path d' \<and> bw_durable_path s' = Some path"
proof (cases "bm_get (bw_idempotent s) (idempotency_key (cq_branch_id r) (cq_idempotency_key r))")
  case None
  let ?s1 = "snd (apply_commit s r)"
  have s1: "service_inv ?s1" by (rule service_inv_commit [OF assms(2) None])
  have s': "s' = ?s1" and d': "d' = snd (persist P env ?s1 d)"
    using assms(1) None by (auto simp: commit_request_step_def case_prod_unfold Let_def)
  have "disk_inv P path d'"
  proof (cases "kp_json P ?s1")
    case (Inr body)
    then have "persist_body env path body d = (fst (persist P env ?s1 d), d')"
      using assms(4) d' by (simp add: persist_def)
    from persist_body_file(1) [OF this] show ?thesis
      by (rule disk_inv_write [OF assms(3) s1 Inr])
  qed (use assms d' in \<open>simp add: persist_def\<close>)
  with s1 s' assms(4) show ?thesis by simp
qed (use assms in \<open>auto simp: commit_request_step_def\<close>)

lemma keeper_reached_inv:
  assumes "keeper_codec_ok P" and "keeper_reached P path (s, d)"
  shows "service_inv s \<and> disk_inv P path d \<and> bw_durable_path s = Some path"
  using assms(2)
proof (induction "(s, d)" arbitrary: s d rule: keeper_reached.induct)
  case (fresh d env s)
  then have "disk_inv P path d" by (simp add: disk_inv_def)
  with fresh open_service_inv [OF assms(1)] show ?case by blast
next
  case (step st s' d')
  obtain s d where st: "st = (s, d)" by (cases st)
  note IH = step.hyps(2) [OF st]
  from step.hyps(3)[unfolded st] show ?case
  proof (cases rule: keeper_step.cases)
    case (commit env r res)
    show ?thesis by (rule commit_step_inv [OF commit]) (use IH in blast)+
  next
    case (crash r s1 body env)
    have "service_inv s1" using IH service_inv_commit crash(1,2) by blast
    then have "disk_inv P path d'"
      using disk_inv_write IH crash(3) persist_cut_file [OF crash(4)] by blast
    with crash(5) show ?thesis using open_service_inv [OF assms(1)] by blast
  next
    case (reopen env)
    with IH show ?thesis using open_service_inv [OF assms(1)] by blast
  qed
qed

section \<open>Commits\<close>

lemma idempotency_key_inject:
  assumes "CHR 0x1F \<notin> set b" and "CHR 0x1F \<notin> set b'" and "idempotency_key b k = idempotency_key b' k'"
  shows "b = b' \<and> k = k'"
proof -
  have b: "takeWhile (\<lambda>c. c \<noteq> CHR 0x1F) (idempotency_key x y) = x" if "CHR 0x1F \<notin> set x" for x y
    using that by (induction x) (auto simp: idempotency_key_def)
  from assms b have "b = b'" by metis
  with assms(3) show ?thesis by (simp add: idempotency_key_def)
qed

lemma commit_repeated:
  assumes "service_inv s" and "c \<in> set (bw_commit_log s)"
    and "cq_branch_id r = dc_branch_id c" and "cq_idempotency_key r = dc_idempotency_key c"
  shows "commit_request_step P env r (s, d) = (Inr (ack_of c), s, d)"
proof -
  let ?log = "bw_commit_log s"
  have "distinct (map commit_key ?log)"
    and get: "bm_get (bw_idempotent s) (commit_key c) = map_option ack_of (find (\<lambda>x. commit_key x = commit_key c) ?log)"
    using assms(1) by (simp_all add: service_inv_def)
  then have only: "x = c" if "x \<in> set ?log" "commit_key x = commit_key c" for x
    using that assms(2) by (simp add: distinct_map inj_on_def)
  obtain x where x: "find (\<lambda>x. commit_key x = commit_key c) ?log = Some x"
    using assms(2) by (cases "find (\<lambda>x. commit_key x = commit_key c) ?log") (auto simp: find_None_iff)
  then have "x = c" using only find_SomeD by fast
  with x get show ?thesis
    using assms(3,4) by (simp add: commit_request_step_def commit_key_def)
qed

lemma commit_fresh_key:
  assumes inv: "service_inv s"
    and new: "\<forall>c \<in> set (bw_commit_log s). CHR 0x1F \<notin> set (dc_branch_id c) \<and>
          (dc_branch_id c, dc_idempotency_key c) \<noteq> (cq_branch_id r, cq_idempotency_key r)"
    and sep: "CHR 0x1F \<notin> set (cq_branch_id r)"
  shows "bm_get (bw_idempotent s) (idempotency_key (cq_branch_id r) (cq_idempotency_key r)) = None"
proof -
  have "commit_key c \<noteq> idempotency_key (cq_branch_id r) (cq_idempotency_key r)" if "c \<in> set (bw_commit_log s)" for c
    using that new sep idempotency_key_inject unfolding commit_key_def by blast
  then have "find (\<lambda>c. commit_key c = idempotency_key (cq_branch_id r) (cq_idempotency_key r)) (bw_commit_log s) = None"
    by (simp add: find_None_iff)
  with inv show ?thesis by (simp add: service_inv_def)
qed

lemma commit_fresh:
  assumes codec: "keeper_codec_ok P" and inv: "service_inv s" and dp: "bw_durable_path s = Some path"
    and fresh: "bm_get (bw_idempotent s) (idempotency_key (cq_branch_id r) (cq_idempotency_key r)) = None"
    and run: "commit_request_step P env r (s, d) = (Inr ack, s', d')"
  shows "ca_epoch ack = of_nat (Suc (length (branch_epochs (cq_branch_id r) (bw_commit_log s)))) \<and>
       bw_commit_log s' = bw_commit_log s @
         [\<lparr>dc_branch_id = cq_branch_id r, dc_epoch = ca_epoch ack,
           dc_idempotency_key = cq_idempotency_key r, dc_payload = cq_payload r\<rparr>] \<and>
       open_service P env_ok path d' = Inr s'"
proof -
  obtain ack1 s1 where ap: "apply_commit s r = (ack1, s1)" by fastforce
  obtain res d1 where pers: "persist P env s1 d = (res, d1)" by fastforce
  have res: "res = Inr ()" and eqs: "ack = ack1" "s' = s1" "d' = d1"
    using run fresh ap pers by (auto simp: commit_request_step_def rbind_eq_Inr)
  have dp1: "bw_durable_path s1 = Some path" using apply_commit_path [of s r] ap dp by simp
  then obtain body where json: "kp_json P s1 = Inr body" and "persist_body env path body d = (Inr (), d1)"
    using pers res by (auto simp: persist_def split: sum.splits)
  then have "d1 path = Some body" using persist_body_file(2) by blast
  then have "open_service P env_ok path d1 = Inr s1"
    using codec json dp1 by (simp add: open_service_def keeper_codec_ok_def env_ok_def)
  moreover have "(ack1, s1) = apply_commit s r" using ap by simp
  ultimately show ?thesis by (simp add: eqs apply_commit_eq [OF inv] Let_def)
qed


section \<open>An example service\<close>

instance commit_ack_ext :: (countable) countable
  by (rule countable_classI [of "\<lambda>r. to_nat (ca_branch_id r, ca_epoch r, ca_idempotency_key r, commit_ack.more r)"]) simp

instance durable_commit_ext :: (countable) countable
  by (rule countable_classI [of "\<lambda>r. to_nat (dc_branch_id r, dc_epoch r, dc_idempotency_key r, dc_payload r,
        durable_commit.more r)"]) simp

definition demo_keeper :: keeper_prims where
  "demo_keeper =
     \<lparr>kp_json = \<lambda>s. Inr (replicate (to_nat (bw_next_epoch s, bw_idempotent s, bw_commit_log s)) CHR ''a''),
      kp_parse = \<lambda>body. Inr (case from_nat (length body) of (ne, im, lg) \<Rightarrow>
        \<lparr>bw_next_epoch = ne, bw_idempotent = im, bw_commit_log = lg, bw_durable_path = None\<rparr>)\<rparr>"

lemma demo_keeper_codec: "keeper_codec_ok demo_keeper"
  by (auto simp: keeper_codec_ok_def demo_keeper_def)

definition demo_request :: commit_request where
  "demo_request = \<lparr>cq_branch_id = ''main'', cq_idempotency_key = ''k1'', cq_payload = ''p''\<rparr>"

definition demo_start :: "branch_wal_service \<times> keeper_disk" where
  "demo_start = (default_service\<lparr>bw_durable_path := Some ''k.json''\<rparr>, Map.empty)"

definition demo_next :: "branch_wal_service \<times> keeper_disk" where
  "demo_next = snd (commit_request_step demo_keeper env_ok demo_request demo_start)"

lemma demo_next_reached: "keeper_reached demo_keeper ''k.json'' (fst demo_next, snd demo_next)"
proof -
  have "keeper_reached demo_keeper ''k.json'' demo_start"
    unfolding demo_start_def
    by (rule keeper_reached.fresh [where env = env_ok]) (simp_all add: open_service_def)
  moreover have "keeper_step demo_keeper ''k.json'' (fst demo_start, snd demo_start) (fst demo_next, snd demo_next)"
    by (rule keeper_step.commit [where env = env_ok and request = demo_request
          and r = "fst (commit_request_step demo_keeper env_ok demo_request demo_start)"])
       (simp add: demo_next_def)
  ultimately show ?thesis by (simp add: keeper_reached.step)
qed

lemma demo_next_log:
  "bw_commit_log (fst demo_next) =
     [\<lparr>dc_branch_id = ''main'', dc_epoch = 1, dc_idempotency_key = ''k1'', dc_payload = ''p''\<rparr>]"
  by (simp add: demo_next_def demo_start_def demo_request_def commit_request_step_def default_service_def
      apply_commit_def bm_or_insert_def bm_get_Cons case_prod_unfold Let_def)


section \<open>A lost commit that is acknowledged\<close>

text \<open>
  The state in memory is changed before the file is written. When the write fails the caller gets
  the error, but a retry with the same key is acknowledged from memory and writes nothing, so a
  restart has neither the commit nor its key.
\<close>

definition env_full :: keeper_env where
  "env_full = env_ok\<lparr>ke_write := Some (''disk full'', 0)\<rparr>"

lemma failed_persist_acknowledges_lost_commit:
  defines "st \<equiv> commit_request_step demo_keeper env_full demo_request demo_start"
  shows "fst st = Inl ''disk full'' \<and>
    (\<exists>ack. commit_request_step demo_keeper env_ok demo_request (snd st) = (Inr ack, snd st)) \<and>
    open_service demo_keeper env_ok ''k.json'' (snd (snd st)) =
      Inr (default_service\<lparr>bw_durable_path := Some ''k.json''\<rparr>)"
  unfolding st_def
  by (simp add: demo_start_def demo_request_def commit_request_step_def default_service_def
      apply_commit_def bm_or_insert_def bm_get_Cons case_prod_unfold Let_def persist_def demo_keeper_def
      persist_body_def env_full_def env_ok_def op_result_def open_service_def
      non_empty_parent_def dir_part_def is_sep_def with_extension_def file_stem_def file_name_def)

end
