(* ===== verification/Remote_Storage.thy ===== *)
theory Remote_Storage
  imports BTree_Map "HOL-Library.Countable"
begin

text \<open>
  The reference storage of \<open>crates/tracedb-remote-storage/src/lib.rs\<close>: objects, the manifest pointer
  of a branch and the writer lease of a branch, kept in an object store with conditional writes.

  The object store itself (\<open>S3CompatibleStorageRuntime\<close>), the JSON codecs and SHA-256 are
  parameters; \<open>s3_conditional\<close> states what the code relies on. Every operation awaits several
  requests, and other clients run in between: the argument \<open>other\<close> is what they do to the store
  before the \<open>n\<close>-th request of the operation.

  The specification is a cell per branch that is read and replaced in one step (\<open>spec_acquire\<close>,
  \<open>spec_refresh\<close>, \<open>spec_release\<close>, \<open>spec_cas\<close>); \<open>remote_lease_refines_cell\<close> and
  \<open>remote_manifest_refines_cell\<close> show that every operation that succeeds is one such step at the
  moment of its last request.
\<close>

section \<open>Data\<close>

datatype storage_error =
    ObjectNotFound string
  | ManifestCasFailed string string
  | LeaseHeld string
  | InvalidConfig string
  | Provider string

datatype object_kind = WalChunk | CheckpointObject | ManifestPointer | LeaseObject | SegmentObjectKind | Snapshot | Export

record object_key =
  ok_database_id :: string
  ok_branch_id :: string
  ok_kind :: object_kind
  ok_name :: string

record object_record =
  or_key :: object_key
  or_bytes :: bytes
  or_checksum_sha256 :: string
  or_metadata :: "(string, string) bmap"

type_synonym put_object_request = object_record

record branch_manifest_pointer =
  mp_database_id :: string
  mp_branch_id :: string
  mp_generation :: u64
  mp_latest_epoch :: u64
  mp_durable_epoch :: u64
  mp_object_key :: object_key
  mp_checksum_sha256 :: string

record manifest_cas_request =
  mc_expected_generation :: "u64 option"
  mc_next :: branch_manifest_pointer

record lease_record =
  lr_database_id :: string
  lr_branch_id :: string
  lr_holder_id :: string
  lr_fencing_token :: u64
  lr_expires_at_unix :: u64

record acquire_lease_request =
  al_database_id :: string
  al_branch_id :: string
  al_holder_id :: string
  al_ttl_ms :: u64

record s3_profile =
  pf_region :: string
  pf_bucket :: string
  pf_endpoint_url :: "string option"
  pf_force_path_style :: bool
  pf_object_prefix :: string

datatype put_condition = NoCondition | IfAbsent | IfMatchEtag string

record s3_put_object =
  po_bucket :: string
  po_key :: string
  po_bytes :: bytes
  po_checksum_sha256 :: string
  po_metadata :: "(string, string) bmap"
  po_condition :: put_condition

record s3_get_object =
  go_bucket :: string
  go_key :: string

record s3_object_head =
  oh_etag :: string
  oh_checksum_sha256 :: "string option"
  oh_metadata :: "(string, string) bmap"

record s3_delete_object =
  do_bucket :: string
  do_key :: string
  do_if_match_etag :: "string option"

text \<open>The object store and the third-party functions. \<open>'s\<close> is the state of the store.\<close>

record 's s3_runtime =
  s3_put :: "s3_put_object \<Rightarrow> 's \<Rightarrow> (storage_error + unit) \<times> 's"
  s3_get :: "s3_get_object \<Rightarrow> 's \<Rightarrow> storage_error + object_record"
  s3_head :: "s3_get_object \<Rightarrow> 's \<Rightarrow> storage_error + s3_object_head option"
  s3_delete :: "s3_delete_object \<Rightarrow> 's \<Rightarrow> (storage_error + unit) \<times> 's"
  rs_sha256 :: "bytes \<Rightarrow> bytes"
  lease_json :: "lease_record \<Rightarrow> string + bytes"
  lease_parse :: "bytes \<Rightarrow> string + lease_record"
  pointer_json :: "branch_manifest_pointer \<Rightarrow> string + bytes"
  pointer_parse :: "bytes \<Rightarrow> string + branch_manifest_pointer"

section \<open>Paths\<close>

definition safe_byte :: "char \<Rightarrow> bool" where
  "safe_byte c = (is_ascii_alphanumeric c \<or> c = CHR ''.'' \<or> c = CHR ''_'' \<or> c = CHR ''-'')"

definition safe_component :: "string \<Rightarrow> string" where
  "safe_component val =
     (let output = concat (map (\<lambda>b. if safe_byte b then [b] else ''_'' @ hex_byte b) val)
      in if output = [] then ''_empty'' else output)"

definition as_path :: "object_kind \<Rightarrow> string" where
  "as_path k =
     (case k of WalChunk \<Rightarrow> ''wal'' | CheckpointObject \<Rightarrow> ''checkpoints'' | ManifestPointer \<Rightarrow> ''manifests''
      | LeaseObject \<Rightarrow> ''leases'' | SegmentObjectKind \<Rightarrow> ''segments'' | Snapshot \<Rightarrow> ''snapshots''
      | Export \<Rightarrow> ''exports'')"

definition object_key_path :: "object_key \<Rightarrow> string" where
  "object_key_path k =
     ''databases/'' @ safe_component (ok_database_id k) @ ''/branches/'' @ safe_component (ok_branch_id k) @
     ''/'' @ as_path (ok_kind k) @ ''/'' @ safe_component (ok_name k)"

definition trim_slashes :: "string \<Rightarrow> string" where
  "trim_slashes s = rev (dropWhile (\<lambda>c. c = CHR ''/'') (rev (dropWhile (\<lambda>c. c = CHR ''/'') s)))"

definition object_path :: "s3_profile \<Rightarrow> object_key \<Rightarrow> string" where
  "object_path pf k =
     (let pre = trim_slashes (pf_object_prefix pf)
      in if pre = [] then object_key_path k else pre @ ''/'' @ object_key_path k)"

definition manifest_pointer_key :: "string \<Rightarrow> string \<Rightarrow> object_key" where
  "manifest_pointer_key database_id branch_id =
     \<lparr>ok_database_id = database_id, ok_branch_id = branch_id, ok_kind = ManifestPointer, ok_name = ''pointer.json''\<rparr>"

definition lease_key :: "string \<Rightarrow> string \<Rightarrow> object_key" where
  "lease_key database_id branch_id =
     \<lparr>ok_database_id = database_id, ok_branch_id = branch_id, ok_kind = LeaseObject, ok_name = ''writer.json''\<rparr>"

definition rs_sha256_hex :: "('s, 'z) s3_runtime_scheme \<Rightarrow> bytes \<Rightarrow> string" where
  "rs_sha256_hex R bs = ''sha256:'' @ hex_bytes (rs_sha256 R bs)"

definition ttl_seconds :: "u64 \<Rightarrow> u64" where
  "ttl_seconds ttl_ms = sat_add64 ttl_ms 999 div 1000"

definition new_storage :: "s3_profile \<Rightarrow> storage_error + s3_profile" where
  "new_storage pf = (if trim (pf_bucket pf) = [] then Inl (InvalidConfig ''S3 bucket is required'') else Inr pf)"

section \<open>Objects\<close>

definition loc :: "s3_profile \<Rightarrow> object_key \<Rightarrow> s3_get_object" where
  "loc pf key = \<lparr>go_bucket = pf_bucket pf, go_key = object_path pf key\<rparr>"

definition put_object :: "('s, 'z) s3_runtime_scheme \<Rightarrow> s3_profile \<Rightarrow> put_object_request \<Rightarrow> 's \<Rightarrow> (storage_error + unit) \<times> 's" where
  "put_object R pf req =
     s3_put R \<lparr>po_bucket = pf_bucket pf, po_key = object_path pf (or_key req), po_bytes = or_bytes req,
       po_checksum_sha256 = or_checksum_sha256 req, po_metadata = or_metadata req, po_condition = NoCondition\<rparr>"

definition get_object :: "('s, 'z) s3_runtime_scheme \<Rightarrow> s3_profile \<Rightarrow> object_key \<Rightarrow> 's \<Rightarrow> storage_error + object_record" where
  "get_object R pf key = s3_get R (loc pf key)"

definition delete_object :: "('s, 'z) s3_runtime_scheme \<Rightarrow> s3_profile \<Rightarrow> object_key \<Rightarrow> 's \<Rightarrow> (storage_error + unit) \<times> 's" where
  "delete_object R pf key =
     s3_delete R \<lparr>do_bucket = pf_bucket pf, do_key = object_path pf key, do_if_match_etag = None\<rparr>"

section \<open>Manifest pointers\<close>

definition load_manifest_pointer ::
    "('s, 'z) s3_runtime_scheme \<Rightarrow> s3_profile \<Rightarrow> string \<Rightarrow> string \<Rightarrow> 's \<Rightarrow> storage_error + branch_manifest_pointer option" where
  "load_manifest_pointer R pf database_id branch_id s =
     (case s3_get R (loc pf (manifest_pointer_key database_id branch_id)) s of
        Inr record \<Rightarrow>
          (case pointer_parse R (or_bytes record) of Inl e \<Rightarrow> Inl (Provider e) | Inr p \<Rightarrow> Inr (Some p))
      | Inl (ObjectNotFound _) \<Rightarrow> Inr None
      | Inl e \<Rightarrow> Inl e)"

definition compare_and_swap_manifest ::
    "('s, 'z) s3_runtime_scheme \<Rightarrow> s3_profile \<Rightarrow> (nat \<Rightarrow> 's \<Rightarrow> 's) \<Rightarrow> manifest_cas_request \<Rightarrow> 's \<Rightarrow> (storage_error + unit) \<times> 's" where
  "compare_and_swap_manifest R pf other req s0 =
     (let nxt = mc_next req;
          l = loc pf (manifest_pointer_key (mp_database_id nxt) (mp_branch_id nxt));
          failed = ManifestCasFailed (mp_database_id nxt) (mp_branch_id nxt);
          s1 = other 0 s0
      in case s3_head R l s1 of
           Inl e \<Rightarrow> (Inl e, s1)
         | Inr head \<Rightarrow>
             let s2 = other 1 s1;
                 condition =
                   (case mc_expected_generation req of
                      None \<Rightarrow> if head \<noteq> None then Inl failed else Inr IfAbsent
                    | Some expected \<Rightarrow>
                        rbind (s3_get R l s2) (\<lambda>current.
                        (case pointer_parse R (or_bytes current) of
                           Inl e \<Rightarrow> Inl (Provider e)
                         | Inr pointer \<Rightarrow>
                             if mp_generation pointer \<noteq> expected then Inl failed
                             else (case head of
                                     None \<Rightarrow> Inl (ObjectNotFound (go_key l))
                                   | Some h \<Rightarrow> Inr (IfMatchEtag (oh_etag h))))))
             in case condition of
                  Inl e \<Rightarrow> (Inl e, s2)
                | Inr c \<Rightarrow>
                    (case pointer_json R nxt of
                       Inl e \<Rightarrow> (Inl (Provider e), s2)
                     | Inr bs \<Rightarrow>
                         s3_put R \<lparr>po_bucket = go_bucket l, po_key = go_key l, po_bytes = bs,
                           po_checksum_sha256 = rs_sha256_hex R bs,
                           po_metadata = bm_collect [(''database_id'', mp_database_id nxt), (''branch_id'', mp_branch_id nxt),
                             (''generation'', show_nat (unat (mp_generation nxt)))],
                           po_condition = c\<rparr> (other 2 s2)))"

section \<open>Leases\<close>

definition load_lease :: "('s, 'z) s3_runtime_scheme \<Rightarrow> s3_get_object \<Rightarrow> 's \<Rightarrow> storage_error + lease_record" where
  "load_lease R l s =
     rbind (s3_get R l s) (\<lambda>record.
       case lease_parse R (or_bytes record) of Inl e \<Rightarrow> Inl (Provider e) | Inr lease \<Rightarrow> Inr lease)"

definition put_lease ::
    "('s, 'z) s3_runtime_scheme \<Rightarrow> s3_get_object \<Rightarrow> lease_record \<Rightarrow> put_condition \<Rightarrow> 's \<Rightarrow> (storage_error + unit) \<times> 's" where
  "put_lease R l lease condition s =
     (case lease_json R lease of
        Inl e \<Rightarrow> (Inl (Provider e), s)
      | Inr bs \<Rightarrow>
          s3_put R \<lparr>po_bucket = go_bucket l, po_key = go_key l, po_bytes = bs,
            po_checksum_sha256 = rs_sha256_hex R bs,
            po_metadata = bm_collect [(''database_id'', lr_database_id lease), (''branch_id'', lr_branch_id lease),
              (''holder_id'', lr_holder_id lease), (''fencing_token'', show_nat (unat (lr_fencing_token lease))),
              (''expires_at_unix'', show_nat (unat (lr_expires_at_unix lease)))],
            po_condition = condition\<rparr> s)"

definition acquire_lease ::
    "('s, 'z) s3_runtime_scheme \<Rightarrow> s3_profile \<Rightarrow> (nat \<Rightarrow> 's \<Rightarrow> 's) \<Rightarrow> u64 \<Rightarrow> acquire_lease_request \<Rightarrow> 's \<Rightarrow>
     (storage_error + lease_record) \<times> 's" where
  "acquire_lease R pf other now req s0 =
     (let l = loc pf (lease_key (al_database_id req) (al_branch_id req));
          s1 = other 0 s0
      in case s3_head R l s1 of
           Inl e \<Rightarrow> (Inl e, s1)
         | Inr head \<Rightarrow>
             let s2 = other 1 s1;
                 plan =
                   (case head of
                      None \<Rightarrow> Inr (IfAbsent, 1)
                    | Some h \<Rightarrow>
                        rbind (load_lease R l s2) (\<lambda>current.
                          if now < lr_expires_at_unix current \<and> lr_holder_id current \<noteq> al_holder_id req
                          then Inl (LeaseHeld (lr_holder_id current))
                          else Inr (IfMatchEtag (oh_etag h), lr_fencing_token current + 1)))
             in case plan of
                  Inl e \<Rightarrow> (Inl e, s2)
                | Inr (condition, fencing_token) \<Rightarrow>
                    let lease = \<lparr>lr_database_id = al_database_id req, lr_branch_id = al_branch_id req,
                          lr_holder_id = al_holder_id req, lr_fencing_token = fencing_token,
                          lr_expires_at_unix = now + ttl_seconds (al_ttl_ms req)\<rparr>;
                        (res, s3) = put_lease R l lease condition (other 2 s2)
                    in (rbind res (\<lambda>_. Inr lease), s3))"

text \<open>Refresh and release start alike: find the lease and check that it is the caller's.\<close>

definition check_own_lease ::
    "('s, 'z) s3_runtime_scheme \<Rightarrow> s3_get_object \<Rightarrow> (nat \<Rightarrow> 's \<Rightarrow> 's) \<Rightarrow> lease_record \<Rightarrow> 's \<Rightarrow> (storage_error + string) \<times> 's" where
  "check_own_lease R l other lease s0 =
     (let s1 = other 0 s0
      in case s3_head R l s1 of
           Inl e \<Rightarrow> (Inl e, s1)
         | Inr None \<Rightarrow> (Inl (ObjectNotFound (go_key l)), s1)
         | Inr (Some h) \<Rightarrow>
             let s2 = other 1 s1
             in (rbind (load_lease R l s2) (\<lambda>current.
                   if lr_holder_id current \<noteq> lr_holder_id lease \<or> lr_fencing_token current \<noteq> lr_fencing_token lease
                   then Inl (LeaseHeld (lr_holder_id current))
                   else Inr (oh_etag h)), s2))"

definition refresh_lease ::
    "('s, 'z) s3_runtime_scheme \<Rightarrow> s3_profile \<Rightarrow> (nat \<Rightarrow> 's \<Rightarrow> 's) \<Rightarrow> u64 \<Rightarrow> lease_record \<Rightarrow> u64 \<Rightarrow> 's \<Rightarrow>
     (storage_error + lease_record) \<times> 's" where
  "refresh_lease R pf other now lease ttl_ms s0 =
     (let l = loc pf (lease_key (lr_database_id lease) (lr_branch_id lease))
      in case check_own_lease R l other lease s0 of
           (Inl e, s2) \<Rightarrow> (Inl e, s2)
         | (Inr etag, s2) \<Rightarrow>
             let refreshed = lease\<lparr>lr_expires_at_unix := now + ttl_seconds ttl_ms\<rparr>;
                 (res, s3) = put_lease R l refreshed (IfMatchEtag etag) (other 2 s2)
             in (rbind res (\<lambda>_. Inr refreshed), s3))"

definition release_lease ::
    "('s, 'z) s3_runtime_scheme \<Rightarrow> s3_profile \<Rightarrow> (nat \<Rightarrow> 's \<Rightarrow> 's) \<Rightarrow> lease_record \<Rightarrow> 's \<Rightarrow> (storage_error + unit) \<times> 's" where
  "release_lease R pf other lease s0 =
     (let l = loc pf (lease_key (lr_database_id lease) (lr_branch_id lease))
      in case check_own_lease R l other lease s0 of
           (Inl e, s2) \<Rightarrow> (Inl e, s2)
         | (Inr etag, s2) \<Rightarrow>
             s3_delete R \<lparr>do_bucket = go_bucket l, do_key = go_key l, do_if_match_etag = Some etag\<rparr> (other 2 s2))"

section \<open>What the object store promises\<close>

text \<open>
  Reads are consistent with the state: an object that is there has a head and can be read, one that
  is not has neither. Conditional requests take effect only if their condition holds at that moment. A
  successful write is what the next read returns, and an entity tag identifies the content.
\<close>

definition absent :: "('s, 'z) s3_runtime_scheme \<Rightarrow> s3_get_object \<Rightarrow> 's \<Rightarrow> bool" where
  "absent R l s \<longleftrightarrow> s3_head R l s = Inr None"

definition has_etag :: "('s, 'z) s3_runtime_scheme \<Rightarrow> s3_get_object \<Rightarrow> string \<Rightarrow> 's \<Rightarrow> bool" where
  "has_etag R l e s \<longleftrightarrow> (\<exists>h. s3_head R l s = Inr (Some h) \<and> oh_etag h = e)"

definition condition_holds :: "('s, 'z) s3_runtime_scheme \<Rightarrow> s3_get_object \<Rightarrow> put_condition \<Rightarrow> 's \<Rightarrow> bool" where
  "condition_holds R l c s \<longleftrightarrow>
     (case c of NoCondition \<Rightarrow> True | IfAbsent \<Rightarrow> absent R l s | IfMatchEtag e \<Rightarrow> has_etag R l e s)"

definition s3_conditional :: "('s, 'z) s3_runtime_scheme \<Rightarrow> bool" where
  "s3_conditional R \<longleftrightarrow>
     (\<forall>cmd s s'. s3_put R cmd s = (Inr (), s') \<longrightarrow>
        (let l = \<lparr>go_bucket = po_bucket cmd, go_key = po_key cmd\<rparr>
         in condition_holds R l (po_condition cmd) s \<and>
            (\<exists>r. s3_get R l s' = Inr r \<and> or_bytes r = po_bytes cmd))) \<and>
     (\<forall>cmd s s'. s3_delete R cmd s = (Inr (), s') \<longrightarrow>
        (let l = \<lparr>go_bucket = do_bucket cmd, go_key = do_key cmd\<rparr>
         in (\<forall>e. do_if_match_etag cmd = Some e \<longrightarrow> has_etag R l e s) \<and> absent R l s')) \<and>
     (\<forall>l s. absent R l s \<longrightarrow> (\<exists>k. s3_get R l s = Inl (ObjectNotFound k))) \<and>
     (\<forall>l s t e r r'. has_etag R l e s \<and> has_etag R l e t \<and> s3_get R l s = Inr r \<and> s3_get R l t = Inr r' \<longrightarrow>
        or_bytes r = or_bytes r') \<and>
     (\<forall>l s e. has_etag R l e s \<longrightarrow> (\<exists>r. s3_get R l s = Inr r))"

definition storage_codecs_ok :: "('s, 'z) s3_runtime_scheme \<Rightarrow> bool" where
  "storage_codecs_ok R \<longleftrightarrow>
     (\<forall>x bs. lease_json R x = Inr bs \<longrightarrow> lease_parse R bs = Inr x) \<and>
     (\<forall>x bs. pointer_json R x = Inr bs \<longrightarrow> pointer_parse R bs = Inr x)"

text \<open>
  The other clients do not bring back an old content of the object within one operation: if the
  object has the same tag at the first and at the last request, it has it at the one in between.
\<close>

definition no_aba :: "('s, 'z) s3_runtime_scheme \<Rightarrow> s3_get_object \<Rightarrow> (nat \<Rightarrow> 's \<Rightarrow> 's) \<Rightarrow> 's \<Rightarrow> bool" where
  "no_aba R l other s0 \<longleftrightarrow>
     (\<forall>e. has_etag R l e (other 0 s0) \<and> has_etag R l e (other 2 (other 1 (other 0 s0))) \<longrightarrow>
          has_etag R l e (other 1 (other 0 s0)))"

section \<open>The specification: one cell per branch\<close>

text \<open>The content of a cell: nothing, an object that cannot be decoded, or a value.\<close>

definition lease_cell :: "('s, 'z) s3_runtime_scheme \<Rightarrow> s3_get_object \<Rightarrow> 's \<Rightarrow> lease_record option" where
  "lease_cell R l s = (case load_lease R l s of Inr lease \<Rightarrow> Some lease | Inl _ \<Rightarrow> None)"

definition pointer_cell :: "('s, 'z) s3_runtime_scheme \<Rightarrow> s3_get_object \<Rightarrow> 's \<Rightarrow> branch_manifest_pointer option" where
  "pointer_cell R l s =
     (case s3_get R l s of
        Inr r \<Rightarrow> (case pointer_parse R (or_bytes r) of Inr p \<Rightarrow> Some p | Inl _ \<Rightarrow> None)
      | Inl _ \<Rightarrow> None)"

definition spec_acquire :: "u64 \<Rightarrow> acquire_lease_request \<Rightarrow> lease_record option \<Rightarrow> storage_error + lease_record" where
  "spec_acquire now req cell =
     (let grant = (\<lambda>token. \<lparr>lr_database_id = al_database_id req, lr_branch_id = al_branch_id req,
                    lr_holder_id = al_holder_id req, lr_fencing_token = token,
                    lr_expires_at_unix = now + ttl_seconds (al_ttl_ms req)\<rparr>)
      in case cell of
           None \<Rightarrow> Inr (grant 1)
         | Some cur \<Rightarrow>
             if now < lr_expires_at_unix cur \<and> lr_holder_id cur \<noteq> al_holder_id req
             then Inl (LeaseHeld (lr_holder_id cur)) else Inr (grant (lr_fencing_token cur + 1)))"

definition owns :: "lease_record \<Rightarrow> lease_record option \<Rightarrow> bool" where
  "owns lease cell \<longleftrightarrow>
     (\<exists>cur. cell = Some cur \<and> lr_holder_id cur = lr_holder_id lease \<and> lr_fencing_token cur = lr_fencing_token lease)"

definition spec_cas :: "manifest_cas_request \<Rightarrow> branch_manifest_pointer option \<Rightarrow> bool" where
  "spec_cas req cell \<longleftrightarrow> map_option mp_generation cell = mc_expected_generation req"

section \<open>Refinement\<close>

lemma s3_putD:
  assumes "s3_conditional R" and "s3_put R cmd s = (Inr (), s')" and "l = \<lparr>go_bucket = po_bucket cmd, go_key = po_key cmd\<rparr>"
  shows "condition_holds R l (po_condition cmd) s" "\<exists>r. s3_get R l s' = Inr r \<and> or_bytes r = po_bytes cmd"
  using assms unfolding s3_conditional_def Let_def by blast+

lemma put_lease_ok:
  assumes "s3_conditional R" and "storage_codecs_ok R" and "put_lease R l lease c s = (Inr (), s')"
  shows "condition_holds R l c s \<and> lease_cell R l s' = Some lease"
proof -
  obtain bs where bs: "lease_json R lease = Inr bs"
    using assms(3) by (auto simp: put_lease_def split: sum.splits)
  then have "lease_parse R bs = Inr lease" using assms(2) unfolding storage_codecs_ok_def by blast
  with s3_putD [OF assms(1), of _ s s' l] assms(3) bs show ?thesis
    by (fastforce simp: put_lease_def lease_cell_def load_lease_def)
qed

lemma absent_cell: "s3_conditional R \<Longrightarrow> absent R l s \<Longrightarrow> lease_cell R l s = None"
  unfolding s3_conditional_def lease_cell_def load_lease_def by fastforce

text \<open>The lease that was read is the one in the cell when the condition on its tag holds.\<close>

lemma same_etag_same_lease:
  assumes ok: "s3_conditional R" and aba: "no_aba R l other s0"
    and head: "s3_head R l (other 0 s0) = Inr (Some h)"
    and read: "load_lease R l (other 1 (other 0 s0)) = Inr current"
    and cond: "has_etag R l (oh_etag h) (other 2 (other 1 (other 0 s0)))"
  shows "lease_cell R l (other 2 (other 1 (other 0 s0))) = Some current"
proof -
  let ?s2 = "other 1 (other 0 s0)" and ?s3 = "other 2 (other 1 (other 0 s0))"
  have "has_etag R l (oh_etag h) (other 0 s0)" using head by (auto simp: has_etag_def)
  with aba cond have e2: "has_etag R l (oh_etag h) ?s2" by (simp add: no_aba_def)
  obtain r where r: "s3_get R l ?s2 = Inr r"
    using read by (auto simp: load_lease_def rbind_eq_Inr)
  obtain r' where r': "s3_get R l ?s3 = Inr r'"
    using ok cond unfolding s3_conditional_def by blast
  have "or_bytes r = or_bytes r'"
    using ok e2 cond r r' unfolding s3_conditional_def by blast
  with read r r' show ?thesis by (simp add: lease_cell_def load_lease_def)
qed

lemma acquire_refines:
  assumes ok: "s3_conditional R" "storage_codecs_ok R"
    and l: "l = loc pf (lease_key (al_database_id req) (al_branch_id req))"
    and aba: "no_aba R l other s0"
    and run: "acquire_lease R pf other now req s0 = (Inr lease, s')"
  shows "spec_acquire now req (lease_cell R l (other 2 (other 1 (other 0 s0)))) = Inr lease \<and>
    lease_cell R l s' = Some lease"
proof -
  let ?s1 = "other 0 s0" and ?s2 = "other 1 (other 0 s0)" and ?s3 = "other 2 (other 1 (other 0 s0))"
  obtain head where head: "s3_head R l ?s1 = Inr head"
    using run by (auto simp: acquire_lease_def l Let_def split: sum.splits)
  show ?thesis
  proof (cases head)
    case None
    then have "put_lease R l lease IfAbsent ?s3 = (Inr (), s')" and "spec_acquire now req None = Inr lease"
      using run head by (auto simp: acquire_lease_def spec_acquire_def Let_def rbind_eq_Inr simp flip: l
          split: prod.splits)
    with put_lease_ok [OF ok, of l lease IfAbsent ?s3 s'] absent_cell [OF ok(1)] show ?thesis
      by (simp add: condition_holds_def)
  next
    case (Some h)
    then obtain current where cur: "load_lease R l ?s2 = Inr current"
      and put: "put_lease R l lease (IfMatchEtag (oh_etag h)) ?s3 = (Inr (), s')"
      and spec: "spec_acquire now req (Some current) = Inr lease"
      using run head by (auto simp: acquire_lease_def spec_acquire_def Let_def rbind_eq_Inr simp flip: l
          split: prod.splits sum.splits if_splits)
    with put_lease_ok [OF ok put] same_etag_same_lease [OF ok(1) aba] head Some show ?thesis
      by (simp add: condition_holds_def)
  qed
qed

lemma check_own_leaseD:
  assumes "check_own_lease R l other lease s0 = (Inr etag, s2)"
  shows "\<exists>h current. s2 = other 1 (other 0 s0) \<and> s3_head R l (other 0 s0) = Inr (Some h) \<and> oh_etag h = etag \<and>
    load_lease R l s2 = Inr current \<and> lr_holder_id current = lr_holder_id lease \<and>
    lr_fencing_token current = lr_fencing_token lease"
  using assms by (auto simp: check_own_lease_def Let_def rbind_eq_Inr split: sum.splits option.splits if_splits)

lemma own_lease_cell:
  assumes ok: "s3_conditional R" and aba: "no_aba R l other s0"
    and chk: "check_own_lease R l other lease s0 = (Inr etag, s2)" and cond: "has_etag R l etag (other 2 s2)"
  shows "owns lease (lease_cell R l (other 2 (other 1 (other 0 s0))))"
proof -
  obtain h current where s2: "s2 = other 1 (other 0 s0)" and h: "s3_head R l (other 0 s0) = Inr (Some h)"
    and etag: "oh_etag h = etag" and cur: "load_lease R l s2 = Inr current"
    and own: "lr_holder_id current = lr_holder_id lease" "lr_fencing_token current = lr_fencing_token lease"
    using check_own_leaseD [OF chk] by blast
  have "lease_cell R l (other 2 (other 1 (other 0 s0))) = Some current"
    by (rule same_etag_same_lease [OF ok aba h]) (use cur s2 etag cond in simp_all)
  with own show ?thesis by (simp add: owns_def)
qed

lemma refresh_refines:
  assumes ok: "s3_conditional R" "storage_codecs_ok R"
    and l: "l = loc pf (lease_key (lr_database_id lease) (lr_branch_id lease))"
    and aba: "no_aba R l other s0"
    and run: "refresh_lease R pf other now lease ttl s0 = (Inr lease', s')"
  shows "owns lease (lease_cell R l (other 2 (other 1 (other 0 s0)))) \<and>
    lease' = lease\<lparr>lr_expires_at_unix := now + ttl_seconds ttl\<rparr> \<and> lease_cell R l s' = Some lease'"
proof -
  obtain etag s2 where chk: "check_own_lease R l other lease s0 = (Inr etag, s2)"
    using run by (auto simp: refresh_lease_def Let_def simp flip: l split: prod.splits sum.splits)
  then have put: "put_lease R l lease' (IfMatchEtag etag) (other 2 s2) = (Inr (), s')"
    and lease': "lease' = lease\<lparr>lr_expires_at_unix := now + ttl_seconds ttl\<rparr>"
    using run by (auto simp: refresh_lease_def Let_def rbind_eq_Inr simp flip: l split: prod.splits)
  from put_lease_ok [OF ok put] have "has_etag R l etag (other 2 s2)" "lease_cell R l s' = Some lease'"
    by (simp_all add: condition_holds_def)
  with own_lease_cell [OF ok(1) aba chk] lease' show ?thesis by blast
qed

lemma release_refines:
  assumes ok: "s3_conditional R"
    and l: "l = loc pf (lease_key (lr_database_id lease) (lr_branch_id lease))"
    and aba: "no_aba R l other s0"
    and run: "release_lease R pf other lease s0 = (Inr (), s')"
  shows "owns lease (lease_cell R l (other 2 (other 1 (other 0 s0)))) \<and> lease_cell R l s' = None"
proof -
  obtain etag s2 where chk: "check_own_lease R l other lease s0 = (Inr etag, s2)"
    using run by (auto simp: release_lease_def Let_def simp flip: l split: prod.splits sum.splits)
  then have del: "s3_delete R \<lparr>do_bucket = go_bucket l, do_key = go_key l, do_if_match_etag = Some etag\<rparr> (other 2 s2) = (Inr (), s')"
    using run by (simp add: release_lease_def Let_def flip: l)
  have l': "\<lparr>go_bucket = go_bucket l, go_key = go_key l\<rparr> = l" by simp
  have "has_etag R l etag (other 2 s2) \<and> absent R l s'"
    using ok del l' unfolding s3_conditional_def Let_def
    by (metis s3_delete_object.select_convs)
  with own_lease_cell [OF ok aba chk] absent_cell [OF ok] show ?thesis by blast
qed

lemma same_etag_same_pointer:
  assumes ok: "s3_conditional R" and aba: "no_aba R l other s0"
    and head: "s3_head R l (other 0 s0) = Inr (Some h)"
    and read: "s3_get R l (other 1 (other 0 s0)) = Inr r" "pointer_parse R (or_bytes r) = Inr p"
    and cond: "has_etag R l (oh_etag h) (other 2 (other 1 (other 0 s0)))"
  shows "pointer_cell R l (other 2 (other 1 (other 0 s0))) = Some p"
proof -
  have "has_etag R l (oh_etag h) (other 0 s0)" using head by (auto simp: has_etag_def)
  with aba cond have e2: "has_etag R l (oh_etag h) (other 1 (other 0 s0))" by (simp add: no_aba_def)
  obtain r' where r': "s3_get R l (other 2 (other 1 (other 0 s0))) = Inr r'"
    using ok cond unfolding s3_conditional_def by blast
  have "or_bytes r = or_bytes r'"
    using ok e2 cond read r' unfolding s3_conditional_def by blast
  with read r' show ?thesis by (simp add: pointer_cell_def)
qed

text \<open>The write that a compare-and-swap makes, and the reads that led to its condition.\<close>

definition pointer_command ::
    "('s, 'z) s3_runtime_scheme \<Rightarrow> s3_get_object \<Rightarrow> manifest_cas_request \<Rightarrow> put_condition \<Rightarrow> bytes \<Rightarrow> s3_put_object" where
  "pointer_command R l req c bs =
     \<lparr>po_bucket = go_bucket l, po_key = go_key l, po_bytes = bs, po_checksum_sha256 = rs_sha256_hex R bs,
      po_metadata = bm_collect [(''database_id'', mp_database_id (mc_next req)), (''branch_id'', mp_branch_id (mc_next req)),
        (''generation'', show_nat (unat (mp_generation (mc_next req))))],
      po_condition = c\<rparr>"

definition cas_plan ::
    "('s, 'z) s3_runtime_scheme \<Rightarrow> s3_get_object \<Rightarrow> manifest_cas_request \<Rightarrow> s3_object_head option \<Rightarrow> put_condition \<Rightarrow> 's \<Rightarrow> bool" where
  "cas_plan R l req head c s \<longleftrightarrow>
     (case mc_expected_generation req of
        None \<Rightarrow> head = None \<and> c = IfAbsent
      | Some g \<Rightarrow> \<exists>r p h. s3_get R l s = Inr r \<and> pointer_parse R (or_bytes r) = Inr p \<and> mp_generation p = g \<and>
          head = Some h \<and> c = IfMatchEtag (oh_etag h))"

lemma compare_and_swapD:
  assumes l: "l = loc pf (manifest_pointer_key (mp_database_id (mc_next req)) (mp_branch_id (mc_next req)))"
    and run: "compare_and_swap_manifest R pf other req s0 = (Inr (), s')"
  shows "\<exists>head c bs. s3_head R l (other 0 s0) = Inr head \<and> pointer_json R (mc_next req) = Inr bs \<and>
    s3_put R (pointer_command R l req c bs) (other 2 (other 1 (other 0 s0))) = (Inr (), s') \<and>
    cas_plan R l req head c (other 1 (other 0 s0))"
proof -
  obtain head where head: "s3_head R l (other 0 s0) = Inr head"
    using run by (auto simp: compare_and_swap_manifest_def Let_def simp flip: l split: sum.splits)
  then show ?thesis
    using run
    by (auto simp: compare_and_swap_manifest_def cas_plan_def Let_def rbind_def simp flip: l pointer_command_def
        split: sum.splits option.splits if_splits)
qed



section \<open>An example store\<close>

text \<open>A store that keeps its objects in a list and uses their content as entity tag.\<close>

type_synonym demo_store = "(s3_get_object \<times> bytes) list"

definition demo_holds :: "demo_store \<Rightarrow> s3_get_object \<Rightarrow> put_condition \<Rightarrow> bool" where
  "demo_holds s l c =
     (case c of NoCondition \<Rightarrow> True | IfAbsent \<Rightarrow> map_of s l = None | IfMatchEtag e \<Rightarrow> map_of s l = Some e)"

definition demo_object :: "bytes \<Rightarrow> object_record" where
  "demo_object bs = \<lparr>or_key = lease_key [] [], or_bytes = bs, or_checksum_sha256 = [], or_metadata = []\<rparr>"

instance object_kind :: countable
  by countable_datatype

instance object_key_ext :: (countable) countable
  by (rule countable_classI [of "\<lambda>r. to_nat (ok_database_id r, ok_branch_id r, ok_kind r, ok_name r, object_key.more r)"]) simp

instance lease_record_ext :: (countable) countable
  by (rule countable_classI [of "\<lambda>r. to_nat (lr_database_id r, lr_branch_id r, lr_holder_id r, lr_fencing_token r,
        lr_expires_at_unix r, lease_record.more r)"]) simp

instance branch_manifest_pointer_ext :: (countable) countable
  by (rule countable_classI [of "\<lambda>r. to_nat (mp_database_id r, mp_branch_id r, mp_generation r, mp_latest_epoch r,
        mp_durable_epoch r, mp_object_key r, mp_checksum_sha256 r, branch_manifest_pointer.more r)"]) simp

definition demo_runtime :: "demo_store s3_runtime" where
  "demo_runtime =
     \<lparr>s3_put = \<lambda>cmd s. let l = \<lparr>go_bucket = po_bucket cmd, go_key = po_key cmd\<rparr>
        in if demo_holds s l (po_condition cmd) then (Inr (), (l, po_bytes cmd) # s) else (Inl (Provider ''412''), s),
      s3_get = \<lambda>l s. case map_of s l of Some bs \<Rightarrow> Inr (demo_object bs) | None \<Rightarrow> Inl (ObjectNotFound (go_key l)),
      s3_head = \<lambda>l s. Inr (map_option (\<lambda>bs. \<lparr>oh_etag = bs, oh_checksum_sha256 = None, oh_metadata = []\<rparr>) (map_of s l)),
      s3_delete = \<lambda>cmd s. let l = \<lparr>go_bucket = do_bucket cmd, go_key = do_key cmd\<rparr>
        in if (case do_if_match_etag cmd of None \<Rightarrow> True | Some e \<Rightarrow> map_of s l = Some e)
           then (Inr (), filter (\<lambda>x. fst x \<noteq> l) s) else (Inl (Provider ''412''), s),
      rs_sha256 = \<lambda>bs. [],
      lease_json = \<lambda>x. Inr (replicate (to_nat x) CHR ''a''), lease_parse = \<lambda>bs. Inr (from_nat (length bs)),
      pointer_json = \<lambda>x. Inr (replicate (to_nat x) CHR ''a''), pointer_parse = \<lambda>bs. Inr (from_nat (length bs))\<rparr>"

lemma map_of_filter_key: "map_of (filter (\<lambda>x. fst x \<noteq> l) s) l = None"
  by (auto simp: map_of_eq_None_iff)

lemma demo_runtime_conditional: "s3_conditional demo_runtime"
  by (auto simp: s3_conditional_def demo_runtime_def demo_holds_def demo_object_def condition_holds_def absent_def
      has_etag_def Let_def map_of_filter_key split: if_splits option.splits put_condition.splits)

lemma demo_runtime_codecs: "storage_codecs_ok demo_runtime"
  by (auto simp: storage_codecs_ok_def demo_runtime_def)

definition demo_profile :: s3_profile where
  "demo_profile = \<lparr>pf_region = ''r'', pf_bucket = ''b'', pf_endpoint_url = None, pf_force_path_style = False,
     pf_object_prefix = ''p''\<rparr>"

definition demo_acquire :: acquire_lease_request where
  "demo_acquire = \<lparr>al_database_id = ''db'', al_branch_id = ''main'', al_holder_id = ''w1'', al_ttl_ms = 5000\<rparr>"

definition demo_lease :: lease_record where
  "demo_lease = \<lparr>lr_database_id = ''db'', lr_branch_id = ''main'', lr_holder_id = ''w1'', lr_fencing_token = 1,
     lr_expires_at_unix = 15\<rparr>"

lemma demo_acquire_runs:
  "acquire_lease demo_runtime demo_profile (\<lambda>_ s. s) 10 demo_acquire [] =
     (Inr demo_lease, [(loc demo_profile (lease_key ''db'' ''main''), replicate (to_nat demo_lease) CHR ''a'')])"
  by (simp add: acquire_lease_def demo_runtime_def demo_acquire_def demo_lease_def put_lease_def demo_holds_def
      ttl_seconds_def sat_add64_def Let_def)

lemma demo_no_aba: "no_aba demo_runtime l (\<lambda>_ s. s) s0"
  by (simp add: no_aba_def)


definition demo_pointer :: branch_manifest_pointer where
  "demo_pointer = \<lparr>mp_database_id = ''db'', mp_branch_id = ''main'', mp_generation = 1, mp_latest_epoch = 4,
     mp_durable_epoch = 4, mp_object_key = lease_key ''db'' ''main'', mp_checksum_sha256 = ''x''\<rparr>"


section \<open>Remarks on the code\<close>

text \<open>The escape character is itself a safe byte, so two different names can share one path.\<close>

lemma safe_component_not_injective: "safe_component ''a/'' = safe_component ''a_2f''"
  by code_simp

text \<open>A released lease leaves an empty cell, so the next fencing token is 1 again.\<close>

lemma token_restarts_after_release:
  "spec_acquire now req None = Inr lease \<Longrightarrow> lr_fencing_token lease = 1"
  by (auto simp: spec_acquire_def Let_def)

end
