(* ===== verification/Backup.thy ===== *)
theory Backup
  imports Engine
begin

text \<open>
  Backup, snapshot and restore of \<open>crates/tracedb-query/src/lib.rs\<close>: directories are copied file by
  file after checks on their paths.

  The file system is a map from absolute paths, as lists of components, to files and directories.
  Symbolic links are left out, so an existing path is its own canonical form. Failures of the
  operating system other than a missing or unsuitable entry (permissions, a full disk) are left out
  too. \<open>read_dir\<close> lists a directory in the order of the names.
\<close>

section \<open>The file system\<close>

type_synonym fpath = "string list"

datatype fs_node = FileNode bytes | DirNode

type_synonym file_system = "(fpath, fs_node) bmap"

definition fs_exists :: "file_system \<Rightarrow> fpath \<Rightarrow> bool" where
  "fs_exists fs p = bm_contains fs p"

definition fs_is_dir :: "file_system \<Rightarrow> fpath \<Rightarrow> bool" where
  "fs_is_dir fs p \<longleftrightarrow> bm_get fs p = Some DirNode"

definition fs_is_file :: "file_system \<Rightarrow> fpath \<Rightarrow> bool" where
  "fs_is_file fs p = (case bm_get fs p of Some (FileNode _) \<Rightarrow> True | _ \<Rightarrow> False)"

definition path_starts_with :: "fpath \<Rightarrow> fpath \<Rightarrow> bool" where
  "path_starts_with p base = (take (length base) p = base)"

definition os_not_found :: error where
  "os_not_found = Io IoNotFound ''No such file or directory (os error 2)''"

definition os_not_a_directory :: error where
  "os_not_a_directory = Io IoOther ''Not a directory (os error 20)''"

definition os_file_exists :: error where
  "os_file_exists = Io IoAlreadyExists ''File exists (os error 17)''"

definition os_is_a_directory :: error where
  "os_is_a_directory = Io IoOther ''Is a directory (os error 21)''"

definition canonicalize :: "file_system \<Rightarrow> fpath \<Rightarrow> fpath result" where
  "canonicalize fs p = (if fs_exists fs p then Inr p else Inl os_not_found)"

definition remove_dir_all :: "fpath \<Rightarrow> file_system \<Rightarrow> file_system result" where
  "remove_dir_all p fs =
     (case bm_get fs p of
        None \<Rightarrow> Inl os_not_found
      | Some (FileNode _) \<Rightarrow> Inl os_not_a_directory
      | Some DirNode \<Rightarrow> Inr (filter (\<lambda>e. \<not> path_starts_with (fst e) p) fs))"

text \<open>The path itself and its ancestors, the root first.\<close>

definition path_prefixes :: "fpath \<Rightarrow> fpath list" where
  "path_prefixes p = map (\<lambda>n. take n p) [0..<Suc (length p)]"

definition create_dir_all :: "fpath \<Rightarrow> file_system \<Rightarrow> file_system result" where
  "create_dir_all p fs =
     (if fs_is_file fs p then Inl os_file_exists
      else if \<exists>q \<in> set (path_prefixes p). fs_is_file fs q then Inl os_not_a_directory
      else Inr (fold (\<lambda>q. bm_insert q DirNode) (path_prefixes p) fs))"

definition fs_copy :: "fpath \<Rightarrow> fpath \<Rightarrow> file_system \<Rightarrow> file_system result" where
  "fs_copy from to fs =
     (case bm_get fs from of
        None \<Rightarrow> Inl os_not_found
      | Some DirNode \<Rightarrow> Inl os_is_a_directory
      | Some (FileNode body) \<Rightarrow>
          if fs_is_file fs (butlast to) then Inl os_not_a_directory
          else if \<not> fs_is_dir fs (butlast to) then Inl os_not_found
          else if fs_is_dir fs to then Inl os_is_a_directory
          else Inr (bm_insert to (FileNode body) fs))"

definition read_dir :: "fpath \<Rightarrow> file_system \<Rightarrow> string list result" where
  "read_dir p fs =
     (case bm_get fs p of
        None \<Rightarrow> Inl os_not_found
      | Some (FileNode _) \<Rightarrow> Inl os_not_a_directory
      | Some DirNode \<Rightarrow>
          Inr (map (last \<circ> fst) (filter (\<lambda>e. fst e \<noteq> [] \<and> butlast (fst e) = p) fs)))"

section \<open>Copying a directory\<close>

text \<open>
  The recursion of \<open>copy_dir\<close> follows the directory; it does not end when the target lies inside the
  source. The number bounds the depth; \<open>None\<close> says that it was exceeded. The state is also returned
  with an error.
\<close>

type_synonym fs_outcome = "(unit result \<times> file_system) option"

definition fs_op :: "(file_system \<Rightarrow> file_system result) \<Rightarrow> file_system \<Rightarrow> unit result \<times> file_system" where
  "fs_op f fs = (case f fs of Inl e \<Rightarrow> (Inl e, fs) | Inr fs' \<Rightarrow> (Inr (), fs'))"

definition fs_then :: "fs_outcome \<Rightarrow> (file_system \<Rightarrow> fs_outcome) \<Rightarrow> fs_outcome" where
  "fs_then r f =
     (case r of None \<Rightarrow> None | Some (Inl e, fs) \<Rightarrow> Some (Inl e, fs) | Some (Inr _, fs) \<Rightarrow> f fs)"

fun copy_entries ::
    "(fpath \<Rightarrow> fpath \<Rightarrow> file_system \<Rightarrow> fs_outcome) \<Rightarrow> fpath \<Rightarrow> fpath \<Rightarrow> string list \<Rightarrow> file_system \<Rightarrow> fs_outcome" where
  "copy_entries copy source target [] fs = Some (Inr (), fs)"
| "copy_entries copy source target (x # xs) fs =
     fs_then
       (if fs_is_dir fs (source @ [x]) then copy (source @ [x]) (target @ [x]) fs
        else Some (fs_op (fs_copy (source @ [x]) (target @ [x])) fs))
       (copy_entries copy source target xs)"

fun copy_dir :: "nat \<Rightarrow> fpath \<Rightarrow> fpath \<Rightarrow> file_system \<Rightarrow> fs_outcome" where
  "copy_dir 0 source target fs = None"
| "copy_dir (Suc depth) source target fs =
     fs_then (Some (fs_op (create_dir_all target) fs)) (\<lambda>fs1.
     case read_dir source fs1 of
       Inl e \<Rightarrow> Some (Inl e, fs1)
     | Inr names \<Rightarrow> copy_entries (copy_dir depth) source target names fs1)"

section \<open>Checks on the paths\<close>

definition invalid_paths :: "string \<Rightarrow> unit result" where
  "invalid_paths msg = Inl (InvalidCommand msg)"

definition validate_copy_paths :: "file_system \<Rightarrow> fpath \<Rightarrow> fpath \<Rightarrow> unit result" where
  "validate_copy_paths fs source target =
     rbind (canonicalize fs source) (\<lambda>canonical_source.
     if fs_exists fs target then
       rbind (canonicalize fs target) (\<lambda>canonical_target.
       if canonical_source = canonical_target then invalid_paths ''source and target directories must differ''
       else if path_starts_with canonical_target canonical_source
         then invalid_paths ''target directory cannot be inside source directory''
       else Inr ())
     else if target \<noteq> [] \<and> path_starts_with (butlast target) canonical_source
       then invalid_paths ''target directory cannot be inside source directory''
     else Inr ())"

text \<open>
  \<open>TRACEDB_ADMIN_SNAPSHOT_ROOT\<close>: its value, with what the path of a non-blank value is. Relative values
  are rejected.
\<close>

datatype snapshot_root_env = RootUnset | RootRelative | RootAbsolute fpath

definition admin_snapshot_root :: "file_system \<Rightarrow> snapshot_root_env \<Rightarrow> fpath option result" where
  "admin_snapshot_root fs env =
     (case env of
        RootUnset \<Rightarrow> Inr None
      | RootRelative \<Rightarrow> Inl (InvalidCommand ''TRACEDB_ADMIN_SNAPSHOT_ROOT must be an absolute path'')
      | RootAbsolute root \<Rightarrow> rbind (canonicalize fs root) (\<lambda>r. Inr (Some r)))"

definition path_display :: "fpath \<Rightarrow> string" where
  "path_display p = concat (map (\<lambda>c. ''/'' @ c) p)"

definition resolve_existing_or_parent :: "file_system \<Rightarrow> fpath \<Rightarrow> fpath result" where
  "resolve_existing_or_parent fs p =
     (if fs_exists fs p then canonicalize fs p
      else if p = [] then Inl (InvalidCommand (''path '' @ path_display p @ '' has no parent directory''))
      else rbind (canonicalize fs (butlast p)) (\<lambda>parent. Inr (parent @ [last p])))"

definition validate_admin_snapshot_path ::
    "file_system \<Rightarrow> snapshot_root_env \<Rightarrow> string \<Rightarrow> fpath \<Rightarrow> unit result" where
  "validate_admin_snapshot_path fs env label p =
     rbind (admin_snapshot_root fs env) (\<lambda>root_opt.
     case root_opt of
       None \<Rightarrow> Inr ()
     | Some root \<Rightarrow>
         rbind (resolve_existing_or_parent fs p) (\<lambda>resolved.
         ensure (path_starts_with resolved root)
           (InvalidCommand (label @ '' must be under TRACEDB_ADMIN_SNAPSHOT_ROOT ('' @ path_display root @ '')''))))"

section \<open>Backup, snapshot, restore\<close>

definition fs_check :: "(file_system \<Rightarrow> unit result) \<Rightarrow> (file_system \<Rightarrow> fs_outcome) \<Rightarrow> file_system \<Rightarrow> fs_outcome" where
  "fs_check check rest fs = (case check fs of Inl e \<Rightarrow> Some (Inl e, fs) | Inr _ \<Rightarrow> rest fs)"

text \<open>\<open>if target.exists() { remove_dir_all(target)?; }\<close>\<close>

definition clear_target :: "fpath \<Rightarrow> file_system \<Rightarrow> fs_outcome" where
  "clear_target target fs =
     (if fs_exists fs target then Some (fs_op (remove_dir_all target) fs) else Some (Inr (), fs))"

fun copy_listed :: "nat \<Rightarrow> fpath \<Rightarrow> fpath \<Rightarrow> string list \<Rightarrow> file_system \<Rightarrow> fs_outcome" where
  "copy_listed depth source target [] fs = Some (Inr (), fs)"
| "copy_listed depth source target (x # xs) fs =
     fs_then
       (if fs_is_file fs (source @ [x]) then Some (fs_op (fs_copy (source @ [x]) (target @ [x])) fs)
        else if fs_is_dir fs (source @ [x]) then copy_dir depth (source @ [x]) (target @ [x]) fs
        else Some (Inr (), fs))
       (copy_listed depth source target xs)"

definition backup_entries :: "string list" where
  "backup_entries = [''manifest.tdb'', ''engine.lock'', ''wal'', ''hot'', ''segments'', ''indexes'', ''checkpoints'',
     ''snapshots'', ''jobs'']"

definition snapshot_entries :: "string list" where
  "snapshot_entries = [''manifest.tdb'', ''engine.lock'', ''wal'', ''hot'', ''segments'', ''indexes'', ''checkpoints'', ''jobs'']"

definition copy_database :: "nat \<Rightarrow> string list \<Rightarrow> fpath \<Rightarrow> fpath \<Rightarrow> file_system \<Rightarrow> fs_outcome" where
  "copy_database depth entries source target fs =
     fs_then (clear_target target fs) (\<lambda>fs1.
     fs_then (Some (fs_op (create_dir_all target) fs1))
     (copy_listed depth source target entries))"

definition backup_dir :: "nat \<Rightarrow> fpath \<Rightarrow> fpath \<Rightarrow> file_system \<Rightarrow> fs_outcome" where
  "backup_dir depth source target =
     fs_check (\<lambda>fs. validate_copy_paths fs source target) (copy_database depth backup_entries source target)"

definition check_snapshot_paths :: "snapshot_root_env \<Rightarrow> fpath \<Rightarrow> fpath \<Rightarrow> file_system \<Rightarrow> unit result" where
  "check_snapshot_paths env source target fs =
     rbind (validate_admin_snapshot_path fs env ''snapshot target'' target) (\<lambda>_.
     rbind (canonicalize fs source) (\<lambda>canonical_source.
     if fs_exists fs target then
       rbind (canonicalize fs target) (\<lambda>canonical_target.
       if canonical_target = canonical_source then invalid_paths ''source and target directories must differ'' else Inr ())
     else Inr ()))"

definition snapshot_dir :: "snapshot_root_env \<Rightarrow> nat \<Rightarrow> fpath \<Rightarrow> fpath \<Rightarrow> file_system \<Rightarrow> fs_outcome" where
  "snapshot_dir env depth source target =
     fs_check (check_snapshot_paths env source target) (copy_database depth snapshot_entries source target)"

definition check_restore_paths :: "snapshot_root_env \<Rightarrow> fpath \<Rightarrow> fpath \<Rightarrow> file_system \<Rightarrow> unit result" where
  "check_restore_paths env source target fs =
     rbind (validate_admin_snapshot_path fs env ''restore source'' source) (\<lambda>_.
     rbind (validate_admin_snapshot_path fs env ''restore target'' target) (\<lambda>_.
     validate_copy_paths fs source target))"

definition restore_dir :: "snapshot_root_env \<Rightarrow> nat \<Rightarrow> fpath \<Rightarrow> fpath \<Rightarrow> file_system \<Rightarrow> fs_outcome" where
  "restore_dir env depth source target =
     fs_check (check_restore_paths env source target) (\<lambda>fs.
     fs_then (clear_target target fs) (copy_dir depth source target))"

section \<open>Lookups\<close>

text \<open>
  What a path holds after an operation is what some path held before it. \<open>fs_tree\<close> says that every
  entry at or below a path, except the path itself, is in a directory.
\<close>

definition fs_tree :: "file_system \<Rightarrow> fpath \<Rightarrow> bool" where
  "fs_tree fs p \<longleftrightarrow> (\<forall>r x. bm_get fs (p @ r @ [x]) \<noteq> None \<longrightarrow> bm_get fs (p @ r) = Some DirNode)"

text \<open>No file lies on the way to a path, and nothing at or below it.\<close>

definition fs_free :: "file_system \<Rightarrow> fpath \<Rightarrow> bool" where
  "fs_free fs p \<longleftrightarrow> (\<forall>q. prefix q p \<longrightarrow> \<not> fs_is_file fs q) \<and> (\<forall>r. r \<noteq> [] \<longrightarrow> bm_get fs (p @ r) = None)"

definition depth_below :: "file_system \<Rightarrow> fpath \<Rightarrow> nat \<Rightarrow> bool" where
  "depth_below fs p n \<longleftrightarrow> (\<forall>r. bm_get fs (p @ r) \<noteq> None \<longrightarrow> length r < n)"

lemma path_starts_with_prefix: "path_starts_with p base \<longleftrightarrow> prefix base p"
  by (metis append_eq_conv_conj append_take_drop_id path_starts_with_def prefix_def)

lemma path_prefixes_set: "set (path_prefixes p) = {q. prefix q p}"
proof -
  have "q \<in> set (path_prefixes p)" if "prefix q p" for q
  proof -
    have "take (length q) p = q" "length q < Suc (length p)" using that by (auto simp: prefix_def)
    then show ?thesis unfolding path_prefixes_def by (metis atLeastLessThan_iff image_eqI list.set_map set_upt zero_le)
  qed
  then show ?thesis by (auto simp: path_prefixes_def take_is_prefix simp del: upt_Suc)
qed

lemma fold_insert_get:
  "bm_get (fold (\<lambda>q. bm_insert q v) qs m) k = (if k \<in> set qs then Some v else bm_get m k)"
  by (induction qs arbitrary: m) auto

lemma fold_insert_wf: "bm_wf m \<Longrightarrow> bm_wf (fold (\<lambda>q. bm_insert q v) qs m)"
  by (induction qs arbitrary: m) auto

lemma bm_filter_wf: "bm_wf m \<Longrightarrow> bm_wf (filter Q m)"
  by (induction m) (auto simp: bm_wf_Cons)

lemma bm_get_filter_key: "bm_get (filter (\<lambda>e. Q (fst e)) m) k = (if Q k then bm_get m k else None)"
  by (induction m) (auto simp: bm_get_Cons)

lemma create_dir_all_get:
  assumes "\<forall>q. prefix q p \<longrightarrow> \<not> fs_is_file fs q" and "bm_wf fs"
  obtains fs' where "create_dir_all p fs = Inr fs'" and "bm_wf fs'"
    and "\<And>q. bm_get fs' q = (if prefix q p then Some DirNode else bm_get fs q)"
proof -
  let ?fs = "fold (\<lambda>q. bm_insert q DirNode) (path_prefixes p) fs"
  have "create_dir_all p fs = Inr ?fs" using assms(1) by (simp add: create_dir_all_def path_prefixes_set)
  then show thesis
    by (rule that) (simp_all add: fold_insert_wf [OF assms(2)] fold_insert_get path_prefixes_set)
qed

lemma remove_dir_all_get:
  assumes "bm_get fs p = Some DirNode" and "bm_wf fs"
  obtains fs' where "remove_dir_all p fs = Inr fs'" and "bm_wf fs'"
    and "\<And>q. bm_get fs' q = (if prefix p q then None else bm_get fs q)"
  by (rule that [of "filter (\<lambda>e. \<not> path_starts_with (fst e) p) fs"])
     (use assms in \<open>simp_all add: remove_dir_all_def bm_filter_wf path_starts_with_prefix
        bm_get_filter_key [where Q = "\<lambda>q. \<not> prefix p q"]\<close>)

definition entries_of :: "fpath \<Rightarrow> file_system \<Rightarrow> file_system" where
  "entries_of p fs = filter (\<lambda>e. fst e \<noteq> [] \<and> butlast (fst e) = p) fs"

lemma entries_of_iff: "e \<in> set (entries_of p fs) \<longleftrightarrow> e \<in> set fs \<and> (\<exists>x. fst e = p @ [x])"
proof (cases "fst e" rule: rev_cases)
  case Nil
  then show ?thesis by (auto simp: entries_of_def)
next
  case (snoc q x)
  then show ?thesis by (auto simp: entries_of_def)
qed

definition names_of :: "fpath \<Rightarrow> file_system \<Rightarrow> string list" where
  "names_of p fs = map (\<lambda>e. last (fst e)) (entries_of p fs)"

lemma names_of_distinct:
  assumes "bm_wf fs"
  shows "distinct (names_of p fs)"
proof -
  have keys: "distinct (map fst (entries_of p fs))"
    unfolding entries_of_def by (rule bm_wf_distinct [OF bm_filter_wf [OF assms]])
  then have inj: "inj_on fst (set (entries_of p fs))" by (simp add: distinct_map)
  have "inj_on (\<lambda>e. last (fst e)) (set (entries_of p fs))"
  proof (rule inj_onI)
    fix a b assume ab: "a \<in> set (entries_of p fs)" "b \<in> set (entries_of p fs)" "last (fst a) = last (fst b)"
    from ab(1,2) obtain x y where "fst a = p @ [x]" "fst b = p @ [y]" unfolding entries_of_iff by blast
    with ab(3) have "fst a = fst b" by simp
    from inj_onD [OF inj this ab(1,2)] show "a = b" .
  qed
  then show ?thesis using keys by (simp add: names_of_def distinct_map)
qed

lemma names_of_iff:
  assumes "bm_wf fs"
  shows "x \<in> set (names_of p fs) \<longleftrightarrow> bm_get fs (p @ [x]) \<noteq> None"
proof
  assume "x \<in> set (names_of p fs)"
  then obtain e where "e \<in> set (entries_of p fs)" "x = last (fst e)" unfolding names_of_def by auto
  then obtain y where e: "e \<in> set fs" "fst e = p @ [y]" and "x = y" unfolding entries_of_iff by fastforce
  obtain k v where "e = (k, v)" by (cases e)
  with e \<open>x = y\<close> have "(p @ [x], v) \<in> set fs" by simp
  then have "bm_get fs (p @ [x]) = Some v" unfolding bm_entries_get [OF assms] .
  then show "bm_get fs (p @ [x]) \<noteq> None" by simp
next
  assume "bm_get fs (p @ [x]) \<noteq> None"
  then obtain v where "bm_get fs (p @ [x]) = Some v" by auto
  then have v: "(p @ [x], v) \<in> set fs" by (rule bm_getD)
  have "(p @ [x], v) \<in> set (entries_of p fs)" unfolding entries_of_iff using v by simp
  then have "last (fst (p @ [x], v)) \<in> set (names_of p fs)" unfolding names_of_def set_map by (rule imageI)
  then show "x \<in> set (names_of p fs)" by simp
qed

lemma read_dir_names:
  "bm_get fs p = Some DirNode \<Longrightarrow> read_dir p fs = Inr (names_of p fs)"
  by (simp add: read_dir_def entries_of_def names_of_def comp_def)

end
