(* ===== verification/Backup_Props.thy ===== *)
theory Backup_Props
  imports Backup Engine_Runs
begin

text \<open>
  Copying directories, and what it means for databases: the copy of a directory onto a path that is not
  above or below it looks exactly like the original and leaves everything else as it was, so a
  database that is backed up and restored elsewhere opens with the same data.
\<close>

section \<open>The copy of a directory\<close>

definition below :: "fpath \<Rightarrow> fpath \<Rightarrow> fpath option" where
  "below p q = (if prefix p q then Some (drop (length p) q) else None)"

lemma below_append [simp]: "below p (p @ r) = Some r"
  by (simp add: below_def)

lemma below_self [simp]: "below p p = Some []"
  by (simp add: below_def)

lemma below_Some: "below p q = Some r \<longleftrightarrow> q = p @ r"
  by (auto simp: below_def prefix_def)

lemma below_None: "below p q = None \<longleftrightarrow> \<not> prefix p q"
  by (simp add: below_def)

lemma parallel_below: "p \<parallel> q \<Longrightarrow> below q (p @ r) = None" "p \<parallel> q \<Longrightarrow> \<not> prefix (p @ r) q"
  by (auto simp: below_None dest: append_prefixD) (meson parallel_def prefix_same_cases prefixI)

text \<open>What a path holds when the entries \<open>X\<close> of the directory \<open>src\<close> are copied to \<open>tgt\<close>.\<close>

definition copied_part :: "file_system \<Rightarrow> fpath \<Rightarrow> fpath \<Rightarrow> string set \<Rightarrow> fpath \<Rightarrow> fs_node option" where
  "copied_part fs src tgt X q =
     (case below tgt q of
        Some (x # r) \<Rightarrow> if x \<in> X then bm_get fs (src @ x # r) else None
      | Some [] \<Rightarrow> Some DirNode
      | None \<Rightarrow> if prefix q tgt then Some DirNode else bm_get fs q)"

definition copied :: "file_system \<Rightarrow> fpath \<Rightarrow> fpath \<Rightarrow> fpath \<Rightarrow> fs_node option" where
  "copied fs src tgt q =
     (case below tgt q of
        Some r \<Rightarrow> bm_get fs (src @ r)
      | None \<Rightarrow> if prefix q tgt then Some DirNode else bm_get fs q)"

lemma copied_part_source:
  assumes "(src @ [x]) \<parallel> tgt" and "\<And>q. bm_get fs' q = copied_part fs src tgt X q"
  shows "bm_get fs' (src @ x # r) = bm_get fs (src @ x # r)"
  using parallel_below [OF assms(1), of r] by (simp add: assms(2) copied_part_def)

lemma parallel_child: "src \<parallel> tgt \<Longrightarrow> (src @ [x]) \<parallel> tgt"
  by (rule parallel_appendI [of src tgt _ "[x]" _ "[]"]) simp_all

lemma fs_tree_up:
  assumes "fs_tree fs p" and "bm_get fs (p @ r @ s) \<noteq> None" and "s \<noteq> []"
  shows "bm_get fs (p @ r) = Some DirNode"
  using assms(2,3)
proof (induction s rule: rev_induct)
  case (snoc x s)
  then have "bm_get fs (p @ (r @ s)) = Some DirNode" using assms(1) unfolding fs_tree_def by (metis append.assoc)
  then show ?case using snoc.IH by (cases s) auto
qed simp

lemma fs_tree_sub: "fs_tree fs p \<Longrightarrow> fs_tree fs (p @ r)"
  unfolding fs_tree_def by (metis append.assoc)

lemma free_child:
  assumes "x \<notin> X" and "\<And>q. bm_get fs' q = copied_part fs src tgt X q"
  shows "fs_free fs' (tgt @ [x])"
proof -
  have "bm_get fs' q \<noteq> Some (FileNode b)" if "prefix q (tgt @ [x])" for q b
  proof (cases "q = tgt @ [x]")
    case False
    then have "prefix q tgt" using that by simp
    then have "bm_get fs' q = Some DirNode" by (cases "below tgt q") (auto simp: assms(2) copied_part_def below_Some)
    then show ?thesis by simp
  qed (use assms in \<open>simp add: copied_part_def\<close>)
  then have "\<forall>q. prefix q (tgt @ [x]) \<longrightarrow> \<not> fs_is_file fs' q"
    by (auto simp: fs_is_file_def split: option.splits fs_node.splits)
  moreover have "bm_get fs' ((tgt @ [x]) @ r) = None" for r using assms by (simp add: copied_part_def)
  ultimately show ?thesis by (simp add: fs_free_def)
qed

lemma copied_child:
  assumes "(src @ [x]) \<parallel> tgt" and "\<And>q. bm_get fs' q = copied_part fs src tgt X q"
  shows "copied fs' (src @ [x]) (tgt @ [x]) q = copied_part fs src tgt (insert x X) q"
proof (cases "below (tgt @ [x]) q")
  case (Some r)
  then have "q = tgt @ x # r" by (simp add: below_Some)
  then show ?thesis using Some copied_part_source [OF assms, of r] by (simp add: copied_def copied_part_def)
next
  case None
  show ?thesis
  proof (cases "prefix q (tgt @ [x])")
    case True
    with None have "prefix q tgt" by (auto simp: below_None)
    then have "copied_part fs src tgt Y q = Some DirNode" for Y
      by (cases "below tgt q") (auto simp: copied_part_def below_Some)
    then show ?thesis using None True by (simp add: copied_def)
  next
    case False
    have "copied_part fs src tgt (insert x X) q = copied_part fs src tgt X q"
      using None by (auto simp: copied_part_def below_None below_Some prefix_def split: option.splits list.splits)
    with None False show ?thesis by (simp add: copied_def assms(2))
  qed
qed

lemma copy_file_child:
  assumes "(src @ [x]) \<parallel> tgt" and "\<And>q. bm_get fs' q = copied_part fs src tgt X q" and "bm_wf fs'" and "x \<notin> X"
    and "bm_get fs (src @ [x]) = Some (FileNode b)" and "fs_tree fs src"
  shows "\<exists>fs2. fs_op (fs_copy (src @ [x]) (tgt @ [x])) fs' = (Inr (), fs2) \<and> bm_wf fs2 \<and>
    (\<forall>q. bm_get fs2 q = copied_part fs src tgt (insert x X) q)"
proof -
  have leaf: "bm_get fs (src @ x # y # r) = None" for y r
    using fs_tree_up [OF assms(6), of "[x]" "y # r"] assms(5) by (cases "bm_get fs (src @ x # y # r)") auto
  have src: "bm_get fs' (src @ [x]) = Some (FileNode b)" using copied_part_source [OF assms(1,2), of "[]"] assms(5) by simp
  have tgt: "bm_get fs' tgt = Some DirNode" "bm_get fs' (tgt @ [x]) = None"
    using assms(4) by (simp_all add: assms(2) copied_part_def)
  have "fs_copy (src @ [x]) (tgt @ [x]) fs' = Inr (bm_insert (tgt @ [x]) (FileNode b) fs')"
    using src tgt by (simp add: fs_copy_def fs_is_dir_def fs_is_file_def)
  moreover have "bm_get (bm_insert (tgt @ [x]) (FileNode b) fs') q = copied_part fs src tgt (insert x X) q" for q
  proof (cases "below tgt q")
    case None
    then have "q \<noteq> tgt @ [x]" by (auto simp: below_None)
    with None show ?thesis by (simp add: assms(2) copied_part_def)
  next
    case (Some r)
    then show ?thesis using assms(5) leaf
      by (cases r rule: list.exhaust; cases "tl r") (auto simp: assms(2) copied_part_def below_Some)
  qed
  ultimately show ?thesis using assms(3) by (simp add: fs_op_def)
qed

definition copies :: "nat \<Rightarrow> bool" where
  "copies n \<longleftrightarrow> (\<forall>src tgt fs. bm_wf fs \<and> bm_get fs src = Some DirNode \<and> fs_tree fs src \<and> depth_below fs src n \<and>
     src \<parallel> tgt \<and> fs_free fs tgt \<longrightarrow>
     (\<exists>fs'. copy_dir n src tgt fs = Some (Inr (), fs') \<and> bm_wf fs' \<and> (\<forall>q. bm_get fs' q = copied fs src tgt q)))"

lemma copy_dir_child:
  assumes "copies n" and "(src @ [x]) \<parallel> tgt" and "fs_tree fs src" and "depth_below fs src (Suc n)"
    and "x \<notin> X" and "bm_get fs (src @ [x]) = Some DirNode" and "bm_wf fs'"
    and "\<And>q. bm_get fs' q = copied_part fs src tgt X q"
  shows "\<exists>fs2. copy_dir n (src @ [x]) (tgt @ [x]) fs' = Some (Inr (), fs2) \<and> bm_wf fs2 \<and>
    (\<forall>q. bm_get fs2 q = copied_part fs src tgt (insert x X) q)"
proof -
  have same: "bm_get fs' (src @ x # r) = bm_get fs (src @ x # r)" for r by (rule copied_part_source [OF assms(2,8)])
  have "fs_tree fs' (src @ [x])" "depth_below fs' (src @ [x]) n"
    using fs_tree_sub [OF assms(3), of "[x]"] assms(4) same by (auto simp: fs_tree_def depth_below_def)
  moreover have "(src @ [x]) \<parallel> (tgt @ [x])"
    by (rule parallel_appendI [OF assms(2), of _ "[]" _ "[x]"]) simp_all
  moreover have "fs_free fs' (tgt @ [x])" by (rule free_child [OF assms(5,8)])
  moreover have "bm_get fs' (src @ [x]) = Some DirNode" using same [of "[]"] assms(6) by simp
  ultimately obtain fs2 where "copy_dir n (src @ [x]) (tgt @ [x]) fs' = Some (Inr (), fs2)" "bm_wf fs2"
      "\<forall>q. bm_get fs2 q = copied fs' (src @ [x]) (tgt @ [x]) q"
    using assms(1,7) unfolding copies_def by metis
  then show ?thesis using copied_child [OF assms(2,8)] by simp
qed

text \<open>One step of either loop over entries.\<close>

lemma copy_child_ok:
  assumes "copies n" and "(src @ [x]) \<parallel> tgt" and "fs_tree fs src" and "depth_below fs src (Suc n)"
    and "x \<notin> X" and "bm_wf fs'" and "\<And>q. bm_get fs' q = copied_part fs src tgt X q" and "bm_get fs (src @ [x]) \<noteq> None"
  obtains fs2 where "(if fs_is_dir fs' (src @ [x]) then copy_dir n (src @ [x]) (tgt @ [x]) fs'
      else Some (fs_op (fs_copy (src @ [x]) (tgt @ [x])) fs')) = Some (Inr (), fs2)"
    and "bm_wf fs2" and "\<And>q. bm_get fs2 q = copied_part fs src tgt (insert x X) q"
proof -
  have same: "bm_get fs' (src @ [x]) = bm_get fs (src @ [x])" by (rule copied_part_source [OF assms(2,7)])
  from assms(8) consider (dir) "bm_get fs (src @ [x]) = Some DirNode" | (leaf) b where "bm_get fs (src @ [x]) = Some (FileNode b)"
    by (metis fs_node.exhaust not_None_eq)
  then show thesis
  proof cases
    case dir
    with copy_dir_child [OF assms(1-5) _ assms(6,7)] same that show thesis by (auto simp: fs_is_dir_def)
  next
    case (leaf b)
    with copy_file_child [OF assms(2,7,6,5) _ assms(3), of b] same that show thesis by (auto simp: fs_is_dir_def)
  qed
qed

lemma copy_entries_ok:
  assumes "copies n" and "src \<parallel> tgt" and "fs_tree fs src" and "depth_below fs src (Suc n)"
    and "distinct xs" and "X \<inter> set xs = {}" and "\<forall>x \<in> set xs. bm_get fs (src @ [x]) \<noteq> None"
    and "bm_wf fs'" and "\<And>q. bm_get fs' q = copied_part fs src tgt X q"
  shows "\<exists>fs2. copy_entries (copy_dir n) src tgt xs fs' = Some (Inr (), fs2) \<and> bm_wf fs2 \<and>
    (\<forall>q. bm_get fs2 q = copied_part fs src tgt (X \<union> set xs) q)"
  using assms(5-9)
proof (induction xs arbitrary: X fs')
  case Nil
  then show ?case by simp
next
  case (Cons x xs)
  then have x: "x \<notin> X" "bm_get fs (src @ [x]) \<noteq> None" by auto
  from copy_child_ok [OF assms(1) parallel_child [OF assms(2)] assms(3,4) x(1) Cons.prems(4,5) x(2)] obtain fs2 where
    fs2: "(if fs_is_dir fs' (src @ [x]) then copy_dir n (src @ [x]) (tgt @ [x]) fs'
      else Some (fs_op (fs_copy (src @ [x]) (tgt @ [x])) fs')) = Some (Inr (), fs2)" "bm_wf fs2"
    "\<And>q. bm_get fs2 q = copied_part fs src tgt (insert x X) q" by metis
  have "\<exists>fs3. copy_entries (copy_dir n) src tgt xs fs2 = Some (Inr (), fs3) \<and> bm_wf fs3 \<and>
    (\<forall>q. bm_get fs3 q = copied_part fs src tgt (insert x X \<union> set xs) q)"
    by (rule Cons.IH) (use Cons.prems fs2 in auto)
  then show ?case by (simp add: fs2(1) fs_then_def)
qed

lemma copied_part_all:
  assumes "fs_tree fs src" and "bm_get fs src = Some DirNode" and "\<And>x. x \<in> X \<longleftrightarrow> bm_get fs (src @ [x]) \<noteq> None"
  shows "copied_part fs src tgt X q = copied fs src tgt q"
proof -
  have "bm_get fs (src @ x # r) = None" if "x \<notin> X" for x r
    using fs_tree_up [OF assms(1), of "[x]" r] assms(3) [of x] that by (cases r; cases "bm_get fs (src @ x # r)") auto
  then show ?thesis using assms(2) by (auto simp: copied_part_def copied_def split: option.splits list.splits)
qed

lemma copies_all: "copies n"
proof (induction n)
  case 0
  show ?case by (auto simp: copies_def depth_below_def) (metis append_Nil2 option.distinct(1))
next
  case (Suc n)
  show ?case unfolding copies_def
  proof (intro allI impI, elim conjE)
    fix src tgt fs
    assume fs: "bm_wf fs" "bm_get fs src = Some DirNode" "fs_tree fs src" "depth_below fs src (Suc n)" "src \<parallel> tgt" "fs_free fs tgt"
    obtain fs1 where fs1: "create_dir_all tgt fs = Inr fs1" "bm_wf fs1"
        "\<And>q. bm_get fs1 q = (if prefix q tgt then Some DirNode else bm_get fs q)"
      using create_dir_all_get fs(1,6) unfolding fs_free_def by blast
    have part: "bm_get fs1 q = copied_part fs src tgt {} q" for q
      using fs(6) by (auto simp: fs1(3) copied_part_def fs_free_def below_Some prefix_def split: option.splits list.splits)
    have same: "bm_get fs1 (src @ r) = bm_get fs (src @ r)" for r using parallel_below [OF fs(5)] by (simp add: fs1(3))
    obtain names where names: "read_dir src fs1 = Inr names" "distinct names"
        "\<And>x. x \<in> set names \<longleftrightarrow> bm_get fs (src @ [x]) \<noteq> None"
      using read_dir_names [of fs1 src] same [of "[]"] fs(2) names_of_distinct [OF fs1(2)] names_of_iff [OF fs1(2), of _ src] same
      by auto
    have "\<exists>fs2. copy_entries (copy_dir n) src tgt names fs1 = Some (Inr (), fs2) \<and> bm_wf fs2 \<and>
        (\<forall>q. bm_get fs2 q = copied_part fs src tgt ({} \<union> set names) q)"
      by (rule copy_entries_ok [OF Suc fs(5,3,4) names(2) _ _ fs1(2) part]) (use names(3) in auto)
    then show "\<exists>fs'. copy_dir (Suc n) src tgt fs = Some (Inr (), fs') \<and> bm_wf fs' \<and> (\<forall>q. bm_get fs' q = copied fs src tgt q)"
      using copied_part_all [OF fs(3,2) names(3)] by (auto simp: fs_then_def fs_op_def fs1(1) names(1))
  qed
qed

text \<open>Copying a directory onto a free path that is not above or below it.\<close>

lemma copy_dir_ok:
  assumes "bm_wf fs" and "bm_get fs src = Some DirNode" and "fs_tree fs src" and "depth_below fs src n"
    and "src \<parallel> tgt" and "fs_free fs tgt"
  obtains fs' where "copy_dir n src tgt fs = Some (Inr (), fs')" and "bm_wf fs'"
    and "\<And>q. bm_get fs' q = copied fs src tgt q"
  using copies_all [of n] assms unfolding copies_def by blast

section \<open>Backups\<close>

text \<open>A file system is a tree with a root directory.\<close>

definition fs_ok :: "file_system \<Rightarrow> bool" where
  "fs_ok fs \<longleftrightarrow> bm_wf fs \<and> bm_get fs [] = Some DirNode \<and> fs_tree fs []"

definition fs_reachable :: "file_system \<Rightarrow> fpath \<Rightarrow> bool" where
  "fs_reachable fs p \<longleftrightarrow> (\<forall>q. prefix q p \<longrightarrow> \<not> fs_is_file fs q)"

lemma fs_ok_tree: "fs_ok fs \<Longrightarrow> fs_tree fs p"
  using fs_tree_sub [of fs "[]" p] by (simp add: fs_ok_def)

lemma clear_target_ok:
  assumes "fs_ok fs" and "fs_reachable fs tgt"
  obtains fs' where "clear_target tgt fs = Some (Inr (), fs')" and "bm_wf fs'" and "fs_free fs' tgt"
    and "\<And>q. bm_get fs' q = (if prefix tgt q then None else bm_get fs q)"
proof (cases "bm_get fs tgt")
  case None
  have "bm_get fs (tgt @ r) = None" for r
    using fs_tree_up [OF fs_ok_tree [OF assms(1)], of "[]" tgt r] None by (cases r; cases "bm_get fs (tgt @ r)") auto
  with None assms show thesis
    by (intro that [of fs]) (auto simp: clear_target_def fs_exists_def bm_contains_def fs_ok_def fs_free_def fs_reachable_def prefix_def)
next
  case (Some node)
  with assms(2) have "bm_get fs tgt = Some DirNode" by (cases node) (auto simp: fs_reachable_def fs_is_file_def)
  moreover have "bm_wf fs" using assms(1) by (simp add: fs_ok_def)
  ultimately obtain fs' where fs': "remove_dir_all tgt fs = Inr fs'" "bm_wf fs'"
    "\<And>q. bm_get fs' q = (if prefix tgt q then None else bm_get fs q)" by (rule remove_dir_all_get) blast
  have "fs_free fs' tgt" using assms(2) by (auto simp: fs_free_def fs_reachable_def fs_is_file_def fs'(3))
  with fs' Some that show thesis by (auto simp: clear_target_def fs_exists_def bm_contains_def fs_op_def)
qed

lemma copied_part_absent:
  assumes "fs_tree fs src" and "bm_get fs (src @ [x]) = None"
  shows "copied_part fs src tgt (insert x X) q = copied_part fs src tgt X q"
proof -
  have "bm_get fs (src @ x # r) = None" for r
    using fs_tree_up [OF assms(1), of "[x]" r] assms(2) by (cases r; cases "bm_get fs (src @ x # r)") auto
  then show ?thesis by (auto simp: copied_part_def split: option.splits list.splits)
qed

lemma copy_listed_ok:
  assumes "fs_tree fs src" and "depth_below fs src (Suc n)" and "\<forall>x \<in> set xs. (src @ [x]) \<parallel> tgt"
    and "distinct xs" and "X \<inter> set xs = {}" and "bm_wf fs'" and "\<And>q. bm_get fs' q = copied_part fs src tgt X q"
  shows "\<exists>fs2. copy_listed n src tgt xs fs' = Some (Inr (), fs2) \<and> bm_wf fs2 \<and>
    (\<forall>q. bm_get fs2 q = copied_part fs src tgt (X \<union> set xs) q)"
  using assms(3-7)
proof (induction xs arbitrary: X fs')
  case Nil
  then show ?case by simp
next
  case (Cons x xs)
  let ?copy = "if fs_is_file fs' (src @ [x]) then Some (fs_op (fs_copy (src @ [x]) (tgt @ [x])) fs')
    else if fs_is_dir fs' (src @ [x]) then copy_dir n (src @ [x]) (tgt @ [x]) fs' else Some (Inr (), fs')"
  have par: "(src @ [x]) \<parallel> tgt" and x: "x \<notin> X" using Cons.prems by auto
  have same: "bm_get fs' (src @ [x]) = bm_get fs (src @ [x])" by (rule copied_part_source [OF par Cons.prems(5)])
  have "\<exists>fs2. ?copy = Some (Inr (), fs2) \<and> bm_wf fs2 \<and> (\<forall>q. bm_get fs2 q = copied_part fs src tgt (insert x X) q)"
  proof (cases "bm_get fs (src @ [x])")
    case None
    then show ?thesis using same Cons.prems(4,5) copied_part_absent [OF assms(1) None]
      by (simp add: fs_is_file_def fs_is_dir_def)
  next
    case (Some node)
    then have "bm_get fs (src @ [x]) \<noteq> None" by simp
    from copy_child_ok [OF copies_all par assms(1,2) x Cons.prems(4,5) this] obtain fs2 where
      "(if fs_is_dir fs' (src @ [x]) then copy_dir n (src @ [x]) (tgt @ [x]) fs'
        else Some (fs_op (fs_copy (src @ [x]) (tgt @ [x])) fs')) = Some (Inr (), fs2)" "bm_wf fs2"
      "\<And>q. bm_get fs2 q = copied_part fs src tgt (insert x X) q" by metis
    then show ?thesis using Some same by (cases node) (auto simp: fs_is_file_def fs_is_dir_def)
  qed
  then obtain fs2 where fs2: "?copy = Some (Inr (), fs2)" "bm_wf fs2"
    "\<And>q. bm_get fs2 q = copied_part fs src tgt (insert x X) q" by blast
  have "\<exists>fs3. copy_listed n src tgt xs fs2 = Some (Inr (), fs3) \<and> bm_wf fs3 \<and>
    (\<forall>q. bm_get fs3 q = copied_part fs src tgt (insert x X \<union> set xs) q)"
    by (rule Cons.IH) (use Cons.prems fs2 in auto)
  then show ?case by (simp add: fs2(1) fs_then_def)
qed

lemma copy_database_ok:
  assumes "fs_ok fs" and "depth_below fs src (Suc n)" and "\<forall>x \<in> set xs. (src @ [x]) \<parallel> tgt" and "distinct xs"
    and "fs_reachable fs tgt"
  obtains fs' where "copy_database n xs src tgt fs = Some (Inr (), fs')" and "bm_wf fs'"
    and "\<And>q. bm_get fs' q = copied_part fs src tgt (set xs) q"
proof -
  obtain fs1 where fs1: "clear_target tgt fs = Some (Inr (), fs1)" "bm_wf fs1" "fs_free fs1 tgt"
    "\<And>q. bm_get fs1 q = (if prefix tgt q then None else bm_get fs q)" using clear_target_ok [OF assms(1,5)] by metis
  obtain fs2 where fs2: "create_dir_all tgt fs1 = Inr fs2" "bm_wf fs2"
    "\<And>q. bm_get fs2 q = (if prefix q tgt then Some DirNode else bm_get fs1 q)"
    using create_dir_all_get fs1(2,3) unfolding fs_free_def by blast
  have "bm_get fs2 q = copied_part fs src tgt {} q" for q
    by (auto simp: fs2(3) fs1(4) copied_part_def below_Some below_None prefix_def split: option.splits list.splits)
  then have "\<exists>fs'. copy_listed n src tgt xs fs2 = Some (Inr (), fs') \<and> bm_wf fs' \<and>
      (\<forall>q. bm_get fs' q = copied_part fs src tgt ({} \<union> set xs) q)"
    by (intro copy_listed_ok [OF fs_ok_tree [OF assms(1)] assms(2-4) _ fs2(2)]) simp_all
  then show thesis using that by (auto simp: copy_database_def fs1(1) fs2(1) fs_then_def fs_op_def)
qed

lemma child_dir: "fs_tree fs p \<Longrightarrow> bm_get fs (p @ r @ [x]) \<noteq> None \<Longrightarrow> bm_get fs (p @ r) = Some DirNode"
  unfolding fs_tree_def by blast

lemma copied_part_child:
  assumes "fs_tree fs []" and "fs_tree fs src" and "copied_part fs src tgt X (q @ [y]) \<noteq> None"
  shows "copied_part fs src tgt X q = Some DirNode"
proof (cases "below tgt q")
  case (Some r)
  then have q: "q = tgt @ r" by (simp add: below_Some)
  with assms(3) have "r = [] \<or> (\<exists>x r'. r = x # r' \<and> x \<in> X \<and> bm_get fs (src @ r @ [y]) \<noteq> None)"
    by (cases r) (auto simp: copied_part_def split: if_splits)
  then show ?thesis using Some child_dir [OF assms(2), of r y] by (auto simp: copied_part_def)
next
  case None
  show ?thesis
  proof (cases "prefix q tgt")
    case False
    then have "\<not> prefix (q @ [y]) tgt" "below tgt (q @ [y]) = None"
      using None append_prefixD by (auto simp: below_None prefix_snoc)
    then show ?thesis using None False assms(3) child_dir [OF assms(1), of q y] by (simp add: copied_part_def)
  qed (use None in \<open>simp add: copied_part_def\<close>)
qed

lemma copied_part_fs_ok:
  assumes "fs_ok fs" and "bm_wf fs'" and "\<And>q. bm_get fs' q = copied_part fs src tgt X q"
  shows "fs_ok fs'"
proof -
  have "fs_tree fs []" using assms(1) by (simp add: fs_ok_def)
  from copied_part_child [OF this fs_ok_tree [OF assms(1)]] have "fs_tree fs' []" by (simp add: fs_tree_def assms(3))
  moreover have "bm_get fs' [] = Some DirNode"
    by (cases "below tgt []") (auto simp: assms(3) copied_part_def below_Some)
  ultimately show ?thesis using assms(2) by (simp add: fs_ok_def)
qed

lemma valid_paths:
  assumes "fs_exists fs src" and "src \<parallel> tgt"
  shows "validate_copy_paths fs src tgt = Inr ()"
proof -
  have "\<not> prefix src tgt" "src \<noteq> tgt" using assms(2) by (auto simp: parallel_def)
  moreover have "\<not> prefix src (butlast tgt)" using \<open>\<not> prefix src tgt\<close> by (metis prefix_order.trans prefixeq_butlast)
  ultimately show ?thesis using assms(1)
    by (auto simp: validate_copy_paths_def canonicalize_def path_starts_with_prefix result_simps)
qed

lemma backup_dir_ok:
  assumes "fs_ok fs" and "fs_exists fs src" and "depth_below fs src (Suc n)" and "src \<parallel> tgt" and "fs_reachable fs tgt"
  obtains fs' where "backup_dir n src tgt fs = Some (Inr (), fs')" and "fs_ok fs'"
    and "\<And>q. bm_get fs' q = copied_part fs src tgt (set backup_entries) q"
proof -
  have "distinct backup_entries" by (simp add: backup_entries_def)
  from copy_database_ok [OF assms(1,3) _ this assms(5)] parallel_child [OF assms(4)] obtain fs' where
    "copy_database n backup_entries src tgt fs = Some (Inr (), fs')" "bm_wf fs'"
    "\<And>q. bm_get fs' q = copied_part fs src tgt (set backup_entries) q" by metis
  then show thesis using that copied_part_fs_ok [OF assms(1)] valid_paths [OF assms(2,4)]
    by (simp add: backup_dir_def fs_check_def)
qed

lemma restore_dir_ok:
  assumes "fs_ok fs" and "bm_get fs src = Some DirNode" and "depth_below fs src n" and "src \<parallel> tgt" and "fs_reachable fs tgt"
  obtains fs' where "restore_dir RootUnset n src tgt fs = Some (Inr (), fs')"
    and "\<And>r. bm_get fs' (tgt @ r) = bm_get fs (src @ r)"
proof -
  obtain fs1 where fs1: "clear_target tgt fs = Some (Inr (), fs1)" "bm_wf fs1" "fs_free fs1 tgt"
    "\<And>q. bm_get fs1 q = (if prefix tgt q then None else bm_get fs q)" using clear_target_ok [OF assms(1,5)] by metis
  have par: "tgt \<parallel> src" using assms(4) by (simp add: parallel_commute)
  have same: "bm_get fs1 (src @ r) = bm_get fs (src @ r)" for r
    using parallel_below(1) [OF assms(4), of r] by (simp add: fs1(4) below_None)
  have "fs_tree fs1 src" "depth_below fs1 src n" "bm_get fs1 src = Some DirNode"
    using fs_ok_tree [OF assms(1), of src] assms(2,3) same same [of "[]"] by (simp_all add: fs_tree_def depth_below_def)
  with fs1(2,3) assms(4) obtain fs' where "copy_dir n src tgt fs1 = Some (Inr (), fs')"
      "\<And>q. bm_get fs' q = copied fs1 src tgt q" by (metis copy_dir_ok)
  then show thesis using that fs1(1) same valid_paths [of fs src tgt] assms(2,4)
    by (simp add: restore_dir_def fs_check_def check_restore_paths_def validate_admin_snapshot_path_def
        admin_snapshot_root_def fs_then_def copied_def fs_exists_def bm_contains_def)
qed

section \<open>Databases\<close>

definition file_at :: "file_system \<Rightarrow> fpath \<Rightarrow> bytes option" where
  "file_at fs p = (case bm_get fs p of Some (FileNode b) \<Rightarrow> Some b | _ \<Rightarrow> None)"

text \<open>The files of a database below its directory.\<close>

definition stored_at :: "file_system \<Rightarrow> fpath \<Rightarrow> disk \<Rightarrow> bool" where
  "stored_at fs root d \<longleftrightarrow>
     file_at fs (root @ [''manifest.tdb'']) = dk_manifest d \<and>
     file_at fs (root @ [''manifest.tdb.bak'']) = dk_manifest_bak d \<and>
     (case file_at fs (root @ [''wal'', ''000001.twal'']) of None \<Rightarrow> [] | Some b \<Rightarrow> b) = dk_wal d \<and>
     (\<forall>e. file_at fs (root @ [''checkpoints'', ''checkpoint-'' @ show_nat (unat e) @ ''.tchk'']) = bm_get (dk_checkpoints d) e) \<and>
     (\<forall>e. file_at fs (root @ [''checkpoints'', ''checkpoint-'' @ show_nat (unat e) @ ''.json'']) = bm_get (dk_json_checkpoints d) e) \<and>
     file_at fs (root @ [''jobs'', ''catalog.tjobs'']) = dk_job_catalog d"

lemma stored_at_same:
  assumes "stored_at fs root d" and "\<And>r. bm_get fs' (root' @ r) = bm_get fs (root @ r)"
  shows "stored_at fs' root' d"
  using assms(1) by (simp add: stored_at_def file_at_def assms(2))

lemma stored_at_backup:
  assumes "stored_at fs src d" and "\<And>q. bm_get fs' q = copied_part fs src tgt (set backup_entries) q"
  shows "stored_at fs' tgt (d\<lparr>dk_manifest_bak := None\<rparr>)"
proof -
  have "file_at fs' (tgt @ x # r) = (if x \<in> set backup_entries then file_at fs (src @ x # r) else None)" for x r
    by (simp add: file_at_def assms(2) copied_part_def)
  then show ?thesis using assms(1) by (simp add: stored_at_def backup_entries_def)
qed

text \<open>Where a directory lies does not matter to its checkpoint files.\<close>

lemma read_checkpoint_moved:
  assumes "read_checkpoint_file P dir d e enc = Inr c"
  shows "read_checkpoint_file P dir2 d e enc = Inr c"
proof -
  have legacy: "verify_checkpoint_file P path c v = Inr c' \<Longrightarrow> verify_checkpoint_file P path2 c v = Inr c'" for path path2 c c' v
    by (auto simp: verify_checkpoint_file_def result_simps Let_def)
  have json: "read_json_checkpoint_file P path body = Inr c \<Longrightarrow> read_json_checkpoint_file P path2 body = Inr c" for path path2 body
    by (auto simp: read_json_checkpoint_file_def result_simps intro: legacy split: sum.splits)
  have bin: "read_binary_checkpoint_file P path body enc = Inr c \<Longrightarrow> read_binary_checkpoint_file P path2 body enc = Inr c" for path path2 body
    by (auto simp: read_binary_checkpoint_file_def read_framed_checkpoint_file_def read_legacy_binary_checkpoint_file_def
        result_simps Let_def intro: legacy split: sum.splits if_splits)
  show ?thesis using assms by (auto simp: read_checkpoint_file_def intro: json bin split: option.splits)
qed

lemma load_checkpoint_moved:
  assumes "load_checkpoint P dir d enc m = Inr x"
  shows "load_checkpoint P dir2 d enc m = Inr x"
  using assms by (auto simp: load_checkpoint_def result_simps dest: read_checkpoint_moved [where ?dir2.0 = dir2] split: if_splits)

lemma engine_inv_moved:
  assumes "engine_inv P opts mk (db, d)"
  shows "engine_inv P opts mk (db\<lparr>td_dir := dir2\<rparr>, d\<lparr>dk_manifest_bak := None\<rparr>)"
proof -
  let ?db = "db\<lparr>td_dir := dir2\<rparr>" and ?d = "d\<lparr>dk_manifest_bak := None\<rparr>"
  from assms obtain es st2 where inv: "read_manifest_inner P (dk_manifest d) = Inr (td_manifest db)" "mf_modules (td_manifest db) \<noteq> []"
      "open_encryption P opts mk (td_manifest db) = Inr (td_encryption db)" "mk \<noteq> None \<longrightarrow> td_encryption db \<noteq> None"
      "wal_encryption (td_wal db) = td_encryption db" "db_ok db"
    and wal: "wal_inv (log_of_prims P) (td_wal db) (dk_wal d) es"
    and epochs: "\<forall>e \<in> set es. 0 < cr_epoch (we_commit e) \<and> cr_epoch (we_commit e) \<le> mf_latest_epoch (td_manifest db)"
    and rec: "recovers P db d es st2"
    and agree: "stores_agree (mf_checkpoint_epoch (td_manifest db)) (mf_latest_epoch (td_manifest db)) (td_store db) st2"
    by (rule engine_invE)
  have "load_checkpoint P dir2 ?d enc m = Inr x" if "load_checkpoint P (td_dir db) d enc m = Inr x" for enc m x
    using load_checkpoint_moved [OF that] load_checkpoint_cong [of ?d d] by simp
  then have "recovers P ?db ?d es st2" using rec unfolding recovers_def Let_def by simp blast
  then show ?thesis using inv wal epochs agree
    by (intro engine_invI [of P ?d ?db opts mk es st2]) (simp_all add: db_ok_def)
qed

lemma moved_database_opens:
  assumes "reached P env opts dir (db, d)" and "eng_prims_ok P" and "options_master_key P env opts = Inr mk"
  shows "\<exists>db2. open_with_options P env dek nonce opts dir2 (d\<lparr>dk_manifest_bak := None\<rparr>) =
    (Inr db2, d\<lparr>dk_manifest_bak := None\<rparr>) \<and> same_answers db db2"
proof -
  from reached_inv [OF assms] have "engine_inv P opts mk (db, d)" by simp
  from inv_reopens [OF engine_inv_moved [OF this] assms(3), of dek nonce dir2] obtain db2 where
    "open_with_options P env dek nonce opts dir2 (d\<lparr>dk_manifest_bak := None\<rparr>) = (Inr db2, d\<lparr>dk_manifest_bak := None\<rparr>)"
    "same_answers (db\<lparr>td_dir := dir2\<rparr>) db2" by auto
  moreover have "db_get (db\<lparr>td_dir := dir2\<rparr>) request = db_get db request" for request
    by (simp add: db_get_def table_for_def)
  moreover have "db_scan (db\<lparr>td_dir := dir2\<rparr>) request = db_scan db request" for request
    by (simp add: db_scan_def table_for_def sorted_visible_records_def)
  ultimately show ?thesis by (auto simp: same_answers_def)
qed


text \<open>
  The checks on the paths do not look for a source inside the target: backing a database up onto a
  directory above it deletes the database and reports success.
\<close>

lemma backup_onto_ancestor_deletes:
  assumes "fs_ok fs" and "fs_exists fs src" and "bm_get fs tgt = Some DirNode" and "prefix tgt src" and "tgt \<noteq> src"
    and "fs_reachable fs tgt"
  shows "\<exists>fs'. backup_dir n src tgt fs = Some (Inr (), fs') \<and> (\<forall>r. bm_get fs' (src @ r) = None)"
proof -
  obtain fs1 where fs1: "clear_target tgt fs = Some (Inr (), fs1)" "bm_wf fs1" "fs_free fs1 tgt"
    "\<And>q. bm_get fs1 q = (if prefix tgt q then None else bm_get fs q)" by (rule clear_target_ok [OF assms(1,6)]) (rule that)
  obtain fs2 where fs2: "create_dir_all tgt fs1 = Inr fs2"
    "\<And>q. bm_get fs2 q = (if prefix q tgt then Some DirNode else bm_get fs1 q)"
    by (rule create_dir_all_get [OF _ fs1(2)]) (use fs1(3) in \<open>auto simp: fs_free_def\<close>)
  have up: "\<not> prefix src tgt" using assms(4,5) prefix_order.antisym by blast
  have gone: "bm_get fs2 (src @ r) = None" for r
  proof -
    have "\<not> prefix (src @ r) tgt" using up append_prefixD by blast
    moreover have "prefix tgt (src @ r)" using assms(4) by (rule prefix_prefix)
    ultimately show ?thesis by (simp add: fs2(2) fs1(4))
  qed
  have "copy_listed n src tgt xs fs2 = Some (Inr (), fs2)" for xs
    by (induction xs) (simp_all add: gone fs_is_file_def fs_is_dir_def fs_then_def)
  moreover have "fs_exists fs tgt" using assms(3) by (simp add: fs_exists_def bm_contains_def)
  then have "validate_copy_paths fs src tgt = Inr ()"
    using assms(2,5) up by (simp add: validate_copy_paths_def canonicalize_def path_starts_with_prefix \<open>fs_exists fs tgt\<close>)
  ultimately have "backup_dir n src tgt fs = Some (Inr (), fs2)"
    by (simp add: backup_dir_def fs_check_def copy_database_def fs1(1) fs2(1) fs_then_def fs_op_def)
  with gone show ?thesis by blast
qed

section \<open>A database, its backup and its restored copy\<close>

definition side_files :: "disk \<Rightarrow> (epoch, bytes) bmap \<times> (epoch, bytes) bmap \<times> bytes option" where
  "side_files d = (dk_checkpoints d, dk_json_checkpoints d, dk_job_catalog d)"

lemma write_manifest_side: "write_manifest P d m = Inr (d', m') \<Longrightarrow> side_files d' = side_files d"
  by (auto simp: write_manifest_def copy_manifest_backup_def side_files_def result_simps Let_def
      split: option.splits sum.splits if_splits)

lemma create_manifest_side:
  "create_manifest_if_missing P dek nonce dir mk d = (Inr u, d') \<Longrightarrow> side_files d' = side_files d"
  by (auto simp: create_manifest_if_missing_def eupdates_def result_simps Let_def split: sum.splits if_splits prod.splits
      dest: write_manifest_side)

lemma adopt_master_key_side:
  "adopt_master_key P dek nonce mk m enc d = (Inr u, d') \<Longrightarrow> side_files d' = side_files d"
  by (auto simp: adopt_master_key_def eupdates_def result_simps split: sum.splits option.splits prod.splits
      dest: write_manifest_side)

lemma advance_manifest_side: "advance_manifest P cs m d = (Inr u, d') \<Longrightarrow> side_files d' = side_files d"
  by (auto simp: advance_manifest_def eupdates_def result_simps split: sum.splits if_splits prod.splits
      dest: write_manifest_side)

lemma open_side:
  assumes "open_with_options P env dek nonce opts dir d = (Inr db, d')"
  shows "side_files d' = side_files d"
proof -
  obtain d1 d2 m1 m2 enc log_file w cs m4 m where
    c: "create_manifest_if_missing P dek nonce dir m1 d = (Inr (), d1)"
    and a: "adopt_master_key P dek nonce m1 m2 enc d1 = (Inr w, d2)"
    and v: "advance_manifest P cs m4 (d2\<lparr>dk_wal := log_file\<rparr>) = (Inr m, d')"
    using assms by (auto simp: open_with_options_def ebind_Inr eupdates_Inr rbind_eq_Inr ereads_def ereturn_def Let_def
        simp del: ebind_simps)
  from advance_manifest_side [OF v] adopt_master_key_side [OF a] create_manifest_side [OF c] show ?thesis
    by (simp add: side_files_def)
qed

text \<open>A file system with the fresh database of \<open>demo_created\<close>.\<close>

definition demo_fs :: "disk \<Rightarrow> file_system" where
  "demo_fs d = [([], DirNode), ([''db''], DirNode)] @
     (case dk_manifest d of None \<Rightarrow> [] | Some b \<Rightarrow> [([''db'', ''manifest.tdb''], FileNode b)]) @
     (case dk_manifest_bak d of None \<Rightarrow> [] | Some b \<Rightarrow> [([''db'', ''manifest.tdb.bak''], FileNode b)]) @
     [([''db'', ''wal''], DirNode), ([''db'', ''wal'', ''000001.twal''], FileNode (dk_wal d))]"

lemma fs_tree_entries:
  assumes "\<forall>e \<in> set fs. fst e \<noteq> [] \<longrightarrow> bm_get fs (butlast (fst e)) = Some DirNode"
  shows "fs_tree fs []"
  unfolding fs_tree_def
proof (intro allI impI)
  fix r x assume "bm_get fs ([] @ r @ [x]) \<noteq> None"
  then obtain v where "bm_get fs (r @ [x]) = Some v" by auto
  from bm_getD [OF this] assms show "bm_get fs ([] @ r) = Some DirNode" by fastforce
qed

lemma depth_below_entries: "\<forall>e \<in> set fs. length (fst e) < length p + n \<Longrightarrow> depth_below fs p n"
  unfolding depth_below_def by (force dest: bm_getD)

lemma demo_fs_ok: "fs_ok (demo_fs d)" "bm_get (demo_fs d) [''db''] = Some DirNode" "depth_below (demo_fs d) [''db''] 3"
proof -
  have "bm_wf (demo_fs d)"
    by (auto simp: demo_fs_def bm_wf_def split: option.splits)
  moreover have "fs_tree (demo_fs d) []"
    by (rule fs_tree_entries) (auto simp: demo_fs_def bm_get_Cons split: option.splits)
  ultimately show "fs_ok (demo_fs d)" by (simp add: fs_ok_def demo_fs_def bm_get_Cons)
  show "bm_get (demo_fs d) [''db''] = Some DirNode" by (simp add: demo_fs_def bm_get_Cons)
  show "depth_below (demo_fs d) [''db''] 3"
    by (rule depth_below_entries) (auto simp: demo_fs_def split: option.splits)
qed

lemma demo_fs_stored: "side_files d = ([], [], None) \<Longrightarrow> stored_at (demo_fs d) [''db''] d"
  by (auto simp: side_files_def stored_at_def file_at_def demo_fs_def bm_get_Cons split: option.splits)

lemma demo_fs_reachable: "p = [''bkp''] \<or> p = [''copy''] \<Longrightarrow> fs_reachable (demo_fs d) p"
  by (auto simp: fs_reachable_def fs_is_file_def demo_fs_def bm_get_Cons prefix_Cons split: option.splits)


end
