(* ===== verification/Server_Text.thy ===== *)
theory Server_Text
  imports Graphql Sealing
begin

text \<open>
  The text side of \<open>crates/tracedb-server/src/lib.rs\<close>: requests and their headers, the actor of a
  request, TraceQL commands, the native GraphQL arguments, responses, configuration, and the reading of
  a request from a connection.

  Requests are handled as text. An indexing of a string inside a character panics, and the connection
  gets no answer: such results are options whose \<open>None\<close> is the panic. Third-party code is a parameter:
  the JSON decoders of \<open>serde_json\<close>, one pair per type, and the parser of \<open>async_graphql\<close>.
\<close>

section \<open>Text\<close>

abbreviation LF :: char where "LF \<equiv> CHR 0x0A"
abbreviation CR :: char where "CR \<equiv> CHR 0x0D"

definition strip_cr :: "string \<Rightarrow> string" where
  "strip_cr l = (if l \<noteq> [] \<and> last l = CR then butlast l else l)"

text \<open>\<open>str::lines\<close>.\<close>

definition str_lines :: "string \<Rightarrow> string list" where
  "str_lines s =
     (let ps = split_at LF s in map strip_cr (butlast ps) @ (if last ps = [] then [] else [last ps]))"

text \<open>\<open>str::find\<close> of a text.\<close>

fun find_str :: "string \<Rightarrow> string \<Rightarrow> nat option" where
  "find_str pat [] = (if pat = [] then Some 0 else None)"
| "find_str pat (c # cs) = (if starts_with (c # cs) pat then Some 0 else map_option Suc (find_str pat cs))"

text \<open>\<open>s.split(pat).nth(1)\<close>: what lies between the first two occurrences.\<close>

definition split_nth1 :: "string \<Rightarrow> string \<Rightarrow> string option" where
  "split_nth1 pat s =
     (case find_str pat s of
        None \<Rightarrow> None
      | Some i \<Rightarrow>
          let rest = drop (i + length pat) s
          in Some (case find_str pat rest of None \<Rightarrow> rest | Some j \<Rightarrow> take j rest))"

definition strip_prefix_str :: "string \<Rightarrow> string \<Rightarrow> string option" where
  "strip_prefix_str p s = (if starts_with s p then Some (drop (length p) s) else None)"

definition or_else :: "'a option \<Rightarrow> 'a option \<Rightarrow> 'a option" where
  "or_else a b = (case a of Some x \<Rightarrow> Some x | None \<Rightarrow> b)"

definition unwrap_or :: "'a \<Rightarrow> 'a option \<Rightarrow> 'a" where
  "unwrap_or d a = (case a of Some x \<Rightarrow> x | None \<Rightarrow> d)"

text \<open>\<open>Iterator::find_map\<close>.\<close>

fun find_map :: "('a \<Rightarrow> 'b option) \<Rightarrow> 'a list \<Rightarrow> 'b option" where
  "find_map f [] = None"
| "find_map f (x # xs) = (case f x of Some y \<Rightarrow> Some y | None \<Rightarrow> find_map f xs)"

definition option_filter :: "('a \<Rightarrow> bool) \<Rightarrow> 'a option \<Rightarrow> 'a option" where
  "option_filter Q a = (case a of Some x \<Rightarrow> if Q x then Some x else None | None \<Rightarrow> None)"

text \<open>Whether a text may be cut at an index: not before a continuation byte.\<close>

definition is_char_boundary :: "string \<Rightarrow> nat \<Rightarrow> bool" where
  "is_char_boundary s n \<longleftrightarrow>
     n = 0 \<or> n = length s \<or> (n < length s \<and> \<not> (128 \<le> byte_val (s ! n) \<and> byte_val (s ! n) < 192))"

definition is_ascii_whitespace :: "char \<Rightarrow> bool" where
  "is_ascii_whitespace c \<longleftrightarrow> c \<in> {CHR 0x09, CHR 0x0A, CHR 0x0C, CHR 0x0D, CHR 0x20}"

text \<open>\<open>json!({ ... })\<close>: the keys are inserted into a sorted map.\<close>

definition json_object :: "(string \<times> json) list \<Rightarrow> json" where
  "json_object kvs = JObject (foldl (\<lambda>m (k, v). bm_insert k v m) [] kvs)"

text \<open>\<open>Value::get\<close> with a name; \<open>value[name] = v\<close> on an object.\<close>

definition json_get :: "json \<Rightarrow> string \<Rightarrow> json option" where
  "json_get v field = (case v of JObject m \<Rightarrow> bm_get m field | _ \<Rightarrow> None)"

definition json_set :: "string \<Rightarrow> json \<Rightarrow> json \<Rightarrow> json" where
  "json_set field x v = (case v of JObject m \<Rightarrow> JObject (bm_insert field x m) | _ \<Rightarrow> v)"

definition as_bool :: "json \<Rightarrow> bool option" where
  "as_bool v = (case v of JBool b \<Rightarrow> Some b | _ \<Rightarrow> None)"

definition json_nat :: "nat \<Rightarrow> json" where
  "json_nat n = JNumber (PosInt (of_nat n))"

section \<open>What the server calls of other crates\<close>

record 'a decoder =
  from_str :: "string \<Rightarrow> string + 'a"
  from_value :: "json \<Rightarrow> string + 'a"

record put_batch_request =
  pb_records :: "record_input list"
  pb_include_write_timing :: bool

record graphql_request =
  gr_query :: string
  gr_variables :: json
  gr_operation_name :: "string option"

record srv_prims =
  sp_qry :: qry_prims
  sp_front :: front_prims
  sp_graphql_parse :: "string \<Rightarrow> string + unit"
  sp_string :: "string decoder"
  sp_schema :: "table_schema decoder"
  sp_input :: "record_input decoder"
  sp_put :: "record_input decoder"
  sp_batch :: "put_batch_request decoder"
  sp_patch :: "record_input decoder"
  sp_delete :: "record_deletion decoder"
  sp_get :: "record_get_request decoder"
  sp_scan :: "record_scan_request decoder"
  sp_query :: "hybrid_query decoder"
  sp_traceql :: "string decoder"
  sp_graphql :: "graphql_request decoder"
  sp_record_json :: "record_output \<Rightarrow> json"
  sp_scan_json :: "record_scan_output \<Rightarrow> json"
  sp_rows_json :: "query_output \<Rightarrow> json"
  sp_output_json :: "query_output \<Rightarrow> json"
  sp_explain_json :: "query_output \<Rightarrow> json"
  sp_get_json :: "record_get_request \<Rightarrow> json"
  sp_job_json :: "trace_job \<Rightarrow> json"

abbreviation srv_eng :: "srv_prims \<Rightarrow> eng_prims" where
  "srv_eng S \<equiv> eng_prims.truncate (sp_qry S)"

abbreviation srv_text :: "srv_prims \<Rightarrow> json \<Rightarrow> string" where
  "srv_text S \<equiv> json_text (sp_qry S)"

abbreviation parse_value :: "srv_prims \<Rightarrow> string \<Rightarrow> string + json" where
  "parse_value S \<equiv> json_parse (sp_front S)"

text \<open>\<open>Result::ok\<close>.\<close>

definition ok_of :: "'e + 'a \<Rightarrow> 'a option" where
  "ok_of r = (case r of Inl _ \<Rightarrow> None | Inr x \<Rightarrow> Some x)"

section \<open>Configuration\<close>

record server_config =
  sc_internal_token :: "string option"
  sc_request_timeout_ms :: nat
  sc_max_concurrent_requests :: nat

type_synonym process_env = "string \<Rightarrow> string option"

definition config_default :: server_config where
  "config_default = \<lparr>sc_internal_token = None, sc_request_timeout_ms = 30 * 1000, sc_max_concurrent_requests = 1024\<rparr>"

definition bool_env :: "process_env \<Rightarrow> string \<Rightarrow> bool \<Rightarrow> bool" where
  "bool_env env name default_value =
     (case env name of None \<Rightarrow> default_value | Some val \<Rightarrow> val \<in> {''true'', ''1'', ''yes'', ''on''})"

definition env_duration_ms :: "process_env \<Rightarrow> string \<Rightarrow> nat \<Rightarrow> nat" where
  "env_duration_ms env name default_ms = unwrap_or default_ms (Option.bind (env name) parse_u64)"

definition env_usize :: "process_env \<Rightarrow> string \<Rightarrow> nat \<Rightarrow> nat" where
  "env_usize env name default_value = unwrap_or default_value (Option.bind (env name) parse_u64)"

definition config_from_env :: "process_env \<Rightarrow> string + server_config" where
  "config_from_env env =
     (let internal_token = option_filter (\<lambda>token. trim token \<noteq> [])
            (or_else (env ''TRACEDB_ENGINE_INTERNAL_TOKEN'') (env ''TRACEDB_ENGINE_TOKEN''));
          require_internal_token =
            bool_env env ''TRACEDB_REQUIRE_ENGINE_TOKEN'' False \<or> bool_env env ''TRACEDB_HOSTED_ALPHA'' False
      in if internal_token = None \<and> require_internal_token
         then Inl ''TRACEDB_ENGINE_INTERNAL_TOKEN must be set when hosted/private engine mode is enabled''
         else Inr \<lparr>sc_internal_token = internal_token,
                   sc_request_timeout_ms = env_duration_ms env ''TRACEDB_REQUEST_TIMEOUT_MS'' 30000,
                   sc_max_concurrent_requests = max (env_usize env ''TRACEDB_MAX_CONCURRENT_REQUESTS'' 1024) 1\<rparr>)"

definition with_internal_token :: "string \<Rightarrow> server_config \<Rightarrow> server_config" where
  "with_internal_token token c = c\<lparr>sc_internal_token := Some token\<rparr>"

definition with_request_timeout :: "nat \<Rightarrow> server_config \<Rightarrow> server_config" where
  "with_request_timeout timeout c = c\<lparr>sc_request_timeout_ms := timeout\<rparr>"

definition with_max_concurrent_requests :: "nat \<Rightarrow> server_config \<Rightarrow> server_config" where
  "with_max_concurrent_requests limit c = c\<lparr>sc_max_concurrent_requests := max limit 1\<rparr>"

section \<open>Requests\<close>

text \<open>\<open>header_value\<close> looks at every line after the first, those of the body too.\<close>

definition header_value :: "string \<Rightarrow> string \<Rightarrow> string option" where
  "header_value request name =
     find_map (\<lambda>line. Option.bind (split_once CHR '':'' line) (\<lambda>(header, val).
       if eq_ignore_ascii_case header name then Some (trim val) else None)) (drop 1 (str_lines request))"

definition authorizes_private_request :: "server_config \<Rightarrow> string \<Rightarrow> bool" where
  "authorizes_private_request c request =
     (case sc_internal_token c of
        None \<Rightarrow> True
      | Some required \<Rightarrow> header_value request ''x-tracedb-engine-token'' = Some required)"

definition route_path :: "string \<Rightarrow> string" where
  "route_path target = (case split_once CHR ''?'' target of Some (path, _) \<Rightarrow> path | None \<Rightarrow> target)"

definition request_line_parts :: "string \<Rightarrow> string \<times> string" where
  "request_line_parts request =
     (let request_line = (case str_lines request of [] \<Rightarrow> [] | l # _ \<Rightarrow> l);
          parts = split_whitespace request_line
      in ((case parts of [] \<Rightarrow> [] | m # _ \<Rightarrow> m), route_path (case parts of _ # t # _ \<Rightarrow> t | _ \<Rightarrow> [])))"

definition request_body :: "string \<Rightarrow> string" where
  "request_body request =
     unwrap_or [] (or_else (split_nth1 [CR, LF, CR, LF] request) (split_nth1 [LF, LF] request))"

definition is_public_engine_route :: "string \<Rightarrow> string \<Rightarrow> bool" where
  "is_public_engine_route verb path \<longleftrightarrow> verb = ''GET'' \<and> (path = ''/health'' \<or> path = ''/v1/health'')"

definition supports_http_idempotency :: "string \<Rightarrow> string \<Rightarrow> bool" where
  "supports_http_idempotency verb path \<longleftrightarrow> verb = ''POST'' \<and>
     path \<in> {''/v1/schema/apply'', ''/v1/insert'', ''/v1/records/put'', ''/v1/records/put-batch'', ''/v1/records/patch'',
       ''/v1/records/delete'', ''/v1/admin/compact'', ''/v1/admin/snapshot'', ''/v1/admin/restore'', ''/v1/graphql'',
       ''/v1/traceql''}"

definition records_receipt_after_response :: "string \<Rightarrow> string \<Rightarrow> bool" where
  "records_receipt_after_response verb path \<longleftrightarrow> verb = ''POST'' \<and>
     path \<in> {''/v1/admin/compact'', ''/v1/admin/snapshot'', ''/v1/admin/restore'', ''/v1/graphql'', ''/v1/traceql''}"

definition required_str :: "json \<Rightarrow> string \<Rightarrow> string + string" where
  "required_str v field = ok_or (field @ '' is required'') (Option.bind (json_get v field) as_str)"

definition parse_job_kind :: "string \<Rightarrow> job_kind option" where
  "parse_job_kind v =
     (if v \<in> {''GenerateEmbedding'', ''generate_embedding''} then Some GenerateEmbedding
      else if v \<in> {''RegenerateEmbedding'', ''regenerate_embedding''} then Some RegenerateEmbedding
      else if v \<in> {''BuildTextIndex'', ''build_text_index''} then Some BuildTextIndex
      else if v \<in> {''BuildVectorIndex'', ''build_vector_index''} then Some BuildVectorIndex
      else if v \<in> {''CompactSegment'', ''compact_segment''} then Some CompactSegment
      else if v \<in> {''VacuumArtifacts'', ''vacuum_artifacts''} then Some VacuumArtifacts
      else if v \<in> {''ReindexTable'', ''reindex_table''} then Some ReindexTable
      else if v \<in> {''ValidatePolicy'', ''validate_policy''} then Some ValidatePolicy
      else if v \<in> {''RefreshSummary'', ''refresh_summary''} then Some RefreshSummary
      else if v \<in> {''FeatureRefresh'', ''feature_refresh''} then Some FeatureRefresh
      else if v \<in> {''ExportSubject'', ''export_subject''} then Some ExportSubject
      else if v \<in> {''PurgeSubject'', ''purge_subject''} then Some PurgeSubject
      else if v \<in> {''BackupDatabase'', ''backup_database''} then Some BackupDatabase
      else if v \<in> {''RestoreVerification'', ''restore_verification''} then Some RestoreVerification
      else if v \<in> {''VerifyDatabase'', ''verify_database''} then Some VerifyDatabase
      else None)"

section \<open>Responses\<close>

text \<open>\<open>http_json_response\<close>; the five status responses are written out one by one in the source.\<close>

definition http_json_response :: "srv_prims \<Rightarrow> string \<Rightarrow> json \<Rightarrow> string" where
  "http_json_response S status v =
     (let body = srv_text S v
      in ''HTTP/1.1 '' @ status @ [CR, LF] @ ''content-type: application/json'' @ [CR, LF] @ ''content-length: '' @
         show_nat (length body) @ [CR, LF, CR, LF] @ body)"

definition error_json :: "string \<Rightarrow> string \<Rightarrow> json" where
  "error_json message code = json_object [(''error'', JString message), (''code'', JString code)]"

definition resp_not_found :: "srv_prims \<Rightarrow> string" where
  "resp_not_found S = http_json_response S ''404 Not Found'' (error_json ''not found'' ''not_found'')"

definition resp_bad_request :: "srv_prims \<Rightarrow> string \<Rightarrow> string" where
  "resp_bad_request S message = http_json_response S ''400 Bad Request'' (error_json message ''bad_request'')"

definition resp_unauthorized :: "srv_prims \<Rightarrow> string \<Rightarrow> string" where
  "resp_unauthorized S message = http_json_response S ''401 Unauthorized'' (error_json message ''unauthorized'')"

definition resp_conflict :: "srv_prims \<Rightarrow> string \<Rightarrow> string" where
  "resp_conflict S message = http_json_response S ''409 Conflict'' (error_json message ''idempotency_conflict'')"

datatype runtime_route_error = RouteTimeout | RouteOverloaded | RouteInternal string

definition runtime_error_response :: "srv_prims \<Rightarrow> runtime_route_error \<Rightarrow> string" where
  "runtime_error_response S err =
     (case err of
        RouteTimeout \<Rightarrow> http_json_response S ''504 Gateway Timeout'' (error_json ''request timed out'' ''timeout'')
      | RouteOverloaded \<Rightarrow>
          http_json_response S ''503 Service Unavailable'' (error_json ''request capacity exceeded'' ''overloaded'')
      | RouteInternal message \<Rightarrow>
          http_json_response S ''500 Internal Server Error'' (error_json message ''internal_error''))"

definition ok_body_with_headers :: "string \<Rightarrow> (string \<times> string) list \<Rightarrow> string" where
  "ok_body_with_headers body extra_headers =
     ''HTTP/1.1 200 OK'' @ [CR, LF] @ ''content-type: application/json'' @ [CR, LF] @ ''content-length: '' @
     show_nat (length body) @ [CR, LF] @
     concat (map (\<lambda>(name, val). name @ '': '' @ val @ [CR, LF]) extra_headers) @ [CR, LF] @ body"

definition resp_ok :: "srv_prims \<Rightarrow> json \<Rightarrow> string" where
  "resp_ok S v = ok_body_with_headers (srv_text S v) []"

text \<open>
  The durations are measured; what enters the response is their text with three decimals, \<open>dur\<close> of
  the name.
\<close>

definition server_timing_header :: "(string \<Rightarrow> string) \<Rightarrow> string list \<Rightarrow> string" where
  "server_timing_header dur names = join '', '' (map (\<lambda>name. name @ '';dur='' @ dur name) names)"

definition ok_timed :: "srv_prims \<Rightarrow> (string \<Rightarrow> string) \<Rightarrow> json \<Rightarrow> string list \<Rightarrow> string" where
  "ok_timed S dur v names =
     ok_body_with_headers (srv_text S v)
       [(''server-timing'', server_timing_header dur
          (names @ [''response_shape'', ''body_encode'', ''encode'', ''prewrite_total'']))]"

definition graphql_error :: "string \<Rightarrow> json" where
  "graphql_error message =
     json_object [(''message'', JString message),
       (''extensions'', json_object [(''code'', JString ''TRACEDB_GRAPHQL_ERROR'')])]"

section \<open>TraceQL commands\<close>

definition starts_with_sqlish_select_payload :: "string \<Rightarrow> bool" where
  "starts_with_sqlish_select_payload input =
     (let trimmed = trim_start input in
      6 \<le> length trimmed \<and> is_char_boundary trimmed 6 \<and> eq_ignore_ascii_case (take 6 trimmed) ''SELECT'' \<and>
      (drop 6 trimmed = [] \<or> ws_len (drop 6 trimmed) \<noteq> None))"

definition traceql_commands :: "string list" where
  "traceql_commands =
     [''SCHEMA APPLY'', ''RECORD PUT'', ''RECORD BATCH'', ''RECORD PATCH'', ''RECORD DELETE'', ''RECORD GET'',
      ''RECORD SCAN'', ''ADMIN COMPACT'', ''ADMIN SNAPSHOT'', ''ADMIN RESTORE'', ''JOBS LIST'', ''JOBS RUN'',
      ''EXPLAIN'', ''QUERY'', ''PUT'', ''BATCH'', ''PATCH'', ''DELETE'', ''GET'', ''SCAN'', ''COMPACT'', ''SNAPSHOT'',
      ''RESTORE'']"

text \<open>
  The loop over the commands. The text before the length of a command is sliced before it is compared,
  which panics inside a character.
\<close>

fun split_command_loop :: "string \<Rightarrow> string list \<Rightarrow> (string \<times> string) option option" where
  "split_command_loop trimmed [] = Some None"
| "split_command_loop trimmed (command # rest) =
     (let n = length command in
      if eq_ignore_ascii_case trimmed command then Some (Some (command, ''{}''))
      else if length trimmed \<le> n then split_command_loop trimmed rest
      else if \<not> is_char_boundary trimmed n then None
      else if eq_ignore_ascii_case (take n trimmed) command \<and> is_ascii_whitespace (trimmed ! n) then
        let payload = trim (drop n trimmed) in
        if command = ''EXPLAIN'' \<and> starts_with_sqlish_select_payload payload then split_command_loop trimmed rest
        else Some (Some (command, payload))
      else split_command_loop trimmed rest)"

definition split_traceql_command :: "string \<Rightarrow> (string \<times> string) option option" where
  "split_traceql_command input = split_command_loop (trim input) traceql_commands"

section \<open>Arguments of the native GraphQL endpoint\<close>

definition graphql_root_field :: "string \<Rightarrow> string option" where
  "graphql_root_field query =
     (case find_str ''{'' query of
        None \<Rightarrow> None
      | Some body_start \<Rightarrow>
          let field = takeWhile (\<lambda>c. is_ascii_alphanumeric c \<or> c = CHR ''_'') (trim_start (drop (body_start + 1) query))
          in if field = [] then None else Some field)"

text \<open>
  \<open>matching_delimited\<close> after the opening character, which is the first of its input: the depth, whether
  inside a string, whether escaped, and what has been read.
\<close>

fun delimited_loop :: "char \<Rightarrow> char \<Rightarrow> nat \<Rightarrow> bool \<Rightarrow> bool \<Rightarrow> string \<Rightarrow> string \<Rightarrow> string option" where
  "delimited_loop open_ch close_ch depth in_string escaped out [] = None"
| "delimited_loop open_ch close_ch depth in_string escaped out (ch # rest) =
     (if in_string then
        delimited_loop open_ch close_ch depth (escaped \<or> ch \<noteq> CHR 0x22) (\<not> escaped \<and> ch = CHR 0x5C) (out @ [ch]) rest
      else if ch = CHR 0x22 then delimited_loop open_ch close_ch depth True escaped (out @ [ch]) rest
      else if ch = open_ch then delimited_loop open_ch close_ch (depth + 1) False escaped (out @ [ch]) rest
      else if ch = close_ch then
        (if depth - 1 = 0 then Some out
         else delimited_loop open_ch close_ch (depth - 1) False escaped (out @ [ch]) rest)
      else delimited_loop open_ch close_ch depth False escaped (out @ [ch]) rest)"

definition matching_delimited :: "string \<Rightarrow> char \<Rightarrow> char \<Rightarrow> string option" where
  "matching_delimited input open_ch close_ch =
     (case dropWhile (\<lambda>c. c \<noteq> open_ch) input of
        [] \<Rightarrow> None
      | _ # rest \<Rightarrow> delimited_loop open_ch close_ch 1 False False [] rest)"

text \<open>The loop of \<open>split_top_level\<close>: the part being read is kept instead of its start.\<close>

fun split_top_loop :: "char \<Rightarrow> nat \<Rightarrow> bool \<Rightarrow> bool \<Rightarrow> string \<Rightarrow> string \<Rightarrow> string list" where
  "split_top_loop sep depth in_string escaped part [] = [trim part]"
| "split_top_loop sep depth in_string escaped part (ch # rest) =
     (if in_string then
        split_top_loop sep depth (escaped \<or> ch \<noteq> CHR 0x22) (\<not> escaped \<and> ch = CHR 0x5C) (part @ [ch]) rest
      else if ch = CHR 0x22 then split_top_loop sep depth True escaped (part @ [ch]) rest
      else if ch \<in> {CHR ''('', CHR ''['', CHR ''{''} then split_top_loop sep (depth + 1) False escaped (part @ [ch]) rest
      else if ch \<in> {CHR '')'', CHR '']'', CHR ''}''} then split_top_loop sep (depth - 1) False escaped (part @ [ch]) rest
      else if ch = sep \<and> depth = 0 then trim part # split_top_loop sep depth False escaped [] rest
      else split_top_loop sep depth False escaped (part @ [ch]) rest)"

definition split_top_level :: "string \<Rightarrow> char \<Rightarrow> string list" where
  "split_top_level input sep = split_top_loop sep 0 False False [] input"

definition graphql_arg_raw :: "string \<Rightarrow> string \<Rightarrow> string \<Rightarrow> string option" where
  "graphql_arg_raw query field arg_name =
     Option.bind (find_str field query) (\<lambda>field_index.
     let after_field = drop (field_index + length field) query in
     Option.bind (find_str ''('' after_field) (\<lambda>open_at.
     Option.bind (matching_delimited (drop open_at after_field) CHR ''('' CHR '')'') (\<lambda>args.
     find_map (\<lambda>part. Option.bind (split_once CHR '':'' part) (\<lambda>(name, val).
       if trim name = arg_name then Some (trim val) else None)) (split_top_level args CHR '',''))))"

definition map_error :: "('e \<Rightarrow> 'f) \<Rightarrow> 'e + 'a \<Rightarrow> 'f + 'a" where
  "map_error f r = (case r of Inl e \<Rightarrow> Inl (f e) | Inr x \<Rightarrow> Inr x)"

definition graphql_input_string :: "srv_prims \<Rightarrow> graphql_request \<Rightarrow> string \<Rightarrow> string + string" where
  "graphql_input_string S request field =
     rbind (ok_or (field @ '' input argument is required'') (graphql_arg_raw (gr_query request) field ''input'')) (\<lambda>raw.
     case strip_prefix_str ''$'' raw of
       Some variable_name \<Rightarrow>
         rbind (ok_or (''GraphQL variable $'' @ variable_name @ '' is required'')
                  (json_get (gr_variables request) variable_name)) (\<lambda>variable.
         Inr (case variable of JString s \<Rightarrow> s | v \<Rightarrow> srv_text S v))
     | None \<Rightarrow> map_error (\<lambda>e. field @ '' input must be a GraphQL string: '' @ e) (from_str (sp_string S) raw))"

definition graphql_input_json :: "srv_prims \<Rightarrow> graphql_request \<Rightarrow> string \<Rightarrow> string + json" where
  "graphql_input_json S request field =
     rbind (graphql_input_string S request field) (\<lambda>input.
     map_error (\<lambda>e. ''invalid '' @ field @ '' input JSON: '' @ e) (parse_value S input))"

section \<open>The actor of a request\<close>

definition json_string :: "json \<Rightarrow> string \<Rightarrow> string option" where
  "json_string v field = Option.bind (json_get v field) as_str"

definition first_record_json_string :: "json option \<Rightarrow> string \<Rightarrow> string option" where
  "first_record_json_string v field =
     Option.bind v (\<lambda>b.
     Option.bind (Option.bind (json_get b ''records'') as_array) (\<lambda>records.
     case records of [] \<Rightarrow> None | r # _ \<Rightarrow> json_string r field))"

text \<open>The tenant that an operation names, in the four places where the server looks for it.\<close>

definition input_tenant :: "json \<Rightarrow> string option" where
  "input_tenant v =
     or_else (json_string v ''tenant_id'')
       (or_else (json_string v ''tenant'')
         (or_else (Option.bind (json_get v ''record'') (\<lambda>r. json_string r ''tenant_id''))
           (first_record_json_string (Some v) ''tenant_id'')))"

definition quoted_prefix :: "string \<Rightarrow> string option" where
  "quoted_prefix val =
     Option.bind (strip_prefix_str [CHR 0x22] val) (\<lambda>rest.
     Option.bind (find_str [CHR 0x22] rest) (\<lambda>stop. Some (take stop rest)))"

definition body_query :: "json option \<Rightarrow> string option" where
  "body_query v = Option.bind v (\<lambda>b. json_string b ''query'')"

definition graphql_tenant_from_body :: "srv_prims \<Rightarrow> json option \<Rightarrow> string option" where
  "graphql_tenant_from_body S v =
     Option.bind (body_query v) (\<lambda>query.
     let request = \<lparr>gr_query = query, gr_variables = unwrap_or JNull (Option.bind v (\<lambda>b. json_get b ''variables'')),
           gr_operation_name = Option.bind v (\<lambda>b. Option.bind
             (or_else (json_get b ''operation_name'') (json_get b ''operationName'')) as_str)\<rparr>
     in or_else
          (Option.bind (graphql_root_field query) (\<lambda>field.
           Option.bind (ok_of (graphql_input_json S request field)) input_tenant))
          (Option.bind (split_nth1 ''tenant_id:'' query) (\<lambda>after_marker. quoted_prefix (trim_start after_marker))))"

definition tenant_line :: "string \<Rightarrow> string option" where
  "tenant_line line =
     option_filter (\<lambda>tenant. tenant \<noteq> []) (map_option trim (strip_prefix_str ''TENANT '' (trim line)))"

definition traceql_tenant_from_body :: "srv_prims \<Rightarrow> json option \<Rightarrow> string option option" where
  "traceql_tenant_from_body S v =
     (case body_query v of
        None \<Rightarrow> Some None
      | Some query \<Rightarrow>
          map_option (\<lambda>command. or_else
              (Option.bind command (\<lambda>(_, payload). Option.bind (ok_of (parse_value S payload)) input_tenant))
              (find_map tenant_line (str_lines query)))
            (split_traceql_command query))"

definition body_tenant :: "srv_prims \<Rightarrow> json option \<Rightarrow> string option option" where
  "body_tenant S v =
     (case or_else (Option.bind v (\<lambda>b. json_string b ''tenant_id''))
             (or_else (first_record_json_string v ''tenant_id'') (graphql_tenant_from_body S v)) of
        Some tenant \<Rightarrow> Some (Some tenant)
      | None \<Rightarrow> traceql_tenant_from_body S v)"

definition request_scopes :: "string \<Rightarrow> string list" where
  "request_scopes request =
     (case header_value request ''x-tracedb-scopes'' of
        None \<Rightarrow> []
      | Some val \<Rightarrow> filter (\<lambda>scope. scope \<noteq> []) (map trim (split_at CHR '','' val)))"

definition request_token_identity :: "string \<Rightarrow> string" where
  "request_token_identity request =
     unwrap_or ''anonymous'' (or_else (header_value request ''x-tracedb-token-identity'')
       (map_option (\<lambda>_. ''bearer'') (Option.bind (header_value request ''authorization'') (strip_prefix_str ''Bearer ''))))"

definition actor_context_from_request :: "srv_prims \<Rightarrow> string \<Rightarrow> string \<Rightarrow> string \<Rightarrow> actor_context option" where
  "actor_context_from_request S request body request_id =
     (let body_json = ok_of (parse_value S body);
          in_body = (\<lambda>field. Option.bind body_json (\<lambda>b. json_string b field))
      in map_option (\<lambda>tenant.
           managed_request
             (unwrap_or ''local'' (or_else (header_value request ''x-tracedb-tenant-id'') tenant))
             (unwrap_or ''local'' (or_else (header_value request ''x-tracedb-database-id'') (in_body ''database_id'')))
             (unwrap_or ''main'' (or_else (header_value request ''x-tracedb-branch-id'') (in_body ''branch_id'')))
             (request_token_identity request)
             (unwrap_or request_id (header_value request ''x-tracedb-request-id''))
             (of_nat (unwrap_or 0 (Option.bind (header_value request ''x-tracedb-policy-epoch'') parse_u64)))
             (request_scopes request))
         (body_tenant S body_json))"

section \<open>Reading a request\<close>

definition find_header_end :: "bytes \<Rightarrow> (nat \<times> nat) option" where
  "find_header_end buffer =
     or_else (map_option (\<lambda>pos. (pos, 4)) (find_str [CR, LF, CR, LF] buffer))
       (map_option (\<lambda>pos. (pos, 2)) (find_str [LF, LF] buffer))"

text \<open>
  \<open>String::from_utf8_lossy\<close>: how many bytes the next character takes, or how many bytes of an
  ill-formed sequence are replaced by U+FFFD.
\<close>

definition in_range :: "nat \<Rightarrow> nat \<Rightarrow> bytes \<Rightarrow> nat \<Rightarrow> bool" where
  "in_range lo hi bs i \<longleftrightarrow> i < length bs \<and> lo \<le> byte_val (bs ! i) \<and> byte_val (bs ! i) \<le> hi"

definition utf8_second :: "nat \<Rightarrow> nat \<times> nat" where
  "utf8_second b =
     (if b = 224 then (160, 191) else if b = 237 then (128, 159)
      else if b = 240 then (144, 191) else if b = 244 then (128, 143) else (128, 191))"

definition utf8_chunk :: "bytes \<Rightarrow> bool \<times> nat" where
  "utf8_chunk bs =
     (let b = byte_val (hd bs); (lo, hi) = utf8_second b;
          width = (if b < 128 then 1 else if 194 \<le> b \<and> b \<le> 223 then 2 else if 224 \<le> b \<and> b \<le> 239 then 3
                   else if 240 \<le> b \<and> b \<le> 244 then 4 else 0 :: nat)
      in if width = 0 then (False, 1)
         else if width = 1 then (True, 1)
         else if \<not> in_range lo hi bs 1 then (False, 1)
         else if width = 2 then (True, 2)
         else if \<not> in_range 128 191 bs 2 then (False, 2)
         else if width = 3 then (True, 3)
         else if \<not> in_range 128 191 bs 3 then (False, 3)
         else (True, 4))"

lemma utf8_chunk_pos: "0 < snd (utf8_chunk bs)"
  by (auto simp: utf8_chunk_def Let_def split: prod.splits)

function from_utf8_lossy :: "bytes \<Rightarrow> string" where
  "from_utf8_lossy bs =
     (if bs = [] then []
      else case utf8_chunk bs of (valid, n) \<Rightarrow>
        (if valid then take n bs else [CHR 0xEF, CHR 0xBF, CHR 0xBD]) @ from_utf8_lossy (drop n bs))"
  by pat_completeness auto
termination
  by (relation "measure length") (auto simp: utf8_chunk_pos intro!: diff_less dest: arg_cong [where f = snd])

declare from_utf8_lossy.simps [simp del]

definition content_length :: "string \<Rightarrow> nat" where
  "content_length headers =
     unwrap_or 0 (find_map (\<lambda>line. Option.bind (split_once CHR '':'' line) (\<lambda>(name, val).
       if eq_ignore_ascii_case name ''content-length'' then parse_u64 (trim val) else None)) (str_lines headers))"

text \<open>
  The connection is the list of what the reads deliver; an empty read, or no further read, is its end.
  First the headers are read.
\<close>

fun read_headers :: "bytes \<Rightarrow> bytes list \<Rightarrow> string + (bytes \<times> nat \<times> nat \<times> bytes list)" where
  "read_headers buffer [] = Inl ''connection closed before headers''"
| "read_headers buffer (chunk # stream) =
     (if chunk = [] then Inl ''connection closed before headers''
      else
        let buffer' = buffer @ chunk in
        case find_header_end buffer' of
          Some (header_end, delimiter_len) \<Rightarrow> Inr (buffer', header_end, delimiter_len, stream)
        | None \<Rightarrow>
            if int (length buffer') > 1024 * 1024 then Inl ''request headers exceed 1MiB''
            else read_headers buffer' stream)"

fun read_body :: "nat \<Rightarrow> bytes \<Rightarrow> bytes list \<Rightarrow> string + bytes" where
  "read_body expected_len buffer [] =
     (if length buffer < expected_len then Inl ''connection closed before full body'' else Inr buffer)"
| "read_body expected_len buffer (chunk # stream) =
     (if length buffer < expected_len then
        if chunk = [] then Inl ''connection closed before full body''
        else read_body expected_len (buffer @ chunk) stream
      else Inr buffer)"

definition read_request :: "bytes list \<Rightarrow> string + string" where
  "read_request stream =
     rbind (read_headers [] stream) (\<lambda>(buffer, header_end, delimiter_len, rest).
     let headers = from_utf8_lossy (take header_end buffer);
         len = content_length headers;
         expected_len = header_end + delimiter_len + len
     in if int len > 16 * 1024 * 1024 then Inl ''request body exceeds 16MiB''
        else rbind (read_body expected_len buffer rest) (\<lambda>all_bytes.
             Inr (from_utf8_lossy (take expected_len all_bytes))))"

text \<open>
  \<open>request_text_from_parts\<close>: the request of the asynchronous server, put back into text. A header value
  is \<open>None\<close> when it is not visible text.
\<close>

definition request_text_from_parts :: "string \<Rightarrow> string \<Rightarrow> (string \<times> string option) list \<Rightarrow> bytes \<Rightarrow> string" where
  "request_text_from_parts verb uri headers body =
     verb @ '' '' @ uri @ '' HTTP/1.1'' @ [CR, LF] @
     concat (map (\<lambda>(name, val).
       if eq_ignore_ascii_case name ''content-length'' then []
       else case val of None \<Rightarrow> [] | Some v \<Rightarrow> name @ '': '' @ v @ [CR, LF]) headers) @
     ''content-length: '' @ show_nat (length body) @ [CR, LF, CR, LF] @ from_utf8_lossy body"

text \<open>
  \<open>response_from_http_text\<close>: the status, the headers and the body. \<open>header_ok\<close> stands for the checks of
  the \<open>http\<close> crate on a name and a value.
\<close>

definition split_once_str :: "string \<Rightarrow> string \<Rightarrow> (string \<times> string) option" where
  "split_once_str pat s = map_option (\<lambda>i. (take i s, drop (i + length pat) s)) (find_str pat s)"

definition response_status :: "string list \<Rightarrow> nat" where
  "response_status lines =
     unwrap_or 500 (option_filter (\<lambda>n. 100 \<le> n \<and> n < 1000)
       (Option.bind (case lines of [] \<Rightarrow> None | l # _ \<Rightarrow> (case split_whitespace l of _ # w # _ \<Rightarrow> Some w | _ \<Rightarrow> None)) parse_u64))"

definition response_from_http_text ::
    "(string \<Rightarrow> string \<Rightarrow> bool) \<Rightarrow> string \<Rightarrow> nat \<times> (string \<times> string) list \<times> string" where
  "response_from_http_text header_ok response =
     (case or_else (split_once_str [CR, LF, CR, LF] response) (split_once_str [LF, LF] response) of
        None \<Rightarrow> (500, [], response)
      | Some (head, body) \<Rightarrow>
          let lines = str_lines head
          in (response_status lines,
              filter_map (\<lambda>line. Option.bind (split_once CHR '':'' line) (\<lambda>(name, val).
                if header_ok (trim name) (trim val) then Some (trim name, trim val) else None)) (drop 1 lines) @
              [(''connection'', ''close'')],
              body))"

end
