(* ===== verification/Server_Jobs.thy ===== *)
theory Server_Jobs
  imports Server_Text
begin

text \<open>
  The job runtime of \<open>crates/tracedb-server/src/lib.rs\<close> (\<open>ServerJobRuntime\<close>), with the names of shards.

  A runtime keeps the job catalog of a shard in memory and two files in the directory of its jobs:
  \<open>catalog.json\<close>, the catalog after the last operation, and \<open>events.jsonl\<close>, every event since the
  beginning, one per line. Every operation changes the catalog in memory, appends its event and then
  replaces the checkpoint; each of the two writes may fail, an append after part of its bytes. Opening
  reads the checkpoint, applies all events to it and writes it back. The JSON codecs are parameters.
\<close>

section \<open>Shards\<close>

record shard_key =
  sk_database_id :: string
  sk_branch_id :: string

definition default_shard_key :: shard_key where
  "default_shard_key = \<lparr>sk_database_id = ''local'', sk_branch_id = ''main''\<rparr>"

definition is_default_shard_key :: "shard_key \<Rightarrow> bool" where
  "is_default_shard_key key \<longleftrightarrow>
     sk_database_id key = ''local'' \<and> sk_branch_id key = ''main'' \<or>
     sk_database_id key = ''db_local'' \<and> sk_branch_id key = ''db_local:main''"

definition safe_shard_byte :: "byte \<Rightarrow> string" where
  "safe_shard_byte b =
     (if is_ascii_alphanumeric b \<or> b = CHR ''.'' \<or> b = CHR ''_'' \<or> b = CHR ''-'' then [b] else ''_'' @ hex_byte b)"

definition safe_shard_component :: "string \<Rightarrow> string" where
  "safe_shard_component val =
     (if val = ''.'' \<or> val = ''..'' then ''_invalid''
      else let out = concat (map safe_shard_byte val) in if out = [] then ''_empty'' else out)"

text \<open>Paths are relative to the directory of the server.\<close>

definition shard_path :: "shard_key \<Rightarrow> string list" where
  "shard_path key = [''shards'', safe_shard_component (sk_database_id key), safe_shard_component (sk_branch_id key)]"

definition job_runtime_dir :: "shard_key \<Rightarrow> string list" where
  "job_runtime_dir key = (if is_default_shard_key key then [''jobs''] else shard_path key @ [''jobs''])"

definition shard_receipt_json :: "shard_key \<Rightarrow> json" where
  "shard_receipt_json key =
     json_object [(''format_version'', json_nat 1), (''database_id'', JString (sk_database_id key)),
       (''branch_id'', JString (sk_branch_id key)), (''path_encoding'', JString ''tracedb-shard-component-v1'')]"

section \<open>The runtime\<close>

record job_prims =
  jp_event_text :: "job_event \<Rightarrow> string"
  jp_event_parse :: "string \<Rightarrow> string + job_event"
  jp_checkpoint_text :: "u32 \<Rightarrow> shard_key \<Rightarrow> job_catalog \<Rightarrow> bytes"
  jp_checkpoint_parse :: "bytes \<Rightarrow> string + job_catalog"

record job_files =
  jf_checkpoint :: "bytes option"
  jf_events :: "bytes option"

definition no_job_files :: job_files where
  "no_job_files = \<lparr>jf_checkpoint = None, jf_events = None\<rparr>"

record job_runtime =
  jr_catalog :: job_catalog
  jr_shard :: shard_key

text \<open>
  What happens to a write: an append stops after some bytes with an error; a checkpoint fails before
  or after its file has been renamed into place.
\<close>

datatype append_outcome = AppendDone | AppendFails nat string

datatype replace_outcome = ReplaceDone | ReplaceFails string | ReplaceUnsynced string

record job_io =
  ji_append :: append_outcome
  ji_replace :: replace_outcome

type_synonym job_state = "job_runtime \<times> job_files"

text \<open>Operations on the runtime and its files; an error is the text of an \<open>io::Error\<close>.\<close>

type_synonym 'a job_op = "job_state \<Rightarrow> (string + 'a) \<times> job_state"

definition jbind :: "'a job_op \<Rightarrow> ('a \<Rightarrow> 'b job_op) \<Rightarrow> 'b job_op" where
  "jbind f g s = (case f s of (Inl e, s') \<Rightarrow> (Inl e, s') | (Inr x, s') \<Rightarrow> g x s')"

definition jreturn :: "'a \<Rightarrow> 'a job_op" where
  "jreturn x s = (Inr x, s)"

definition persist_event :: "job_prims \<Rightarrow> job_io \<Rightarrow> job_event \<Rightarrow> unit job_op" where
  "persist_event J io ev = (\<lambda>(rt, files).
     let old = unwrap_or [] (jf_events files); new = jp_event_text J ev @ [LF] in
     case ji_append io of
       AppendDone \<Rightarrow> (Inr (), (rt, files\<lparr>jf_events := Some (old @ new)\<rparr>))
     | AppendFails n e \<Rightarrow> (Inl e, (rt, files\<lparr>jf_events := Some (old @ take n new)\<rparr>)))"

definition persist_checkpoint :: "job_prims \<Rightarrow> job_io \<Rightarrow> unit job_op" where
  "persist_checkpoint J io = (\<lambda>(rt, files).
     let files' = files\<lparr>jf_checkpoint := Some (jp_checkpoint_text J 1 (jr_shard rt) (jr_catalog rt))\<rparr> in
     case ji_replace io of
       ReplaceDone \<Rightarrow> (Inr (), (rt, files'))
     | ReplaceFails e \<Rightarrow> (Inl e, (rt, files))
     | ReplaceUnsynced e \<Rightarrow> (Inl e, (rt, files')))"

text \<open>The step that every operation ends with.\<close>

definition persist :: "job_prims \<Rightarrow> job_io \<Rightarrow> job_event \<Rightarrow> 'a \<Rightarrow> 'a job_op" where
  "persist J io ev x = jbind (persist_event J io ev) (\<lambda>_. jbind (persist_checkpoint J io) (\<lambda>_. jreturn x))"

definition with_catalog :: "job_catalog \<Rightarrow> job_state \<Rightarrow> job_state" where
  "with_catalog c = (\<lambda>(rt, files). (rt\<lparr>jr_catalog := c\<rparr>, files))"

abbreviation state_catalog :: "job_state \<Rightarrow> job_catalog" where
  "state_catalog s \<equiv> jr_catalog (fst s)"

definition runtime_enqueue :: "job_prims \<Rightarrow> job_io \<Rightarrow> job_kind \<Rightarrow> string \<Rightarrow> string \<Rightarrow> trace_job job_op" where
  "runtime_enqueue J io kind target key s =
     (case enqueue (state_catalog s) kind target key of (c, job) \<Rightarrow>
        persist J io (EvEnqueued job) job (with_catalog c s))"

definition runtime_jobs :: "job_runtime \<Rightarrow> trace_job list" where
  "runtime_jobs rt = catalog_jobs (jr_catalog rt)"

definition runtime_lease ::
    "job_prims \<Rightarrow> job_io \<Rightarrow> worker_id \<Rightarrow> job_kind \<Rightarrow> u64 \<Rightarrow> u64 \<Rightarrow> trace_job option job_op" where
  "runtime_lease J io worker kind now_ms lease_ms s =
     (case lease_next_at (state_catalog s) worker kind now_ms lease_ms of
        (c, None) \<Rightarrow> (Inr None, with_catalog c s)
      | (c, Some job) \<Rightarrow>
          persist J io
            (EvLeased (tj_job_id job) worker (unwrap_or [] (tj_lease_token job))
               (unwrap_or (sat_add64 now_ms lease_ms) (tj_lease_expires_at_ms job)))
            (Some job) (with_catalog c s))"

definition runtime_heartbeat ::
    "job_prims \<Rightarrow> job_io \<Rightarrow> string \<Rightarrow> string \<Rightarrow> u64 \<Rightarrow> u64 \<Rightarrow> trace_job job_op" where
  "runtime_heartbeat J io job_id token now_ms lease_ms s =
     (case heartbeat (state_catalog s) job_id token now_ms lease_ms of
        Inl e \<Rightarrow> (Inl e, s)
      | Inr (c, job) \<Rightarrow>
          persist J io
            (EvHeartbeat job_id token (unwrap_or (sat_add64 now_ms lease_ms) (tj_lease_expires_at_ms job)))
            job (with_catalog c s))"

definition runtime_complete :: "job_prims \<Rightarrow> job_io \<Rightarrow> string \<Rightarrow> string \<Rightarrow> trace_job job_op" where
  "runtime_complete J io job_id token s =
     (case complete (state_catalog s) job_id (Some token) of
        Inl e \<Rightarrow> (Inl e, s)
      | Inr (c, job) \<Rightarrow> persist J io (EvCompleted job_id token) job (with_catalog c s))"

definition runtime_fail ::
    "job_prims \<Rightarrow> job_io \<Rightarrow> string \<Rightarrow> string option \<Rightarrow> string \<Rightarrow> bool \<Rightarrow> u64 \<Rightarrow> trace_job job_op" where
  "runtime_fail J io job_id token err permanent now_ms s =
     (case fail (state_catalog s) job_id token err permanent now_ms of
        Inl e \<Rightarrow> (Inl e, s)
      | Inr (c, job) \<Rightarrow> persist J io (EvFailed job_id token err permanent now_ms) job (with_catalog c s))"

text \<open>\<open>fs::read_to_string\<close>.\<close>

definition read_to_string :: "bytes \<Rightarrow> string + string" where
  "read_to_string bs = (if utf8_valid bs then Inr bs else Inl ''stream did not contain valid UTF-8'')"

definition replay_line :: "job_prims \<Rightarrow> job_catalog \<Rightarrow> string \<Rightarrow> string + job_catalog" where
  "replay_line J c line = rbind (jp_event_parse J line) (apply_event c)"

definition replay_events :: "job_prims \<Rightarrow> job_files \<Rightarrow> job_catalog \<Rightarrow> string + job_catalog" where
  "replay_events J files c =
     (case jf_events files of
        None \<Rightarrow> Inr c
      | Some bs \<Rightarrow>
          rbind (read_to_string bs) (\<lambda>body.
          rfold (replay_line J) c (filter (\<lambda>line. trim line \<noteq> []) (str_lines body))))"

definition checkpoint_catalog :: "job_prims \<Rightarrow> job_files \<Rightarrow> string + job_catalog" where
  "checkpoint_catalog J files =
     (case jf_checkpoint files of
        None \<Rightarrow> Inr []
      | Some bs \<Rightarrow> rbind (read_to_string bs) (jp_checkpoint_parse J))"

definition runtime_open :: "job_prims \<Rightarrow> replace_outcome \<Rightarrow> shard_key \<Rightarrow> job_files \<Rightarrow> (string + job_runtime) \<times> job_files" where
  "runtime_open J outcome shard files =
     (case rbind (checkpoint_catalog J files) (replay_events J files) of
        Inl e \<Rightarrow> (Inl e, files)
      | Inr c \<Rightarrow>
          let rt = \<lparr>jr_catalog = c, jr_shard = shard\<rparr> in
          case persist_checkpoint J \<lparr>ji_append = AppendDone, ji_replace = outcome\<rparr> (rt, files) of
            (Inl e, (_, files')) \<Rightarrow> (Inl e, files')
          | (Inr _, (_, files')) \<Rightarrow> (Inr rt, files'))"

end
