(* ===== verification/Timed_Writes.thy ===== *)
theory Timed_Writes
  imports Engine Wal_Props
begin

text \<open>
  The timed write path of \<open>crates/tracedb-query/src/lib.rs\<close>: \<open>put_with_write_timing\<close> and
  \<open>put_batch_with_write_timing\<close>. They are written separately from \<open>put\<close> and \<open>put_batch\<close>: they look up the
  schemas of all records before planning any, run each stage for all records before the next one, and
  use the timed append. The elapsed times are left out.
\<close>

section \<open>Operations\<close>

definition append_to_wal_with_timing :: "eng_prims \<Rightarrow> bytes \<Rightarrow> commit_record \<Rightarrow> (eng_state, unit) op" where
  "append_to_wal_with_timing P nonce c =
     eupdates (\<lambda>(db, d).
       rbind (append_commit_with_timing (log_of_prims P) nonce (td_wal db) (dk_wal d) c) (\<lambda>(w, file, _).
       Inr ((), (db\<lparr>td_wal := w\<rparr>, d\<lparr>dk_wal := file\<rparr>))))"

definition timed_commit ::
    "eng_prims \<Rightarrow> bytes \<Rightarrow> (trace_db \<Rightarrow> (commit_record \<times> delta) result) \<Rightarrow> (eng_state, epoch) op" where
  "timed_commit P nonce plan =
     ebind (refresh_from_disk_if_stale P) (\<lambda>_.
     ebind (ereads (\<lambda>(db, d). plan db)) (\<lambda>(c, delta).
     ebind (append_to_wal_with_timing P nonce c) (\<lambda>_.
     ebind (emodify (\<lambda>(db, d). (db\<lparr>td_store := apply_delta (td_store db) delta\<rparr>, d))) (\<lambda>_.
     ebind (bump_manifest P (cr_epoch c)) (\<lambda>_.
     ereturn (cr_epoch c))))))"

definition timed_put_plan :: "eng_prims \<Rightarrow> record_input \<Rightarrow> trace_db \<Rightarrow> (commit_record \<times> delta) result" where
  "timed_put_plan P input db =
     rbind (table_for db (ri_table input)) (\<lambda>s.
     rbind (plan_replacement P (td_store db) s input (next_epoch db)) (\<lambda>delta.
     Inr ((record_commit_for_db db)
            \<lparr>cr_replacements := [input],
             cr_feature_invalidations := feature_invalidations_for_mutation s input,
             cr_module_events := module_events_for_schema ''record.put'' s\<rparr>, delta)))"

definition put_with_write_timing :: "eng_prims \<Rightarrow> bytes \<Rightarrow> record_input \<Rightarrow> (eng_state, epoch) op" where
  "put_with_write_timing P nonce input = timed_commit P nonce (timed_put_plan P input)"

definition lookup_schemas :: "trace_db \<Rightarrow> record_input list \<Rightarrow> table_schema list result" where
  "lookup_schemas db records =
     rfold (\<lambda>acc input. rbind (table_for db (ri_table input)) (\<lambda>s. Inr (acc @ [s]))) [] records"

definition timed_delta_step :: "eng_prims \<Rightarrow> trace_db \<Rightarrow> delta \<Rightarrow> record_input \<times> table_schema \<Rightarrow> delta result" where
  "timed_delta_step P db delta = (\<lambda>(input, s). plan_replacement_into P (td_store db) delta s input (next_epoch db))"

definition timed_batch_plan :: "eng_prims \<Rightarrow> record_input list \<Rightarrow> trace_db \<Rightarrow> (commit_record \<times> delta) result" where
  "timed_batch_plan P records db =
     rbind (ensure (records \<noteq> []) (InvalidCommand ''batch put requires at least one record'')) (\<lambda>_.
     rbind (lookup_schemas db records) (\<lambda>schemas.
     rbind (rfold (timed_delta_step P db) [] (zip records schemas)) (\<lambda>delta.
     Inr ((record_commit_for_db db)
            \<lparr>cr_replacements := records,
             cr_feature_invalidations :=
               concat (map (\<lambda>(input, s). feature_invalidations_for_mutation s input) (zip records schemas)),
             cr_module_events :=
               foldl push_new_events [] (map (module_events_for_schema ''record.put'') schemas)\<rparr>, delta))))"

definition put_batch_with_write_timing :: "eng_prims \<Rightarrow> bytes \<Rightarrow> record_input list \<Rightarrow> (eng_state, epoch) op" where
  "put_batch_with_write_timing P nonce records = timed_commit P nonce (timed_batch_plan P records)"

section \<open>The timed path is the plain one\<close>

lemma timed_append_rbind:
  "rbind (append_commit_with_timing Q nonce w fl c) (\<lambda>(w', fl', _). Inr (f w' fl')) =
   rbind (append_commit Q nonce w fl c) (\<lambda>(w', fl', _). Inr (f w' fl'))"
  using timed_append_equals_untimed [of Q nonce w fl c] by (auto simp: rbind_def split: sum.splits)

lemma append_to_wal_with_timing_eq: "append_to_wal_with_timing P nonce c = append_to_wal P nonce c"
  unfolding append_to_wal_with_timing_def append_to_wal_def
  by (rule arg_cong [where f = eupdates]) (simp add: fun_eq_iff timed_append_rbind)

text \<open>The two ways of planning agree up to the choice of the error.\<close>

definition plans_agree ::
    "(commit_record \<times> delta) result \<Rightarrow> (commit_record \<times> (trace_db \<Rightarrow> trace_db)) result \<Rightarrow> bool" where
  "plans_agree timed plain \<longleftrightarrow>
     (case (timed, plain) of
        (Inr (c, delta), Inr (c', install)) \<Rightarrow>
          c' = c \<and> install = (\<lambda>db. db\<lparr>td_store := apply_delta (td_store db) delta\<rparr>)
      | (Inl _, Inl _) \<Rightarrow> True
      | _ \<Rightarrow> False)"

definition same_outcome :: "'a result \<times> 's \<Rightarrow> 'a result \<times> 's \<Rightarrow> bool" where
  "same_outcome r q \<longleftrightarrow> snd r = snd q \<and> (\<forall>x. fst r = Inr x \<longleftrightarrow> fst q = Inr x)"

lemma timed_commit_agrees:
  assumes "\<And>db. plans_agree (timed db) (plain db)"
  shows "same_outcome (timed_commit P nonce timed s) (commit_planned P nonce plain s)"
proof -
  obtain r s1 where refresh: "refresh_from_disk_if_stale P s = (r, s1)" by (rule prod.exhaust)
  show ?thesis
  proof (cases r)
    case (Inl e)
    then show ?thesis using refresh by (simp add: same_outcome_def timed_commit_def commit_planned_def ebind_def)
  next
    case (Inr u)
    show ?thesis using assms [of "fst s1"] refresh Inr
      by (auto simp: same_outcome_def timed_commit_def commit_planned_def ebind_def ereads_def plans_agree_def
          append_to_wal_with_timing_eq case_prod_beta split: sum.splits)
  qed
qed

lemma put_plans_agree: "plans_agree (timed_put_plan P input db) (put_plan P input None db)"
  by (auto simp: plans_agree_def timed_put_plan_def put_plan_def rbind_def install_delta_def Let_def
      idempotency_receipts_for_response_def record_commit_for_db_def commit_for_db_def commit_for_database_def
      commit_empty_def split: sum.splits)

text \<open>The batch: one loop in the plain path, three in the timed one.\<close>

definition batch_stages ::
    "eng_prims \<Rightarrow> trace_db \<Rightarrow> delta \<times> feature_invalidation list \<times> module_commit_event list \<Rightarrow> record_input list \<Rightarrow>
     table_schema list \<Rightarrow> (delta \<times> feature_invalidation list \<times> module_commit_event list) result" where
  "batch_stages P db acc records schemas =
     (case acc of (delta, invalidations, events) \<Rightarrow>
        rbind (rfold (timed_delta_step P db) delta (zip records schemas)) (\<lambda>delta'.
        Inr (delta',
             invalidations @ concat (map (\<lambda>(input, s). feature_invalidations_for_mutation s input) (zip records schemas)),
             foldl push_new_events events (map (module_events_for_schema ''record.put'') schemas))))"

definition results_agree :: "'a result \<Rightarrow> 'a result \<Rightarrow> bool" where
  "results_agree r q \<longleftrightarrow> (\<forall>x. r = Inr x \<longleftrightarrow> q = Inr x)"

lemma results_agree_simps [simp]:
  "results_agree (Inl e) (Inl e')"
  "results_agree (Inr x) (Inr y) \<longleftrightarrow> x = y"
  "results_agree r r"
  "\<not> results_agree (Inl e) (Inr x)"
  "\<not> results_agree (Inr x) (Inl e)"
  by (auto simp: results_agree_def)

fun schemas_of :: "trace_db \<Rightarrow> record_input list \<Rightarrow> table_schema list result" where
  "schemas_of db [] = Inr []"
| "schemas_of db (i # is) = rbind (table_for db (ri_table i)) (\<lambda>s. rbind (schemas_of db is) (\<lambda>ss. Inr (s # ss)))"

lemma lookup_schemas_eq: "lookup_schemas db records = schemas_of db records"
proof -
  have "rfold (\<lambda>acc input. rbind (table_for db (ri_table input)) (\<lambda>s. Inr (acc @ [s]))) acc records =
        rbind (schemas_of db records) (\<lambda>ss. Inr (acc @ ss))" for acc
    by (induction records arbitrary: acc) (auto simp: rbind_def split: sum.splits)
  then show ?thesis by (simp add: lookup_schemas_def rbind_def split: sum.splits)
qed

lemma batch_loop_agrees:
  "results_agree (rfold (put_batch_step P db) acc records) (rbind (schemas_of db records) (batch_stages P db acc records))"
proof (induction records arbitrary: acc)
  case Nil
  show ?case by (cases acc) (simp add: batch_stages_def)
next
  case (Cons i "is")
  obtain delta invs evs where acc: "acc = (delta, invs, evs)" by (cases acc)
  show ?case
  proof (cases "table_for db (ri_table i)")
    case (Inl e)
    then show ?thesis by (simp add: acc put_batch_step_def)
  next
    case (Inr s)
    show ?thesis
    proof (cases "plan_replacement_into P (td_store db) delta s i (next_epoch db)")
      case (Inl e)
      then show ?thesis using Inr
        by (cases "schemas_of db is") (simp_all add: acc put_batch_step_def batch_stages_def timed_delta_step_def)
    next
      case inner: (Inr delta')
      let ?acc = "(delta', invs @ feature_invalidations_for_mutation s i, push_new_events evs (module_events_for_schema ''record.put'' s))"
      have "batch_stages P db acc (i # is) (s # ss) = batch_stages P db ?acc is ss" for ss
        using inner by (simp add: acc batch_stages_def timed_delta_step_def)
      then show ?thesis using Cons.IH [of ?acc] Inr inner
        by (cases "schemas_of db is") (simp_all add: acc put_batch_step_def)
    qed
  qed
qed

lemma batch_plans_agree: "plans_agree (timed_batch_plan P records db) (put_batch_plan P records None db)"
proof -
  let ?plain = "rfold (put_batch_step P db) ([], [], []) records"
  have "results_agree ?plain (rbind (schemas_of db records) (batch_stages P db ([], [], []) records))"
    by (rule batch_loop_agrees)
  then show ?thesis
    by (cases "records = []"; cases ?plain; cases "schemas_of db records")
       (auto simp: plans_agree_def timed_batch_plan_def put_batch_plan_def lookup_schemas_eq batch_stages_def rbind_def
          install_delta_def idempotency_receipts_for_response_def record_commit_for_db_def commit_for_db_def
          commit_for_database_def commit_empty_def ensure_def Let_def fun_eq_iff split: sum.splits)
qed

text \<open>
  C37: The timed write path does what the plain one does. For every state of the engine, putting a
  record or a batch with timings leaves the same handle and the same files as putting it without, and
  one succeeds with an epoch exactly when the other succeeds with that epoch; only the choice among
  several errors can differ.
\<close>

theorem timed_writes_equal_plain:
  "same_outcome (put_with_write_timing P nonce input s) (put_with_idempotency_receipt P nonce input None s) \<and>
   same_outcome (put_batch_with_write_timing P nonce records s) (put_batch_with_idempotency_receipt P nonce records None s)"
  unfolding put_with_write_timing_def put_with_idempotency_receipt_def put_batch_with_write_timing_def
    put_batch_with_idempotency_receipt_def
  by (intro conjI timed_commit_agrees put_plans_agree batch_plans_agree)

end
