(* ===== verification/Server.thy ===== *)
theory Server
  imports Server_Jobs Timed_Writes Engine_Props
begin

text \<open>
  The state of \<open>crates/tracedb-server/src/lib.rs\<close> and its \<open>EngineHandle\<close>: one database per shard, opened
  when it is first asked for, the job runtimes, and the cache of answers to requests with an
  idempotency key.

  A request runs from its beginning to its end without another request in between. The files of every
  shard are kept under its path below the directory of the server (the root database under the empty
  path), so that they outlive the handles; \<open>sv_locked\<close> are the directories whose engine lock is held.
  What a request takes from outside (nonces, the clock, the environment, durations, the outcome of
  writes) is \<open>request_env\<close>. Copies of directories on request are those of theory \<open>Backup\<close>; the
  requests only see their outcome.
\<close>

section \<open>State\<close>

record engine_handle =
  eh_db :: trace_db
  eh_cache :: lexical_corpus_cache

record idempotency_cache_key =
  ik_method :: string
  ik_path :: string
  ik_key :: string
  ik_actor_tenant_id :: string
  ik_database_id :: string
  ik_branch_id :: string
  ik_token_identity :: string

record idempotency_entry =
  ie_body_hash :: string
  ie_response :: string

type_synonym dir_path = "string list"

record server_state =
  sv_root :: engine_handle
  sv_handles :: "shard_key \<Rightarrow> engine_handle option"
  sv_locked :: "dir_path list"
  sv_disks :: "dir_path \<Rightarrow> (disk \<times> artifact_files) option"
  sv_shard_receipts :: "dir_path \<Rightarrow> string option"
  sv_runtimes :: "shard_key \<Rightarrow> job_runtime option"
  sv_job_files :: "dir_path \<Rightarrow> job_files option"
  sv_idempotency :: "idempotency_cache_key \<Rightarrow> idempotency_entry option"
  sv_next_request_id :: u64

record request_env =
  rv_process_id :: nat
  rv_now_ms :: u64
  rv_cursor :: cursor_env
  rv_master_key_b64 :: "string option"
  rv_dek :: bytes
  rv_open_nonce :: bytes
  rv_nonce :: bytes
  rv_receipt_nonce :: bytes
  rv_file_nonces :: "nat \<Rightarrow> bytes"
  rv_durations :: "string \<Rightarrow> string"
  rv_write_timing :: json
  rv_job_open :: replace_outcome
  rv_job_io :: job_io
  rv_snapshot :: "string \<Rightarrow> error + unit"
  rv_restore :: "string \<Rightarrow> string \<Rightarrow> error + trace_db"

section \<open>Operations of the server\<close>

text \<open>An error is the text of an \<open>io::Error\<close>; a panic ends the request without an answer.\<close>

datatype srv_error = SErr string | SPanic

type_synonym 'a srv = "server_state \<Rightarrow> (srv_error + 'a) \<times> server_state"

definition sbind :: "'a srv \<Rightarrow> ('a \<Rightarrow> 'b srv) \<Rightarrow> 'b srv" where
  "sbind m f st = (case m st of (Inl e, st') \<Rightarrow> (Inl e, st') | (Inr x, st') \<Rightarrow> f x st')"

definition sreturn :: "'a \<Rightarrow> 'a srv" where
  "sreturn x st = (Inr x, st)"

text \<open>A computation that does not touch the state, with its \<open>map_err(to_io_error)?\<close>.\<close>

definition slift :: "string + 'a \<Rightarrow> 'a srv" where
  "slift r st = (map_error SErr r, st)"

section \<open>The idempotency cache\<close>

definition idempotency_key_new :: "string \<Rightarrow> string \<Rightarrow> string \<Rightarrow> actor_context \<Rightarrow> idempotency_cache_key" where
  "idempotency_key_new verb path key actor =
     \<lparr>ik_method = verb, ik_path = path, ik_key = key, ik_actor_tenant_id = ac_tenant_id actor,
      ik_database_id = ac_database_id actor, ik_branch_id = ac_branch_id actor,
      ik_token_identity = ac_token_identity actor\<rparr>"

definition key_from_receipt :: "idempotency_receipt \<Rightarrow> idempotency_cache_key" where
  "key_from_receipt r =
     \<lparr>ik_method = ir_method r, ik_path = ir_path r, ik_key = ir_key r, ik_actor_tenant_id = ir_actor_tenant_id r,
      ik_database_id = ir_database_id r, ik_branch_id = ir_branch_id r, ik_token_identity = ir_token_identity r\<rparr>"

definition to_receipt :: "idempotency_cache_key \<Rightarrow> string \<Rightarrow> idempotency_receipt" where
  "to_receipt k body_hash =
     \<lparr>ir_method = ik_method k, ir_path = ik_path k, ir_key = ik_key k, ir_body_hash = body_hash,
      ir_actor_tenant_id = ik_actor_tenant_id k, ir_database_id = ik_database_id k, ir_branch_id = ik_branch_id k,
      ir_token_identity = ik_token_identity k, ir_response = []\<rparr>"

definition entry_from_receipt :: "idempotency_receipt \<Rightarrow> idempotency_entry" where
  "entry_from_receipt r = \<lparr>ie_body_hash = ir_body_hash r, ie_response = ir_response r\<rparr>"

text \<open>Collecting into a hash map: of several receipts for a key the last one stays.\<close>

definition cache_from_receipts :: "idempotency_receipt list \<Rightarrow> idempotency_cache_key \<Rightarrow> idempotency_entry option" where
  "cache_from_receipts receipts =
     foldl (\<lambda>m r. m(key_from_receipt r \<mapsto> entry_from_receipt r)) Map.empty receipts"

definition idempotency_insert :: "idempotency_cache_key \<Rightarrow> idempotency_entry \<Rightarrow> unit srv" where
  "idempotency_insert k entry st = (Inr (), st\<lparr>sv_idempotency := (sv_idempotency st)(k \<mapsto> entry)\<rparr>)"

section \<open>Shards\<close>

text \<open>The directory of a shard; both names of the default shard mean the root database.\<close>

definition shard_dir :: "shard_key \<Rightarrow> dir_path" where
  "shard_dir key = (if is_default_shard_key key then [] else shard_path key)"

definition dir_text :: "string \<Rightarrow> dir_path \<Rightarrow> string" where
  "dir_text root_dir path = root_dir @ concat (map (\<lambda>c. ''/'' @ c) path)"

definition disk_at :: "server_state \<Rightarrow> dir_path \<Rightarrow> disk \<times> artifact_files" where
  "disk_at st path = unwrap_or (empty_disk, []) (sv_disks st path)"

definition handle_at :: "server_state \<Rightarrow> shard_key \<Rightarrow> engine_handle" where
  "handle_at st key =
     (if is_default_shard_key key then sv_root st else unwrap_or (sv_root st) (sv_handles st key))"

definition put_handle :: "shard_key \<Rightarrow> engine_handle \<Rightarrow> server_state \<Rightarrow> server_state" where
  "put_handle key h st =
     (if is_default_shard_key key then st\<lparr>sv_root := h\<rparr> else st\<lparr>sv_handles := (sv_handles st)(key \<mapsto> h)\<rparr>)"

definition put_disk :: "dir_path \<Rightarrow> disk \<times> artifact_files \<Rightarrow> server_state \<Rightarrow> server_state" where
  "put_disk path df st = st\<lparr>sv_disks := (sv_disks st)(path \<mapsto> df)\<rparr>"

text \<open>\<open>TraceDb::open\<close> of a directory below the one of the server, which takes its engine lock.\<close>

definition open_shard :: "srv_prims \<Rightarrow> request_env \<Rightarrow> string \<Rightarrow> dir_path \<Rightarrow> engine_handle srv" where
  "open_shard S env root_dir path st =
     (let dir = dir_text root_dir path; (d, files) = disk_at st path in
      if path \<in> set (sv_locked st) then
        (Inl (SErr (error_text (Io IoAlreadyExists (''Engine directory is already locked by another process. Check '' @
           dir @ ''/engine.lock for the PID.'')))), st)
      else
        case open_with_options (srv_eng S) (rv_master_key_b64 env) (rv_dek env) (rv_open_nonce env) options_from_env dir d of
          (Inl e, d') \<Rightarrow> (Inl (SErr (error_text e)), put_disk path (d', files) st)
        | (Inr db, d') \<Rightarrow>
            (Inr \<lparr>eh_db = db, eh_cache = cache_default\<rparr>,
             put_disk path (d', files) (st\<lparr>sv_locked := path # sv_locked st\<rparr>)))"

definition write_shard_receipt :: "srv_prims \<Rightarrow> shard_key \<Rightarrow> unit srv" where
  "write_shard_receipt S key st =
     (Inr (), st\<lparr>sv_shard_receipts := (sv_shard_receipts st)(shard_path key \<mapsto> srv_text S (shard_receipt_json key))\<rparr>)"

definition actor_shard :: "actor_context \<Rightarrow> shard_key" where
  "actor_shard actor = \<lparr>sk_database_id = ac_database_id actor, sk_branch_id = ac_branch_id actor\<rparr>"

text \<open>\<open>for_actor\<close>: afterwards the handle of the shard exists.\<close>

definition for_actor :: "srv_prims \<Rightarrow> request_env \<Rightarrow> string \<Rightarrow> actor_context \<Rightarrow> shard_key srv" where
  "for_actor S env root_dir actor st =
     (let key = actor_shard actor in
      if is_default_shard_key key \<or> sv_handles st key \<noteq> None then (Inr key, st)
      else sbind (write_shard_receipt S key) (\<lambda>_.
           sbind (open_shard S env root_dir (shard_path key)) (\<lambda>h st'.
           (Inr key, put_handle key h st'))) st)"

section \<open>The engine handle\<close>

text \<open>An operation on the database of a shard; its error becomes an \<open>io::Error\<close> with its text.\<close>

definition on_shard :: "shard_key \<Rightarrow> (seal_state, 'a) op \<Rightarrow> 'a srv" where
  "on_shard key f st =
     (let h = handle_at st key; (d, files) = disk_at st (shard_dir key) in
      case f (eh_db h, d, files) of (r, (db', d', files')) \<Rightarrow>
        (map_error (\<lambda>e. SErr (error_text e)) r,
         put_disk (shard_dir key) (d', files') (put_handle key (h\<lparr>eh_db := db'\<rparr>) st)))"

definition clear_lexical_cache :: "shard_key \<Rightarrow> unit srv" where
  "clear_lexical_cache key st =
     (Inr (), put_handle key ((handle_at st key)\<lparr>eh_cache := cache_clear (eh_cache (handle_at st key))\<rparr>) st)"

text \<open>A write that succeeds clears the cache of prepared corpora.\<close>

definition eh_write :: "shard_key \<Rightarrow> (seal_state, 'a) op \<Rightarrow> 'a srv" where
  "eh_write key f = sbind (on_shard key f) (\<lambda>x. sbind (clear_lexical_cache key) (\<lambda>_. sreturn x))"

definition eh_apply_schema ::
    "srv_prims \<Rightarrow> request_env \<Rightarrow> shard_key \<Rightarrow> table_schema \<Rightarrow> idempotency_receipt option \<Rightarrow> epoch srv" where
  "eh_apply_schema S env key schema receipt =
     eh_write key (on_engine (apply_schema_with_idempotency_receipt (srv_eng S) (rv_nonce env) schema receipt))"

definition eh_insert ::
    "srv_prims \<Rightarrow> request_env \<Rightarrow> shard_key \<Rightarrow> record_input \<Rightarrow> idempotency_receipt option \<Rightarrow> epoch srv" where
  "eh_insert S env key input receipt =
     eh_write key (on_engine (insert_with_idempotency_receipt (srv_eng S) (rv_nonce env) input receipt))"

definition eh_put ::
    "srv_prims \<Rightarrow> request_env \<Rightarrow> shard_key \<Rightarrow> record_input \<Rightarrow> idempotency_receipt option \<Rightarrow> epoch srv" where
  "eh_put S env key input receipt =
     eh_write key (on_engine (put_with_idempotency_receipt (srv_eng S) (rv_nonce env) input receipt))"

definition eh_put_batch ::
    "srv_prims \<Rightarrow> request_env \<Rightarrow> shard_key \<Rightarrow> put_batch_request \<Rightarrow> idempotency_receipt option \<Rightarrow> epoch srv" where
  "eh_put_batch S env key request receipt =
     eh_write key (on_engine (put_batch_with_idempotency_receipt (srv_eng S) (rv_nonce env) (pb_records request) receipt))"

definition eh_put_batch_with_write_timing ::
    "srv_prims \<Rightarrow> request_env \<Rightarrow> shard_key \<Rightarrow> put_batch_request \<Rightarrow> epoch srv" where
  "eh_put_batch_with_write_timing S env key request =
     eh_write key (on_engine (put_batch_with_write_timing (srv_eng S) (rv_nonce env) (pb_records request)))"

definition eh_patch ::
    "srv_prims \<Rightarrow> request_env \<Rightarrow> shard_key \<Rightarrow> record_input \<Rightarrow> idempotency_receipt option \<Rightarrow> epoch srv" where
  "eh_patch S env key input receipt =
     eh_write key (on_engine (patch_with_idempotency_receipt (srv_eng S) (rv_nonce env) input receipt))"

definition eh_delete ::
    "srv_prims \<Rightarrow> request_env \<Rightarrow> shard_key \<Rightarrow> record_deletion \<Rightarrow> idempotency_receipt option \<Rightarrow> epoch srv" where
  "eh_delete S env key deletion receipt =
     eh_write key (on_engine (delete_with_idempotency_receipt (srv_eng S) (rv_nonce env) deletion receipt))"

definition eh_record_receipt :: "srv_prims \<Rightarrow> request_env \<Rightarrow> shard_key \<Rightarrow> idempotency_receipt \<Rightarrow> epoch srv" where
  "eh_record_receipt S env key receipt =
     on_shard key (on_engine (record_idempotency_receipt (srv_eng S) (rv_receipt_nonce env) receipt))"

definition eh_compact :: "srv_prims \<Rightarrow> request_env \<Rightarrow> shard_key \<Rightarrow> unit srv" where
  "eh_compact S env key = eh_write key (db_compact (idx_prims.truncate (sp_qry S)) (rv_file_nonces env))"

text \<open>Reads look at the handle and the files, and leave them.\<close>

definition eh_read :: "shard_key \<Rightarrow> (trace_db \<Rightarrow> artifact_files \<Rightarrow> 'a result) \<Rightarrow> 'a srv" where
  "eh_read key f st =
     slift (map_error error_text (f (eh_db (handle_at st key)) (snd (disk_at st (shard_dir key))))) st"

definition eh_get_as :: "shard_key \<Rightarrow> actor_context \<Rightarrow> record_get_request \<Rightarrow> record_output option srv" where
  "eh_get_as key actor request = eh_read key (\<lambda>db _. db_get_as actor db request)"

definition eh_scan_as ::
    "srv_prims \<Rightarrow> request_env \<Rightarrow> shard_key \<Rightarrow> actor_context \<Rightarrow> record_scan_request \<Rightarrow> record_scan_output srv" where
  "eh_scan_as S env key actor request =
     eh_read key (\<lambda>db _. db_scan_as (cur_prims.truncate (sp_qry S)) (rv_cursor env) actor db request)"

definition eh_inspect_manifest :: "shard_key \<Rightarrow> (manifest \<times> bool) srv" where
  "eh_inspect_manifest key =
     eh_read key (\<lambda>db _. Inr (td_manifest db, td_last_recovery_torn_tail db \<noteq> None))"

text \<open>A query may fill the cache of prepared corpora.\<close>

definition eh_query_as ::
    "srv_prims \<Rightarrow> request_env \<Rightarrow> shard_key \<Rightarrow> actor_context \<Rightarrow> hybrid_query \<Rightarrow> query_output srv" where
  "eh_query_as S env key actor query st =
     (let h = handle_at st key in
      case db_query_as (sp_qry S) (rv_cursor env) (snd (disk_at st (shard_dir key))) actor (eh_db h) query (eh_cache h) of
        (r, cache') \<Rightarrow> (map_error (\<lambda>e. SErr (error_text e)) r, put_handle key (h\<lparr>eh_cache := cache'\<rparr>) st))"

definition eh_create_snapshot :: "request_env \<Rightarrow> string \<Rightarrow> string + unit" where
  "eh_create_snapshot env target = map_error error_text (rv_snapshot env target)"

definition recovery_state :: "bool \<Rightarrow> json" where
  "recovery_state torn_tail = JString (if torn_tail then ''torn_tail_ignored'' else ''clean'')"

definition ready_response :: "srv_prims \<Rightarrow> shard_key \<Rightarrow> string srv" where
  "ready_response S key =
     sbind (eh_inspect_manifest key) (\<lambda>(m, torn_tail).
     sreturn (resp_ok S (json_object
       [(''ready'', JBool True), (''service'', JString ''tracedb-engine''),
        (''latest_epoch'', JNumber (PosInt (mf_latest_epoch m))), (''durable_epoch'', JNumber (PosInt (mf_durable_epoch m))),
        (''recovery_state'', recovery_state torn_tail)])))"

definition graphql_schema_response :: "srv_prims \<Rightarrow> shard_key \<Rightarrow> string srv" where
  "graphql_schema_response S key =
     sbind (eh_read key (\<lambda>db _.
       rbind (graphql_schema_sdl_from_tables (sp_front S) (mf_schemas (td_manifest db))) (\<lambda>schema.
       Inr (schema, map ts_name (mf_schemas (td_manifest db)))))) (\<lambda>(schema, tables).
     sreturn (resp_ok S (json_object
       [(''adapter'', JString ''bounded_graphql_query_adapter''), (''schema'', JString schema),
        (''tables'', JArray (map JString tables)),
        (''execution'', JString ''POST /v1/graphql/bounded returns TraceDB QueryResponse; POST /v1/graphql returns GraphQL data/errors'')])))"

section \<open>Jobs\<close>

definition job_files_at :: "server_state \<Rightarrow> dir_path \<Rightarrow> job_files" where
  "job_files_at st path = unwrap_or no_job_files (sv_job_files st path)"

definition put_job_files :: "dir_path \<Rightarrow> job_files \<Rightarrow> server_state \<Rightarrow> server_state" where
  "put_job_files path files st = st\<lparr>sv_job_files := (sv_job_files st)(path \<mapsto> files)\<rparr>"

definition put_runtime :: "shard_key \<Rightarrow> job_runtime \<Rightarrow> server_state \<Rightarrow> server_state" where
  "put_runtime key rt st = st\<lparr>sv_runtimes := (sv_runtimes st)(key \<mapsto> rt)\<rparr>"

text \<open>\<open>job_runtime\<close>: the runtime of the shard, opened when there is none.\<close>

definition open_job_runtime :: "job_prims \<Rightarrow> request_env \<Rightarrow> shard_key \<Rightarrow> job_runtime srv" where
  "open_job_runtime J env key st =
     (case sv_runtimes st key of
        Some rt \<Rightarrow> (Inr rt, st)
      | None \<Rightarrow>
          (case runtime_open J (rv_job_open env) key (job_files_at st (job_runtime_dir key)) of
             (Inl e, files) \<Rightarrow> (Inl (SErr e), put_job_files (job_runtime_dir key) files st)
           | (Inr rt, files) \<Rightarrow> (Inr rt, put_runtime key rt (put_job_files (job_runtime_dir key) files st))))"

definition on_jobs :: "job_prims \<Rightarrow> request_env \<Rightarrow> shard_key \<Rightarrow> 'a job_op \<Rightarrow> 'a srv" where
  "on_jobs J env key f =
     sbind (open_job_runtime J env key) (\<lambda>rt st.
     case f (rt, job_files_at st (job_runtime_dir key)) of (r, (rt', files')) \<Rightarrow>
       (map_error SErr r, put_runtime key rt' (put_job_files (job_runtime_dir key) files' st)))"

definition eh_jobs :: "job_prims \<Rightarrow> request_env \<Rightarrow> shard_key \<Rightarrow> trace_job list srv" where
  "eh_jobs J env key = sbind (open_job_runtime J env key) (\<lambda>rt. sreturn (runtime_jobs rt))"

end
