(* ===== verification/Server_Routes.thy ===== *)
theory Server_Routes
  imports Server
begin

text \<open>
  The requests of \<open>crates/tracedb-server/src/lib.rs\<close>: TraceQL commands, the native GraphQL endpoint, every
  route of \<open>handle_request_text\<close> with authorisation and the idempotency cache around them, and the start
  of the server.
\<close>

section \<open>Queries\<close>

definition job_option_json :: "srv_prims \<Rightarrow> trace_job option \<Rightarrow> json" where
  "job_option_json S job = (case job of None \<Rightarrow> JNull | Some j \<Rightarrow> sp_job_json S j)"

definition record_option_json :: "srv_prims \<Rightarrow> record_output option \<Rightarrow> json" where
  "record_option_json S r = (case r of None \<Rightarrow> JNull | Some x \<Rightarrow> sp_record_json S x)"

definition epoch_json :: "epoch \<Rightarrow> json" where
  "epoch_json e = JNumber (PosInt e)"

definition query_value :: "srv_prims \<Rightarrow> bool \<Rightarrow> query_output \<Rightarrow> json" where
  "query_value S include_explain out =
     (if include_explain then sp_output_json S out
      else
        let v = json_object [(''results'', sp_rows_json S out)] in
        case qo_next_cursor out of None \<Rightarrow> v | Some next_cursor \<Rightarrow> json_set ''next_cursor'' (JString next_cursor) v)"

definition query_timings :: "string list" where
  "query_timings = [''read'', ''parse'', ''lock_wait'', ''engine'', ''engine_core'', ''explain_build'', ''materialize'']"

definition query_response ::
    "srv_prims \<Rightarrow> request_env \<Rightarrow> shard_key \<Rightarrow> actor_context \<Rightarrow> hybrid_query \<Rightarrow> string srv" where
  "query_response S env key actor query =
     sbind (eh_query_as S env key actor query) (\<lambda>out.
     sreturn (ok_timed S (rv_durations env) (query_value S (hq_explain query) out) query_timings))"

definition query_output_value ::
    "srv_prims \<Rightarrow> request_env \<Rightarrow> shard_key \<Rightarrow> actor_context \<Rightarrow> hybrid_query \<Rightarrow> json srv" where
  "query_output_value S env key actor query =
     sbind (eh_query_as S env key actor query) (\<lambda>out. sreturn (query_value S (hq_explain query) out))"

definition explain_value ::
    "srv_prims \<Rightarrow> request_env \<Rightarrow> shard_key \<Rightarrow> actor_context \<Rightarrow> hybrid_query \<Rightarrow> json srv" where
  "explain_value S env key actor query =
     sbind (query_output_value S env key actor (query\<lparr>hq_explain := True\<rparr>)) (\<lambda>v.
     sreturn (unwrap_or (json_object [(''explain'', JNull)]) (json_get v ''explain'')))"

definition explain_response ::
    "srv_prims \<Rightarrow> request_env \<Rightarrow> shard_key \<Rightarrow> actor_context \<Rightarrow> hybrid_query \<Rightarrow> string srv" where
  "explain_response S env key actor query =
     sbind (eh_query_as S env key actor (query\<lparr>hq_explain := True\<rparr>)) (\<lambda>out.
     sreturn (ok_timed S (rv_durations env) (sp_explain_json S out) query_timings))"

section \<open>Steps shared by the three interfaces\<close>

definition parse_record_put_value :: "srv_prims \<Rightarrow> json \<Rightarrow> string + record_input" where
  "parse_record_put_value S v =
     (if json_get v ''record'' \<noteq> None then from_value (sp_put S) v else from_value (sp_input S) v)"

definition parse_record_put_body :: "srv_prims \<Rightarrow> string \<Rightarrow> string + record_input" where
  "parse_record_put_body S body = rbind (parse_value S body) (parse_record_put_value S)"

definition epoch_value :: "epoch srv \<Rightarrow> json srv" where
  "epoch_value m = sbind m (\<lambda>e. sreturn (json_object [(''epoch'', epoch_json e)]))"

definition deleted_value :: "epoch srv \<Rightarrow> json srv" where
  "deleted_value m = sbind m (\<lambda>e. sreturn (json_object [(''deleted'', JBool True), (''epoch'', epoch_json e)]))"

definition batch_value :: "put_batch_request \<Rightarrow> epoch srv \<Rightarrow> json srv" where
  "batch_value request m =
     sbind m (\<lambda>e. sreturn (json_object [(''epoch'', epoch_json e), (''record_count'', json_nat (length (pb_records request)))]))"

definition get_value :: "srv_prims \<Rightarrow> shard_key \<Rightarrow> actor_context \<Rightarrow> record_get_request \<Rightarrow> json srv" where
  "get_value S key actor request =
     sbind (eh_get_as key actor request) (\<lambda>r. sreturn (json_object [(''record'', record_option_json S r)]))"

definition scan_value :: "srv_prims \<Rightarrow> request_env \<Rightarrow> shard_key \<Rightarrow> actor_context \<Rightarrow> record_scan_request \<Rightarrow> json srv" where
  "scan_value S env key actor request =
     sbind (eh_scan_as S env key actor request) (\<lambda>out. sreturn (sp_scan_json S out))"

definition compact_value :: "srv_prims \<Rightarrow> request_env \<Rightarrow> shard_key \<Rightarrow> json srv" where
  "compact_value S env key =
     sbind (eh_compact S env key) (\<lambda>_. sreturn (json_object [(''compacted'', JBool True)]))"

definition snapshot_json :: "string \<Rightarrow> json" where
  "snapshot_json target = json_object [(''snapshot'', JBool True), (''target'', JString target)]"

definition jobs_value :: "srv_prims \<Rightarrow> job_prims \<Rightarrow> request_env \<Rightarrow> shard_key \<Rightarrow> json srv" where
  "jobs_value S J env key =
     sbind (eh_jobs J env key) (\<lambda>jobs.
     sreturn (json_object [(''durable'', JBool True), (''durable_jobs'', JArray (map (sp_job_json S) jobs))]))"

definition job_kind_of :: "json \<Rightarrow> job_kind" where
  "job_kind_of v = unwrap_or VerifyDatabase (Option.bind (json_string v ''kind'') parse_job_kind)"

text \<open>A job run by a query language: the target names the job when there is no idempotency key.\<close>

definition run_job_value :: "srv_prims \<Rightarrow> job_prims \<Rightarrow> request_env \<Rightarrow> shard_key \<Rightarrow> string \<Rightarrow> json \<Rightarrow> json srv" where
  "run_job_value S J env key default_target v =
     (let target = unwrap_or default_target (json_string v ''target'') in
      sbind (on_jobs J env key (runtime_enqueue J (rv_job_io env) (job_kind_of v) target
               (unwrap_or target (json_string v ''idempotency_key'')))) (\<lambda>job.
      sreturn (json_object [(''job'', sp_job_json S job)])))"

text \<open>Restoring: the answer, with the check of a record when the request names one.\<close>

definition verification_json :: "srv_prims \<Rightarrow> trace_db \<Rightarrow> json \<Rightarrow> string + json" where
  "verification_json S restored verify_record =
     rbind (from_value (sp_get S) verify_record) (\<lambda>request.
     rbind (map_error error_text (db_get restored request)) (\<lambda>r.
     Inr (json_object
       [(''status'', JString (if r \<noteq> None then ''passed'' else ''failed'')), (''record_visible'', JBool (r \<noteq> None)),
        (''request'', sp_get_json S request), (''record'', record_option_json S r)])))"

definition restored_value :: "srv_prims \<Rightarrow> string \<Rightarrow> string \<Rightarrow> json \<Rightarrow> trace_db \<Rightarrow> string + json" where
  "restored_value S source target v restored =
     (let response = json_object [(''restored'', JBool True), (''source'', JString source), (''target'', JString target)] in
      case json_get v ''verify_record'' of
        None \<Rightarrow> Inr response
      | Some verify_record \<Rightarrow>
          rbind (verification_json S restored verify_record) (\<lambda>verification.
          Inr (json_set ''verification'' verification response)))"

definition restore_value_from_payload :: "srv_prims \<Rightarrow> request_env \<Rightarrow> string \<Rightarrow> string + json" where
  "restore_value_from_payload S env payload =
     rbind (parse_value S payload) (\<lambda>v.
     rbind (ok_or ''restore source is required'' (json_string v ''source'')) (\<lambda>source.
     rbind (ok_or ''restore target is required'' (json_string v ''target'')) (\<lambda>target.
     rbind (map_error error_text (rv_restore env source target)) (restored_value S source target v))))"

section \<open>TraceQL\<close>

definition traceql_snapshot :: "request_env \<Rightarrow> json \<Rightarrow> string + json" where
  "traceql_snapshot env v =
     rbind (required_str v ''target'') (\<lambda>target.
     Inr (case eh_create_snapshot env target of
            Inl e \<Rightarrow> json_object [(''ok'', JBool False), (''error'', JString e), (''code'', JString ''bad_request'')]
          | Inr _ \<Rightarrow> snapshot_json target))"

definition execute_traceql_command ::
    "srv_prims \<Rightarrow> job_prims \<Rightarrow> request_env \<Rightarrow> shard_key \<Rightarrow> actor_context \<Rightarrow> string \<Rightarrow> string \<Rightarrow> json srv" where
  "execute_traceql_command S J env key actor command payload =
     (if command = ''SCHEMA APPLY'' then
        sbind (slift (from_str (sp_schema S) payload)) (\<lambda>schema. epoch_value (eh_apply_schema S env key schema None))
      else if command \<in> {''RECORD PUT'', ''PUT''} then
        sbind (slift (parse_record_put_body S payload)) (\<lambda>input. epoch_value (eh_put S env key input None))
      else if command \<in> {''RECORD BATCH'', ''BATCH''} then
        sbind (slift (from_str (sp_batch S) payload)) (\<lambda>request. batch_value request (eh_put_batch S env key request None))
      else if command \<in> {''RECORD PATCH'', ''PATCH''} then
        sbind (slift (from_str (sp_patch S) payload)) (\<lambda>request. epoch_value (eh_patch S env key request None))
      else if command \<in> {''RECORD DELETE'', ''DELETE''} then
        sbind (slift (from_str (sp_delete S) payload)) (\<lambda>request. deleted_value (eh_delete S env key request None))
      else if command \<in> {''RECORD GET'', ''GET''} then
        sbind (slift (from_str (sp_get S) payload)) (get_value S key actor)
      else if command \<in> {''RECORD SCAN'', ''SCAN''} then
        sbind (slift (from_str (sp_scan S) payload)) (scan_value S env key actor)
      else if command = ''QUERY'' then
        sbind (slift (from_str (sp_query S) payload)) (query_output_value S env key actor)
      else if command = ''EXPLAIN'' then
        sbind (slift (from_str (sp_query S) payload)) (explain_value S env key actor)
      else if command \<in> {''ADMIN COMPACT'', ''COMPACT''} then compact_value S env key
      else if command \<in> {''ADMIN SNAPSHOT'', ''SNAPSHOT''} then
        slift (rbind (parse_value S payload) (traceql_snapshot env))
      else if command \<in> {''ADMIN RESTORE'', ''RESTORE''} then slift (restore_value_from_payload S env payload)
      else if command = ''JOBS LIST'' then jobs_value S J env key
      else if command = ''JOBS RUN'' then
        sbind (slift (parse_value S payload)) (run_job_value S J env key ''traceql-job'')
      else slift (Inl (''invalid TraceQL command: '' @ command)))"

text \<open>A panic of the command splitter.\<close>

definition spanics :: "'a option \<Rightarrow> 'a srv" where
  "spanics x st = (case x of None \<Rightarrow> (Inl SPanic, st) | Some y \<Rightarrow> (Inr y, st))"

definition traceql_response ::
    "srv_prims \<Rightarrow> job_prims \<Rightarrow> request_env \<Rightarrow> shard_key \<Rightarrow> actor_context \<Rightarrow> string \<Rightarrow> string srv" where
  "traceql_response S J env key actor query =
     sbind (spanics (split_traceql_command query)) (\<lambda>split.
     case split of
       Some (command, payload) \<Rightarrow>
         sbind (execute_traceql_command S J env key actor command payload) (\<lambda>v. sreturn (resp_ok S v))
     | None \<Rightarrow>
         sbind (slift (map_error error_text (traceql_query_from_str (sp_front S) query))) (query_response S env key actor))"

section \<open>The native GraphQL endpoint\<close>

text \<open>\<open>serde_json::from_value(input)\<close> of the input argument.\<close>

definition graphql_input :: "srv_prims \<Rightarrow> graphql_request \<Rightarrow> string \<Rightarrow> 'a decoder \<Rightarrow> 'a srv" where
  "graphql_input S request field dec = slift (rbind (graphql_input_json S request field) (from_value dec))"

definition graphql_snapshot :: "request_env \<Rightarrow> json \<Rightarrow> string + json" where
  "graphql_snapshot env v =
     rbind (ok_or ''snapshot target is required'' (json_string v ''target'')) (\<lambda>target.
     rbind (eh_create_snapshot env target) (\<lambda>_. Inr (snapshot_json target)))"

definition graphql_field_value ::
    "srv_prims \<Rightarrow> job_prims \<Rightarrow> request_env \<Rightarrow> shard_key \<Rightarrow> actor_context \<Rightarrow> graphql_request \<Rightarrow> string \<Rightarrow> json srv" where
  "graphql_field_value S J env key actor request field =
     (if field \<in> {''schemaApply'', ''applySchema''} then
        sbind (graphql_input S request field (sp_schema S)) (\<lambda>schema. epoch_value (eh_apply_schema S env key schema None))
      else if field = ''put'' then
        sbind (slift (rbind (graphql_input_string S request field) (parse_record_put_body S)))
          (\<lambda>input. epoch_value (eh_put S env key input None))
      else if field = ''batch'' then
        sbind (graphql_input S request field (sp_batch S)) (\<lambda>body. batch_value body (eh_put_batch S env key body None))
      else if field = ''patch'' then
        sbind (graphql_input S request field (sp_patch S)) (\<lambda>body. epoch_value (eh_patch S env key body None))
      else if field = ''delete'' then
        sbind (graphql_input S request field (sp_delete S)) (\<lambda>body. deleted_value (eh_delete S env key body None))
      else if field = ''get'' then sbind (graphql_input S request field (sp_get S)) (get_value S key actor)
      else if field = ''scan'' then sbind (graphql_input S request field (sp_scan S)) (scan_value S env key actor)
      else if field = ''query'' then sbind (graphql_input S request field (sp_query S)) (query_output_value S env key actor)
      else if field = ''explain'' then sbind (graphql_input S request field (sp_query S)) (explain_value S env key actor)
      else if field = ''compact'' then compact_value S env key
      else if field = ''snapshot'' then slift (rbind (graphql_input_json S request field) (graphql_snapshot env))
      else if field = ''restore'' then
        slift (rbind (graphql_input_string S request field) (restore_value_from_payload S env))
      else if field = ''jobs'' then jobs_value S J env key
      else if field \<in> {''jobRun'', ''runJob''} then
        sbind (slift (graphql_input_json S request field)) (run_job_value S J env key ''graphql-job'')
      else slift (Inl (''unsupported TraceDB GraphQL field '' @ field)))"

definition execute_native_graphql ::
    "srv_prims \<Rightarrow> job_prims \<Rightarrow> request_env \<Rightarrow> shard_key \<Rightarrow> actor_context \<Rightarrow> graphql_request \<Rightarrow> (string \<times> json) srv" where
  "execute_native_graphql S J env key actor request =
     sbind (slift (map_error (\<lambda>e. ''invalid GraphQL: '' @ e) (sp_graphql_parse S (gr_query request)))) (\<lambda>_.
     sbind (slift (ok_or ''invalid GraphQL: exactly one root field is required for TraceDB operations''
              (graphql_root_field (gr_query request)))) (\<lambda>field.
     sbind (graphql_field_value S J env key actor request field) (\<lambda>v. sreturn (field, v))))"

text \<open>An error becomes part of an answer with status 200.\<close>

definition native_graphql_response ::
    "srv_prims \<Rightarrow> job_prims \<Rightarrow> request_env \<Rightarrow> shard_key \<Rightarrow> actor_context \<Rightarrow> graphql_request \<Rightarrow> string srv" where
  "native_graphql_response S J env key actor request st =
     (case execute_native_graphql S J env key actor request st of
        (Inr (field, v), st') \<Rightarrow> (Inr (resp_ok S (json_object [(''data'', json_object [(field, v)])])), st')
      | (Inl (SErr message), st') \<Rightarrow>
          (Inr (resp_ok S (json_object [(''data'', JNull), (''errors'', JArray [graphql_error message])])), st')
      | (Inl SPanic, st') \<Rightarrow> (Inl SPanic, st'))"

section \<open>Routes\<close>

definition answer :: "srv_prims \<Rightarrow> json srv \<Rightarrow> string srv" where
  "answer S m = sbind m (\<lambda>v. sreturn (resp_ok S v))"

definition health_response :: "srv_prims \<Rightarrow> shard_key \<Rightarrow> json srv" where
  "health_response S key =
     sbind (eh_inspect_manifest key) (\<lambda>(m, _).
     sreturn (json_object
       [(''ok'', JBool True), (''data_dir_available'', JBool True), (''latest_epoch'', epoch_json (mf_latest_epoch m)),
        (''durable_epoch'', epoch_json (mf_durable_epoch m)), (''branch_id'', JString (mf_branch_id m)),
        (''active_wal'', JNumber (PosInt (mf_active_wal m))), (''wal_state'', JString ''open''),
        (''catalog_connection'', JString ''configured-or-local''), (''queue_connection'', JString ''configured-or-local'')]))"

definition branches_response :: "srv_prims \<Rightarrow> shard_key \<Rightarrow> json srv" where
  "branches_response S key =
     sbind (eh_inspect_manifest key) (\<lambda>(m, _).
     sreturn (json_object [(''branches'', JArray [json_object
       [(''branch_id'', JString (mf_branch_id m)), (''state'', JString ''ACTIVE''), (''latest_epoch'', epoch_json (mf_latest_epoch m))]])]))"

definition metrics_response :: "srv_prims \<Rightarrow> shard_key \<Rightarrow> json srv" where
  "metrics_response S key =
     sbind (eh_inspect_manifest key) (\<lambda>(m, torn_tail).
     sreturn (json_object
       [(''service'', JString ''tracedb-engine''), (''latest_epoch'', epoch_json (mf_latest_epoch m)),
        (''durable_epoch'', epoch_json (mf_durable_epoch m)), (''segment_count'', json_nat (length (mf_segments m))),
        (''index_count'', json_nat (length (mf_indexes m))), (''module_count'', json_nat (length (mf_modules m))),
        (''schema_count'', json_nat (length (mf_schemas m))), (''recovery_state'', recovery_state torn_tail)]))"

definition databases_json :: json where
  "databases_json =
     json_object [(''mode'', JString ''local''), (''databases'', JArray [json_object
       [(''database_id'', JString ''local''), (''endpoint'', JString ''local-daemon'')]])]"

text \<open>The routes without a body that only look at the server.\<close>

definition get_route ::
    "srv_prims \<Rightarrow> job_prims \<Rightarrow> request_env \<Rightarrow> shard_key \<Rightarrow> string \<Rightarrow> string srv option" where
  "get_route S J env key path =
     (if path \<in> {''/health'', ''/internal/health''} then Some (answer S (health_response S key))
      else if path = ''/v1/health'' then
        Some (sreturn (resp_ok S (json_object [(''ok'', JBool True), (''service'', JString ''tracedb-engine'')])))
      else if path \<in> {''/ready'', ''/v1/ready''} then Some (ready_response S key)
      else if path = ''/v1/databases'' then Some (sreturn (resp_ok S databases_json))
      else if path = ''/v1/branches'' then Some (answer S (branches_response S key))
      else if path \<in> {''/metrics'', ''/v1/metrics/public-safe''} then Some (answer S (metrics_response S key))
      else if path \<in> {''/v1/graphql/schema'', ''/v1/graphql/bounded/schema''} then Some (graphql_schema_response S key)
      else if path = ''/v1/admin/jobs'' then
        Some (sbind (eh_jobs J env key) (\<lambda>jobs.
          let queues = [''tracedb.segment.compact'', ''tracedb.snapshot.create'', ''tracedb.feature.index''] in
          sreturn (resp_ok S (json_object
            [(''durable'', JBool True), (''queues'', JArray (map JString queues)),
             (''jobs'', JArray (map (\<lambda>q. json_object [(''queue'', JString q), (''state'', JString ''idle'')]) queues)),
             (''durable_jobs'', JArray (map (sp_job_json S) jobs))]))))
      else None)"

text \<open>The writes with a receipt, which the engine commits together with the change.\<close>

definition batch_route ::
    "srv_prims \<Rightarrow> request_env \<Rightarrow> shard_key \<Rightarrow> idempotency_receipt option \<Rightarrow> put_batch_request \<Rightarrow> json srv" where
  "batch_route S env key receipt request =
     (if pb_include_write_timing request then
        sbind (eh_put_batch_with_write_timing S env key request) (\<lambda>e.
        sreturn (json_object [(''epoch'', epoch_json e), (''record_count'', json_nat (length (pb_records request))),
          (''write_timing'', rv_write_timing env)]))
      else batch_value request (eh_put_batch S env key request receipt))"

definition write_route ::
    "srv_prims \<Rightarrow> request_env \<Rightarrow> shard_key \<Rightarrow> idempotency_receipt option \<Rightarrow> string \<Rightarrow> string \<Rightarrow> json srv option" where
  "write_route S env key receipt path body =
     (if path = ''/v1/schema/apply'' then
        Some (sbind (slift (from_str (sp_schema S) body)) (\<lambda>schema. epoch_value (eh_apply_schema S env key schema receipt)))
      else if path = ''/v1/insert'' then
        Some (sbind (slift (from_str (sp_input S) body)) (\<lambda>input. epoch_value (eh_insert S env key input receipt)))
      else if path = ''/v1/records/put'' then
        Some (sbind (slift (parse_record_put_body S body)) (\<lambda>input. epoch_value (eh_put S env key input receipt)))
      else if path = ''/v1/records/put-batch'' then
        Some (sbind (slift (from_str (sp_batch S) body)) (batch_route S env key receipt))
      else if path = ''/v1/records/patch'' then
        Some (sbind (slift (from_str (sp_patch S) body)) (\<lambda>request. epoch_value (eh_patch S env key request receipt)))
      else if path = ''/v1/records/delete'' then
        Some (sbind (slift (from_str (sp_delete S) body)) (\<lambda>request. deleted_value (eh_delete S env key request receipt)))
      else None)"

definition has_parent_reference :: "string \<Rightarrow> bool" where
  "has_parent_reference path = contains_str path ''..''"

definition snapshot_route :: "srv_prims \<Rightarrow> request_env \<Rightarrow> string \<Rightarrow> string + string" where
  "snapshot_route S env body =
     rbind (parse_value S body) (\<lambda>v.
     rbind (ok_or ''snapshot target is required'' (json_string v ''target'')) (\<lambda>target.
     if has_parent_reference target
     then Inr (resp_bad_request S ''snapshot target must not contain parent directory references'')
     else case eh_create_snapshot env target of
            Inl e \<Rightarrow> Inr (resp_bad_request S e)
          | Inr _ \<Rightarrow> Inr (resp_ok S (snapshot_json target))))"

definition restore_route :: "srv_prims \<Rightarrow> request_env \<Rightarrow> string \<Rightarrow> string + string" where
  "restore_route S env body =
     rbind (parse_value S body) (\<lambda>v.
     rbind (ok_or ''restore source is required'' (json_string v ''source'')) (\<lambda>source.
     rbind (ok_or ''restore target is required'' (json_string v ''target'')) (\<lambda>target.
     if has_parent_reference source
     then Inr (resp_bad_request S ''restore source must not contain parent directory references'')
     else if has_parent_reference target
     then Inr (resp_bad_request S ''restore target must not contain parent directory references'')
     else case rv_restore env source target of
            Inl e \<Rightarrow> Inr (resp_bad_request S (error_text e))
          | Inr restored \<Rightarrow>
              rbind (restored_value S source target v restored) (\<lambda>response. Inr (resp_ok S response)))))"

definition lease_ms_of :: "json \<Rightarrow> u64" where
  "lease_ms_of v = unwrap_or 30000 (Option.bind (json_get v ''lease_ms'') as_u64)"

definition lease_route :: "srv_prims \<Rightarrow> job_prims \<Rightarrow> request_env \<Rightarrow> shard_key \<Rightarrow> json \<Rightarrow> json srv" where
  "lease_route S J env key v =
     sbind (on_jobs J env key (runtime_lease J (rv_job_io env) (unwrap_or ''worker'' (json_string v ''worker_id''))
              (job_kind_of v) (rv_now_ms env) (lease_ms_of v))) (\<lambda>job.
     sreturn (json_object [(''leased'', JBool (job \<noteq> None)), (''job'', job_option_json S job)]))"

definition heartbeat_route :: "srv_prims \<Rightarrow> job_prims \<Rightarrow> request_env \<Rightarrow> shard_key \<Rightarrow> json \<Rightarrow> json srv" where
  "heartbeat_route S J env key v =
     sbind (slift (required_str v ''job_id'')) (\<lambda>job_id.
     sbind (slift (required_str v ''lease_token'')) (\<lambda>token.
     sbind (on_jobs J env key (runtime_heartbeat J (rv_job_io env) job_id token (rv_now_ms env) (lease_ms_of v))) (\<lambda>job.
     sreturn (json_object [(''heartbeat'', JBool True), (''job'', sp_job_json S job)]))))"

definition complete_route :: "srv_prims \<Rightarrow> job_prims \<Rightarrow> request_env \<Rightarrow> shard_key \<Rightarrow> json \<Rightarrow> json srv" where
  "complete_route S J env key v =
     sbind (slift (required_str v ''job_id'')) (\<lambda>job_id.
     sbind (slift (required_str v ''lease_token'')) (\<lambda>token.
     sbind (on_jobs J env key (runtime_complete J (rv_job_io env) job_id token)) (\<lambda>job.
     sreturn (json_object [(''completed'', JBool True), (''job'', sp_job_json S job)]))))"

definition fail_route :: "srv_prims \<Rightarrow> job_prims \<Rightarrow> request_env \<Rightarrow> shard_key \<Rightarrow> json \<Rightarrow> json srv" where
  "fail_route S J env key v =
     sbind (slift (required_str v ''job_id'')) (\<lambda>job_id.
     sbind (on_jobs J env key (runtime_fail J (rv_job_io env) job_id (json_string v ''lease_token'')
              (unwrap_or ''job failed'' (json_string v ''error''))
              (unwrap_or False (Option.bind (json_get v ''permanent'') as_bool)) (rv_now_ms env))) (\<lambda>job.
     sreturn (json_object [(''failed'', JBool True), (''job'', sp_job_json S job)])))"

definition post_route ::
    "srv_prims \<Rightarrow> job_prims \<Rightarrow> request_env \<Rightarrow> shard_key \<Rightarrow> actor_context \<Rightarrow> string \<Rightarrow> string \<Rightarrow> string srv" where
  "post_route S J env key actor path body =
     (if path = ''/v1/records/get'' then answer S (sbind (slift (from_str (sp_get S) body)) (get_value S key actor))
      else if path = ''/v1/records/scan'' then
        answer S (sbind (slift (from_str (sp_scan S) body)) (scan_value S env key actor))
      else if path = ''/v1/query'' then sbind (slift (from_str (sp_query S) body)) (query_response S env key actor)
      else if path = ''/v1/traceql'' then sbind (slift (from_str (sp_traceql S) body)) (traceql_response S J env key actor)
      else if path = ''/v1/graphql'' then
        sbind (slift (from_str (sp_graphql S) body)) (native_graphql_response S J env key actor)
      else if path = ''/v1/graphql/bounded'' then
        sbind (slift (from_str (sp_graphql S) body)) (\<lambda>request.
        sbind (slift (map_error error_text (graphql_query_from_str (sp_front S) (gr_query request))))
          (query_response S env key actor))
      else if path = ''/v1/explain'' then sbind (slift (from_str (sp_query S) body)) (explain_response S env key actor)
      else if path = ''/v1/admin/compact'' then answer S (compact_value S env key)
      else if path = ''/v1/admin/snapshot'' then slift (snapshot_route S env body)
      else if path = ''/v1/admin/restore'' then slift (restore_route S env body)
      else if path = ''/internal/jobs/lease'' then answer S (sbind (slift (parse_value S body)) (lease_route S J env key))
      else if path = ''/internal/jobs/heartbeat'' then
        answer S (sbind (slift (parse_value S body)) (heartbeat_route S J env key))
      else if path = ''/internal/jobs/complete'' then
        answer S (sbind (slift (parse_value S body)) (complete_route S J env key))
      else if path = ''/internal/jobs/fail'' then answer S (sbind (slift (parse_value S body)) (fail_route S J env key))
      else sreturn (resp_not_found S))"

definition dispatch ::
    "srv_prims \<Rightarrow> job_prims \<Rightarrow> request_env \<Rightarrow> shard_key \<Rightarrow> actor_context \<Rightarrow> idempotency_receipt option \<Rightarrow>
     string \<Rightarrow> string \<Rightarrow> string \<Rightarrow> string srv" where
  "dispatch S J env key actor receipt verb path body =
     (if verb = ''GET'' then (case get_route S J env key path of Some m \<Rightarrow> m | None \<Rightarrow> sreturn (resp_not_found S))
      else if verb = ''POST'' then
        (case write_route S env key receipt path body of
           Some m \<Rightarrow> answer S m
         | None \<Rightarrow> post_route S J env key actor path body)
      else sreturn (resp_not_found S))"

section \<open>A request\<close>

definition next_request_id :: "request_env \<Rightarrow> string srv" where
  "next_request_id env st =
     (Inr (''engine-'' @ show_nat (rv_process_id env) @ ''-'' @ show_nat (unat (sv_next_request_id st))),
      st\<lparr>sv_next_request_id := sv_next_request_id st + 1\<rparr>)"

definition request_id_of :: "request_env \<Rightarrow> string \<Rightarrow> string srv" where
  "request_id_of env request =
     (case header_value request ''x-request-id'' of Some rid \<Rightarrow> sreturn rid | None \<Rightarrow> next_request_id env)"

definition request_idempotency_key :: "string \<Rightarrow> string \<Rightarrow> string \<Rightarrow> actor_context \<Rightarrow> idempotency_cache_key option" where
  "request_idempotency_key request verb path actor =
     map_option (\<lambda>k. idempotency_key_new verb path k actor)
       (option_filter (\<lambda>_. supports_http_idempotency verb path)
         (option_filter (\<lambda>k. k \<noteq> []) (header_value request ''idempotency-key'')))"

text \<open>The answer that the cache has for a key.\<close>

definition cached_answer :: "srv_prims \<Rightarrow> idempotency_entry \<Rightarrow> string \<Rightarrow> string" where
  "cached_answer S entry body_hash =
     (if ie_body_hash entry = body_hash then ie_response entry
      else resp_conflict S ''idempotency key reused with different request body'')"

text \<open>What follows the dispatch: a successful answer is recorded under its key.\<close>

definition remember_answer ::
    "srv_prims \<Rightarrow> request_env \<Rightarrow> shard_key \<Rightarrow> idempotency_cache_key option \<Rightarrow> string \<Rightarrow> string \<Rightarrow> string \<Rightarrow> string \<Rightarrow> string srv" where
  "remember_answer S env key cache_key verb path body_hash response =
     (case cache_key of
        None \<Rightarrow> sreturn response
      | Some k \<Rightarrow>
          if starts_with response ''HTTP/1.1 200 OK'' then
            sbind (if records_receipt_after_response verb path
                   then sbind (eh_record_receipt S env key ((to_receipt k body_hash)\<lparr>ir_response := response\<rparr>)) (\<lambda>_. sreturn ())
                   else sreturn ()) (\<lambda>_.
            sbind (idempotency_insert k \<lparr>ie_body_hash = body_hash, ie_response = response\<rparr>) (\<lambda>_.
            sreturn response))
          else sreturn response)"

definition serve_authorized ::
    "srv_prims \<Rightarrow> job_prims \<Rightarrow> request_env \<Rightarrow> string \<Rightarrow> string \<Rightarrow> string \<Rightarrow> string srv" where
  "serve_authorized S J env root_dir request request_id =
     (let (verb, path) = request_line_parts request;
          body = request_body request;
          body_hash = stable_body_hash (prims.truncate (sp_qry S)) body in
      sbind (spanics (actor_context_from_request S request body request_id)) (\<lambda>actor.
      sbind (for_actor S env root_dir actor) (\<lambda>key.
      let cache_key = request_idempotency_key request verb path actor in
      (\<lambda>st.
        case Option.bind cache_key (sv_idempotency st) of
          Some entry \<Rightarrow> (Inr (cached_answer S entry body_hash), st)
        | None \<Rightarrow>
            sbind (dispatch S J env key actor (map_option (\<lambda>k. to_receipt k body_hash) cache_key) verb path body)
              (remember_answer S env key cache_key verb path body_hash) st))))"

definition handle_request_text ::
    "srv_prims \<Rightarrow> job_prims \<Rightarrow> request_env \<Rightarrow> string \<Rightarrow> server_config \<Rightarrow> string \<Rightarrow> string srv" where
  "handle_request_text S J env root_dir config request =
     (let (verb, path) = request_line_parts request in
      sbind (request_id_of env request) (\<lambda>request_id.
      if \<not> is_public_engine_route verb path \<and> \<not> authorizes_private_request config request
      then sreturn (resp_unauthorized S ''missing or invalid private engine token'')
      else serve_authorized S J env root_dir request request_id))"

text \<open>
  \<open>handle\<close> and \<open>handle_axum_request\<close>: an error is answered with 400; after a panic there is no answer.
\<close>

definition handle_request ::
    "srv_prims \<Rightarrow> job_prims \<Rightarrow> request_env \<Rightarrow> string \<Rightarrow> server_config \<Rightarrow> string \<Rightarrow> server_state \<Rightarrow> string option \<times> server_state" where
  "handle_request S J env root_dir config request st =
     (case handle_request_text S J env root_dir config request st of
        (Inr response, st') \<Rightarrow> (Some response, st')
      | (Inl (SErr e), st') \<Rightarrow> (Some (resp_bad_request S e), st')
      | (Inl SPanic, st') \<Rightarrow> (None, st'))"

definition handle_connection ::
    "srv_prims \<Rightarrow> job_prims \<Rightarrow> request_env \<Rightarrow> string \<Rightarrow> server_config \<Rightarrow> bytes list \<Rightarrow> server_state \<Rightarrow> string option \<times> server_state" where
  "handle_connection S J env root_dir config stream st =
     (case read_request stream of
        Inl e \<Rightarrow> (Some (resp_bad_request S e), st)
      | Inr request \<Rightarrow> handle_request S J env root_dir config request st)"

section \<open>Starting the server\<close>

text \<open>
  \<open>open_server_state\<close> on the files that a server left: the root database is opened, closed and opened
  again, and the cache is filled from its receipts. \<open>env1\<close> and \<open>env2\<close> are what the two openings take
  from outside.
\<close>

definition stopped_server :: "engine_handle \<Rightarrow> (dir_path \<Rightarrow> (disk \<times> artifact_files) option) \<Rightarrow>
    (dir_path \<Rightarrow> string option) \<Rightarrow> (dir_path \<Rightarrow> job_files option) \<Rightarrow> server_state" where
  "stopped_server h disks receipts jobs =
     \<lparr>sv_root = h, sv_handles = Map.empty, sv_locked = [], sv_disks = disks, sv_shard_receipts = receipts,
      sv_runtimes = Map.empty, sv_job_files = jobs, sv_idempotency = Map.empty, sv_next_request_id = 1\<rparr>"

definition open_server_state :: "srv_prims \<Rightarrow> request_env \<Rightarrow> request_env \<Rightarrow> string \<Rightarrow> unit srv" where
  "open_server_state S env1 env2 root_dir =
     sbind (open_shard S env1 root_dir []) (\<lambda>h1 st1.
     sbind (open_shard S env2 root_dir []) (\<lambda>h st.
       (Inr (), st\<lparr>sv_root := h, sv_idempotency := cache_from_receipts (td_receipts (eh_db h1))\<rparr>))
       (st1\<lparr>sv_locked := []\<rparr>))"

text \<open>The process ends and the server is started again on its files.\<close>

definition restart_server :: "srv_prims \<Rightarrow> request_env \<Rightarrow> request_env \<Rightarrow> string \<Rightarrow> server_state \<Rightarrow> (srv_error + unit) \<times> server_state" where
  "restart_server S env1 env2 root_dir st =
     open_server_state S env1 env2 root_dir
       (stopped_server (sv_root st) (sv_disks st) (sv_shard_receipts st) (sv_job_files st))"

end
