(* ===== verification/Server_Props.thy ===== *)
theory Server_Props
  imports Server_Routes
begin

text \<open>
  What holds of every request to the server. The routes are covered once, for any relation between
  states that the operations on one shard respect (locale \<open>srv_frame\<close>); it is used for two relations:
  the cache of answers stays, and the other shards stay.
\<close>

section \<open>Relations that requests respect\<close>

named_theorems srv_keeps "operations that respect a relation between states"

definition keeps :: "(server_state \<Rightarrow> server_state \<Rightarrow> bool) \<Rightarrow> 'a srv \<Rightarrow> bool" where
  "keeps R m \<longleftrightarrow> (\<forall>st. R st (snd (m st)))"

lemma keepsI: "(\<And>st. R st (snd (m st))) \<Longrightarrow> keeps R m"
  by (simp add: keeps_def)

lemma keepsD: "keeps R m \<Longrightarrow> m st = (r, st') \<Longrightarrow> R st st'"
  by (metis keeps_def snd_conv)

lemma keeps_if [srv_keeps]: "(b \<Longrightarrow> keeps R m) \<Longrightarrow> (\<not> b \<Longrightarrow> keeps R m') \<Longrightarrow> keeps R (if b then m else m')"
  by simp

lemma keeps_option [srv_keeps]:
  "keeps R m \<Longrightarrow> (\<And>x. keeps R (f x)) \<Longrightarrow> keeps R (case a of None \<Rightarrow> m | Some x \<Rightarrow> f x)"
  by (cases a) simp_all

lemma keeps_prod [srv_keeps]: "(\<And>x y. keeps R (f x y)) \<Longrightarrow> keeps R (case p of (x, y) \<Rightarrow> f x y)"
  by (cases p) simp

text \<open>An operation on shard \<open>K\<close> puts a handle, files, a lock or a job runtime of that shard.\<close>

locale srv_frame =
  fixes K :: shard_key and R :: "server_state \<Rightarrow> server_state \<Rightarrow> bool"
  assumes R_refl: "R st st"
    and R_trans: "R st1 st2 \<Longrightarrow> R st2 st3 \<Longrightarrow> R st1 st3"
    and R_handle: "R st (put_handle K h st)"
    and R_disk: "R st (put_disk (shard_dir K) df st)"
    and R_locked: "R st (st\<lparr>sv_locked := ls\<rparr>)"
    and R_receipt: "R st (st\<lparr>sv_shard_receipts := rs\<rparr>)"
    and R_runtime: "R st (put_runtime K rt st)"
    and R_job_files: "R st (put_job_files (job_runtime_dir K) fs st)"
    and R_counter: "R st (st\<lparr>sv_next_request_id := n\<rparr>)"
begin

lemma keeps_sbind [srv_keeps]:
  assumes "keeps R m" and "\<And>x. keeps R (f x)"
  shows "keeps R (sbind m f)"
proof (rule keepsI)
  fix st
  obtain r st1 where m: "m st = (r, st1)" by (cases "m st")
  then have "R st st1" by (rule keepsD [OF assms(1)])
  then show "R st (snd (sbind m f st))"
    using assms(2) m by (cases r) (auto simp: sbind_def keeps_def intro: R_trans)
qed

lemma keeps_pure [srv_keeps]: "keeps R (sreturn x)" "keeps R (slift r)" "keeps R (spanics p)"
  by (auto simp: keeps_def sreturn_def slift_def spanics_def R_refl split: option.splits)

lemma keeps_on_shard [srv_keeps]: "keeps R (on_shard K f)"
  by (auto simp: keeps_def on_shard_def Let_def split: prod.splits intro: R_trans R_handle R_disk)

lemma keeps_clear [srv_keeps]: "keeps R (clear_lexical_cache K)"
  by (simp add: keeps_def clear_lexical_cache_def R_handle)

lemma keeps_eh_write [srv_keeps]: "keeps R (eh_write K f)"
  unfolding eh_write_def by (intro srv_keeps)

lemma keeps_eh_read [srv_keeps]: "keeps R (eh_read K f)"
  by (simp add: keeps_def eh_read_def slift_def R_refl)

lemma keeps_query [srv_keeps]: "keeps R (eh_query_as S env K actor query)"
  by (auto simp: keeps_def eh_query_as_def Let_def split: prod.splits intro: R_handle)

lemma keeps_engine_ops [srv_keeps]:
  "keeps R (eh_apply_schema S env K schema receipt)" "keeps R (eh_insert S env K input receipt)"
  "keeps R (eh_put S env K input receipt)" "keeps R (eh_put_batch S env K batch receipt)"
  "keeps R (eh_put_batch_with_write_timing S env K batch)" "keeps R (eh_patch S env K input receipt)"
  "keeps R (eh_delete S env K deletion receipt)" "keeps R (eh_record_receipt S env K r)" "keeps R (eh_compact S env K)"
  "keeps R (eh_get_as K actor get_request)" "keeps R (eh_scan_as S env K actor scan_request)"
  "keeps R (eh_inspect_manifest K)"
  unfolding eh_apply_schema_def eh_insert_def eh_put_def eh_put_batch_def eh_put_batch_with_write_timing_def eh_patch_def
    eh_delete_def eh_record_receipt_def eh_compact_def eh_get_as_def eh_scan_as_def eh_inspect_manifest_def
  by (intro srv_keeps)+

lemma keeps_open_job_runtime [srv_keeps]: "keeps R (open_job_runtime J env K)"
  by (auto simp: keeps_def open_job_runtime_def R_refl split: option.splits prod.splits sum.splits
      intro: R_trans R_runtime R_job_files)

lemma keeps_on_jobs [srv_keeps]: "keeps R (on_jobs J env K f)"
  unfolding on_jobs_def
  by (intro srv_keeps keepsI) (auto split: prod.splits intro: R_trans R_runtime R_job_files)

lemma keeps_job_ops [srv_keeps]: "keeps R (eh_jobs J env K)" "keeps R (jobs_value S J env K)"
    "keeps R (run_job_value S J env K target v)" "keeps R (lease_route S J env K v)" "keeps R (heartbeat_route S J env K v)"
    "keeps R (complete_route S J env K v)" "keeps R (fail_route S J env K v)"
  unfolding eh_jobs_def jobs_value_def run_job_value_def lease_route_def heartbeat_route_def complete_route_def fail_route_def Let_def
  by (intro srv_keeps)+

lemma keeps_values [srv_keeps]:
  "keeps R m \<Longrightarrow> keeps R (epoch_value m)" "keeps R m \<Longrightarrow> keeps R (deleted_value m)"
  "keeps R m \<Longrightarrow> keeps R (batch_value batch m)" "keeps R m' \<Longrightarrow> keeps R (answer S m')"
  "keeps R (get_value S K actor get_request)" "keeps R (scan_value S env K actor scan_request)"
  "keeps R (compact_value S env K)" "keeps R (query_response S env K actor query)"
  "keeps R (query_output_value S env K actor query)"
  unfolding epoch_value_def deleted_value_def batch_value_def answer_def get_value_def scan_value_def compact_value_def
    query_response_def query_output_value_def
  by (intro srv_keeps; assumption?)+

lemma keeps_explain [srv_keeps]:
  "keeps R (explain_value S env K actor query)" "keeps R (explain_response S env K actor query)"
  unfolding explain_value_def explain_response_def by (intro srv_keeps)+

lemma keeps_traceql [srv_keeps]: "keeps R (execute_traceql_command S J env K actor command payload)"
  unfolding execute_traceql_command_def by (intro srv_keeps)

lemma keeps_traceql_response [srv_keeps]: "keeps R (traceql_response S J env K actor query)"
  unfolding traceql_response_def by (intro srv_keeps)

lemma keeps_graphql_field [srv_keeps]: "keeps R (graphql_field_value S J env K actor request field)"
  unfolding graphql_field_value_def graphql_input_def by (intro srv_keeps)

lemma keeps_graphql [srv_keeps]: "keeps R (execute_native_graphql S J env K actor request)"
  unfolding execute_native_graphql_def by (intro srv_keeps)

lemma keeps_graphql_response [srv_keeps]: "keeps R (native_graphql_response S J env K actor request)"
proof (rule keepsI)
  fix st
  obtain r st1 where r: "execute_native_graphql S J env K actor request st = (r, st1)"
    by (cases "execute_native_graphql S J env K actor request st")
  then have "R st st1" by (rule keepsD [OF keeps_graphql])
  then show "R st (snd (native_graphql_response S J env K actor request st))"
    using r by (auto simp: native_graphql_response_def split: sum.splits srv_error.splits)
qed

lemma keeps_get_responses [srv_keeps]:
  "keeps R (ready_response S K)" "keeps R (graphql_schema_response S K)" "keeps R (health_response S K)"
  "keeps R (branches_response S K)" "keeps R (metrics_response S K)"
  unfolding ready_response_def graphql_schema_response_def health_response_def branches_response_def metrics_response_def
  by (intro srv_keeps)+

lemma keeps_get_route: "get_route S J env K path = Some m \<Longrightarrow> keeps R m"
  unfolding get_route_def by (auto simp: Let_def split: if_splits intro!: srv_keeps)

lemma keeps_batch_route [srv_keeps]: "keeps R (batch_route S env K receipt batch)"
  unfolding batch_route_def by (intro srv_keeps)

lemma keeps_write_route: "write_route S env K receipt path body = Some m \<Longrightarrow> keeps R m"
  unfolding write_route_def by (auto split: if_splits intro!: srv_keeps)

lemma keeps_post_route [srv_keeps]: "keeps R (post_route S J env K actor path body)"
  unfolding post_route_def by (intro srv_keeps)

lemma keeps_dispatch [srv_keeps]: "keeps R (dispatch S J env K actor receipt verb path body)"
  unfolding dispatch_def
  by (auto intro!: srv_keeps split: option.splits dest: keeps_get_route keeps_write_route)

lemma keeps_write_receipt [srv_keeps]: "keeps R (write_shard_receipt S key)"
  by (simp add: keeps_def write_shard_receipt_def R_receipt)

lemma keeps_open_shard [srv_keeps]: "path = shard_dir K \<Longrightarrow> keeps R (open_shard S env root_dir path)"
  by (auto simp: keeps_def open_shard_def Let_def R_refl split: prod.splits sum.splits intro: R_trans R_disk R_locked)

lemma keeps_for_actor: "actor_shard actor = K \<Longrightarrow> R st (snd (for_actor S env root_dir actor st))"
proof (cases "is_default_shard_key K \<or> sv_handles st K \<noteq> None")
  case True
  then show "actor_shard actor = K \<Longrightarrow> ?thesis" by (auto simp: for_actor_def Let_def R_refl)
next
  case False
  assume K: "actor_shard actor = K"
  have dir: "shard_path K = shard_dir K" using False by (simp add: shard_dir_def)
  have "keeps R (sbind (write_shard_receipt S K) (\<lambda>_. sbind (open_shard S env root_dir (shard_path K))
          (\<lambda>h st'. (Inr K, put_handle K h st'))))"
    by (intro srv_keeps dir keepsI) (simp add: R_handle)
  then show ?thesis using False by (simp add: for_actor_def K keeps_def)
qed

lemma keeps_request_id [srv_keeps]: "keeps R (request_id_of env request)"
  unfolding request_id_of_def by (intro srv_keeps) (simp add: keeps_def next_request_id_def R_counter)

end

section \<open>The actor and the key of a request\<close>

text \<open>The shard and the cache key of a request do not depend on its request id.\<close>

definition request_actor :: "srv_prims \<Rightarrow> string \<Rightarrow> actor_context option" where
  "request_actor S request = actor_context_from_request S request (request_body request) []"

definition request_shard :: "srv_prims \<Rightarrow> string \<Rightarrow> shard_key option" where
  "request_shard S request = map_option actor_shard (request_actor S request)"

definition request_cache_key :: "srv_prims \<Rightarrow> string \<Rightarrow> idempotency_cache_key option" where
  "request_cache_key S request =
     (case request_line_parts request of (verb, path) \<Rightarrow>
        Option.bind (request_actor S request) (request_idempotency_key request verb path))"

definition request_body_hash :: "srv_prims \<Rightarrow> string \<Rightarrow> string" where
  "request_body_hash S request = stable_body_hash (prims.truncate (sp_qry S)) (request_body request)"

lemma actor_with_id:
  "actor_context_from_request S request (request_body request) rid =
     map_option (\<lambda>a. a\<lparr>ac_request_id := unwrap_or rid (header_value request ''x-tracedb-request-id'')\<rparr>) (request_actor S request)"
  by (simp add: request_actor_def actor_context_from_request_def managed_request_def option.map_comp comp_def Let_def)

lemma request_id_irrelevant [simp]:
  "actor_shard (a\<lparr>ac_request_id := i\<rparr>) = actor_shard a"
  "request_idempotency_key request verb path (a\<lparr>ac_request_id := i\<rparr>) = request_idempotency_key request verb path a"
  by (simp_all add: actor_shard_def request_idempotency_key_def idempotency_key_new_def)

text \<open>What an authorised request does, once its actor is known.\<close>

definition serve_actor ::
    "srv_prims \<Rightarrow> job_prims \<Rightarrow> request_env \<Rightarrow> string \<Rightarrow> string \<Rightarrow> actor_context \<Rightarrow> string srv" where
  "serve_actor S J env root_dir request actor =
     sbind (for_actor S env root_dir actor) (\<lambda>key st.
     case Option.bind (request_cache_key S request) (sv_idempotency st) of
       Some entry \<Rightarrow> (Inr (cached_answer S entry (request_body_hash S request)), st)
     | None \<Rightarrow>
         sbind (dispatch S J env key actor
             (map_option (\<lambda>k. to_receipt k (request_body_hash S request)) (request_cache_key S request))
             (fst (request_line_parts request)) (snd (request_line_parts request)) (request_body request))
           (remember_answer S env key (request_cache_key S request) (fst (request_line_parts request))
             (snd (request_line_parts request)) (request_body_hash S request)) st)"

lemma serve_authorized_eq:
  "serve_authorized S J env root_dir request rid =
     sbind (spanics (actor_context_from_request S request (request_body request) rid)) (serve_actor S J env root_dir request)"
proof -
  obtain verb path where parts: "request_line_parts request = (verb, path)" by (cases "request_line_parts request")
  have key: "request_idempotency_key request verb path a = request_cache_key S request"
    if "actor_context_from_request S request (request_body request) rid = Some a" for a
    using that by (auto simp: actor_with_id request_cache_key_def parts)
  show ?thesis
  proof (cases "actor_context_from_request S request (request_body request) rid")
    case None
    then show ?thesis by (simp add: serve_authorized_def parts fun_eq_iff sbind_def spanics_def Let_def)
  next
    case (Some a)
    show ?thesis
      using key [OF Some] Some
      by (simp add: serve_authorized_def parts fun_eq_iff sbind_def [of "spanics _"] spanics_def serve_actor_def
          request_body_hash_def Let_def cong: option.case_cong)
  qed
qed

text \<open>The three outcomes of a request.\<close>

definition authorized :: "server_config \<Rightarrow> string \<Rightarrow> bool" where
  "authorized config request \<longleftrightarrow>
     is_public_engine_route (fst (request_line_parts request)) (snd (request_line_parts request)) \<or>
     authorizes_private_request config request"

lemma request_id_runs: "\<exists>rid n. request_id_of env request st = (Inr rid, st\<lparr>sv_next_request_id := n\<rparr>)"
proof (cases "header_value request ''x-request-id''")
  case None
  then show ?thesis by (auto simp: request_id_of_def next_request_id_def)
next
  case (Some rid)
  then show ?thesis by (auto simp: request_id_of_def sreturn_def intro!: exI [of _ "sv_next_request_id st"])
qed

lemma handle_request_text_cases:
  obtains (unauthorized) n where "\<not> authorized config request"
    and "handle_request_text S J env root_dir config request st =
      (Inr (resp_unauthorized S ''missing or invalid private engine token''), st\<lparr>sv_next_request_id := n\<rparr>)"
  | (panic) n where "authorized config request" and "request_actor S request = None"
    and "handle_request_text S J env root_dir config request st = (Inl SPanic, st\<lparr>sv_next_request_id := n\<rparr>)"
  | (served) n a i where "authorized config request" and "request_actor S request = Some a"
    and "handle_request_text S J env root_dir config request st =
      serve_actor S J env root_dir request (a\<lparr>ac_request_id := i\<rparr>) (st\<lparr>sv_next_request_id := n\<rparr>)"
proof -
  obtain verb path where parts: "request_line_parts request = (verb, path)" by (cases "request_line_parts request")
  obtain rid n where rid: "request_id_of env request st = (Inr rid, st\<lparr>sv_next_request_id := n\<rparr>)"
    using request_id_runs by blast
  have run: "handle_request_text S J env root_dir config request st =
      (if authorized config request then serve_authorized S J env root_dir request rid
       else sreturn (resp_unauthorized S ''missing or invalid private engine token'')) (st\<lparr>sv_next_request_id := n\<rparr>)"
    by (simp add: handle_request_text_def parts sbind_def rid authorized_def)
  show thesis
  proof (cases "authorized config request")
    case False
    then show thesis using run by (intro unauthorized) (simp_all add: sreturn_def)
  next
    case True
    show thesis
    proof (cases "request_actor S request")
      case None
      then show thesis using run True
        by (intro panic) (simp_all add: serve_authorized_eq actor_with_id sbind_def spanics_def)
    next
      case (Some a)
      show thesis
        by (rule served [OF True Some]) (use run True Some in \<open>simp add: serve_authorized_eq actor_with_id sbind_def spanics_def\<close>)
    qed
  qed
qed

text \<open>
  C35: Without the private token nothing happens. A request for a route other than the two public health
  checks whose token header is missing or different is answered with 401, before its body is read:
  no database, job or cached answer changes, and no shard is opened.
\<close>

theorem unauthorized_request_changes_nothing:
  assumes "request_line_parts request = (verb, path)" and "\<not> is_public_engine_route verb path"
    and "sc_internal_token config = Some token" and "header_value request ''x-tracedb-engine-token'' \<noteq> Some token"
  shows "\<exists>n. handle_request S J env root_dir config request st =
    (Some (resp_unauthorized S ''missing or invalid private engine token''), st\<lparr>sv_next_request_id := n\<rparr>)"
proof -
  have "\<not> authorized config request"
    using assms by (simp add: authorized_def authorizes_private_request_def)
  then show ?thesis
    by (cases rule: handle_request_text_cases [of config request S J env root_dir st]) (auto simp: handle_request_def)
qed

section \<open>Requests stay in their shard\<close>

text \<open>Everything that belongs to other shards is as before.\<close>

definition only_shard :: "shard_key \<Rightarrow> server_state \<Rightarrow> server_state \<Rightarrow> bool" where
  "only_shard key st st' \<longleftrightarrow>
     (\<forall>path. path \<noteq> shard_dir key \<longrightarrow> sv_disks st' path = sv_disks st path) \<and>
     (\<forall>k. k \<noteq> key \<longrightarrow> sv_handles st' k = sv_handles st k) \<and>
     (\<not> is_default_shard_key key \<longrightarrow> sv_root st' = sv_root st) \<and>
     (\<forall>k. k \<noteq> key \<longrightarrow> sv_runtimes st' k = sv_runtimes st k) \<and>
     (\<forall>path. path \<noteq> job_runtime_dir key \<longrightarrow> sv_job_files st' path = sv_job_files st path)"

text \<open>A relation that also ignores the cached answers holds over whole requests.\<close>

locale srv_request_frame = srv_frame +
  assumes R_cache: "R st (st\<lparr>sv_idempotency := c\<rparr>)"
begin

lemma keeps_remember [srv_keeps]: "keeps R (remember_answer S env K cache_key verb path body_hash response)"
proof -
  have "keeps R (idempotency_insert k entry)" for k entry
    by (simp add: keeps_def idempotency_insert_def R_cache)
  then show ?thesis unfolding remember_answer_def by (intro srv_keeps)
qed

lemma keeps_serve_actor:
  assumes "actor_shard actor = K"
  shows "keeps R (serve_actor S J env root_dir request actor)"
proof (rule keepsI)
  fix st
  obtain r st1 where r: "for_actor S env root_dir actor st = (r, st1)" by (cases "for_actor S env root_dir actor st")
  then have st1: "R st st1" using keeps_for_actor [OF assms, of st S env root_dir] by simp
  show "R st (snd (serve_actor S J env root_dir request actor st))"
  proof (cases r)
    case (Inl e)
    then show ?thesis using r st1 by (simp add: serve_actor_def sbind_def)
  next
    case (Inr key)
    with r have key: "key = K" using assms
      by (auto simp: for_actor_def Let_def sbind_def split: if_splits prod.splits sum.splits)
    have disp: "R st1 (snd (sbind (dispatch S J env K actor receipt verb path body)
        (remember_answer S env K cache_key verb path body_hash) st1))" for receipt verb path body cache_key body_hash
      using srv_keeps by (meson keeps_def keeps_dispatch keeps_remember keeps_sbind)
    show ?thesis using r st1 Inr disp
      by (auto simp: serve_actor_def sbind_def [of "for_actor _ _ _ _"] key split: option.splits intro: R_trans)
  qed
qed

lemma keeps_request:
  assumes "request_shard S request = Some K"
  shows "R st (snd (handle_request S J env root_dir config request st))"
proof (cases rule: handle_request_text_cases [of config request S J env root_dir st])
  case (served n a i)
  then have shard: "actor_shard (a\<lparr>ac_request_id := i\<rparr>) = K" using assms by (simp add: request_shard_def)
  obtain r st2 where r: "serve_actor S J env root_dir request (a\<lparr>ac_request_id := i\<rparr>) (st\<lparr>sv_next_request_id := n\<rparr>) = (r, st2)"
    by (cases "serve_actor S J env root_dir request (a\<lparr>ac_request_id := i\<rparr>) (st\<lparr>sv_next_request_id := n\<rparr>)")
  have "R st st2" by (rule R_trans [OF R_counter keepsD [OF keeps_serve_actor [OF shard] r]])
  then show ?thesis using served r by (auto simp: handle_request_def split: sum.splits srv_error.splits)
qed (simp_all add: handle_request_def R_counter)

end

interpretation shards: srv_request_frame key "only_shard key" for key
  by unfold_locales
     (auto simp: only_shard_def put_handle_def put_disk_def put_runtime_def put_job_files_def)


section \<open>Requests with an idempotency key\<close>

text \<open>The cache of answers and the opened shards stay; the dispatch does not touch the cache.\<close>

definition same_cache :: "server_state \<Rightarrow> server_state \<Rightarrow> bool" where
  "same_cache st st' \<longleftrightarrow> sv_idempotency st' = sv_idempotency st \<and>
     (\<forall>key. sv_handles st key \<noteq> None \<longrightarrow> sv_handles st' key \<noteq> None)"

interpretation cached: srv_frame K same_cache for K
  by unfold_locales
     (auto simp: same_cache_def put_handle_def put_disk_def put_runtime_def put_job_files_def)

text \<open>Over whole requests the cache only grows.\<close>

definition cache_grows :: "server_state \<Rightarrow> server_state \<Rightarrow> bool" where
  "cache_grows st st' \<longleftrightarrow>
     (\<forall>k entry. sv_idempotency st k = Some entry \<longrightarrow> sv_idempotency st' k = Some entry) \<and>
     (\<forall>key. sv_handles st key \<noteq> None \<longrightarrow> sv_handles st' key \<noteq> None)"

lemma cache_grows_trans: "cache_grows st1 st2 \<Longrightarrow> cache_grows st2 st3 \<Longrightarrow> cache_grows st1 st3"
  by (simp add: cache_grows_def)

lemma same_cache_grows: "same_cache st st' \<Longrightarrow> cache_grows st st'"
  by (simp add: same_cache_def cache_grows_def)

definition ready_shard :: "shard_key \<Rightarrow> server_state \<Rightarrow> bool" where
  "ready_shard key st \<longleftrightarrow> is_default_shard_key key \<or> sv_handles st key \<noteq> None"

lemma for_actor_ready:
  "for_actor S env root_dir actor st = (Inr key, st') \<Longrightarrow> key = actor_shard actor \<and> ready_shard key st' \<and> same_cache st st'"
  using cached.keeps_for_actor [of actor "actor_shard actor" st S env root_dir]
  by (auto simp: for_actor_def ready_shard_def put_handle_def Let_def sbind_def split: if_splits prod.splits sum.splits)

lemma ready_for_actor: "ready_shard (actor_shard actor) st \<Longrightarrow> for_actor S env root_dir actor st = (Inr (actor_shard actor), st)"
  by (auto simp: for_actor_def ready_shard_def Let_def)

lemma ready_grows: "ready_shard key st \<Longrightarrow> cache_grows st st' \<Longrightarrow> ready_shard key st'"
  by (auto simp: ready_shard_def cache_grows_def)

text \<open>What remembering an answer does to the cache.\<close>

lemma remember_answer_cache:
  assumes "remember_answer S env key cache_key verb path body_hash response st = (r, st')"
    and "\<forall>k. cache_key = Some k \<longrightarrow> sv_idempotency st k = None"
  shows "cache_grows st st'"
    and "r = Inr response' \<Longrightarrow> response' = response \<and>
      (\<forall>k. cache_key = Some k \<and> starts_with response ''HTTP/1.1 200 OK'' \<longrightarrow>
         sv_idempotency st' k = Some \<lparr>ie_body_hash = body_hash, ie_response = response\<rparr>)"
proof -
  have rec: "same_cache st st1" if "eh_record_receipt S env key receipt st = (q, st1)" for receipt q st1
    using cached.keeps_engine_ops(8) that by (rule keepsD)
  show "cache_grows st st'"
    using assms rec by (fastforce simp: remember_answer_def sbind_def sreturn_def idempotency_insert_def cache_grows_def same_cache_def
        split: option.splits if_splits prod.splits sum.splits)
  show "response' = response \<and>
      (\<forall>k. cache_key = Some k \<and> starts_with response ''HTTP/1.1 200 OK'' \<longrightarrow>
         sv_idempotency st' k = Some \<lparr>ie_body_hash = body_hash, ie_response = response\<rparr>)" if "r = Inr response'"
    using assms(1) that by (auto simp: remember_answer_def sbind_def sreturn_def idempotency_insert_def
        split: option.splits if_splits prod.splits sum.splits)
qed

lemma conflict_not_ok: "\<not> starts_with (resp_conflict S m) ''HTTP/1.1 200 OK''"
  and unauthorized_not_ok: "\<not> starts_with (resp_unauthorized S m) ''HTTP/1.1 200 OK''"
  and bad_request_not_ok: "\<not> starts_with (resp_bad_request S m) ''HTTP/1.1 200 OK''"
  by (simp_all add: starts_with_def resp_conflict_def resp_unauthorized_def resp_bad_request_def http_json_response_def Let_def)

text \<open>A served request: the cache grows, and a successful answer is in it.\<close>

lemma serve_actor_cache:
  assumes "serve_actor S J env root_dir request actor st = (r, st')"
  shows "cache_grows st st'"
    and "r = Inr response \<Longrightarrow> starts_with response ''HTTP/1.1 200 OK'' \<Longrightarrow> request_cache_key S request = Some k \<Longrightarrow>
      ready_shard (actor_shard actor) st' \<and>
      sv_idempotency st' k = Some \<lparr>ie_body_hash = request_body_hash S request, ie_response = response\<rparr>"
proof -
  obtain q st1 where fa: "for_actor S env root_dir actor st = (q, st1)" by (cases "for_actor S env root_dir actor st")
  have grow1: "cache_grows st st1"
    using cached.keeps_for_actor [OF refl, of st S env root_dir actor] fa by (simp add: same_cache_grows)
  have "cache_grows st st' \<and> (r = Inr response \<and> starts_with response ''HTTP/1.1 200 OK'' \<and> request_cache_key S request = Some k
      \<longrightarrow> ready_shard (actor_shard actor) st' \<and>
        sv_idempotency st' k = Some \<lparr>ie_body_hash = request_body_hash S request, ie_response = response\<rparr>)"
  proof (cases q)
    case (Inl e)
    then show ?thesis using assms fa grow1 by (auto simp: serve_actor_def sbind_def)
  next
    case (Inr key)
    have ready: "key = actor_shard actor" "ready_shard key st1" "same_cache st st1"
      using for_actor_ready fa Inr by blast+
    show ?thesis
    proof (cases "Option.bind (request_cache_key S request) (sv_idempotency st1)")
      case (Some entry)
      then have "r = Inr (cached_answer S entry (request_body_hash S request))" "st' = st1"
        using assms fa Inr by (simp_all add: serve_actor_def sbind_def)
      then show ?thesis using Some grow1 ready conflict_not_ok
        by (cases entry) (auto simp: cached_answer_def Option.bind_eq_Some_conv split: if_splits)
    next
      case None
      let ?hash = "request_body_hash S request" and ?key = "request_cache_key S request"
      let ?verb = "fst (request_line_parts request)" and ?path = "snd (request_line_parts request)"
      obtain p st2 where d: "dispatch S J env key actor (map_option (\<lambda>k. to_receipt k ?hash) ?key) ?verb ?path
          (request_body request) st1 = (p, st2)" by (rule prod.exhaust)
      have same: "same_cache st1 st2" by (rule keepsD [OF cached.keeps_dispatch d])
      have run: "(case p of Inl e \<Rightarrow> (Inl e, st2) | Inr resp \<Rightarrow> remember_answer S env key ?key ?verb ?path ?hash resp st2) = (r, st')"
        using assms fa Inr None d by (simp add: serve_actor_def sbind_def split: sum.splits)
      show ?thesis
      proof (cases p)
        case (Inl e)
        then show ?thesis using run same_cache_grows [OF same] cache_grows_trans [OF grow1] by auto
      next
        case (Inr resp)
        have none: "\<forall>k. ?key = Some k \<longrightarrow> sv_idempotency st2 k = None"
          using None same by (auto simp: same_cache_def)
        from run Inr have rem: "remember_answer S env key ?key ?verb ?path ?hash resp st2 = (r, st')" by simp
        have grows: "cache_grows st1 st'"
          by (rule cache_grows_trans [OF same_cache_grows [OF same] remember_answer_cache(1) [OF rem none]])
        show ?thesis
          using remember_answer_cache(2) [OF rem none] ready_grows [OF ready(2) grows] ready(1)
            cache_grows_trans [OF grow1 grows] by auto
      qed
    qed
  qed
  then show "cache_grows st st'" and "r = Inr response \<Longrightarrow> starts_with response ''HTTP/1.1 200 OK'' \<Longrightarrow>
      request_cache_key S request = Some k \<Longrightarrow> ready_shard (actor_shard actor) st' \<and>
      sv_idempotency st' k = Some \<lparr>ie_body_hash = request_body_hash S request, ie_response = response\<rparr>" by blast+
qed

lemma request_cache_grows: "cache_grows st (snd (handle_request S J env root_dir config request st))"
proof (cases rule: handle_request_text_cases [of config request S J env root_dir st])
  case (served n a i)
  obtain r st2 where r: "serve_actor S J env root_dir request (a\<lparr>ac_request_id := i\<rparr>) (st\<lparr>sv_next_request_id := n\<rparr>) = (r, st2)"
    by (rule prod.exhaust)
  have "cache_grows st st2" using serve_actor_cache(1) [OF r] by (simp add: cache_grows_def)
  then show ?thesis using served r by (auto simp: handle_request_def split: sum.splits srv_error.splits)
qed (simp_all add: handle_request_def cache_grows_def)

text \<open>States that a server goes through: any number of requests of any clients.\<close>

inductive served :: "srv_prims \<Rightarrow> job_prims \<Rightarrow> string \<Rightarrow> server_config \<Rightarrow> server_state \<Rightarrow> server_state \<Rightarrow> bool"
  for S J root_dir config st where
  served_nothing: "served S J root_dir config st st"
| served_request: "served S J root_dir config st st1 \<Longrightarrow>
    handle_request S J env root_dir config request st1 = (out, st2) \<Longrightarrow> served S J root_dir config st st2"

lemma served_cache_grows: "served S J root_dir config st st' \<Longrightarrow> cache_grows st st'"
proof (induction rule: served.induct)
  case served_nothing
  then show ?case by (simp add: cache_grows_def)
next
  case (served_request st1 env request out st2)
  then show ?case using request_cache_grows [of st1 S J env root_dir config request]
    by (auto intro: cache_grows_trans)
qed

text \<open>The shard of a request is part of its cache key.\<close>

definition key_shard :: "idempotency_cache_key \<Rightarrow> shard_key" where
  "key_shard k = \<lparr>sk_database_id = ik_database_id k, sk_branch_id = ik_branch_id k\<rparr>"

lemma cache_key_shard:
  "request_cache_key S request = Some k \<Longrightarrow> \<exists>a. request_actor S request = Some a \<and> actor_shard a = key_shard k"
  by (auto simp: request_cache_key_def request_idempotency_key_def idempotency_key_new_def actor_shard_def key_shard_def
      Option.bind_eq_Some_conv split: prod.splits)

lemma first_answer_cached:
  assumes "handle_request S J env root_dir config request st = (Some response, st1)"
    and "starts_with response ''HTTP/1.1 200 OK''" and "request_cache_key S request = Some k"
  shows "ready_shard (key_shard k) st1"
    and "sv_idempotency st1 k = Some \<lparr>ie_body_hash = request_body_hash S request, ie_response = response\<rparr>"
proof -
  obtain a where a: "request_actor S request = Some a" "actor_shard a = key_shard k"
    using cache_key_shard [OF assms(3)] by blast
  have "ready_shard (key_shard k) st1 \<and>
      sv_idempotency st1 k = Some \<lparr>ie_body_hash = request_body_hash S request, ie_response = response\<rparr>"
  proof (cases rule: handle_request_text_cases [of config request S J env root_dir st])
    case (served n a' i)
    obtain r st2 where r: "serve_actor S J env root_dir request (a'\<lparr>ac_request_id := i\<rparr>) (st\<lparr>sv_next_request_id := n\<rparr>) = (r, st2)"
      by (rule prod.exhaust)
    with served assms(1,2) have "r = Inr response" "st2 = st1"
      by (auto simp: handle_request_def bad_request_not_ok split: sum.splits srv_error.splits)
    then show ?thesis using serve_actor_cache(2) [OF r _ assms(2,3)] a served(2) by simp
  qed (use assms a in \<open>auto simp: handle_request_def unauthorized_not_ok\<close>)
  then show "ready_shard (key_shard k) st1"
    and "sv_idempotency st1 k = Some \<lparr>ie_body_hash = request_body_hash S request, ie_response = response\<rparr>" by simp_all
qed

lemma cached_request_answer:
  assumes "sv_idempotency st k = Some entry" and "ready_shard (key_shard k) st"
    and "request_cache_key S request = Some k" and "authorizes_private_request config request"
  shows "\<exists>n. handle_request S J env root_dir config request st =
    (Some (cached_answer S entry (request_body_hash S request)), st\<lparr>sv_next_request_id := n\<rparr>)"
proof (cases rule: handle_request_text_cases [of config request S J env root_dir st])
  case (served n a i)
  obtain a' where "request_actor S request = Some a'" "actor_shard a' = key_shard k"
    using cache_key_shard [OF assms(3)] by blast
  then have shard: "actor_shard (a\<lparr>ac_request_id := i\<rparr>) = key_shard k" using served by simp
  have "ready_shard (key_shard k) (st\<lparr>sv_next_request_id := n\<rparr>)" using assms(2) by (simp add: ready_shard_def)
  then have "serve_actor S J env root_dir request (a\<lparr>ac_request_id := i\<rparr>) (st\<lparr>sv_next_request_id := n\<rparr>) =
      (Inr (cached_answer S entry (request_body_hash S request)), st\<lparr>sv_next_request_id := n\<rparr>)"
    using ready_for_actor [of "a\<lparr>ac_request_id := i\<rparr>" _ S env root_dir] shard assms(1,3)
    by (simp add: serve_actor_def sbind_def [of "for_actor _ _ _ _"])
  then show ?thesis using served by (auto simp: handle_request_def)
qed (use assms cache_key_shard [OF assms(3)] in \<open>auto simp: authorized_def\<close>)

text \<open>
  C33: A request with an idempotency key is executed once. Let a request with a key be answered with
  success, and let the server then serve any other requests. An authorised request with the same key
  (the same method, path, key, tenant, database, branch and token identity) changes nothing in the
  server: with the same body it gets the first answer byte for byte, with a body of another hash the
  answer 409.
\<close>

theorem retry_gets_first_answer:
  assumes "handle_request S J env root_dir config request st = (Some response, st1)"
    and "starts_with response ''HTTP/1.1 200 OK''" and "request_cache_key S request = Some k"
    and "served S J root_dir config st1 st2"
    and "request_cache_key S retry = Some k" and "authorizes_private_request config retry"
  shows "\<exists>n. handle_request S J env' root_dir config retry st2 =
    (Some (if request_body_hash S retry = request_body_hash S request then response
           else resp_conflict S ''idempotency key reused with different request body''), st2\<lparr>sv_next_request_id := n\<rparr>)"
proof -
  note first = first_answer_cached [OF assms(1-3)] and grows = served_cache_grows [OF assms(4)]
  have "sv_idempotency st2 k = Some \<lparr>ie_body_hash = request_body_hash S request, ie_response = response\<rparr>"
    using first(2) grows by (simp add: cache_grows_def)
  from cached_request_answer [OF this ready_grows [OF first(1) grows] assms(5,6), of J env' root_dir]
  show ?thesis by (auto simp: cached_answer_def)
qed

end
