(* ===== verification/Server_Durability.thy ===== *)
theory Server_Durability
  imports Server_Props Engine_Runs
begin

text \<open>
  The idempotency cache and the durable receipts of the engine: a write commits its receipt together
  with its change, and the answer in that receipt is the answer that the client got, so that a server
  that is started again answers a retry as the first server would have.
\<close>

section \<open>Receipts of a write\<close>

text \<open>A plan whose installation appends its receipt, with the answer for the epoch of the commit.\<close>

definition appends_receipt ::
    "eng_prims \<Rightarrow> (trace_db \<Rightarrow> (commit_record \<times> (trace_db \<Rightarrow> trace_db)) result) \<Rightarrow> idempotency_receipt option \<Rightarrow>
     (epoch \<Rightarrow> json) \<Rightarrow> bool" where
  "appends_receipt P plan receipt response \<longleftrightarrow>
     (\<forall>db c install db'. plan db = Inr (c, install) \<longrightarrow>
        td_receipts (install db') = td_receipts db' @ idempotency_receipts_for_response P receipt (response (cr_epoch c)))"

lemma write_plans_append_receipt:
  "appends_receipt P (apply_schema_plan P s receipt) receipt epoch_response"
  "appends_receipt P (mutation_plan P event input receipt) receipt epoch_response"
  "appends_receipt P (put_plan P input receipt) receipt epoch_response"
  "appends_receipt P (put_batch_plan P records receipt) receipt (\<lambda>e. batch_response e (length records))"
  "appends_receipt P (delete_plan P deletion receipt) receipt delete_response"
  by (auto simp: appends_receipt_def apply_schema_plan_def mutation_plan_def put_plan_def put_batch_plan_def delete_plan_def
      rbind_eq_Inr Let_def install_delta_def record_commit_for_db_def commit_for_db_def commit_for_database_def commit_empty_def)

lemma refresh_receipts: "refresh_from_disk_if_stale P (db, d) = (r, (db1, d1)) \<Longrightarrow> td_receipts db1 = td_receipts db"
  by (auto simp: refresh_from_disk_if_stale_def ebind_def ereads_def eupdates_def result_simps
      split: sum.splits prod.splits if_splits)

lemma append_receipts: "append_to_wal P nonce c (db, d) = (r, (db1, d1)) \<Longrightarrow> td_receipts db1 = td_receipts db"
  by (auto simp: append_to_wal_def eupdates_def result_simps split: sum.splits prod.splits)

lemma bump_receipts: "bump_manifest P e (db, d) = (r, (db1, d1)) \<Longrightarrow> td_receipts db1 = td_receipts db"
  by (auto simp: bump_manifest_def ebind_def emodify_def eupdates_def result_simps Let_def split: sum.splits prod.splits)

lemma commit_planned_steps:
  assumes "commit_planned P nonce plan (db, d) = (Inr e, (db', d'))"
  obtains db1 d1 c install db2 d2 where "refresh_from_disk_if_stale P (db, d) = (Inr (), (db1, d1))"
    and "plan db1 = Inr (c, install)" and "append_to_wal P nonce c (db1, d1) = (Inr (), (db2, d2))"
    and "bump_manifest P (cr_epoch c) (install db2, d2) = (Inr (), (db', d'))" and "e = cr_epoch c"
proof -
  obtain r db1 d1 where r: "refresh_from_disk_if_stale P (db, d) = (r, (db1, d1))" by (metis prod.exhaust)
  then have r': "r = Inr ()" using assms by (cases r) (auto simp: commit_planned_def ebind_def)
  show thesis
  proof (cases "plan db1")
    case (Inl e)
    then show thesis using assms r r' by (simp add: commit_planned_def ebind_def ereads_def)
  next
    case (Inr ci)
    obtain c install where ci: "ci = (c, install)" by (cases ci)
    have "ebind (append_to_wal P nonce c) (\<lambda>_. ebind (emodify (\<lambda>(db, d). (install db, d)))
        (\<lambda>_. ebind (bump_manifest P (cr_epoch c)) (\<lambda>_. ereturn (cr_epoch c)))) (db1, d1) = (Inr e, (db', d'))"
      using assms r r' Inr ci by (simp add: commit_planned_def ebind_def [of "refresh_from_disk_if_stale P"] ebind_def [of "ereads _"] ereads_def)
    then show thesis using that r r' Inr ci by (auto simp: ebind_Inr emodify_def ereturn_def)
  qed
qed

lemma commit_appends_receipt:
  assumes "appends_receipt P plan receipt response" and "commit_planned P nonce plan (db, d) = (Inr e, (db', d'))"
  shows "td_receipts db' = td_receipts db @ idempotency_receipts_for_response P receipt (response e)"
  by (rule commit_planned_steps [OF assms(2)])
     (use assms(1) in \<open>auto simp: appends_receipt_def dest!: refresh_receipts append_receipts bump_receipts\<close>)

section \<open>Answers of the write routes\<close>

abbreviation root_receipts :: "server_state \<Rightarrow> idempotency_receipt list" where
  "root_receipts st \<equiv> td_receipts (eh_db (sv_root st))"

lemma resp_ok_eq: "resp_ok S v = http_ok_json (srv_eng S) v"
  by (simp add: resp_ok_def ok_body_with_headers_def http_ok_json_def Let_def eng_prims.defs)

lemma response_values:
  "json_object [(''epoch'', epoch_json e)] = epoch_response e"
  "json_object [(''epoch'', epoch_json e), (''record_count'', json_nat n)] = batch_response e n"
  "json_object [(''deleted'', JBool True), (''epoch'', epoch_json e)] = delete_response e"
  by (simp_all add: json_object_def epoch_response_def batch_response_def delete_response_def epoch_json_def json_nat_def)

lemma eh_write_receipt:
  assumes "is_default_shard_key key" and "appends_receipt P plan receipt response"
    and "eh_write key (on_engine (commit_planned P nonce plan)) st = (Inr e, st')"
  shows "root_receipts st' = root_receipts st @ idempotency_receipts_for_response P receipt (response e)"
proof -
  obtain d files where d: "disk_at st (shard_dir key) = (d, files)" by (rule prod.exhaust)
  obtain r db' d' where run: "commit_planned P nonce plan (eh_db (sv_root st), d) = (r, (db', d'))" by (metis prod.exhaust)
  with assms(1,3) d have "r = Inr e" "root_receipts st' = td_receipts db'"
    by (auto simp: eh_write_def sbind_def on_shard_def handle_at_def put_handle_def put_disk_def on_engine_def Let_def
        clear_lexical_cache_def sreturn_def map_error_def split: sum.splits)
  with commit_appends_receipt [OF assms(2)] run show ?thesis by simp
qed

text \<open>A write without timings that answers has left its answer in the receipts.\<close>

definition untimed_batch :: "srv_prims \<Rightarrow> string \<Rightarrow> string \<Rightarrow> bool" where
  "untimed_batch S path body \<longleftrightarrow>
     path = ''/v1/records/put-batch'' \<longrightarrow>
       (case from_str (sp_batch S) body of Inl _ \<Rightarrow> True | Inr batch \<Rightarrow> \<not> pb_include_write_timing batch)"

lemma write_route_receipt:
  assumes "write_route S env key (Some receipt) path body = Some m" and "is_default_shard_key key"
    and "untimed_batch S path body" and "answer S m st = (Inr response, st')"
  shows "root_receipts st' = root_receipts st @ [receipt\<lparr>ir_response := response\<rparr>]"
proof -
  note w = eh_write_receipt [OF assms(2), of "srv_eng S" _ "Some receipt"]
  note plans = write_plans_append_receipt
  show ?thesis
    using assms(1,3,4)
    by (auto simp: write_route_def answer_def sbind_def slift_def map_error_def sreturn_def epoch_value_def deleted_value_def
        batch_value_def batch_route_def untimed_batch_def eh_apply_schema_def eh_insert_def eh_put_def eh_put_batch_def eh_patch_def
        eh_delete_def apply_schema_with_idempotency_receipt_def insert_with_idempotency_receipt_def
        put_with_idempotency_receipt_def put_batch_with_idempotency_receipt_def patch_with_idempotency_receipt_def
        delete_with_idempotency_receipt_def response_values resp_ok_eq idempotency_receipts_for_response_def
        dest!: w [OF plans(1)] w [OF plans(2)] w [OF plans(3)] w [OF plans(4)] w [OF plans(5)]
        split: if_splits sum.splits prod.splits)
qed

text \<open>The receipt that is recorded after the answer.\<close>

lemma record_receipt_root:
  assumes "is_default_shard_key key" and "eh_record_receipt S env key r st = (Inr e, st')"
  shows "root_receipts st' = root_receipts st @ [r]"
proof -
  obtain d files where d: "disk_at st (shard_dir key) = (d, files)" by (rule prod.exhaust)
  obtain q db' d' where run: "commit_planned (srv_eng S) (rv_receipt_nonce env) (receipt_plan r) (eh_db (sv_root st), d) = (q, (db', d'))"
    by (metis prod.exhaust)
  with assms d have "q = Inr e" "root_receipts st' = td_receipts db'"
    by (auto simp: eh_record_receipt_def record_idempotency_receipt_def on_shard_def handle_at_def put_handle_def put_disk_def
        on_engine_def Let_def map_error_def split: sum.splits)
  moreover have "td_receipts db' = root_receipts st @ [r]" if "q = Inr e"
    by (rule commit_planned_steps [OF run [unfolded that]])
       (auto simp: receipt_plan_def Let_def dest!: refresh_receipts append_receipts bump_receipts)
  ultimately show ?thesis by simp
qed

section \<open>The first execution of a request\<close>

definition durable_request :: "srv_prims \<Rightarrow> string \<Rightarrow> bool" where
  "durable_request S request \<longleftrightarrow> untimed_batch S (snd (request_line_parts request)) (request_body request)"

abbreviation answered_receipt :: "srv_prims \<Rightarrow> string \<Rightarrow> idempotency_cache_key \<Rightarrow> string \<Rightarrow> idempotency_receipt" where
  "answered_receipt S request k response \<equiv> (to_receipt k (request_body_hash S request))\<lparr>ir_response := response\<rparr>"

lemma idempotent_routes:
  "supports_http_idempotency verb path \<Longrightarrow> \<not> records_receipt_after_response verb path \<Longrightarrow>
     verb = ''POST'' \<and> write_route S env key receipt path body \<noteq> None"
  by (auto simp: supports_http_idempotency_def records_receipt_after_response_def write_route_def)

lemma cache_key_route:
  "request_cache_key S request = Some k \<Longrightarrow>
     supports_http_idempotency (fst (request_line_parts request)) (snd (request_line_parts request))"
  by (auto simp: request_cache_key_def request_idempotency_key_def option_filter_def Option.bind_eq_Some_conv
      split: prod.splits option.splits if_splits)

lemma executed_receipt:
  assumes "handle_request S J env root_dir config request st = (Some response, st1)"
    and "starts_with response ''HTTP/1.1 200 OK''" and "request_cache_key S request = Some k"
    and "sv_idempotency st k = None" and "is_default_shard_key (key_shard k)" and "durable_request S request"
  shows "\<exists>rs. root_receipts st1 = rs @ [answered_receipt S request k response]"
proof -
  obtain a where a: "request_actor S request = Some a" "actor_shard a = key_shard k"
    using cache_key_shard [OF assms(3)] by blast
  obtain verb path where parts: "request_line_parts request = (verb, path)" by (rule prod.exhaust)
  let ?hash = "request_body_hash S request"
  show ?thesis
  proof (cases rule: handle_request_text_cases [of config request S J env root_dir st])
    case (served n a' i)
    let ?st = "st\<lparr>sv_next_request_id := n\<rparr>" and ?a = "a'\<lparr>ac_request_id := i\<rparr>"
    have shard: "actor_shard ?a = key_shard k" using served a by simp
    have fa: "for_actor S env root_dir ?a ?st = (Inr (key_shard k), ?st)"
      using ready_for_actor [of ?a ?st S env root_dir] shard assms(5) by (simp add: ready_shard_def)
    obtain p st2 where d: "dispatch S J env (key_shard k) ?a (Some (to_receipt k ?hash)) verb path (request_body request) ?st = (p, st2)"
      by (rule prod.exhaust)
    have run: "serve_actor S J env root_dir request ?a ?st =
        (case p of Inl e \<Rightarrow> (Inl e, st2) | Inr resp \<Rightarrow> remember_answer S env (key_shard k) (Some k) verb path ?hash resp st2)"
      using fa assms(3,4) d by (simp add: serve_actor_def sbind_def parts split: sum.splits)
    with served(3) assms(1,2) obtain resp where p: "p = Inr resp"
      and rem: "remember_answer S env (key_shard k) (Some k) verb path ?hash resp st2 = (Inr response, st1)"
      by (auto simp: handle_request_def bad_request_not_ok split: sum.splits srv_error.splits prod.splits)
    have resp: "resp = response"
      using rem by (auto simp: remember_answer_def sbind_def sreturn_def idempotency_insert_def
          split: if_splits prod.splits sum.splits)
    show ?thesis
    proof (cases "records_receipt_after_response verb path")
      case True
      then obtain e st3 where "eh_record_receipt S env (key_shard k) (answered_receipt S request k response) st2 = (Inr e, st3)"
        and "sv_root st1 = sv_root st3"
        using rem assms(2) resp by (auto simp: remember_answer_def sbind_def sreturn_def idempotency_insert_def
            split: prod.splits sum.splits)
      with record_receipt_root [OF assms(5)] show ?thesis by auto
    next
      case False
      then have root: "sv_root st1 = sv_root st2"
        using rem assms(2) resp by (auto simp: remember_answer_def sbind_def sreturn_def idempotency_insert_def)
      from idempotent_routes [OF _ False] cache_key_route [OF assms(3)] parts obtain m where
        m: "verb = ''POST''" "write_route S env (key_shard k) (Some (to_receipt k ?hash)) path (request_body request) = Some m"
        by fastforce
      with d p resp have "answer S m ?st = (Inr response, st2)" by (simp add: dispatch_def)
      from write_route_receipt [OF m(2) assms(5) _ this] assms(6) parts root show ?thesis
        by (auto simp: durable_request_def)
    qed
  qed (use assms(1,2) a in \<open>auto simp: handle_request_def unauthorized_not_ok\<close>)
qed

section \<open>Restart\<close>

lemma cache_from_last_receipt: "cache_from_receipts (rs @ [r]) (key_from_receipt r) = Some (entry_from_receipt r)"
  by (simp add: cache_from_receipts_def)

lemma disk_at_simps [simp]:
  "disk_at (put_disk path df st) path = df" "disk_at (st\<lparr>sv_locked := ls\<rparr>) = disk_at st"
  by (simp_all add: disk_at_def put_disk_def unwrap_or_def fun_eq_iff)

lemma restart_reads_receipts:
  assumes "reached (srv_eng S) (rv_master_key_b64 env1) options_from_env root_dir (eh_db (sv_root st), fst (disk_at st []))"
    and "eng_prims_ok (srv_eng S)" and "options_master_key (srv_eng S) (rv_master_key_b64 env1) options_from_env = Inr mk"
    and "rv_master_key_b64 env2 = rv_master_key_b64 env1"
  shows "\<exists>st2. restart_server S env1 env2 root_dir st = (Inr (), st2) \<and> sv_idempotency st2 = cache_from_receipts (root_receipts st)"
proof -
  obtain d files where d: "disk_at st [] = (d, files)" by (rule prod.exhaust)
  from reached_inv [OF assms(1-3)] have inv: "engine_inv (srv_eng S) options_from_env mk (eh_db (sv_root st), d)"
    "td_dir (eh_db (sv_root st)) = root_dir" using d by simp_all
  have reopen: "\<exists>db2. open_with_options (srv_eng S) (rv_master_key_b64 env1) dek nonce options_from_env root_dir d = (Inr db2, d) \<and>
      td_receipts db2 = root_receipts st" for dek nonce
    using inv_reopens [OF inv(1) assms(3), of dek nonce] inv(2) by (auto simp: same_answers_def)
  obtain db1 where db1: "open_with_options (srv_eng S) (rv_master_key_b64 env1) (rv_dek env1) (rv_open_nonce env1)
      options_from_env root_dir d = (Inr db1, d)" "td_receipts db1 = root_receipts st" using reopen by blast
  obtain db2 where db2: "open_with_options (srv_eng S) (rv_master_key_b64 env1) (rv_dek env2) (rv_open_nonce env2)
      options_from_env root_dir d = (Inr db2, d)" using reopen by blast
  let ?st = "stopped_server (sv_root st) (sv_disks st) (sv_shard_receipts st) (sv_job_files st)"
  have at: "disk_at ?st [] = (d, files)" "sv_locked ?st = []" using d by (simp_all add: disk_at_def stopped_server_def)
  have "\<exists>st1. open_shard S env1 root_dir [] ?st = (Inr \<lparr>eh_db = db1, eh_cache = cache_default\<rparr>, st1) \<and> disk_at st1 [] = (d, files)"
    using db1 at by (simp add: open_shard_def dir_text_def)
  then obtain st1 where st1: "open_shard S env1 root_dir [] ?st = (Inr \<lparr>eh_db = db1, eh_cache = cache_default\<rparr>, st1)"
    "disk_at st1 [] = (d, files)" by blast
  have "\<exists>st2. open_shard S env2 root_dir [] (st1\<lparr>sv_locked := []\<rparr>) = (Inr \<lparr>eh_db = db2, eh_cache = cache_default\<rparr>, st2)"
    using db2 st1(2) assms(4) by (simp add: open_shard_def dir_text_def)
  with st1 db1(2) show ?thesis by (auto simp: restart_server_def open_server_state_def sbind_def)
qed


end
