(* ===== verification/Server_Demo.thy ===== *)
theory Server_Demo
  imports Server_Durability
begin

text \<open>
  Concrete requests for the theorems on the server: a server on the directory \<open>/db\<close> with parameters that
  accept one GraphQL request, whose receipt the engine of \<open>Engine_Props\<close> can commit.
\<close>

section \<open>Parameters\<close>

definition no_decoder :: "'a decoder" where
  "no_decoder = \<lparr>from_str = \<lambda>_. Inl ''unsupported'', from_value = \<lambda>_. Inl ''unsupported''\<rparr>"

definition srv_qry :: qry_prims where
  "srv_qry = idx_prims.extend
     (seg_prims.extend
       (cur_prims.extend
         (eng_prims.extend demo_eng (cur_prims.fields (\<lambda>_ _. []) (\<lambda>bs. bs) Some (\<lambda>_. Inl ''unsupported'') (\<lambda>_. Inl ''unsupported'')))
         (seg_prims.fields (\<lambda>_. Inl ''unsupported'') Inr Inr (\<lambda>_. Inl ''unsupported'') (\<lambda>_. Inl ''unsupported'')))
       (idx_prims.fields (\<lambda>_. Inl ''unsupported'') (\<lambda>_. Inl ''unsupported'')))
     (qry_prims.fields (\<lambda>x. x) (\<lambda>_. None) (\<lambda>_. None))"

lemma srv_qry_simps [simp]:
  "eng_prims.truncate srv_qry = demo_eng" "json_text srv_qry v = []" "prims.truncate srv_qry = prims.truncate demo_prims"
  by (simp_all add: srv_qry_def demo_eng_def demo_prims_def prims.defs art_prims.defs wal_prims.defs eng_prims.defs cur_prims.defs
      seg_prims.defs idx_prims.defs qry_prims.defs)

definition srv_demo :: srv_prims where
  "srv_demo =
     \<lparr>sp_qry = srv_qry,
      sp_front = \<lparr>json_parse = \<lambda>_. Inl ''unsupported'', f32_vec_parse = \<lambda>_. Inl ''unsupported'', str_debug = \<lambda>s. s\<rparr>,
      sp_graphql_parse = \<lambda>_. Inl ''no operation'',
      sp_string = no_decoder, sp_schema = no_decoder, sp_input = no_decoder, sp_put = no_decoder, sp_batch = no_decoder,
      sp_patch = no_decoder, sp_delete = no_decoder, sp_get = no_decoder, sp_scan = no_decoder, sp_query = no_decoder,
      sp_traceql = no_decoder,
      sp_graphql = \<lparr>from_str = \<lambda>_. Inr \<lparr>gr_query = [], gr_variables = JNull, gr_operation_name = None\<rparr>,
        from_value = \<lambda>_. Inl ''unsupported''\<rparr>,
      sp_record_json = \<lambda>_. JNull, sp_scan_json = \<lambda>_. JNull, sp_rows_json = \<lambda>_. JNull, sp_output_json = \<lambda>_. JNull,
      sp_explain_json = \<lambda>_. JNull, sp_get_json = \<lambda>_. JNull, sp_job_json = \<lambda>_. JNull\<rparr>"

definition job_demo :: job_prims where
  "job_demo = \<lparr>jp_event_text = \<lambda>_. [], jp_event_parse = \<lambda>_. Inl ''unsupported'', jp_checkpoint_text = \<lambda>_ _ _. [],
     jp_checkpoint_parse = \<lambda>_. Inl ''unsupported''\<rparr>"

definition env_demo :: request_env where
  "env_demo =
     \<lparr>rv_process_id = 7, rv_now_ms = 0, rv_cursor = \<lparr>ce_signing_key_b64 = None, ce_ttl_secs = None, ce_now = 0\<rparr>,
      rv_master_key_b64 = None, rv_dek = zero32, rv_open_nonce = demo_nonce, rv_nonce = demo_nonce,
      rv_receipt_nonce = demo_nonce, rv_file_nonces = \<lambda>_. demo_nonce, rv_durations = \<lambda>_. ''0.000'',
      rv_write_timing = JNull, rv_job_open = ReplaceDone, rv_job_io = \<lparr>ji_append = AppendDone, ji_replace = ReplaceDone\<rparr>,
      rv_snapshot = \<lambda>_. Inr (), rv_restore = \<lambda>_ _. Inl (NotFound ''backup'')\<rparr>"

definition demo_server :: "trace_db \<Rightarrow> disk \<Rightarrow> server_state" where
  "demo_server db d =
     \<lparr>sv_root = \<lparr>eh_db = db, eh_cache = cache_default\<rparr>, sv_handles = Map.empty, sv_locked = [[]],
      sv_disks = [[] \<mapsto> (d, [])], sv_shard_receipts = Map.empty, sv_runtimes = Map.empty, sv_job_files = Map.empty,
      sv_idempotency = Map.empty, sv_next_request_id = 1\<rparr>"

definition demo_request :: string where
  "demo_request = ''POST /v1/graphql HTTP/1.1'' @ [CR, LF] @ ''idempotency-key: k1'' @ [CR, LF, CR, LF] @ ''{}''"

section \<open>The request\<close>

lemma demo_request_text:
  "request_line_parts demo_request = (''POST'', ''/v1/graphql'')" "request_body demo_request = ''{}''"
  "header_value demo_request ''idempotency-key'' = Some ''k1''"
  by code_simp+

lemma demo_request_headers:
  "name \<in> {''x-request-id'', ''x-tracedb-engine-token'', ''x-tracedb-tenant-id'', ''x-tracedb-database-id'', ''x-tracedb-branch-id'',
     ''x-tracedb-token-identity'', ''authorization'', ''x-tracedb-request-id'', ''x-tracedb-policy-epoch'', ''x-tracedb-scopes''} \<Longrightarrow>
   header_value demo_request name = None"
proof -
  have "list_all (\<lambda>name. header_value demo_request name = None) [''x-request-id'', ''x-tracedb-engine-token'', ''x-tracedb-tenant-id'',
     ''x-tracedb-database-id'', ''x-tracedb-branch-id'', ''x-tracedb-token-identity'', ''authorization'', ''x-tracedb-request-id'',
     ''x-tracedb-policy-epoch'', ''x-tracedb-scopes'']" by code_simp
  then show "name \<in> {''x-request-id'', ''x-tracedb-engine-token'', ''x-tracedb-tenant-id'', ''x-tracedb-database-id'', ''x-tracedb-branch-id'',
     ''x-tracedb-token-identity'', ''authorization'', ''x-tracedb-request-id'', ''x-tracedb-policy-epoch'', ''x-tracedb-scopes''} \<Longrightarrow> ?thesis"
    by auto
qed

definition demo_actor :: actor_context where
  "demo_actor = managed_request ''local'' ''local'' ''main'' ''anonymous'' [] 0 []"

definition demo_key :: idempotency_cache_key where
  "demo_key = idempotency_key_new ''POST'' ''/v1/graphql'' ''k1'' demo_actor"

lemma demo_request_actor: "request_actor srv_demo demo_request = Some demo_actor"
  by (simp add: request_actor_def actor_context_from_request_def demo_request_text demo_request_headers srv_demo_def ok_of_def
      body_tenant_def first_record_json_string_def graphql_tenant_from_body_def traceql_tenant_from_body_def body_query_def
      or_else_def unwrap_or_def request_token_identity_def request_scopes_def demo_actor_def Let_def)

lemma demo_request_key:
  "request_cache_key srv_demo demo_request = Some demo_key" "is_default_shard_key (key_shard demo_key)"
  "durable_request srv_demo demo_request"
  by (simp_all add: request_cache_key_def demo_request_text demo_request_actor request_idempotency_key_def option_filter_def
      supports_http_idempotency_def demo_key_def idempotency_key_new_def demo_actor_def managed_request_def
      is_default_shard_key_def key_shard_def durable_request_def untimed_batch_def)

definition demo_response :: string where
  "demo_response = ir_response demo_receipt"

lemma demo_ok: "starts_with demo_response ''HTTP/1.1 200 OK''"
  by (simp add: demo_response_def demo_receipt_def starts_with_def)

section \<open>Its execution\<close>

lemma show_zero: "show_nat 0 = ''0''"
  by code_simp

lemma demo_dispatch:
  "dispatch srv_demo job_demo env_demo key actor receipt ''POST'' ''/v1/graphql'' body st = (Inr demo_response, st)"
  by (simp add: dispatch_def write_route_def post_route_def native_graphql_response_def execute_native_graphql_def sbind_def slift_def
      map_error_def srv_demo_def resp_ok_def ok_body_with_headers_def demo_response_def demo_receipt_def show_zero)

lemma demo_answered_receipt:
  "(to_receipt demo_key (request_body_hash srv_demo demo_request))\<lparr>ir_response := demo_response\<rparr> = demo_receipt"
  by (simp add: to_receipt_def demo_key_def idempotency_key_new_def demo_actor_def managed_request_def request_body_hash_def
      demo_request_text demo_response_def demo_receipt_def srv_demo_def)

lemma demo_record:
  assumes "commit_planned demo_eng demo_nonce (receipt_plan demo_receipt) (db, d) = (Inr e, (db', d'))"
    and "is_default_shard_key key"
  shows "\<exists>st1. eh_record_receipt srv_demo env_demo key demo_receipt ((demo_server db d)\<lparr>sv_next_request_id := n\<rparr>) = (Inr e, st1) \<and>
    sv_root st1 = \<lparr>eh_db = db', eh_cache = cache_default\<rparr> \<and> disk_at st1 [] = (d', [])"
  using assms
  by (simp add: eh_record_receipt_def on_shard_def on_engine_def record_idempotency_receipt_def srv_demo_def env_demo_def
      handle_at_def put_handle_def demo_server_def disk_at_def [of "\<lparr>sv_root = _, sv_handles = _, sv_locked = _, sv_disks = _,
        sv_shard_receipts = _, sv_runtimes = _, sv_job_files = _, sv_idempotency = _, sv_next_request_id = _\<rparr>"]
      shard_dir_def unwrap_or_def map_error_def put_disk_def disk_at_def)

lemma demo_run:
  assumes "commit_planned demo_eng demo_nonce (receipt_plan demo_receipt) (db, d) = (Inr e, (db', d'))"
  shows "\<exists>st1. handle_request srv_demo job_demo env_demo ''/db'' config_default demo_request (demo_server db d) =
      (Some demo_response, st1) \<and> sv_root st1 = \<lparr>eh_db = db', eh_cache = cache_default\<rparr> \<and> disk_at st1 [] = (d', [])"
proof (cases rule: handle_request_text_cases [of config_default demo_request srv_demo job_demo env_demo "''/db''" "demo_server db d"])
  case (served n a i)
  let ?a = "a\<lparr>ac_request_id := i\<rparr>" and ?st = "(demo_server db d)\<lparr>sv_next_request_id := n\<rparr>"
  have shard: "actor_shard ?a = key_shard demo_key" using served(2)
    by (auto simp: demo_request_actor demo_key_def idempotency_key_new_def actor_shard_def key_shard_def)
  have default: "is_default_shard_key (key_shard demo_key)" by (rule demo_request_key)
  obtain st1 where st1: "eh_record_receipt srv_demo env_demo (key_shard demo_key) demo_receipt ?st = (Inr e, st1)"
    "sv_root st1 = \<lparr>eh_db = db', eh_cache = cache_default\<rparr>" "disk_at st1 [] = (d', [])"
    using demo_record [OF assms default] by blast
  have "for_actor srv_demo env_demo ''/db'' ?a ?st = (Inr (key_shard demo_key), ?st)"
    using ready_for_actor [of ?a ?st] shard default by (simp add: ready_shard_def)
  then have "serve_actor srv_demo job_demo env_demo ''/db'' demo_request ?a ?st =
      (Inr demo_response, st1\<lparr>sv_idempotency := (sv_idempotency st1)(demo_key \<mapsto>
        \<lparr>ie_body_hash = request_body_hash srv_demo demo_request, ie_response = demo_response\<rparr>)\<rparr>)"
    using st1(1) by (simp add: serve_actor_def sbind_def demo_request_key demo_request_text demo_dispatch remember_answer_def demo_ok
        records_receipt_after_response_def demo_answered_receipt idempotency_insert_def sreturn_def demo_server_def)
  then show ?thesis using served st1 by (simp add: handle_request_def disk_at_def)
qed (simp_all add: authorized_def authorizes_private_request_def config_default_def demo_request_actor)

lemma demo_first:
  obtains db d st1 where "handle_request srv_demo job_demo env_demo ''/db'' config_default demo_request (demo_server db d) =
      (Some demo_response, st1)"
    and "reached demo_eng None options_from_env ''/db'' (eh_db (sv_root st1), fst (disk_at st1 []))"
proof -
  obtain db0 d0 db d where s: "reached demo_eng None demo_options ''/db'' (db0, d0)" "mf_latest_epoch (td_manifest db0) = 0"
    "commit_planned demo_eng demo_nonce (command_plan demo_eng (RecordReceipt demo_receipt)) (db0, d0) = (Inr 1, (db, d))"
    "mf_manifest_checksum (td_manifest db) \<noteq> zero32" by (rule demo_command) (rule that)
  have reach: "reached demo_eng None demo_options ''/db'' (db, d)"
    by (rule reached.command [OF s(1), of "RecordReceipt demo_receipt" demo_nonce demo_nonce "Inr 1"])
       (use s demo_nonce_len in \<open>simp_all add: record_idempotency_receipt_def\<close>)
  have "commit_planned demo_eng demo_nonce (receipt_plan demo_receipt) (db0, d0) = (Inr 1, (db, d))" using s(3) by simp
  from demo_run [OF this] obtain st1 where
    "handle_request srv_demo job_demo env_demo ''/db'' config_default demo_request (demo_server db0 d0) = (Some demo_response, st1)"
    "sv_root st1 = \<lparr>eh_db = db, eh_cache = cache_default\<rparr>" "disk_at st1 [] = (d, [])" by blast
  then show thesis using reach that by (simp add: demo_options_def)
qed

section \<open>Witnesses\<close>

lemma demo_authorized: "authorizes_private_request config_default r"
  by (simp add: authorizes_private_request_def config_default_def)

theorem unauthorized_request_changes_nothing_witness:
  "\<exists>db d n. reached demo_eng None demo_options ''/db'' (db, d) \<and>
     handle_request srv_demo job_demo env_demo ''/db'' (with_internal_token ''secret'' config_default) demo_request
       (demo_server db d) = (Some (resp_unauthorized srv_demo ''missing or invalid private engine token''),
         (demo_server db d)\<lparr>sv_next_request_id := n\<rparr>)"
proof -
  obtain db d where "reached demo_eng None demo_options ''/db'' (db, d)" by (rule demo_created) (rule that)
  moreover have "\<exists>n. handle_request srv_demo job_demo env_demo ''/db'' (with_internal_token ''secret'' config_default) demo_request
       (demo_server db d) = (Some (resp_unauthorized srv_demo ''missing or invalid private engine token''),
         (demo_server db d)\<lparr>sv_next_request_id := n\<rparr>)"
    by (rule unauthorized_request_changes_nothing [OF demo_request_text(1), where token = "''secret''"])
       (simp_all add: is_public_engine_route_def with_internal_token_def demo_request_headers)
  ultimately show ?thesis by blast
qed

theorem retry_gets_first_answer_witness:
  "\<exists>db d st1 n. handle_request srv_demo job_demo env_demo ''/db'' config_default demo_request (demo_server db d) =
       (Some demo_response, st1) \<and>
     handle_request srv_demo job_demo env_demo ''/db'' config_default demo_request st1 =
       (Some demo_response, st1\<lparr>sv_next_request_id := n\<rparr>)"
proof -
  obtain db d st1 where first: "handle_request srv_demo job_demo env_demo ''/db'' config_default demo_request (demo_server db d) =
      (Some demo_response, st1)" by (rule demo_first) (rule that)
  from retry_gets_first_answer [OF first demo_ok demo_request_key(1) served_nothing demo_request_key(1) demo_authorized, of env_demo]
  obtain n where "handle_request srv_demo job_demo env_demo ''/db'' config_default demo_request st1 =
      (Some demo_response, st1\<lparr>sv_next_request_id := n\<rparr>)" by auto
  with first show ?thesis by blast
qed


end
