(* ===== verification/Server_Job_Props.thy ===== *)
theory Server_Job_Props
  imports Server_Jobs "HOL-Library.Countable"
begin

text \<open>
  The job runtime of the server across restarts. Opening applies the whole event log to a checkpoint
  that already contains it. The events assign constants to the fields of a job, except for the attempt
  counter and the choice between a retryable failure and a dead letter, so replaying them again changes
  only these two: the rest of every job survives (\<open>restart_keeps_jobs\<close>), and the attempt counters grow
  with every restart (\<open>restart_repeats_attempts\<close>).
\<close>

section \<open>Catalogs by key\<close>

definition job_keyed :: "job_catalog \<Rightarrow> bool" where
  "job_keyed c \<longleftrightarrow> bm_wf c \<and> (\<forall>key j. bm_get c key = Some j \<longrightarrow> tj_job_id j = job_id_for (tj_kind j) key \<and> tj_idempotency_key j = key)"

lemma keyed_key:
  assumes "job_keyed c" and "bm_get c key = Some j"
  shows "key_for_job_id c (tj_job_id j) = Some key"
proof -
  have "(key, j) \<in> set c" using assms(2) by (rule bm_getD)
  then obtain e where e: "find (\<lambda>e. tj_job_id (snd e) = tj_job_id j) c = Some e"
    by (cases "find (\<lambda>e. tj_job_id (snd e) = tj_job_id j) c") (auto simp: find_None_iff)
  then obtain key' j' where e': "e = (key', j')" "(key', j') \<in> set c" "tj_job_id j' = tj_job_id j"
    by (cases e) (auto dest: find_SomeD)
  then have "bm_get c key' = Some j'" using assms(1) by (auto simp: job_keyed_def bm_entries_get)
  then have "job_id_for (tj_kind j') key' = job_id_for (tj_kind j) key" using assms e'(3) by (metis job_keyed_def)
  then have "key' = key" by (rule job_id_for_inj)
  then show ?thesis using e e' by (simp add: key_for_job_id_def)
qed

lemma keyed_keyD:
  assumes "job_keyed c" and "key_for_job_id c job_id = Some key"
  shows "\<exists>j. bm_get c key = Some j \<and> tj_job_id j = job_id"
proof -
  obtain j where "(key, j) \<in> set c" "tj_job_id j = job_id"
    using assms(2) by (auto simp: key_for_job_id_def dest: find_SomeD)
  then show ?thesis using assms(1) by (auto simp: job_keyed_def bm_entries_get)
qed

lemma keyed_mut:
  assumes "job_keyed c"
  shows "job_mut_for_token c job_id token = Inr (key, j) \<longleftrightarrow>
    bm_get c key = Some j \<and> tj_job_id j = job_id \<and> (\<forall>t. token = Some t \<longrightarrow> tj_lease_token j = Some t)"
  using keyed_keyD [OF assms] keyed_key [OF assms]
  by (fastforce simp: job_mut_for_token_def Let_def split: option.splits if_splits)

lemma keyed_insert:
  "job_keyed c \<Longrightarrow> tj_job_id j = job_id_for (tj_kind j) key \<Longrightarrow> tj_idempotency_key j = key \<Longrightarrow> job_keyed (bm_insert key j c)"
  by (auto simp: job_keyed_def)

section \<open>Events as updates of one job\<close>

fun event_guard :: "job_event \<Rightarrow> (string \<times> string option) option" where
  "event_guard (EvEnqueued job) = None"
| "event_guard (EvLeased job_id worker token expires_at) = Some (job_id, None)"
| "event_guard (EvHeartbeat job_id token expires_at) = Some (job_id, Some token)"
| "event_guard (EvCompleted job_id token) = Some (job_id, Some token)"
| "event_guard (EvFailed job_id token err permanent next_ms) = Some (job_id, token)"

fun event_update :: "job_event \<Rightarrow> trace_job \<Rightarrow> trace_job" where
  "event_update (EvEnqueued job) j = j"
| "event_update (EvLeased job_id worker token expires_at) j =
     j\<lparr>tj_lease_owner := Some worker, tj_lease_token := Some token, tj_lease_expires_at_ms := Some expires_at,
       tj_next_attempt_after_ms := None, tj_attempts := tj_attempts j + 1, tj_status := Leased\<rparr>"
| "event_update (EvHeartbeat job_id token expires_at) j = j\<lparr>tj_lease_expires_at_ms := Some expires_at\<rparr>"
| "event_update (EvCompleted job_id token) j =
     j\<lparr>tj_status := Succeeded, tj_lease_expires_at_ms := None, tj_next_attempt_after_ms := None\<rparr>"
| "event_update (EvFailed job_id token err permanent next_ms) j =
     j\<lparr>tj_last_error := Some err, tj_lease_expires_at_ms := None, tj_next_attempt_after_ms := Some next_ms,
       tj_status := (if permanent then FailedPermanent else if tj_max_attempts j \<le> tj_attempts j then DeadLettered
                     else FailedRetryable)\<rparr>"

lemma apply_event_mut:
  assumes "event_guard ev = Some (job_id, token)"
  shows "apply_event c ev = rbind (job_mut_for_token c job_id token) (\<lambda>(key, j). Inr (bm_insert key (event_update ev j) c))"
proof (cases ev)
  case (EvLeased i worker t expires_at)
  then show ?thesis using assms by (auto simp: job_mut_for_token_def Let_def split: option.splits)
next
  case (EvCompleted i t)
  then show ?thesis using assms
    by (cases "job_mut_for_token c job_id token") (auto simp: complete_def Let_def split: prod.splits)
next
  case (EvFailed i t err permanent next_ms)
  then show ?thesis using assms
    by (cases "job_mut_for_token c job_id token") (auto simp: fail_def Let_def split: prod.splits)
qed (use assms in auto)

lemma apply_event_iff:
  assumes "job_keyed c" and "event_guard ev = Some (job_id, token)"
  shows "apply_event c ev = Inr c' \<longleftrightarrow>
    (\<exists>key j. bm_get c key = Some j \<and> tj_job_id j = job_id \<and> (\<forall>t. token = Some t \<longrightarrow> tj_lease_token j = Some t) \<and>
       c' = bm_insert key (event_update ev j) c)"
  unfolding apply_event_mut [OF assms(2)] by (auto simp: rbind_eq_Inr keyed_mut [OF assms(1)])

text \<open>The part of a job that no event changes.\<close>

definition fixed_part :: "trace_job \<Rightarrow> string \<times> job_kind \<times> string \<times> string \<times> u32 \<times> string option \<times> bytes option" where
  "fixed_part j = (tj_job_id j, tj_kind j, tj_target j, tj_idempotency_key j, tj_max_attempts j, tj_artifact_path j, tj_artifact_checksum j)"

lemma event_update_fixed [simp]: "fixed_part (event_update ev j) = fixed_part j"
  by (cases ev) (simp_all add: fixed_part_def)

lemma fixed_part_id:
  "fixed_part j = fixed_part j' \<Longrightarrow> tj_job_id j = tj_job_id j' \<and> tj_kind j = tj_kind j' \<and> tj_idempotency_key j = tj_idempotency_key j'"
  by (simp add: fixed_part_def)

section \<open>Jobs up to attempts\<close>

definition failure_class :: "job_status \<Rightarrow> job_status" where
  "failure_class s = (if s = DeadLettered then FailedRetryable else s)"

definition job_view :: "trace_job \<Rightarrow> trace_job" where
  "job_view j = j\<lparr>tj_attempts := 0, tj_status := failure_class (tj_status j)\<rparr>"

lemma job_view_eq:
  "job_view j = job_view j' \<longleftrightarrow> fixed_part j = fixed_part j' \<and> tj_lease_owner j = tj_lease_owner j' \<and>
     failure_class (tj_status j) = failure_class (tj_status j') \<and> tj_last_error j = tj_last_error j' \<and>
     tj_lease_token j = tj_lease_token j' \<and> tj_lease_expires_at_ms j = tj_lease_expires_at_ms j' \<and>
     tj_next_attempt_after_ms j = tj_next_attempt_after_ms j'"
  by (cases j; cases j') (auto simp: job_view_def fixed_part_def)

lemma job_view_update: "job_view j = job_view j' \<Longrightarrow> job_view (event_update ev j) = job_view (event_update ev j')"
  by (cases ev) (auto simp: job_view_eq fixed_part_def failure_class_def)

definition same_jobs :: "job_catalog \<Rightarrow> job_catalog \<Rightarrow> bool" where
  "same_jobs c c' \<longleftrightarrow> (\<forall>key. map_option job_view (bm_get c key) = map_option job_view (bm_get c' key))"

lemma same_jobs_refl [simp]: "same_jobs c c"
  by (simp add: same_jobs_def)

lemma same_jobs_sym: "same_jobs c c' \<Longrightarrow> same_jobs c' c"
  by (simp add: same_jobs_def)

lemma same_jobs_trans: "same_jobs a b \<Longrightarrow> same_jobs b c \<Longrightarrow> same_jobs a c"
  by (simp add: same_jobs_def)

lemma same_jobs_get:
  assumes "same_jobs c c'" and "bm_get c key = Some j"
  obtains j' where "bm_get c' key = Some j'" and "job_view j' = job_view j"
proof -
  have "map_option job_view (bm_get c' key) = Some (job_view j)"
    using assms by (metis option.map(2) same_jobs_def)
  then show thesis using that by (cases "bm_get c' key") auto
qed

lemma same_jobs_None: "same_jobs c c' \<Longrightarrow> bm_get c key = None \<longleftrightarrow> bm_get c' key = None"
  by (metis map_option_is_None same_jobs_def)

lemma same_jobs_insert: "same_jobs c c' \<Longrightarrow> job_view j = job_view j' \<Longrightarrow> same_jobs (bm_insert key j c) (bm_insert key j' c')"
  by (simp add: same_jobs_def)

text \<open>What the log may hold: a job is enqueued under its own id, a new one without a lease token.\<close>

fun event_id_ok :: "job_event \<Rightarrow> bool" where
  "event_id_ok (EvEnqueued job) \<longleftrightarrow> tj_job_id job = job_id_for (tj_kind job) (tj_idempotency_key job)"
| "event_id_ok ev \<longleftrightarrow> True"

fun event_fresh :: "job_catalog \<Rightarrow> job_event \<Rightarrow> bool" where
  "event_fresh c (EvEnqueued job) \<longleftrightarrow> (bm_get c (tj_idempotency_key job) = None \<longrightarrow> tj_lease_token job = None)"
| "event_fresh c ev \<longleftrightarrow> True"

lemma apply_event_keyed:
  assumes "job_keyed c" and "event_id_ok ev" and "apply_event c ev = Inr c'"
  shows "job_keyed c'"
proof (cases "event_guard ev")
  case None
  then show ?thesis using assms by (cases ev) (auto simp: bm_or_insert_def keyed_insert split: option.splits)
next
  case (Some g)
  obtain job_id token where g: "g = (job_id, token)" by (cases g)
  from assms(3) obtain key j where j: "bm_get c key = Some j" "c' = bm_insert key (event_update ev j) c"
    using apply_event_iff [OF assms(1) Some [unfolded g]] by blast
  have "tj_job_id (event_update ev j) = job_id_for (tj_kind (event_update ev j)) key" "tj_idempotency_key (event_update ev j) = key"
    using fixed_part_id [OF event_update_fixed, of ev j] assms(1) j(1) by (simp_all add: job_keyed_def)
  then show ?thesis using keyed_insert [OF assms(1)] j(2) by simp
qed

lemma apply_event_same_jobs:
  assumes "job_keyed c" and "job_keyed c'" and "same_jobs c c'" and "apply_event c ev = Inr d"
  shows "\<exists>d'. apply_event c' ev = Inr d' \<and> same_jobs d d'"
proof (cases "event_guard ev")
  case None
  then obtain job where ev: "ev = EvEnqueued job" by (cases ev) auto
  show ?thesis
    using assms(3,4) same_jobs_None [OF assms(3), of "tj_idempotency_key job"]
    by (auto simp: ev bm_or_insert_def same_jobs_insert split: option.splits)
next
  case (Some g)
  obtain job_id token where g: "g = (job_id, token)" by (cases g)
  from assms(4) obtain key j where j: "bm_get c key = Some j" "tj_job_id j = job_id"
    "\<forall>t. token = Some t \<longrightarrow> tj_lease_token j = Some t" "d = bm_insert key (event_update ev j) c"
    using apply_event_iff [OF assms(1) Some [unfolded g]] by blast
  obtain j' where j': "bm_get c' key = Some j'" "job_view j' = job_view j" by (rule same_jobs_get [OF assms(3) j(1)])
  have "tj_job_id j' = job_id \<and> (\<forall>t. token = Some t \<longrightarrow> tj_lease_token j' = Some t)"
    using j(2,3) j'(2) by (simp add: job_view_eq fixed_part_def)
  then have "apply_event c' ev = Inr (bm_insert key (event_update ev j') c')"
    unfolding apply_event_iff [OF assms(2) Some [unfolded g]] using j'(1) by blast
  moreover have "same_jobs d (bm_insert key (event_update ev j') c')"
    using same_jobs_insert [OF assms(3) job_view_update] j'(2) j(4) by simp
  ultimately show ?thesis by blast
qed

section \<open>Replaying a log twice\<close>

text \<open>A log with the catalog that its events build from the empty one.\<close>

inductive genuine :: "job_event list \<Rightarrow> job_catalog \<Rightarrow> bool" where
  genuine_empty: "genuine [] []"
| genuine_event: "genuine evs c \<Longrightarrow> event_id_ok ev \<Longrightarrow> event_fresh c ev \<Longrightarrow> apply_event c ev = Inr c' \<Longrightarrow> genuine (evs @ [ev]) c'"

lemma genuine_keyed: "genuine evs c \<Longrightarrow> job_keyed c"
proof (induction rule: genuine.induct)
  case genuine_empty
  show ?case by (simp add: job_keyed_def)
next
  case (genuine_event evs c ev c')
  then show ?case using apply_event_keyed by blast
qed

lemma genuine_replay: "genuine evs c \<Longrightarrow> rfold apply_event [] evs = Inr c"
  by (induction rule: genuine.induct) (simp_all add: rfold_append)

text \<open>
  The second run starts from a catalog \<open>a\<close> that has all jobs of the first. In the middle every field of
  a job is as in the first run or still as in \<open>a\<close>; the lease token is as in the first run once there is one.
\<close>

definition between :: "trace_job \<Rightarrow> trace_job \<Rightarrow> trace_job \<Rightarrow> bool" where
  "between jx ja jy \<longleftrightarrow> fixed_part jy = fixed_part ja \<and>
     tj_lease_owner jy \<in> {tj_lease_owner jx, tj_lease_owner ja} \<and>
     failure_class (tj_status jy) \<in> {failure_class (tj_status jx), failure_class (tj_status ja)} \<and>
     tj_last_error jy \<in> {tj_last_error jx, tj_last_error ja} \<and>
     tj_lease_expires_at_ms jy \<in> {tj_lease_expires_at_ms jx, tj_lease_expires_at_ms ja} \<and>
     tj_next_attempt_after_ms jy \<in> {tj_next_attempt_after_ms jx, tj_next_attempt_after_ms ja} \<and>
     (tj_lease_token jy = tj_lease_token jx \<or> tj_lease_token jx = None \<and> tj_lease_token jy = tj_lease_token ja)"

lemma between_update:
  assumes "between jx ja jy" and "fixed_part jx = fixed_part ja"
  shows "between (event_update ev jx) ja (event_update ev jy)"
  using assms by (cases ev) (auto simp: between_def failure_class_def fixed_part_def)

lemma between_same: "between j j j' \<Longrightarrow> job_view j' = job_view j"
  by (auto simp: between_def job_view_eq)

definition has_jobs :: "job_catalog \<Rightarrow> job_catalog \<Rightarrow> bool" where
  "has_jobs a x \<longleftrightarrow> (\<forall>key j. bm_get x key = Some j \<longrightarrow> (\<exists>ja. bm_get a key = Some ja \<and> fixed_part ja = fixed_part j))"

definition midway :: "job_catalog \<Rightarrow> job_catalog \<Rightarrow> job_catalog \<Rightarrow> bool" where
  "midway x a y \<longleftrightarrow>
     (\<forall>key. case bm_get x key of
        None \<Rightarrow> bm_get y key = bm_get a key
      | Some jx \<Rightarrow> \<exists>ja jy. bm_get a key = Some ja \<and> bm_get y key = Some jy \<and> fixed_part jx = fixed_part ja \<and> between jx ja jy)"

lemma midway_get:
  assumes "midway x a y" and "bm_get x key = Some jx"
  obtains ja jy where "bm_get a key = Some ja" and "bm_get y key = Some jy" and "fixed_part jx = fixed_part ja" and "between jx ja jy"
proof -
  have "case bm_get x key of None \<Rightarrow> bm_get y key = bm_get a key
      | Some jx \<Rightarrow> \<exists>ja jy. bm_get a key = Some ja \<and> bm_get y key = Some jy \<and> fixed_part jx = fixed_part ja \<and> between jx ja jy"
    using assms(1) by (simp add: midway_def)
  then show thesis using assms(2) that by auto
qed

lemma midway_step:
  assumes "midway x a y" and "job_keyed x" and "job_keyed y" and "event_id_ok ev" and "event_fresh x ev"
    and "apply_event x ev = Inr x'" and "has_jobs a x'"
  shows "\<exists>y'. apply_event y ev = Inr y' \<and> job_keyed y' \<and> midway x' a y'"
proof (cases "event_guard ev")
  case None
  then obtain job where ev: "ev = EvEnqueued job" by (cases ev) auto
  let ?key = "tj_idempotency_key job"
  have x': "x' = bm_or_insert ?key job x" using assms(6) by (simp add: ev)
  have y: "bm_get y ?key \<noteq> None"
  proof (cases "bm_get x ?key")
    case (Some jx)
    obtain jy where "bm_get y ?key = Some jy" by (rule midway_get [OF assms(1) Some])
    then show ?thesis by simp
  next
    case None
    then have "bm_get x' ?key = Some job" by (simp add: x' bm_or_insert_def)
    then obtain ja where "bm_get a ?key = Some ja" using assms(7) by (auto simp: has_jobs_def)
    then show ?thesis using assms(1) None by (auto simp: midway_def split: option.splits dest!: spec [of _ ?key])
  qed
  have "midway x' a y"
  proof (cases "bm_get x ?key")
    case (Some jx)
    then show ?thesis using assms(1) by (simp add: x' bm_or_insert_def)
  next
    case None
    then have get: "bm_get x' key = (if key = ?key then Some job else bm_get x key)" for key
      by (simp add: x' bm_or_insert_def)
    then have "bm_get x' ?key = Some job" by simp
    then obtain ja where ja: "bm_get a ?key = Some ja" "fixed_part ja = fixed_part job"
      using assms(7) unfolding has_jobs_def by blast
    have "bm_get y ?key = Some ja" using assms(1) None ja(1) by (auto simp: midway_def split: option.splits dest!: spec [of _ ?key])
    moreover have "between job ja ja" using assms(5) None by (simp add: between_def ev)
    ultimately show ?thesis using assms(1) ja by (auto simp: midway_def get)
  qed
  then show ?thesis using y assms(3) by (auto simp: ev bm_or_insert_def)
next
  case (Some g)
  obtain job_id token where g: "g = (job_id, token)" by (cases g)
  note guard = Some [unfolded g]
  from assms(6) obtain key jx where jx: "bm_get x key = Some jx" "tj_job_id jx = job_id"
    "\<forall>t. token = Some t \<longrightarrow> tj_lease_token jx = Some t" "x' = bm_insert key (event_update ev jx) x"
    using apply_event_iff [OF assms(2) guard] by blast
  obtain ja jy where j: "bm_get a key = Some ja" "bm_get y key = Some jy" "fixed_part jx = fixed_part ja" "between jx ja jy"
    by (rule midway_get [OF assms(1) jx(1)])
  have "tj_job_id jy = job_id \<and> (\<forall>t. token = Some t \<longrightarrow> tj_lease_token jy = Some t)"
    using j(3,4) jx(2,3) by (auto simp: between_def fixed_part_def)
  then have run: "apply_event y ev = Inr (bm_insert key (event_update ev jy) y)"
    unfolding apply_event_iff [OF assms(3) guard] using j(2) by blast
  moreover have "midway x' a (bm_insert key (event_update ev jy) y)"
    using assms(1) j between_update [OF j(4,3)] by (auto simp: midway_def jx(4) cong: option.case_cong)
  ultimately show ?thesis using apply_event_keyed [OF assms(3,4)] by blast
qed

lemma has_jobs_before:
  assumes "job_keyed x" and "apply_event x ev = Inr x'" and "has_jobs a x'"
  shows "has_jobs a x"
proof (cases "event_guard ev")
  case None
  then obtain job where ev: "ev = EvEnqueued job" by (cases ev) auto
  have "bm_get x' key = Some j" if "bm_get x key = Some j" for key j
    using assms(2) that by (auto simp: ev bm_or_insert_def split: option.splits)
  then show ?thesis using assms(3) by (fastforce simp: has_jobs_def)
next
  case (Some g)
  obtain job_id token where g: "g = (job_id, token)" by (cases g)
  from assms(2) obtain key j where j: "bm_get x key = Some j" "x' = bm_insert key (event_update ev j) x"
    using apply_event_iff [OF assms(1) Some [unfolded g]] by blast
  show ?thesis unfolding has_jobs_def
  proof (intro allI impI)
    fix key' j' assume j': "bm_get x key' = Some j'"
    show "\<exists>ja. bm_get a key' = Some ja \<and> fixed_part ja = fixed_part j'"
    proof (cases "key' = key")
      case True
      then have "bm_get x' key = Some (event_update ev j)" by (simp add: j(2))
      then show ?thesis using assms(3) True j(1) j' by (fastforce simp: has_jobs_def)
    next
      case False
      then have "bm_get x' key' = Some j'" using j' by (simp add: j(2))
      then show ?thesis using assms(3) by (simp add: has_jobs_def)
    qed
  qed
qed

lemma replay_midway:
  "genuine evs x \<Longrightarrow> job_keyed a \<Longrightarrow> has_jobs a x \<Longrightarrow> \<exists>y. rfold apply_event a evs = Inr y \<and> job_keyed y \<and> midway x a y"
proof (induction rule: genuine.induct)
  case genuine_empty
  then show ?case by (simp add: midway_def)
next
  case (genuine_event evs c ev c')
  have keyed: "job_keyed c" using genuine_event.hyps(1) by (rule genuine_keyed)
  have "has_jobs a c" by (rule has_jobs_before [OF keyed genuine_event.hyps(4) genuine_event.prems(2)])
  with genuine_event obtain y where y: "rfold apply_event a evs = Inr y" "job_keyed y" "midway c a y" by blast
  from midway_step [OF y(3) keyed y(2) genuine_event.hyps(2,3,4) genuine_event.prems(2)] y(1)
  show ?case by (auto simp: rfold_append)
qed

lemma replay_twice:
  assumes "genuine evs c"
  shows "\<exists>y. rfold apply_event c evs = Inr y \<and> job_keyed y \<and> same_jobs c y"
proof -
  have "job_keyed c" by (rule genuine_keyed [OF assms])
  moreover have "has_jobs c c" by (simp add: has_jobs_def)
  ultimately obtain y where y: "rfold apply_event c evs = Inr y" "job_keyed y" "midway c c y"
    using replay_midway [OF assms] by blast
  have "same_jobs c y" unfolding same_jobs_def
  proof
    fix key
    show "map_option job_view (bm_get c key) = map_option job_view (bm_get y key)"
    proof (cases "bm_get c key")
      case None
      then show ?thesis using y(3) by (auto simp: midway_def dest!: spec [of _ key])
    next
      case (Some j)
      obtain ja jy where j: "bm_get c key = Some ja" "bm_get y key = Some jy" "between j ja jy" by (rule midway_get [OF y(3) Some])
      then have "between j j jy" using Some by simp
      then have "job_view jy = job_view j" by (rule between_same)
      then show ?thesis using Some j(2) by simp
    qed
  qed
  with y show ?thesis by blast
qed

lemma replay_same_jobs:
  assumes "job_keyed c" and "job_keyed c'" and "same_jobs c c'" and "rfold apply_event c evs = Inr d" and "list_all event_id_ok evs"
  shows "\<exists>d'. rfold apply_event c' evs = Inr d' \<and> job_keyed d' \<and> same_jobs d d'"
  using assms
proof (induction evs arbitrary: c c')
  case Nil
  then show ?case by simp
next
  case (Cons ev evs)
  from Cons.prems(4) obtain x where x: "apply_event c ev = Inr x" "rfold apply_event x evs = Inr d"
    by (auto simp: rbind_eq_Inr)
  have ok: "event_id_ok ev" "list_all event_id_ok evs" using Cons.prems(5) by simp_all
  obtain x' where x': "apply_event c' ev = Inr x'" "same_jobs x x'"
    using apply_event_same_jobs [OF Cons.prems(1-3) x(1)] by blast
  from Cons.IH [OF apply_event_keyed [OF Cons.prems(1) ok(1) x(1)] apply_event_keyed [OF Cons.prems(2) ok(1) x'(1)] x'(2) x(2) ok(2)]
  show ?case using x'(1) by simp
qed

lemma genuine_ids: "genuine evs c \<Longrightarrow> list_all event_id_ok evs"
  by (induction rule: genuine.induct) simp_all

text \<open>Replaying a log over a checkpoint of any of its prefixes gives its jobs.\<close>

lemma replay_over_checkpoint:
  assumes "genuine (p @ q) c" and "genuine p x" and "job_keyed k" and "same_jobs x k"
  shows "\<exists>y. rfold apply_event k (p @ q) = Inr y \<and> job_keyed y \<and> same_jobs c y"
proof -
  note keyed = genuine_keyed [OF assms(2)]
  have ids: "list_all event_id_ok p" "list_all event_id_ok q" using genuine_ids [OF assms(1)] by simp_all
  have q: "rfold apply_event x q = Inr c"
    using genuine_replay [OF assms(1)] genuine_replay [OF assms(2)] by (simp add: rfold_append)
  obtain y1 where y1: "rfold apply_event x p = Inr y1" "job_keyed y1" "same_jobs x y1" using replay_twice [OF assms(2)] by blast
  obtain y2 where y2: "rfold apply_event k p = Inr y2" "job_keyed y2" "same_jobs y1 y2"
    using replay_same_jobs [OF keyed assms(3,4) y1(1) ids(1)] by blast
  from replay_same_jobs [OF keyed y2(2) same_jobs_trans [OF y1(3) y2(3)] q ids(2)] y2(1)
  show ?thesis by (auto simp: rfold_append)
qed

section \<open>The files\<close>

text \<open>What the JSON codecs promise: events and checkpoints read back, an event is one line of text.\<close>

definition job_codec_ok :: "job_prims \<Rightarrow> bool" where
  "job_codec_ok J \<longleftrightarrow>
     (\<forall>ev. jp_event_parse J (jp_event_text J ev) = Inr ev \<and> LF \<notin> set (jp_event_text J ev) \<and>
        strip_cr (jp_event_text J ev) = jp_event_text J ev \<and> trim (jp_event_text J ev) \<noteq> [] \<and> utf8_valid (jp_event_text J ev)) \<and>
     (\<forall>v shard c. jp_checkpoint_parse J (jp_checkpoint_text J v shard c) = Inr c \<and> utf8_valid (jp_checkpoint_text J v shard c))"

definition event_lines :: "job_prims \<Rightarrow> job_event list \<Rightarrow> bytes" where
  "event_lines J evs = concat (map (\<lambda>ev. jp_event_text J ev @ [LF]) evs)"

lemma split_at_line: "LF \<notin> set l \<Longrightarrow> split_at LF (l @ LF # rest) = l # split_at LF rest"
  by (induction l) auto

lemma utf8_valid_append: "utf8_valid a \<Longrightarrow> utf8_valid (a @ b) = utf8_valid b"
proof (induction "length a" arbitrary: a rule: less_induct)
  case less
  note IH = less.hyps and valid = less.prems
  show ?case
  proof (cases a)
    case (Cons a1 as1)
    note a = this
    show ?thesis
    proof (cases "a1 < CHR 0x80")
      case True
      then show ?thesis using IH [of as1] valid by (simp add: a)
    next
      case ge80: False
      then obtain a2 as2 where a2: "as1 = a2 # as2" using valid by (cases as1) (simp_all add: a)
      show ?thesis
      proof (cases "CHR 0xC2 \<le> a1 \<and> a1 \<le> CHR 0xDF")
        case True
        then show ?thesis using IH [of as2] valid ge80 by (simp add: a a2)
      next
        case two: False
        then obtain a3 as3 where a3: "as2 = a3 # as3" using valid ge80 by (cases as2) (auto simp: a a2 split: if_splits)
        show ?thesis
        proof (cases "CHR 0xE0 \<le> a1 \<and> a1 \<le> CHR 0xEF")
          case True
          then show ?thesis using IH [of as3] valid ge80 two by (auto simp: a a2 a3 split: if_splits)
        next
          case False
          then obtain a4 as4 where a4: "as3 = a4 # as4" using valid ge80 two by (cases as3) (auto simp: a a2 a3 split: if_splits)
          show ?thesis using IH [of as4] valid ge80 two False by (auto simp: a a2 a3 a4 split: if_splits)
        qed
      qed
    qed
  qed simp
qed

lemma event_lines_read:
  assumes "job_codec_ok J"
  shows "str_lines (event_lines J evs) = map (jp_event_text J) evs" and "utf8_valid (event_lines J evs)"
proof -
  have ev: "LF \<notin> set (jp_event_text J ev)" "strip_cr (jp_event_text J ev) = jp_event_text J ev" "utf8_valid (jp_event_text J ev)" for ev
    using assms by (simp_all add: job_codec_ok_def)
  have "split_at LF (event_lines J evs) = map (jp_event_text J) evs @ [[]]"
    by (induction evs) (simp_all add: event_lines_def split_at_line ev(1))
  then show "str_lines (event_lines J evs) = map (jp_event_text J) evs"
    by (simp add: str_lines_def ev(2))
  have "utf8_valid (jp_event_text J ev @ [LF] @ rest) = utf8_valid rest" for ev rest
    using utf8_valid_append [OF ev(3), of ev "[LF] @ rest"] by simp
  then show "utf8_valid (event_lines J evs)"
    by (induction evs) (simp_all add: event_lines_def)
qed

text \<open>The events of the files are a log; the checkpoint has the jobs of one of its prefixes.\<close>

definition events_ok :: "job_prims \<Rightarrow> job_event list \<Rightarrow> job_files \<Rightarrow> bool" where
  "events_ok J evs files \<longleftrightarrow> jf_events files = Some (event_lines J evs) \<or> jf_events files = None \<and> evs = []"

definition checkpoint_ok :: "job_prims \<Rightarrow> job_event list \<Rightarrow> job_files \<Rightarrow> bool" where
  "checkpoint_ok J evs files \<longleftrightarrow>
     (\<exists>p q x k. evs = p @ q \<and> genuine p x \<and> job_keyed k \<and> same_jobs x k \<and> checkpoint_catalog J files = Inr k)"

definition files_ok :: "job_prims \<Rightarrow> job_event list \<Rightarrow> job_files \<Rightarrow> bool" where
  "files_ok J evs files \<longleftrightarrow> events_ok J evs files \<and> checkpoint_ok J evs files"

lemma replay_lines: "job_codec_ok J \<Longrightarrow> rfold (replay_line J) c (map (jp_event_text J) evs) = rfold apply_event c evs"
  by (induction evs arbitrary: c) (auto simp: replay_line_def job_codec_ok_def rbind_def split: sum.splits)

lemma replay_events_eq:
  assumes "job_codec_ok J" and "files_ok J evs files"
  shows "replay_events J files c = rfold apply_event c evs"
proof -
  have "filter (\<lambda>line. trim line \<noteq> []) (map (jp_event_text J) evs) = map (jp_event_text J) evs"
    using assms(1) by (auto simp: filter_id_conv job_codec_ok_def)
  then show ?thesis
    using assms(2) event_lines_read [OF assms(1)] replay_lines [OF assms(1)]
    by (auto simp: files_ok_def events_ok_def replay_events_def read_to_string_def)
qed

lemma files_replay:
  assumes "job_codec_ok J" and "files_ok J evs files" and "genuine evs c"
  shows "\<exists>y. rbind (checkpoint_catalog J files) (replay_events J files) = Inr y \<and> job_keyed y \<and> same_jobs c y"
proof -
  from assms(2) obtain p q x k where f: "evs = p @ q" "genuine p x" "job_keyed k" "same_jobs x k" "checkpoint_catalog J files = Inr k"
    unfolding files_ok_def checkpoint_ok_def by blast
  from replay_over_checkpoint [OF assms(3) [unfolded f(1)] f(2-4)] f(1,5) replay_events_eq [OF assms(1,2)]
  show ?thesis by simp
qed

definition job_inv :: "job_prims \<Rightarrow> job_state \<Rightarrow> bool" where
  "job_inv J s \<longleftrightarrow> (\<exists>evs c. genuine evs c \<and> files_ok J evs (snd s) \<and> job_keyed (state_catalog s) \<and> same_jobs c (state_catalog s))"

lemma job_invI:
  "genuine evs c \<Longrightarrow> files_ok J evs files \<Longrightarrow> job_keyed (jr_catalog rt) \<Longrightarrow> same_jobs c (jr_catalog rt) \<Longrightarrow> job_inv J (rt, files)"
  unfolding job_inv_def by (intro exI [of _ evs] exI [of _ c]) simp

lemma checkpoint_reads:
  "job_codec_ok J \<Longrightarrow> jf_checkpoint files = Some (jp_checkpoint_text J v shard c) \<Longrightarrow> checkpoint_catalog J files = Inr c"
  by (simp add: checkpoint_catalog_def read_to_string_def job_codec_ok_def)

lemma persist_checkpoint_inv:
  assumes "job_codec_ok J" and "job_inv J s" and "persist_checkpoint J io s = (r, s')"
  shows "job_inv J s'"
proof -
  obtain rt files where s: "s = (rt, files)" by (cases s)
  let ?files = "files\<lparr>jf_checkpoint := Some (jp_checkpoint_text J 1 (jr_shard rt) (jr_catalog rt))\<rparr>"
  from assms(3) have s': "s' = (rt, files) \<or> s' = (rt, ?files)"
    by (auto simp: persist_checkpoint_def s Let_def split: replace_outcome.splits)
  from assms(2) obtain evs c where inv: "genuine evs c" "files_ok J evs files" "job_keyed (jr_catalog rt)" "same_jobs c (jr_catalog rt)"
    by (auto simp: job_inv_def s)
  have "checkpoint_catalog J ?files = Inr (jr_catalog rt)" by (rule checkpoint_reads [OF assms(1)]) simp
  then have "checkpoint_ok J evs ?files"
    unfolding checkpoint_ok_def using inv by (intro exI [of _ evs] exI [of _ "[]"] exI [of _ c] exI [of _ "jr_catalog rt"]) simp
  then have "files_ok J evs ?files" using inv(2) by (simp add: files_ok_def events_ok_def)
  then show ?thesis using s' inv by (auto intro: job_invI)
qed

lemma persist_inv:
  assumes "job_codec_ok J" and "job_inv J s" and "apply_event (state_catalog s) ev = Inr c'" and "event_id_ok ev"
    and "event_fresh (state_catalog s) ev" and "ji_append io = AppendDone" and "persist J io ev x (with_catalog c' s) = (r, s')"
  shows "job_inv J s'"
proof -
  obtain rt files where s: "s = (rt, files)" by (cases s)
  from assms(2) obtain evs c where inv: "genuine evs c" "files_ok J evs files" "job_keyed (jr_catalog rt)" "same_jobs c (jr_catalog rt)"
    by (auto simp: job_inv_def s)
  obtain d where d: "apply_event c ev = Inr d" "same_jobs c' d"
    using apply_event_same_jobs [OF inv(3) genuine_keyed [OF inv(1)] same_jobs_sym [OF inv(4)]] assms(3) s by auto
  have "event_fresh c ev" using assms(5) same_jobs_None [OF inv(4)] s by (cases ev) auto
  with inv(1) assms(4) d(1) have gen: "genuine (evs @ [ev]) d" by (blast intro: genuine_event)
  let ?s = "(rt\<lparr>jr_catalog := c'\<rparr>, files\<lparr>jf_events := Some (event_lines J (evs @ [ev]))\<rparr>)"
  have lines: "unwrap_or [] (jf_events files) @ jp_event_text J ev @ [LF] = event_lines J (evs @ [ev])"
    using inv(2) by (auto simp: files_ok_def events_ok_def unwrap_or_def event_lines_def)
  have "persist_event J io ev (with_catalog c' s) = (Inr (), ?s)"
    using lines assms(6) by (simp add: persist_event_def with_catalog_def s Let_def)
  then have "\<exists>r'. persist_checkpoint J io ?s = (r', s')"
    using assms(7) by (cases "persist_checkpoint J io ?s") (auto simp: persist_def jbind_def jreturn_def split: sum.splits)
  then obtain r' where chk: "persist_checkpoint J io ?s = (r', s')" by blast
  have "checkpoint_catalog J (files\<lparr>jf_events := e\<rparr>) = checkpoint_catalog J files" for e by (simp add: checkpoint_catalog_def)
  then have "checkpoint_ok J (evs @ [ev]) (files\<lparr>jf_events := Some (event_lines J (evs @ [ev]))\<rparr>)"
    using inv(2) unfolding files_ok_def checkpoint_ok_def by (metis append.assoc)
  then have "files_ok J (evs @ [ev]) (files\<lparr>jf_events := Some (event_lines J (evs @ [ev]))\<rparr>)"
    by (simp add: files_ok_def events_ok_def)
  moreover have "job_keyed c'" using apply_event_keyed [OF inv(3) assms(4)] assms(3) s by simp
  ultimately have "job_inv J ?s" using gen same_jobs_sym [OF d(2)] by (intro job_invI) simp_all
  then show ?thesis using chk by (rule persist_checkpoint_inv [OF assms(1)])
qed

section \<open>Operations\<close>

lemma enqueue_inv:
  assumes "job_codec_ok J" and "job_inv J s" and "ji_append io = AppendDone" and "runtime_enqueue J io kind target key s = (r, s')"
  shows "job_inv J s'"
proof -
  let ?c = "state_catalog s"
  have keyed: "job_keyed ?c" using assms(2) by (auto simp: job_inv_def)
  obtain c' job where e: "enqueue ?c kind target key = (c', job)" by (cases "enqueue ?c kind target key")
  then have c': "c' = bm_or_insert key (job_new kind target key) ?c" "job = the (bm_get c' key)"
    by (auto simp: enqueue_def Let_def)
  have "apply_event ?c (EvEnqueued job) = Inr c' \<and> event_id_ok (EvEnqueued job) \<and> event_fresh ?c (EvEnqueued job)"
  proof (cases "bm_get ?c key")
    case None
    then show ?thesis using c' by (simp add: bm_or_insert_def job_new_def)
  next
    case (Some j)
    then have "tj_idempotency_key j = key" "tj_job_id j = job_id_for (tj_kind j) key" using keyed by (auto simp: job_keyed_def)
    then show ?thesis using Some c' by (simp add: bm_or_insert_def)
  qed
  then have app: "apply_event ?c (EvEnqueued job) = Inr c'" and ok: "event_id_ok (EvEnqueued job)"
    and fresh: "event_fresh ?c (EvEnqueued job)" by blast+
  have "persist J io (EvEnqueued job) job (with_catalog c' s) = (r, s')" using assms(4) e by (simp add: runtime_enqueue_def)
  then show ?thesis by (rule persist_inv [OF assms(1,2) app ok fresh assms(3)])
qed

lemma lease_inv:
  assumes "job_codec_ok J" and "job_inv J s" and "ji_append io = AppendDone"
    and "runtime_lease J io worker kind now_ms lease_ms s = (r, s')"
  shows "job_inv J s'"
proof -
  let ?c = "state_catalog s"
  have keyed: "job_keyed ?c" using assms(2) by (auto simp: job_inv_def)
  show ?thesis
  proof (cases "find (\<lambda>e. tj_kind (snd e) = kind \<and> job_is_leasable (snd e) now_ms) ?c")
    case None
    then have "s' = with_catalog ?c s" using assms(4) by (simp add: runtime_lease_def lease_next_at_def)
    then show ?thesis using assms(2) by (cases s) (simp add: with_catalog_def)
  next
    case (Some e)
    obtain key j where e: "e = (key, j)" by (cases e)
    have "(key, j) \<in> set ?c" using Some e by (auto dest: find_SomeD)
    then have get: "bm_get ?c key = Some j" using keyed by (simp add: job_keyed_def bm_entries_get)
    let ?j = "lease_at j worker now_ms lease_ms"
    let ?ev = "EvLeased (tj_job_id ?j) worker (unwrap_or [] (tj_lease_token ?j))
        (unwrap_or (sat_add64 now_ms lease_ms) (tj_lease_expires_at_ms ?j))"
    have "bm_insert key ?j (bm_remove key ?c) = bm_insert key ?j ?c"
      using keyed by (intro insert_remove_eq) (simp add: job_keyed_def)
    then have run: "persist J io ?ev (Some ?j) (with_catalog (bm_insert key ?j ?c) s) = (r, s')"
      using assms(4) Some e by (simp add: runtime_lease_def lease_next_at_def Let_def)
    have "apply_event ?c ?ev = Inr (bm_insert key ?j ?c)"
      using keyed_key [OF keyed get] get by (simp add: unwrap_or_def leased_by_event)
    then show ?thesis by (rule persist_inv [OF assms(1,2) _ _ _ assms(3) run]) simp_all
  qed
qed

lemma guarded_inv:
  assumes "job_codec_ok J" and "job_inv J s" and "ji_append io = AppendDone"
  shows "runtime_heartbeat J io job_id token now_ms lease_ms s = (r1, s1) \<Longrightarrow> job_inv J s1"
    and "runtime_complete J io job_id token s = (r2, s2) \<Longrightarrow> job_inv J s2"
    and "runtime_fail J io job_id token_opt err permanent now_ms s = (r3, s3) \<Longrightarrow> job_inv J s3"
proof -
  let ?c = "state_catalog s"
  show "job_inv J s1" if run: "runtime_heartbeat J io job_id token now_ms lease_ms s = (r1, s1)"
  proof (cases "heartbeat ?c job_id token now_ms lease_ms")
    case (Inl e)
    then show ?thesis using run assms(2) by (simp add: runtime_heartbeat_def)
  next
    case (Inr cj)
    let ?ev = "EvHeartbeat job_id token (unwrap_or (sat_add64 now_ms lease_ms) (tj_lease_expires_at_ms (snd cj)))"
    have "apply_event ?c ?ev = Inr (fst cj)" using Inr by (auto simp: heartbeat_def rbind_eq_Inr Let_def unwrap_or_def)
    moreover have "persist J io ?ev (snd cj) (with_catalog (fst cj) s) = (r1, s1)"
      using run Inr by (simp add: runtime_heartbeat_def case_prod_beta)
    ultimately show ?thesis by (intro persist_inv [OF assms(1,2) _ _ _ assms(3)]) simp_all
  qed
  show "job_inv J s2" if run: "runtime_complete J io job_id token s = (r2, s2)"
  proof (cases "complete ?c job_id (Some token)")
    case (Inl e)
    then show ?thesis using run assms(2) by (simp add: runtime_complete_def)
  next
    case (Inr cj)
    then have "apply_event ?c (EvCompleted job_id token) = Inr (fst cj)" by (simp split: prod.splits)
    moreover have "persist J io (EvCompleted job_id token) (snd cj) (with_catalog (fst cj) s) = (r2, s2)"
      using run Inr by (simp add: runtime_complete_def case_prod_beta)
    ultimately show ?thesis by (intro persist_inv [OF assms(1,2) _ _ _ assms(3)]) simp_all
  qed
  show "job_inv J s3" if run: "runtime_fail J io job_id token_opt err permanent now_ms s = (r3, s3)"
  proof (cases "fail ?c job_id token_opt err permanent now_ms")
    case (Inl e)
    then show ?thesis using run assms(2) by (simp add: runtime_fail_def)
  next
    case (Inr cj)
    then have "apply_event ?c (EvFailed job_id token_opt err permanent now_ms) = Inr (fst cj)" by (simp split: prod.splits)
    moreover have "persist J io (EvFailed job_id token_opt err permanent now_ms) (snd cj) (with_catalog (fst cj) s) = (r3, s3)"
      using run Inr by (simp add: runtime_fail_def case_prod_beta)
    ultimately show ?thesis by (intro persist_inv [OF assms(1,2) _ _ _ assms(3)]) simp_all
  qed
qed

section \<open>Histories\<close>

text \<open>
  A runtime is opened on empty files, carries out operations (each may also be refused, and each
  checkpoint write may fail), and is opened again, in any order.
\<close>

inductive job_history :: "job_prims \<Rightarrow> shard_key \<Rightarrow> job_state \<Rightarrow> bool" for J shard where
  jobs_started: "runtime_open J outcome shard no_job_files = (Inr rt, files) \<Longrightarrow> job_history J shard (rt, files)"
| jobs_restarted: "job_history J shard (rt, files) \<Longrightarrow> runtime_open J outcome shard files = (Inr rt', files') \<Longrightarrow>
    job_history J shard (rt', files')"
| jobs_enqueued: "job_history J shard s \<Longrightarrow> ji_append io = AppendDone \<Longrightarrow>
    runtime_enqueue J io kind target key s = (r, s') \<Longrightarrow> job_history J shard s'"
| jobs_leased: "job_history J shard s \<Longrightarrow> ji_append io = AppendDone \<Longrightarrow>
    runtime_lease J io worker kind now_ms lease_ms s = (r', s') \<Longrightarrow> job_history J shard s'"
| jobs_heartbeat: "job_history J shard s \<Longrightarrow> ji_append io = AppendDone \<Longrightarrow>
    runtime_heartbeat J io job_id token now_ms lease_ms s = (r, s') \<Longrightarrow> job_history J shard s'"
| jobs_completed: "job_history J shard s \<Longrightarrow> ji_append io = AppendDone \<Longrightarrow>
    runtime_complete J io job_id token s = (r, s') \<Longrightarrow> job_history J shard s'"
| jobs_failed: "job_history J shard s \<Longrightarrow> ji_append io = AppendDone \<Longrightarrow>
    runtime_fail J io job_id token_opt err permanent now_ms s = (r, s') \<Longrightarrow> job_history J shard s'"

lemma open_inv:
  assumes "job_codec_ok J" and "genuine evs c" and "files_ok J evs files" and "runtime_open J outcome shard files = (Inr rt, files')"
  shows "job_inv J (rt, files')"
proof -
  obtain y where y: "rbind (checkpoint_catalog J files) (replay_events J files) = Inr y" "job_keyed y" "same_jobs c y"
    using files_replay [OF assms(1,3,2)] by blast
  let ?rt = "\<lparr>jr_catalog = y, jr_shard = shard\<rparr>" and ?io = "\<lparr>ji_append = AppendDone, ji_replace = outcome\<rparr>"
  have inv: "job_inv J (?rt, files)" using assms(2,3) y by (auto intro: job_invI)
  obtain r s' where chk: "persist_checkpoint J ?io (?rt, files) = (r, s')" by (rule prod.exhaust)
  then have "job_inv J s'" by (rule persist_checkpoint_inv [OF assms(1) inv])
  moreover from chk have "fst s' = ?rt" by (auto simp: persist_checkpoint_def Let_def split: replace_outcome.splits)
  ultimately show ?thesis using assms(4) y(1) chk
    by (auto simp: runtime_open_def Let_def split: sum.splits prod.splits)
qed

lemma history_inv: "job_history J shard s \<Longrightarrow> job_codec_ok J \<Longrightarrow> job_inv J s"
proof (induction rule: job_history.induct)
  case (jobs_started outcome rt files)
  have "files_ok J [] no_job_files"
    by (auto simp: files_ok_def events_ok_def checkpoint_ok_def no_job_files_def checkpoint_catalog_def job_keyed_def
        intro: genuine_empty)
  then show ?case using open_inv [OF _ genuine_empty] jobs_started by blast
next
  case (jobs_restarted rt files outcome rt' files')
  then obtain evs c where "genuine evs c" "files_ok J evs files" by (auto simp: job_inv_def)
  then show ?case using open_inv jobs_restarted by blast
qed (blast intro: enqueue_inv lease_inv guarded_inv)+


section \<open>A run\<close>

text \<open>The attempt counter of a job that failed once grows with every opening, until the job is dead.\<close>

definition demo_job_log :: "job_event list" where
  "demo_job_log =
     [EvEnqueued (job_new CompactSegment ''docs'' ''k1''),
      EvLeased ''job:compact_segment:k1'' ''w1'' ''lease:job:compact_segment:k1:1'' 15,
      EvFailed ''job:compact_segment:k1'' (Some ''lease:job:compact_segment:k1:1'') ''io'' False 40]"

definition job_states :: "string + job_catalog \<Rightarrow> (u32 \<times> job_status) list" where
  "job_states r = (case r of Inl e \<Rightarrow> [] | Inr c \<Rightarrow> map (\<lambda>e. (tj_attempts (snd e), tj_status (snd e))) c)"

definition replay_demo_log :: "job_catalog \<Rightarrow> string + job_catalog" where
  "replay_demo_log c = rfold apply_event c demo_job_log"

lemma restart_repeats_attempts:
  "job_states (replay_demo_log []) = [(1, FailedRetryable)]"
  "job_states (rbind (replay_demo_log []) replay_demo_log) = [(2, FailedRetryable)]"
  "job_states (rbind (rbind (replay_demo_log []) replay_demo_log) replay_demo_log) = [(3, DeadLettered)]"
  by code_simp+

instance job_kind :: countable
  by countable_datatype

instance job_status :: countable
  by countable_datatype

instance trace_job_ext :: (countable) countable
proof (rule countable_classI)
  fix j j' :: "'a trace_job_ext"
  assume "to_nat ((tj_job_id j, tj_kind j, tj_target j, tj_idempotency_key j, tj_lease_owner j, tj_attempts j, tj_max_attempts j),
      (tj_status j, tj_last_error j, tj_lease_token j, tj_lease_expires_at_ms j, tj_next_attempt_after_ms j, tj_artifact_path j,
       tj_artifact_checksum j, trace_job.more j)) =
    to_nat ((tj_job_id j', tj_kind j', tj_target j', tj_idempotency_key j', tj_lease_owner j', tj_attempts j', tj_max_attempts j'),
      (tj_status j', tj_last_error j', tj_lease_token j', tj_lease_expires_at_ms j', tj_next_attempt_after_ms j', tj_artifact_path j',
       tj_artifact_checksum j', trace_job.more j'))"
  then show "j = j'" by simp
qed

instance job_event :: countable
  by countable_datatype

text \<open>A concrete codec: an event is a line of as many letters as its number.\<close>

definition demo_jobs :: job_prims where
  "demo_jobs =
     \<lparr>jp_event_text = \<lambda>ev. replicate (Suc (to_nat ev)) CHR ''a'', jp_event_parse = \<lambda>l. Inr (from_nat (length l - 1)),
      jp_checkpoint_text = \<lambda>v shard c. replicate (to_nat c) CHR ''a'', jp_checkpoint_parse = \<lambda>bs. Inr (from_nat (length bs))\<rparr>"

lemma utf8_valid_letters: "utf8_valid (replicate n CHR ''a'')"
  by (induction n) (simp_all add: less_char_def)

lemma name_char_a: "name_char CHR ''a''"
  by code_simp

lemma letters_line:
  "strip_cr (replicate (Suc n) CHR ''a'') = replicate (Suc n) CHR ''a''" "trim (replicate (Suc n) CHR ''a'') \<noteq> []"
proof -
  show "strip_cr (replicate (Suc n) CHR ''a'') = replicate (Suc n) CHR ''a''"
    unfolding strip_cr_def by (simp only: last_replicate) simp
  have "list_all name_char (replicate (Suc n) CHR ''a'')"
    by (simp add: list_all_iff name_char_a)
  then show "trim (replicate (Suc n) CHR ''a'') \<noteq> []" by (simp add: trim_name_id)
qed

lemma demo_jobs_codec: "job_codec_ok demo_jobs"
  by (auto simp: job_codec_ok_def demo_jobs_def utf8_valid_letters letters_line simp del: replicate_Suc)

definition demo_io :: job_io where
  "demo_io = \<lparr>ji_append = AppendDone, ji_replace = ReplaceFails ''disk full''\<rparr>"

definition demo_opened :: job_state where
  "demo_opened = (case runtime_open demo_jobs ReplaceDone default_shard_key no_job_files of (r, files) \<Rightarrow>
     (projr r, files))"

definition demo_enqueued :: job_state where
  "demo_enqueued = snd (runtime_enqueue demo_jobs demo_io CompactSegment ''docs'' ''k1'' demo_opened)"

definition demo_leased :: job_state where
  "demo_leased = snd (runtime_lease demo_jobs demo_io ''w1'' CompactSegment 5 10 demo_enqueued)"

definition demo_completed :: job_state where
  "demo_completed =
     snd (runtime_complete demo_jobs demo_io ''job:compact_segment:k1'' ''lease:job:compact_segment:k1:1'' demo_leased)"

lemma demo_job_history: "job_history demo_jobs default_shard_key (fst demo_completed, snd demo_completed)"
proof -
  have "runtime_open demo_jobs ReplaceDone default_shard_key no_job_files = (Inr (fst demo_opened), snd demo_opened)"
    by (simp add: demo_opened_def runtime_open_def no_job_files_def checkpoint_catalog_def replay_events_def persist_checkpoint_def Let_def)
  then have opened: "job_history demo_jobs default_shard_key demo_opened" by (metis jobs_started prod.collapse)
  have io: "ji_append demo_io = AppendDone" by (simp add: demo_io_def)
  have "job_history demo_jobs default_shard_key demo_enqueued"
    unfolding demo_enqueued_def by (rule jobs_enqueued [OF opened io prod.collapse [symmetric]])
  then have "job_history demo_jobs default_shard_key demo_leased"
    unfolding demo_leased_def by (rule jobs_leased [OF _ io prod.collapse [symmetric]])
  then show ?thesis
    unfolding prod.collapse demo_completed_def by (rule jobs_completed [OF _ io prod.collapse [symmetric]])
qed

lemma char_of_one: "(char_of (49::nat) :: char) = CHR ''1''"
  by code_simp

lemma demo_completed_job:
  "map_option tj_status (bm_get (jr_catalog (fst demo_completed)) ''k1'') = Some Succeeded"
  by (simp add: demo_completed_def demo_leased_def demo_enqueued_def demo_opened_def runtime_open_def no_job_files_def
      checkpoint_catalog_def replay_events_def persist_checkpoint_def persist_event_def persist_def jbind_def jreturn_def
      runtime_enqueue_def runtime_lease_def runtime_complete_def with_catalog_def demo_io_def job_eval bm_get_def char_of_one)


end
