(* ===== verification/Server_Limits.thy ===== *)
theory Server_Limits
  imports Server_Jobs
begin

text \<open>
  Boundary behaviour of the server's text handling: shard directories cannot leave the directory of the
  server but are not always distinct, a command text that is not ASCII can stop the thread of its request,
  header lookups also see lines of the body, and the end of the headers depends on how the bytes of a
  request arrive.
\<close>

section \<open>Shard directories\<close>

definition path_safe :: "string \<Rightarrow> bool" where
  "path_safe component \<longleftrightarrow> component \<noteq> [] \<and> component \<noteq> ''.'' \<and> component \<noteq> ''..'' \<and> CHR ''/'' \<notin> set component"

lemma hex_digit_no_slash: "n < 16 \<Longrightarrow> hex_digit n \<noteq> CHR ''/''"
proof -
  have "list_all (\<lambda>n. hex_digit n \<noteq> CHR ''/'') [0..<16]" by code_simp
  then show "n < 16 \<Longrightarrow> hex_digit n \<noteq> CHR ''/''" by (simp add: list_all_iff)
qed

lemma hex_byte_no_slash: "CHR ''/'' \<notin> set (hex_byte b)"
proof -
  have "byte_val b < 16 * 16" by simp
  then have "byte_val b div 16 < 16" by (simp only: less_mult_imp_div_less)
  moreover have "byte_val b mod 16 < 16" by simp
  ultimately show ?thesis
    using hex_digit_no_slash [of "byte_val b div 16"] hex_digit_no_slash [of "byte_val b mod 16"] by (auto simp: hex_byte_def)
qed

lemma safe_shard_byte_no_slash: "CHR ''/'' \<notin> set (safe_shard_byte b)"
proof -
  have "\<not> is_ascii_alphanumeric CHR ''/''" by code_simp
  then show ?thesis using hex_byte_no_slash by (auto simp: safe_shard_byte_def)
qed

lemma only_dots: "set (concat (map safe_shard_byte val)) \<subseteq> {CHR ''.''} \<Longrightarrow> concat (map safe_shard_byte val) = val"
  by (induction val) (auto simp: safe_shard_byte_def split: if_splits)

text \<open>Whatever a request names as its database and branch, its shard is a directory below \<open>shards\<close>.\<close>

lemma shard_component_path_safe: "path_safe (safe_shard_component val)"
proof (cases "val = ''.'' \<or> val = ''..''")
  case True
  then show ?thesis by (auto simp: safe_shard_component_def path_safe_def)
next
  case False
  let ?out = "concat (map safe_shard_byte val)"
  have "?out \<noteq> dots" if "set dots \<subseteq> {CHR ''.''}" "val \<noteq> dots" for dots using only_dots [of val] that by metis
  then have "?out \<noteq> ''.'' \<and> ?out \<noteq> ''..''" using False by simp
  moreover have "CHR ''/'' \<notin> set ?out" using safe_shard_byte_no_slash by auto
  moreover have "safe_shard_component val = (if ?out = [] then ''_empty'' else ?out)"
    using False by (simp add: safe_shard_component_def Let_def)
  ultimately show ?thesis by (simp add: path_safe_def)
qed

text \<open>Two databases can share a directory: an escaped character and its escape read the same.\<close>

lemma shard_component_collision: "safe_shard_component ''a/b'' = safe_shard_component ''a_2fb''"
  by code_simp

section \<open>Requests as text\<close>

lemma non_ascii_query_panics: "split_traceql_command [CHR 0xC3, CHR 0xA9, CHR 0xC3, CHR 0xA9, CHR 0xC3, CHR 0xA9] = None"
  by code_simp

lemma header_from_body:
  "header_value (''POST /v1/query HTTP/1.1'' @ [CR, LF, CR, LF] @ ''x-tracedb-scopes: admin'') ''x-tracedb-scopes'' = Some ''admin''"
  by code_simp

lemma body_cut_at_blank_line:
  "request_body (''POST /v1/query HTTP/1.1'' @ [CR, LF, CR, LF] @ ''{'' @ [CR, LF, CR, LF] @ ''}'') = ''{''"
  by code_simp

text \<open>A body that ends the headers earlier than they end, when it arrives in the same read.\<close>

definition demo_head :: bytes where
  "demo_head = ''POST / HTTP/1.1'' @ [LF] @ ''content-length: 4'' @ [LF, LF]"

lemma header_end_depends_on_reads:
  "find_header_end demo_head = Some (33, 2)"
  "find_header_end (demo_head @ [CR, LF, CR, LF]) = Some (35, 4)"
  by code_simp+

end
