(* ===== verification/Spec2Isabelle.thy ===== *)
theory Spec2Isabelle
  imports Engine_Runs Hybrid_Demo Traceql_Print Services Keeper Remote_Storage Backup_Props Server_Demo Server_Job_Props
    Server_Limits
begin

text \<open>
  TraceDB: verification of the storage engine.
\<close>

end
